(* ===== verification/Flotta_Prelude.thy ===== *)
theory Flotta_Prelude
  imports Main "HOL-Library.AList" "HOL-Library.State_Monad" "HOL-Library.Multiset"
begin

text \<open>
  What the components share: Go's \<open>error\<close> values, the state monad in which code that talks to
  the cluster is written (with its weakest-precondition rules, collection \<open>wp_rules\<close>), and Go
  maps as association lists (collection \<open>gomap\<close>).

  \<^item> An \<open>error\<close> result is a \<^typ>\<open>'a option\<close> of \<open>goerr\<close> (\<open>None\<close> is \<open>nil\<close>); a pair
    \<open>(T, error)\<close> is the sum \<open>goerr + T\<close>.
  \<^item> A function that performs calls against the API server, the clock or the event recorder is
    a value of \<open>('w, 'a) state\<close> from \<open>HOL-Library.State_Monad\<close>; \<open>'w\<close> is the world outside
    the operator and is never inspected by the model.
  \<^item> A Go map with string keys is an association list (\<open>gomap\<close>). Its list order carries no
    meaning: where the program's result depends on the order of \<open>range\<close>, the order is asked
    from the environment.
\<close>

named_theorems wp_rules \<open>weakest precondition equations of the state monad\<close>
named_theorems gomap \<open>lookup equations of Go maps\<close>

section \<open>Errors\<close>

datatype api_reason =
    StatusReasonNotFound
  | StatusReasonAlreadyExists
  | StatusReasonConflict
  | StatusReasonOther string

text \<open>
  \<open>ApiStatus\<close> is an error that carries a Kubernetes status (\<open>errors.As(err, &status)\<close>
  succeeds on it), \<open>Errorf\<close> any other error with its text (\<open>fmt.Errorf\<close>, \<open>errors.New\<close>).
\<close>

datatype goerr =
    ApiStatus api_reason string
  | Errorf string

fun ErrorText :: "goerr \<Rightarrow> string" where
  "ErrorText (ApiStatus _ msg) = msg"
| "ErrorText (Errorf msg) = msg"

fun IsNotFound :: "goerr \<Rightarrow> bool" where
  "IsNotFound (ApiStatus r _) = (r = StatusReasonNotFound)"
| "IsNotFound (Errorf _) = False"

type_synonym 'a result = "goerr + 'a"

definition err_of :: "'a result \<Rightarrow> goerr option" where
  "err_of r = (case r of Inl e \<Rightarrow> Some e | Inr _ \<Rightarrow> None)"

lemma err_of_simps [simp]:
  "err_of (Inl e) = Some e" "err_of (Inr x) = None"
  by (simp_all add: err_of_def)

lemma err_of_None [simp]: "err_of r = None \<longleftrightarrow> (\<exists>x. r = Inr x)"
  by (cases r) auto

text \<open>A call that may panic (a nil pointer dereferenced, an index out of range).\<close>

datatype 'a outcome = Panic string | Done 'a

definition nil_dereference :: "'a outcome" where
  "nil_dereference = Panic ''invalid memory address or nil pointer dereference''"

lemma nil_dereference_neq [simp]: "nil_dereference \<noteq> Done x" "Done x \<noteq> nil_dereference"
  by (simp_all add: nil_dereference_def)

text \<open>The elements of a slice or of a map that may be nil.\<close>

definition opt_list :: "'a list option \<Rightarrow> 'a list" where
  "opt_list m = (case m of None \<Rightarrow> [] | Some xs \<Rightarrow> xs)"

section \<open>The state monad\<close>

type_synonym ('w, 'a) io = "('w, 'a) state"

abbreviation ret :: "'a \<Rightarrow> ('w, 'a) io" where
  "ret \<equiv> State_Monad.return"

text \<open>\<open>wp m Q w\<close>: running \<open>m\<close> from the world \<open>w\<close> ends in a result and a world that satisfy \<open>Q\<close>.\<close>

definition wp :: "('w, 'a) io \<Rightarrow> ('a \<Rightarrow> 'w \<Rightarrow> bool) \<Rightarrow> 'w \<Rightarrow> bool" where
  "wp m Q w \<longleftrightarrow> (case run_state m w of (r, w') \<Rightarrow> Q r w')"

lemma wp_ret [wp_rules, simp]: "wp (ret x) Q w \<longleftrightarrow> Q x w"
  by (simp add: wp_def)

lemma wp_bind [wp_rules, simp]:
  "wp (State_Monad.bind m f) Q w \<longleftrightarrow> wp m (\<lambda>r w'. wp (f r) Q w') w"
  by (simp add: wp_def split: prod.splits)

lemma wp_run: "wp m Q w \<longleftrightarrow> Q (fst (run_state m w)) (snd (run_state m w))"
  by (simp add: wp_def split: prod.splits)

lemma wp_conseq: "wp m Q w \<Longrightarrow> (\<And>r w'. Q r w' \<Longrightarrow> R r w') \<Longrightarrow> wp m R w"
  by (simp add: wp_def split: prod.splits)

lemma wp_conj: "wp m (\<lambda>r w'. Q r w' \<and> R r w') w \<longleftrightarrow> wp m Q w \<and> wp m R w"
  by (simp add: wp_def split: prod.splits)

lemma wp_all: "wp m (\<lambda>r w'. \<forall>x. Q x r w') w \<longleftrightarrow> (\<forall>x. wp m (Q x) w)"
  by (simp add: wp_def split: prod.splits)

lemma wp_const [simp]: "wp m (\<lambda>_ _. P) w \<longleftrightarrow> P"
  by (simp add: wp_def split: prod.splits)

lemma wp_elim: "wp m Q w \<Longrightarrow> run_state m w = (r, w') \<Longrightarrow> Q r w'"
  by (simp add: wp_def)

lemma wp_intro: "(\<And>r w'. run_state m w = (r, w') \<Longrightarrow> Q r w') \<Longrightarrow> wp m Q w"
  by (simp add: wp_def split: prod.splits)

lemma wp_if [wp_rules]: "wp (if b then m else n) Q w \<longleftrightarrow> (if b then wp m Q w else wp n Q w)"
  by simp

lemma wp_sum [wp_rules]:
  "wp (case r of Inl e \<Rightarrow> f e | Inr x \<Rightarrow> g x) Q w \<longleftrightarrow>
     (case r of Inl e \<Rightarrow> wp (f e) Q w | Inr x \<Rightarrow> wp (g x) Q w)"
  by (cases r) simp_all

lemma wp_option [wp_rules]:
  "wp (case r of None \<Rightarrow> m | Some x \<Rightarrow> g x) Q w \<longleftrightarrow>
     (case r of None \<Rightarrow> wp m Q w | Some x \<Rightarrow> wp (g x) Q w)"
  by (cases r) simp_all

lemma wp_prod [wp_rules]:
  "wp (case p of (a, b) \<Rightarrow> f a b) Q w \<longleftrightarrow> (case p of (a, b) \<Rightarrow> wp (f a b) Q w)"
  by (cases p) simp

lemma wp_outcome [wp_rules]:
  "wp (case r of Panic p \<Rightarrow> f p | Done x \<Rightarrow> g x) Q w \<longleftrightarrow>
     (case r of Panic p \<Rightarrow> wp (f p) Q w | Done x \<Rightarrow> wp (g x) Q w)"
  by (cases r) simp_all

text \<open>
  An operation that leaves a view of the world unchanged, whatever it returns: the frame rule of
  the model. Frames compose along the monad.
\<close>

definition keeps :: "('w \<Rightarrow> 'v) \<Rightarrow> ('w, 'a) io \<Rightarrow> bool" where
  "keeps v m \<longleftrightarrow> (\<forall>w. v (snd (run_state m w)) = v w)"

lemma keeps_run: "keeps v m \<Longrightarrow> run_state m w = (r, w') \<Longrightarrow> v w' = v w"
  by (metis keeps_def snd_conv)

lemma keepsI: "(\<And>w r w'. run_state m w = (r, w') \<Longrightarrow> v w' = v w) \<Longrightarrow> keeps v m"
  by (metis keeps_def prod.collapse)

lemma keeps_ret [intro!, simp]: "keeps v (ret x)"
  by (simp add: keeps_def)

lemma keeps_bind [intro]:
  "keeps v m \<Longrightarrow> (\<And>r. keeps v (f r)) \<Longrightarrow> keeps v (State_Monad.bind m f)"
  by (simp add: keeps_def split: prod.splits) (metis snd_conv)

lemma keeps_if [intro]: "(b \<Longrightarrow> keeps v m) \<Longrightarrow> (\<not> b \<Longrightarrow> keeps v n) \<Longrightarrow> keeps v (if b then m else n)"
  by simp

lemma keeps_sum [intro]:
  "(\<And>e. keeps v (f e)) \<Longrightarrow> (\<And>x. keeps v (g x)) \<Longrightarrow> keeps v (case r of Inl e \<Rightarrow> f e | Inr x \<Rightarrow> g x)"
  by (cases r) simp_all

lemma keeps_option [intro]:
  "keeps v m \<Longrightarrow> (\<And>x. keeps v (g x)) \<Longrightarrow> keeps v (case r of None \<Rightarrow> m | Some x \<Rightarrow> g x)"
  by (cases r) simp_all

lemma keeps_prod [intro]:
  "(\<And>a b. keeps v (f a b)) \<Longrightarrow> keeps v (case p of (a, b) \<Rightarrow> f a b)"
  by (cases p) simp

lemma keeps_outcome [intro]:
  "(\<And>p. keeps v (f p)) \<Longrightarrow> (\<And>x. keeps v (g x)) \<Longrightarrow> keeps v (case r of Panic p \<Rightarrow> f p | Done x \<Rightarrow> g x)"
  by (cases r) simp_all

text \<open>\<open>x, err := m(); if err != nil { return nil, err }\<close> and \<open>v, exists := m[k]; if !exists { return nil, e }\<close>.\<close>

definition try_io :: "('w, 'a result) io \<Rightarrow> ('a \<Rightarrow> ('w, 'b result) io) \<Rightarrow> ('w, 'b result) io" where
  "try_io m f = do { r \<leftarrow> m; case r of Inl err \<Rightarrow> ret (Inl err) | Inr x \<Rightarrow> f x }"

definition require :: "'a option \<Rightarrow> goerr \<Rightarrow> ('a \<Rightarrow> ('w, 'b result) io) \<Rightarrow> ('w, 'b result) io" where
  "require r err f = (case r of None \<Rightarrow> ret (Inl err) | Some x \<Rightarrow> f x)"

lemma wp_try [wp_rules, simp]:
  "wp (try_io m f) Q w \<longleftrightarrow> wp m (\<lambda>r w'. case r of Inl e \<Rightarrow> Q (Inl e) w' | Inr x \<Rightarrow> wp (f x) Q w') w"
  by (simp add: try_io_def wp_def split: prod.splits sum.splits)

lemma wp_require [wp_rules, simp]:
  "wp (require r err f) Q w \<longleftrightarrow> (case r of None \<Rightarrow> Q (Inl err) w | Some x \<Rightarrow> wp (f x) Q w)"
  by (cases r) (simp_all add: require_def)

lemma run_try [simp]:
  "run_state m w = (Inl e, w') \<Longrightarrow> run_state (try_io m f) w = (Inl e, w')"
  "run_state m w = (Inr x, w') \<Longrightarrow> run_state (try_io m f) w = run_state (f x) w'"
  by (simp_all add: try_io_def)

lemma require_simps [simp]: "require None err f = ret (Inl err)" "require (Some x) err f = f x"
  by (simp_all add: require_def)

lemma keeps_try [intro]: "keeps v m \<Longrightarrow> (\<And>x. keeps v (f x)) \<Longrightarrow> keeps v (try_io m f)"
  unfolding try_io_def by (intro keeps_bind keeps_sum keeps_ret)

lemma keeps_require [intro]: "(\<And>x. keeps v (f x)) \<Longrightarrow> keeps v (require r err f)"
  unfolding require_def by (intro keeps_option keeps_ret)

lemma keeps_wp: "keeps v m \<Longrightarrow> wp m (\<lambda>_ w'. v w' = v w) w"
  by (simp add: wp_run keeps_def)

section \<open>Go maps\<close>

type_synonym 'v gomap = "(string \<times> 'v) list"

abbreviation gm_get :: "'v gomap \<Rightarrow> string \<Rightarrow> 'v option" where
  "gm_get \<equiv> map_of"

abbreviation gm_set :: "string \<Rightarrow> 'v \<Rightarrow> 'v gomap \<Rightarrow> 'v gomap" where
  "gm_set \<equiv> AList.update"

abbreviation gm_del :: "string \<Rightarrow> 'v gomap \<Rightarrow> 'v gomap" where
  "gm_del \<equiv> AList.delete"

abbreviation gm_keys :: "'v gomap \<Rightarrow> string list" where
  "gm_keys m \<equiv> map fst m"

definition gm_wf :: "'v gomap \<Rightarrow> bool" where
  "gm_wf m \<longleftrightarrow> distinct (gm_keys m)"

definition gm_mem :: "string \<Rightarrow> 'v gomap \<Rightarrow> bool" where
  "gm_mem k m \<longleftrightarrow> gm_get m k \<noteq> None"

lemma gm_get_set [gomap, simp]: "gm_get (gm_set k v m) k' = (if k' = k then Some v else gm_get m k')"
  by (simp add: update_conv')

lemma gm_get_del [gomap, simp]: "gm_get (gm_del k m) k' = (if k' = k then None else gm_get m k')"
  by (simp add: delete_conv')

lemma gm_wf_set [gomap, intro]: "gm_wf m \<Longrightarrow> gm_wf (gm_set k v m)"
  by (simp add: gm_wf_def distinct_update)

lemma gm_wf_del [gomap, intro]: "gm_wf m \<Longrightarrow> gm_wf (gm_del k m)"
  by (simp add: gm_wf_def distinct_delete)

lemma gm_wf_Nil [simp]: "gm_wf []"
  by (simp add: gm_wf_def)

lemma gm_mem_keys: "gm_mem k m \<longleftrightarrow> k \<in> set (gm_keys m)"
  by (auto simp: gm_mem_def map_of_eq_None_iff)

lemma gm_get_keys: "gm_get m k = Some v \<Longrightarrow> k \<in> set (gm_keys m)"
  by (auto dest: map_of_SomeD intro: rev_image_eqI)

text \<open>\<open>reflect.DeepEqual\<close> on two non-nil maps: the same keys with the same values.\<close>

definition gm_eq :: "'v gomap \<Rightarrow> 'v gomap \<Rightarrow> bool" where
  "gm_eq a b \<longleftrightarrow> list_all (\<lambda>k. gm_get a k = gm_get b k) (gm_keys a @ gm_keys b)"

lemma gm_eq_iff: "gm_eq a b \<longleftrightarrow> gm_get a = gm_get b"
proof
  assume eq: "gm_eq a b"
  have "gm_get a k = gm_get b k" for k
  proof (cases "k \<in> set (gm_keys a) \<union> set (gm_keys b)")
    case True
    with eq show ?thesis by (auto simp: gm_eq_def list_all_iff)
  next
    case False
    then show ?thesis by (metis UnI1 UnI2 gm_mem_def gm_mem_keys)
  qed
  then show "gm_get a = gm_get b" by (rule ext)
qed (simp add: gm_eq_def list_all_iff)

text \<open>Storing a list of entries one by one, as a \<open>for key, value := range\<close> loop does.\<close>

fun gm_put_all :: "'v gomap \<Rightarrow> 'v gomap \<Rightarrow> 'v gomap" where
  "gm_put_all m [] = m"
| "gm_put_all m ((k, v) # kvs) = gm_put_all (gm_set k v m) kvs"

lemma gm_get_put_all_notin: "k \<notin> set (gm_keys kvs) \<Longrightarrow> gm_get (gm_put_all m kvs) k = gm_get m k"
  by (induction m kvs rule: gm_put_all.induct) auto

lemma gm_get_put_all [gomap]:
  "gm_wf kvs \<Longrightarrow> gm_get (gm_put_all m kvs) k =
     (case gm_get kvs k of Some v \<Rightarrow> Some v | None \<Rightarrow> gm_get m k)"
proof (induction m kvs rule: gm_put_all.induct)
  case (1 m)
  then show ?case by simp
next
  case (2 m k' v kvs)
  then have wf: "gm_wf kvs" and notin: "k' \<notin> set (gm_keys kvs)" by (auto simp: gm_wf_def)
  show ?case
  proof (cases "k = k'")
    case True
    with notin show ?thesis by (simp add: gm_get_put_all_notin)
  next
    case False
    with "2.IH" [OF wf] show ?thesis by (cases "gm_get kvs k") simp_all
  qed
qed

lemma gm_wf_put_all [gomap, intro]: "gm_wf m \<Longrightarrow> gm_wf (gm_put_all m kvs)"
  by (induction m kvs rule: gm_put_all.induct) (auto intro: gomap)

section \<open>Lists and strings\<close>

lemma hd_filter: "xs \<noteq> [] \<Longrightarrow> P (hd xs) \<Longrightarrow> hd (filter P xs) = hd xs"
  by (cases xs) simp_all

lemma last_filter: "xs \<noteq> [] \<Longrightarrow> P (last xs) \<Longrightarrow> last (filter P xs) = last xs"
  by (induction xs rule: rev_induct) simp_all

lemma in_set_map_filter: "y \<in> set (List.map_filter f xs) \<longleftrightarrow> (\<exists>x\<in>set xs. f x = Some y)"
  by (force simp: List.map_filter_def image_iff)

text \<open>\<open>strings.Join\<close>, \<open>strings.HasPrefix\<close> and \<open>strings.Split\<close> with a one-character separator.\<close>

fun strings_Join :: "string list \<Rightarrow> string \<Rightarrow> string" where
  "strings_Join [] sep = []"
| "strings_Join [s] sep = s"
| "strings_Join (s # t # ts) sep = s @ sep @ strings_Join (t # ts) sep"

definition HasPrefix :: "string \<Rightarrow> string \<Rightarrow> bool" where
  "HasPrefix s p \<longleftrightarrow> take (length p) s = p"

lemma HasPrefix_iff: "HasPrefix s p \<longleftrightarrow> (\<exists>t. s = p @ t)"
  by (auto simp: HasPrefix_def) (metis append_take_drop_id)

lemma HasPrefix_append [simp]: "HasPrefix (p @ t) p"
  by (simp add: HasPrefix_def)

fun split_on :: "char \<Rightarrow> string \<Rightarrow> string list" where
  "split_on c [] = [[]]"
| "split_on c (x # xs) =
     (if x = c then [] # split_on c xs
      else (case split_on c xs of [] \<Rightarrow> [[x]] | p # ps \<Rightarrow> (x # p) # ps))"

lemma split_on_nonempty [simp]: "split_on c xs \<noteq> []"
  by (induction xs) (auto split: list.splits)

lemma length_split_on: "length (split_on c xs) = Suc (count_list xs c)"
  by (induction xs) (auto split: list.splits)

lemma split_on_single: "c \<notin> set xs \<Longrightarrow> split_on c xs = [xs]"
  by (induction xs) (auto split: list.splits)

lemma split_on_append: "c \<notin> set xs \<Longrightarrow> split_on c (xs @ c # ys) = xs # split_on c ys"
  by (induction xs) (auto split: list.splits)

lemma last_split_on: "c \<notin> set ys \<Longrightarrow> last (split_on c (xs @ c # ys)) = ys"
proof (induction xs)
  case Nil
  then show ?case by (simp add: split_on_single)
next
  case (Cons x xs)
  moreover have "length (split_on c (xs @ c # ys)) \<ge> 2"
    by (simp add: length_split_on)
  ultimately show ?case by (cases "split_on c (xs @ c # ys)") auto
qed

end
