(* ===== verification/Go_Strings.thy ===== *)
theory Go_Strings
  imports Flotta_Prelude "HOL-Library.Char_ord" "HOL-Library.List_Lexorder"
begin

text \<open>
  The parts of Go's standard library the operator's own code computes with. A Go string is a
  sequence of bytes, here a \<^typ>\<open>string\<close> whose characters are the bytes. Modelled: UTF-8
  decoding and encoding (\<open>unicode/utf8\<close>), \<open>strings.ToLower\<close>, \<open>strings.IndexFunc\<close> and
  \<open>strings.LastIndexFunc\<close>, \<open>base64.StdEncoding.EncodeToString\<close>, \<open>strconv.ParseUint\<close> in base 10
  and \<open>json.Marshal\<close> of a \<open>map[string]string\<close>. Unicode's case tables beyond ASCII are the
  record \<open>unicode\<close>, a parameter of what uses them.
\<close>

section \<open>UTF-8\<close>

type_synonym rune = nat

abbreviation byte :: "char \<Rightarrow> nat" where "byte \<equiv> of_char"

definition RuneError :: rune where "RuneError = 65533"

definition in_range :: "nat \<Rightarrow> nat \<Rightarrow> nat \<Rightarrow> bool" where
  "in_range lo hi b \<longleftrightarrow> lo \<le> b \<and> b \<le> hi"

definition cont_byte :: "nat \<Rightarrow> bool" where "cont_byte = in_range 128 191"

text \<open>\<open>utf8.DecodeRuneInString\<close>: the first rune and its width; an invalid byte is \<open>RuneError\<close>
  with width 1.\<close>

fun decode_rune :: "nat list \<Rightarrow> rune \<times> nat" where
  "decode_rune [] = (RuneError, 0)"
| "decode_rune (b0 # bs) =
     (if b0 < 128 then (b0, 1)
      else if in_range 194 223 b0 then
        (case bs of b1 # _ \<Rightarrow>
           if cont_byte b1 then ((b0 - 192) * 64 + (b1 - 128), 2) else (RuneError, 1)
         | [] \<Rightarrow> (RuneError, 1))
      else if in_range 224 239 b0 then
        (case bs of b1 # b2 # _ \<Rightarrow>
           if in_range (if b0 = 224 then 160 else 128) (if b0 = 237 then 159 else 191) b1
              \<and> cont_byte b2
           then ((b0 - 224) * 4096 + (b1 - 128) * 64 + (b2 - 128), 3) else (RuneError, 1)
         | _ \<Rightarrow> (RuneError, 1))
      else if in_range 240 244 b0 then
        (case bs of b1 # b2 # b3 # _ \<Rightarrow>
           if in_range (if b0 = 240 then 144 else 128) (if b0 = 244 then 143 else 191) b1
              \<and> cont_byte b2 \<and> cont_byte b3
           then ((b0 - 240) * 262144 + (b1 - 128) * 4096 + (b2 - 128) * 64 + (b3 - 128), 4)
           else (RuneError, 1)
         | _ \<Rightarrow> (RuneError, 1))
      else (RuneError, 1))"

definition encode_rune :: "rune \<Rightarrow> string" where
  "encode_rune r =
     map char_of
       (if r < 128 then [r]
        else if r < 2048 then [192 + r div 64, 128 + r mod 64]
        else if r > 1114111 \<or> in_range 55296 57343 r then [239, 191, 189]
        else if r < 65536 then [224 + r div 4096, 128 + r div 64 mod 64, 128 + r mod 64]
        else [240 + r div 262144, 128 + r div 4096 mod 64, 128 + r div 64 mod 64, 128 + r mod 64])"

text \<open>\<open>for i, c := range s\<close>: every rune with the byte offset it starts at.\<close>

function runes_from :: "nat \<Rightarrow> string \<Rightarrow> (nat \<times> rune) list" where
  "runes_from i [] = []"
| "runes_from i (c # cs) =
     (let (r, n) = decode_rune (map byte (c # cs))
      in (i, r) # runes_from (i + max 1 n) (drop (max 1 n) (c # cs)))"
  by pat_completeness auto
termination
  by (relation "measure (\<lambda>(i, s). length s)") (auto simp: max_def)

abbreviation runes :: "string \<Rightarrow> (nat \<times> rune) list" where "runes \<equiv> runes_from 0"

definition ascii :: "string \<Rightarrow> bool" where
  "ascii s \<longleftrightarrow> list_all (\<lambda>c. byte c < 128) s"

lemma runes_from_ascii: "ascii s \<Longrightarrow> runes_from i s = zip [i ..< i + length s] (map byte s)"
proof (induction s arbitrary: i)
  case Nil
  then show ?case by simp
next
  case (Cons c s)
  then have c: "byte c < 128" and s: "ascii s" by (simp_all add: ascii_def)
  have "runes_from i (c # s) = (i, byte c) # runes_from (Suc i) s"
    using c by (simp add: Let_def)
  also have "\<dots> = zip [i ..< i + length (c # s)] (map byte (c # s))"
    using Cons.IH [OF s, of "Suc i"] by (simp add: upt_conv_Cons del: upt_Suc)
  finally show ?case .
qed

section \<open>Case and searching\<close>

record unicode =
  uIsLower :: "rune \<Rightarrow> bool"
  uIsDigit :: "rune \<Rightarrow> bool"
  uToLower :: "rune \<Rightarrow> rune"

definition unicode_IsLower :: "unicode \<Rightarrow> rune \<Rightarrow> bool" where
  "unicode_IsLower U r = (if r < 128 then 97 \<le> r \<and> r \<le> 122 else uIsLower U r)"

definition unicode_IsDigit :: "unicode \<Rightarrow> rune \<Rightarrow> bool" where
  "unicode_IsDigit U r = (if r < 128 then 48 \<le> r \<and> r \<le> 57 else uIsDigit U r)"

definition unicode_ToLower :: "unicode \<Rightarrow> rune \<Rightarrow> rune" where
  "unicode_ToLower U r = (if r < 128 then (if 65 \<le> r \<and> r \<le> 90 then r + 32 else r) else uToLower U r)"

definition strings_ToLower :: "unicode \<Rightarrow> string \<Rightarrow> string" where
  "strings_ToLower U s = concat (map (\<lambda>(i, r). encode_rune (unicode_ToLower U r)) (runes s))"

definition ascii_lower :: "char \<Rightarrow> char" where
  "ascii_lower c = (if 65 \<le> byte c \<and> byte c \<le> (90 :: nat) then char_of (byte c + 32 :: nat) else c)"

lemma concat_singletons: "(\<And>x. x \<in> set xs \<Longrightarrow> f x = [g x]) \<Longrightarrow> concat (map f xs) = map g xs"
  by (induction xs) auto

lemma strings_ToLower_ascii: "ascii s \<Longrightarrow> strings_ToLower U s = map ascii_lower s"
proof -
  assume s: "ascii s"
  have one: "encode_rune (unicode_ToLower U (byte c)) = [ascii_lower c]" if "c \<in> set s" for c
  proof -
    have "byte c < (128 :: nat)" using s that by (auto simp: ascii_def list_all_iff)
    then show ?thesis by (simp add: encode_rune_def unicode_ToLower_def ascii_lower_def)
  qed
  have "strings_ToLower U s = concat (map (\<lambda>c. encode_rune (unicode_ToLower U (byte c))) s)"
    unfolding strings_ToLower_def runes_from_ascii [OF s]
    by (rule arg_cong [where f = concat], rule nth_equalityI) simp_all
  also have "\<dots> = map ascii_lower s" by (rule concat_singletons) (rule one)
  finally show ?thesis .
qed

lemma ascii_map_lower: "ascii s \<Longrightarrow> ascii (map ascii_lower s)"
  by (auto simp: ascii_def list_all_iff ascii_lower_def)

text \<open>\<open>strings.IndexFunc\<close> and \<open>strings.LastIndexFunc\<close>; \<open>None\<close> is the result \<open>-1\<close>. The second
  searches backwards; on a valid UTF-8 string, as \<open>strings.ToLower\<close> returns, the runes it meets
  are those of a forward scan.\<close>

definition IndexFunc :: "string \<Rightarrow> (rune \<Rightarrow> bool) \<Rightarrow> nat option" where
  "IndexFunc s f = map_option fst (find (\<lambda>(i, r). f r) (runes s))"

definition LastIndexFunc :: "string \<Rightarrow> (rune \<Rightarrow> bool) \<Rightarrow> nat option" where
  "LastIndexFunc s f = map_option fst (find (\<lambda>(i, r). f r) (rev (runes s)))"

lemma find_zip_upt:
  "find (\<lambda>(i, r). f r) (zip [k ..< k + length xs] xs) = Some (j, r) \<Longrightarrow>
     k \<le> j \<and> j < k + length xs \<and> xs ! (j - k) = r \<and> f r \<and> (\<forall>i<j - k. \<not> f (xs ! i))"
proof (induction xs arbitrary: k)
  case Nil
  then show ?case by simp
next
  case (Cons x xs)
  show ?case
  proof (cases "f x")
    case True
    with Cons.prems show ?thesis by (auto simp: upt_conv_Cons simp del: upt_Suc)
  next
    case False
    with Cons.prems have "find (\<lambda>(i, r). f r) (zip [Suc k ..< Suc k + length xs] xs) = Some (j, r)"
      by (simp add: upt_conv_Cons del: upt_Suc)
    from Cons.IH [OF this] have j: "Suc k \<le> j" "j < Suc k + length xs" "xs ! (j - Suc k) = r" "f r"
      and least: "\<forall>i<j - Suc k. \<not> f (xs ! i)" by auto
    have "j - k = Suc (j - Suc k)" using j by simp
    with j least False show ?thesis by (auto simp: nth_Cons split: nat.splits)
  qed
qed

lemma zip_snd_all:
  "(\<forall>a b. (a, b) \<in> set (zip [0 ..< length s] (map g s)) \<longrightarrow> \<not> f b) \<longleftrightarrow> (\<forall>c\<in>set s. \<not> f (g c))"
proof -
  have "(\<forall>a b. (a, b) \<in> set (zip [0 ..< length s] (map g s)) \<longrightarrow> \<not> f b) \<longleftrightarrow>
        (\<forall>r\<in>snd ` set (zip [0 ..< length s] (map g s)). \<not> f r)"
    by auto
  also have "snd ` set (zip [0 ..< length s] (map g s)) = g ` set s"
    by (metis length_map length_upt map_snd_zip minus_nat.diff_0 set_map)
  finally show ?thesis by simp
qed

lemma IndexFunc_ascii:
  assumes "ascii s" and "IndexFunc s f = Some i"
  shows "i < length s" and "f (byte (s ! i))" and "\<forall>j<i. \<not> f (byte (s ! j))"
proof -
  from assms obtain r where
    "find (\<lambda>(i, r). f r) (zip [0 ..< 0 + length (map byte s)] (map byte s)) = Some (i, r)"
    by (auto simp: IndexFunc_def runes_from_ascii)
  from find_zip_upt [OF this] show "i < length s" "f (byte (s ! i))" "\<forall>j<i. \<not> f (byte (s ! j))"
    by auto
qed

lemma IndexFunc_ascii_None: "ascii s \<Longrightarrow> IndexFunc s f = None \<longleftrightarrow> (\<forall>c\<in>set s. \<not> f (byte c))"
  by (simp add: IndexFunc_def runes_from_ascii find_None_iff zip_snd_all)

lemma LastIndexFunc_ascii:
  assumes "ascii s" and "LastIndexFunc s f = Some i"
  shows "i < length s" and "f (byte (s ! i))" and "\<forall>j. i < j \<and> j < length s \<longrightarrow> \<not> f (byte (s ! j))"
proof -
  let ?z = "zip [0 ..< length s] (map byte s)"
  from assms obtain r where "find (\<lambda>(i, r). f r) (rev ?z) = Some (i, r)"
    by (auto simp: LastIndexFunc_def runes_from_ascii)
  then obtain k where k: "k < length s" "rev ?z ! k = (i, r)" "f r"
    and least: "\<forall>j<k. \<not> (\<lambda>(i, r). f r) (rev ?z ! j)"
    by (auto simp: find_Some_iff)
  have nth: "rev ?z ! j = (length s - Suc j, byte (s ! (length s - Suc j)))" if "j < length s" for j
    using that by (simp add: rev_nth)
  from nth [OF k(1)] k have i: "i = length s - Suc k" "r = byte (s ! i)" by auto
  show "i < length s" "f (byte (s ! i))" using i k by auto
  show "\<forall>j. i < j \<and> j < length s \<longrightarrow> \<not> f (byte (s ! j))"
  proof (intro allI impI)
    fix j assume j: "i < j \<and> j < length s"
    let ?m = "length s - Suc j"
    from j have m: "?m < length s" "length s - Suc ?m = j" by auto
    from j i(1) have "length s - Suc k < j" by simp
    then have "?m < k" using j k(1) by (auto simp: less_diff_conv2)
    then have "\<not> (\<lambda>(i, r). f r) (rev ?z ! ?m)" by (rule least [rule_format])
    then show "\<not> f (byte (s ! j))" unfolding nth [OF m(1)] m(2) by simp
  qed
qed

lemma LastIndexFunc_ascii_None: "ascii s \<Longrightarrow> LastIndexFunc s f = None \<longleftrightarrow> (\<forall>c\<in>set s. \<not> f (byte c))"
  by (simp add: LastIndexFunc_def runes_from_ascii find_None_iff zip_snd_all)

section \<open>Numbers\<close>

definition is_digit :: "char \<Rightarrow> bool" where
  "is_digit c \<longleftrightarrow> in_range 48 57 (byte c)"

text \<open>\<open>strconv.ParseUint(s, 10, bits)\<close>: digits are read left to right; the first non-digit is a
  syntax error, the first prefix beyond the width a range error.\<close>

fun ParseUint_loop :: "nat \<Rightarrow> nat \<Rightarrow> string \<Rightarrow> nat result" where
  "ParseUint_loop bits n [] = Inr n"
| "ParseUint_loop bits n (c # cs) =
     (if \<not> is_digit c then Inl (Errorf ''strconv.ParseUint: invalid syntax'')
      else let m = n * 10 + (byte c - 48)
           in if m \<ge> 2 ^ bits then Inl (Errorf ''strconv.ParseUint: value out of range'')
              else ParseUint_loop bits m cs)"

definition ParseUint :: "string \<Rightarrow> nat \<Rightarrow> nat result" where
  "ParseUint s bits =
     (if s = [] then Inl (Errorf ''strconv.ParseUint: invalid syntax'') else ParseUint_loop bits 0 s)"

lemma ParseUint_loop_bound: "n < 2 ^ bits \<Longrightarrow> ParseUint_loop bits n s = Inr m \<Longrightarrow> m < 2 ^ bits"
  by (induction bits n s rule: ParseUint_loop.induct) (auto simp: Let_def split: if_splits)

lemma ParseUint_bound: "ParseUint s bits = Inr n \<Longrightarrow> n < 2 ^ bits"
  by (auto simp: ParseUint_def split: if_splits intro: ParseUint_loop_bound [of 0])

text \<open>The value is the decimal number the digits denote.\<close>

definition dec_val :: "nat \<Rightarrow> string \<Rightarrow> nat" where
  "dec_val = foldl (\<lambda>n c. n * 10 + (byte c - 48))"

lemma ParseUint_loop_value:
  "ParseUint_loop bits n s = Inr m \<Longrightarrow> m = dec_val n s \<and> list_all is_digit s"
  by (induction bits n s rule: ParseUint_loop.induct) (auto simp: dec_val_def Let_def split: if_splits)

lemma dec_val_mono: "n \<le> dec_val n s"
proof (induction s arbitrary: n)
  case Nil
  then show ?case by (simp add: dec_val_def)
next
  case (Cons c s)
  have "n \<le> n * 10 + (byte c - 48)" by simp
  also have "\<dots> \<le> dec_val (n * 10 + (byte c - 48)) s" by (rule Cons.IH)
  finally show ?case by (simp add: dec_val_def)
qed

lemma ParseUint_loop_ok:
  "list_all is_digit s \<Longrightarrow> dec_val n s < 2 ^ bits \<Longrightarrow> ParseUint_loop bits n s = Inr (dec_val n s)"
proof (induction bits n s rule: ParseUint_loop.induct)
  case (2 bits n c cs)
  let ?m = "n * 10 + (byte c - 48)"
  have "dec_val n (c # cs) = dec_val ?m cs" by (simp add: dec_val_def)
  moreover from this have "?m < 2 ^ bits" using "2.prems"(2) dec_val_mono [of ?m cs] by linarith
  ultimately show ?case using "2.IH" "2.prems" by (simp add: Let_def)
qed (simp add: dec_val_def)

section \<open>Base64\<close>

definition b64_alphabet :: string where
  "b64_alphabet = ''ABCDEFGHIJKLMNOPQRSTUVWXYZabcdefghijklmnopqrstuvwxyz0123456789+/''"

definition b64_digit :: "nat \<Rightarrow> char" where
  "b64_digit n = b64_alphabet ! (n mod 64)"

fun b64_bytes :: "nat list \<Rightarrow> string" where
  "b64_bytes [] = []"
| "b64_bytes [a] = [b64_digit (a div 4), b64_digit (a mod 4 * 16), CHR ''='', CHR ''='']"
| "b64_bytes [a, b] =
     [b64_digit (a div 4), b64_digit (a mod 4 * 16 + b div 16), b64_digit (b mod 16 * 4), CHR ''='']"
| "b64_bytes (a # b # c # bs) =
     b64_digit (a div 4) # b64_digit (a mod 4 * 16 + b div 16) #
     b64_digit (b mod 16 * 4 + c div 64) # b64_digit (c mod 64) # b64_bytes bs"

definition EncodeToString :: "string \<Rightarrow> string" where
  "EncodeToString s = b64_bytes (map byte s)"

text \<open>The decoder, to state that nothing is lost.\<close>

fun index_of :: "char \<Rightarrow> string \<Rightarrow> nat" where
  "index_of c [] = 0"
| "index_of c (x # xs) = (if x = c then 0 else Suc (index_of c xs))"

definition b64_value :: "char \<Rightarrow> nat" where
  "b64_value c = index_of c b64_alphabet"

fun b64_decode :: "string \<Rightarrow> nat list" where
  "b64_decode (w # x # y # z # cs) =
     (let p = b64_value w; q = b64_value x; r = b64_value y; t = b64_value z in
      if y = CHR ''='' then [p * 4 + q div 16]
      else if z = CHR ''='' then [p * 4 + q div 16, q mod 16 * 16 + r div 4]
      else (p * 4 + q div 16) # (q mod 16 * 16 + r div 4) # (r mod 4 * 64 + t) # b64_decode cs)"
| "b64_decode _ = []"

definition DecodeString :: "string \<Rightarrow> string" where
  "DecodeString s = map char_of (b64_decode s)"

lemma index_of_nth: "distinct xs \<Longrightarrow> i < length xs \<Longrightarrow> index_of (xs ! i) xs = i"
proof (induction xs arbitrary: i)
  case (Cons x xs)
  then show ?case by (cases i) auto
qed simp

lemma b64_alphabet_facts:
  "distinct b64_alphabet" "length b64_alphabet = 64" "CHR ''='' \<notin> set b64_alphabet"
  by (simp_all add: b64_alphabet_def)

lemma b64_value_digit [simp]: "n < 64 \<Longrightarrow> b64_value (b64_digit n) = n"
  by (simp add: b64_value_def b64_digit_def index_of_nth b64_alphabet_facts)

lemma b64_digit_in: "b64_digit n \<in> set b64_alphabet"
  by (simp add: b64_digit_def b64_alphabet_facts)

lemma b64_digit_not_pad [simp]: "b64_digit n \<noteq> CHR ''=''"
  using b64_digit_in [of n] b64_alphabet_facts(3) by metis

lemma b64_decode_bytes: "list_all (\<lambda>b. b < 256) bs \<Longrightarrow> b64_decode (b64_bytes bs) = bs"
proof (induction bs rule: b64_bytes.induct)
  case (2 a)
  then have "a div 4 < 64" "a mod 4 * 16 < 64" by auto
  then show ?case by (simp add: Let_def)
next
  case (3 a b)
  then have "a div 4 < 64" "a mod 4 * 16 + b div 16 < 64" "b mod 16 * 4 < 64" "b div 16 < 16" by auto
  then show ?case by (simp add: Let_def)
next
  case (4 a b c bs)
  then have "a div 4 < 64" "a mod 4 * 16 + b div 16 < 64" "b mod 16 * 4 + c div 64 < 64"
    "c mod 64 < 64" "b div 16 < 16" "c div 64 < 4" by auto
  moreover have "(b mod 16 * 4 + c div 64) div 4 = b mod 16" "(b mod 16 * 4 + c div 64) mod 4 = c div 64"
    using \<open>c div 64 < 4\<close> by auto
  ultimately show ?case using "4.IH" "4.prems" by (simp add: Let_def)
qed simp

lemma DecodeString_EncodeToString [simp]: "DecodeString (EncodeToString s) = s"
proof -
  have "list_all (\<lambda>b. b < 256) (map byte s)"
    by (simp add: list_all_iff)
  then have "b64_decode (b64_bytes (map byte s)) = map byte s" by (rule b64_decode_bytes)
  then show ?thesis by (simp add: DecodeString_def EncodeToString_def o_def)
qed

lemma EncodeToString_inj: "EncodeToString s = EncodeToString t \<longleftrightarrow> s = t"
  by (metis DecodeString_EncodeToString)

lemma length_b64_bytes: "length (b64_bytes bs) = (length bs + 2) div 3 * 4"
proof (induction bs rule: b64_bytes.induct)
  case (4 a b c bs)
  have "(length (a # b # c # bs) + 2) div 3 = Suc ((length bs + 2) div 3)" by simp
  with "4.IH" show ?case by simp
qed auto

lemma set_b64_bytes: "set (b64_bytes bs) \<subseteq> insert (CHR ''='') (set b64_alphabet)"
  by (induction bs rule: b64_bytes.induct) (auto simp: b64_digit_in)

section \<open>JSON objects of strings\<close>

definition hex_digit :: "nat \<Rightarrow> char" where
  "hex_digit n = ''0123456789abcdef'' ! (n mod 16)"

text \<open>How \<open>encoding/json\<close> writes one rune of a string (HTML escaping on).\<close>

definition json_rune :: "rune \<times> nat \<Rightarrow> string \<Rightarrow> string" where
  "json_rune rn raw =
     (let (r, n) = rn in
      if r = RuneError \<and> n = 1 then [char_of (92::nat)] @ ''ufffd''
      else if r = 8232 \<or> r = 8233 then [char_of (92::nat)] @ ''u202'' @ [hex_digit r]
      else if r \<ge> 128 then raw
      else if r = 34 \<or> r = 92 then [char_of (92::nat), char_of r]
      else if r = 10 then [char_of (92::nat)] @ ''n''
      else if r = 13 then [char_of (92::nat)] @ ''r''
      else if r = 9 then [char_of (92::nat)] @ ''t''
      else if r < 32 \<or> r = 60 \<or> r = 62 \<or> r = 38
        then [char_of (92::nat)] @ ''u00'' @ [hex_digit (r div 16), hex_digit r]
      else raw)"

function json_escape :: "string \<Rightarrow> string" where
  "json_escape [] = []"
| "json_escape (c # cs) =
     (let rn = decode_rune (map byte (c # cs)); n = max 1 (snd rn)
      in json_rune rn (take n (c # cs)) @ json_escape (drop n (c # cs)))"
  by pat_completeness auto
termination
  by (relation "measure length") (auto simp: max_def)

definition json_string :: "string \<Rightarrow> string" where
  "json_string s = [CHR 0x22] @ json_escape s @ [CHR 0x22]"

text \<open>\<open>json.Marshal\<close> of a string map: the entries in the order of their keys; it does not fail.\<close>

definition json_Marshal_map :: "string gomap \<Rightarrow> string" where
  "json_Marshal_map m =
     ''{'' @ strings_Join (map (\<lambda>(k, v). json_string k @ '':'' @ json_string v)
                          (sort_key fst m)) '','' @ ''}''"

end
