(* ===== verification/Api_Types.thy ===== *)
theory Api_Types
  imports Go_Strings
begin

text \<open>
  The data of the program. The custom resources of \<open>api/v1alpha1\<close> (\<open>EdgeDevice\<close>,
  \<open>EdgeDeployment\<close>), the messages exchanged with a device (\<open>models\<close>), and of the Kubernetes
  types the fields the program reads or writes. A struct is a record with the source's fields, a
  pointer is an option, a slice a list, a nil-able map an optional \<open>gomap\<close>. Fields of Kubernetes
  structs that are only tested for \<open>nil\<close> hold an opaque text. Integers of Go's fixed widths that
  are only copied or compared are \<^typ>\<open>int\<close>; times are nanoseconds since Go's zero time.
\<close>

type_synonym time = int
type_synonym int32 = int
type_synonym int64 = int

text \<open>A \<open>float64\<close> is its bit pattern in IEEE 754, a number below \<open>2 ^ 64\<close>.\<close>

type_synonym float64 = nat

definition zero_time :: time where "zero_time = 0"

definition gm_lookup :: "'v gomap option \<Rightarrow> string \<Rightarrow> 'v option" where
  "gm_lookup m k = (case m of None \<Rightarrow> None | Some kvs \<Rightarrow> gm_get kvs k)"

lemma gm_lookup_simps [simp]: "gm_lookup None k = None" "gm_lookup (Some m) k = gm_get m k"
  by (simp_all add: gm_lookup_def)

text \<open>\<open>m[k]\<close> on a map of strings: the zero value when the key is missing.\<close>

definition gm_index :: "string gomap option \<Rightarrow> string \<Rightarrow> string" where
  "gm_index m k = (case gm_lookup m k of None \<Rightarrow> [] | Some v \<Rightarrow> v)"

section \<open>Kubernetes types\<close>

record ObjectMeta =
  om_Name :: string
  om_Namespace :: string
  om_Labels :: "string gomap option"
  om_Finalizers :: "string list"
  om_DeletionTimestamp :: "time option"
  om_ResourceVersion :: string

definition new_meta :: "string \<Rightarrow> string \<Rightarrow> ObjectMeta" where
  "new_meta name namespace =
     \<lparr>om_Name = name, om_Namespace = namespace, om_Labels = None, om_Finalizers = [],
      om_DeletionTimestamp = None, om_ResourceVersion = []\<rparr>"

datatype SelectorOp = OpIn | OpNotIn | OpExists | OpDoesNotExist | OpUnknown string

record LabelSelectorRequirement =
  lsr_Key :: string
  lsr_Operator :: SelectorOp
  lsr_Values :: "string list"

record LabelSelector =
  ls_MatchLabels :: "string gomap"
  ls_MatchExpressions :: "LabelSelectorRequirement list"

record KeySelector =
  ks_Name :: string
  ks_Key :: string
  ks_Optional :: "bool option"

record LocalRef =
  lr_Name :: string
  lr_Optional :: "bool option"

record EnvVarSource =
  evs_FieldRef :: "string option"
  evs_ResourceFieldRef :: "string option"
  evs_ConfigMapKeyRef :: "KeySelector option"
  evs_SecretKeyRef :: "KeySelector option"

record EnvVar =
  ev_Name :: string
  ev_ValueFrom :: "EnvVarSource option"

record EnvFromSource =
  ef_ConfigMapRef :: "LocalRef option"
  ef_SecretRef :: "LocalRef option"

record Container =
  ct_Name :: string
  ct_EnvFrom :: "EnvFromSource list"
  ct_Env :: "EnvVar list"
  ct_Limits :: "string gomap"
  ct_Requests :: "string gomap"
  ct_VolumeDevices :: "string list"
  ct_LivenessProbe :: "string option"
  ct_ReadinessProbe :: "string option"
  ct_StartupProbe :: "string option"
  ct_Lifecycle :: "string option"

record Volume =
  vol_Name :: string
  vol_HostPath :: "string option"
  vol_ConfigMap :: "LocalRef option"

record PodSpec =
  ps_Volumes :: "Volume list"
  ps_InitContainers :: "Container list"
  ps_Containers :: "Container list"
  ps_Other :: string

record ConfigMap =
  cm_meta :: ObjectMeta
  cm_Data :: "string gomap option"

record Secret =
  sec_meta :: ObjectMeta
  sec_Data :: "string gomap option"

record ObjectBucketClaim =
  obc_meta :: ObjectMeta
  obc_GenerateBucketName :: string
  obc_StorageClassName :: string

section \<open>api/v1alpha1: EdgeDeployment\<close>

record NameRef = nr_Name :: string

record ImageRegistriesConfiguration = irc_AuthFileSecret :: "NameRef option"

record MetricsConfigEntity =
  mce_Path :: string
  mce_Port :: int32
  mce_Disabled :: bool

record ContainerMetricsConfiguration =
  cmc_Path :: string
  cmc_Port :: int32
  cmc_Interval :: int32
  cmc_AllowList :: "NameRef option"
  cmc_Containers :: "MetricsConfigEntity option gomap"

record DataPath =
  dp_Source :: string
  dp_Target :: string

record DataConfiguration = dcf_Paths :: "DataPath list"

record Pod = pod_Spec :: PodSpec

record EdgeDeploymentSpec =
  eds_DeviceSelector :: "LabelSelector option"
  eds_Device :: string
  eds_Type :: string
  eds_Pod :: Pod
  eds_Data :: "DataConfiguration option"
  eds_ImageRegistries :: "ImageRegistriesConfiguration option"
  eds_Metrics :: "ContainerMetricsConfiguration option"
  eds_LogCollection :: string

record EdgeDeployment =
  dep_meta :: ObjectMeta
  dep_Spec :: EdgeDeploymentSpec

section \<open>api/v1alpha1: EdgeDevice\<close>

record LogCollectionConfig =
  lcc_Kind :: string
  lcc_BufferSize :: int32
  lcc_SyslogConfig :: "NameRef option"

record SystemMetricsConfiguration =
  smc_Interval :: int32
  smc_AllowList :: "NameRef option"
  smc_Disabled :: bool

record Retention =
  rt_MaxMiB :: int32
  rt_MaxHours :: int32

record MetricsConfiguration =
  mc_Retention :: "Retention option"
  mc_SystemMetrics :: "SystemMetricsConfiguration option"

record S3Storage =
  s3_SecretName :: string
  s3_ConfigMapName :: string
  s3_CreateOBC :: bool

record Storage = st_S3 :: "S3Storage option"

record OsInformation =
  os_AutomaticallyUpgrade :: bool
  os_CommitID :: string
  os_HostedObjectsURL :: string

record HardwareProfileConfiguration =
  hp_Include :: bool
  hp_Scope :: string

record HeartbeatConfiguration =
  hc_HardwareProfile :: "HardwareProfileConfiguration option"
  hc_PeriodSeconds :: int64

record EdgeDeviceSpec =
  sp_OsInformation :: "OsInformation option"
  sp_RequestTime :: "time option"
  sp_Heartbeat :: "HeartbeatConfiguration option"
  sp_Storage :: "Storage option"
  sp_Metrics :: "MetricsConfiguration option"
  sp_LogCollection :: "LogCollectionConfig option gomap"

type_synonym EdgeDeploymentPhase = string

definition Deploying :: EdgeDeploymentPhase where "Deploying = ''Deploying''"
definition Running :: EdgeDeploymentPhase where "Running = ''Running''"
definition Exited :: EdgeDeploymentPhase where "Exited = ''Exited''"

record Deployment =
  dpl_Name :: string
  dpl_Phase :: EdgeDeploymentPhase
  dpl_LastTransitionTime :: time
  dpl_LastDataUpload :: time

record UpgradeInformation =
  ui_CurrentCommitID :: string
  ui_LastUpgradeStatus :: string
  ui_LastUpgradeTime :: string

record Boot =
  bt_CurrentBootMode :: string
  bt_PxeInterface :: string

record CPU =
  cpu_Architecture :: string
  cpu_Count :: int64
  cpu_Flags :: "string list"
  cpu_Frequency :: string
  cpu_ModelName :: string

record IoPerf = io_SyncDuration :: int64

record Disk =
  dk_Bootable :: bool
  dk_ByID :: string
  dk_ByPath :: string
  dk_DriveType :: string
  dk_Hctl :: string
  dk_ID :: string
  dk_IoPerf :: "IoPerf option"
  dk_IsInstallationMedia :: bool
  dk_Model :: string
  dk_Name :: string
  dk_Path :: string
  dk_Serial :: string
  dk_SizeBytes :: int64
  dk_Smart :: string
  dk_Vendor :: string
  dk_Wwn :: string

record Gpu =
  gpu_Address :: string
  gpu_DeviceID :: string
  gpu_Name :: string
  gpu_Vendor :: string
  gpu_VendorID :: string

record Interface =
  if_Biosdevname :: string
  if_ClientID :: string
  if_Flags :: "string list"
  if_HasCarrier :: bool
  if_IPV4Addresses :: "string list"
  if_IPV6Addresses :: "string list"
  if_MacAddress :: string
  if_Mtu :: int64
  if_Name :: string
  if_Product :: string
  if_SpeedMbps :: int64
  if_Vendor :: string

record Memory =
  mem_PhysicalBytes :: int64
  mem_UsableBytes :: int64

record SystemVendor =
  sv_Manufacturer :: string
  sv_ProductName :: string
  sv_SerialNumber :: string
  sv_Virtual :: bool

record Hardware =
  hw_Boot :: "Boot option"
  hw_CPU :: "CPU option"
  hw_Disks :: "Disk list"
  hw_Gpus :: "Gpu option list"
  hw_Hostname :: string
  hw_Interfaces :: "Interface option list"
  hw_Memory :: "Memory option"
  hw_SystemVendor :: "SystemVendor option"

record EdgeDeviceStatus =
  es_Phase :: string
  es_LastSeenTime :: time
  es_LastSyncedResourceVersion :: string
  es_Hardware :: "Hardware option"
  es_Deployments :: "Deployment list"
  es_DataOBC :: "string option"
  es_UpgradeInformation :: "UpgradeInformation option"

record EdgeDevice =
  dev_meta :: ObjectMeta
  dev_Spec :: EdgeDeviceSpec
  dev_Status :: EdgeDeviceStatus

definition empty_spec :: EdgeDeviceSpec where
  "empty_spec = \<lparr>sp_OsInformation = None, sp_RequestTime = None, sp_Heartbeat = None,
     sp_Storage = None, sp_Metrics = None, sp_LogCollection = []\<rparr>"

definition empty_status :: EdgeDeviceStatus where
  "empty_status = \<lparr>es_Phase = [], es_LastSeenTime = zero_time, es_LastSyncedResourceVersion = [],
     es_Hardware = None, es_Deployments = [], es_DataOBC = None, es_UpgradeInformation = None\<rparr>"

section \<open>models: what a device sends\<close>

text \<open>A slice whose nil value is written differently from an empty one (no \<open>omitempty\<close> in its tag) is an
  optional list, \<open>None\<close> is nil; its elements are \<open>opt_list\<close> of it.\<close>

record mBoot =
  mbt_CurrentBootMode :: string
  mbt_PxeInterface :: string

record mCPU =
  mcpu_Architecture :: string
  mcpu_Count :: int64
  mcpu_Flags :: "string list option"
  mcpu_Frequency :: float64
  mcpu_ModelName :: string

record mIoPerf = mio_SyncDuration :: int64

record mDisk =
  mdk_Bootable :: bool
  mdk_ByID :: string
  mdk_ByPath :: string
  mdk_DriveType :: string
  mdk_Hctl :: string
  mdk_ID :: string
  mdk_IoPerf :: "mIoPerf option"
  mdk_IsInstallationMedia :: bool
  mdk_Model :: string
  mdk_Name :: string
  mdk_Path :: string
  mdk_Serial :: string
  mdk_SizeBytes :: int64
  mdk_Smart :: string
  mdk_Vendor :: string
  mdk_Wwn :: string

record mGpu =
  mgpu_Address :: string
  mgpu_DeviceID :: string
  mgpu_Name :: string
  mgpu_Vendor :: string
  mgpu_VendorID :: string

record mInterface =
  mif_Biosdevname :: string
  mif_ClientID :: string
  mif_Flags :: "string list option"
  mif_HasCarrier :: bool
  mif_IPV4Addresses :: "string list option"
  mif_IPV6Addresses :: "string list option"
  mif_MacAddress :: string
  mif_Mtu :: int64
  mif_Name :: string
  mif_Product :: string
  mif_SpeedMbps :: int64
  mif_Vendor :: string

record mMemory =
  mmem_PhysicalBytes :: int64
  mmem_UsableBytes :: int64

record mSystemVendor =
  msv_Manufacturer :: string
  msv_ProductName :: string
  msv_SerialNumber :: string
  msv_Virtual :: bool

record HardwareInfo =
  hi_Boot :: "mBoot option"
  hi_CPU :: "mCPU option"
  hi_Disks :: "mDisk option list option"
  hi_Gpus :: "mGpu option list option"
  hi_Hostname :: string
  hi_Interfaces :: "mInterface option list option"
  hi_Memory :: "mMemory option"
  hi_SystemVendor :: "mSystemVendor option"

record EventInfo =
  evi_Message :: string
  evi_Reason :: string
  evi_Type :: string

definition EventInfoTypeInfo :: string where "EventInfoTypeInfo = ''info''"
definition EventInfoTypeWarn :: string where "EventInfoTypeWarn = ''warn''"

record WorkloadStatus =
  ws_LastDataUpload :: time
  ws_Name :: string
  ws_Status :: string

record UpgradeStatus =
  us_CurrentCommitID :: string
  us_LastUpgradeStatus :: string
  us_LastUpgradeTime :: string

record Heartbeat =
  hb_Events :: "EventInfo option list option"
  hb_Hardware :: "HardwareInfo option"
  hb_Status :: string
  hb_Upgrade :: "UpgradeStatus option"
  hb_Version :: string
  hb_Workloads :: "WorkloadStatus option list option"

record RegistrationInfo =
  ri_CertificateRequest :: string
  ri_Hardware :: "HardwareInfo option"

section \<open>models: what a device is sent\<close>

record mDataPath =
  mdp_Source :: string
  mdp_Target :: string

record mDataConfiguration = mdc_Paths :: "mDataPath list option"

record ImageRegistries = ir_AuthFile :: string

record MetricsAllowList = mal_Names :: "string list option"

record ContainerMetrics =
  ctm_Disabled :: bool
  ctm_Path :: string
  ctm_Port :: int32

record Metrics =
  mt_AllowList :: "MetricsAllowList option"
  mt_Containers :: "ContainerMetrics gomap option"
  mt_Interval :: int32
  mt_Path :: string
  mt_Port :: int32

record Workload =
  wl_Configmaps :: "string list"
  wl_Data :: "mDataConfiguration option"
  wl_ImageRegistries :: "ImageRegistries option"
  wl_LogCollection :: string
  wl_Metrics :: "Metrics option"
  wl_Name :: string
  wl_Specification :: string

record mSecret =
  ms_Data :: string
  ms_Name :: string

record MetricsRetention =
  mr_MaxHours :: int32
  mr_MaxMib :: int32

record mSystemMetricsConfiguration =
  msm_AllowList :: "MetricsAllowList option"
  msm_Disabled :: bool
  msm_Interval :: int32

record mMetricsConfiguration =
  mmc_Retention :: "MetricsRetention option"
  mmc_System :: "mSystemMetricsConfiguration option"

record SyslogConfig =
  sl_Address :: string
  sl_Protocol :: string

record LogsCollectionInformation =
  li_BufferSize :: int32
  li_Kind :: string
  li_SyslogConfig :: "SyslogConfig option"

record mHardwareProfileConfiguration =
  mhp_Include :: bool
  mhp_Scope :: string

record mHeartbeatConfiguration =
  mhc_HardwareProfile :: "mHardwareProfileConfiguration option"
  mhc_PeriodSeconds :: int64

record mOsInformation =
  mos_AutomaticallyUpgrade :: bool
  mos_CommitID :: string
  mos_HostedObjectsURL :: string

record S3StorageConfiguration =
  s3c_AwsAccessKeyID :: string
  s3c_AwsCaBundle :: string
  s3c_AwsSecretAccessKey :: string
  s3c_BucketHost :: string
  s3c_BucketName :: string
  s3c_BucketPort :: int32
  s3c_BucketRegion :: string

record StorageConfiguration = stc_S3 :: "S3StorageConfiguration option"

record DeviceConfiguration =
  dc_Heartbeat :: "mHeartbeatConfiguration option"
  dc_LogCollection :: "LogsCollectionInformation gomap option"
  dc_Metrics :: "mMetricsConfiguration option"
  dc_Os :: "mOsInformation option"
  dc_Storage :: "StorageConfiguration option"

record DeviceConfigurationMessage =
  dcm_Configuration :: "DeviceConfiguration option"
  dcm_DeviceID :: string
  dcm_Secrets :: "mSecret list"
  dcm_Version :: string
  dcm_Workloads :: "Workload list"
  dcm_WorkloadsMonitoringInterval :: int64

record RegistrationResponse = rr_Certificate :: string

text \<open>The \<open>interface{}\<close> content of a message: nothing, what the device sent (raw JSON), or one of
  the values the operator puts there.\<close>

datatype content =
    NoContent
  | RawContent string
  | ConfigurationContent DeviceConfigurationMessage
  | CommandContent string
  | RegistrationContent RegistrationResponse

record Message =
  msg_Content :: content
  msg_Directive :: string
  msg_MessageID :: string
  msg_Metadata :: content
  msg_ResponseTo :: string
  msg_Sent :: time
  msg_Type :: string
  msg_Version :: int64

definition empty_message :: Message where
  "empty_message = \<lparr>msg_Content = NoContent, msg_Directive = [], msg_MessageID = [], msg_Metadata = NoContent,
     msg_ResponseTo = [], msg_Sent = zero_time, msg_Type = [], msg_Version = 0\<rparr>"

definition MessageTypeConnectionStatus :: string where
  "MessageTypeConnectionStatus = ''connection-status''"
definition MessageTypeCommand :: string where "MessageTypeCommand = ''command''"
definition MessageTypeEvent :: string where "MessageTypeEvent = ''event''"
definition MessageTypeData :: string where "MessageTypeData = ''data''"

record MessageResponse =
  mrs_Content :: content
  mrs_Directive :: string
  mrs_MessageID :: string

definition empty_response :: MessageResponse where
  "empty_response = \<lparr>mrs_Content = NoContent, mrs_Directive = [], mrs_MessageID = []\<rparr>"

end
