(* ===== verification/Labels.thy ===== *)
theory Labels
  imports Api_Types
begin

text \<open>
  \<open>internal/labels\<close>: the label names by which devices and deployments refer to each other, and
  the label selectors of \<open>k8s.io/apimachinery\<close> (vendored) that the controllers evaluate:
  \<open>LabelSelectorAsSelector\<close>, \<open>NewRequirement\<close> with its validation of keys and values, and
  \<open>Matches\<close>. The texts of validation errors are abbreviated; which inputs are errors is not.
\<close>

section \<open>internal/labels\<close>

definition DeviceNameLabel :: string where "DeviceNameLabel = ''devicename''"
definition DoesNotExistLabel :: string where "DoesNotExistLabel = ''doesnotexist''"
definition workloadLabelPrefix :: string where "workloadLabelPrefix = ''workload/''"
definition selectorLabelPrefix :: string where "selectorLabelPrefix = ''selector/''"

definition WorkloadLabel :: "string \<Rightarrow> string" where
  "WorkloadLabel workloadName = workloadLabelPrefix @ workloadName"

definition IsWorkloadLabel :: "string \<Rightarrow> bool" where
  "IsWorkloadLabel label \<longleftrightarrow> HasPrefix label workloadLabelPrefix"

definition IsSelectorLabel :: "string \<Rightarrow> bool" where
  "IsSelectorLabel label \<longleftrightarrow> HasPrefix label selectorLabelPrefix"

definition CreateSelectorLabel :: "string \<Rightarrow> string" where
  "CreateSelectorLabel label = selectorLabelPrefix @ label"

lemma WorkloadLabel_inject [simp]: "WorkloadLabel a = WorkloadLabel b \<longleftrightarrow> a = b"
  by (simp add: WorkloadLabel_def)

lemma CreateSelectorLabel_inject [simp]: "CreateSelectorLabel a = CreateSelectorLabel b \<longleftrightarrow> a = b"
  by (simp add: CreateSelectorLabel_def)

lemma IsWorkloadLabel_WorkloadLabel [simp]: "IsWorkloadLabel (WorkloadLabel n)"
  by (simp add: IsWorkloadLabel_def WorkloadLabel_def)

lemma IsSelectorLabel_CreateSelectorLabel [simp]: "IsSelectorLabel (CreateSelectorLabel n)"
  by (simp add: IsSelectorLabel_def CreateSelectorLabel_def)

lemma IsWorkloadLabel_iff: "IsWorkloadLabel l \<longleftrightarrow> (\<exists>n. l = WorkloadLabel n)"
  by (simp add: IsWorkloadLabel_def WorkloadLabel_def HasPrefix_iff)

lemma IsSelectorLabel_iff: "IsSelectorLabel l \<longleftrightarrow> (\<exists>n. l = CreateSelectorLabel n)"
  by (simp add: IsSelectorLabel_def CreateSelectorLabel_def HasPrefix_iff)

lemma workload_not_selector [simp]: "\<not> IsSelectorLabel (WorkloadLabel n)"
  by (simp add: IsSelectorLabel_def WorkloadLabel_def HasPrefix_def workloadLabelPrefix_def
      selectorLabelPrefix_def)

section \<open>Validation of label keys and values\<close>

definition alnum_char :: "char \<Rightarrow> bool" where
  "alnum_char c \<longleftrightarrow> in_range 48 57 (byte c) \<or> in_range 65 90 (byte c) \<or> in_range 97 122 (byte c)"

definition qname_ext_char :: "char \<Rightarrow> bool" where
  "qname_ext_char c \<longleftrightarrow> alnum_char c \<or> c = CHR ''-'' \<or> c = CHR ''_'' \<or> c = CHR ''.''"

definition lower_alnum_char :: "char \<Rightarrow> bool" where
  "lower_alnum_char c \<longleftrightarrow> in_range 48 57 (byte c) \<or> in_range 97 122 (byte c)"

text \<open>The anchored regular expression \<open>(A E*)?A\<close>: first and last character in \<open>A\<close>, all in \<open>E\<close>.\<close>

definition bracketed :: "(char \<Rightarrow> bool) \<Rightarrow> (char \<Rightarrow> bool) \<Rightarrow> string \<Rightarrow> bool" where
  "bracketed A E s \<longleftrightarrow> s \<noteq> [] \<and> A (hd s) \<and> A (last s) \<and> list_all E s"

definition qualifiedNameRegexp :: "string \<Rightarrow> bool" where
  "qualifiedNameRegexp = bracketed alnum_char qname_ext_char"

definition dns1123SubdomainRegexp :: "string \<Rightarrow> bool" where
  "dns1123SubdomainRegexp s \<longleftrightarrow>
     list_all (bracketed lower_alnum_char (\<lambda>c. lower_alnum_char c \<or> c = CHR ''-'')) (split_on (CHR ''.'') s)"

definition IsDNS1123Subdomain :: "string \<Rightarrow> string list" where
  "IsDNS1123Subdomain value =
     (if length value > 253 then [''must be no more than 253 characters''] else []) @
     (if \<not> dns1123SubdomainRegexp value then [''a lowercase RFC 1123 subdomain''] else [])"

definition IsQualifiedName :: "string \<Rightarrow> string list" where
  "IsQualifiedName value =
     (let parts = split_on (CHR ''/'') value;
          name_errs = (\<lambda>name.
            (if name = [] then [''name part must be non-empty'']
             else if length name > 63 then [''name part must be no more than 63 characters'']
             else []) @
            (if \<not> qualifiedNameRegexp name then [''name part must match''] else []))
      in case parts of
           [name] \<Rightarrow> name_errs name
         | [prefix, name] \<Rightarrow>
             (if prefix = [] then [''prefix part must be non-empty'']
              else map ((@) ''prefix part '') (IsDNS1123Subdomain prefix)) @ name_errs name
         | _ \<Rightarrow> [''a qualified name must match with an optional DNS subdomain prefix''])"

definition IsValidLabelValue :: "string \<Rightarrow> string list" where
  "IsValidLabelValue value =
     (if length value > 63 then [''must be no more than 63 characters''] else []) @
     (if \<not> (value = [] \<or> qualifiedNameRegexp value) then [''a valid label must match''] else [])"

definition validateLabelKey :: "string \<Rightarrow> goerr option" where
  "validateLabelKey k =
     (let errs = IsQualifiedName k in
      if errs \<noteq> [] then Some (Errorf (''invalid label key '' @ k @ '': '' @ strings_Join errs ''; ''))
      else None)"

definition validateLabelValue :: "string \<Rightarrow> string \<Rightarrow> goerr option" where
  "validateLabelValue k v =
     (let errs = IsValidLabelValue v in
      if errs \<noteq> [] then Some (Errorf (''invalid label value: '' @ v @ '': at key: '' @ k @ '': ''
                                     @ strings_Join errs ''; ''))
      else None)"

section \<open>Selectors\<close>

text \<open>The operators that label selectors of the API translate to. A selector keeps its requirements in
  the order they were added; the source sorts them by key, which does not matter for matching.\<close>

datatype Operator = DoesNotExist | Equals | In | NotIn | Exists

record Requirement =
  rq_key :: string
  rq_operator :: Operator
  rq_strValues :: "string list"

datatype Selector = nothingSelector | internalSelector "Requirement list"

fun first_error :: "('a \<Rightarrow> goerr option) \<Rightarrow> 'a list \<Rightarrow> goerr option" where
  "first_error f [] = None"
| "first_error f (x # xs) = (case f x of Some e \<Rightarrow> Some e | None \<Rightarrow> first_error f xs)"

lemma first_error_None: "first_error f xs = None \<longleftrightarrow> (\<forall>x\<in>set xs. f x = None)"
  by (induction xs) (auto split: option.splits)

definition NewRequirement :: "string \<Rightarrow> Operator \<Rightarrow> string list \<Rightarrow> Requirement result" where
  "NewRequirement key op vals =
     (case validateLabelKey key of Some e \<Rightarrow> Inl e | None \<Rightarrow>
        if op \<in> {In, NotIn} \<and> length vals = 0
        then Inl (Errorf (''for '' @ [CHR 0x27] @ ''in'' @ [CHR 0x27] @ '', '' @ [CHR 0x27] @ ''notin'' @ [CHR 0x27]
               @ '' operators, values set can'' @ [CHR 0x27] @ ''t be empty''))
        else if op = Equals \<and> length vals \<noteq> 1
        then Inl (Errorf ''exact-match compatibility requires one single value'')
        else if op \<in> {Exists, DoesNotExist} \<and> length vals \<noteq> 0
        then Inl (Errorf ''values set must be empty for exists and does not exist'')
        else case first_error (validateLabelValue key) vals of
               Some e \<Rightarrow> Inl e
             | None \<Rightarrow> Inr \<lparr>rq_key = key, rq_operator = op, rq_strValues = vals\<rparr>)"

definition Requirement_Matches :: "Requirement \<Rightarrow> string gomap option \<Rightarrow> bool" where
  "Requirement_Matches r ls =
     (case rq_operator r of
        In \<Rightarrow> (case gm_lookup ls (rq_key r) of None \<Rightarrow> False | Some v \<Rightarrow> v \<in> set (rq_strValues r))
      | Equals \<Rightarrow> (case gm_lookup ls (rq_key r) of None \<Rightarrow> False | Some v \<Rightarrow> v \<in> set (rq_strValues r))
      | NotIn \<Rightarrow> (case gm_lookup ls (rq_key r) of None \<Rightarrow> True | Some v \<Rightarrow> v \<notin> set (rq_strValues r))
      | Exists \<Rightarrow> gm_lookup ls (rq_key r) \<noteq> None
      | DoesNotExist \<Rightarrow> gm_lookup ls (rq_key r) = None)"

fun Selector_Matches :: "Selector \<Rightarrow> string gomap option \<Rightarrow> bool" where
  "Selector_Matches nothingSelector ls = False"
| "Selector_Matches (internalSelector rs) ls = list_all (\<lambda>r. Requirement_Matches r ls) rs"

fun add_match_labels :: "Requirement list \<Rightarrow> string gomap \<Rightarrow> Requirement list result" where
  "add_match_labels rs [] = Inr rs"
| "add_match_labels rs ((k, v) # kvs) =
     (case NewRequirement k Equals [v] of Inl e \<Rightarrow> Inl e | Inr r \<Rightarrow> add_match_labels (rs @ [r]) kvs)"

fun selection_operator :: "SelectorOp \<Rightarrow> Operator result" where
  "selection_operator OpIn = Inr In"
| "selection_operator OpNotIn = Inr NotIn"
| "selection_operator OpExists = Inr Exists"
| "selection_operator OpDoesNotExist = Inr DoesNotExist"
| "selection_operator (OpUnknown s) = Inl (Errorf (s @ '' is not a valid pod selector operator''))"

fun add_match_expressions ::
  "Requirement list \<Rightarrow> LabelSelectorRequirement list \<Rightarrow> Requirement list result" where
  "add_match_expressions rs [] = Inr rs"
| "add_match_expressions rs (x # xs) =
     (case selection_operator (lsr_Operator x) of Inl e \<Rightarrow> Inl e | Inr op \<Rightarrow>
        case NewRequirement (lsr_Key x) op (lsr_Values x) of Inl e \<Rightarrow> Inl e | Inr r \<Rightarrow>
          add_match_expressions (rs @ [r]) xs)"

definition LabelSelectorAsSelector :: "LabelSelector option \<Rightarrow> Selector result" where
  "LabelSelectorAsSelector ps =
     (case ps of
        None \<Rightarrow> Inr nothingSelector
      | Some s \<Rightarrow>
          if length (ls_MatchLabels s) + length (ls_MatchExpressions s) = 0 then Inr (internalSelector [])
          else case add_match_labels [] (ls_MatchLabels s) of Inl e \<Rightarrow> Inl e | Inr rs \<Rightarrow>
            case add_match_expressions rs (ls_MatchExpressions s) of Inl e \<Rightarrow> Inl e
            | Inr rs' \<Rightarrow> Inr (internalSelector rs'))"

section \<open>What a selector means\<close>

text \<open>The meaning of one match expression, straight from the API's documentation.\<close>

definition expr_holds :: "LabelSelectorRequirement \<Rightarrow> (string \<Rightarrow> string option) \<Rightarrow> bool" where
  "expr_holds x ls =
     (case lsr_Operator x of
        OpIn \<Rightarrow> (\<exists>v\<in>set (lsr_Values x). ls (lsr_Key x) = Some v)
      | OpNotIn \<Rightarrow> \<not> (\<exists>v\<in>set (lsr_Values x). ls (lsr_Key x) = Some v)
      | OpExists \<Rightarrow> ls (lsr_Key x) \<noteq> None
      | OpDoesNotExist \<Rightarrow> ls (lsr_Key x) = None
      | OpUnknown _ \<Rightarrow> False)"

lemma NewRequirement_Inr:
  "NewRequirement k op vals = Inr r \<Longrightarrow> r = \<lparr>rq_key = k, rq_operator = op, rq_strValues = vals\<rparr>"
  by (auto simp: NewRequirement_def Let_def split: option.splits if_splits)

lemma add_match_labels_Matches:
  "add_match_labels rs kvs = Inr rs' \<Longrightarrow>
     Selector_Matches (internalSelector rs') ls \<longleftrightarrow>
       Selector_Matches (internalSelector rs) ls \<and> (\<forall>(k, v)\<in>set kvs. gm_lookup ls k = Some v)"
proof (induction rs kvs rule: add_match_labels.induct)
  case (1 rs)
  then show ?case by simp
next
  case (2 rs k v kvs)
  from "2.prems" obtain r where r: "NewRequirement k Equals [v] = Inr r"
    and rest: "add_match_labels (rs @ [r]) kvs = Inr rs'"
    by (auto split: sum.splits)
  have "Requirement_Matches r ls \<longleftrightarrow> gm_lookup ls k = Some v"
    using NewRequirement_Inr [OF r] by (auto simp: Requirement_Matches_def split: option.splits)
  with "2.IH" [OF r rest] show ?case by auto
qed

lemma add_match_expressions_Matches:
  "add_match_expressions rs xs = Inr rs' \<Longrightarrow>
     Selector_Matches (internalSelector rs') ls \<longleftrightarrow>
       Selector_Matches (internalSelector rs) ls \<and> (\<forall>x\<in>set xs. expr_holds x (gm_lookup ls))"
proof (induction rs xs rule: add_match_expressions.induct)
  case (1 rs)
  then show ?case by simp
next
  case (2 rs x xs)
  from "2.prems" obtain op r where op: "selection_operator (lsr_Operator x) = Inr op"
    and r: "NewRequirement (lsr_Key x) op (lsr_Values x) = Inr r"
    and rest: "add_match_expressions (rs @ [r]) xs = Inr rs'"
    by (auto split: sum.splits)
  have "Requirement_Matches r ls \<longleftrightarrow> expr_holds x (gm_lookup ls)"
    using NewRequirement_Inr [OF r] op
    by (cases "lsr_Operator x"; cases "gm_lookup ls (lsr_Key x)")
       (auto simp: Requirement_Matches_def expr_holds_def)
  with "2.IH" [OF op r rest] show ?case by auto
qed

lemma accepted_selector_Matches:
  assumes "LabelSelectorAsSelector (Some s) = Inr sel"
  shows "Selector_Matches sel ls \<longleftrightarrow>
           (\<forall>(k, v)\<in>set (ls_MatchLabels s). gm_lookup ls k = Some v) \<and>
           (\<forall>x\<in>set (ls_MatchExpressions s). expr_holds x (gm_lookup ls))"
proof (cases "length (ls_MatchLabels s) + length (ls_MatchExpressions s) = 0")
  case True
  with assms show ?thesis by (auto simp: LabelSelectorAsSelector_def)
next
  case False
  with assms obtain rs rs' where "add_match_labels [] (ls_MatchLabels s) = Inr rs"
    and "add_match_expressions rs (ls_MatchExpressions s) = Inr rs'" and "sel = internalSelector rs'"
    by (auto simp: LabelSelectorAsSelector_def split: sum.splits if_splits)
  then show ?thesis
    using add_match_labels_Matches add_match_expressions_Matches by fastforce
qed

lemma NewRequirement_error: "NewRequirement k op vals = Inl e \<Longrightarrow> \<not> IsNotFound e"
proof -
  have "first_error (validateLabelValue k) vals = Some e \<Longrightarrow> \<not> IsNotFound e"
    by (induction vals) (auto simp: validateLabelValue_def Let_def split: option.splits if_splits)
  then show "NewRequirement k op vals = Inl e \<Longrightarrow> \<not> IsNotFound e"
    by (auto simp: NewRequirement_def validateLabelKey_def Let_def split: option.splits if_splits)
qed

lemma LabelSelectorAsSelector_error: "LabelSelectorAsSelector s = Inl e \<Longrightarrow> \<not> IsNotFound e"
proof -
  have labels: "add_match_labels rs kvs = Inl e \<Longrightarrow> \<not> IsNotFound e" for rs kvs
    by (induction rs kvs rule: add_match_labels.induct) (auto split: sum.splits dest: NewRequirement_error)
  have op: "selection_operator x = Inl e \<Longrightarrow> \<not> IsNotFound e" for x
    by (cases x) auto
  have exprs: "add_match_expressions rs xs = Inl e \<Longrightarrow> \<not> IsNotFound e" for rs xs
    by (induction rs xs rule: add_match_expressions.induct)
       (auto split: sum.splits dest: NewRequirement_error op)
  show "LabelSelectorAsSelector s = Inl e \<Longrightarrow> \<not> IsNotFound e"
    by (auto simp: LabelSelectorAsSelector_def split: option.splits if_splits sum.splits dest: labels exprs)
qed

lemma label_selector_Matches:
  "LabelSelectorAsSelector (Some \<lparr>ls_MatchLabels = [(k, v)], ls_MatchExpressions = []\<rparr>) = Inr sel \<Longrightarrow>
     Selector_Matches sel ls \<longleftrightarrow> gm_lookup ls k = Some v"
  by (drule accepted_selector_Matches [where ls = ls]) simp

text \<open>A device selector that is accepted matches a device exactly when every match label is
  present with its value and every match expression holds of the device's labels.\<close>

theorem LabelSelectorAsSelector_Matches:
  assumes "LabelSelectorAsSelector (Some s) = Inr sel"
  shows "Selector_Matches sel ls \<longleftrightarrow>
           (\<forall>(k, v)\<in>set (ls_MatchLabels s). gm_lookup ls k = Some v) \<and>
           (\<forall>x\<in>set (ls_MatchExpressions s). expr_holds x (gm_lookup ls))"
  by (rule accepted_selector_Matches [OF assms])

definition sample_selector :: LabelSelector where
  "sample_selector = \<lparr>ls_MatchLabels = [(''dc'', ''home'')],
     ls_MatchExpressions = [\<lparr>lsr_Key = ''gpu'', lsr_Operator = OpDoesNotExist, lsr_Values = []\<rparr>]\<rparr>"

lemma sample_selector_accepted:
  "LabelSelectorAsSelector (Some sample_selector) = Inr (internalSelector
     [\<lparr>rq_key = ''dc'', rq_operator = Equals, rq_strValues = [''home'']\<rparr>,
      \<lparr>rq_key = ''gpu'', rq_operator = DoesNotExist, rq_strValues = []\<rparr>])"
  by (simp add: sample_selector_def LabelSelectorAsSelector_def NewRequirement_def validateLabelKey_def
      validateLabelValue_def IsQualifiedName_def IsValidLabelValue_def qualifiedNameRegexp_def
      bracketed_def alnum_char_def qname_ext_char_def in_range_def)

theorem LabelSelectorAsSelector_Matches_witness:
  "Selector_Matches (internalSelector
     [\<lparr>rq_key = ''dc'', rq_operator = Equals, rq_strValues = [''home'']\<rparr>,
      \<lparr>rq_key = ''gpu'', rq_operator = DoesNotExist, rq_strValues = []\<rparr>]) (Some [(''dc'', ''home'')])"
  using LabelSelectorAsSelector_Matches [OF sample_selector_accepted, of "Some [(''dc'', ''home'')]"]
  by (simp add: sample_selector_def expr_holds_def)

section \<open>Selector labels of namespaced keys\<close>

lemma two_slashes_not_qualified:
  "2 \<le> count_list k (CHR ''/'') \<Longrightarrow> IsQualifiedName k \<noteq> []"
proof -
  assume "2 \<le> count_list k (CHR ''/'')"
  then have "3 \<le> length (split_on (CHR ''/'') k)" by (simp add: length_split_on)
  then obtain a b c rest where "split_on (CHR ''/'') k = a # b # c # rest"
    by (cases "split_on (CHR ''/'') k" rule: remdups_adj.cases; cases "tl (tl (split_on (CHR ''/'') k))") auto
  then show ?thesis by (simp add: IsQualifiedName_def)
qed

text \<open>The selector label the operator derives from a label key that has a prefix of its own
  (such as \<open>kubernetes.io/arch\<close>) is not a legal label key, so no requirement on it can be built.\<close>

theorem selector_label_of_prefixed_key_rejected:
  assumes "CHR ''/'' \<in> set label"
  shows "\<exists>e. NewRequirement (CreateSelectorLabel label) Equals [v] = Inl e"
proof -
  have "0 < count_list label (CHR ''/'')"
    using assms by (metis count_list_0_iff gr0I)
  then have "2 \<le> count_list (CreateSelectorLabel label) (CHR ''/'')"
    by (simp add: CreateSelectorLabel_def selectorLabelPrefix_def)
  then have "IsQualifiedName (CreateSelectorLabel label) \<noteq> []" by (rule two_slashes_not_qualified)
  then show ?thesis by (simp add: NewRequirement_def validateLabelKey_def Let_def)
qed

theorem selector_label_of_prefixed_key_rejected_witness:
  "\<exists>e. NewRequirement (CreateSelectorLabel ''kubernetes.io/arch'') Equals [''true''] = Inl e"
  by (rule selector_label_of_prefixed_key_rejected) simp

end
