(* ===== verification/Kube.thy ===== *)
theory Kube
  imports Labels
begin

text \<open>
  The world outside the operator, as a record of operations (\<open>env\<close>) over an abstract world
  \<open>'w\<close>: the Kubernetes API through \<open>client.Client\<close> and \<open>K8sClient\<close>, the event recorder, the
  Prometheus counters, the clock, random names, the order in which Go ranges over a map, and the
  serialisers of third-party packages. None of this code is the operator's, so every definition
  that uses it takes the record as an argument, and nothing is assumed of it unless a hypothesis
  says so.

  A call that fills an object through a pointer returns the object: \<open>client.Get\<close>, \<open>Create\<close> and
  \<open>Patch\<close> update the object they are given with the content the server returned. A merge patch
  (\<open>client.MergeFrom(old)\<close>) is sent for the pair of the new and the old object.

  The locale \<open>device_api\<close> states the documented behaviour of the API server for edge devices
  that the controllers rely on (RFC 7396 merge patches on the fields they change, the status
  subresource writing only the status); the theory ends with a cluster held in memory that
  satisfies it.
\<close>

section \<open>The environment\<close>

datatype counter =
    EdgeDeviceSuccessfulRegistration
  | EdgeDeviceFailedRegistration
  | EdgeDeviceUnregistration

record 'w env =
  k_dev_get :: "string \<Rightarrow> string \<Rightarrow> ('w, EdgeDevice result) io"
  k_dev_create :: "EdgeDevice \<Rightarrow> ('w, EdgeDevice result) io"
  k_dev_patch :: "EdgeDevice \<Rightarrow> EdgeDevice \<Rightarrow> ('w, EdgeDevice result) io"
  k_dev_status_patch :: "EdgeDevice \<Rightarrow> EdgeDevice \<Rightarrow> ('w, EdgeDevice result) io"
  k_dev_list :: "Selector \<Rightarrow> string \<Rightarrow> ('w, EdgeDevice list result) io"
  k_dep_get :: "string \<Rightarrow> string \<Rightarrow> ('w, EdgeDeployment result) io"
  k_dep_patch :: "EdgeDeployment \<Rightarrow> EdgeDeployment \<Rightarrow> ('w, EdgeDeployment result) io"
  k_dep_list :: "Selector \<Rightarrow> ('w, EdgeDeployment list result) io"
  k_secret_get :: "string \<Rightarrow> string \<Rightarrow> ('w, Secret result) io"
  k_secret_create :: "Secret \<Rightarrow> ('w, Secret result) io"
  k_cm_get :: "string \<Rightarrow> string \<Rightarrow> ('w, ConfigMap result) io"
  k_obc_get :: "string \<Rightarrow> string \<Rightarrow> ('w, ObjectBucketClaim result) io"
  k_obc_create :: "ObjectBucketClaim \<Rightarrow> ('w, ObjectBucketClaim result) io"
  k_route_host :: "string \<Rightarrow> string \<Rightarrow> ('w, string result) io"
  k_event :: "EdgeDevice \<Rightarrow> string \<Rightarrow> string \<Rightarrow> string \<Rightarrow> ('w, unit) io"
  k_inc :: "counter \<Rightarrow> ('w, unit) io"
  k_now :: "('w, time) io"
  k_sleep :: "int \<Rightarrow> ('w, unit) io"
  k_uuid :: "('w, string) io"
  k_rand :: "nat \<Rightarrow> ('w, string) io"
  k_range :: "string list \<Rightarrow> ('w, string list) io"
  k_sched :: "nat \<Rightarrow> ('w, nat list) io"
  k_fmt :: "string \<Rightarrow> string"
  k_fmt_2f :: "float64 \<Rightarrow> string"
  k_yaml_pod :: "PodSpec \<Rightarrow> string result"
  k_yaml_cm :: "ConfigMap \<Rightarrow> string result"
  k_yaml_allow_list :: "string \<Rightarrow> MetricsAllowList result"
  k_json_heartbeat :: "content \<Rightarrow> Heartbeat result"
  k_json_registration :: "content \<Rightarrow> RegistrationInfo result"
  k_unicode :: unicode

text \<open>\<open>fmt.Errorf(msg)\<close> with a message built at run time: the message is a format string, so it
  is the text of the error only when it has no percent sign.\<close>

definition Errorf_msg :: "'w env \<Rightarrow> string \<Rightarrow> goerr" where
  "Errorf_msg E msg = Errorf (if CHR ''%'' \<in> set msg then k_fmt E msg else msg)"

text \<open>\<open>for key, value := range m\<close>: the entries in an order the runtime chooses.\<close>

definition range_map :: "'w env \<Rightarrow> 'v gomap \<Rightarrow> ('w, 'v gomap) io" where
  "range_map E m = do {
     ks \<leftarrow> k_range E (gm_keys m);
     ret (List.map_filter (\<lambda>k. map_option (Pair k) (gm_get m k)) ks)
   }"

lemma map_filter_entries:
  assumes "gm_wf m" and "set ks = set (gm_keys m)"
  shows "set (List.map_filter (\<lambda>k. map_option (Pair k) (gm_get m k)) ks) = set m"
    (is "set ?r = _")
proof -
  have "set ?r = {(k, v). k \<in> set ks \<and> gm_get m k = Some v}"
    by (force simp: List.map_filter_def image_iff)
  also have "\<dots> = {(k, v). gm_get m k = Some v}"
    unfolding assms(2) using gm_get_keys by (intro Collect_cong) (auto simp del: set_map)
  also have "\<dots> = set m"
    using assms(1) by (auto simp: gm_wf_def dest: map_of_SomeD intro: map_of_is_SomeI)
  finally show ?thesis .
qed

lemma map_filter_entries_keys:
  "set ks \<subseteq> set (gm_keys m) \<Longrightarrow> gm_keys (List.map_filter (\<lambda>k. map_option (Pair k) (gm_get m k)) ks) = ks"
proof (induction ks)
  case Nil
  then show ?case by (simp add: List.map_filter_def)
next
  case (Cons k ks)
  then obtain v where "gm_get m k = Some v"
    by (metis gm_mem_def gm_mem_keys list.set_intros(1) not_Some_eq subsetD)
  with Cons show ?case by (simp add: List.map_filter_simps)
qed

text \<open>The ranging environment visits every key once: what the language promises of \<open>range\<close>.\<close>

definition fair_range :: "'w env \<Rightarrow> bool" where
  "fair_range E \<longleftrightarrow> (\<forall>ks w. mset (fst (run_state (k_range E ks) w)) = mset ks)"

lemma fair_range_map:
  assumes "fair_range E" and "gm_wf m"
  shows "wp (range_map E m) (\<lambda>r _. set r = set m \<and> gm_wf r \<and> length r = length m) w"
proof -
  obtain ks w' where run: "run_state (k_range E (gm_keys m)) w = (ks, w')"
    by (cases "run_state (k_range E (gm_keys m)) w")
  then have ks: "mset ks = mset (gm_keys m)"
    using assms(1) by (metis fair_range_def fst_conv)
  then have sets: "set ks = set (gm_keys m)" by (rule mset_eq_setD)
  let ?r = "List.map_filter (\<lambda>k. map_option (Pair k) (gm_get m k)) ks"
  have keys: "gm_keys ?r = ks" by (rule map_filter_entries_keys) (simp add: sets)
  have "distinct ks" using assms(2) ks by (metis gm_wf_def mset_eq_imp_distinct_iff)
  then have "gm_wf ?r" by (simp add: gm_wf_def keys)
  moreover have "set ?r = set m" by (rule map_filter_entries [OF assms(2) sets])
  moreover have "length ?r = length m" using keys ks by (metis length_map size_mset)
  ultimately show ?thesis by (simp add: range_map_def wp_def run)
qed

section \<open>What the API server promises for edge devices\<close>

text \<open>RFC 7396 on one field and on the entries of a map: only what differs between the old and the
  new object is sent, the server keeps its own value of everything else.\<close>

definition merge_field :: "'a \<Rightarrow> 'a \<Rightarrow> 'a \<Rightarrow> 'a" where
  "merge_field old new cur = (if old = new then cur else new)"

definition labels_of :: "EdgeDevice \<Rightarrow> string \<Rightarrow> string option" where
  "labels_of d = gm_lookup (om_Labels (dev_meta d))"

definition merge_labels :: "EdgeDevice \<Rightarrow> EdgeDevice \<Rightarrow> EdgeDevice \<Rightarrow> string \<Rightarrow> string option" where
  "merge_labels old new cur k = merge_field (labels_of old k) (labels_of new k) (labels_of cur k)"

abbreviation deployments_of :: "EdgeDevice \<Rightarrow> Deployment list" where
  "deployments_of d \<equiv> es_Deployments (dev_Status d)"

abbreviation finalizers_of :: "EdgeDevice \<Rightarrow> string list" where
  "finalizers_of d \<equiv> om_Finalizers (dev_meta d)"

definition dev_key :: "EdgeDevice \<Rightarrow> string \<times> string" where
  "dev_key d = (om_Namespace (dev_meta d), om_Name (dev_meta d))"

text \<open>
  The object a call was given, after the server's answer \<open>s\<close> was decoded into it: what the server
  sent is there, a field the server left out is empty or still has its local value.
\<close>

definition decoded :: "'a \<Rightarrow> 'a \<Rightarrow> 'a \<Rightarrow> 'a \<Rightarrow> bool" where
  "decoded zero s local r \<longleftrightarrow> (if s = zero then r = zero \<or> r = local else r = s)"

definition response_of :: "EdgeDevice \<Rightarrow> EdgeDevice \<Rightarrow> EdgeDevice \<Rightarrow> bool" where
  "response_of s local r \<longleftrightarrow>
     dev_key r = dev_key s
     \<and> decoded [] (deployments_of s) (deployments_of local) (deployments_of r)
     \<and> decoded [] (finalizers_of s) (finalizers_of local) (finalizers_of r)
     \<and> (\<forall>k. decoded None (labels_of s k) (labels_of local k) (labels_of r k))"

lemma response_of_self [simp]: "response_of s local s"
  by (simp add: response_of_def decoded_def)

text \<open>A device that is being deleted goes away with its last finalizer.\<close>

definition stored_after :: "EdgeDevice \<Rightarrow> EdgeDevice option" where
  "stored_after d =
     (if om_DeletionTimestamp (dev_meta d) \<noteq> None \<and> finalizers_of d = [] then None else Some d)"

text \<open>
  \<open>devs\<close> reads the devices stored in the cluster by namespace and name. The laws are about calls
  between which no other client writes: a read returns what is stored, a failed call leaves the
  devices as they are, a patch changes the patched device only, and nothing else the operator
  does touches the devices.
\<close>

locale device_api =
  fixes E :: "'w env"
    and devs :: "'w \<Rightarrow> string \<times> string \<Rightarrow> EdgeDevice option"
  assumes get_keeps: "keeps devs (k_dev_get E ns n)"
    and get_found: "run_state (k_dev_get E ns n) w = (Inr d, w') \<Longrightarrow>
          devs w (ns, n) = Some d \<and> dev_key d = (ns, n)"
    and get_not_found: "run_state (k_dev_get E ns n) w = (Inl e, w') \<Longrightarrow> IsNotFound e \<Longrightarrow>
          devs w (ns, n) = None"
    and list_keeps: "keeps devs (k_dev_list E sel ns)"
    and list_found: "run_state (k_dev_list E sel ns) w = (Inr ds, w') \<Longrightarrow>
          d \<in> set ds \<longleftrightarrow> (\<exists>n. devs w (ns, n) = Some d \<and> dev_key d = (ns, n)
                              \<and> Selector_Matches sel (om_Labels (dev_meta d)))"
    and list_distinct: "run_state (k_dev_list E sel ns) w = (Inr ds, w') \<Longrightarrow> distinct (map dev_key ds)"
    and patch_fails: "run_state (k_dev_patch E new old) w = (Inl e, w') \<Longrightarrow> devs w' = devs w"
    and patch_done: "run_state (k_dev_patch E new old) w = (Inr d, w') \<Longrightarrow>
          \<exists>cur s. devs w (dev_key new) = Some cur \<and> dev_key s = dev_key new \<and> response_of s new d
            \<and> devs w' = (devs w)(dev_key new := stored_after s)
            \<and> om_DeletionTimestamp (dev_meta s) = om_DeletionTimestamp (dev_meta cur)
            \<and> deployments_of s = deployments_of cur
            \<and> labels_of s = merge_labels old new cur
            \<and> finalizers_of s = merge_field (finalizers_of old) (finalizers_of new) (finalizers_of cur)"
    and status_fails: "run_state (k_dev_status_patch E new old) w = (Inl e, w') \<Longrightarrow> devs w' = devs w"
    and status_done: "run_state (k_dev_status_patch E new old) w = (Inr d, w') \<Longrightarrow>
          \<exists>cur s. devs w (dev_key new) = Some cur \<and> dev_key s = dev_key new \<and> response_of s new d
            \<and> devs w' = (devs w)(dev_key new \<mapsto> s)
            \<and> om_DeletionTimestamp (dev_meta s) = om_DeletionTimestamp (dev_meta cur)
            \<and> deployments_of s = merge_field (deployments_of old) (deployments_of new) (deployments_of cur)
            \<and> labels_of s = labels_of cur
            \<and> finalizers_of s = finalizers_of cur"
    and list_error: "run_state (k_dev_list E sel ns) w = (Inl e, w') \<Longrightarrow> \<not> IsNotFound e"
    and create_fails: "run_state (k_dev_create E d) w = (Inl e, w') \<Longrightarrow> devs w' = devs w"
    and create_done: "run_state (k_dev_create E d) w = (Inr r, w') \<Longrightarrow> devs w (dev_key d) = None \<and>
          (\<exists>s. dev_key s = dev_key d \<and> devs w' = (devs w)(dev_key d \<mapsto> s) \<and> response_of s d r
            \<and> labels_of s = labels_of d \<and> finalizers_of s = finalizers_of d)"
    and sleep_keeps: "keeps devs (k_sleep E ms)"
    and now_keeps: "keeps devs (k_now E)"
    and event_keeps: "keeps devs (k_event E d ty reason msg)"
    and inc_keeps: "keeps devs (k_inc E c)"
    and range_keeps: "keeps devs (k_range E ks)"
    and sched_keeps: "keeps devs (k_sched E m)"
    and dep_get_keeps: "keeps devs (k_dep_get E ns n)"
    and dep_patch_keeps: "keeps devs (k_dep_patch E dnew dold)"
    and dep_list_keeps: "keeps devs (k_dep_list E sel)"
    and secret_get_keeps: "keeps devs (k_secret_get E ns n)"
    and secret_create_keeps: "keeps devs (k_secret_create E sec)"
    and cm_get_keeps: "keeps devs (k_cm_get E ns n)"
    and obc_get_keeps: "keeps devs (k_obc_get E ns n)"
    and obc_create_keeps: "keeps devs (k_obc_create E obc)"
    and route_keeps: "keeps devs (k_route_host E ns n)"
    and uuid_keeps: "keeps devs (k_uuid E)"
    and rand_keeps: "keeps devs (k_rand E m)"
begin

lemmas quiet = get_keeps list_keeps sleep_keeps now_keeps event_keeps inc_keeps range_keeps
  sched_keeps dep_get_keeps dep_patch_keeps dep_list_keeps secret_get_keeps secret_create_keeps
  cm_get_keeps obc_get_keeps obc_create_keeps route_keeps uuid_keeps rand_keeps

lemma range_map_keeps: "keeps devs (range_map E m)"
  unfolding range_map_def by (intro keeps_bind range_keeps keeps_ret)

end

end
