(* ===== verification/Kube_Memory.thy ===== *)
theory Kube_Memory
  imports Kube
begin

text \<open>
  A cluster held in memory: a concrete environment that satisfies the laws of \<open>device_api\<close>, on
  which the properties about the cluster are exercised. Every API call first takes the next entry
  of a script of faults, so each error branch of the program can be reached.
\<close>

record mem =
  m_devs :: "EdgeDevice list"
  m_deps :: "EdgeDeployment list"
  m_secrets :: "Secret list"
  m_cms :: "ConfigMap list"
  m_obcs :: "ObjectBucketClaim list"
  m_routes :: "((string \<times> string) \<times> string) list"
  m_events :: "(string \<times> string \<times> string) list"
  m_counters :: "counter list"
  m_clock :: time
  m_faults :: "string option list"

definition empty_mem :: mem where
  "empty_mem = \<lparr>m_devs = [], m_deps = [], m_secrets = [], m_cms = [], m_obcs = [], m_routes = [],
     m_events = [], m_counters = [], m_clock = 1, m_faults = []\<rparr>"

definition not_found :: goerr where "not_found = ApiStatus StatusReasonNotFound ''not found''"
definition already_exists :: goerr where "already_exists = ApiStatus StatusReasonAlreadyExists ''already exists''"

text \<open>One API call: a scripted fault, or the given operation.\<close>

definition api_call :: "(mem \<Rightarrow> 'a result \<times> mem) \<Rightarrow> (mem, 'a result) io" where
  "api_call f = State (\<lambda>w. case m_faults w of
      Some msg # fs \<Rightarrow> (Inl (ApiStatus (StatusReasonOther ''InternalError'') msg), w\<lparr>m_faults := fs\<rparr>)
    | None # fs \<Rightarrow> f (w\<lparr>m_faults := fs\<rparr>)
    | [] \<Rightarrow> f w)"

definition meta_key :: "ObjectMeta \<Rightarrow> string \<times> string" where
  "meta_key m = (om_Namespace m, om_Name m)"

definition mem_find :: "('a \<Rightarrow> ObjectMeta) \<Rightarrow> string \<times> string \<Rightarrow> 'a list \<Rightarrow> 'a option" where
  "mem_find meta k xs = find (\<lambda>x. meta_key (meta x) = k) xs"

definition mem_get :: "('a \<Rightarrow> ObjectMeta) \<Rightarrow> (mem \<Rightarrow> 'a list) \<Rightarrow> string \<Rightarrow> string \<Rightarrow> (mem, 'a result) io" where
  "mem_get meta sel ns n = api_call (\<lambda>w.
     (case mem_find meta (ns, n) (sel w) of Some x \<Rightarrow> Inr x | None \<Rightarrow> Inl not_found, w))"

definition mem_replace :: "string \<times> string \<Rightarrow> EdgeDevice option \<Rightarrow> EdgeDevice list \<Rightarrow> EdgeDevice list" where
  "mem_replace k d ds =
     (case d of Some x \<Rightarrow> map (\<lambda>y. if dev_key y = k then x else y) ds
              | None \<Rightarrow> filter (\<lambda>y. dev_key y \<noteq> k) ds)"

fun merge_entries :: "string gomap option \<Rightarrow> string gomap option \<Rightarrow> string list \<Rightarrow> string gomap \<Rightarrow> string gomap" where
  "merge_entries old new [] m = m"
| "merge_entries old new (k # ks) m =
     merge_entries old new ks
       (if gm_lookup old k = gm_lookup new k then m
        else case gm_lookup new k of None \<Rightarrow> gm_del k m | Some v \<Rightarrow> gm_set k v m)"

definition mem_merge_labels :: "string gomap option \<Rightarrow> string gomap option \<Rightarrow> string gomap option \<Rightarrow> string gomap option" where
  "mem_merge_labels old new cur =
     Some (merge_entries old new (gm_keys (opt_list old) @ gm_keys (opt_list new)) (opt_list cur))"

definition mem_patched :: "EdgeDevice \<Rightarrow> EdgeDevice \<Rightarrow> EdgeDevice \<Rightarrow> EdgeDevice" where
  "mem_patched old new cur =
     cur\<lparr>dev_meta := (dev_meta cur)
           \<lparr>om_Labels := mem_merge_labels (om_Labels (dev_meta old)) (om_Labels (dev_meta new)) (om_Labels (dev_meta cur)),
            om_Finalizers := merge_field (finalizers_of old) (finalizers_of new) (finalizers_of cur)\<rparr>\<rparr>"

definition mem_status_patched :: "EdgeDevice \<Rightarrow> EdgeDevice \<Rightarrow> EdgeDevice \<Rightarrow> EdgeDevice" where
  "mem_status_patched old new cur =
     cur\<lparr>dev_Status :=
       \<lparr>es_Phase = merge_field (es_Phase (dev_Status old)) (es_Phase (dev_Status new)) (es_Phase (dev_Status cur)),
        es_LastSeenTime = merge_field (es_LastSeenTime (dev_Status old)) (es_LastSeenTime (dev_Status new))
          (es_LastSeenTime (dev_Status cur)),
        es_LastSyncedResourceVersion = merge_field (es_LastSyncedResourceVersion (dev_Status old))
          (es_LastSyncedResourceVersion (dev_Status new)) (es_LastSyncedResourceVersion (dev_Status cur)),
        es_Hardware = merge_field (es_Hardware (dev_Status old)) (es_Hardware (dev_Status new)) (es_Hardware (dev_Status cur)),
        es_Deployments = merge_field (deployments_of old) (deployments_of new) (deployments_of cur),
        es_DataOBC = merge_field (es_DataOBC (dev_Status old)) (es_DataOBC (dev_Status new)) (es_DataOBC (dev_Status cur)),
        es_UpgradeInformation = merge_field (es_UpgradeInformation (dev_Status old))
          (es_UpgradeInformation (dev_Status new)) (es_UpgradeInformation (dev_Status cur))\<rparr>\<rparr>"

definition mem_dev_patch ::
  "(EdgeDevice \<Rightarrow> EdgeDevice \<Rightarrow> EdgeDevice \<Rightarrow> EdgeDevice) \<Rightarrow> (EdgeDevice \<Rightarrow> EdgeDevice option) \<Rightarrow>
   EdgeDevice \<Rightarrow> EdgeDevice \<Rightarrow> (mem, EdgeDevice result) io" where
  "mem_dev_patch f after new old = api_call (\<lambda>w.
     case mem_find dev_meta (dev_key new) (m_devs w) of
       None \<Rightarrow> (Inl not_found, w)
     | Some cur \<Rightarrow> let s = f old new cur
                  in (Inr s, w\<lparr>m_devs := mem_replace (dev_key new) (after s) (m_devs w)\<rparr>))"

definition mem_dep_patch :: "EdgeDeployment \<Rightarrow> EdgeDeployment \<Rightarrow> (mem, EdgeDeployment result) io" where
  "mem_dep_patch new old = api_call (\<lambda>w.
     case mem_find dep_meta (meta_key (dep_meta new)) (m_deps w) of
       None \<Rightarrow> (Inl not_found, w)
     | Some cur \<Rightarrow>
         let s = cur\<lparr>dep_meta := (dep_meta cur)
               \<lparr>om_Labels := mem_merge_labels (om_Labels (dep_meta old)) (om_Labels (dep_meta new)) (om_Labels (dep_meta cur)),
                om_Finalizers := merge_field (om_Finalizers (dep_meta old)) (om_Finalizers (dep_meta new))
                  (om_Finalizers (dep_meta cur))\<rparr>\<rparr>
         in (Inr s, w\<lparr>m_deps :=
               (if om_DeletionTimestamp (dep_meta s) \<noteq> None \<and> om_Finalizers (dep_meta s) = []
                then filter (\<lambda>y. meta_key (dep_meta y) \<noteq> meta_key (dep_meta new)) (m_deps w)
                else map (\<lambda>y. if meta_key (dep_meta y) = meta_key (dep_meta new) then s else y) (m_deps w))\<rparr>))"

definition mem_create :: "('a \<Rightarrow> ObjectMeta) \<Rightarrow> (mem \<Rightarrow> 'a list) \<Rightarrow> ('a list \<Rightarrow> mem \<Rightarrow> mem) \<Rightarrow> 'a \<Rightarrow> (mem, 'a result) io" where
  "mem_create meta sel upd x = api_call (\<lambda>w.
     case mem_find meta (meta_key (meta x)) (sel w) of
       Some _ \<Rightarrow> (Inl already_exists, w)
     | None \<Rightarrow> (Inr x, upd (sel w @ [x]) w))"

definition mem_env :: "mem env" where
  "mem_env =
     \<lparr>k_dev_get = mem_get dev_meta m_devs,
      k_dev_create = mem_create dev_meta m_devs (\<lambda>xs. m_devs_update (\<lambda>_. xs)),
      k_dev_patch = mem_dev_patch mem_patched stored_after,
      k_dev_status_patch = mem_dev_patch mem_status_patched Some,
      k_dev_list = (\<lambda>sel ns. api_call (\<lambda>w.
        (Inr (filter (\<lambda>d. fst (dev_key d) = ns \<and> Selector_Matches sel (om_Labels (dev_meta d)))
               (List.map_filter (\<lambda>k. mem_find dev_meta k (m_devs w)) (remdups (map dev_key (m_devs w))))), w))),
      k_dep_get = mem_get dep_meta m_deps,
      k_dep_patch = mem_dep_patch,
      k_dep_list = (\<lambda>sel. api_call (\<lambda>w.
        (Inr (filter (\<lambda>d. Selector_Matches sel (om_Labels (dep_meta d))) (m_deps w)), w))),
      k_secret_get = mem_get sec_meta m_secrets,
      k_secret_create = mem_create sec_meta m_secrets (\<lambda>xs. m_secrets_update (\<lambda>_. xs)),
      k_cm_get = mem_get cm_meta m_cms,
      k_obc_get = mem_get obc_meta m_obcs,
      k_obc_create = mem_create obc_meta m_obcs (\<lambda>xs. m_obcs_update (\<lambda>_. xs)),
      k_route_host = (\<lambda>ns n. api_call (\<lambda>w.
        (case map_of (m_routes w) (ns, n) of Some h \<Rightarrow> Inr h | None \<Rightarrow> Inl not_found, w))),
      k_event = (\<lambda>d ty reason msg. State (\<lambda>w. ((), w\<lparr>m_events := m_events w @ [(ty, reason, msg)]\<rparr>))),
      k_inc = (\<lambda>c. State (\<lambda>w. ((), w\<lparr>m_counters := m_counters w @ [c]\<rparr>))),
      k_now = State (\<lambda>w. (m_clock w, w\<lparr>m_clock := m_clock w + 1\<rparr>)),
      k_sleep = (\<lambda>ms. State (\<lambda>w. ((), w\<lparr>m_clock := m_clock w + ms\<rparr>))),
      k_uuid = ret ''00000000-0000-4000-8000-000000000000'',
      k_rand = (\<lambda>n. ret (replicate n (CHR ''x''))),
      k_range = ret,
      k_sched = (\<lambda>n. ret [0 ..< n]),
      k_fmt = (\<lambda>s. s),
      k_fmt_2f = (\<lambda>_. ''1500.00''),
      k_yaml_pod = (\<lambda>p. Inr (ps_Other p)),
      k_yaml_cm = (\<lambda>c. Inr (om_Name (cm_meta c))),
      k_yaml_allow_list = (\<lambda>s. Inr \<lparr>mal_Names = Some [s]\<rparr>),
      k_json_heartbeat = (\<lambda>c. Inl (Errorf ''unexpected end of JSON input'')),
      k_json_registration = (\<lambda>c. case c of
         RawContent s \<Rightarrow> Inr \<lparr>ri_CertificateRequest = s, ri_Hardware = None\<rparr>
       | _ \<Rightarrow> Inl (Errorf ''unexpected end of JSON input'')),
      k_unicode = \<lparr>uIsLower = (\<lambda>_. False), uIsDigit = (\<lambda>_. False), uToLower = (\<lambda>r. r)\<rparr>\<rparr>"

definition mem_devs :: "mem \<Rightarrow> string \<times> string \<Rightarrow> EdgeDevice option" where
  "mem_devs w k = mem_find dev_meta k (m_devs w)"

section \<open>The laws hold\<close>

lemma mem_devs_faults [simp]: "mem_devs (w\<lparr>m_faults := fs\<rparr>) = mem_devs w"
  by (rule ext) (simp add: mem_devs_def)

lemma meta_key_dev_key [simp]: "meta_key (dev_meta d) = dev_key d"
  by (simp add: meta_key_def dev_key_def)

lemma mem_find_key: "mem_find dev_meta k ds = Some d \<Longrightarrow> dev_key d = k"
  by (auto simp: mem_find_def find_Some_iff)

lemma mem_find_in: "mem_find dev_meta k ds = Some d \<Longrightarrow> d \<in> set ds"
  by (auto simp: mem_find_def find_Some_iff)

lemma find_replace_Some:
  "dev_key x = k \<Longrightarrow> find (\<lambda>y. dev_key y = j) (map (\<lambda>y. if dev_key y = k then x else y) ds) =
     (if j = k then (if find (\<lambda>y. dev_key y = k) ds = None then None else Some x)
      else find (\<lambda>y. dev_key y = j) ds)"
  by (induction ds) auto

lemma find_replace_None:
  "find (\<lambda>y. dev_key y = j) (filter (\<lambda>y. dev_key y \<noteq> k) ds) =
     (if j = k then None else find (\<lambda>y. dev_key y = j) ds)"
  by (induction ds) auto

lemma mem_find_replace:
  assumes "mem_find dev_meta k ds = Some cur" and "\<And>x. d = Some x \<Longrightarrow> dev_key x = k"
  shows "mem_find dev_meta j (mem_replace k d ds) = (if j = k then d else mem_find dev_meta j ds)"
  using assms
  by (cases d) (simp_all add: mem_find_def mem_replace_def find_replace_Some find_replace_None)

lemma gm_get_merge_entries:
  "gm_get (merge_entries old new ks m) k =
     (if k \<in> set ks then merge_field (gm_lookup old k) (gm_lookup new k) (gm_get m k) else gm_get m k)"
  by (induction old new ks m rule: merge_entries.induct)
     (auto simp: merge_field_def split: option.splits)

lemma gm_lookup_opt_list: "gm_lookup m k = gm_get (opt_list m) k"
  by (cases m) (simp_all add: opt_list_def)

lemma gm_lookup_merge:
  "gm_lookup (mem_merge_labels old new cur) k =
     merge_field (gm_lookup old k) (gm_lookup new k) (gm_lookup cur k)"
proof (cases "k \<in> set (gm_keys (opt_list old) @ gm_keys (opt_list new))")
  case True
  then show ?thesis by (simp add: mem_merge_labels_def gm_get_merge_entries gm_lookup_opt_list [of cur])
next
  case False
  then have "gm_lookup old k = None" "gm_lookup new k = None"
    by (auto simp: gm_lookup_opt_list map_of_eq_None_iff)
  with False show ?thesis
    by (simp add: mem_merge_labels_def gm_get_merge_entries gm_lookup_opt_list [of cur] merge_field_def)
qed

lemma mem_dev_patch_run:
  assumes "run_state (mem_dev_patch f after new old) w = (r, w')"
    and key: "\<And>s x. after s = Some x \<Longrightarrow> dev_key x = dev_key s"
    and fkey: "\<And>cur. dev_key (f old new cur) = dev_key cur"
  shows "case r of
      Inl e \<Rightarrow> mem_devs w' = mem_devs w
    | Inr d \<Rightarrow> \<exists>cur. mem_devs w (dev_key new) = Some cur \<and> d = f old new cur \<and> dev_key d = dev_key new
              \<and> mem_devs w' = (mem_devs w)(dev_key new := after d)"
proof -
  have step: "case r of
      Inl e \<Rightarrow> mem_devs w' = mem_devs v
    | Inr d \<Rightarrow> \<exists>cur. mem_devs v (dev_key new) = Some cur \<and> d = f old new cur \<and> dev_key d = dev_key new
              \<and> mem_devs w' = (mem_devs v)(dev_key new := after d)"
    if run: "(case mem_find dev_meta (dev_key new) (m_devs v) of
       None \<Rightarrow> (Inl not_found, v)
     | Some cur \<Rightarrow> let s = f old new cur
                  in (Inr s, v\<lparr>m_devs := mem_replace (dev_key new) (after s) (m_devs v)\<rparr>)) = (r, w')" for v
  proof (cases "mem_find dev_meta (dev_key new) (m_devs v)")
    case None
    with run show ?thesis by auto
  next
    case (Some cur)
    with run have r: "r = Inr (f old new cur)"
      and w': "w' = v\<lparr>m_devs := mem_replace (dev_key new) (after (f old new cur)) (m_devs v)\<rparr>"
      by (auto simp: Let_def)
    have k: "dev_key (f old new cur) = dev_key new" using fkey mem_find_key [OF Some] by simp
    have "mem_devs w' j = ((mem_devs v)(dev_key new := after (f old new cur))) j" for j
      unfolding w' mem_devs_def by (simp add: mem_find_replace [OF Some] key k)
    then show ?thesis using r k Some by (auto simp: mem_devs_def)
  qed
  show ?thesis
  proof (cases "m_faults w")
    case Nil
    with assms(1) step [of w] show ?thesis by (simp add: mem_dev_patch_def api_call_def)
  next
    case (Cons x fs)
    with assms(1) step [of "w\<lparr>m_faults := fs\<rparr>"] show ?thesis
      by (cases x) (auto simp: mem_dev_patch_def api_call_def split: sum.splits)
  qed
qed

lemma api_call_pure:
  assumes "run_state (api_call (\<lambda>w. (g w, w))) w = (r, w')" and "\<And>fs. g (w\<lparr>m_faults := fs\<rparr>) = g w"
  shows "mem_devs w' = mem_devs w"
    and "r = g w \<or> (\<exists>msg. r = Inl (ApiStatus (StatusReasonOther ''InternalError'') msg))"
  using assms by (auto simp: api_call_def split: list.splits option.splits)

lemma stored_after_key: "stored_after s = Some x \<Longrightarrow> dev_key x = dev_key s"
  by (auto simp: stored_after_def split: if_splits)

lemma mem_patched_key: "dev_key (mem_patched old new cur) = dev_key cur"
  by (simp add: mem_patched_def dev_key_def)

lemma mem_status_patched_key: "dev_key (mem_status_patched old new cur) = dev_key cur"
  by (simp add: mem_status_patched_def dev_key_def)

lemmas mem_patch_run =
  mem_dev_patch_run [where f = mem_patched and after = stored_after, OF _ stored_after_key mem_patched_key]
lemmas mem_status_patch_run =
  mem_dev_patch_run [where f = mem_status_patched and after = Some, OF _ _ mem_status_patched_key, simplified]

lemma mem_get_run:
  assumes "run_state (mem_get dev_meta m_devs ns n) w = (r, w')"
  shows "mem_devs w' = mem_devs w"
    and "r = Inr d \<Longrightarrow> mem_devs w (ns, n) = Some d \<and> dev_key d = (ns, n)"
    and "r = Inl e \<Longrightarrow> IsNotFound e \<Longrightarrow> mem_devs w (ns, n) = None"
proof -
  let ?g = "\<lambda>w. case mem_find dev_meta (ns, n) (m_devs w) of Some x \<Rightarrow> Inr x | None \<Rightarrow> Inl not_found"
  note r = api_call_pure [where g = ?g, OF assms [unfolded mem_get_def], simplified]
  show "mem_devs w' = mem_devs w" by (rule r(1))
  show "r = Inr d \<Longrightarrow> mem_devs w (ns, n) = Some d \<and> dev_key d = (ns, n)"
    using r(2) mem_find_key by (auto simp: mem_devs_def split: option.splits)
  show "r = Inl e \<Longrightarrow> IsNotFound e \<Longrightarrow> mem_devs w (ns, n) = None"
    using r(2) by (auto simp: mem_devs_def split: option.splits)
qed

abbreviation mem_listed :: "Selector \<Rightarrow> string \<Rightarrow> mem \<Rightarrow> EdgeDevice list" where
  "mem_listed sel ns w \<equiv>
     filter (\<lambda>d. fst (dev_key d) = ns \<and> Selector_Matches sel (om_Labels (dev_meta d)))
       (List.map_filter (\<lambda>k. mem_find dev_meta k (m_devs w)) (remdups (map dev_key (m_devs w))))"

lemma mem_list_run:
  assumes "run_state (k_dev_list mem_env sel ns) w = (r, w')"
  shows "mem_devs w' = mem_devs w" and "r = Inr ds \<Longrightarrow> ds = mem_listed sel ns w"
  using api_call_pure [where g = "\<lambda>w. Inr (mem_listed sel ns w)" and w = w and w' = w' and r = r] assms
  by (auto simp: mem_env_def)

lemma set_mem_listed:
  "d \<in> set (mem_listed sel ns w) \<longleftrightarrow>
     (\<exists>n. mem_devs w (ns, n) = Some d \<and> dev_key d = (ns, n) \<and> Selector_Matches sel (om_Labels (dev_meta d)))"
    (is "_ \<longleftrightarrow> ?R")
proof -
  have listed: "d \<in> set (List.map_filter (\<lambda>k. mem_find dev_meta k (m_devs w)) (remdups (map dev_key (m_devs w))))
          \<longleftrightarrow> mem_find dev_meta (dev_key d) (m_devs w) = Some d" (is "?L \<longleftrightarrow> ?F")
  proof
    assume ?L
    then obtain k where "mem_find dev_meta k (m_devs w) = Some d" unfolding in_set_map_filter by blast
    moreover from this have "dev_key d = k" by (rule mem_find_key)
    ultimately show ?F by simp
  next
    assume F: ?F
    then have "dev_key d \<in> set (remdups (map dev_key (m_devs w)))" using mem_find_in [OF F] by simp
    with F show ?L unfolding in_set_map_filter by blast
  qed
  show ?thesis
  proof (cases "dev_key d")
    case (Pair ns' n)
    with listed show ?thesis by (auto simp: mem_devs_def)
  qed
qed

lemma keys_map_filter_find:
  "map dev_key (List.map_filter (\<lambda>k. mem_find dev_meta k ds) ks) = filter (\<lambda>k. mem_find dev_meta k ds \<noteq> None) ks"
  by (induction ks) (auto simp: List.map_filter_simps split: option.splits dest: mem_find_key)

lemma distinct_mem_listed: "distinct (map dev_key (mem_listed sel ns w))"
proof (rule distinct_map_filter)
  show "distinct (map dev_key (List.map_filter (\<lambda>k. mem_find dev_meta k (m_devs w)) (remdups (map dev_key (m_devs w)))))"
    unfolding keys_map_filter_find by simp
qed

lemma labels_of_mem_patched: "labels_of (mem_patched old new cur) = merge_labels old new cur"
  by (rule ext) (simp add: mem_patched_def labels_of_def merge_labels_def gm_lookup_merge)

lemma labels_of_mem_status_patched: "labels_of (mem_status_patched old new cur) = labels_of cur"
  by (simp add: mem_status_patched_def labels_of_def)

lemma api_call_keeps:
  "(\<And>w. mem_devs (snd (f w)) = mem_devs w) \<Longrightarrow> keeps mem_devs (api_call f)"
  by (auto simp: keeps_def api_call_def split: list.splits option.splits)

lemma mem_devs_other [simp]:
  "mem_devs (w\<lparr>m_deps := x1\<rparr>) = mem_devs w" "mem_devs (w\<lparr>m_secrets := x2\<rparr>) = mem_devs w"
  "mem_devs (w\<lparr>m_obcs := x3\<rparr>) = mem_devs w" "mem_devs (w\<lparr>m_events := x4\<rparr>) = mem_devs w"
  "mem_devs (w\<lparr>m_counters := x5\<rparr>) = mem_devs w" "mem_devs (w\<lparr>m_clock := x6\<rparr>) = mem_devs w"
  by (auto simp: mem_devs_def)

lemma mem_quiet:
  "keeps mem_devs (k_sleep mem_env ms)" "keeps mem_devs (k_now mem_env)"
  "keeps mem_devs (k_event mem_env d ty reason msg)" "keeps mem_devs (k_inc mem_env c)"
  "keeps mem_devs (k_range mem_env ks)" "keeps mem_devs (k_sched mem_env m)"
  "keeps mem_devs (k_uuid mem_env)" "keeps mem_devs (k_rand mem_env m)"
  by (simp_all add: mem_env_def keeps_def)

lemma mem_dep_quiet:
  "keeps mem_devs (k_dep_get mem_env ns n)" "keeps mem_devs (k_dep_patch mem_env dnew dold)"
  "keeps mem_devs (k_dep_list mem_env sel)"
  by (auto simp: mem_env_def mem_get_def mem_dep_patch_def Let_def intro!: api_call_keeps split: option.splits)

lemma mem_object_quiet:
  "keeps mem_devs (k_secret_get mem_env ns n)" "keeps mem_devs (k_secret_create mem_env sec)"
  "keeps mem_devs (k_cm_get mem_env ns n)" "keeps mem_devs (k_obc_get mem_env ns n)"
  "keeps mem_devs (k_obc_create mem_env obc)" "keeps mem_devs (k_route_host mem_env ns n)"
  by (auto simp: mem_env_def mem_get_def mem_create_def intro!: api_call_keeps split: option.splits)

lemma find_snoc: "find P (xs @ [x]) = (case find P xs of Some y \<Rightarrow> Some y | None \<Rightarrow> if P x then Some x else None)"
  by (induction xs) auto

lemma mem_create_run:
  assumes "run_state (k_dev_create mem_env d) w = (r, w')"
  shows "case r of Inl _ \<Rightarrow> mem_devs w' = mem_devs w
         | Inr x \<Rightarrow> x = d \<and> mem_devs w (dev_key d) = None \<and> mem_devs w' = (mem_devs w)(dev_key d \<mapsto> d)"
proof -
  have step: "mem_devs (v\<lparr>m_devs := m_devs v @ [d]\<rparr>) = (mem_devs v)(dev_key d \<mapsto> d)"
    if "mem_find dev_meta (dev_key d) (m_devs v) = None" for v
    using that by (auto simp: mem_devs_def mem_find_def find_snoc fun_eq_iff split: option.split)
  have step': "mem_devs (w\<lparr>m_faults := fs, m_devs := m_devs w @ [d]\<rparr>) = (mem_devs w)(dev_key d \<mapsto> d)"
    if "mem_find dev_meta (dev_key d) (m_devs w) = None" for fs
    using that step [of "w\<lparr>m_faults := fs\<rparr>"] by simp
  show ?thesis
    using assms step step'
    by (auto simp: mem_env_def mem_create_def api_call_def mem_devs_def [of w] split: list.splits option.splits)
qed

interpretation mem: device_api mem_env mem_devs
proof (unfold_locales, goal_cases)
  case (1 ns n)
  then show ?case by (rule keepsI) (use mem_get_run(1) in \<open>simp add: mem_env_def\<close>)
next
  case (2 ns n w d w')
  then show ?case using mem_get_run(2) by (simp add: mem_env_def)
next
  case (3 ns n w e w')
  then show ?case using mem_get_run(3) by (simp add: mem_env_def)
next
  case (4 sel ns)
  then show ?case by (rule keepsI) (rule mem_list_run(1))
next
  case (5 sel ns w ds w' d)
  then have "ds = mem_listed sel ns w" using mem_list_run(2) by blast
  then show ?case by (simp only: set_mem_listed)
next
  case (6 sel ns w ds w')
  then have "ds = mem_listed sel ns w" using mem_list_run(2) by blast
  then show ?case by (simp only: distinct_mem_listed)
next
  case (7 new old w e w')
  then show ?case using mem_patch_run [of new old w "Inl e"] by (simp add: mem_env_def)
next
  case (8 new old w d w')
  then obtain cur where cur: "mem_devs w (dev_key new) = Some cur \<and> d = mem_patched old new cur
      \<and> dev_key d = dev_key new \<and> mem_devs w' = (mem_devs w)(dev_key new := stored_after d)"
    using mem_patch_run [of new old w "Inr d" w'] by (auto simp: mem_env_def)
  then have "labels_of d = merge_labels old new cur" by (simp add: labels_of_mem_patched)
  moreover from cur have "om_DeletionTimestamp (dev_meta d) = om_DeletionTimestamp (dev_meta cur)"
    "deployments_of d = deployments_of cur"
    "finalizers_of d = merge_field (finalizers_of old) (finalizers_of new) (finalizers_of cur)"
    by (simp_all add: mem_patched_def)
  ultimately show ?case using cur response_of_self by blast
next
  case (9 new old w e w')
  then show ?case using mem_status_patch_run [of new old w "Inl e"] by (simp add: mem_env_def)
next
  case (10 new old w d w')
  then obtain cur where cur: "mem_devs w (dev_key new) = Some cur \<and> d = mem_status_patched old new cur
      \<and> dev_key d = dev_key new \<and> mem_devs w' = (mem_devs w)(dev_key new \<mapsto> d)"
    using mem_status_patch_run [of new old w "Inr d" w'] by (auto simp: mem_env_def)
  then have "labels_of d = labels_of cur" by (simp add: labels_of_mem_status_patched)
  moreover from cur have "om_DeletionTimestamp (dev_meta d) = om_DeletionTimestamp (dev_meta cur)"
    "deployments_of d = merge_field (deployments_of old) (deployments_of new) (deployments_of cur)"
    "finalizers_of d = finalizers_of cur"
    by (simp_all add: mem_status_patched_def)
  ultimately show ?case using cur response_of_self by blast
next
  case (11 sel ns w e w')
  then show ?case by (auto simp: mem_env_def api_call_def split: list.splits option.splits)
next
  case (12 d w e w')
  then show ?case using mem_create_run [of d w "Inl e"] by simp
next
  case (13 d w r w')
  then show ?case using mem_create_run [of d w "Inr r"] by auto
qed (rule mem_quiet mem_dep_quiet mem_object_quiet)+

lemma mem_fair_range: "fair_range mem_env"
  by (simp add: fair_range_def mem_env_def)

end
