(* ===== verification/Repositories.thy ===== *)
theory Repositories
  imports Kube_Memory
begin

text \<open>
  \<open>internal/repository/edgedevice\<close> and \<open>internal/repository/edgedeployment\<close>: the only code
  through which the rest of the operator reads and writes the two custom resources. A method that
  changes the object behind its pointer argument returns that object beside its error. The locale
  \<open>device_repository\<close> is the contract of the \<open>edgedevice.Repository\<close> interface; every API
  server that satisfies \<open>device_api\<close> makes \<open>CRRepository\<close> satisfy it.
\<close>

section \<open>edgedevice.CRRepository\<close>

definition dev_Read :: "'w env \<Rightarrow> string \<Rightarrow> string \<Rightarrow> ('w, EdgeDevice result) io" where
  "dev_Read E name namespace = k_dev_get E namespace name"

definition dev_Create :: "'w env \<Rightarrow> EdgeDevice \<Rightarrow> ('w, EdgeDevice result) io" where
  "dev_Create E edgeDevice = k_dev_create E edgeDevice"

text \<open>\<open>PatchStatus(ctx, edgeDevice, patch)\<close> with \<open>patch = client.MergeFrom(old)\<close>.\<close>

definition dev_PatchStatus :: "'w env \<Rightarrow> EdgeDevice \<Rightarrow> EdgeDevice \<Rightarrow> ('w, EdgeDevice result) io" where
  "dev_PatchStatus E edgeDevice old = k_dev_status_patch E edgeDevice old"

definition dev_Patch :: "'w env \<Rightarrow> EdgeDevice \<Rightarrow> EdgeDevice \<Rightarrow> ('w, EdgeDevice result) io" where
  "dev_Patch E old new = k_dev_patch E new old"

definition dev_ListForSelector ::
  "'w env \<Rightarrow> LabelSelector option \<Rightarrow> string \<Rightarrow> ('w, EdgeDevice list result) io" where
  "dev_ListForSelector E selector namespace =
     (case LabelSelectorAsSelector selector of
        Inl err \<Rightarrow> ret (Inl err)
      | Inr s \<Rightarrow> k_dev_list E s namespace)"

fun drop_finalizer :: "string \<Rightarrow> string list \<Rightarrow> string list" where
  "drop_finalizer finalizer [] = []"
| "drop_finalizer finalizer (f # fs) =
     (if f \<noteq> finalizer then f # drop_finalizer finalizer fs else drop_finalizer finalizer fs)"

lemma drop_finalizer_filter: "drop_finalizer f fs = filter (\<lambda>x. x \<noteq> f) fs"
  by (induction fs) auto

definition set_finalizers :: "string list \<Rightarrow> EdgeDevice \<Rightarrow> EdgeDevice" where
  "set_finalizers fs d = d\<lparr>dev_meta := (dev_meta d)\<lparr>om_Finalizers := fs\<rparr>\<rparr>"

definition set_labels :: "string gomap option \<Rightarrow> EdgeDevice \<Rightarrow> EdgeDevice" where
  "set_labels ls d = d\<lparr>dev_meta := (dev_meta d)\<lparr>om_Labels := ls\<rparr>\<rparr>"

definition set_status :: "EdgeDeviceStatus \<Rightarrow> EdgeDevice \<Rightarrow> EdgeDevice" where
  "set_status st d = d\<lparr>dev_Status := st\<rparr>"

definition set_deployments :: "Deployment list \<Rightarrow> EdgeDevice \<Rightarrow> EdgeDevice" where
  "set_deployments ds d = d\<lparr>dev_Status := (dev_Status d)\<lparr>es_Deployments := ds\<rparr>\<rparr>"

lemma dev_setters [simp]:
  "dev_key (set_finalizers fs d) = dev_key d" "dev_key (set_labels ls d) = dev_key d"
  "dev_key (set_status st d) = dev_key d" "dev_key (set_deployments ds d) = dev_key d"
  "finalizers_of (set_finalizers fs d) = fs" "finalizers_of (set_labels ls d) = finalizers_of d"
  "finalizers_of (set_status st d) = finalizers_of d" "finalizers_of (set_deployments ds d) = finalizers_of d"
  "labels_of (set_finalizers fs d) = labels_of d" "labels_of (set_labels ls d) = gm_lookup ls"
  "labels_of (set_status st d) = labels_of d" "labels_of (set_deployments ds d) = labels_of d"
  "deployments_of (set_finalizers fs d) = deployments_of d" "deployments_of (set_labels ls d) = deployments_of d"
  "deployments_of (set_deployments ds d) = ds"
  by (simp_all add: set_finalizers_def set_labels_def set_status_def set_deployments_def dev_key_def labels_of_def)

definition dev_RemoveFinalizer ::
  "'w env \<Rightarrow> EdgeDevice \<Rightarrow> string \<Rightarrow> ('w, goerr option \<times> EdgeDevice) io" where
  "dev_RemoveFinalizer E edgeDevice finalizer = do {
     let cp = set_finalizers (drop_finalizer finalizer (finalizers_of edgeDevice)) edgeDevice;
     r \<leftarrow> dev_Patch E edgeDevice cp;
     case r of
       Inl err \<Rightarrow> ret (None, edgeDevice)
     | Inr cp' \<Rightarrow> ret (None, set_finalizers (finalizers_of cp') edgeDevice)
   }"

text \<open>\<open>reflect.DeepEqual\<close> of two label maps, of which either may be nil.\<close>

definition labels_DeepEqual :: "string gomap option \<Rightarrow> string gomap option \<Rightarrow> bool" where
  "labels_DeepEqual a b =
     (case (a, b) of (None, None) \<Rightarrow> True | (Some x, Some y) \<Rightarrow> gm_eq x y | _ \<Rightarrow> False)"

definition dev_updateLabels ::
  "'w env \<Rightarrow> EdgeDevice \<Rightarrow> string gomap option \<Rightarrow> ('w, goerr option \<times> EdgeDevice) io" where
  "dev_updateLabels E device labels =
     (let deviceLabels = gm_put_all (opt_list (om_Labels (dev_meta device))) (opt_list labels) in
      if labels_DeepEqual (Some deviceLabels) (om_Labels (dev_meta device)) then ret (None, device)
      else do {
        let deviceCopy = set_labels (Some deviceLabels) device;
        r \<leftarrow> dev_Patch E device deviceCopy;
        case r of
          Inl err \<Rightarrow> ret (Some err, device)
        | Inr deviceCopy' \<Rightarrow> ret (None, set_labels (om_Labels (dev_meta deviceCopy')) device)
      })"

fun dev_UpdateLabels_retry ::
  "'w env \<Rightarrow> EdgeDevice \<Rightarrow> string gomap option \<Rightarrow> goerr \<Rightarrow> int list \<Rightarrow> ('w, goerr option) io" where
  "dev_UpdateLabels_retry E device labels err [] = ret (Some err)"
| "dev_UpdateLabels_retry E device labels err (i # is) = do {
     _ \<leftarrow> k_sleep E (i * 50);
     r \<leftarrow> dev_Read E (om_Name (dev_meta device)) (om_Namespace (dev_meta device));
     case r of
       Inl _ \<Rightarrow> dev_UpdateLabels_retry E device labels err is
     | Inr device2 \<Rightarrow> do {
         (err2, _) \<leftarrow> dev_updateLabels E device2 labels;
         case err2 of
           None \<Rightarrow> ret None
         | Some _ \<Rightarrow> dev_UpdateLabels_retry E device labels err is
       }
   }"

definition dev_UpdateLabels ::
  "'w env \<Rightarrow> EdgeDevice \<Rightarrow> string gomap option \<Rightarrow> ('w, goerr option \<times> EdgeDevice) io" where
  "dev_UpdateLabels E device labels = do {
     (err, device') \<leftarrow> dev_updateLabels E device labels;
     case err of
       None \<Rightarrow> ret (None, device')
     | Some e \<Rightarrow> do {
         err' \<leftarrow> dev_UpdateLabels_retry E device labels e [1, 2, 3];
         ret (err', device)
       }
   }"

section \<open>edgedeployment.CRRespository\<close>

definition dep_Read :: "'w env \<Rightarrow> string \<Rightarrow> string \<Rightarrow> ('w, EdgeDeployment result) io" where
  "dep_Read E name namespace = k_dep_get E namespace name"

definition dep_Patch :: "'w env \<Rightarrow> EdgeDeployment \<Rightarrow> EdgeDeployment \<Rightarrow> ('w, EdgeDeployment result) io" where
  "dep_Patch E old new = k_dep_patch E new old"

definition dep_set_finalizers :: "string list \<Rightarrow> EdgeDeployment \<Rightarrow> EdgeDeployment" where
  "dep_set_finalizers fs d = d\<lparr>dep_meta := (dep_meta d)\<lparr>om_Finalizers := fs\<rparr>\<rparr>"

definition dep_RemoveFinalizer ::
  "'w env \<Rightarrow> EdgeDeployment \<Rightarrow> string \<Rightarrow> ('w, goerr option \<times> EdgeDeployment) io" where
  "dep_RemoveFinalizer E edgeDeployment finalizer = do {
     let cp = dep_set_finalizers (drop_finalizer finalizer (om_Finalizers (dep_meta edgeDeployment))) edgeDeployment;
     r \<leftarrow> dep_Patch E edgeDeployment cp;
     case r of
       Inl err \<Rightarrow> ret (None, edgeDeployment)
     | Inr cp' \<Rightarrow> ret (None, dep_set_finalizers (om_Finalizers (dep_meta cp')) edgeDeployment)
   }"

definition dep_ListByLabel ::
  "'w env \<Rightarrow> string \<Rightarrow> string \<Rightarrow> ('w, EdgeDeployment list result) io" where
  "dep_ListByLabel E labelName labelValue =
     (case NewRequirement labelName Equals [labelValue] of
        Inl err \<Rightarrow> ret (Inl err)
      | Inr requirement \<Rightarrow> k_dep_list E (internalSelector [requirement]))"

section \<open>The contract of edgedevice.Repository\<close>

text \<open>
  What the clients of the interface use: reading returns the stored device and writes nothing,
  a status patch changes the status of one device only, a patch its labels and finalizers only,
  \<open>UpdateLabels\<close> without error leaves every requested label on the stored device and the other
  labels, the deployments and the other devices alone.
\<close>

locale device_repository =
  fixes read :: "string \<Rightarrow> string \<Rightarrow> ('w, EdgeDevice result) io"
    and patch_status :: "EdgeDevice \<Rightarrow> EdgeDevice \<Rightarrow> ('w, EdgeDevice result) io"
    and patch :: "EdgeDevice \<Rightarrow> EdgeDevice \<Rightarrow> ('w, EdgeDevice result) io"
    and devs :: "'w \<Rightarrow> string \<times> string \<Rightarrow> EdgeDevice option"
  assumes read_spec: "wp (read n ns) (\<lambda>r w'. devs w' = devs w \<and>
            (case r of Inr d \<Rightarrow> devs w (ns, n) = Some d \<and> dev_key d = (ns, n)
                     | Inl e \<Rightarrow> IsNotFound e \<longrightarrow> devs w (ns, n) = None)) w"
    and patch_status_spec: "devs w (dev_key new) = Some cur \<Longrightarrow>
          wp (patch_status new old) (\<lambda>r w'.
            case r of Inl _ \<Rightarrow> devs w' = devs w
            | Inr d \<Rightarrow> \<exists>s. dev_key s = dev_key new \<and> response_of s new d
                \<and> devs w' = (devs w)(dev_key new \<mapsto> s)
                \<and> om_DeletionTimestamp (dev_meta s) = om_DeletionTimestamp (dev_meta cur)
                \<and> deployments_of s = merge_field (deployments_of old) (deployments_of new) (deployments_of cur)
                \<and> labels_of s = labels_of cur \<and> finalizers_of s = finalizers_of cur) w"
    and patch_spec: "devs w (dev_key new) = Some cur \<Longrightarrow>
          wp (patch old new) (\<lambda>r w'.
            case r of Inl _ \<Rightarrow> devs w' = devs w
            | Inr d \<Rightarrow> \<exists>s. dev_key s = dev_key new \<and> response_of s new d
                \<and> devs w' = (devs w)(dev_key new := stored_after s)
                \<and> om_DeletionTimestamp (dev_meta s) = om_DeletionTimestamp (dev_meta cur)
                \<and> deployments_of s = deployments_of cur
                \<and> labels_of s = merge_labels old new cur
                \<and> finalizers_of s = merge_field (finalizers_of old) (finalizers_of new) (finalizers_of cur)) w"

sublocale device_api \<subseteq> repo: device_repository "dev_Read E" "dev_PatchStatus E" "dev_Patch E" devs
proof (unfold_locales, goal_cases)
  case (1 n ns w)
  show ?case
  proof (rule wp_intro)
    fix r w' assume run: "run_state (dev_Read E n ns) w = (r, w')"
    then have "devs w' = devs w" using keeps_run [OF get_keeps] by (simp add: dev_Read_def)
    with run show "devs w' = devs w \<and>
       (case r of Inr d \<Rightarrow> devs w (ns, n) = Some d \<and> dev_key d = (ns, n)
                | Inl e \<Rightarrow> IsNotFound e \<longrightarrow> devs w (ns, n) = None)"
      using get_found get_not_found by (auto simp: dev_Read_def split: sum.splits)
  qed
next
  case (2 w new cur old)
  then show ?case
    using status_fails status_done
    by (intro wp_intro) (fastforce simp: dev_PatchStatus_def split: sum.splits)
next
  case (3 w new cur old)
  then show ?case
    using patch_fails patch_done
    by (intro wp_intro) (fastforce simp: dev_Patch_def split: sum.splits)
qed

section \<open>UpdateLabels against the server\<close>

text \<open>The labels a device has once \<open>labels\<close> have been put on it.\<close>

definition labelled_with :: "string gomap option \<Rightarrow> EdgeDevice \<Rightarrow> EdgeDevice \<Rightarrow> bool" where
  "labelled_with labels d s \<longleftrightarrow>
     dev_key s = dev_key d \<and> deployments_of s = deployments_of d
     \<and> om_DeletionTimestamp (dev_meta s) = om_DeletionTimestamp (dev_meta d)
     \<and> (\<forall>k. labels_of s k = (case gm_lookup labels k of Some v \<Rightarrow> Some v | None \<Rightarrow> labels_of d k))"

lemma labels_DeepEqual_lookup: "labels_DeepEqual (Some m) ls \<Longrightarrow> gm_lookup ls = gm_get m"
  by (cases ls) (auto simp: labels_DeepEqual_def gm_eq_iff fun_eq_iff)

lemma gm_lookup_put_all:
  "gm_wf (opt_list labels) \<Longrightarrow> gm_get (gm_put_all (opt_list ls) (opt_list labels)) k =
     (case gm_lookup labels k of Some v \<Rightarrow> Some v | None \<Rightarrow> gm_lookup ls k)"
  by (simp add: gm_get_put_all gm_lookup_opt_list split: option.split)

context device_api
begin

lemma updateLabels_spec:
  assumes stored: "devs w (dev_key d) = Some d" and alive: "om_DeletionTimestamp (dev_meta d) = None"
    and wf: "gm_wf (opt_list labels)"
  shows "wp (dev_updateLabels E d labels) (\<lambda>(err, d') w'.
           case err of Some _ \<Rightarrow> devs w' = devs w
           | None \<Rightarrow> \<exists>s. devs w' = (devs w)(dev_key d \<mapsto> s) \<and> labelled_with labels d s) w"
proof -
  let ?ls = "gm_put_all (opt_list (om_Labels (dev_meta d))) (opt_list labels)"
  note put = gm_lookup_put_all [OF wf]
  show ?thesis
  proof (cases "labels_DeepEqual (Some ?ls) (om_Labels (dev_meta d))")
    case True
    then have "labels_of d = gm_get ?ls" by (simp add: labels_DeepEqual_lookup labels_of_def)
    then have "labelled_with labels d d"
      unfolding labelled_with_def by (metis labels_of_def put)
    with True stored show ?thesis by (simp add: dev_updateLabels_def) (metis fun_upd_triv)
  next
    case False
    let ?cp = "set_labels (Some ?ls) d"
    have "devs w (dev_key ?cp) = Some d" using stored by simp
    from repo.patch_spec [OF this, of d] show ?thesis
    proof (simp add: False dev_updateLabels_def Let_def, elim wp_conseq, goal_cases)
      case (1 r w')
      then show ?case
      proof (cases r)
        case (Inr d')
        with 1 obtain s where s: "dev_key s = dev_key d" "devs w' = (devs w)(dev_key d := stored_after s)"
          "om_DeletionTimestamp (dev_meta s) = om_DeletionTimestamp (dev_meta d)"
          "deployments_of s = deployments_of d" "labels_of s = merge_labels d ?cp d"
          by auto
        have "labels_of s k = (case gm_lookup labels k of Some v \<Rightarrow> Some v | None \<Rightarrow> labels_of d k)" for k
          unfolding s(5) merge_labels_def labels_of_def [of d] put [symmetric]
          by (simp add: merge_field_def)
        then have "labelled_with labels d s" using s by (simp add: labelled_with_def)
        moreover have "stored_after s = Some s" using s(3) alive by (simp add: stored_after_def)
        ultimately show ?thesis using Inr s by auto
      qed simp
    qed
  qed
qed

lemma UpdateLabels_retry_spec:
  assumes "devs w (dev_key d) = Some d" and "om_DeletionTimestamp (dev_meta d) = None"
    and "gm_wf (opt_list labels)"
  shows "wp (dev_UpdateLabels_retry E d labels err is) (\<lambda>e w'.
           case e of Some e' \<Rightarrow> devs w' = devs w \<and> e' = err
           | None \<Rightarrow> \<exists>s. devs w' = (devs w)(dev_key d \<mapsto> s) \<and> labelled_with labels d s) w"
  using assms
proof (induction "is" arbitrary: w)
  case Nil
  then show ?case by simp
next
  case (Cons i "is")
  have key: "dev_key d = (om_Namespace (dev_meta d), om_Name (dev_meta d))" by (simp add: dev_key_def)
  show ?case
  proof (simp, rule wp_conseq [OF keeps_wp [OF sleep_keeps]])
    fix w1 assume w1: "devs w1 = devs w"
    let ?Q = "\<lambda>e w'. case e of Some e' \<Rightarrow> devs w' = devs w \<and> e' = err
           | None \<Rightarrow> \<exists>s. devs w' = (devs w)(dev_key d \<mapsto> s) \<and> labelled_with labels d s"
    have IH: "wp (dev_UpdateLabels_retry E d labels err is) ?Q w2" if "devs w2 = devs w" for w2
      using Cons.IH [of w2] Cons.prems unfolding that by blast
    show "wp (dev_Read E (om_Name (dev_meta d)) (om_Namespace (dev_meta d)))
       (\<lambda>r. wp (case r of Inl _ \<Rightarrow> dev_UpdateLabels_retry E d labels err is
          | Inr device2 \<Rightarrow> dev_updateLabels E device2 labels \<bind>
              (\<lambda>(err2, _). case err2 of None \<Rightarrow> ret None | Some _ \<Rightarrow> dev_UpdateLabels_retry E d labels err is)) ?Q) w1"
    proof (rule wp_conseq [OF repo.read_spec])
      fix r w2
      assume r: "devs w2 = devs w1 \<and> (case r of
          Inr d' \<Rightarrow> devs w1 (om_Namespace (dev_meta d), om_Name (dev_meta d)) = Some d' \<and>
                    dev_key d' = (om_Namespace (dev_meta d), om_Name (dev_meta d))
        | Inl e \<Rightarrow> IsNotFound e \<longrightarrow> devs w1 (om_Namespace (dev_meta d), om_Name (dev_meta d)) = None)"
      show "wp (case r of Inl _ \<Rightarrow> dev_UpdateLabels_retry E d labels err is
          | Inr device2 \<Rightarrow> dev_updateLabels E device2 labels \<bind>
              (\<lambda>(err2, _). case err2 of None \<Rightarrow> ret None | Some _ \<Rightarrow> dev_UpdateLabels_retry E d labels err is)) ?Q w2"
      proof (cases r)
        case (Inl e)
        with IH r w1 show ?thesis by simp
      next
        case (Inr d2)
        with r w1 Cons.prems key have d2: "d2 = d" by simp
        have "devs w2 (dev_key d) = Some d" using r w1 Cons.prems by simp
        from updateLabels_spec [OF this Cons.prems(2,3)] show ?thesis
          unfolding Inr d2 using r w1 IH
          by (simp, elim wp_conseq) (force split: option.split_asm)
      qed
    qed
  qed
qed

lemma UpdateLabels_spec:
  assumes "devs w (dev_key d) = Some d" and "om_DeletionTimestamp (dev_meta d) = None"
    and "gm_wf (opt_list labels)"
  shows "wp (dev_UpdateLabels E d labels) (\<lambda>(err, d') w'.
           case err of Some _ \<Rightarrow> devs w' = devs w
           | None \<Rightarrow> \<exists>s. devs w' = (devs w)(dev_key d \<mapsto> s) \<and> labelled_with labels d s) w"
  unfolding dev_UpdateLabels_def
proof (simp, rule wp_conseq [OF updateLabels_spec [OF assms]], clarsimp, goal_cases)
  case (1 err d' w')
  then show ?case
  proof (cases err)
    case None
    with 1 show ?thesis by simp
  next
    case (Some e)
    with 1 have "devs w' = devs w" by simp
    with UpdateLabels_retry_spec [of w' d labels e "[1, 2, 3]"] assms Some show ?thesis
      by (simp, elim wp_conseq) (auto split: option.splits)
  qed
qed

end

section \<open>Properties\<close>

text \<open>\<open>RemoveFinalizer\<close> reports success whatever the server answers: no API failure of the
  patch reaches the caller, and on a failed patch the caller's object is unchanged.\<close>

theorem RemoveFinalizer_never_fails:
  "wp (dev_RemoveFinalizer E d f) (\<lambda>(err, d') _. err = None) w \<and>
   (run_state (dev_Patch E d (set_finalizers (drop_finalizer f (finalizers_of d)) d)) w = (Inl e, w') \<longrightarrow>
      run_state (dev_RemoveFinalizer E d f) w = ((None, d), w'))"
  by (auto simp: dev_RemoveFinalizer_def wp_def split: prod.splits sum.splits)

definition sample_device :: EdgeDevice where
  "sample_device = \<lparr>dev_meta = \<lparr>om_Name = ''dev'', om_Namespace = ''default'', om_Labels = None,
       om_Finalizers = [''a'', ''b''], om_DeletionTimestamp = None, om_ResourceVersion = ''1''\<rparr>,
     dev_Spec = empty_spec, dev_Status = empty_status\<rparr>"

definition sample_mem :: mem where
  "sample_mem = empty_mem\<lparr>m_devs := [sample_device], m_faults := [Some ''conflict'']\<rparr>"

theorem RemoveFinalizer_never_fails_witness:
  "run_state (dev_RemoveFinalizer mem_env sample_device ''a'') sample_mem
     = ((None, sample_device), sample_mem\<lparr>m_faults := []\<rparr>)"
proof -
  have "run_state (dev_Patch mem_env sample_device
      (set_finalizers (drop_finalizer ''a'' (finalizers_of sample_device)) sample_device)) sample_mem
    = (Inl (ApiStatus (StatusReasonOther ''InternalError'') ''conflict''), sample_mem\<lparr>m_faults := []\<rparr>)"
    by (simp add: dev_Patch_def mem_env_def mem_dev_patch_def api_call_def sample_mem_def)
  then show ?thesis using RemoveFinalizer_never_fails [of mem_env sample_device "''a''" sample_mem] by blast
qed

text \<open>When \<open>UpdateLabels\<close> reports success, possibly after retries, the stored device carries
  every requested label and otherwise the labels it had, its deployments and every other device
  are untouched; when it reports an error the devices are as before.\<close>

theorem UpdateLabels_stores_labels:
  assumes "device_api E devs" and "devs w (dev_key d) = Some d"
    and "om_DeletionTimestamp (dev_meta d) = None" and "gm_wf (opt_list labels)"
  shows "wp (dev_UpdateLabels E d labels) (\<lambda>(err, d') w'.
           case err of Some _ \<Rightarrow> devs w' = devs w
           | None \<Rightarrow> \<exists>s. devs w' = (devs w)(dev_key d \<mapsto> s) \<and> labelled_with labels d s) w"
  using assms by (rule device_api.UpdateLabels_spec)

theorem UpdateLabels_stores_labels_witness:
  "wp (dev_UpdateLabels mem_env sample_device (Some [(''k'', ''v'')])) (\<lambda>(err, d') w'.
      case err of Some _ \<Rightarrow> mem_devs w' = mem_devs sample_mem
      | None \<Rightarrow> \<exists>s. mem_devs w' = (mem_devs sample_mem)(dev_key sample_device \<mapsto> s)
                   \<and> labelled_with (Some [(''k'', ''v'')]) sample_device s) sample_mem"
  by (rule UpdateLabels_stores_labels [OF mem.device_api_axioms])
     (simp_all add: mem_devs_def sample_mem_def mem_find_def opt_list_def gm_wf_def, simp add: sample_device_def)

end
