(* ===== verification/Storage_Claimer.thy ===== *)
theory Storage_Claimer
  imports Repositories
begin

text \<open>
  \<open>internal/storage\<close>: whether a device wants object storage, the bucket claim made for it, and the
  S3 configuration sent to it, either from the claim's config map, route and secrets or from a
  config map and a secret named by the device.
\<close>

section \<open>storage.go\<close>

definition getS3 :: "EdgeDevice option \<Rightarrow> S3Storage option" where
  "getS3 device = (case device of
     None \<Rightarrow> None
   | Some d \<Rightarrow> (case sp_Storage (dev_Spec d) of None \<Rightarrow> None | Some storageObj \<Rightarrow> st_S3 storageObj))"

definition ShouldUseExternalConfig :: "EdgeDevice option \<Rightarrow> bool" where
  "ShouldUseExternalConfig device = (case getS3 device of
     None \<Rightarrow> False
   | Some s3Obj \<Rightarrow> s3_ConfigMapName s3Obj \<noteq> [] \<or> s3_SecretName s3Obj \<noteq> [])"

definition ShouldCreateOBC :: "EdgeDevice option \<Rightarrow> bool" where
  "ShouldCreateOBC device = (case getS3 device of
     None \<Rightarrow> False
   | Some s3Obj \<Rightarrow> if \<not> ShouldUseExternalConfig device then s3_CreateOBC s3Obj else False)"

definition GetClaim :: "'w env \<Rightarrow> string \<Rightarrow> string \<Rightarrow> ('w, ObjectBucketClaim result) io" where
  "GetClaim E name namespace = k_obc_get E namespace name"

definition CreateClaim :: "'w env \<Rightarrow> EdgeDevice \<Rightarrow> ('w, ObjectBucketClaim result) io" where
  "CreateClaim E device = k_obc_create E
     \<lparr>obc_meta = new_meta (om_Name (dev_meta device)) (om_Namespace (dev_meta device)),
      obc_GenerateBucketName = om_Name (dev_meta device),
      obc_StorageClassName = ''openshift-storage.noobaa.io''\<rparr>"

definition GetStorageConfiguration ::
  "'w env \<Rightarrow> EdgeDevice option \<Rightarrow> ('w, S3StorageConfiguration result) io" where
  "GetStorageConfiguration E device =
     require device (Errorf ''Cannot get device'') (\<lambda>dev.
     require (es_DataOBC (dev_Status dev)) (Errorf ''Cannot get device OBC config'') (\<lambda>claim.
     let ns = om_Namespace (dev_meta dev) in
     try_io (GetClaim E claim ns) (\<lambda>obc.
     try_io (k_cm_get E ns (om_Name (obc_meta obc))) (\<lambda>cm.
     try_io (k_route_host E ''openshift-storage'' ''s3'') (\<lambda>host.
     try_io (k_secret_get E ns (om_Name (obc_meta obc))) (\<lambda>secret.
     require (gm_lookup (sec_Data secret) ''AWS_ACCESS_KEY_ID'')
       (Errorf ''Cannot get AWS_ACCESS_KEY_ID'') (\<lambda>awsAccessKeyID.
     require (gm_lookup (sec_Data secret) ''AWS_SECRET_ACCESS_KEY'')
       (Errorf ''Cannot get AWS_SECRET_ACCESS_KEY_ID'') (\<lambda>awsSecretAccessKey.
     try_io (k_secret_get E ''openshift-ingress-operator'' ''router-ca'') (\<lambda>ca.
     ret (Inr
       \<lparr>s3c_AwsAccessKeyID = EncodeToString awsAccessKeyID,
        s3c_AwsCaBundle = (case gm_lookup (sec_Data ca) ''tls.crt'' of
            Some caBundle \<Rightarrow> EncodeToString caBundle | None \<Rightarrow> []),
        s3c_AwsSecretAccessKey = EncodeToString awsSecretAccessKey,
        s3c_BucketHost = host,
        s3c_BucketName = gm_index (cm_Data cm) ''BUCKET_NAME'',
        s3c_BucketPort = 443,
        s3c_BucketRegion = ''ignore''\<rparr>))))))))))"

text \<open>\<open>types.NamespacedName.String\<close>, \<open>net.ParsePort\<close> of \<open>k8s.io/utils\<close> and the conversion \<open>int32(n)\<close>.\<close>

definition NamespacedName_String :: "string \<Rightarrow> string \<Rightarrow> string" where
  "NamespacedName_String namespace name = namespace @ ''/'' @ name"

definition ParsePort :: "string \<Rightarrow> bool \<Rightarrow> int result" where
  "ParsePort port allowZero = (case ParseUint port 16 of
     Inl err \<Rightarrow> Inl err
   | Inr portInt \<Rightarrow> if portInt = 0 \<and> \<not> allowZero then Inl (Errorf ''0 is not a valid port number'')
                   else Inr (int portInt))"

definition to_int32 :: "int \<Rightarrow> int32" where
  "to_int32 n = (n + 2 ^ 31) mod 2 ^ 32 - 2 ^ 31"

definition missing_field :: "string \<Rightarrow> string \<Rightarrow> goerr" where
  "missing_field field resource = Errorf (''Missing field '' @ field @ '' in resource '' @ resource)"

definition external_config ::
  "'w env \<Rightarrow> EdgeDevice \<Rightarrow> S3Storage option \<Rightarrow> ('w, S3StorageConfiguration result) io" where
  "external_config E device s3 =
     require s3 (Errorf (''missing storage in device configuration. Device name: '' @ om_Name (dev_meta device)))
       (\<lambda>config.
     let ns = om_Namespace (dev_meta device);
         configMapFullName = NamespacedName_String ns (s3_ConfigMapName config);
         secretFullName = NamespacedName_String ns (s3_SecretName config) in
     try_io (k_cm_get E ns (s3_ConfigMapName config)) (\<lambda>cm.
     try_io (k_secret_get E ns (s3_SecretName config)) (\<lambda>secret.
     require (gm_lookup (cm_Data cm) ''BUCKET_NAME'') (missing_field ''BUCKET_NAME'' configMapFullName) (\<lambda>bucketName.
     require (gm_lookup (cm_Data cm) ''BUCKET_HOST'') (missing_field ''BUCKET_HOST'' configMapFullName) (\<lambda>bucketHost.
     require (gm_lookup (cm_Data cm) ''BUCKET_PORT'') (missing_field ''BUCKET_PORT'' configMapFullName) (\<lambda>bucketPort.
     require (gm_lookup (cm_Data cm) ''BUCKET_REGION'') (missing_field ''BUCKET_REGION'' configMapFullName) (\<lambda>bucketRegion.
     require (gm_lookup (sec_Data secret) ''AWS_ACCESS_KEY_ID'')
       (missing_field ''AWS_ACCESS_KEY_ID'' secretFullName) (\<lambda>accessKeyID.
     require (gm_lookup (sec_Data secret) ''AWS_SECRET_ACCESS_KEY'')
       (missing_field ''AWS_SECRET_ACCESS_KEY'' secretFullName) (\<lambda>secretAccessKey.
     let caBundle = gm_index (sec_Data secret) ''tls.crt'' in
     try_io (ret (ParsePort bucketPort False)) (\<lambda>bucketPortNumeric.
     ret (Inr
       \<lparr>s3c_AwsAccessKeyID = EncodeToString accessKeyID,
        s3c_AwsCaBundle = EncodeToString caBundle,
        s3c_AwsSecretAccessKey = EncodeToString secretAccessKey,
        s3c_BucketHost = bucketHost,
        s3c_BucketName = bucketName,
        s3c_BucketPort = to_int32 bucketPortNumeric,
        s3c_BucketRegion = bucketRegion\<rparr>)))))))))))"

definition GetExternalStorageConfig ::
  "'w env \<Rightarrow> EdgeDevice \<Rightarrow> ('w, S3StorageConfiguration result outcome) io" where
  "GetExternalStorageConfig E device = (case sp_Storage (dev_Spec device) of
     None \<Rightarrow> ret nil_dereference
   | Some storage \<Rightarrow> do { r \<leftarrow> external_config E device (st_S3 storage); ret (Done r) })"

section \<open>Lemmas\<close>

lemma ShouldUseExternalConfig_excludes_OBC: "ShouldUseExternalConfig d \<Longrightarrow> \<not> ShouldCreateOBC d"
  by (simp add: ShouldCreateOBC_def split: option.split)

lemma ShouldUseExternalConfig_storage:
  "ShouldUseExternalConfig (Some d) \<Longrightarrow> sp_Storage (dev_Spec d) \<noteq> None"
  by (auto simp: ShouldUseExternalConfig_def getS3_def split: option.splits)

lemma ParsePort_iff:
  "ParsePort s False = Inr n \<longleftrightarrow>
     s \<noteq> [] \<and> list_all is_digit s \<and> n = int (dec_val 0 s) \<and> 0 < dec_val 0 s \<and> dec_val 0 s < 65536"
  (is "_ \<longleftrightarrow> ?R")
proof
  assume "ParsePort s False = Inr n"
  then obtain m where m: "ParseUint s 16 = Inr m" "m \<noteq> 0" "n = int m"
    by (auto simp: ParsePort_def split: sum.splits if_splits)
  with ParseUint_bound [OF m(1)] show ?R
    by (auto simp: ParseUint_def split: if_splits dest!: ParseUint_loop_value)
next
  assume ?R
  then show "ParsePort s False = Inr n" by (simp add: ParsePort_def ParseUint_def ParseUint_loop_ok)
qed

lemma to_int32_port: "0 \<le> n \<Longrightarrow> n < 65536 \<Longrightarrow> to_int32 n = n"
  by (simp add: to_int32_def)

text \<open>What a complete pair of config map and secret is, and the configuration it stands for.\<close>

definition valid_port :: "string \<Rightarrow> bool" where
  "valid_port s \<longleftrightarrow> s \<noteq> [] \<and> list_all is_digit s \<and> 0 < dec_val 0 s \<and> dec_val 0 s < 65536"

definition storage_resources_ok :: "ConfigMap \<Rightarrow> Secret \<Rightarrow> bool" where
  "storage_resources_ok cm sec \<longleftrightarrow>
     (\<forall>k\<in>{''BUCKET_NAME'', ''BUCKET_HOST'', ''BUCKET_PORT'', ''BUCKET_REGION''}. gm_lookup (cm_Data cm) k \<noteq> None) \<and>
     (\<forall>k\<in>{''AWS_ACCESS_KEY_ID'', ''AWS_SECRET_ACCESS_KEY''}. gm_lookup (sec_Data sec) k \<noteq> None) \<and>
     valid_port (gm_index (cm_Data cm) ''BUCKET_PORT'')"

definition describes_storage :: "ConfigMap \<Rightarrow> Secret \<Rightarrow> S3StorageConfiguration \<Rightarrow> bool" where
  "describes_storage cm sec c \<longleftrightarrow>
     s3c_BucketName c = gm_index (cm_Data cm) ''BUCKET_NAME'' \<and>
     s3c_BucketHost c = gm_index (cm_Data cm) ''BUCKET_HOST'' \<and>
     s3c_BucketRegion c = gm_index (cm_Data cm) ''BUCKET_REGION'' \<and>
     s3c_BucketPort c = int (dec_val 0 (gm_index (cm_Data cm) ''BUCKET_PORT'')) \<and>
     1 \<le> s3c_BucketPort c \<and> s3c_BucketPort c \<le> 65535 \<and>
     DecodeString (s3c_AwsAccessKeyID c) = gm_index (sec_Data sec) ''AWS_ACCESS_KEY_ID'' \<and>
     DecodeString (s3c_AwsSecretAccessKey c) = gm_index (sec_Data sec) ''AWS_SECRET_ACCESS_KEY'' \<and>
     DecodeString (s3c_AwsCaBundle c) = gm_index (sec_Data sec) ''tls.crt''"

lemma external_config_spec:
  assumes cm: "run_state (k_cm_get E (om_Namespace (dev_meta d)) (s3_ConfigMapName cfg)) w = (Inr cm, w1)"
    and sec: "run_state (k_secret_get E (om_Namespace (dev_meta d)) (s3_SecretName cfg)) w1 = (Inr sec, w2)"
  shows "case run_state (external_config E d (Some cfg)) w of (r, w') \<Rightarrow>
           w' = w2 \<and> (case r of Inl _ \<Rightarrow> \<not> storage_resources_ok cm sec
                     | Inr c \<Rightarrow> storage_resources_ok cm sec \<and> describes_storage cm sec c)"
proof -
  note run = external_config_def try_io_def require_def Let_def cm sec
  note spec = storage_resources_ok_def describes_storage_def gm_index_def
  show ?thesis
  proof (cases "gm_lookup (cm_Data cm) ''BUCKET_PORT''")
    case None
    then show ?thesis by (auto simp: run spec split: option.split)
  next
    case (Some p)
    show ?thesis
    proof (cases "valid_port p")
      case True
      then have port: "ParsePort p False = Inr (int (dec_val 0 p))" "0 < dec_val 0 p" "dec_val 0 p < 65536"
        by (simp_all add: ParsePort_iff valid_port_def)
      then have "to_int32 (int (dec_val 0 p)) = int (dec_val 0 p)" by (simp add: to_int32_port)
      with Some True port show ?thesis by (auto simp: run spec split: option.split)
    next
      case False
      then obtain e where "ParsePort p False = Inl e"
        by (cases "ParsePort p False") (auto simp: ParsePort_iff valid_port_def)
      with Some False show ?thesis by (auto simp: run spec split: option.split)
    qed
  qed
qed

section \<open>Properties\<close>

text \<open>C40: for a device with external storage the configuration is sent exactly when the config
  map names bucket, host, region and a decimal port between 1 and 65535 and the secret has both
  keys; it then carries these values, the port without truncation and the key material so that
  decoding it gives back the bytes of the secret.\<close>

theorem GetExternalStorageConfig_correct:
  assumes "getS3 (Some d) = Some cfg"
    and "run_state (k_cm_get E (om_Namespace (dev_meta d)) (s3_ConfigMapName cfg)) w = (Inr cm, w1)"
    and "run_state (k_secret_get E (om_Namespace (dev_meta d)) (s3_SecretName cfg)) w1 = (Inr sec, w2)"
  shows "\<exists>r. run_state (GetExternalStorageConfig E d) w = (Done r, w2) \<and>
           (case r of Inl _ \<Rightarrow> \<not> storage_resources_ok cm sec
            | Inr c \<Rightarrow> storage_resources_ok cm sec \<and> describes_storage cm sec c)"
proof -
  from assms(1) obtain st where "sp_Storage (dev_Spec d) = Some st" "st_S3 st = Some cfg"
    by (auto simp: getS3_def split: option.splits)
  then show ?thesis
    using external_config_spec [OF assms(2,3)] by (auto simp: GetExternalStorageConfig_def split: prod.splits)
qed

definition sample_s3 :: S3Storage where
  "sample_s3 = \<lparr>s3_SecretName = ''sec'', s3_ConfigMapName = ''cm'', s3_CreateOBC = False\<rparr>"

definition sample_storage_device :: EdgeDevice where
  "sample_storage_device = sample_device\<lparr>dev_Spec := empty_spec\<lparr>sp_Storage := Some \<lparr>st_S3 = Some sample_s3\<rparr>\<rparr>\<rparr>"

definition sample_cm :: ConfigMap where
  "sample_cm = \<lparr>cm_meta = new_meta ''cm'' ''default'', cm_Data = Some [(''BUCKET_NAME'', ''b''),
     (''BUCKET_HOST'', ''h''), (''BUCKET_PORT'', ''443''), (''BUCKET_REGION'', ''eu'')]\<rparr>"

definition sample_secret :: Secret where
  "sample_secret = \<lparr>sec_meta = new_meta ''sec'' ''default'', sec_Data = Some [(''AWS_ACCESS_KEY_ID'', ''id''),
     (''AWS_SECRET_ACCESS_KEY'', ''key'')]\<rparr>"

definition sample_storage_mem :: mem where
  "sample_storage_mem = empty_mem\<lparr>m_cms := [sample_cm], m_secrets := [sample_secret]\<rparr>"

theorem GetExternalStorageConfig_correct_witness:
  "storage_resources_ok sample_cm sample_secret \<and>
   (\<exists>c. run_state (GetExternalStorageConfig mem_env sample_storage_device) sample_storage_mem
        = (Done (Inr c), sample_storage_mem) \<and> describes_storage sample_cm sample_secret c)"
proof -
  have ok: "storage_resources_ok sample_cm sample_secret"
    by (simp add: storage_resources_ok_def sample_cm_def sample_secret_def valid_port_def gm_index_def
        is_digit_def in_range_def dec_val_def)
  have "getS3 (Some sample_storage_device) = Some sample_s3"
    by (simp add: getS3_def sample_storage_device_def)
  moreover have
    "run_state (k_cm_get mem_env (om_Namespace (dev_meta sample_storage_device)) (s3_ConfigMapName sample_s3))
       sample_storage_mem = (Inr sample_cm, sample_storage_mem)"
    "run_state (k_secret_get mem_env (om_Namespace (dev_meta sample_storage_device)) (s3_SecretName sample_s3))
       sample_storage_mem = (Inr sample_secret, sample_storage_mem)"
    by (simp_all add: mem_env_def mem_get_def api_call_def sample_storage_mem_def empty_mem_def mem_find_def
        sample_storage_device_def sample_device_def sample_s3_def sample_cm_def sample_secret_def
        new_meta_def meta_key_def)
  ultimately obtain r where
    "run_state (GetExternalStorageConfig mem_env sample_storage_device) sample_storage_mem = (Done r, sample_storage_mem)"
    "case r of Inl _ \<Rightarrow> \<not> storage_resources_ok sample_cm sample_secret
     | Inr c \<Rightarrow> storage_resources_ok sample_cm sample_secret \<and> describes_storage sample_cm sample_secret c"
    using GetExternalStorageConfig_correct by metis
  with ok show ?thesis by (cases r) auto
qed

end
