(* ===== verification/Concurrency.thy ===== *)
theory Concurrency
  imports Repositories "HOL-Library.Word" "HOL-Library.Signed_Division"
begin

text \<open>
  The batch machinery of \<open>controllers/edgedeployment_controller.go\<close>: \<open>splitEdgeDevices\<close> cuts a
  list of devices into one slice per worker, \<open>ExecuteConcurrent\<close> runs a function on every slice
  and gathers the errors, \<open>merge\<close> and \<open>mergeErrorMessages\<close> join lists of devices and errors.

  A \<open>uint\<close> is a \<open>64 word\<close> and \<open>int(splitSize)\<close> its signed reading. The slicing loop is a
  \<open>partial_function\<close>, so that not ending would be \<open>None\<close>; it is shown to end. The goroutines
  of one call work on different slices; the model runs them one after the other in an order
  chosen by the environment, and each writes its own entry of \<open>returnValues\<close>. The locale
  \<open>device_batch\<close> is the contract of a function on one device under which a whole batch, in any
  order of its slices, does its work on each of its devices and on nothing else.
\<close>

section \<open>splitEdgeDevices\<close>

type_synonym uint = "64 word"

partial_function (option) split_loop ::
  "'a list \<Rightarrow> int \<Rightarrow> int \<Rightarrow> int \<Rightarrow> 'a list list \<Rightarrow> 'a list list outcome option" where
  "split_loop edgeDevices splitLen usedLen residueLen result =
     (if usedLen < int (length edgeDevices) then
        let residueExtra = (if residueLen > 0 then 1 else 0);
            residueLen' = (if residueLen > 0 then residueLen - 1 else residueLen);
            newSliceLen = splitLen + residueExtra
        in if newSliceLen < 0 \<or> usedLen + newSliceLen > int (length edgeDevices)
           then Some (Panic ''slice bounds out of range'')
           else split_loop edgeDevices splitLen (usedLen + newSliceLen) residueLen'
                  (result @ [take (nat newSliceLen) (drop (nat usedLen) edgeDevices)])
      else Some (Done result))"

definition splitEdgeDevices :: "'a list \<Rightarrow> uint \<Rightarrow> 'a list list outcome option" where
  "splitEdgeDevices edgeDevices splitSize =
     (if splitSize = 0 then Some (Done [])
      else let intX = sint splitSize;
               sLen = int (length edgeDevices);
               splitLen = sLen sdiv intX;
               residueLen = sLen - splitLen * intX
           in split_loop edgeDevices splitLen 0 residueLen [])"

lemmas split_loop_code [code] = split_loop.simps

section \<open>ExecuteConcurrent\<close>

type_synonym 'w ConcurrentFunc = "EdgeDevice list \<Rightarrow> ('w, goerr list) io"

fun run_slices ::
  "'w ConcurrentFunc \<Rightarrow> EdgeDevice list list \<Rightarrow> nat list \<Rightarrow> goerr list list \<Rightarrow> ('w, goerr list list) io" where
  "run_slices f inputs [] returnValues = ret returnValues"
| "run_slices f inputs (i # order) returnValues = do {
     errs \<leftarrow> f (inputs ! i);
     run_slices f inputs order (returnValues[i := errs])
   }"

definition ExecuteConcurrent ::
  "'w env \<Rightarrow> uint \<Rightarrow> 'w ConcurrentFunc \<Rightarrow> EdgeDevice list \<Rightarrow> ('w, goerr list outcome option) io" where
  "ExecuteConcurrent E concurrency f edgeDevices =
     (if edgeDevices = [] \<or> concurrency = 0 then ret (Some (Done []))
      else case splitEdgeDevices edgeDevices concurrency of
        None \<Rightarrow> ret None
      | Some (Panic p) \<Rightarrow> ret (Some (Panic p))
      | Some (Done inputs) \<Rightarrow> do {
          order \<leftarrow> k_sched E (length inputs);
          returnValues \<leftarrow> run_slices f inputs order (replicate (length inputs) []);
          ret (Some (Done (concat returnValues)))
        })"

text \<open>The three functions passed in are loops that go on after an error and return all errors.\<close>

fun for_each_device :: "(EdgeDevice \<Rightarrow> ('w, goerr option) io) \<Rightarrow> EdgeDevice list \<Rightarrow> ('w, goerr list) io" where
  "for_each_device step [] = ret []"
| "for_each_device step (d # ds) = do {
     err \<leftarrow> step d;
     errs \<leftarrow> for_each_device step ds;
     ret (case err of None \<Rightarrow> errs | Some e \<Rightarrow> e # errs)
   }"

definition executeConcurrent ::
  "'w env \<Rightarrow> uint \<Rightarrow> 'w ConcurrentFunc \<Rightarrow> EdgeDevice list \<Rightarrow> ('w, goerr list outcome option) io" where
  "executeConcurrent E concurrency f edgeDevices =
     (if concurrency = 1 then do { errs \<leftarrow> f edgeDevices; ret (Some (Done errs)) }
      else ExecuteConcurrent E concurrency f edgeDevices)"

section \<open>merge and mergeErrorMessages\<close>

definition dev_name :: "EdgeDevice \<Rightarrow> string" where "dev_name d = om_Name (dev_meta d)"

definition merge :: "EdgeDevice list \<Rightarrow> EdgeDevice list \<Rightarrow> EdgeDevice list" where
  "merge edgeDevices1 edgeDevices2 =
     edgeDevices1 @ filter (\<lambda>d. dev_name d \<notin> set (map dev_name edgeDevices1)) edgeDevices2"

fun merge_messages :: "string \<Rightarrow> goerr list \<Rightarrow> string" where
  "merge_messages message [] = message"
| "merge_messages message (err # errs) =
     (if message = [] then merge_messages (ErrorText err) errs
      else merge_messages (message @ '', '' @ ErrorText err) errs)"

definition mergeErrorMessages :: "goerr list \<Rightarrow> string" where
  "mergeErrorMessages errs = merge_messages [] errs"

text \<open>Every goroutine of a call runs once.\<close>

definition fair_sched :: "'w env \<Rightarrow> bool" where
  "fair_sched E \<longleftrightarrow> (\<forall>n w. mset (fst (run_state (k_sched E n) w)) = mset [0..<n])"

section \<open>The slices\<close>

text \<open>\<open>k\<close> slices of length \<open>q\<close> or \<open>q + 1\<close> that make up a list.\<close>

definition even_slices :: "nat \<Rightarrow> nat \<Rightarrow> 'a list \<Rightarrow> 'a list list \<Rightarrow> bool" where
  "even_slices k q xs xss \<longleftrightarrow>
     concat xss = xs \<and> length xss = k \<and> (\<forall>ys\<in>set xss. ys \<noteq> [] \<and> length ys \<in> {q, q + 1})"

lemma split_loop_slices:
  assumes "u + k * q + r = length xs" and "r \<le> k" and "q = 0 \<Longrightarrow> r = k"
  shows "\<exists>xss. split_loop xs (int q) (int u) (int r) res = Some (Done (res @ xss)) \<and>
               even_slices k q (drop u xs) xss"
  using assms
proof (induction k arbitrary: u r res)
  case 0
  then have "r = 0" "u = length xs" by auto
  then show ?case by (subst split_loop.simps) (auto simp: even_slices_def)
next
  case (Suc k)
  define e where "e = (if r > 0 then 1 else 0 :: nat)"
  have pos: "0 < q + e" using Suc.prems by (auto simp: e_def)
  have fits: "u + (q + e) + k * q + (r - e) = length xs" using Suc.prems by (auto simp: e_def)
  have lt: "u < length xs" using fits pos by linarith
  have "\<exists>xss. split_loop xs (int q) (int (u + (q + e))) (int (r - e)) (res @ [take (q + e) (drop u xs)])
          = Some (Done ((res @ [take (q + e) (drop u xs)]) @ xss)) \<and> even_slices k q (drop (u + (q + e)) xs) xss"
    by (rule Suc.IH) (use fits Suc.prems in \<open>auto simp: e_def\<close>)
  then obtain xss where IH: "split_loop xs (int q) (int (u + (q + e))) (int (r - e)) (res @ [take (q + e) (drop u xs)])
          = Some (Done ((res @ [take (q + e) (drop u xs)]) @ xss))" "even_slices k q (drop (u + (q + e)) xs) xss"
    by blast
  have step: "split_loop xs (int q) (int u) (int r) res =
      split_loop xs (int q) (int (u + (q + e))) (int (r - e)) (res @ [take (q + e) (drop u xs)])"
    using lt fits pos by (subst split_loop.simps) (auto simp: e_def Let_def of_nat_diff nat_add_distrib ac_simps)
  have "even_slices (Suc k) q (drop u xs) (take (q + e) (drop u xs) # xss)"
  proof -
    have "drop (u + (q + e)) xs = drop (q + e) (drop u xs)" by (simp add: add.commute)
    moreover have "length (take (q + e) (drop u xs)) = q + e" using fits by simp
    moreover have "q + e \<in> {q, q + 1}" by (simp add: e_def)
    moreover have "take (q + e) (drop u xs) \<noteq> []" using pos lt by simp
    ultimately show ?thesis using IH(2) unfolding even_slices_def by (simp del: drop_drop)
  qed
  with IH(1) step show ?case by (intro exI [of _ "take (q + e) (drop u xs) # xss"]) simp
qed

lemma splitEdgeDevices_slices:
  assumes "0 < sint n"
  shows "\<exists>xss. splitEdgeDevices xs n = Some (Done xss) \<and>
           even_slices (min (nat (sint n)) (length xs)) (length xs div nat (sint n)) xs xss"
proof -
  define m where "m = nat (sint n)"
  let ?l = "length xs" let ?q = "length xs div m" let ?r = "length xs mod m"
  have m: "0 < m" "sint n = int m" "n \<noteq> 0" using assms by (auto simp: m_def)
  have q: "int ?l sdiv int m = int ?q" using m
    by (cases "xs = []") (simp_all add: signed_divide_int_def zdiv_int)
  have r: "int ?l - int ?q * int m = int ?r"
    by (metis mult.commute of_nat_diff minus_mult_div_eq_mod of_nat_mult times_div_less_eq_dividend)
  let ?k = "min m ?l"
  have "\<exists>xss. split_loop xs (int ?q) (int 0) (int ?r) [] = Some (Done ([] @ xss)) \<and> even_slices ?k ?q (drop 0 xs) xss"
  proof (rule split_loop_slices)
    show "0 + ?k * ?q + ?r = ?l"
      using m by (cases "m \<le> ?l") (auto simp: min_def div_less mod_less)
    show "?r \<le> ?k" using m by (auto simp: min_def mod_le_divisor)
    show "?r = ?k" if "?q = 0" using that m by (auto simp: div_eq_0_iff min_def)
  qed
  then show ?thesis using m q r by (simp add: splitEdgeDevices_def Let_def)
qed

lemma sint_one [simp]: "sint (1 :: uint) = 1"
  by simp

lemma distinct_concat_disjoint:
  "distinct (concat xss) \<Longrightarrow> i < j \<Longrightarrow> j < length xss \<Longrightarrow> set (xss ! i) \<inter> set (xss ! j) = {}"
proof (induction xss arbitrary: i j)
  case (Cons xs xss)
  obtain j' where j': "j = Suc j'" using Cons.prems by (cases j) auto
  show ?case
  proof (cases i)
    case 0
    have "set (xss ! j') \<subseteq> set (concat xss)" using Cons.prems j' by (auto simp: set_concat)
    with 0 j' Cons.prems(1) show ?thesis by auto
  next
    case (Suc i')
    with Cons.IH [of i' j'] Cons.prems j' show ?thesis by simp
  qed
qed simp

lemma slices_disjoint:
  assumes "distinct (map f (concat xss))" and "i < length xss" "j < length xss" "i \<noteq> j"
  shows "f ` set (xss ! i) \<inter> f ` set (xss ! j) = {}"
proof -
  have "distinct (concat (map (map f) xss))" using assms(1) by (simp add: map_concat)
  note disj = distinct_concat_disjoint [OF this]
  from assms(4) consider "i < j" | "j < i" by linarith
  then show ?thesis using disj [of i j] disj [of j i] assms(2,3) by cases auto
qed

section \<open>The contract of a batch\<close>

locale device_batch =
  fixes E :: "'w env"
    and devs :: "'w \<Rightarrow> string \<times> string \<Rightarrow> EdgeDevice option"
    and step :: "EdgeDevice \<Rightarrow> ('w, goerr option) io"
    and admissible :: "EdgeDevice \<Rightarrow> EdgeDevice option \<Rightarrow> bool"
    and result :: "EdgeDevice \<Rightarrow> bool \<Rightarrow> EdgeDevice option \<Rightarrow> EdgeDevice option \<Rightarrow> bool"
  assumes step_spec: "admissible d (devs w (dev_key d)) \<Longrightarrow>
      wp (step d) (\<lambda>err w'. (\<forall>k. k \<noteq> dev_key d \<longrightarrow> devs w' k = devs w k) \<and>
            result d (err = None) (devs w (dev_key d)) (devs w' (dev_key d))) w"
    and batch_sched_keeps: "keeps devs (k_sched E n)"
begin

definition current :: "'w \<Rightarrow> EdgeDevice list \<Rightarrow> bool" where
  "current w ds \<longleftrightarrow> distinct (map dev_key ds) \<and> (\<forall>d\<in>set ds. admissible d (devs w (dev_key d)))"

text \<open>The outcome for one device, given the errors of its batch.\<close>

definition outcome_for :: "'w \<Rightarrow> goerr list \<Rightarrow> 'w \<Rightarrow> EdgeDevice \<Rightarrow> bool" where
  "outcome_for w errs w' d \<longleftrightarrow>
     (\<exists>ok. (errs = [] \<longrightarrow> ok) \<and> result d ok (devs w (dev_key d)) (devs w' (dev_key d)))"

definition processed :: "'w \<Rightarrow> EdgeDevice list \<Rightarrow> goerr list \<Rightarrow> 'w \<Rightarrow> bool" where
  "processed w ds errs w' \<longleftrightarrow>
     (\<forall>k. k \<notin> dev_key ` set ds \<longrightarrow> devs w' k = devs w k) \<and> (\<forall>d\<in>set ds. outcome_for w errs w' d)"

lemma processed_frame: "processed w ds errs w' \<Longrightarrow> k \<notin> dev_key ` set ds \<Longrightarrow> devs w' k = devs w k"
  unfolding processed_def by blast

lemma processed_ok:
  "processed w ds [] w' \<Longrightarrow> d \<in> set ds \<Longrightarrow> result d True (devs w (dev_key d)) (devs w' (dev_key d))"
  by (auto simp: processed_def outcome_for_def)

lemma current_cong:
  "current w ds \<Longrightarrow> (\<And>d. d \<in> set ds \<Longrightarrow> devs w1 (dev_key d) = devs w (dev_key d)) \<Longrightarrow> current w1 ds"
  by (simp add: current_def)

lemma outcome_for_cong:
  "outcome_for w errs w' d \<Longrightarrow> devs v (dev_key d) = devs w (dev_key d) \<Longrightarrow>
   devs v' (dev_key d) = devs w' (dev_key d) \<Longrightarrow> (errs' = [] \<Longrightarrow> errs = []) \<Longrightarrow> outcome_for v errs' v' d"
  by (auto simp: outcome_for_def)

lemma for_each_device_spec:
  "current w ds \<Longrightarrow> wp (for_each_device step ds) (\<lambda>errs w'. processed w ds errs w') w"
proof (induction ds arbitrary: w)
  case Nil
  then show ?case by (simp add: processed_def)
next
  case (Cons d ds)
  then have d: "admissible d (devs w (dev_key d))" and notin: "dev_key d \<notin> dev_key ` set ds"
    and tl: "current w ds" by (auto simp: current_def)
  show ?case
  proof (simp, rule wp_conseq [OF step_spec [OF d]], goal_cases)
    case (1 err w1)
    then have fr: "devs w1 k = devs w k" if "k \<noteq> dev_key d" for k using that by blast
    have other: "devs w1 (dev_key x) = devs w (dev_key x)" if "x \<in> set ds" for x
      using notin that by (intro fr) (metis imageI)
    have res: "result d (err = None) (devs w (dev_key d)) (devs w1 (dev_key d))" using 1 by blast
    from Cons.IH [OF current_cong [OF tl other]] show ?case
    proof (rule wp_conseq, goal_cases)
      case (2 errs w2)
      let ?errs = "case err of None \<Rightarrow> errs | Some e \<Rightarrow> e # errs"
      have nil: "?errs = [] \<Longrightarrow> err = None" "?errs = [] \<Longrightarrow> errs = []" by (cases err; simp)+
      have "outcome_for w ?errs w2 d"
        using res processed_frame [OF 2 notin] nil unfolding outcome_for_def by auto
      moreover have "outcome_for w ?errs w2 x" if "x \<in> set ds" for x
        by (rule outcome_for_cong [of w1 errs w2]) (use 2 that nil other in \<open>auto simp: processed_def\<close>)
      moreover have "devs w2 k = devs w k" if "k \<notin> dev_key ` set (d # ds)" for k
        using processed_frame [OF 2, of k] fr [of k] that by simp
      ultimately show ?case unfolding processed_def by simp
    qed simp
  qed
qed

text \<open>Slices in any order.\<close>

lemma run_slices_spec:
  assumes f: "\<And>w ds. current w ds \<Longrightarrow> wp (f ds) (\<lambda>errs w'. processed w ds errs w') w"
    and "distinct order" "set order \<subseteq> {..<length inputs}" "length rv = length inputs"
    and "\<And>i. i \<in> set order \<Longrightarrow> current w (inputs ! i)"
    and "\<And>i j. i \<in> set order \<Longrightarrow> j \<in> set order \<Longrightarrow> i \<noteq> j \<Longrightarrow>
           dev_key ` set (inputs ! i) \<inter> dev_key ` set (inputs ! j) = {}"
  shows "wp (run_slices f inputs order rv) (\<lambda>rv' w'. length rv' = length rv \<and>
           (\<forall>i. i \<notin> set order \<longrightarrow> rv' ! i = rv ! i) \<and>
           (\<forall>k. (\<forall>i\<in>set order. k \<notin> dev_key ` set (inputs ! i)) \<longrightarrow> devs w' k = devs w k) \<and>
           (\<forall>i\<in>set order. \<forall>d\<in>set (inputs ! i). outcome_for w (rv' ! i) w' d)) w"
  using assms(2-)
proof (induction order arbitrary: w rv)
  case Nil
  then show ?case by simp
next
  case (Cons i order)
  show ?case
  proof (simp, rule wp_conseq [OF f [of w "inputs ! i"]], goal_cases)
    case 1
    show ?case by (rule Cons.prems(4)) simp
  next
    case (2 errs w1)
    have i: "i \<notin> set order" "i < length rv" using Cons.prems by auto
    have disj: "dev_key d \<notin> dev_key ` set (inputs ! i)" if "d \<in> set (inputs ! j)" "j \<in> set order" for d j
      using Cons.prems(5) [of i j] that i by auto
    have other: "devs w1 (dev_key d) = devs w (dev_key d)" if "d \<in> set (inputs ! j)" "j \<in> set order" for d j
      by (rule processed_frame [OF 2 disj [OF that]])
    have cur: "current w1 (inputs ! j)" if "j \<in> set order" for j
      by (rule current_cong [of w]) (use Cons.prems(4) other that in auto)
    have "wp (run_slices f inputs order (rv[i := errs])) (\<lambda>rv' w'. length rv' = length (rv[i := errs]) \<and>
           (\<forall>j. j \<notin> set order \<longrightarrow> rv' ! j = rv[i := errs] ! j) \<and>
           (\<forall>k. (\<forall>j\<in>set order. k \<notin> dev_key ` set (inputs ! j)) \<longrightarrow> devs w' k = devs w1 k) \<and>
           (\<forall>j\<in>set order. \<forall>d\<in>set (inputs ! j). outcome_for w1 (rv' ! j) w' d)) w1"
      by (rule Cons.IH) (use Cons.prems cur in auto)
    then show ?case
    proof (rule wp_conseq, goal_cases)
      case (1 rv' w')
      have frame: "devs w' k = devs w1 k" if "\<forall>j\<in>set order. k \<notin> dev_key ` set (inputs ! j)" for k
        using 1 that by blast
      have own: "outcome_for w (rv' ! i) w' d" if d: "d \<in> set (inputs ! i)" for d
      proof (rule outcome_for_cong [of w errs w1])
        show "outcome_for w errs w1 d" using 2 d by (simp add: processed_def)
        show "devs w' (dev_key d) = devs w1 (dev_key d)"
          by (rule frame) (use Cons.prems(5) [of i] d i in auto)
        show "rv' ! i = [] \<Longrightarrow> errs = []" using 1 i by simp
      qed simp
      have rest: "outcome_for w (rv' ! j) w' d" if "j \<in> set order" "d \<in> set (inputs ! j)" for j d
        by (rule outcome_for_cong [of w1 "rv' ! j" w']) (use 1 that other in auto)
      have "devs w' k = devs w k" if "\<forall>j\<in>set (i # order). k \<notin> dev_key ` set (inputs ! j)" for k
        using frame [of k] processed_frame [OF 2, of k] that by simp
      then show ?case using 1 own rest by simp
    qed
  qed
qed

lemma current_slice:
  "current w (concat xss) \<Longrightarrow> ys \<in> set xss \<Longrightarrow> current w ys"
  by (auto simp: current_def distinct_map distinct_concat_iff inj_on_def)

lemma ExecuteConcurrent_spec:
  assumes n: "0 < sint n" and ds: "current w ds" and fair: "fair_sched E"
  shows "wp (ExecuteConcurrent E n (for_each_device step) ds)
           (\<lambda>r w'. \<exists>errs. r = Some (Done errs) \<and> processed w ds errs w') w"
proof (cases "ds = []")
  case True
  then show ?thesis by (simp add: ExecuteConcurrent_def processed_def)
next
  case False
  have "n \<noteq> 0" using n by auto
  from splitEdgeDevices_slices [OF n, of ds] obtain xss where
    xss: "splitEdgeDevices ds n = Some (Done xss)" "concat xss = ds" by (auto simp: even_slices_def)
  have cur: "current w (concat xss)" using ds xss(2) by simp
  have disj: "dev_key ` set (xss ! i) \<inter> dev_key ` set (xss ! j) = {}"
    if "i < length xss" "j < length xss" "i \<noteq> j" for i j
    using slices_disjoint [OF _ that, of dev_key] cur by (simp add: current_def)
  show ?thesis
  proof (simp add: ExecuteConcurrent_def False \<open>n \<noteq> 0\<close> xss(1), rule wp_intro, goal_cases)
    case (1 order w1)
    have w1: "devs w1 = devs w" by (rule keeps_run [OF batch_sched_keeps 1])
    have order: "mset order = mset [0..<length xss]" using fair 1 by (metis fair_sched_def fst_conv)
    then have od: "distinct order" "set order = {..<length xss}"
      by (metis distinct_upt mset_eq_imp_distinct_iff, metis atLeast_upt mset_eq_setD)
    have cur1: "current w1 (xss ! i)" if "i < length xss" for i
      using current_slice [OF cur, of "xss ! i"] that w1 by (simp add: current_def)
    let ?rv = "replicate (length xss) [] :: goerr list list"
    have "wp (run_slices (for_each_device step) xss order ?rv)
       (\<lambda>rv' w'. length rv' = length ?rv \<and> (\<forall>i. i \<notin> set order \<longrightarrow> rv' ! i = ?rv ! i) \<and>
           (\<forall>k. (\<forall>i\<in>set order. k \<notin> dev_key ` set (xss ! i)) \<longrightarrow> devs w' k = devs w1 k) \<and>
           (\<forall>i\<in>set order. \<forall>d\<in>set (xss ! i). outcome_for w1 (rv' ! i) w' d)) w1"
      by (rule run_slices_spec) (use od cur1 disj for_each_device_spec in auto)
    then show ?case
    proof (rule wp_conseq, goal_cases)
      case (1 rv w2)
      have "outcome_for w (concat rv) w2 d" if d: "d \<in> set ds" for d
      proof -
        obtain i where i: "i < length xss" "d \<in> set (xss ! i)"
          using d xss(2) by (metis (no_types, lifting) UN_E in_set_conv_nth set_concat)
        then have "outcome_for w1 (rv ! i) w2 d" using 1 od(2) by blast
        then show ?thesis by (rule outcome_for_cong) (use 1 i w1 in \<open>auto simp: concat_eq_Nil_conv\<close>)
      qed
      moreover have "devs w2 k = devs w k" if k: "k \<notin> dev_key ` set ds" for k
      proof -
        have "\<forall>i\<in>set order. k \<notin> dev_key ` set (xss ! i)"
          using k xss(2) od(2) by (auto simp: set_concat) (metis UN_I image_eqI nth_mem set_concat)
        then show ?thesis using 1 w1 by metis
      qed
      ultimately show ?case unfolding processed_def by simp
    qed
  qed
qed

lemma executeConcurrent_spec:
  assumes "0 < sint n" and "current w ds" and "fair_sched E"
  shows "wp (executeConcurrent E n (for_each_device step) ds)
           (\<lambda>r w'. \<exists>errs. r = Some (Done errs) \<and> processed w ds errs w') w"
  using ExecuteConcurrent_spec [OF assms] for_each_device_spec [OF assms(2)]
  by (simp add: executeConcurrent_def)

end

section \<open>Lists of devices and errors\<close>

lemma merge_names: "set (map dev_name (merge a b)) = set (map dev_name a) \<union> set (map dev_name b)"
  by (auto simp: merge_def)

lemma merge_set: "set (merge a b) \<subseteq> set a \<union> set b"
  by (auto simp: merge_def)

lemma merge_distinct:
  "distinct (map dev_name a) \<Longrightarrow> distinct (map dev_name b) \<Longrightarrow> distinct (map dev_name (merge a b))"
  by (auto simp: merge_def distinct_map_filter) (metis imageI)

lemma merge_messages_Join:
  "m \<noteq> [] \<Longrightarrow> merge_messages m errs = strings_Join (m # map ErrorText errs) '', ''"
proof (induction errs arbitrary: m)
  case (Cons e es)
  have join: "strings_Join ((a @ '', '' @ b) # xs) '', '' = strings_Join (a # b # xs) '', ''" for a b xs
    by (cases xs) simp_all
  from Cons.IH [of "m @ '', '' @ ErrorText e"] Cons.prems show ?case
    by (simp only: merge_messages.simps if_False list.map join) simp
qed simp

lemma mergeErrorMessages_Join:
  "\<forall>e\<in>set errs. ErrorText e \<noteq> [] \<Longrightarrow> mergeErrorMessages errs = strings_Join (map ErrorText errs) '', ''"
  by (cases errs) (simp_all add: mergeErrorMessages_def merge_messages_Join)

section \<open>Properties\<close>

text \<open>C24: for every positive number of workers the devices are cut, in order and without loss or
  repetition, into as many slices as there are workers, or one per device when there are fewer
  devices; no slice is empty and their lengths differ by at most one.\<close>

theorem splitEdgeDevices_partition:
  assumes "0 < sint n"
  shows "\<exists>xss. splitEdgeDevices xs n = Some (Done xss) \<and> concat xss = xs \<and>
           length xss = min (nat (sint n)) (length xs) \<and>
           (\<forall>ys\<in>set xss. ys \<noteq> [] \<and> (length ys = length xs div nat (sint n) \<or> length ys = length xs div nat (sint n) + 1))"
  using splitEdgeDevices_slices [OF assms, of xs] by (auto simp: even_slices_def)

theorem splitEdgeDevices_partition_witness:
  "\<exists>xss. splitEdgeDevices [1, 2, 3, 4, 5 :: nat] 3 = Some (Done xss) \<and> concat xss = [1, 2, 3, 4, 5] \<and> length xss = 3"
  using splitEdgeDevices_partition [of 3 "[1, 2, 3, 4, 5 :: nat]"] by auto

lemma split_loop_negative:
  assumes "0 < length xs" and "r \<ge> 0"
  shows "split_loop xs (-1) 0 (int r) res = Some (Panic ''slice bounds out of range'')"
  using assms by (induction r arbitrary: res) (subst split_loop.simps, simp add: Let_def)+

text \<open>C25: the slicing loop ends for every number of workers and every list; it panics exactly when
  the unsigned number of workers does not fit a signed integer and the negative number it is read
  as is no larger in size than the list.\<close>

theorem splitEdgeDevices_total:
  "\<exists>r. splitEdgeDevices xs n = Some r \<and>
     ((\<exists>p. r = Panic p) \<longleftrightarrow> sint n < 0 \<and> - sint n \<le> int (length xs))"
proof -
  consider "0 < sint n" | "n = 0" | "sint n < 0" by (metis linorder_neqE_linordered_idom signed_eq_0_iff)
  then show ?thesis
  proof cases
    case 1
    with splitEdgeDevices_slices [OF 1, of xs] show ?thesis by auto
  next
    case 2
    then show ?thesis by (simp add: splitEdgeDevices_def)
  next
    case 3
    define m where "m = nat (- sint n)"
    then have m: "sint n = - int m" "0 < m" "n \<noteq> 0" using 3 by auto
    let ?q = "length xs div m" and ?r = "length xs mod m"
    have q: "int (length xs) sdiv (- int m) = - int ?q"
      using m(2) by (cases "xs = []") (simp_all add: signed_divide_int_def zdiv_int)
    have r: "int (length xs) - int ?q * int m = int ?r"
      by (metis mult.commute of_nat_diff minus_mult_div_eq_mod of_nat_mult times_div_less_eq_dividend)
    have run: "splitEdgeDevices xs n = split_loop xs (- int ?q) 0 (int ?r) []"
      using m q r by (simp add: splitEdgeDevices_def Let_def)
    consider "?q = 0" | "?q = 1" | "?q \<ge> 2" by linarith
    then show ?thesis
    proof cases
      case 1
      then have "length xs < m" using m(2) by (simp add: div_eq_0_iff)
      with split_loop_slices [of 0 "length xs" 0 "length xs" xs "[]"] 1 m run show ?thesis by auto
    next
      case 2
      then have "m \<le> length xs" by (metis div_less linorder_not_le zero_neq_one)
      moreover from this have "0 < length xs" using m(2) by linarith
      ultimately show ?thesis using split_loop_negative [of xs ?r "[]"] 2 m run by simp
    next
      case 3
      then have le: "m \<le> length xs" by (metis div_less linorder_not_le not_numeral_le_zero)
      have "split_loop xs (- int ?q) 0 (int ?r) [] = Some (Panic ''slice bounds out of range'')"
        using 3 le m(2) by (subst split_loop.simps) (auto simp: Let_def)
      with le m run show ?thesis by auto
    qed
  qed
qed

end
