(* ===== verification/Utils.thy ===== *)
theory Utils
  imports Labels
begin

text \<open>
  \<open>internal/utils\<close>: \<open>HasFinalizer\<close>, \<open>NormalizeLabel\<close> and the three loops that collect, from the
  environment and the volumes of a container, the ConfigMaps it refers to with the keys that must
  exist. A \<open>MapType\<close> maps a name to its mandatory keys; the nil set (\<open>None\<close>) marks an object all
  of whose references are optional.
\<close>

section \<open>Finalizers\<close>

fun mem_string :: "string \<Rightarrow> string list \<Rightarrow> bool" where
  "mem_string name [] = False"
| "mem_string name (f # fs) = (if f = name then True else mem_string name fs)"

definition HasFinalizer :: "ObjectMeta \<Rightarrow> string \<Rightarrow> bool" where
  "HasFinalizer cr name = mem_string name (om_Finalizers cr)"

lemma HasFinalizer_iff: "HasFinalizer cr name \<longleftrightarrow> name \<in> set (om_Finalizers cr)"
proof -
  have "mem_string name fs \<longleftrightarrow> name \<in> set fs" for fs by (induction fs) auto
  then show ?thesis by (simp add: HasFinalizer_def)
qed

section \<open>Label values\<close>

text \<open>The characters that \<open>regexp.MustCompile("[^a-z0-9-_.]+").ReplaceAllString(name, "")\<close> keeps;
  every byte of a rune outside ASCII is removed.\<close>

definition label_char :: "char \<Rightarrow> bool" where
  "label_char c \<longleftrightarrow> lower_alnum_char c \<or> c = CHR ''-'' \<or> c = CHR ''_'' \<or> c = CHR ''.''"

definition legal_rune :: "unicode \<Rightarrow> rune \<Rightarrow> bool" where
  "legal_rune U c \<longleftrightarrow> unicode_IsLower U c \<or> unicode_IsDigit U c"

definition NormalizeLabel :: "unicode \<Rightarrow> string \<Rightarrow> string result" where
  "NormalizeLabel U name0 =
     (let name = strings_ToLower U name0 in
      case (IndexFunc name (legal_rune U), LastIndexFunc name (legal_rune U)) of
        (Some firstLegal, Some lastLegal) \<Rightarrow>
          Inr (filter label_char (take (lastLegal + 1 - firstLegal) (drop firstLegal name)))
      | _ \<Rightarrow> Inl (Errorf ''The name doesn't contain a legal alphanumeric character''))"

lemma legal_rune_ascii: "byte c < (128 :: nat) \<Longrightarrow> legal_rune U (byte c) \<longleftrightarrow> lower_alnum_char c"
  by (auto simp: legal_rune_def unicode_IsLower_def unicode_IsDigit_def lower_alnum_char_def in_range_def)

text \<open>What a normalised name looks like.\<close>

definition label_shaped :: "string \<Rightarrow> bool" where
  "label_shaped = bracketed lower_alnum_char label_char"

lemma segment_ends:
  assumes "i \<le> j" and "j < length s"
  shows "take (j + 1 - i) (drop i s) \<noteq> []" "hd (take (j + 1 - i) (drop i s)) = s ! i"
    "last (take (j + 1 - i) (drop i s)) = s ! j"
proof -
  let ?xs = "take (j + 1 - i) (drop i s)"
  have len: "length ?xs = j + 1 - i" using assms by simp
  then show "?xs \<noteq> []" using assms(1) by auto
  then show "hd ?xs = s ! i" using assms by (simp add: hd_conv_nth)
  show "last ?xs = s ! j" using \<open>?xs \<noteq> []\<close> len assms by (simp add: last_conv_nth)
qed

lemma NormalizeLabel_ascii:
  assumes "ascii name0"
  shows "case NormalizeLabel U name0 of
           Inr t \<Rightarrow> label_shaped t \<and> (\<exists>c\<in>set (map ascii_lower name0). lower_alnum_char c)
         | Inl _ \<Rightarrow> \<forall>c\<in>set (map ascii_lower name0). \<not> lower_alnum_char c"
proof -
  let ?s = "map ascii_lower name0"
  have s: "ascii ?s" by (rule ascii_map_lower [OF assms])
  then have legal: "legal_rune U (byte c) \<longleftrightarrow> lower_alnum_char c" if "c \<in> set ?s" for c
    using that legal_rune_ascii by (auto simp: ascii_def list_all_iff)
  note low = strings_ToLower_ascii [OF assms, of U]
  show ?thesis
  proof (cases "\<forall>c\<in>set ?s. \<not> lower_alnum_char c")
    case True
    then have "IndexFunc ?s (legal_rune U) = None" using legal by (simp add: IndexFunc_ascii_None [OF s])
    then show ?thesis using True by (simp add: NormalizeLabel_def low Let_def)
  next
    case False
    then have "IndexFunc ?s (legal_rune U) \<noteq> None" "LastIndexFunc ?s (legal_rune U) \<noteq> None"
      using legal by (auto simp: IndexFunc_ascii_None [OF s] LastIndexFunc_ascii_None [OF s])
    then obtain i j where i: "IndexFunc ?s (legal_rune U) = Some i" and j: "LastIndexFunc ?s (legal_rune U) = Some j"
      by auto
    note ip = IndexFunc_ascii [OF s i] and jp = LastIndexFunc_ascii [OF s j]
    have "i \<le> j" using ip jp by (meson not_le)
    note seg = segment_ends [OF \<open>i \<le> j\<close> jp(1)]
    have li: "lower_alnum_char (?s ! i)" and lj: "lower_alnum_char (?s ! j)"
      using ip jp legal nth_mem by blast+
    let ?xs = "take (j + 1 - i) (drop i ?s)"
    have "bracketed lower_alnum_char label_char (filter label_char ?xs)"
    proof -
      have hl: "label_char (hd ?xs)" "label_char (last ?xs)" using li lj seg by (simp_all add: label_char_def)
      then have "filter label_char ?xs \<noteq> []" using seg(1) by (metis filter_empty_conv hd_in_set)
      then show ?thesis
        using hl li lj seg hd_filter [of ?xs label_char] last_filter [of ?xs label_char]
        by (simp add: bracketed_def list_all_iff)
    qed
    then show ?thesis using False i j by (simp add: NormalizeLabel_def low Let_def label_shaped_def)
  qed
qed

lemma ascii_lower_label_char: "label_char c \<Longrightarrow> ascii_lower c = c"
  by (auto simp: label_char_def lower_alnum_char_def ascii_lower_def in_range_def)

lemma label_char_ascii: "label_char c \<Longrightarrow> byte c < (128 :: nat)"
  by (auto simp: label_char_def lower_alnum_char_def in_range_def)

lemma NormalizeLabel_fixpoint:
  assumes "label_shaped t"
  shows "NormalizeLabel U t = Inr t"
proof -
  have t: "t \<noteq> []" "lower_alnum_char (hd t)" "lower_alnum_char (last t)" "list_all label_char t"
    using assms by (auto simp: label_shaped_def bracketed_def)
  then have a: "ascii t" using label_char_ascii by (auto simp: ascii_def list_all_iff)
  have low: "strings_ToLower U t = t"
    using t(4) ascii_lower_label_char by (simp add: strings_ToLower_ascii [OF a] list_all_iff map_idI)
  have legal: "legal_rune U (byte c) \<longleftrightarrow> lower_alnum_char c" if "c \<in> set t" for c
    using that legal_rune_ascii a by (auto simp: ascii_def list_all_iff)
  have ends: "legal_rune U (byte (t ! 0))" "legal_rune U (byte (t ! (length t - 1)))"
    using t(2,3) hd_conv_nth [OF t(1)] last_conv_nth [OF t(1)] legal hd_in_set [OF t(1)] last_in_set [OF t(1)]
    by simp_all
  obtain i where i: "IndexFunc t (legal_rune U) = Some i"
    using ends(1) IndexFunc_ascii_None [OF a] t(1) by (metis length_greater_0_conv not_None_eq nth_mem)
  obtain j where j: "LastIndexFunc t (legal_rune U) = Some j"
    using ends(1) LastIndexFunc_ascii_None [OF a] t(1) by (metis length_greater_0_conv not_None_eq nth_mem)
  have "i = 0" using IndexFunc_ascii(3) [OF a i] ends(1) by (cases i) auto
  moreover have "j = length t - 1"
  proof (rule ccontr)
    assume "j \<noteq> length t - 1"
    then have "j < length t - 1" "length t - 1 < length t"
      using LastIndexFunc_ascii(1) [OF a j] t(1) by auto
    then show False using LastIndexFunc_ascii(3) [OF a j] ends(2) by blast
  qed
  ultimately show ?thesis
    using t i j by (simp add: NormalizeLabel_def low Let_def list_all_iff filter_id_conv)
qed

section \<open>References of a container\<close>

type_synonym StringSet = "string list option"
type_synonym MapType = "StringSet gomap"

text \<open>\<open>optional := false; if opt != nil { optional = *opt }\<close>\<close>

definition is_optional :: "bool option \<Rightarrow> bool" where
  "is_optional opt = (case opt of None \<Rightarrow> False | Some b \<Rightarrow> b)"

fun ExtractInfoFromEnvFrom ::
  "EnvFromSource list \<Rightarrow> MapType \<Rightarrow> (EnvFromSource \<Rightarrow> bool \<times> bool option \<times> string) \<Rightarrow> MapType" where
  "ExtractInfoFromEnvFrom [] themap ref = themap"
| "ExtractInfoFromEnvFrom (env # envs) themap ref =
     (case ref env of (exist, opt, name) \<Rightarrow>
        if \<not> exist then ExtractInfoFromEnvFrom envs themap ref
        else
          let optional = is_optional opt;
              themap' =
                (case gm_get themap name of
                   Some keys \<Rightarrow> if \<not> optional \<and> keys = None then gm_set name (Some []) themap else themap
                 | None \<Rightarrow> if optional then gm_set name None themap else gm_set name (Some []) themap)
          in ExtractInfoFromEnvFrom envs themap' ref)"

fun ExtractInfoFromVolume ::
  "Volume list \<Rightarrow> MapType \<Rightarrow> (Volume \<Rightarrow> bool \<times> bool option \<times> string) \<Rightarrow> MapType" where
  "ExtractInfoFromVolume [] themap ref = themap"
| "ExtractInfoFromVolume (volume # volumes) themap ref =
     (case ref volume of (exist, opt, name) \<Rightarrow>
        if \<not> exist then ExtractInfoFromVolume volumes themap ref
        else
          let optional = is_optional opt;
              themap' =
                (case gm_get themap name of
                   Some keys \<Rightarrow> if \<not> optional \<and> keys = None then gm_set name (Some []) themap else themap
                 | None \<Rightarrow> if optional then gm_set name None themap else gm_set name (Some []) themap)
          in ExtractInfoFromVolume volumes themap' ref)"

text \<open>The callback runs before the test of \<open>ValueFrom\<close>, and it may panic.\<close>

fun ExtractInfoFromEnv ::
  "EnvVar list \<Rightarrow> MapType \<Rightarrow> (EnvVar \<Rightarrow> (bool \<times> bool option \<times> string \<times> string) outcome) \<Rightarrow> MapType outcome" where
  "ExtractInfoFromEnv [] themap ref = Done themap"
| "ExtractInfoFromEnv (envVar # env) themap ref =
     (case ref envVar of
        Panic p \<Rightarrow> Panic p
      | Done (exist, opt, name, key) \<Rightarrow>
          if ev_ValueFrom envVar = None \<or> \<not> exist then ExtractInfoFromEnv env themap ref
          else
            let optional = is_optional opt;
                themap' =
                  (case gm_get themap name of
                     Some keys \<Rightarrow>
                       if \<not> optional then
                         (case keys of None \<Rightarrow> gm_set name (Some [key]) themap
                          | Some ks \<Rightarrow> gm_set name (Some (List.insert key ks)) themap)
                       else themap
                   | None \<Rightarrow> if optional then gm_set name None themap else gm_set name (Some [key]) themap)
            in ExtractInfoFromEnv env themap' ref)"

section \<open>What the collected map means\<close>

text \<open>One reference: the object, whether it is optional, the key if it names one.\<close>

type_synonym reference = "string \<times> bool \<times> string option"

definition key_list :: "string option \<Rightarrow> string list" where
  "key_list k = (case k of None \<Rightarrow> [] | Some x \<Rightarrow> [x])"

definition note_ref :: "MapType \<Rightarrow> reference \<Rightarrow> MapType" where
  "note_ref m r =
     (case r of (name, optional, key) \<Rightarrow>
        case gm_get m name of
          Some keys \<Rightarrow>
            if optional then m
            else (case keys of None \<Rightarrow> gm_set name (Some (key_list key)) m
                  | Some ks \<Rightarrow> (case key of None \<Rightarrow> m | Some k \<Rightarrow> gm_set name (Some (List.insert k ks)) m))
        | None \<Rightarrow> if optional then gm_set name None m else gm_set name (Some (key_list key)) m)"

text \<open>The map describes a set of references: names without a reference are absent, the nil set
  stands for references that are all optional, a proper set holds exactly the keys that some
  mandatory reference asks for.\<close>

definition describes :: "MapType \<Rightarrow> reference set \<Rightarrow> bool" where
  "describes m R \<longleftrightarrow> (\<forall>n. case gm_get m n of
       None \<Rightarrow> (\<forall>opt k. (n, opt, k) \<notin> R)
     | Some None \<Rightarrow> (\<exists>k. (n, True, k) \<in> R) \<and> (\<forall>k. (n, False, k) \<notin> R)
     | Some (Some ks) \<Rightarrow> (\<exists>k. (n, False, k) \<in> R) \<and> set ks = {k. (n, False, Some k) \<in> R})"

lemma describes_empty [simp]: "describes [] {}"
  by (simp add: describes_def)

lemma note_ref_describes:
  assumes "describes m R"
  shows "describes (note_ref m (n, opt, k)) (insert (n, opt, k) R)"
  unfolding describes_def
proof
  fix x
  have x: "case gm_get m x of
       None \<Rightarrow> (\<forall>opt k. (x, opt, k) \<notin> R)
     | Some None \<Rightarrow> (\<exists>k. (x, True, k) \<in> R) \<and> (\<forall>k. (x, False, k) \<notin> R)
     | Some (Some ks) \<Rightarrow> (\<exists>k. (x, False, k) \<in> R) \<and> set ks = {k. (x, False, Some k) \<in> R}"
    using assms by (simp add: describes_def)
  show "case gm_get (note_ref m (n, opt, k)) x of
       None \<Rightarrow> (\<forall>opt' k'. (x, opt', k') \<notin> insert (n, opt, k) R)
     | Some None \<Rightarrow> (\<exists>k'. (x, True, k') \<in> insert (n, opt, k) R) \<and> (\<forall>k'. (x, False, k') \<notin> insert (n, opt, k) R)
     | Some (Some ks) \<Rightarrow> (\<exists>k'. (x, False, k') \<in> insert (n, opt, k) R)
                          \<and> set ks = {k'. (x, False, Some k') \<in> insert (n, opt, k) R}"
  proof (cases "x = n")
    case False
    then have "gm_get (note_ref m (n, opt, k)) x = gm_get m x"
      by (auto simp: note_ref_def split: option.splits)
    with x False show ?thesis by (auto split: option.splits)
  next
    case True
    with x show ?thesis
      by (cases opt; cases k; cases "gm_get m n")
         (auto simp: note_ref_def key_list_def split: option.splits)
  qed
qed

lemma foldl_note_ref_describes:
  "describes m R \<Longrightarrow> describes (foldl note_ref m rs) (R \<union> set rs)"
proof (induction rs arbitrary: m R)
  case (Cons r rs)
  obtain n opt k where r: "r = (n, opt, k)" by (cases r)
  from Cons.IH [OF note_ref_describes [OF Cons.prems, of n opt k]] show ?case
    by (simp add: r)
qed simp

lemma note_ref_wf: "gm_wf m \<Longrightarrow> gm_wf (note_ref m r)"
  by (cases r) (auto simp: note_ref_def split: option.splits intro: gomap)

lemma foldl_note_ref_wf: "gm_wf m \<Longrightarrow> gm_wf (foldl note_ref m rs)"
  by (induction rs arbitrary: m) (auto simp: note_ref_wf)

text \<open>The loops are folds of \<open>note_ref\<close> over the references their callback finds.\<close>

definition found_refs :: "('a \<Rightarrow> bool \<times> bool option \<times> string) \<Rightarrow> 'a list \<Rightarrow> reference list" where
  "found_refs ref xs = List.map_filter (\<lambda>x. case ref x of (exist, opt, name) \<Rightarrow>
     if exist then Some (name, is_optional opt, None) else None) xs"

lemma found_refs_simps [simp]:
  "found_refs ref [] = []"
  "found_refs ref (x # xs) = (case ref x of (exist, opt, name) \<Rightarrow>
     (if exist then (name, is_optional opt, None) # found_refs ref xs else found_refs ref xs))"
  by (auto simp: found_refs_def List.map_filter_simps split: prod.splits)

lemma ExtractInfoFromEnvFrom_fold:
  "ExtractInfoFromEnvFrom envs m ref = foldl note_ref m (found_refs ref envs)"
  by (induction envs m ref rule: ExtractInfoFromEnvFrom.induct)
     (auto simp: note_ref_def key_list_def Let_def split: prod.splits option.splits)

lemma ExtractInfoFromVolume_fold:
  "ExtractInfoFromVolume vs m ref = foldl note_ref m (found_refs ref vs)"
  by (induction vs m ref rule: ExtractInfoFromVolume.induct)
     (auto simp: note_ref_def key_list_def Let_def split: prod.splits option.splits)

section \<open>Properties\<close>

text \<open>On ASCII names \<open>NormalizeLabel\<close> fails exactly when the name has no letter and no digit,
  and otherwise returns a name that starts and ends with one, uses only the characters Kubernetes
  allows, and is left alone by a second normalisation.\<close>

theorem NormalizeLabel_correct:
  assumes "ascii name"
  shows "((\<exists>e. NormalizeLabel U name = Inl e) \<longleftrightarrow> (\<forall>c\<in>set name. \<not> lower_alnum_char (ascii_lower c))) \<and>
         (\<forall>t. NormalizeLabel U name = Inr t \<longrightarrow> label_shaped t \<and> NormalizeLabel U t = Inr t)"
  using NormalizeLabel_ascii [OF assms, of U] NormalizeLabel_fixpoint
  by (auto split: sum.splits)

definition ascii_unicode :: unicode where
  "ascii_unicode = \<lparr>uIsLower = (\<lambda>_. False), uIsDigit = (\<lambda>_. False), uToLower = (\<lambda>r. r)\<rparr>"

lemma NormalizeLabel_sample: "NormalizeLabel ascii_unicode ''_My Host.1!'' = Inr ''myhost.1''"
  by code_simp

theorem NormalizeLabel_correct_witness:
  "NormalizeLabel ascii_unicode ''_My Host.1!'' = Inr ''myhost.1'' \<and>
   label_shaped ''myhost.1'' \<and> NormalizeLabel ascii_unicode ''myhost.1'' = Inr ''myhost.1''"
proof -
  have "ascii ''_My Host.1!''" by (simp add: ascii_def)
  from NormalizeLabel_correct [OF this, of ascii_unicode] NormalizeLabel_sample show ?thesis by blast
qed

text \<open>The letter e with an acute accent is the only letter outside ASCII here.\<close>

definition latin1_unicode :: unicode where
  "latin1_unicode = \<lparr>uIsLower = (\<lambda>r. r = 233), uIsDigit = (\<lambda>_. False), uToLower = (\<lambda>r. r)\<rparr>"

text \<open>The result is not always a legal label value: a name of more than 63 letters keeps its
  length, and a name that starts with a letter outside ASCII loses that letter after the ends were
  chosen, so that the result can start with a dash.\<close>

theorem NormalizeLabel_not_always_valid:
  "NormalizeLabel U (replicate 64 (CHR ''a'')) = Inr (replicate 64 (CHR ''a'')) \<and>
   IsValidLabelValue (replicate 64 (CHR ''a'')) \<noteq> [] \<and>
   NormalizeLabel latin1_unicode [char_of (195::nat), char_of (169::nat), CHR ''-'', CHR ''a''] = Inr ''-a'' \<and>
   IsValidLabelValue ''-a'' \<noteq> []"
proof (intro conjI)
  have "label_shaped (replicate 64 (CHR ''a''))"
    by (simp add: label_shaped_def bracketed_def list_all_iff label_char_def lower_alnum_char_def in_range_def
        hd_replicate last_replicate)
  then show "NormalizeLabel U (replicate 64 (CHR ''a'')) = Inr (replicate 64 (CHR ''a''))"
    by (rule NormalizeLabel_fixpoint)
  show "IsValidLabelValue (replicate 64 (CHR ''a'')) \<noteq> []" by (simp add: IsValidLabelValue_def)
  show "NormalizeLabel latin1_unicode [char_of (195::nat), char_of (169::nat), CHR ''-'', CHR ''a''] = Inr ''-a''"
    by code_simp
  show "IsValidLabelValue ''-a'' \<noteq> []"
    by (simp add: IsValidLabelValue_def qualifiedNameRegexp_def bracketed_def alnum_char_def in_range_def)
qed

end
