(* ===== verification/Deployment_Controller.thy ===== *)
theory Deployment_Controller
  imports Concurrency Utils
begin

text \<open>
  \<open>controllers/edgedeployment_controller.go\<close>: one reconciliation of an EdgeDeployment. It keeps
  the finalizer and the selector labels of the deployment, puts the deployment into the status and
  the labels of every device it selects and takes it from every device that carries its label
  without being selected; a deployment that is being deleted is taken from all of them before its
  finalizer goes. A result \<open>ctrl.Result{Requeue: b}\<close> is the Boolean.
\<close>

section \<open>Operations\<close>

definition YggdrasilDeviceReferenceFinalizer :: string where
  "YggdrasilDeviceReferenceFinalizer = ''yggdrasil-device-reference-finalizer''"

fun hasDeployment_in :: "string \<Rightarrow> Deployment list \<Rightarrow> bool" where
  "hasDeployment_in name [] = False"
| "hasDeployment_in name (d # ds) = (if dpl_Name d = name then True else hasDeployment_in name ds)"

definition hasDeployment :: "EdgeDevice \<Rightarrow> string \<Rightarrow> bool" where
  "hasDeployment edgeDevice name = hasDeployment_in name (deployments_of edgeDevice)"

definition hasLabelForDeployment :: "EdgeDevice \<Rightarrow> string \<Rightarrow> bool" where
  "hasLabelForDeployment edgeDevice deploymentName =
     (gm_lookup (om_Labels (dev_meta edgeDevice)) (WorkloadLabel deploymentName) \<noteq> None)"

definition removeDeploymentFromDevice :: "'w env \<Rightarrow> string \<Rightarrow> EdgeDevice \<Rightarrow> ('w, goerr option) io" where
  "removeDeploymentFromDevice E name edgeDevice = do {
     let newDeployments = filter (\<lambda>d. dpl_Name d \<noteq> name) (deployments_of edgeDevice);
     r \<leftarrow> dev_PatchStatus E (set_deployments newDeployments edgeDevice) edgeDevice;
     case r of
       Inl err \<Rightarrow> ret (Some err)
     | Inr edgeDevice' \<Rightarrow>
         (case om_Labels (dev_meta edgeDevice') of
            None \<Rightarrow> ret None
          | Some ls \<Rightarrow> do {
              r' \<leftarrow> dev_Patch E edgeDevice' (set_labels (Some (gm_del (WorkloadLabel name) ls)) edgeDevice');
              ret (err_of r')
            })
   }"

definition removeDeploymentFromDevices :: "'w env \<Rightarrow> string \<Rightarrow> 'w ConcurrentFunc" where
  "removeDeploymentFromDevices E edgeDeployment edgeDevices =
     for_each_device (removeDeploymentFromDevice E edgeDeployment) edgeDevices"

definition removeUnlessMatching :: "'w env \<Rightarrow> string \<Rightarrow> string list \<Rightarrow> EdgeDevice \<Rightarrow> ('w, goerr option) io" where
  "removeUnlessMatching E name matchingNames device =
     (if dev_name device \<notin> set matchingNames then removeDeploymentFromDevice E name device else ret None)"

definition addDeploymentToDevice :: "'w env \<Rightarrow> string \<Rightarrow> EdgeDevice \<Rightarrow> ('w, goerr option) io" where
  "addDeploymentToDevice E name edgeDevice = do {
     r \<leftarrow> (if \<not> hasDeployment edgeDevice name then
            dev_PatchStatus E (set_deployments (deployments_of edgeDevice @
                [\<lparr>dpl_Name = name, dpl_Phase = Deploying, dpl_LastTransitionTime = zero_time,
                  dpl_LastDataUpload = zero_time\<rparr>]) edgeDevice) edgeDevice
          else ret (Inr edgeDevice));
     case r of
       Inl err \<Rightarrow> ret (Some err)
     | Inr edgeDevice' \<Rightarrow>
         if \<not> hasLabelForDeployment edgeDevice' name then do {
           r' \<leftarrow> dev_Patch E edgeDevice'
             (set_labels (Some (gm_set (WorkloadLabel name) ''true'' (opt_list (om_Labels (dev_meta edgeDevice'))))) edgeDevice');
           ret (err_of r')
         } else ret None
   }"

text \<open>\<open>if len(errs) != 0 { return fmt.Errorf(mergeErrorMessages(errs)) }\<close> around a batch.\<close>

definition batch_error :: "'w env \<Rightarrow> goerr list outcome option \<Rightarrow> goerr option outcome option" where
  "batch_error E r = map_option (\<lambda>x. case x of
     Panic p \<Rightarrow> Panic p
   | Done errs \<Rightarrow> Done (if errs \<noteq> [] then Some (Errorf_msg E (mergeErrorMessages errs)) else None)) r"

definition addDeploymentsToDevices ::
  "'w env \<Rightarrow> uint \<Rightarrow> string \<Rightarrow> EdgeDevice list \<Rightarrow> ('w, goerr option outcome option) io" where
  "addDeploymentsToDevices E concurrency name edgeDevices = do {
     r \<leftarrow> executeConcurrent E concurrency (for_each_device (addDeploymentToDevice E name)) edgeDevices;
     ret (batch_error E r)
   }"

definition removeDeploymentFromNonMatchingDevices ::
  "'w env \<Rightarrow> uint \<Rightarrow> string \<Rightarrow> EdgeDevice list \<Rightarrow> EdgeDevice list \<Rightarrow> ('w, goerr option outcome option) io" where
  "removeDeploymentFromNonMatchingDevices E concurrency name matchingDevices labelledDevices = do {
     r \<leftarrow> executeConcurrent E concurrency
            (for_each_device (removeUnlessMatching E name (map dev_name matchingDevices))) labelledDevices;
     ret (batch_error E r)
   }"

definition finalizeRemoval ::
  "'w env \<Rightarrow> uint \<Rightarrow> EdgeDevice list \<Rightarrow> EdgeDeployment \<Rightarrow> ('w, goerr option outcome option) io" where
  "finalizeRemoval E concurrency edgeDevices edgeDeployment = do {
     r \<leftarrow> executeConcurrent E concurrency
            (removeDeploymentFromDevices E (om_Name (dep_meta edgeDeployment))) edgeDevices;
     case batch_error E r of
       Some (Done None) \<Rightarrow> do {
         (err, _) \<leftarrow> dep_RemoveFinalizer E edgeDeployment YggdrasilDeviceReferenceFinalizer;
         ret (Some (Done err))
       }
     | other \<Rightarrow> ret other
   }"

definition getMatchingEdgeDevices :: "'w env \<Rightarrow> EdgeDeployment \<Rightarrow> ('w, EdgeDevice list result) io" where
  "getMatchingEdgeDevices E edgeDeployment =
     (let ns = om_Namespace (dep_meta edgeDeployment) in
      if eds_Device (dep_Spec edgeDeployment) \<noteq> [] then
        try_io (dev_Read E (eds_Device (dep_Spec edgeDeployment)) ns) (\<lambda>edgeDevice. ret (Inr [edgeDevice]))
      else if eds_DeviceSelector (dep_Spec edgeDeployment) \<noteq> None then
        dev_ListForSelector E (eds_DeviceSelector (dep_Spec edgeDeployment)) ns
      else ret (Inr []))"

definition getLabelledEdgeDevices :: "'w env \<Rightarrow> string \<Rightarrow> string \<Rightarrow> ('w, EdgeDevice list result) io" where
  "getLabelledEdgeDevices E name namespace =
     dev_ListForSelector E (Some \<lparr>ls_MatchLabels = [(WorkloadLabel name, ''true'')], ls_MatchExpressions = []\<rparr>) namespace"

fun add_expression_labels :: "string gomap \<Rightarrow> LabelSelectorRequirement list \<Rightarrow> string gomap" where
  "add_expression_labels ls [] = ls"
| "add_expression_labels ls (requirement # rs) =
     (if lsr_Operator requirement = OpDoesNotExist
      then add_expression_labels (gm_set (CreateSelectorLabel DoesNotExistLabel) ''true'' ls) rs
      else add_expression_labels (gm_set (CreateSelectorLabel (lsr_Key requirement)) ''true'' ls) rs)"

fun add_match_label_labels :: "string gomap \<Rightarrow> string gomap \<Rightarrow> string gomap" where
  "add_match_label_labels ls [] = ls"
| "add_match_label_labels ls ((label, _) # ms) =
     add_match_label_labels (gm_set (CreateSelectorLabel label) ''true'' ls) ms"

definition UpdateSelectorLabels :: "EdgeDeployment \<Rightarrow> EdgeDeployment" where
  "UpdateSelectorLabels edgeDeployment =
     (let deploymentLabels0 = opt_list (om_Labels (dep_meta edgeDeployment));
          deploymentLabels1 = filter (\<lambda>(label, _). \<not> IsSelectorLabel label) deploymentLabels0;
          deploymentLabels2 =
            (if eds_Device (dep_Spec edgeDeployment) \<noteq> []
             then gm_set (CreateSelectorLabel DeviceNameLabel) (eds_Device (dep_Spec edgeDeployment)) deploymentLabels1
             else (case eds_DeviceSelector (dep_Spec edgeDeployment) of
                None \<Rightarrow> deploymentLabels1
              | Some labelSelector \<Rightarrow>
                  add_expression_labels (add_match_label_labels deploymentLabels1 (ls_MatchLabels labelSelector))
                    (ls_MatchExpressions labelSelector)))
      in edgeDeployment\<lparr>dep_meta := (dep_meta edgeDeployment)\<lparr>om_Labels := Some deploymentLabels2\<rparr>\<rparr>)"

definition updateLabelsFromSelector ::
  "'w env \<Rightarrow> EdgeDeployment \<Rightarrow> ('w, bool \<times> goerr option) io" where
  "updateLabelsFromSelector E edgeDeployment =
     (let edgeDeploymentCopy = UpdateSelectorLabels edgeDeployment;
          newLabels = om_Labels (dep_meta edgeDeploymentCopy);
          oldLabels = om_Labels (dep_meta edgeDeployment)
      in if (opt_list newLabels = [] \<and> oldLabels = None) \<or> labels_DeepEqual newLabels oldLabels
         then ret (False, None)
         else do { r \<leftarrow> dep_Patch E edgeDeployment edgeDeploymentCopy; ret (True, err_of r) })"

text \<open>\<open>if !errors.IsNotFound(err) { return }\<close>: a missing device is an empty list.\<close>

definition not_found_empty :: "'a list result \<Rightarrow> 'a list result" where
  "not_found_empty r = (case r of Inl err \<Rightarrow> if IsNotFound err then Inr [] else Inl err | Inr x \<Rightarrow> Inr x)"

text \<open>The end of a reconciliation step whose last call returned \<open>err\<close>.\<close>

definition finish :: "goerr option outcome option \<Rightarrow> (bool \<times> goerr option) outcome option" where
  "finish r = map_option (\<lambda>x. case x of
     Panic p \<Rightarrow> Panic p
   | Done (Some err) \<Rightarrow> Done (True, Some err)
   | Done None \<Rightarrow> Done (False, None)) r"

definition reconcile_devices ::
  "'w env \<Rightarrow> uint \<Rightarrow> EdgeDeployment \<Rightarrow> ('w, (bool \<times> goerr option) outcome option) io" where
  "reconcile_devices E concurrency edgeDeployment = do {
     let name = om_Name (dep_meta edgeDeployment);
     labelled \<leftarrow> getLabelledEdgeDevices E name (om_Namespace (dep_meta edgeDeployment));
     case not_found_empty labelled of
       Inl err \<Rightarrow> ret (Some (Done (True, Some err)))
     | Inr labelledDevices \<Rightarrow> do {
         matching \<leftarrow> getMatchingEdgeDevices E edgeDeployment;
         case not_found_empty matching of
           Inl err \<Rightarrow> ret (Some (Done (True, Some err)))
         | Inr edgeDevices \<Rightarrow>
             if om_DeletionTimestamp (dep_meta edgeDeployment) \<noteq> None then
               (if HasFinalizer (dep_meta edgeDeployment) YggdrasilDeviceReferenceFinalizer then do {
                  r \<leftarrow> finalizeRemoval E concurrency (merge edgeDevices labelledDevices) edgeDeployment;
                  ret (finish r)
                } else ret (Some (Done (False, None))))
             else do {
               r \<leftarrow> addDeploymentsToDevices E concurrency name edgeDevices;
               case r of
                 Some (Done None) \<Rightarrow> do {
                   r' \<leftarrow> removeDeploymentFromNonMatchingDevices E concurrency name edgeDevices labelledDevices;
                   ret (finish r')
                 }
               | _ \<Rightarrow> ret (finish r)
             }
       }
   }"

definition dep_Reconcile ::
  "'w env \<Rightarrow> uint \<Rightarrow> string \<Rightarrow> string \<Rightarrow> ('w, (bool \<times> goerr option) outcome option) io" where
  "dep_Reconcile E concurrency reqName reqNamespace = do {
     r \<leftarrow> dep_Read E reqName reqNamespace;
     case r of
       Inl err \<Rightarrow> ret (Some (Done (if IsNotFound err then (False, None) else (True, Some err))))
     | Inr edgeDeployment \<Rightarrow>
         if om_DeletionTimestamp (dep_meta edgeDeployment) = None
            \<and> \<not> HasFinalizer (dep_meta edgeDeployment) YggdrasilDeviceReferenceFinalizer then do {
           r' \<leftarrow> dep_Patch E edgeDeployment (dep_set_finalizers [YggdrasilDeviceReferenceFinalizer] edgeDeployment);
           ret (Some (Done (True, err_of r')))
         }
         else do {
           (updated, err) \<leftarrow>
             (if om_DeletionTimestamp (dep_meta edgeDeployment) = None
              then updateLabelsFromSelector E edgeDeployment else ret (False, None));
           case err of
             Some e \<Rightarrow> ret (Some (Done (True, Some e)))
           | None \<Rightarrow>
               if updated then ret (Some (Done (False, None)))
               else reconcile_devices E concurrency edgeDeployment
         }
   }"

section \<open>One device\<close>

lemma hasDeployment_iff: "hasDeployment d n \<longleftrightarrow> n \<in> dpl_Name ` set (deployments_of d)"
proof -
  have "hasDeployment_in n ds \<longleftrightarrow> n \<in> dpl_Name ` set ds" for ds by (induction ds) auto
  then show ?thesis by (simp add: hasDeployment_def)
qed

lemma hasLabelForDeployment_iff: "hasLabelForDeployment d n \<longleftrightarrow> labels_of d (WorkloadLabel n) \<noteq> None"
  by (simp add: hasLabelForDeployment_def labels_of_def)

text \<open>The device \<open>s\<close> runs the deployment, or has nothing left of it; other labels and deployments
  are those of \<open>d\<close>.\<close>

definition same_but :: "string \<Rightarrow> EdgeDevice \<Rightarrow> EdgeDevice \<Rightarrow> bool" where
  "same_but name d s \<longleftrightarrow>
     om_DeletionTimestamp (dev_meta s) = om_DeletionTimestamp (dev_meta d) \<and> finalizers_of s = finalizers_of d \<and>
     (\<forall>k. k \<noteq> WorkloadLabel name \<longrightarrow> labels_of s k = labels_of d k) \<and>
     filter (\<lambda>x. dpl_Name x \<noteq> name) (deployments_of s) = filter (\<lambda>x. dpl_Name x \<noteq> name) (deployments_of d)"

definition deployed :: "string \<Rightarrow> EdgeDevice \<Rightarrow> EdgeDevice \<Rightarrow> bool" where
  "deployed name d s \<longleftrightarrow> same_but name d s \<and> hasDeployment s name \<and> labels_of s (WorkloadLabel name) \<noteq> None"

definition undeployed :: "string \<Rightarrow> EdgeDevice \<Rightarrow> EdgeDevice \<Rightarrow> bool" where
  "undeployed name d s \<longleftrightarrow> same_but name d s \<and> \<not> hasDeployment s name \<and> labels_of s (WorkloadLabel name) = None"

lemma stored_after_same:
  "om_DeletionTimestamp (dev_meta s) = om_DeletionTimestamp (dev_meta d) \<Longrightarrow> finalizers_of s = finalizers_of d \<Longrightarrow>
   stored_after d = Some d \<Longrightarrow> stored_after s = Some s"
  by (auto simp: stored_after_def split: if_splits)

lemma decoded_same: "decoded z s l r \<Longrightarrow> s = l \<Longrightarrow> r = s"
  by (auto simp: decoded_def split: if_splits)

lemma response_labels:
  assumes "response_of s local r" and "labels_of s = labels_of local"
  shows "labels_of r = labels_of s"
proof
  fix k
  have "decoded None (labels_of s k) (labels_of local k) (labels_of r k)"
    using assms(1) by (simp add: response_of_def)
  then show "labels_of r k = labels_of s k" by (rule decoded_same) (simp add: assms(2))
qed

lemma response_key: "response_of s local r \<Longrightarrow> dev_key r = dev_key s"
  by (simp add: response_of_def)

lemma merge_field_same [simp]: "merge_field x x c = c" "merge_field c x c = x"
  by (simp_all add: merge_field_def)

context device_api
begin

lemma PatchStatus_deployments:
  assumes "devs w (dev_key d) = Some d" and "stored_after d = Some d"
  shows "wp (dev_PatchStatus E (set_deployments ds d) d) (\<lambda>r w'. case r of
      Inl _ \<Rightarrow> devs w' = devs w
    | Inr d' \<Rightarrow> dev_key d' = dev_key d \<and> labels_of d' = labels_of d \<and>
        (\<exists>s. devs w' = (devs w)(dev_key d \<mapsto> s) \<and> dev_key s = dev_key d \<and> stored_after s = Some s
           \<and> om_DeletionTimestamp (dev_meta s) = om_DeletionTimestamp (dev_meta d)
           \<and> finalizers_of s = finalizers_of d \<and> labels_of s = labels_of d \<and> deployments_of s = ds)) w"
proof -
  have "devs w (dev_key (set_deployments ds d)) = Some d" using assms by simp
  from repo.patch_status_spec [OF this, of d] show ?thesis
  proof (rule wp_conseq, goal_cases)
    case (1 r w')
    then show ?case
    proof (cases r)
      case (Inr d')
      with 1 obtain s where s: "dev_key s = dev_key d" "response_of s (set_deployments ds d) d'"
        "devs w' = (devs w)(dev_key d \<mapsto> s)"
        "om_DeletionTimestamp (dev_meta s) = om_DeletionTimestamp (dev_meta d)"
        "deployments_of s = ds" "labels_of s = labels_of d" "finalizers_of s = finalizers_of d" by auto
      moreover have "labels_of d' = labels_of d" using response_labels [OF s(2)] s(6) by simp
      moreover have "dev_key d' = dev_key d" using response_key [OF s(2)] s(1) by simp
      ultimately show ?thesis using Inr stored_after_same [OF s(4,7) assms(2)] by auto
    qed simp
  qed
qed

lemma Patch_labels:
  assumes s: "devs w (dev_key d') = Some s" "stored_after s = Some s"
    and same: "labels_of d' = labels_of s"
  shows "wp (dev_Patch E d' (set_labels ls d')) (\<lambda>r w'. \<exists>t. devs w' = (devs w)(dev_key d' \<mapsto> t) \<and>
           stored_after t = Some t \<and> (err_of r = None \<longrightarrow> dev_key t = dev_key d' \<and> labels_of t = gm_lookup ls
             \<and> om_DeletionTimestamp (dev_meta t) = om_DeletionTimestamp (dev_meta s)
             \<and> finalizers_of t = finalizers_of s \<and> deployments_of t = deployments_of s)
           \<and> (err_of r \<noteq> None \<longrightarrow> t = s)) w"
proof -
  have "devs w (dev_key (set_labels ls d')) = Some s" using s by simp
  from repo.patch_spec [OF this, of d'] show ?thesis
  proof (rule wp_conseq, goal_cases)
    case (1 r w')
    show ?case
    proof (cases r)
      case (Inl e)
      with 1 s show ?thesis by (simp add: fun_upd_idem)
    next
      case (Inr x)
      with 1 obtain t where t: "dev_key t = dev_key d'" "devs w' = (devs w)(dev_key d' := stored_after t)"
        "om_DeletionTimestamp (dev_meta t) = om_DeletionTimestamp (dev_meta s)"
        "deployments_of t = deployments_of s" "labels_of t = merge_labels d' (set_labels ls d') s"
        "finalizers_of t = finalizers_of s" by auto
      have "labels_of t = gm_lookup ls"
        unfolding t(5) by (rule ext) (simp add: merge_labels_def same)
      with Inr t stored_after_same [OF t(3,6) s(2)] show ?thesis by auto
    qed
  qed
qed

lemma removeDeploymentFromDevice_spec:
  assumes "devs w (dev_key d) = Some d" and "stored_after d = Some d"
  shows "wp (removeDeploymentFromDevice E name d) (\<lambda>err w'. \<exists>s. devs w' = (devs w)(dev_key d \<mapsto> s)
           \<and> dev_key s = dev_key d \<and> stored_after s = Some s \<and> (err = None \<longrightarrow> undeployed name d s)) w"
  unfolding removeDeploymentFromDevice_def Let_def wp_bind
proof (rule wp_conseq [OF PatchStatus_deployments [OF assms]], goal_cases)
  case (1 r w1)
  show ?case
  proof (cases r)
    case (Inl e)
    with 1 assms show ?thesis by (auto simp: fun_upd_idem intro!: exI [of _ d])
  next
    case (Inr d')
    with 1 obtain s where d': "dev_key d' = dev_key d" "labels_of d' = labels_of d"
      and s: "devs w1 = (devs w)(dev_key d \<mapsto> s)" "dev_key s = dev_key d" "stored_after s = Some s"
        "om_DeletionTimestamp (dev_meta s) = om_DeletionTimestamp (dev_meta d)"
        "finalizers_of s = finalizers_of d" "labels_of s = labels_of d"
        "deployments_of s = filter (\<lambda>x. dpl_Name x \<noteq> name) (deployments_of d)" by auto
    have clean: "\<not> hasDeployment s name" using s(7) by (auto simp: hasDeployment_iff)
    show ?thesis
    proof (cases "om_Labels (dev_meta d')")
      case None
      then have "labels_of d (WorkloadLabel name) = None" using d'(2) by (metis labels_of_def gm_lookup_simps(1))
      with None Inr s clean show ?thesis by (auto simp: undeployed_def same_but_def intro!: exI [of _ s])
    next
      case (Some ls)
      have ls: "gm_get ls = labels_of d" using Some d'(2) by (auto simp: labels_of_def fun_eq_iff)
      have "wp (dev_Patch E d' (set_labels (Some (gm_del (WorkloadLabel name) ls)) d')) (\<lambda>r w'. \<exists>t.
           devs w' = (devs w1)(dev_key d' \<mapsto> t) \<and> stored_after t = Some t \<and> (err_of r = None \<longrightarrow> dev_key t = dev_key d' \<and>
             labels_of t = gm_lookup (Some (gm_del (WorkloadLabel name) ls))
             \<and> om_DeletionTimestamp (dev_meta t) = om_DeletionTimestamp (dev_meta s)
             \<and> finalizers_of t = finalizers_of s \<and> deployments_of t = deployments_of s)
           \<and> (err_of r \<noteq> None \<longrightarrow> t = s)) w1"
        by (rule Patch_labels) (use s d' in simp_all)
      then show ?thesis
        unfolding Inr Some sum.case option.case wp_bind wp_ret
      proof (rule wp_conseq, goal_cases)
        case (1 r' w2)
        then obtain t where t: "devs w2 = (devs w1)(dev_key d' \<mapsto> t)" "stored_after t = Some t"
          "err_of r' = None \<longrightarrow> dev_key t = dev_key d' \<and> labels_of t = gm_lookup (Some (gm_del (WorkloadLabel name) ls))
             \<and> om_DeletionTimestamp (dev_meta t) = om_DeletionTimestamp (dev_meta s)
             \<and> finalizers_of t = finalizers_of s \<and> deployments_of t = deployments_of s"
          "err_of r' \<noteq> None \<longrightarrow> t = s" by (elim exE conjE) (rule that; assumption)
        have "undeployed name d t" if "err_of r' = None"
        proof -
          have "labels_of t k = (if k = WorkloadLabel name then None else labels_of d k)" for k
            using t(3) that ls by simp
          then show ?thesis using t(3) that s clean ls by (simp add: undeployed_def same_but_def hasDeployment_iff)
        qed
        moreover have "dev_key t = dev_key d" using t s d' by metis
        ultimately show ?case using t(1,2) s(1) d'(1) by (intro exI [of _ t]) simp
      qed
    qed
  qed
qed

lemma addDeploymentToDevice_spec:
  assumes d: "devs w (dev_key d) = Some d" "stored_after d = Some d"
  shows "wp (addDeploymentToDevice E name d) (\<lambda>err w'. \<exists>s. devs w' = (devs w)(dev_key d \<mapsto> s)
           \<and> dev_key s = dev_key d \<and> stored_after s = Some s \<and> (err = None \<longrightarrow> deployed name d s)) w"
proof -
  define ds where "ds = (if hasDeployment d name then deployments_of d else deployments_of d @
     [\<lparr>dpl_Name = name, dpl_Phase = Deploying, dpl_LastTransitionTime = zero_time, dpl_LastDataUpload = zero_time\<rparr>])"
  have ds: "name \<in> dpl_Name ` set ds"
    "filter (\<lambda>x. dpl_Name x \<noteq> name) ds = filter (\<lambda>x. dpl_Name x \<noteq> name) (deployments_of d)"
    by (auto simp: ds_def hasDeployment_iff)
  have first: "wp (if \<not> hasDeployment d name then
            dev_PatchStatus E (set_deployments (deployments_of d @
                [\<lparr>dpl_Name = name, dpl_Phase = Deploying, dpl_LastTransitionTime = zero_time,
                  dpl_LastDataUpload = zero_time\<rparr>]) d) d
          else ret (Inr d)) (\<lambda>r w'. case r of
      Inl _ \<Rightarrow> devs w' = devs w
    | Inr d' \<Rightarrow> dev_key d' = dev_key d \<and> labels_of d' = labels_of d \<and>
        (\<exists>s. devs w' = (devs w)(dev_key d \<mapsto> s) \<and> dev_key s = dev_key d \<and> stored_after s = Some s
           \<and> om_DeletionTimestamp (dev_meta s) = om_DeletionTimestamp (dev_meta d)
           \<and> finalizers_of s = finalizers_of d \<and> labels_of s = labels_of d \<and> deployments_of s = ds)) w"
  proof (cases "hasDeployment d name")
    case True
    then show ?thesis using d by (simp add: ds_def fun_upd_idem exI [of _ d])
  next
    case False
    then show ?thesis using PatchStatus_deployments [OF d, of ds] by (simp add: ds_def)
  qed
  show ?thesis
    unfolding addDeploymentToDevice_def wp_bind
  proof (rule wp_conseq [OF first], goal_cases)
    case (1 r w1)
    show ?case
    proof (cases r)
      case (Inl e)
      with 1 d show ?thesis by (auto simp: fun_upd_idem intro!: exI [of _ d])
    next
      case (Inr d')
      with 1 obtain s where d': "dev_key d' = dev_key d" "labels_of d' = labels_of d"
        and s: "devs w1 = (devs w)(dev_key d \<mapsto> s)" "dev_key s = dev_key d" "stored_after s = Some s"
          "om_DeletionTimestamp (dev_meta s) = om_DeletionTimestamp (dev_meta d)"
          "finalizers_of s = finalizers_of d" "labels_of s = labels_of d" "deployments_of s = ds" by auto
      have has: "hasDeployment s name" using ds s(7) by (simp add: hasDeployment_iff)
      show ?thesis
      proof (cases "hasLabelForDeployment d' name")
        case True
        then have "labels_of s (WorkloadLabel name) \<noteq> None" using d' s by (simp add: hasLabelForDeployment_iff)
        with True Inr s ds has show ?thesis by (auto simp: deployed_def same_but_def intro!: exI [of _ s])
      next
        case False
        let ?ls = "Some (gm_set (WorkloadLabel name) ''true'' (opt_list (om_Labels (dev_meta d'))))"
        have ls: "gm_lookup ?ls k = (if k = WorkloadLabel name then Some ''true'' else labels_of d k)" for k
          using d'(2) by (simp add: gm_lookup_opt_list [symmetric] labels_of_def fun_eq_iff)
        have "wp (dev_Patch E d' (set_labels ?ls d')) (\<lambda>r w'. \<exists>t.
           devs w' = (devs w1)(dev_key d' \<mapsto> t) \<and> stored_after t = Some t \<and> (err_of r = None \<longrightarrow> dev_key t = dev_key d' \<and>
             labels_of t = gm_lookup ?ls
             \<and> om_DeletionTimestamp (dev_meta t) = om_DeletionTimestamp (dev_meta s)
             \<and> finalizers_of t = finalizers_of s \<and> deployments_of t = deployments_of s)
           \<and> (err_of r \<noteq> None \<longrightarrow> t = s)) w1"
          by (rule Patch_labels) (use s d' in simp_all)
        then have "wp (dev_Patch E d' (set_labels ?ls d')) (\<lambda>r w'. \<exists>s. devs w' = (devs w)(dev_key d \<mapsto> s)
             \<and> dev_key s = dev_key d \<and> stored_after s = Some s \<and> (err_of r = None \<longrightarrow> deployed name d s)) w1"
        proof (rule wp_conseq, goal_cases)
          case (1 r' w2)
          then obtain t where t: "devs w2 = (devs w1)(dev_key d' \<mapsto> t)" "stored_after t = Some t"
            "err_of r' = None \<longrightarrow> dev_key t = dev_key d' \<and> labels_of t = gm_lookup ?ls
             \<and> om_DeletionTimestamp (dev_meta t) = om_DeletionTimestamp (dev_meta s)
             \<and> finalizers_of t = finalizers_of s \<and> deployments_of t = deployments_of s"
            "err_of r' \<noteq> None \<longrightarrow> t = s" by (elim exE conjE) (rule that; assumption)
          have "deployed name d t" if "err_of r' = None"
            using t(3) that s has ls ds(2) by (simp add: deployed_def same_but_def hasDeployment_iff del: gm_lookup_simps)
          moreover have "dev_key t = dev_key d" using t s d' by metis
          ultimately show ?case using t(1,2) s(1) d'(1) by (intro exI [of _ t]) simp
        qed
        then show ?thesis using Inr False by simp
      qed
    qed
  qed
qed

end

text \<open>What a batch makes of a stored device: \<open>Q\<close> if its step returned no error; in any case the
  device stays, in a state the server keeps.\<close>

definition settled :: "(string \<times> string) \<Rightarrow> EdgeDevice option \<Rightarrow> bool" where
  "settled k x \<longleftrightarrow> (\<forall>d. x = Some d \<longrightarrow> dev_key d = k \<and> stored_after d = Some d)"

definition becomes :: "(EdgeDevice \<Rightarrow> EdgeDevice \<Rightarrow> bool) \<Rightarrow> EdgeDevice \<Rightarrow> bool \<Rightarrow>
    EdgeDevice option \<Rightarrow> EdgeDevice option \<Rightarrow> bool" where
  "becomes Q d ok cur new \<longleftrightarrow> settled (dev_key d) new \<and>
     (\<exists>c s. cur = Some c \<and> new = Some s \<and> (ok \<longrightarrow> Q c s))"

definition unchanged_since :: "EdgeDevice \<Rightarrow> EdgeDevice option \<Rightarrow> bool" where
  "unchanged_since d cur \<longleftrightarrow> cur = Some d \<and> stored_after d = Some d"

definition prunable :: "string list \<Rightarrow> EdgeDevice \<Rightarrow> EdgeDevice option \<Rightarrow> bool" where
  "prunable names d cur \<longleftrightarrow> settled (dev_key d) cur \<and> cur \<noteq> None \<and> (dev_name d \<notin> set names \<longrightarrow> cur = Some d)"

definition pruned :: "string \<Rightarrow> string list \<Rightarrow> EdgeDevice \<Rightarrow> EdgeDevice \<Rightarrow> bool" where
  "pruned name names c s \<longleftrightarrow> (if dev_name c \<in> set names then s = c else undeployed name c s)"

context device_api
begin

lemma adding_step:
  assumes "unchanged_since d (devs w (dev_key d))"
  shows "wp (addDeploymentToDevice E name d) (\<lambda>err w'. (\<forall>k. k \<noteq> dev_key d \<longrightarrow> devs w' k = devs w k) \<and>
           becomes (deployed name) d (err = None) (devs w (dev_key d)) (devs w' (dev_key d))) w"
proof -
  have d: "devs w (dev_key d) = Some d" "stored_after d = Some d" using assms by (auto simp: unchanged_since_def)
  from addDeploymentToDevice_spec [OF d] show ?thesis
    by (rule wp_conseq) (use d in \<open>auto simp: becomes_def settled_def\<close>)
qed

lemma removing_step:
  assumes "unchanged_since d (devs w (dev_key d))"
  shows "wp (removeDeploymentFromDevice E name d) (\<lambda>err w'. (\<forall>k. k \<noteq> dev_key d \<longrightarrow> devs w' k = devs w k) \<and>
           becomes (undeployed name) d (err = None) (devs w (dev_key d)) (devs w' (dev_key d))) w"
proof -
  have d: "devs w (dev_key d) = Some d" "stored_after d = Some d" using assms by (auto simp: unchanged_since_def)
  from removeDeploymentFromDevice_spec [OF d] show ?thesis
    by (rule wp_conseq) (use d in \<open>auto simp: becomes_def settled_def\<close>)
qed

lemma pruning_step:
  assumes "prunable names d (devs w (dev_key d))"
  shows "wp (removeUnlessMatching E name names d) (\<lambda>err w'. (\<forall>k. k \<noteq> dev_key d \<longrightarrow> devs w' k = devs w k) \<and>
           becomes (pruned name names) d (err = None) (devs w (dev_key d)) (devs w' (dev_key d))) w"
proof (cases "dev_name d \<in> set names")
  case True
  from assms obtain c where c: "devs w (dev_key d) = Some c" "dev_key c = dev_key d" "stored_after c = Some c"
    by (auto simp: prunable_def settled_def)
  then have "dev_name c = dev_name d" by (simp add: dev_key_def dev_name_def)
  with True c show ?thesis by (simp add: removeUnlessMatching_def becomes_def settled_def pruned_def)
next
  case False
  then have c: "devs w (dev_key d) = Some d" using assms by (simp add: prunable_def)
  with assms have "settled (dev_key d) (Some d)" by (simp add: prunable_def)
  with c have "unchanged_since d (devs w (dev_key d))" by (simp add: unchanged_since_def settled_def)
  have run: "removeUnlessMatching E name names d = removeDeploymentFromDevice E name d"
    using False by (simp add: removeUnlessMatching_def)
  have Q: "becomes (pruned name names) d ok (Some d) x" if "becomes (undeployed name) d ok (Some d) x" for ok x
    using that False by (simp add: becomes_def pruned_def)
  from removing_step [OF \<open>unchanged_since d _\<close>, of name] show ?thesis
    unfolding run c by (rule wp_conseq) (elim conjE, intro conjI Q)
qed

end

sublocale device_api \<subseteq> adding: device_batch E devs "addDeploymentToDevice E name" unchanged_since
    "becomes (deployed name)" for name
  by (unfold_locales, rule adding_step, assumption, rule sched_keeps)

sublocale device_api \<subseteq> removing: device_batch E devs "removeDeploymentFromDevice E name" unchanged_since
    "becomes (undeployed name)" for name
  by (unfold_locales, rule removing_step, assumption, rule sched_keeps)

sublocale device_api \<subseteq> pruning: device_batch E devs "removeUnlessMatching E name names" "prunable names"
    "becomes (pruned name names)" for name names
  by (unfold_locales, rule pruning_step, assumption, rule sched_keeps)

section \<open>Which devices a deployment selects\<close>

definition selects :: "EdgeDeployment \<Rightarrow> EdgeDevice \<Rightarrow> bool" where
  "selects dep d \<longleftrightarrow>
     (if eds_Device (dep_Spec dep) \<noteq> [] then dev_name d = eds_Device (dep_Spec dep)
      else case eds_DeviceSelector (dep_Spec dep) of
        None \<Rightarrow> False
      | Some s \<Rightarrow> (\<forall>(k, v)\<in>set (ls_MatchLabels s). labels_of d k = Some v) \<and>
                 (\<forall>x\<in>set (ls_MatchExpressions s). expr_holds x (labels_of d)))"

text \<open>\<open>ds\<close> are the stored devices of a namespace with a property, each once.\<close>

definition lists :: "(string \<times> string \<Rightarrow> EdgeDevice option) \<Rightarrow> string \<Rightarrow> (EdgeDevice \<Rightarrow> bool) \<Rightarrow> EdgeDevice list \<Rightarrow> bool" where
  "lists store ns P ds \<longleftrightarrow> distinct (map dev_key ds) \<and>
     (\<forall>d. d \<in> set ds \<longleftrightarrow> store (dev_key d) = Some d \<and> fst (dev_key d) = ns \<and> P d)"

lemma dev_key_pair: "dev_key d = (ns, n) \<longleftrightarrow> fst (dev_key d) = ns \<and> dev_name d = n"
  by (auto simp: dev_key_def dev_name_def)

lemma lists_names: "lists store ns P ds \<Longrightarrow> lists store ns Q es \<Longrightarrow> d \<in> set es \<Longrightarrow>
    dev_name d \<in> set (map dev_name ds) \<longleftrightarrow> d \<in> set ds"
proof
  assume l: "lists store ns P ds" "lists store ns Q es" "d \<in> set es"
  assume "dev_name d \<in> set (map dev_name ds)"
  then obtain x where x: "x \<in> set ds" "dev_name x = dev_name d" by auto
  then have "dev_key x = dev_key d" using l unfolding lists_def by (metis dev_key_def dev_name_def fst_conv)
  then show "d \<in> set ds" using l x unfolding lists_def by (metis option.inject)
qed simp

lemma lists_cong: "lists store ns P ds \<Longrightarrow> (\<And>d. P d \<longleftrightarrow> Q d) \<Longrightarrow> lists store ns Q ds"
  by (simp add: lists_def)

context device_api
begin

lemma ListForSelector_spec:
  "wp (dev_ListForSelector E s ns) (\<lambda>r w'. devs w' = devs w \<and> (case r of
      Inl e \<Rightarrow> \<not> IsNotFound e
    | Inr ds \<Rightarrow> \<exists>sel. LabelSelectorAsSelector s = Inr sel \<and>
        lists (devs w) ns (\<lambda>d. Selector_Matches sel (om_Labels (dev_meta d))) ds)) w"
proof (cases "LabelSelectorAsSelector s")
  case (Inl e)
  then show ?thesis by (simp add: dev_ListForSelector_def LabelSelectorAsSelector_error)
next
  case (Inr sel)
  show ?thesis
    unfolding dev_ListForSelector_def Inr sum.case
  proof (rule wp_intro)
    fix r w' assume run: "run_state (k_dev_list E sel ns) w = (r, w')"
    have "lists (devs w) ns (\<lambda>d. Selector_Matches sel (om_Labels (dev_meta d))) ds" if "r = Inr ds" for ds
      using list_found [OF run [unfolded that]] list_distinct [OF run [unfolded that]]
      unfolding lists_def dev_key_pair by (metis dev_key_pair prod.collapse)
    then show "devs w' = devs w \<and> (case r of Inl e \<Rightarrow> \<not> IsNotFound e
        | Inr ds \<Rightarrow> \<exists>sl. Inr sel = Inr sl \<and> lists (devs w) ns (\<lambda>d. Selector_Matches sl (om_Labels (dev_meta d))) ds)"
      using keeps_run [OF list_keeps run] list_error run by (cases r) auto
  qed
qed

lemma getLabelledEdgeDevices_spec:
  "wp (getLabelledEdgeDevices E name ns) (\<lambda>r w'. devs w' = devs w \<and> (case not_found_empty r of
      Inl e \<Rightarrow> True
    | Inr ds \<Rightarrow> lists (devs w) ns (\<lambda>d. labels_of d (WorkloadLabel name) = Some ''true'') ds)) w"
  unfolding getLabelledEdgeDevices_def
proof (rule wp_conseq [OF ListForSelector_spec], goal_cases)
  case (1 r w')
  then show ?case
  proof (cases r)
    case (Inr ds)
    with 1 obtain sel where
      sel: "LabelSelectorAsSelector (Some \<lparr>ls_MatchLabels = [(WorkloadLabel name, ''true'')], ls_MatchExpressions = []\<rparr>) = Inr sel"
      and l: "lists (devs w) ns (\<lambda>d. Selector_Matches sel (om_Labels (dev_meta d))) ds" by auto
    have "lists (devs w) ns (\<lambda>d. labels_of d (WorkloadLabel name) = Some ''true'') ds"
      by (rule lists_cong [OF l]) (simp add: label_selector_Matches [OF sel] labels_of_def)
    with Inr 1 show ?thesis by (simp add: not_found_empty_def)
  qed (simp add: not_found_empty_def)
qed

lemma getMatchingEdgeDevices_spec:
  "wp (getMatchingEdgeDevices E dep) (\<lambda>r w'. devs w' = devs w \<and> (case not_found_empty r of
      Inl e \<Rightarrow> True
    | Inr ds \<Rightarrow> lists (devs w) (om_Namespace (dep_meta dep)) (selects dep) ds)) w"
proof -
  let ?ns = "om_Namespace (dep_meta dep)" and ?dev = "eds_Device (dep_Spec dep)"
  consider (named) "?dev \<noteq> []" | (sel) s where "?dev = []" "eds_DeviceSelector (dep_Spec dep) = Some s"
    | (none) "?dev = []" "eds_DeviceSelector (dep_Spec dep) = None" by auto
  then show ?thesis
  proof cases
    case named
    then show ?thesis
    proof (simp add: getMatchingEdgeDevices_def Let_def, intro wp_conseq [OF repo.read_spec], goal_cases)
      case (1 r w')
      then show ?case
      proof (cases r)
        case (Inl e)
        with 1 show ?thesis by (auto simp: not_found_empty_def lists_def selects_def dev_key_def dev_name_def)
      next
        case (Inr d)
        with 1 have d: "devs w (?ns, ?dev) = Some d" "dev_key d = (?ns, ?dev)" "devs w' = devs w" by auto
        have "x = d \<longleftrightarrow> devs w (dev_key x) = Some x \<and> fst (dev_key x) = ?ns \<and> dev_name x = ?dev" for x
          using d dev_key_pair by (metis option.inject)
        with Inr named d show ?thesis by (simp add: not_found_empty_def lists_def selects_def)
      qed
    qed
  next
    case sel
    then show ?thesis
    proof (simp add: getMatchingEdgeDevices_def Let_def, intro wp_conseq [OF ListForSelector_spec], goal_cases)
      case (1 r w')
      show ?case
      proof (cases r)
        case (Inl e)
        with 1 show ?thesis by (simp add: not_found_empty_def)
      next
        case (Inr ds)
        with 1 sel obtain sl where sl: "LabelSelectorAsSelector (Some s) = Inr sl"
          and l: "lists (devs w) ?ns (\<lambda>d. Selector_Matches sl (om_Labels (dev_meta d))) ds" by auto
        have "lists (devs w) ?ns (selects dep) ds"
          by (rule lists_cong [OF l])
             (simp add: accepted_selector_Matches [OF sl] selects_def sel labels_of_def [abs_def])
        with Inr 1 show ?thesis by (simp add: not_found_empty_def)
      qed
    qed
  next
    case none
    then show ?thesis by (simp add: getMatchingEdgeDevices_def not_found_empty_def lists_def selects_def)
  qed
qed

end

section \<open>Convergence\<close>

text \<open>The stored devices of one namespace after a reconciliation that succeeded: a selected device
  runs the deployment, one that carries its label without being selected has lost it, every other
  device is as it was.\<close>

definition converged :: "string \<Rightarrow> string \<Rightarrow> (EdgeDevice \<Rightarrow> bool) \<Rightarrow>
    (string \<times> string \<Rightarrow> EdgeDevice option) \<Rightarrow> (string \<times> string \<Rightarrow> EdgeDevice option) \<Rightarrow> bool" where
  "converged name ns sel st st' \<longleftrightarrow> (\<forall>k. case st k of
      None \<Rightarrow> st' k = None
    | Some d \<Rightarrow> (\<exists>s. st' k = Some s \<and>
        (if fst k = ns \<and> sel d then deployed name d s
         else if fst k = ns \<and> labels_of d (WorkloadLabel name) = Some ''true'' then undeployed name d s
         else s = d)))"

definition all_settled :: "(string \<times> string \<Rightarrow> EdgeDevice option) \<Rightarrow> bool" where
  "all_settled st \<longleftrightarrow> (\<forall>k. settled k (st k))"

lemma all_settledD: "all_settled st \<Longrightarrow> st k = Some d \<Longrightarrow> dev_key d = k \<and> stored_after d = Some d"
  unfolding all_settled_def settled_def by blast

lemma lists_unchanged:
  "lists st ns P ds \<Longrightarrow> all_settled st \<Longrightarrow> d \<in> set ds \<Longrightarrow> unchanged_since d (st (dev_key d))"
  by (auto simp: lists_def unchanged_since_def dest: all_settledD)

lemma batch_error_simps [simp]:
  "batch_error E (Some (Done [])) = Some (Done None)"
  "batch_error E (Some (Done (e # es))) = Some (Done (Some (Errorf_msg E (mergeErrorMessages (e # es)))))"
  by (simp_all add: batch_error_def)

lemma finish_simps [simp]:
  "finish (Some (Done None)) = Some (Done (False, None))"
  "finish (Some (Done (Some e))) = Some (Done (True, Some e))"
  by (simp_all add: finish_def)

context device_api
begin

lemma addDeploymentsToDevices_spec:
  assumes "0 < sint c" and "fair_sched E" and "lists (devs w) ns P ds" and "all_settled (devs w)"
  shows "wp (addDeploymentsToDevices E c name ds) (\<lambda>r w'. \<exists>err. r = Some (Done err) \<and>
           (err = None \<longrightarrow> adding.processed name w ds [] w')) w"
proof -
  have "adding.current w ds"
    using assms(3) lists_unchanged [OF assms(3,4)] by (simp add: adding.current_def lists_def)
  from adding.executeConcurrent_spec [OF assms(1) this assms(2)] show ?thesis
    unfolding addDeploymentsToDevices_def wp_bind wp_ret
  proof (rule wp_conseq, goal_cases)
    case (1 r w')
    then obtain errs where "r = Some (Done errs)" "adding.processed name w ds errs w'" by blast
    then show ?case by (cases errs) simp_all
  qed
qed

lemma pruning_current:
  assumes lm: "lists (devs w) ns P ms" and ll: "lists (devs w) ns Q ls" and st: "all_settled (devs w)"
    and add: "adding.processed name w ms [] w'"
  shows "pruning.current (map dev_name ms) w' ls"
  unfolding pruning.current_def
proof (intro conjI ballI)
  show "distinct (map dev_key ls)" using ll by (simp add: lists_def)
  fix d assume d: "d \<in> set ls"
  then have dw: "devs w (dev_key d) = Some d" using ll by (simp add: lists_def)
  show "prunable (map dev_name ms) d (devs w' (dev_key d))"
  proof (cases "dev_key d \<in> dev_key ` set ms")
    case True
    then obtain m where m: "m \<in> set ms" "dev_key m = dev_key d" by auto
    have "dev_name m = dev_name d" using m(2) by (simp add: dev_key_def dev_name_def)
    then have "dev_name d \<in> set (map dev_name ms)" using m(1) by (metis image_eqI set_map)
    with adding.processed_ok [OF add m(1)] m(2) show ?thesis by (auto simp: prunable_def becomes_def)
  next
    case False
    then have "devs w' (dev_key d) = Some d" using adding.processed_frame [OF add] dw by simp
    then show ?thesis using all_settledD [OF st dw] by (simp add: prunable_def settled_def)
  qed
qed

lemma converged_after:
  assumes lm: "lists (devs w) ns sel ms" and ll: "lists (devs w) ns (\<lambda>d. labels_of d (WorkloadLabel name) = Some ''true'') ls"
    and st: "all_settled (devs w)"
    and add: "adding.processed name w ms [] w1"
    and prune: "pruning.processed name (map dev_name ms) w1 ls [] w2"
  shows "converged name ns sel (devs w) (devs w2)"
  unfolding converged_def
proof
  fix k
  have mem: "d \<in> set ms \<longleftrightarrow> fst k = ns \<and> sel d" "d \<in> set ls \<longleftrightarrow> fst k = ns \<and> labels_of d (WorkloadLabel name) = Some ''true''"
    and key: "dev_key d = k" if "devs w k = Some d" for d
    using lm ll that all_settledD [OF st that] by (auto simp: lists_def)
  have only: "k \<in> dev_key ` set ms \<Longrightarrow> \<exists>d. devs w k = Some d \<and> d \<in> set ms"
    "k \<in> dev_key ` set ls \<Longrightarrow> \<exists>d. devs w k = Some d \<and> d \<in> set ls"
    using lm ll by (auto simp: lists_def)
  show "case devs w k of None \<Rightarrow> devs w2 k = None
    | Some d \<Rightarrow> \<exists>s. devs w2 k = Some s \<and> (if fst k = ns \<and> sel d then deployed name d s
         else if fst k = ns \<and> labels_of d (WorkloadLabel name) = Some ''true'' then undeployed name d s else s = d)"
  proof (cases "devs w k")
    case None
    then have "devs w1 k = devs w k" "devs w2 k = devs w1 k"
      using only adding.processed_frame [OF add, of k] pruning.processed_frame [OF prune, of k] by auto
    with None show ?thesis by simp
  next
    case (Some d)
    note mem = mem [OF Some] and key = key [OF Some]
    have in_ms: "k \<in> dev_key ` set ms \<longleftrightarrow> d \<in> set ms" and in_ls: "k \<in> dev_key ` set ls \<longleftrightarrow> d \<in> set ls"
      using only Some key by (auto)
    have name: "d \<in> set ls \<Longrightarrow> dev_name d \<in> set (map dev_name ms) \<longleftrightarrow> d \<in> set ms"
      by (rule lists_names [OF lm ll])
    have "\<exists>s1. devs w1 k = Some s1 \<and> dev_name s1 = dev_name d \<and> (if d \<in> set ms then deployed name d s1 else s1 = d)"
    proof (cases "d \<in> set ms")
      case True
      from adding.processed_ok [OF add this] obtain s where s: "devs w1 k = Some s" "deployed name d s" "settled k (Some s)"
        unfolding key Some becomes_def by auto
      then have "dev_key s = dev_key d" using key by (simp add: settled_def)
      then show ?thesis using s True by (simp add: dev_key_def dev_name_def)
    next
      case False
      with adding.processed_frame [OF add, of k] in_ms Some show ?thesis by simp
    qed
    then obtain s1 where s1: "devs w1 k = Some s1" "dev_name s1 = dev_name d"
      "if d \<in> set ms then deployed name d s1 else s1 = d" by blast
    show ?thesis
    proof (cases "d \<in> set ls")
      case True
      from pruning.processed_ok [OF prune this] s1 key obtain s2 where
        s2: "devs w2 k = Some s2" "pruned name (map dev_name ms) s1 s2" by (auto simp: becomes_def)
      show ?thesis
        using Some s1 s2 name [OF True] mem True unfolding pruned_def by (cases "d \<in> set ms") simp_all
    next
      case False
      then have "devs w2 k = Some s1" using pruning.processed_frame [OF prune, of k] in_ls s1 by simp
      with Some s1 mem False show ?thesis by (cases "d \<in> set ms") auto
    qed
  qed
qed

lemma reconcile_devices_alive:
  assumes alive: "om_DeletionTimestamp (dep_meta dep) = None" and c: "0 < sint c" and fair: "fair_sched E"
    and st: "all_settled (devs w)"
  shows "wp (reconcile_devices E c dep) (\<lambda>r w'. \<exists>requeue err. r = Some (Done (requeue, err)) \<and>
           requeue = (err \<noteq> None) \<and>
           (err = None \<longrightarrow> converged (om_Name (dep_meta dep)) (om_Namespace (dep_meta dep)) (selects dep) (devs w) (devs w'))) w"
proof -
  let ?name = "om_Name (dep_meta dep)" and ?ns = "om_Namespace (dep_meta dep)"
  show ?thesis
    unfolding reconcile_devices_def Let_def wp_bind
  proof (rule wp_conseq [OF getLabelledEdgeDevices_spec], goal_cases)
    case (1 labelled w1)
    then show ?case
    proof (cases "not_found_empty labelled")
      case (Inr ls)
      with 1 have ll: "lists (devs w) ?ns (\<lambda>d. labels_of d (WorkloadLabel ?name) = Some ''true'') ls"
        and w1: "devs w1 = devs w" by auto
      show ?thesis
        unfolding Inr sum.case wp_bind
      proof (rule wp_conseq [OF getMatchingEdgeDevices_spec], goal_cases)
        case (1 matching w2)
        then show ?case
        proof (cases "not_found_empty matching")
          case (Inr ms)
          with 1 w1 have lm: "lists (devs w2) ?ns (selects dep) ms" and w2: "devs w2 = devs w" by auto
          have st2: "all_settled (devs w2)" using st w2 by simp
          have "wp (addDeploymentsToDevices E c ?name ms) (\<lambda>r w'. \<exists>err. r = Some (Done err) \<and>
             (err = None \<longrightarrow> adding.processed ?name w2 ms [] w')) w2"
            by (rule addDeploymentsToDevices_spec [OF c fair lm st2])
          then show ?thesis
            using alive unfolding Inr sum.case
          proof (simp only: not_True_eq_False if_False wp_bind not_not if_True simp_thms, elim wp_conseq, goal_cases)
            case (1 r w3)
            then obtain err where r: "r = Some (Done err)" "err = None \<longrightarrow> adding.processed ?name w2 ms [] w3" by blast
            show ?case
            proof (cases err)
              case (Some e)
              with r show ?thesis by simp
            next
              case None
              with r have add: "adding.processed ?name w2 ms [] w3" by simp
              have cur: "pruning.current (map dev_name ms) w3 ls"
                by (rule pruning_current [OF lm _ st2 add]) (use ll w2 in simp)
              from pruning.executeConcurrent_spec [OF c cur fair, of ?name] show ?thesis
                unfolding r None option.case outcome.case removeDeploymentFromNonMatchingDevices_def wp_bind wp_ret
              proof (rule wp_conseq, goal_cases)
                case (1 x w4)
                then obtain errs where x: "x = Some (Done errs)"
                  "pruning.processed ?name (map dev_name ms) w3 ls errs w4" by blast
                show ?case
                proof (cases errs)
                  case Nil
                  have "converged ?name ?ns (selects dep) (devs w2) (devs w4)"
                    by (rule converged_after [OF lm _ st2 add]) (use ll w2 x Nil in simp_all)
                  with x Nil w2 show ?thesis by auto
                qed (use x in auto)
              qed
            qed
          qed
        qed simp
      qed
    qed simp
  qed
qed

end

section \<open>Removal\<close>

definition withdrawn :: "string \<Rightarrow> string \<Rightarrow> (EdgeDevice \<Rightarrow> bool) \<Rightarrow>
    (string \<times> string \<Rightarrow> EdgeDevice option) \<Rightarrow> (string \<times> string \<Rightarrow> EdgeDevice option) \<Rightarrow> bool" where
  "withdrawn name ns P st st' \<longleftrightarrow> (\<forall>k. case st k of
      None \<Rightarrow> st' k = None
    | Some d \<Rightarrow> (\<exists>s. st' k = Some s \<and> (if fst k = ns \<and> P d then undeployed name d s else s = d)))"

lemma lists_merge:
  assumes "lists st ns P ms" and "lists st ns Q ls"
  shows "lists st ns (\<lambda>d. P d \<or> Q d) (merge ms ls)"
proof -
  have mem: "d \<in> set (merge ms ls) \<longleftrightarrow> d \<in> set ms \<or> d \<in> set ls" for d
    using lists_names [OF assms] by (auto simp: merge_def)
  have differ: "dev_key x \<noteq> dev_key y" if "x \<in> set ms" "y \<in> set ls" "dev_name y \<notin> set (map dev_name ms)" for x y
  proof
    assume "dev_key x = dev_key y"
    then have "dev_name y = dev_name x" by (simp add: dev_key_def dev_name_def)
    with that show False by (metis imageI set_map)
  qed
  have "set (map dev_key ms) \<inter> set (map dev_key (filter (\<lambda>d. dev_name d \<notin> set (map dev_name ms)) ls)) = {}"
    by auto (metis differ set_map)
  moreover have "distinct (map dev_key ms)" "distinct (map dev_key ls)" using assms unfolding lists_def by simp_all
  ultimately have "distinct (map dev_key (merge ms ls))" by (simp add: merge_def distinct_map_filter)
  then show ?thesis using assms unfolding lists_def mem by blast
qed

lemma dep_RemoveFinalizer_None: "wp (dep_RemoveFinalizer E d f) (\<lambda>(err, _) _. err = None) w"
  by (auto simp: dep_RemoveFinalizer_def wp_def Let_def split: prod.splits sum.splits)

context device_api
begin

lemma dep_RemoveFinalizer_keeps: "keeps devs (dep_RemoveFinalizer E d f)"
  unfolding dep_RemoveFinalizer_def dep_Patch_def Let_def by (intro keeps_bind keeps_sum keeps_ret dep_patch_keeps)

lemma withdrawn_after:
  assumes l: "lists (devs w) ns P ds" and st: "all_settled (devs w)" and rem: "removing.processed name w ds [] w'"
  shows "withdrawn name ns P (devs w) (devs w')"
  unfolding withdrawn_def
proof
  fix k
  show "case devs w k of None \<Rightarrow> devs w' k = None
    | Some d \<Rightarrow> \<exists>s. devs w' k = Some s \<and> (if fst k = ns \<and> P d then undeployed name d s else s = d)"
  proof (cases "devs w k")
    case None
    then have "k \<notin> dev_key ` set ds" using l by (auto simp: lists_def)
    with None removing.processed_frame [OF rem, of k] show ?thesis by simp
  next
    case (Some d)
    have key: "dev_key d = k" using all_settledD [OF st Some] by simp
    have mem: "d \<in> set ds \<longleftrightarrow> fst k = ns \<and> P d" using l Some key by (auto simp: lists_def)
    show ?thesis
    proof (cases "d \<in> set ds")
      case True
      from removing.processed_ok [OF rem True] obtain s where "devs w' k = Some s" "undeployed name d s"
        unfolding key Some becomes_def by auto
      with True mem Some show ?thesis by simp
    next
      case False
      then have "k \<notin> dev_key ` set ds" using l Some unfolding lists_def by (metis imageE option.inject)
      with Some removing.processed_frame [OF rem, of k] mem False show ?thesis by auto
    qed
  qed
qed

lemma finalizeRemoval_spec:
  assumes c: "0 < sint c" and fair: "fair_sched E" and l: "lists (devs w) ns P ds" and st: "all_settled (devs w)"
  shows "wp (finalizeRemoval E c ds dep) (\<lambda>r w'. \<exists>err. r = Some (Done err) \<and>
           (err = None \<longrightarrow> withdrawn (om_Name (dep_meta dep)) ns P (devs w) (devs w'))) w"
proof -
  let ?name = "om_Name (dep_meta dep)"
  have "removing.current w ds"
    using l lists_unchanged [OF l st] by (simp add: removing.current_def lists_def)
  from removing.executeConcurrent_spec [OF c this fair, of ?name] show ?thesis
    unfolding finalizeRemoval_def removeDeploymentFromDevices_def [abs_def] wp_bind
  proof (rule wp_conseq, goal_cases)
    case (1 r w1)
    then obtain errs where r: "r = Some (Done errs)" "removing.processed ?name w ds errs w1" by blast
    show ?case
    proof (cases errs)
      case Nil
      with r have "withdrawn ?name ns P (devs w) (devs w1)" by (intro withdrawn_after [OF l st]) simp
      moreover have "wp (dep_RemoveFinalizer E dep YggdrasilDeviceReferenceFinalizer) (\<lambda>_ w'. devs w' = devs w1) w1"
        by (rule keeps_wp [OF dep_RemoveFinalizer_keeps])
      ultimately show ?thesis using r Nil by simp (erule wp_conseq, auto)
    qed (use r in simp)
  qed
qed

lemma reconcile_devices_deleted:
  assumes del: "om_DeletionTimestamp (dep_meta dep) \<noteq> None"
    and fin: "HasFinalizer (dep_meta dep) YggdrasilDeviceReferenceFinalizer"
    and c: "0 < sint c" and fair: "fair_sched E" and st: "all_settled (devs w)"
  shows "wp (reconcile_devices E c dep) (\<lambda>r w'. \<exists>requeue err. r = Some (Done (requeue, err)) \<and>
           requeue = (err \<noteq> None) \<and>
           (err = None \<longrightarrow> withdrawn (om_Name (dep_meta dep)) (om_Namespace (dep_meta dep))
              (\<lambda>d. selects dep d \<or> labels_of d (WorkloadLabel (om_Name (dep_meta dep))) = Some ''true'')
              (devs w) (devs w'))) w"
proof -
  let ?name = "om_Name (dep_meta dep)" and ?ns = "om_Namespace (dep_meta dep)"
  show ?thesis
    unfolding reconcile_devices_def Let_def wp_bind
  proof (rule wp_conseq [OF getLabelledEdgeDevices_spec], goal_cases)
    case (1 labelled w1)
    then show ?case
    proof (cases "not_found_empty labelled")
      case (Inr ls)
      with 1 have ll: "lists (devs w) ?ns (\<lambda>d. labels_of d (WorkloadLabel ?name) = Some ''true'') ls"
        and w1: "devs w1 = devs w" by auto
      show ?thesis
        unfolding Inr sum.case wp_bind
      proof (rule wp_conseq [OF getMatchingEdgeDevices_spec], goal_cases)
        case (1 matching w2)
        then show ?case
        proof (cases "not_found_empty matching")
          case (Inr ms)
          with 1 w1 have lm: "lists (devs w2) ?ns (selects dep) ms" and w2: "devs w2 = devs w" by auto
          have st2: "all_settled (devs w2)" using st w2 by simp
          have l: "lists (devs w2) ?ns (\<lambda>d. selects dep d \<or> labels_of d (WorkloadLabel ?name) = Some ''true'') (merge ms ls)"
            by (rule lists_merge [OF lm]) (use ll w2 in simp)
          from finalizeRemoval_spec [OF c fair l st2, of dep] show ?thesis
            using del fin unfolding Inr sum.case
          proof (simp only: if_True simp_thms wp_bind wp_ret, elim wp_conseq, goal_cases)
            case (1 r w3)
            then obtain err where "r = Some (Done err)"
              "err = None \<longrightarrow> withdrawn ?name ?ns (\<lambda>d. selects dep d \<or> labels_of d (WorkloadLabel ?name) = Some ''true'') (devs w2) (devs w3)"
              by blast
            then show ?case using w2 by (cases err) auto
          qed
        qed simp
      qed
    qed simp
  qed
qed

end

section \<open>The whole reconciliation\<close>

text \<open>The labels are those the selector asks for, so that nothing is to be patched.\<close>

definition selector_labels_current :: "EdgeDeployment \<Rightarrow> bool" where
  "selector_labels_current dep \<longleftrightarrow>
     (let new = om_Labels (dep_meta (UpdateSelectorLabels dep)); old = om_Labels (dep_meta dep)
      in (opt_list new = [] \<and> old = None) \<or> labels_DeepEqual new old)"

lemma dep_Reconcile_current:
  assumes "run_state (dep_Read E n ns) w = (Inr dep, w1)"
    and "om_DeletionTimestamp (dep_meta dep) = None \<Longrightarrow>
           HasFinalizer (dep_meta dep) YggdrasilDeviceReferenceFinalizer \<and> selector_labels_current dep"
  shows "run_state (dep_Reconcile E c n ns) w = run_state (reconcile_devices E c dep) w1"
  using assms
  by (cases "om_DeletionTimestamp (dep_meta dep)")
     (simp_all add: dep_Reconcile_def updateLabelsFromSelector_def selector_labels_current_def Let_def)

lemma wp_same_run: "run_state m w = run_state m' w' \<Longrightarrow> wp m' Q w' \<Longrightarrow> wp m Q w"
  by (simp add: wp_def)

section \<open>Selector labels\<close>

text \<open>The selector label a deployment is meant to carry.\<close>

definition expression_label :: "LabelSelectorRequirement \<Rightarrow> string" where
  "expression_label x = (if lsr_Operator x = OpDoesNotExist then DoesNotExistLabel else lsr_Key x)"

definition wanted_selector_label :: "EdgeDeploymentSpec \<Rightarrow> string \<Rightarrow> string option" where
  "wanted_selector_label sp l =
     (if eds_Device sp \<noteq> [] then (if l = DeviceNameLabel then Some (eds_Device sp) else None)
      else case eds_DeviceSelector sp of
        None \<Rightarrow> None
      | Some s \<Rightarrow> if l \<in> set (gm_keys (ls_MatchLabels s)) \<union> expression_label ` set (ls_MatchExpressions s)
                 then Some ''true'' else None)"

lemma gm_get_filter_keys: "gm_get (filter (\<lambda>(k, _). P k) m) k = (if P k then gm_get m k else None)"
  by (induction m) auto

lemma gm_get_add_match_label_labels:
  "gm_get (add_match_label_labels ls ms) k =
     (if \<exists>l\<in>set (gm_keys ms). k = CreateSelectorLabel l then Some ''true'' else gm_get ls k)"
  by (induction ls ms rule: add_match_label_labels.induct) auto

lemma gm_get_add_expression_labels:
  "gm_get (add_expression_labels ls xs) k =
     (if \<exists>x\<in>set xs. k = CreateSelectorLabel (expression_label x) then Some ''true'' else gm_get ls k)"
  by (induction ls xs rule: add_expression_labels.induct) (auto simp: expression_label_def)

lemma UpdateSelectorLabels_lookup:
  "gm_lookup (om_Labels (dep_meta (UpdateSelectorLabels dep))) k =
     (if IsSelectorLabel k then wanted_selector_label (dep_Spec dep) (drop (length selectorLabelPrefix) k)
      else gm_lookup (om_Labels (dep_meta dep)) k)"
proof (cases "IsSelectorLabel k")
  case True
  then obtain l where l: "k = CreateSelectorLabel l" by (auto simp: IsSelectorLabel_iff)
  then have "drop (length selectorLabelPrefix) k = l" by (simp add: CreateSelectorLabel_def)
  with True l show ?thesis
    by (auto simp: UpdateSelectorLabels_def Let_def wanted_selector_label_def gm_get_filter_keys
        gm_get_add_match_label_labels gm_get_add_expression_labels split: option.split)
next
  case False
  then have "k \<noteq> CreateSelectorLabel l" for l by auto
  with False show ?thesis
    by (auto simp: UpdateSelectorLabels_def Let_def gm_get_filter_keys
        gm_lookup_opt_list [of "om_Labels (dep_meta dep)"]
        gm_get_add_match_label_labels gm_get_add_expression_labels split: option.split)
qed

context device_api
begin

lemma dep_Reconcile_alive:
  assumes "fair_sched E" and "0 < sint c" and "all_settled (devs w)" and "run_state (dep_Read E n ns) w = (Inr dep, w1)"
    and "om_DeletionTimestamp (dep_meta dep) = None"
    and "HasFinalizer (dep_meta dep) YggdrasilDeviceReferenceFinalizer" and "selector_labels_current dep"
  shows "wp (dep_Reconcile E c n ns) (\<lambda>r w'. \<exists>requeue err. r = Some (Done (requeue, err)) \<and>
           requeue = (err \<noteq> None) \<and>
           (err = None \<longrightarrow> converged (om_Name (dep_meta dep)) (om_Namespace (dep_meta dep)) (selects dep) (devs w) (devs w'))) w"
proof -
  have w1: "devs w1 = devs w" using keeps_run [OF dep_get_keeps] assms(4) by (simp add: dep_Read_def)
  have "run_state (dep_Reconcile E c n ns) w = run_state (reconcile_devices E c dep) w1"
    by (rule dep_Reconcile_current [OF assms(4)]) (use assms(6,7) in simp)
  moreover note reconcile_devices_alive [OF assms(5,2,1), of w1]
  ultimately show ?thesis using assms(3) w1 by (auto intro: wp_same_run)
qed

end

section \<open>Properties\<close>

text \<open>C1: a reconciliation of a deployment that is not being deleted, has its finalizer and has the labels of
  its selector ends, without panic; if it reports no error then, whatever the order of the workers, every stored device of
  its namespace that it selects runs it and carries its label, every other device that carried
  the label has lost both, and no other device, label or deployment is touched. An error is
  always returned together with a requeue.\<close>

theorem dep_Reconcile_converges:
  assumes "device_api E devs" and "fair_sched E" and "0 < sint c" and "all_settled (devs w)"
    and "run_state (dep_Read E n ns) w = (Inr dep, w1)"
    and "om_DeletionTimestamp (dep_meta dep) = None"
    and "HasFinalizer (dep_meta dep) YggdrasilDeviceReferenceFinalizer" and "selector_labels_current dep"
  shows "wp (dep_Reconcile E c n ns) (\<lambda>r w'. \<exists>requeue err. r = Some (Done (requeue, err)) \<and>
           requeue = (err \<noteq> None) \<and>
           (err = None \<longrightarrow> converged (om_Name (dep_meta dep)) (om_Namespace (dep_meta dep)) (selects dep) (devs w) (devs w'))) w"
  by (rule device_api.dep_Reconcile_alive [OF assms])

definition sample_dev :: "string \<Rightarrow> string gomap \<Rightarrow> Deployment list \<Rightarrow> EdgeDevice" where
  "sample_dev name ls ds = \<lparr>dev_meta = \<lparr>om_Name = name, om_Namespace = ''default'', om_Labels = Some ls,
       om_Finalizers = [], om_DeletionTimestamp = None, om_ResourceVersion = ''1''\<rparr>,
     dev_Spec = empty_spec, dev_Status = empty_status\<lparr>es_Deployments := ds\<rparr>\<rparr>"

definition sample_dep :: EdgeDeployment where
  "sample_dep = \<lparr>dep_meta = \<lparr>om_Name = ''app'', om_Namespace = ''default'',
       om_Labels = Some [(CreateSelectorLabel ''dc'', ''true'')],
       om_Finalizers = [YggdrasilDeviceReferenceFinalizer], om_DeletionTimestamp = None, om_ResourceVersion = ''1''\<rparr>,
     dep_Spec = \<lparr>eds_DeviceSelector = Some \<lparr>ls_MatchLabels = [(''dc'', ''home'')], ls_MatchExpressions = []\<rparr>,
       eds_Device = [], eds_Type = ''pod'',
       eds_Pod = \<lparr>pod_Spec = \<lparr>ps_Volumes = [], ps_InitContainers = [], ps_Containers = [], ps_Other = ''pod''\<rparr>\<rparr>,
       eds_Data = None, eds_ImageRegistries = None, eds_Metrics = None, eds_LogCollection = []\<rparr>\<rparr>"

definition sample_cluster :: mem where
  "sample_cluster = empty_mem\<lparr>m_deps := [sample_dep],
     m_devs := [sample_dev ''d1'' [(''dc'', ''home'')] [], sample_dev ''d2'' [(WorkloadLabel ''app'', ''true'')]
       [\<lparr>dpl_Name = ''app'', dpl_Phase = Running, dpl_LastTransitionTime = 0, dpl_LastDataUpload = 0\<rparr>]]\<rparr>"

lemma mem_fair_sched: "fair_sched mem_env"
  by (simp add: fair_sched_def mem_env_def)

lemma sample_cluster_settled: "all_settled (mem_devs sample_cluster)"
  by (auto simp: all_settled_def settled_def mem_devs_def mem_find_def find_Some_iff sample_cluster_def
      sample_dev_def stored_after_def less_Suc_eq)

lemma sample_cluster_read:
  "run_state (dep_Read mem_env ''app'' ''default'') sample_cluster = (Inr sample_dep, sample_cluster)"
  by (simp add: dep_Read_def mem_env_def mem_get_def api_call_def sample_cluster_def empty_mem_def mem_find_def
      meta_key_def sample_dep_def)

theorem dep_Reconcile_converges_witness:
  "wp (dep_Reconcile mem_env 5 ''app'' ''default'') (\<lambda>r w'. \<exists>requeue err. r = Some (Done (requeue, err)) \<and>
     requeue = (err \<noteq> None) \<and>
     (err = None \<longrightarrow> converged ''app'' ''default'' (selects sample_dep) (mem_devs sample_cluster) (mem_devs w'))) sample_cluster"
proof -
  have "om_DeletionTimestamp (dep_meta sample_dep) = None"
    "HasFinalizer (dep_meta sample_dep) YggdrasilDeviceReferenceFinalizer"
    by (simp_all add: sample_dep_def HasFinalizer_iff)
  moreover have "selector_labels_current sample_dep"
    by (simp add: selector_labels_current_def Let_def sample_dep_def UpdateSelectorLabels_def
        opt_list_def labels_DeepEqual_def gm_eq_def)
  ultimately show ?thesis
    using dep_Reconcile_converges [OF mem.device_api_axioms mem_fair_sched _ sample_cluster_settled sample_cluster_read,
        of 5] by (simp add: sample_dep_def)
qed

text \<open>C3: the reconciliation of a deployment that is being deleted and has its finalizer ends without panic, and when it
  reports no error no stored device that it selects or that carries its label has anything left
  of it, and no other device changed.\<close>

theorem dep_Reconcile_withdraws:
  assumes "device_api E devs" and "fair_sched E" and "0 < sint c" and "all_settled (devs w)"
    and "run_state (dep_Read E n ns) w = (Inr dep, w1)"
    and "om_DeletionTimestamp (dep_meta dep) \<noteq> None"
    and "HasFinalizer (dep_meta dep) YggdrasilDeviceReferenceFinalizer"
  shows "wp (dep_Reconcile E c n ns) (\<lambda>r w'. \<exists>requeue err. r = Some (Done (requeue, err)) \<and>
           requeue = (err \<noteq> None) \<and>
           (err = None \<longrightarrow> withdrawn (om_Name (dep_meta dep)) (om_Namespace (dep_meta dep))
              (\<lambda>d. selects dep d \<or> labels_of d (WorkloadLabel (om_Name (dep_meta dep))) = Some ''true'')
              (devs w) (devs w'))) w"
proof -
  have w1: "devs w1 = devs w"
    using keeps_run [OF device_api.dep_get_keeps [OF assms(1)]] assms(5) by (simp add: dep_Read_def)
  have "run_state (dep_Reconcile E c n ns) w = run_state (reconcile_devices E c dep) w1"
    by (rule dep_Reconcile_current [OF assms(5)]) (use assms(6) in simp)
  moreover note device_api.reconcile_devices_deleted [OF assms(1,6,7,3,2), of w1]
  ultimately show ?thesis using assms(4) w1 by (auto intro: wp_same_run)
qed

definition sample_deleted :: EdgeDeployment where
  "sample_deleted = sample_dep\<lparr>dep_meta := (dep_meta sample_dep)\<lparr>om_DeletionTimestamp := Some 1\<rparr>\<rparr>"

theorem dep_Reconcile_withdraws_witness:
  "wp (dep_Reconcile mem_env 1 ''app'' ''default'') (\<lambda>r w'. \<exists>requeue err. r = Some (Done (requeue, err)) \<and>
     requeue = (err \<noteq> None) \<and>
     (err = None \<longrightarrow> withdrawn ''app'' ''default''
        (\<lambda>d. selects sample_deleted d \<or> labels_of d (WorkloadLabel ''app'') = Some ''true'')
        (mem_devs sample_cluster) (mem_devs w'))) (sample_cluster\<lparr>m_deps := [sample_deleted]\<rparr>)"
proof -
  let ?w = "sample_cluster\<lparr>m_deps := [sample_deleted]\<rparr>"
  have "run_state (dep_Read mem_env ''app'' ''default'') ?w = (Inr sample_deleted, ?w)"
    by (simp add: dep_Read_def mem_env_def mem_get_def api_call_def sample_cluster_def empty_mem_def mem_find_def
      meta_key_def sample_dep_def sample_deleted_def)
  moreover have "all_settled (mem_devs ?w)" using sample_cluster_settled by simp
  moreover have "om_DeletionTimestamp (dep_meta sample_deleted) \<noteq> None"
    "HasFinalizer (dep_meta sample_deleted) YggdrasilDeviceReferenceFinalizer"
    by (simp_all add: sample_deleted_def sample_dep_def HasFinalizer_iff)
  ultimately show ?thesis
    using dep_Reconcile_withdraws [OF mem.device_api_axioms mem_fair_sched, of 1 ?w "''app''" "''default''" sample_deleted ?w]
    by (simp add: sample_deleted_def sample_dep_def)
qed

text \<open>After \<open>UpdateSelectorLabels\<close> a deployment carries exactly the selector labels of its
  spec (its device name, or one label per match label and match expression, all absence
  expressions sharing one), and its other labels are untouched.\<close>

theorem UpdateSelectorLabels_correct:
  "gm_lookup (om_Labels (dep_meta (UpdateSelectorLabels dep))) k =
     (if IsSelectorLabel k then wanted_selector_label (dep_Spec dep) (drop (length selectorLabelPrefix) k)
      else gm_lookup (om_Labels (dep_meta dep)) k)"
  by (rule UpdateSelectorLabels_lookup)

section \<open>The finalizer outlives the references\<close>

text \<open>Only calls on deployments change the deployments.\<close>

definition device_calls_keep :: "'w env \<Rightarrow> ('w \<Rightarrow> 'v) \<Rightarrow> bool" where
  "device_calls_keep E v \<longleftrightarrow> (\<forall>ns n. keeps v (k_dev_get E ns n)) \<and> (\<forall>sel ns. keeps v (k_dev_list E sel ns)) \<and>
     (\<forall>a b. keeps v (k_dev_patch E a b)) \<and> (\<forall>a b. keeps v (k_dev_status_patch E a b)) \<and> (\<forall>n. keeps v (k_sched E n))"

lemma for_each_device_keeps: "(\<And>d. keeps v (step d)) \<Longrightarrow> keeps v (for_each_device step ds)"
  by (induction ds) (auto intro!: keeps_bind)

lemma executeConcurrent_keeps:
  assumes "device_calls_keep E v" and f: "\<And>ds. keeps v (f ds)"
  shows "keeps v (executeConcurrent E c f ds)"
proof -
  have "keeps v (run_slices f inputs order rv)" for inputs order rv
    by (induction order arbitrary: rv) (auto intro!: keeps_bind f)
  with assms show ?thesis
    unfolding executeConcurrent_def ExecuteConcurrent_def device_calls_keep_def
    by (auto split: option.split outcome.split intro!: keeps_bind)
qed

lemma removeDeploymentFromDevice_keeps:
  "device_calls_keep E v \<Longrightarrow> keeps v (removeDeploymentFromDevice E name d)"
  unfolding removeDeploymentFromDevice_def dev_PatchStatus_def dev_Patch_def Let_def device_calls_keep_def
  by (auto intro!: keeps_bind keeps_sum keeps_option)

lemma list_calls_keep:
  assumes "device_calls_keep E v"
  shows "keeps v (getLabelledEdgeDevices E name ns)" and "keeps v (getMatchingEdgeDevices E dep)"
  using assms unfolding getLabelledEdgeDevices_def getMatchingEdgeDevices_def dev_ListForSelector_def dev_Read_def
    Let_def device_calls_keep_def
  by (auto intro!: keeps_sum keeps_try keeps_if)

lemma finalizeRemoval_error_keeps:
  assumes "device_calls_keep E v"
  shows "wp (finalizeRemoval E c ds dep) (\<lambda>r w'. r \<noteq> Some (Done None) \<longrightarrow> v w' = v w) w"
proof -
  have k: "keeps v (executeConcurrent E c (removeDeploymentFromDevices E n) ds)" for n
    by (rule executeConcurrent_keeps [OF assms])
       (simp add: removeDeploymentFromDevices_def for_each_device_keeps removeDeploymentFromDevice_keeps assms)
  show ?thesis
    unfolding finalizeRemoval_def wp_bind
  proof (rule wp_conseq [OF keeps_wp [OF k]], goal_cases)
    case (1 r w1)
    have "wp (dep_RemoveFinalizer E dep YggdrasilDeviceReferenceFinalizer) (\<lambda>(err, _) _. err = None) w1"
      by (rule dep_RemoveFinalizer_None)
    with 1 show ?case by (auto simp: elim!: wp_conseq split: option.split outcome.split)
  qed
qed

text \<open>C4: as long as the deployment could not be taken from all its devices (or the devices could
  not be listed, or the batch panicked) a deployment that is being deleted is not written at all, so
  it keeps its finalizer and with it its existence.\<close>

theorem finalizer_kept_until_withdrawn:
  assumes "device_calls_keep E deps" and "om_DeletionTimestamp (dep_meta dep) \<noteq> None"
  shows "wp (reconcile_devices E c dep) (\<lambda>r w'. r \<noteq> Some (Done (False, None)) \<longrightarrow> deps w' = deps w) w"
proof -
  note ks = list_calls_keep [OF assms(1)]
  show ?thesis
    unfolding reconcile_devices_def Let_def wp_bind
  proof (rule wp_conseq [OF keeps_wp [OF ks(1)]], goal_cases)
    case (1 labelled w1)
    show ?case
    proof (cases "not_found_empty labelled")
      case (Inr ls)
      show ?thesis
        unfolding Inr sum.case wp_bind
      proof (rule wp_conseq [OF keeps_wp [OF ks(2)]], goal_cases)
        case (1 matching w2)
        show ?case
        proof (cases "not_found_empty matching")
          case (Inr ms)
          have "wp (finalizeRemoval E c (merge ms ls) dep) (\<lambda>r w'. r \<noteq> Some (Done None) \<longrightarrow> deps w' = deps w2) w2"
            by (rule finalizeRemoval_error_keeps [OF assms(1)])
          then have "wp (finalizeRemoval E c (merge ms ls) dep)
              (\<lambda>r w'. finish r \<noteq> Some (Done (False, None)) \<longrightarrow> deps w' = deps w2) w2"
            by (rule wp_conseq) auto
          with Inr 1 \<open>deps w1 = deps w\<close> assms(2) show ?thesis by simp
        qed (use 1 \<open>deps w1 = deps w\<close> in simp)
      qed
    qed (use 1 in simp)
  qed
qed

lemma api_call_keeps_deps:
  "(\<And>w. m_deps (snd (f w)) = m_deps w) \<Longrightarrow> keeps m_deps (api_call f)"
  by (auto simp: keeps_def api_call_def split: list.split option.split)

lemma mem_device_calls_keep: "device_calls_keep mem_env m_deps"
  unfolding device_calls_keep_def mem_env_def mem_get_def mem_dev_patch_def
  by (auto simp: keeps_def [of _ "State _"] Let_def split: option.split intro!: api_call_keeps_deps)

text \<open>Both listings of the devices succeed and the first patch of a device fails.\<close>

definition sample_unwithdrawn :: mem where
  "sample_unwithdrawn = sample_cluster\<lparr>m_deps := [sample_deleted], m_faults := [None, None, Some ''conflict'']\<rparr>"

theorem finalizer_kept_until_withdrawn_witness:
  "\<exists>r w'. run_state (reconcile_devices mem_env 1 sample_deleted) sample_unwithdrawn = (r, w') \<and>
     r \<noteq> Some (Done (False, None)) \<and> m_faults w' = [] \<and> m_deps w' = [sample_deleted]"
proof -
  obtain r w' where run: "run_state (reconcile_devices mem_env 1 sample_deleted) sample_unwithdrawn = (r, w')"
    by (metis surj_pair)
  have "(case run_state (reconcile_devices mem_env 1 sample_deleted) sample_unwithdrawn of
      (r, w') \<Rightarrow> (case r of Some (Done (requeue, Some e)) \<Rightarrow> requeue | _ \<Rightarrow> False) \<and> m_faults w' = [])" by code_simp
  then have failed: "r \<noteq> Some (Done (False, None))" "m_faults w' = []" using run by auto
  have "wp (reconcile_devices mem_env 1 sample_deleted)
      (\<lambda>r w'. r \<noteq> Some (Done (False, None)) \<longrightarrow> m_deps w' = m_deps sample_unwithdrawn) sample_unwithdrawn"
    by (rule finalizer_kept_until_withdrawn [OF mem_device_calls_keep]) (simp add: sample_deleted_def)
  with run failed have "m_deps w' = [sample_deleted]" by (simp add: wp_def sample_unwithdrawn_def)
  with run failed show ?thesis by blast
qed

end
