(* ===== verification/Labels_Controller.thy ===== *)
theory Labels_Controller
  imports Deployment_Controller
begin

text \<open>
  \<open>controllers/edgedevicelabels_controller.go\<close>: when the labels of a device change, the
  deployments that select the device are looked up through the selector labels they carry, and the
  status and labels of the device are brought in line with them.
\<close>

section \<open>Operations\<close>

fun device_selector_labels :: "string gomap \<Rightarrow> string gomap \<Rightarrow> string gomap" where
  "device_selector_labels result [] = result"
| "device_selector_labels result ((deviceLabel, _) # ls) =
     (if IsWorkloadLabel deviceLabel then device_selector_labels result ls
      else device_selector_labels (gm_set (CreateSelectorLabel deviceLabel) ''true'' result) ls)"

definition createSelectorLabelsMap :: "EdgeDevice \<Rightarrow> string gomap" where
  "createSelectorLabelsMap device =
     device_selector_labels
       [(CreateSelectorLabel DeviceNameLabel, dev_name device), (CreateSelectorLabel DoesNotExistLabel, ''true'')]
       (opt_list (om_Labels (dev_meta device)))"

definition isDeploymentMatchDevice :: "EdgeDeployment \<Rightarrow> EdgeDevice \<Rightarrow> bool result" where
  "isDeploymentMatchDevice deployment device =
     (if eds_Device (dep_Spec deployment) = dev_name device then Inr True
      else case eds_DeviceSelector (dep_Spec deployment) of
        Some s \<Rightarrow> (case LabelSelectorAsSelector (Some s) of
            Inl err \<Rightarrow> Inl err
          | Inr selector \<Rightarrow> Inr (Selector_Matches selector (om_Labels (dev_meta device))))
      | None \<Rightarrow> Inr False)"

fun match_deployments :: "EdgeDevice \<Rightarrow> bool gomap \<Rightarrow> EdgeDeployment list \<Rightarrow> bool gomap result" where
  "match_deployments device selected [] = Inr selected"
| "match_deployments device selected (deployment # rest) =
     (if gm_mem (om_Name (dep_meta deployment)) selected then match_deployments device selected rest
      else case isDeploymentMatchDevice deployment device of
        Inl err \<Rightarrow> Inl err
      | Inr match \<Rightarrow> match_deployments device (gm_set (om_Name (dep_meta deployment)) match selected) rest)"

fun select_deployments :: "'w env \<Rightarrow> EdgeDevice \<Rightarrow> bool gomap \<Rightarrow> string gomap \<Rightarrow> ('w, bool gomap result) io" where
  "select_deployments E device selected [] = ret (Inr selected)"
| "select_deployments E device selected ((selectorLabel, labelValue) # rest) =
     try_io (dep_ListByLabel E selectorLabel labelValue) (\<lambda>deployments.
     try_io (ret (match_deployments device selected deployments)) (\<lambda>selected'.
     select_deployments E device selected' rest))"

text \<open>The loop over the device's deployments: what is kept, the map without the kept names, the
  labels, and whether something was dropped.\<close>

fun keep_deployments ::
  "Deployment list \<Rightarrow> bool gomap \<Rightarrow> string gomap \<Rightarrow> Deployment list \<times> bool gomap \<times> string gomap \<times> bool" where
  "keep_deployments [] selected ls = ([], selected, ls, False)"
| "keep_deployments (deployment # rest) selected ls =
     (if gm_get selected (dpl_Name deployment) = Some True then
        (case keep_deployments rest (gm_del (dpl_Name deployment) selected) ls of
           (kept, sel, ls', upd) \<Rightarrow> (deployment # kept, sel, ls', upd))
      else
        (case keep_deployments rest selected (gm_del (WorkloadLabel (dpl_Name deployment)) ls) of
           (kept, sel, ls', upd) \<Rightarrow> (kept, sel, ls', True)))"

fun add_deployments :: "bool gomap \<Rightarrow> Deployment list \<Rightarrow> string gomap \<Rightarrow> bool \<Rightarrow> Deployment list \<times> string gomap \<times> bool" where
  "add_deployments [] ds ls upd = (ds, ls, upd)"
| "add_deployments ((name, match) # rest) ds ls upd =
     (if \<not> match then add_deployments rest ds ls upd
      else add_deployments rest
        (ds @ [\<lparr>dpl_Name = name, dpl_Phase = Deploying, dpl_LastTransitionTime = zero_time,
                dpl_LastDataUpload = zero_time\<rparr>])
        (gm_set (WorkloadLabel name) ''true'' ls) True)"

definition createUpdatedDevice :: "'w env \<Rightarrow> bool gomap \<Rightarrow> EdgeDevice \<Rightarrow> ('w, EdgeDevice option) io" where
  "createUpdatedDevice E selectedDeployments device =
     (case keep_deployments (deployments_of device) selectedDeployments (opt_list (om_Labels (dev_meta device))) of
        (kept, selected, ls, upd) \<Rightarrow> do {
          entries \<leftarrow> range_map E selected;
          case add_deployments entries kept ls upd of
            (ds, ls', upd') \<Rightarrow> ret (if upd' then Some (set_labels (Some ls') (set_deployments ds device)) else None)
        })"

definition updateDeployments :: "'w env \<Rightarrow> EdgeDevice \<Rightarrow> ('w, goerr option) io" where
  "updateDeployments E device = do {
     selectorLabels \<leftarrow> range_map E (createSelectorLabelsMap device);
     r \<leftarrow> select_deployments E device [] selectorLabels;
     case r of
       Inl err \<Rightarrow> ret (Some err)
     | Inr selectedDeployments \<Rightarrow> do {
         u \<leftarrow> createUpdatedDevice E selectedDeployments device;
         case u of
           None \<Rightarrow> ret None
         | Some updatedDevice \<Rightarrow> do {
             p \<leftarrow> dev_PatchStatus E updatedDevice device;
             case p of
               Inl err \<Rightarrow> ret (Some err)
             | Inr updatedDevice' \<Rightarrow> do {
                 q \<leftarrow> dev_Patch E device updatedDevice';
                 ret (err_of q)
               }
           }
       }
   }"

definition lab_Reconcile :: "'w env \<Rightarrow> string \<Rightarrow> string \<Rightarrow> ('w, bool \<times> goerr option) io" where
  "lab_Reconcile E reqName reqNamespace = do {
     r \<leftarrow> dev_Read E reqName reqNamespace;
     case r of
       Inl err \<Rightarrow> ret (if IsNotFound err then (False, None) else (True, Some err))
     | Inr edgeDevice \<Rightarrow>
         if om_DeletionTimestamp (dev_meta edgeDevice) \<noteq> None then ret (False, None)
         else do {
           err \<leftarrow> updateDeployments E edgeDevice;
           ret (case err of Some e \<Rightarrow> (True, Some e) | None \<Rightarrow> (False, None))
         }
   }"

section \<open>The updated device\<close>

abbreviation matched :: "bool gomap \<Rightarrow> string set" where
  "matched sel \<equiv> {n. gm_get sel n = Some True}"

lemma keep_deployments_spec:
  assumes "keep_deployments ds sel ls = (kept, sel', ls', upd)" and "distinct (map dpl_Name ds)"
  shows "kept = filter (\<lambda>x. gm_get sel (dpl_Name x) = Some True) ds"
    and "gm_get sel' n = (if gm_get sel n = Some True \<and> n \<in> dpl_Name ` set ds then None else gm_get sel n)"
    and "gm_get ls' k = (if \<exists>x\<in>set ds. gm_get sel (dpl_Name x) \<noteq> Some True \<and> k = WorkloadLabel (dpl_Name x) then None
                         else gm_get ls k)"
    and "upd \<longleftrightarrow> (\<exists>x\<in>set ds. gm_get sel (dpl_Name x) \<noteq> Some True)"
    and "gm_wf sel \<Longrightarrow> gm_wf sel'"
proof -
  have "kept = filter (\<lambda>x. gm_get sel (dpl_Name x) = Some True) ds \<and>
    (\<forall>n. gm_get sel' n = (if gm_get sel n = Some True \<and> n \<in> dpl_Name ` set ds then None else gm_get sel n)) \<and>
    (\<forall>k. gm_get ls' k = (if \<exists>x\<in>set ds. gm_get sel (dpl_Name x) \<noteq> Some True \<and> k = WorkloadLabel (dpl_Name x) then None
                         else gm_get ls k)) \<and>
    (upd \<longleftrightarrow> (\<exists>x\<in>set ds. gm_get sel (dpl_Name x) \<noteq> Some True)) \<and> (gm_wf sel \<longrightarrow> gm_wf sel')"
    using assms
  proof (induction ds sel ls arbitrary: kept sel' ls' upd rule: keep_deployments.induct)
    case (1 sel ls)
    then show ?case by simp
  next
    case (2 d ds sel ls)
    have notin: "dpl_Name x \<noteq> dpl_Name d" if "x \<in> set ds" for x
      using 2(4) that by (metis distinct.simps(2) image_eqI list.map(2) set_map)
    show ?case
    proof (cases "gm_get sel (dpl_Name d) = Some True")
      case True
      obtain kept0 where k: "keep_deployments ds (gm_del (dpl_Name d) sel) ls = (kept0, sel', ls', upd)" "kept = d # kept0"
        using 2(3) True by (auto split: prod.splits)
      from 2(1) [OF True k(1)] 2(4) have IH:
        "kept0 = filter (\<lambda>x. gm_get (gm_del (dpl_Name d) sel) (dpl_Name x) = Some True) ds"
        "\<And>n. gm_get sel' n = (if gm_get (gm_del (dpl_Name d) sel) n = Some True \<and> n \<in> dpl_Name ` set ds then None
                              else gm_get (gm_del (dpl_Name d) sel) n)"
        "\<And>k. gm_get ls' k = (if \<exists>x\<in>set ds. gm_get (gm_del (dpl_Name d) sel) (dpl_Name x) \<noteq> Some True
                              \<and> k = WorkloadLabel (dpl_Name x) then None else gm_get ls k)"
        "upd \<longleftrightarrow> (\<exists>x\<in>set ds. gm_get (gm_del (dpl_Name d) sel) (dpl_Name x) \<noteq> Some True)"
        "gm_wf (gm_del (dpl_Name d) sel) \<longrightarrow> gm_wf sel'" by auto
      have same: "gm_get (gm_del (dpl_Name d) sel) (dpl_Name x) = gm_get sel (dpl_Name x)" if "x \<in> set ds" for x
        using notin [OF that] by simp
      show ?thesis
      proof (intro conjI allI)
        show "kept = filter (\<lambda>x. gm_get sel (dpl_Name x) = Some True) (d # ds)"
          unfolding k(2) IH(1) using True same by (simp cong: filter_cong)
        show "gm_wf sel \<longrightarrow> gm_wf sel'" using IH(5) by (auto intro: gomap)
      qed (use True same IH(2-4) notin in auto)
    next
      case False
      obtain upd0 where k: "keep_deployments ds sel (gm_del (WorkloadLabel (dpl_Name d)) ls) = (kept, sel', ls', upd0)" "upd"
        using 2(3) False by (auto split: prod.splits)
      from 2(2) [OF False k(1)] 2(4) False k(2) show ?thesis by auto
    qed
  qed
  then show "kept = filter (\<lambda>x. gm_get sel (dpl_Name x) = Some True) ds"
    "gm_get sel' n = (if gm_get sel n = Some True \<and> n \<in> dpl_Name ` set ds then None else gm_get sel n)"
    "gm_get ls' k = (if \<exists>x\<in>set ds. gm_get sel (dpl_Name x) \<noteq> Some True \<and> k = WorkloadLabel (dpl_Name x) then None
                         else gm_get ls k)"
    "upd \<longleftrightarrow> (\<exists>x\<in>set ds. gm_get sel (dpl_Name x) \<noteq> Some True)" "gm_wf sel \<Longrightarrow> gm_wf sel'"
    by blast+
qed

lemma add_deployments_spec:
  assumes "add_deployments es ds ls upd = (ds', ls', upd')"
  shows "map dpl_Name ds' = map dpl_Name ds @ map fst (filter snd es)" and "\<exists>new. ds' = ds @ new"
    and "gm_get ls' k = (if \<exists>n. (n, True) \<in> set es \<and> k = WorkloadLabel n then Some ''true'' else gm_get ls k)"
    and "upd' \<longleftrightarrow> upd \<or> (\<exists>n. (n, True) \<in> set es)"
proof -
  have "map dpl_Name ds' = map dpl_Name ds @ map fst (filter snd es) \<and> (\<exists>new. ds' = ds @ new) \<and>
    (\<forall>k. gm_get ls' k = (if \<exists>n. (n, True) \<in> set es \<and> k = WorkloadLabel n then Some ''true'' else gm_get ls k)) \<and>
    (upd' \<longleftrightarrow> upd \<or> (\<exists>n. (n, True) \<in> set es))"
    using assms by (induction es ds ls upd rule: add_deployments.induct) (auto split: if_splits)
  then show "map dpl_Name ds' = map dpl_Name ds @ map fst (filter snd es)" "\<exists>new. ds' = ds @ new"
    "gm_get ls' k = (if \<exists>n. (n, True) \<in> set es \<and> k = WorkloadLabel n then Some ''true'' else gm_get ls k)"
    "upd' \<longleftrightarrow> upd \<or> (\<exists>n. (n, True) \<in> set es)" by blast+
qed

text \<open>What the labels of the device are meant to become.\<close>

definition relabelled :: "string set \<Rightarrow> EdgeDevice \<Rightarrow> string \<Rightarrow> string option" where
  "relabelled M d k =
     (let names = dpl_Name ` set (deployments_of d) in
      if \<exists>n\<in>M - names. k = WorkloadLabel n then Some ''true''
      else if \<exists>n\<in>names - M. k = WorkloadLabel n then None else labels_of d k)"

lemma gm_lookup_Some: "gm_lookup (Some m) = gm_get m"
  by (rule ext) simp

lemma createUpdatedDevice_spec:
  assumes fair: "fair_range E" and wf: "gm_wf sel" and dist: "distinct (map dpl_Name (deployments_of d))"
  shows "wp (createUpdatedDevice E sel d) (\<lambda>r _. case r of
      None \<Rightarrow> dpl_Name ` set (deployments_of d) = matched sel
    | Some d' \<Rightarrow> dpl_Name ` set (deployments_of d) \<noteq> matched sel \<and>
        dev_key d' = dev_key d \<and> finalizers_of d' = finalizers_of d \<and> labels_of d' = relabelled (matched sel) d \<and>
        distinct (map dpl_Name (deployments_of d')) \<and> dpl_Name ` set (deployments_of d') = matched sel \<and>
        (\<forall>x\<in>set (deployments_of d). dpl_Name x \<in> matched sel \<longrightarrow> x \<in> set (deployments_of d'))) w"
proof -
  obtain kept sel' ls upd where keep: "keep_deployments (deployments_of d) sel (opt_list (om_Labels (dev_meta d)))
      = (kept, sel', ls, upd)" by (metis prod_cases4)
  note k = keep_deployments_spec [OF keep dist]
  let ?names = "dpl_Name ` set (deployments_of d)"
  show ?thesis
    unfolding createUpdatedDevice_def keep prod.case wp_bind
  proof (rule wp_conseq [OF fair_range_map [OF fair k(5) [OF wf]]], goal_cases)
    case (1 es w')
    then have es: "(n, b) \<in> set es \<longleftrightarrow> gm_get sel' n = Some b" for n b
      using k(5) [OF wf] by (simp add: gm_wf_def)
    have new: "(n, True) \<in> set es \<longleftrightarrow> n \<in> matched sel - ?names" for n
      unfolding es k(2) by auto
    obtain ds ls' upd' where add: "add_deployments es kept ls upd = (ds, ls', upd')" by (metis prod_cases3)
    note a = add_deployments_spec [OF add]
    have upd: "upd' \<longleftrightarrow> ?names \<noteq> matched sel"
      unfolding a(4) k(4) new by auto
    have names_es: "set (map fst (filter snd es)) = matched sel - ?names"
    proof (rule set_eqI)
      fix n
      have "n \<in> set (map fst (filter snd es)) \<longleftrightarrow> (n, True) \<in> set es" by force
      then show "n \<in> set (map fst (filter snd es)) \<longleftrightarrow> n \<in> matched sel - ?names" unfolding new .
    qed
    have kept: "set (map dpl_Name kept) = ?names \<inter> matched sel" unfolding k(1) by auto
    have "distinct (map dpl_Name ds)"
    proof -
      have "distinct (map dpl_Name kept)" unfolding k(1) using dist by (simp add: distinct_map_filter)
      moreover have "distinct (map fst (filter snd es))" using 1 by (simp add: gm_wf_def distinct_map_filter)
      ultimately show ?thesis unfolding a(1) distinct_append names_es kept by blast
    qed
    moreover have "dpl_Name ` set ds = matched sel"
    proof -
      have "dpl_Name ` set ds = set (map dpl_Name ds)" by simp
      also have "\<dots> = ?names \<inter> matched sel \<union> (matched sel - ?names)"
        unfolding a(1) set_append names_es kept by (rule refl)
      finally show ?thesis by blast
    qed
    moreover have "x \<in> set ds" if "x \<in> set (deployments_of d)" "dpl_Name x \<in> matched sel" for x
    proof -
      have "x \<in> set kept" unfolding k(1) using that by simp
      then show ?thesis using a(2) by auto
    qed
    moreover have "gm_get ls' = relabelled (matched sel) d"
    proof
      fix key
      show "gm_get ls' key = relabelled (matched sel) d key"
        unfolding a(3) k(3) new relabelled_def Let_def labels_of_def gm_lookup_opt_list by auto
    qed
    ultimately show ?case
      unfolding add prod.case wp_ret using upd by (simp add: gm_lookup_Some)
  qed
qed

context device_api
begin

lemma updateDeployments_quiet:
  "keeps devs (range_map E m)" "keeps devs (select_deployments E d sel ls)" "keeps devs (createUpdatedDevice E sel' d)"
proof -
  show "keeps devs (range_map E m)" for m :: "'b gomap" by (rule range_map_keeps)
  show "keeps devs (select_deployments E d sel ls)"
    by (induction ls arbitrary: sel) (auto simp: dep_ListByLabel_def intro!: keeps_try keeps_sum dep_list_keeps)
  show "keeps devs (createUpdatedDevice E sel' d)"
    unfolding createUpdatedDevice_def by (intro keeps_prod keeps_bind range_map_keeps keeps_ret)
qed

end

lemma match_deployments_wf: "match_deployments d sel deps = Inr sel' \<Longrightarrow> gm_wf sel \<Longrightarrow> gm_wf sel'"
  by (induction d sel deps rule: match_deployments.induct) (auto split: if_splits sum.splits intro: gomap)

lemma select_deployments_wf:
  "gm_wf sel \<Longrightarrow> wp (select_deployments E d sel ls) (\<lambda>r _. \<forall>sel'. r = Inr sel' \<longrightarrow> gm_wf sel') w"
proof (induction E d sel ls arbitrary: w rule: select_deployments.induct)
  case (2 E d sel l v rest)
  have step: "wp (try_io (ret (match_deployments d sel x)) (\<lambda>sel'. select_deployments E d sel' rest))
      (\<lambda>r _. \<forall>sel'. r = Inr sel' \<longrightarrow> gm_wf sel') w'" for x w'
    using 2 match_deployments_wf by (cases "match_deployments d sel x") auto
  show ?case unfolding select_deployments.simps wp_try
  proof (rule wp_intro, goal_cases)
    case (1 r w')
    show ?case
    proof (cases r)
      case (Inr x)
      then show ?thesis using step [of x w'] by simp
    qed simp
  qed
qed simp

section \<open>Against the API server\<close>

text \<open>The device after the two patches: the deployments are those that match, labels that were there
  stay as they were, and a label is added, if at all, only where one was meant to be.\<close>

definition label_updated :: "string set \<Rightarrow> EdgeDevice \<Rightarrow> EdgeDevice \<Rightarrow> bool" where
  "label_updated M d s \<longleftrightarrow> dev_key s = dev_key d \<and> dpl_Name ` set (deployments_of s) = M \<and>
     distinct (map dpl_Name (deployments_of s)) \<and>
     (\<forall>x\<in>set (deployments_of d). dpl_Name x \<in> M \<longrightarrow> x \<in> set (deployments_of s)) \<and>
     finalizers_of s = finalizers_of d \<and>
     (\<forall>k. labels_of d k \<noteq> None \<longrightarrow> labels_of s k = labels_of d k) \<and>
     (\<forall>k. labels_of s k \<noteq> labels_of d k \<longrightarrow> labels_of s k = relabelled M d k)"

lemma labels_via_response:
  assumes resp: "response_of s new r" and same: "labels_of s = labels_of d" and new: "labels_of new = relabelled M d"
  shows "labels_of d k \<noteq> None \<Longrightarrow> merge_labels d r s k = labels_of d k"
    and "merge_labels d r s k \<noteq> labels_of d k \<Longrightarrow> merge_labels d r s k = relabelled M d k"
proof -
  have dec: "decoded None (labels_of d k) (relabelled M d k) (labels_of r k)"
    using resp same new by (metis response_of_def)
  show "labels_of d k \<noteq> None \<Longrightarrow> merge_labels d r s k = labels_of d k"
    using dec same by (simp add: merge_labels_def merge_field_def decoded_def)
  show "merge_labels d r s k \<noteq> labels_of d k \<Longrightarrow> merge_labels d r s k = relabelled M d k"
    using dec same by (auto simp: merge_labels_def merge_field_def decoded_def split: if_splits)
qed

context device_api
begin

lemma two_patches_spec:
  assumes d: "devs w (dev_key d) = Some d" "om_DeletionTimestamp (dev_meta d) = None"
    and u: "dev_key u = dev_key d" "finalizers_of u = finalizers_of d" "labels_of u = relabelled M d"
      "distinct (map dpl_Name (deployments_of u))" "dpl_Name ` set (deployments_of u) = M"
      "\<forall>x\<in>set (deployments_of d). dpl_Name x \<in> M \<longrightarrow> x \<in> set (deployments_of u)"
    and diff: "dpl_Name ` set (deployments_of d) \<noteq> M"
  shows "wp (dev_PatchStatus E u d) (\<lambda>p. wp (case p of Inl err \<Rightarrow> ret (Some err)
           | Inr u' \<Rightarrow> do { q \<leftarrow> dev_Patch E d u'; ret (err_of q) })
           (\<lambda>err w'. err = None \<longrightarrow> (\<exists>s. devs w' = (devs w)(dev_key d \<mapsto> s) \<and> label_updated M d s))) w"
proof -
  have "devs w (dev_key u) = Some d" using d u by simp
  from repo.patch_status_spec [OF this, of d] show ?thesis
  proof (rule wp_conseq, goal_cases)
    case (1 p w1)
    show ?case
    proof (cases p)
      case (Inl e)
      then show ?thesis by simp
    next
      case (Inr u')
      have "deployments_of u \<noteq> deployments_of d" using u(5) diff by auto
      with 1 Inr u(1) obtain s where s: "dev_key s = dev_key d" "response_of s u u'" "devs w1 = (devs w)(dev_key d \<mapsto> s)"
        "om_DeletionTimestamp (dev_meta s) = None" "deployments_of s = deployments_of u"
        "labels_of s = labels_of d" "finalizers_of s = finalizers_of d"
        using d(2) by (auto simp: merge_field_def)
      have key: "dev_key u' = dev_key d" using response_key [OF s(2)] s(1) by simp
      have fin: "finalizers_of u' = finalizers_of d"
      proof -
        have "decoded [] (finalizers_of s) (finalizers_of u) (finalizers_of u')" using s(2) by (simp add: response_of_def)
        then have "finalizers_of u' = finalizers_of s" by (rule decoded_same) (simp add: s(7) u(2))
        then show ?thesis using s(7) by simp
      qed
      have "devs w1 (dev_key u') = Some s" using s(3) key by simp
      from repo.patch_spec [OF this, of d] show ?thesis
        unfolding Inr sum.case wp_bind wp_ret
      proof (rule wp_conseq, goal_cases)
        case (1 q w2)
        show ?case
        proof (cases q)
          case (Inl e)
          then show ?thesis by simp
        next
          case (Inr z)
          with 1 key fin obtain t where t: "dev_key t = dev_key d" "devs w2 = (devs w1)(dev_key d := stored_after t)"
            "om_DeletionTimestamp (dev_meta t) = None" "deployments_of t = deployments_of u"
            "labels_of t = merge_labels d u' s" "finalizers_of t = finalizers_of d"
            using s by auto
          have "stored_after t = Some t" using t(3) by (simp add: stored_after_def)
          then have "devs w2 = (devs w)(dev_key d \<mapsto> t)" using t(2) s(3) by simp
          moreover have "label_updated M d t"
            unfolding label_updated_def t(1,4,6) t(5)
            using u labels_via_response [OF s(2,6) u(3)] by blast
          ultimately show ?thesis by blast
        qed
      qed
    qed
  qed
qed

end

section \<open>Which deployments are found\<close>

definition dep_name :: "EdgeDeployment \<Rightarrow> string" where "dep_name dep = om_Name (dep_meta dep)"

definition carries :: "string gomap \<Rightarrow> EdgeDeployment \<Rightarrow> bool" where
  "carries L dep \<longleftrightarrow> (\<exists>(l, v)\<in>set L. gm_lookup (om_Labels (dep_meta dep)) l = Some v)"

definition discovered :: "EdgeDevice \<Rightarrow> EdgeDeployment \<Rightarrow> bool" where
  "discovered d dep \<longleftrightarrow> carries (createSelectorLabelsMap d) dep"

definition found_names :: "EdgeDeployment set \<Rightarrow> EdgeDevice \<Rightarrow> string set" where
  "found_names D d = dep_name ` {dep \<in> D. discovered d dep \<and> isDeploymentMatchDevice dep d = Inr True}"

text \<open>What the map of examined deployments says.\<close>

definition examined :: "EdgeDeployment set \<Rightarrow> EdgeDevice \<Rightarrow> string gomap \<Rightarrow> bool gomap \<Rightarrow> bool" where
  "examined D d L sel \<longleftrightarrow> gm_wf sel \<and>
     (\<forall>n b. gm_get sel n = Some b \<longrightarrow>
        (\<exists>dep\<in>D. dep_name dep = n \<and> carries L dep \<and> isDeploymentMatchDevice dep d = Inr b)) \<and>
     (\<forall>dep\<in>D. carries L dep \<longrightarrow> gm_mem (dep_name dep) sel)"

lemma carries_snoc: "carries (L @ [(l, v)]) dep \<longleftrightarrow> carries L dep \<or> gm_lookup (om_Labels (dep_meta dep)) l = Some v"
  by (auto simp: carries_def)

lemma match_deployments_spec:
  "match_deployments d sel xs = Inr sel' \<Longrightarrow>
     (gm_get sel' n = Some b \<longrightarrow> gm_get sel n = Some b \<or>
        (\<exists>x\<in>set xs. dep_name x = n \<and> isDeploymentMatchDevice x d = Inr b)) \<and>
     (gm_mem n sel' \<longleftrightarrow> gm_mem n sel \<or> n \<in> dep_name ` set xs)"
  by (induction d sel xs rule: match_deployments.induct)
     (auto simp: dep_name_def gm_mem_def split: if_splits sum.splits)

lemma examined_step:
  assumes "examined D d L sel" and "match_deployments d sel xs = Inr sel'"
    and "set xs = {dep \<in> D. gm_lookup (om_Labels (dep_meta dep)) l = Some v}"
  shows "examined D d (L @ [(l, v)]) sel'"
  unfolding examined_def
proof (intro conjI allI impI ballI)
  show "gm_wf sel'" using assms match_deployments_wf by (auto simp: examined_def)
  fix n b assume "gm_get sel' n = Some b"
  with match_deployments_spec [OF assms(2), of n b]
  consider "gm_get sel n = Some b" | x where "x \<in> set xs" "dep_name x = n" "isDeploymentMatchDevice x d = Inr b" by blast
  then show "\<exists>dep\<in>D. dep_name dep = n \<and> carries (L @ [(l, v)]) dep \<and> isDeploymentMatchDevice dep d = Inr b"
  proof cases
    case 1
    with assms(1) show ?thesis unfolding examined_def carries_snoc by blast
  next
    case 2
    with assms(3) show ?thesis unfolding carries_snoc by blast
  qed
next
  fix dep assume "dep \<in> D" "carries (L @ [(l, v)]) dep"
  then have "gm_mem (dep_name dep) sel \<or> dep \<in> set xs"
    using assms(1,3) by (auto simp: examined_def carries_snoc)
  then show "gm_mem (dep_name dep) sel'" using match_deployments_spec [OF assms(2), of "dep_name dep"] by blast
qed

lemma examined_matched:
  assumes "examined D d L sel" and "inj_on dep_name D" and "set L = set (createSelectorLabelsMap d)"
  shows "matched sel = found_names D d"
proof -
  have c: "carries L dep \<longleftrightarrow> discovered d dep" for dep using assms(3) by (simp add: carries_def discovered_def)
  have "n \<in> found_names D d" if "gm_get sel n = Some True" for n
    using assms(1) that unfolding examined_def found_names_def c by blast
  moreover have "gm_get sel (dep_name dep) = Some True"
    if dep: "dep \<in> D" "discovered d dep" "isDeploymentMatchDevice dep d = Inr True" for dep
  proof -
    from assms(1) dep c obtain b where b: "gm_get sel (dep_name dep) = Some b" by (auto simp: examined_def gm_mem_def)
    with assms(1) obtain dep' where "dep' \<in> D" "dep_name dep' = dep_name dep" "isDeploymentMatchDevice dep' d = Inr b"
      unfolding examined_def by blast
    moreover from this have "dep' = dep" using assms(2) dep(1) by (auto dest: inj_onD)
    ultimately show ?thesis using b dep(3) by simp
  qed
  ultimately show ?thesis by (auto simp: found_names_def)
qed

lemma createSelectorLabelsMap_wf: "gm_wf (createSelectorLabelsMap d)"
proof -
  have "gm_wf r \<Longrightarrow> gm_wf (device_selector_labels r ls)" for r ls
    by (induction r ls rule: device_selector_labels.induct) (auto intro: gomap)
  then show ?thesis
    by (auto simp: createSelectorLabelsMap_def gm_wf_def DeviceNameLabel_def DoesNotExistLabel_def)
qed

text \<open>Listing deployments by label, over all namespaces.\<close>

locale deployment_api = device_api E devs
  for E :: "'w env" and devs :: "'w \<Rightarrow> string \<times> string \<Rightarrow> EdgeDevice option" +
  fixes deps :: "'w \<Rightarrow> EdgeDeployment set"
  assumes deps_list: "run_state (k_dep_list E sel) w = (Inr xs, w') \<Longrightarrow>
        set xs = {dep \<in> deps w. Selector_Matches sel (om_Labels (dep_meta dep))}"
    and deps_list_keeps: "keeps deps (k_dep_list E sel)"
    and deps_range_keeps: "keeps deps (k_range E ks)"
begin

lemma ListByLabel_spec:
  "wp (dep_ListByLabel E l v) (\<lambda>r w'. deps w' = deps w \<and> (\<forall>xs. r = Inr xs \<longrightarrow>
      set xs = {dep \<in> deps w. gm_lookup (om_Labels (dep_meta dep)) l = Some v})) w"
proof (cases "NewRequirement l Equals [v]")
  case (Inl e)
  then show ?thesis by (simp add: dep_ListByLabel_def)
next
  case (Inr rq)
  have m: "Selector_Matches (internalSelector [rq]) ls \<longleftrightarrow> gm_lookup ls l = Some v" for ls
    using NewRequirement_Inr [OF Inr] by (auto simp: Requirement_Matches_def split: option.split)
  show ?thesis
    unfolding dep_ListByLabel_def Inr sum.case
    by (rule wp_intro) (use deps_list keeps_run [OF deps_list_keeps] m in fastforce)
qed

lemma select_deployments_spec:
  "examined (deps w) d L sel \<Longrightarrow> wp (select_deployments E d sel ls) (\<lambda>r w'. deps w' = deps w \<and>
     (\<forall>sel'. r = Inr sel' \<longrightarrow> examined (deps w) d (L @ ls) sel')) w"
proof (induction ls arbitrary: sel L w)
  case Nil
  then show ?case by simp
next
  case (Cons lv ls)
  obtain l v where lv: "lv = (l, v)" by (cases lv)
  show ?case unfolding lv select_deployments.simps wp_try
  proof (rule wp_conseq [OF ListByLabel_spec], goal_cases)
    case (1 r w1)
    show ?case
    proof (cases r)
      case (Inl e)
      with 1 show ?thesis by simp
    next
      case (Inr xs)
      with 1 have w1: "deps w1 = deps w" and xs: "set xs = {dep \<in> deps w. gm_lookup (om_Labels (dep_meta dep)) l = Some v}"
        by auto
      show ?thesis
      proof (cases "match_deployments d sel xs")
        case (Inl e)
        with Inr w1 show ?thesis unfolding \<open>r = Inr xs\<close> by simp
      next
        case m: (Inr sel1)
        have "examined (deps w1) d (L @ [(l, v)]) sel1" using examined_step [OF Cons.prems m xs] w1 by simp
        from Cons.IH [OF this] show ?thesis using Inr m w1 by simp
      qed
    qed
  qed
qed

lemma updateDeployments_spec:
  assumes d: "devs w (dev_key d) = Some d" "om_DeletionTimestamp (dev_meta d) = None"
    and dist: "distinct (map dpl_Name (deployments_of d))" and fair: "fair_range E" and inj: "inj_on dep_name (deps w)"
  shows "wp (updateDeployments E d) (\<lambda>err w'. err = None \<longrightarrow>
           (\<exists>s. devs w' = (devs w)(dev_key d \<mapsto> s) \<and> label_updated (found_names (deps w) d) d s)) w"
proof -
  have rk: "keeps deps (range_map E m)" for m :: "string gomap"
    unfolding range_map_def by (intro keeps_bind deps_range_keeps keeps_ret)
  have "wp (range_map E (createSelectorLabelsMap d)) (\<lambda>r w'. devs w' = devs w \<and> deps w' = deps w \<and>
      (set r = set (createSelectorLabelsMap d) \<and> gm_wf r \<and> length r = length (createSelectorLabelsMap d))) w"
    unfolding wp_conj using fair_range_map [OF fair createSelectorLabelsMap_wf, of d w]
    by (simp add: wp_conj keeps_wp range_map_keeps rk)
  then show ?thesis
    unfolding updateDeployments_def wp_bind
  proof (rule wp_conseq, goal_cases)
    case (1 sls w1)
    have "examined (deps w1) d [] []" by (simp add: examined_def carries_def)
    note spec = select_deployments_spec [OF this, of sls]
    have "wp (select_deployments E d [] sls) (\<lambda>r w'. devs w' = devs w1) w1"
      by (rule keeps_wp [OF updateDeployments_quiet(2)])
    with spec have "wp (select_deployments E d [] sls) (\<lambda>r w'. devs w' = devs w1 \<and> (deps w' = deps w1 \<and>
        (\<forall>sel. r = Inr sel \<longrightarrow> examined (deps w1) d ([] @ sls) sel))) w1"
      by (simp add: wp_conj)
    then show ?case
    proof (rule wp_conseq, goal_cases)
      case (1 r w2)
      show ?case
      proof (cases r)
        case (Inr sel)
        let ?M = "found_names (deps w) d"
        have ex: "examined (deps w) d sls sel" and w2: "devs w2 = devs w"
          using 1 Inr \<open>devs w1 = devs w \<and> _\<close> by auto
        have M: "matched sel = ?M"
          by (rule examined_matched [OF ex inj]) (use \<open>devs w1 = devs w \<and> _\<close> in simp)
        have wf: "gm_wf sel" using ex by (simp add: examined_def)
        have "wp (createUpdatedDevice E sel d) (\<lambda>r w'. devs w' = devs w2 \<and> (case r of
              None \<Rightarrow> dpl_Name ` set (deployments_of d) = matched sel
            | Some d' \<Rightarrow> dpl_Name ` set (deployments_of d) \<noteq> matched sel \<and>
                dev_key d' = dev_key d \<and> finalizers_of d' = finalizers_of d \<and> labels_of d' = relabelled (matched sel) d \<and>
                distinct (map dpl_Name (deployments_of d')) \<and> dpl_Name ` set (deployments_of d') = matched sel \<and>
                (\<forall>x\<in>set (deployments_of d). dpl_Name x \<in> matched sel \<longrightarrow> x \<in> set (deployments_of d')))) w2"
          unfolding wp_conj by (intro conjI keeps_wp updateDeployments_quiet createUpdatedDevice_spec fair wf dist)
        then show ?thesis unfolding Inr sum.case wp_bind M
        proof (rule wp_conseq, goal_cases)
          case (1 u w3)
          then have w3: "devs w3 = devs w" using w2 by simp
          show ?case
          proof (cases u)
            case None
            with 1 have "label_updated ?M d d" using dist by (simp add: label_updated_def)
            with None w3 d show ?thesis by (auto simp: fun_upd_idem intro!: exI [of _ d])
          next
            case (Some d')
            with 1 have "wp (dev_PatchStatus E d' d) (\<lambda>p. wp (case p of Inl err \<Rightarrow> ret (Some err)
               | Inr u' \<Rightarrow> do { q \<leftarrow> dev_Patch E d u'; ret (err_of q) })
               (\<lambda>err w'. err = None \<longrightarrow> (\<exists>s. devs w' = (devs w3)(dev_key d \<mapsto> s) \<and> label_updated ?M d s))) w3"
              by (intro two_patches_spec) (use d w3 in simp_all)
            then show ?thesis unfolding Some option.case wp_bind w3 .
          qed
        qed
      qed simp
    qed
  qed
qed

end

interpretation memdep: deployment_api mem_env mem_devs "\<lambda>w. set (m_deps w)"
proof (unfold_locales, goal_cases)
  case (1 sel w xs w')
  then show ?case by (auto simp: mem_env_def api_call_def split: list.splits option.splits)
next
  case (2 sel)
  then show ?case by (auto simp: mem_env_def keeps_def api_call_def split: list.splits option.splits)
next
  case (3 ks)
  then show ?case by (simp add: mem_env_def)
qed

section \<open>Properties\<close>


definition sample_stale :: EdgeDevice where
  "sample_stale = sample_dev ''d2'' [(WorkloadLabel ''old'', ''true'')]
     [\<lparr>dpl_Name = ''old'', dpl_Phase = Running, dpl_LastTransitionTime = 0, dpl_LastDataUpload = 0\<rparr>]"


section \<open>Discovery\<close>

lemma gm_get_device_selector_labels:
  "gm_get (device_selector_labels r ls) k =
     (if \<exists>l\<in>set (gm_keys ls). \<not> IsWorkloadLabel l \<and> k = CreateSelectorLabel l then Some ''true'' else gm_get r k)"
  by (induction r ls rule: device_selector_labels.induct) auto

lemma createSelectorLabelsMap_lookup:
  "gm_get (createSelectorLabelsMap d) (CreateSelectorLabel l) =
     (if labels_of d l \<noteq> None \<and> \<not> IsWorkloadLabel l then Some ''true''
      else if l = DeviceNameLabel then Some (dev_name d)
      else if l = DoesNotExistLabel then Some ''true'' else None)"
proof -
  have "labels_of d l \<noteq> None \<longleftrightarrow> l \<in> set (gm_keys (opt_list (om_Labels (dev_meta d))))"
    unfolding labels_of_def gm_lookup_opt_list by (metis gm_mem_def gm_mem_keys)
  then show ?thesis
    unfolding createSelectorLabelsMap_def gm_get_device_selector_labels by auto
qed

lemma createSelectorLabelsMap_selector:
  "gm_get (createSelectorLabelsMap d) k = Some v \<Longrightarrow> IsSelectorLabel k"
  unfolding createSelectorLabelsMap_def gm_get_device_selector_labels by (auto split: if_splits)

lemma discovered_iff:
  "discovered d (UpdateSelectorLabels dep) \<longleftrightarrow>
     (\<exists>l v. gm_get (createSelectorLabelsMap d) (CreateSelectorLabel l) = Some v \<and>
            wanted_selector_label (dep_Spec dep) l = Some v)"
proof -
  have entry: "(k, v) \<in> set (createSelectorLabelsMap d) \<longleftrightarrow> gm_get (createSelectorLabelsMap d) k = Some v" for k v
    using createSelectorLabelsMap_wf by (simp add: gm_wf_def)
  have "discovered d (UpdateSelectorLabels dep) \<longleftrightarrow> (\<exists>k v. gm_get (createSelectorLabelsMap d) k = Some v \<and>
      gm_lookup (om_Labels (dep_meta (UpdateSelectorLabels dep))) k = Some v)"
    unfolding discovered_def carries_def using entry by fast
  also have "\<dots> \<longleftrightarrow> (\<exists>l v. gm_get (createSelectorLabelsMap d) (CreateSelectorLabel l) = Some v \<and>
      wanted_selector_label (dep_Spec dep) l = Some v)"
  proof -
    have "gm_lookup (om_Labels (dep_meta (UpdateSelectorLabels dep))) (CreateSelectorLabel l) =
        wanted_selector_label (dep_Spec dep) l" for l
      by (simp add: UpdateSelectorLabels_lookup CreateSelectorLabel_def [of l])
         (simp add: CreateSelectorLabel_def [symmetric])
    then show ?thesis using createSelectorLabelsMap_selector IsSelectorLabel_iff by metis
  qed
  finally show ?thesis .
qed

text \<open>An expression that leads from a device it holds of to the deployment.\<close>

definition leads :: "LabelSelectorRequirement \<Rightarrow> bool" where
  "leads x \<longleftrightarrow> lsr_Operator x = OpDoesNotExist \<or>
     (lsr_Operator x = OpIn \<or> lsr_Operator x = OpExists) \<and> \<not> IsWorkloadLabel (lsr_Key x)"

lemma named_deployment_discovered:
  assumes "eds_Device (dep_Spec dep) \<noteq> []" and "dev_name d = eds_Device (dep_Spec dep)"
  shows "discovered d (UpdateSelectorLabels dep) \<longleftrightarrow> labels_of d DeviceNameLabel = None \<or> dev_name d = ''true''"
proof -
  have workload: "\<not> IsWorkloadLabel DeviceNameLabel"
    by (simp add: IsWorkloadLabel_def workloadLabelPrefix_def HasPrefix_def DeviceNameLabel_def)
  show ?thesis
    unfolding discovered_iff createSelectorLabelsMap_lookup
    using assms workload by (auto simp: wanted_selector_label_def DoesNotExistLabel_def DeviceNameLabel_def split: if_splits)
qed

text \<open>C22: a deployment with up to date selector labels that selects a device by its selector is found from that
  device if the selector has a match label, an In or an Exists expression on a key that is not a workload label, or a
  DoesNotExist expression. One that names the device is found exactly if the device does not carry the label
  \<open>devicename\<close> itself (or is called \<open>true\<close>): that label of the device replaces its name in the search.\<close>

theorem selected_deployment_discovered:
  assumes "selects dep d"
  shows "if eds_Device (dep_Spec dep) \<noteq> []
    then discovered d (UpdateSelectorLabels dep) \<longleftrightarrow> labels_of d DeviceNameLabel = None \<or> dev_name d = ''true''
    else \<forall>s. eds_DeviceSelector (dep_Spec dep) = Some s \<longrightarrow>
      (\<exists>l\<in>set (gm_keys (ls_MatchLabels s)). \<not> IsWorkloadLabel l) \<or> (\<exists>x\<in>set (ls_MatchExpressions s). leads x) \<longrightarrow>
      discovered d (UpdateSelectorLabels dep)"
proof (cases "eds_Device (dep_Spec dep) = []")
  case False
  then have "dev_name d = eds_Device (dep_Spec dep)" using assms by (simp add: selects_def)
  with False named_deployment_discovered show ?thesis by simp
next
  case True
  with assms obtain s where s: "eds_DeviceSelector (dep_Spec dep) = Some s"
    "\<forall>(k, v)\<in>set (ls_MatchLabels s). labels_of d k = Some v" "\<forall>x\<in>set (ls_MatchExpressions s). expr_holds x (labels_of d)"
    by (auto simp: selects_def split: option.splits)
  have via: "discovered d (UpdateSelectorLabels dep)" if "labels_of d l \<noteq> None \<and> \<not> IsWorkloadLabel l \<or> l = DoesNotExistLabel"
    "l \<in> set (gm_keys (ls_MatchLabels s)) \<union> expression_label ` set (ls_MatchExpressions s)" for l
    unfolding discovered_iff createSelectorLabelsMap_lookup
    using that True s(1) by - (rule exI [of _ l], rule exI [of _ "''true''"],
      auto simp: wanted_selector_label_def DoesNotExistLabel_def DeviceNameLabel_def)
  have "discovered d (UpdateSelectorLabels dep)" if "(l, v) \<in> set (ls_MatchLabels s)" "\<not> IsWorkloadLabel l" for l v
    by (rule via [of l]) (use that s(2) in \<open>force+\<close>)
  moreover have "discovered d (UpdateSelectorLabels dep)" if "x \<in> set (ls_MatchExpressions s)" "leads x" for x
  proof -
    have "expr_holds x (labels_of d)" using that s(3) by blast
    then show ?thesis
      by - (rule via [of "expression_label x"], use that in \<open>auto simp: leads_def expression_label_def expr_holds_def\<close>)
  qed
  ultimately show ?thesis using True s(1) by auto
qed

text \<open>C23: a deployment whose selector has only NotIn expressions on keys a device does not have, other than
  \<open>devicename\<close> and \<open>doesnotexist\<close> (or no requirement at all) selects the device, but is not found from it; so when the labels of
  the device are reconciled it is not among the deployments the device keeps.\<close>

theorem NotIn_deployment_not_discovered:
  assumes "eds_Device (dep_Spec dep) = []" and "eds_DeviceSelector (dep_Spec dep) = Some s"
    and "ls_MatchLabels s = []"
    and "\<forall>x\<in>set (ls_MatchExpressions s). lsr_Operator x = OpNotIn \<and> labels_of d (lsr_Key x) = None \<and>
           lsr_Key x \<noteq> DoesNotExistLabel \<and> lsr_Key x \<noteq> DeviceNameLabel"
  shows "selects dep d \<and> \<not> discovered d (UpdateSelectorLabels dep) \<and>
         dep_name dep \<notin> found_names {UpdateSelectorLabels dep} d"
proof -
  have "\<not> discovered d (UpdateSelectorLabels dep)"
    unfolding discovered_iff createSelectorLabelsMap_lookup
    using assms by (auto simp: wanted_selector_label_def expression_label_def split: if_splits)
  moreover have "selects dep d"
    using assms by (auto simp: selects_def expr_holds_def)
  ultimately show ?thesis by (auto simp: found_names_def)
qed

definition sample_notin :: EdgeDeployment where
  "sample_notin = sample_dep\<lparr>dep_Spec := (dep_Spec sample_dep)\<lparr>eds_DeviceSelector := Some
     \<lparr>ls_MatchLabels = [], ls_MatchExpressions = [\<lparr>lsr_Key = ''gpu'', lsr_Operator = OpNotIn, lsr_Values = [''none'']\<rparr>]\<rparr>\<rparr>\<rparr>"

theorem NotIn_deployment_not_discovered_witness:
  "selects sample_notin (sample_dev ''d1'' [] []) \<and> ''app'' \<notin> found_names {UpdateSelectorLabels sample_notin} (sample_dev ''d1'' [] [])"
proof -
  have "eds_Device (dep_Spec sample_notin) = []" by (simp add: sample_notin_def sample_dep_def)
  moreover have "eds_DeviceSelector (dep_Spec sample_notin) = Some
     \<lparr>ls_MatchLabels = [], ls_MatchExpressions = [\<lparr>lsr_Key = ''gpu'', lsr_Operator = OpNotIn, lsr_Values = [''none'']\<rparr>]\<rparr>"
    by (simp add: sample_notin_def)
  ultimately show ?thesis
    using NotIn_deployment_not_discovered [of sample_notin _ "sample_dev ''d1'' [] []"]
    by (simp add: sample_dev_def labels_of_def DoesNotExistLabel_def DeviceNameLabel_def dep_name_def
        sample_notin_def sample_dep_def)
qed

definition sample_named :: EdgeDeployment where
  "sample_named = sample_dep\<lparr>dep_Spec := (dep_Spec sample_dep)\<lparr>eds_Device := ''d1''\<rparr>\<rparr>"

theorem selected_deployment_discovered_witness:
  "discovered (sample_dev ''d1'' [(''dc'', ''home'')] []) (UpdateSelectorLabels sample_dep) \<and>
   selects sample_named (sample_dev ''d1'' [(''devicename'', ''lab'')] []) \<and>
   \<not> discovered (sample_dev ''d1'' [(''devicename'', ''lab'')] []) (UpdateSelectorLabels sample_named)"
proof -
  have "selects sample_dep (sample_dev ''d1'' [(''dc'', ''home'')] [])"
    by (simp add: selects_def sample_dep_def sample_dev_def labels_of_def)
  note found = selected_deployment_discovered [OF this]
  have named: "selects sample_named (sample_dev ''d1'' [(''devicename'', ''lab'')] [])"
    by (simp add: selects_def sample_named_def sample_dep_def sample_dev_def dev_name_def)
  note lost = selected_deployment_discovered [OF this]
  show ?thesis
    using found lost named by (simp add: sample_named_def sample_dep_def sample_dev_def labels_of_def DeviceNameLabel_def dev_name_def
        IsWorkloadLabel_def workloadLabelPrefix_def HasPrefix_def)
qed

end
