(* ===== verification/Device_Controller.thy ===== *)
theory Device_Controller
  imports Storage_Claimer
begin

text \<open>
  \<open>controllers/edgedevice_controller.go\<close>: one reconciliation of an EdgeDevice makes sure that a
  device which wants object storage has a bucket claim and refers to it. The result is
  \<open>ctrl.Result{Requeue, RequeueAfter}\<close> (seconds) and the error. The locale \<open>claim_api\<close> states
  what is used of the API for bucket claims.
\<close>

definition createOrGetObc :: "'w env \<Rightarrow> EdgeDevice \<Rightarrow> ('w, ObjectBucketClaim result) io" where
  "createOrGetObc E edgeDevice = do {
     r \<leftarrow> GetClaim E (om_Name (dev_meta edgeDevice)) (om_Namespace (dev_meta edgeDevice));
     case r of
       Inr obc \<Rightarrow> ret (Inr obc)
     | Inl err \<Rightarrow> if IsNotFound err then CreateClaim E edgeDevice else ret (Inl err)
   }"

definition set_DataOBC :: "string option \<Rightarrow> EdgeDevice \<Rightarrow> EdgeDevice" where
  "set_DataOBC c d = d\<lparr>dev_Status := (dev_Status d)\<lparr>es_DataOBC := c\<rparr>\<rparr>"

definition addObcReference :: "'w env \<Rightarrow> EdgeDevice \<Rightarrow> string \<Rightarrow> ('w, goerr option) io" where
  "addObcReference E edgeDevice obcName = do {
     r \<leftarrow> dev_PatchStatus E (set_DataOBC (Some obcName) edgeDevice) edgeDevice;
     ret (err_of r)
   }"

definition dev_Reconcile :: "'w env \<Rightarrow> bool \<Rightarrow> string \<Rightarrow> string \<Rightarrow> ('w, bool \<times> int \<times> goerr option) io" where
  "dev_Reconcile E obcAutoCreate reqName reqNamespace = do {
     r \<leftarrow> dev_Read E reqName reqNamespace;
     case r of
       Inl err \<Rightarrow> ret (if IsNotFound err then (False, 0, None) else (True, 0, Some err))
     | Inr edgeDevice \<Rightarrow>
         if \<not> obcAutoCreate \<and> \<not> ShouldCreateOBC (Some edgeDevice) then ret (False, 0, None)
         else if es_DataOBC (dev_Status edgeDevice) = None \<or> es_DataOBC (dev_Status edgeDevice) = Some [] then do {
           c \<leftarrow> createOrGetObc E edgeDevice;
           case c of
             Inl err \<Rightarrow> ret (True, 0, Some err)
           | Inr obc \<Rightarrow> do {
               e \<leftarrow> addObcReference E edgeDevice (om_Name (obc_meta obc));
               ret (case e of Some err \<Rightarrow> (True, 5, Some err) | None \<Rightarrow> (False, 0, None))
             }
         }
         else ret (False, 0, None)
   }"

section \<open>Bucket claims in the cluster\<close>

locale claim_api =
  fixes E :: "'w env"
    and obcs :: "'w \<Rightarrow> string \<times> string \<Rightarrow> ObjectBucketClaim option"
  assumes obc_get_keeps: "keeps obcs (k_obc_get E ns n)"
    and obc_get_found: "run_state (k_obc_get E ns n) w = (Inr c, w') \<Longrightarrow>
          obcs w (ns, n) = Some c \<and> om_Name (obc_meta c) = n \<and> om_Namespace (obc_meta c) = ns"
    and obc_create: "run_state (k_obc_create E c) w = (r, w') \<Longrightarrow> case r of
          Inl _ \<Rightarrow> obcs w' = obcs w
        | Inr c' \<Rightarrow> obcs w (om_Namespace (obc_meta c), om_Name (obc_meta c)) = None \<and>
            om_Name (obc_meta c') = om_Name (obc_meta c) \<and>
            obcs w' = (obcs w)((om_Namespace (obc_meta c), om_Name (obc_meta c)) \<mapsto> c')"
    and obc_dev_get_keeps: "keeps obcs (k_dev_get E ns n)"
    and obc_dev_status_keeps: "keeps obcs (k_dev_status_patch E new old)"
begin

lemma createOrGetObc_spec:
  "wp (createOrGetObc E d) (\<lambda>r w'. case r of
      Inl _ \<Rightarrow> obcs w' = obcs w
    | Inr c \<Rightarrow> om_Name (obc_meta c) = om_Name (dev_meta d) \<and> obcs w' (dev_key d) = Some c \<and>
        (obcs w' = obcs w \<or> obcs w (dev_key d) = None \<and> obcs w' = (obcs w)(dev_key d \<mapsto> c))) w"
proof (simp add: createOrGetObc_def GetClaim_def, rule wp_intro, goal_cases)
  case (1 r w1)
  have w1: "obcs w1 = obcs w" by (rule keeps_run [OF obc_get_keeps 1])
  show ?case
  proof (cases r)
    case (Inr c)
    with 1 obc_get_found w1 show ?thesis by (auto simp: dev_key_def)
  next
    case (Inl e)
    show ?thesis
    proof (cases "IsNotFound e")
      case True
      then show ?thesis
        unfolding Inl CreateClaim_def
        by simp (rule wp_intro, drule obc_create, auto simp: dev_key_def new_meta_def w1 split: sum.splits)
    qed (use Inl w1 in simp)
  qed
qed

end

text \<open>The devices with their claims: a status patch writes the reference to the claim when it names one.\<close>

locale device_claims = device_api E devs + claim_api E obcs
  for E :: "'w env" and devs :: "'w \<Rightarrow> string \<times> string \<Rightarrow> EdgeDevice option"
    and obcs :: "'w \<Rightarrow> string \<times> string \<Rightarrow> ObjectBucketClaim option" +
  assumes status_DataOBC: "run_state (k_dev_status_patch E new old) w = (Inr d, w') \<Longrightarrow>
    \<exists>cur s. devs w (dev_key new) = Some cur \<and> devs w' = (devs w)(dev_key new \<mapsto> s) \<and>
      es_DataOBC (dev_Status s) = merge_field (es_DataOBC (dev_Status old)) (es_DataOBC (dev_Status new)) (es_DataOBC (dev_Status cur))"

definition wants_claim :: "bool \<Rightarrow> EdgeDevice \<Rightarrow> bool" where
  "wants_claim auto d \<longleftrightarrow> (auto \<or> ShouldCreateOBC (Some d)) \<and> (es_DataOBC (dev_Status d) = None \<or> es_DataOBC (dev_Status d) = Some [])"

text \<open>What a reconciliation of the device under \<open>k\<close> makes of the devices \<open>D\<close> and the claims \<open>C\<close>.\<close>

definition claims_reconciled ::
  "bool \<Rightarrow> string \<times> string \<Rightarrow> (string \<times> string \<Rightarrow> EdgeDevice option) \<Rightarrow> (string \<times> string \<Rightarrow> ObjectBucketClaim option) \<Rightarrow>
   goerr option \<Rightarrow> (string \<times> string \<Rightarrow> EdgeDevice option) \<Rightarrow> (string \<times> string \<Rightarrow> ObjectBucketClaim option) \<Rightarrow> bool" where
  "claims_reconciled auto k D C err D' C' \<longleftrightarrow>
     (C' = C \<or> (\<exists>d c. D k = Some d \<and> wants_claim auto d \<and> C k = None \<and> om_Name (obc_meta c) = snd k \<and> C' = C(k \<mapsto> c))) \<and>
     (err = None \<longrightarrow> (case D k of
        None \<Rightarrow> D' = D \<and> C' = C
      | Some d \<Rightarrow>
          if wants_claim auto d
          then (\<exists>s. D' = D(k \<mapsto> s) \<and> es_DataOBC (dev_Status s) = Some (snd k)) \<and> C' k \<noteq> None
          else D' = D \<and> C' = C))"

context device_claims
begin

lemma createOrGetObc_quiet: "keeps devs (createOrGetObc E d)"
  unfolding createOrGetObc_def GetClaim_def CreateClaim_def by (intro keeps_bind keeps_sum keeps_if keeps_ret quiet)

lemma addObcReference_spec:
  assumes "devs w (dev_key d) = Some d" and "es_DataOBC (dev_Status d) = None \<or> es_DataOBC (dev_Status d) = Some []"
  shows "wp (addObcReference E d n) (\<lambda>err w'. obcs w' = obcs w \<and>
    (err = None \<longrightarrow> (\<exists>s. devs w' = (devs w)(dev_key d \<mapsto> s) \<and> es_DataOBC (dev_Status s) = Some n))) w"
proof (rule wp_intro, intro conjI impI)
  fix err w' assume run: "run_state (addObcReference E d n) w = (err, w')"
  have "keeps obcs (addObcReference E d n)"
    unfolding addObcReference_def dev_PatchStatus_def by (intro keeps_bind keeps_ret obc_dev_status_keeps)
  then show "obcs w' = obcs w" using run by (rule keeps_run)
  assume "err = None"
  with run obtain x where "run_state (k_dev_status_patch E (set_DataOBC (Some n) d) d) w = (Inr x, w')"
    by (auto simp: addObcReference_def dev_PatchStatus_def err_of_def split: prod.splits sum.splits)
  from status_DataOBC [OF this] assms show "\<exists>s. devs w' = (devs w)(dev_key d \<mapsto> s) \<and> es_DataOBC (dev_Status s) = Some n"
    by (auto simp: set_DataOBC_def dev_key_def merge_field_def split: if_splits)
qed

lemma dev_Reconcile_spec:
  "wp (dev_Reconcile E auto n ns) (\<lambda>(requeue, after, err) w'. (requeue \<longleftrightarrow> err \<noteq> None) \<and>
     claims_reconciled auto (ns, n) (devs w) (obcs w) err (devs w') (obcs w')) w"
  unfolding dev_Reconcile_def wp_bind
proof (rule wp_intro, goal_cases)
  case (1 r w1)
  have w1: "obcs w1 = obcs w" "devs w1 = devs w"
    using keeps_run [OF obc_dev_get_keeps] keeps_run [OF get_keeps] 1 by (simp_all add: dev_Read_def)
  show ?case
  proof (cases r)
    case (Inl e)
    then have "IsNotFound e \<Longrightarrow> devs w (ns, n) = None" using get_not_found 1 by (auto simp: dev_Read_def)
    with Inl w1 show ?thesis by (auto simp: claims_reconciled_def)
  next
    case (Inr d)
    then have d: "devs w (ns, n) = Some d" "dev_key d = (ns, n)" using get_found 1 by (auto simp: dev_Read_def)
    show ?thesis
    proof (cases "wants_claim auto d")
      case False
      with Inr w1 d show ?thesis by (auto simp: claims_reconciled_def wants_claim_def)
    next
      case True
      from True have c1: "\<not> (\<not> auto \<and> \<not> ShouldCreateOBC (Some d))"
        and c2: "es_DataOBC (dev_Status d) = None \<or> es_DataOBC (dev_Status d) = Some []" by (auto simp: wants_claim_def)
      have name: "om_Name (dev_meta d) = n" using d(2) by (simp add: dev_key_def)
      show ?thesis
        unfolding Inr sum.case if_not_P [OF c1] if_P [OF c2] wp_bind
      proof (rule wp_intro, goal_cases)
        case (1 c w2)
        note claim = wp_elim [OF createOrGetObc_spec 1]
        have w2: "devs w2 = devs w" using keeps_run [OF createOrGetObc_quiet 1] w1 by simp
        show ?case
        proof (cases c)
          case (Inl e)
          with claim w1 show ?thesis by (simp add: claims_reconciled_def)
        next
          case (Inr obc)
          have "devs w2 (dev_key d) = Some d" using w2 d by simp
          from addObcReference_spec [OF this c2, of "om_Name (obc_meta obc)"] show ?thesis
            unfolding Inr sum.case wp_bind
            by (rule wp_conseq) (use claim Inr w1 w2 d True name in \<open>auto simp: claims_reconciled_def split: option.split\<close>)
        qed
      qed
    qed
  qed
qed

end

definition mem_obcs :: "mem \<Rightarrow> string \<times> string \<Rightarrow> ObjectBucketClaim option" where
  "mem_obcs w k = mem_find obc_meta k (m_obcs w)"

lemma api_call_keeps_obcs:
  "(\<And>w. m_obcs (snd (f w)) = m_obcs w) \<Longrightarrow> keeps mem_obcs (api_call f)"
  by (auto simp: keeps_def mem_obcs_def [abs_def] api_call_def split: list.split option.split)

interpretation memobc: claim_api mem_env mem_obcs
proof (unfold_locales, goal_cases)
  case (1 ns n)
  show ?case by (simp add: mem_env_def mem_get_def api_call_keeps_obcs)
next
  case (2 ns n w c w')
  then show ?case
    by (auto simp: mem_env_def mem_get_def api_call_def mem_obcs_def mem_find_def find_Some_iff meta_key_def
        split: list.splits option.splits)
next
  case (3 c w r w')
  then show ?case
    by (auto simp: mem_env_def mem_create_def api_call_def mem_obcs_def mem_find_def find_snoc meta_key_def fun_eq_iff
        split: list.splits option.splits)
next
  case (4 ns n)
  show ?case by (simp add: mem_env_def mem_get_def api_call_keeps_obcs)
next
  case (5 new old)
  show ?case by (auto simp: mem_env_def mem_dev_patch_def Let_def split: option.split intro!: api_call_keeps_obcs)
qed

interpretation memclaims: device_claims mem_env mem_devs mem_obcs
proof
  fix new old w d w' assume "run_state (k_dev_status_patch mem_env new old) w = (Inr d, w')"
  then have "run_state (mem_dev_patch mem_status_patched Some new old) w = (Inr d, w')" by (simp add: mem_env_def)
  from mem_status_patch_run [OF this] obtain cur where "mem_devs w (dev_key new) = Some cur" "d = mem_status_patched old new cur"
    "mem_devs w' = (mem_devs w)(dev_key new \<mapsto> d)" by auto
  then show "\<exists>cur s. mem_devs w (dev_key new) = Some cur \<and> mem_devs w' = (mem_devs w)(dev_key new \<mapsto> s) \<and>
      es_DataOBC (dev_Status s) = merge_field (es_DataOBC (dev_Status old)) (es_DataOBC (dev_Status new)) (es_DataOBC (dev_Status cur))"
    by (intro exI [of _ cur] exI [of _ d]) (simp add: mem_status_patched_def)
qed

section \<open>Properties\<close>

text \<open>C39: the device reconciler changes at most one bucket claim: it creates the claim of the device, and only
  when the device refers to none, no claim of that name exists and either the device asks for one or the operator
  creates claims for all devices. When it reports no error, a device that was due a claim has one of its own
  name and refers to it in its status; any other device, and every other claim, is as before. It asks to be called again
  exactly when it returns an error.\<close>

theorem dev_Reconcile_claims:
  assumes "device_claims E devs obcs"
  shows "wp (dev_Reconcile E auto n ns) (\<lambda>(requeue, after, err) w'. (requeue \<longleftrightarrow> err \<noteq> None) \<and>
     claims_reconciled auto (ns, n) (devs w) (obcs w) err (devs w') (obcs w')) w"
  by (rule device_claims.dev_Reconcile_spec [OF assms])

theorem dev_Reconcile_claims_witness:
  "\<exists>w' s c. run_state (dev_Reconcile mem_env True ''dev'' ''default'') (sample_mem\<lparr>m_faults := []\<rparr>) = ((False, 0, None), w') \<and>
     mem_obcs w' (''default'', ''dev'') = Some c \<and> mem_devs w' (''default'', ''dev'') = Some s \<and>
     es_DataOBC (dev_Status s) = Some ''dev''"
proof -
  let ?w = "sample_mem\<lparr>m_faults := []\<rparr>"
  obtain x w' where run: "run_state (dev_Reconcile mem_env True ''dev'' ''default'') ?w = (x, w')" by (metis surj_pair)
  have "fst (run_state (dev_Reconcile mem_env True ''dev'' ''default'') ?w) = (False, 0, None)" by code_simp
  with run have x: "x = (False, 0, None)" by simp
  have "mem_devs ?w (''default'', ''dev'') = Some sample_device" "wants_claim True sample_device" by code_simp+
  with wp_elim [OF dev_Reconcile_claims [OF memclaims.device_claims_axioms] run] x run show ?thesis
    by (auto simp: claims_reconciled_def)
qed

end
