(* ===== verification/Hardware.thy ===== *)
theory Hardware
  imports Utils
begin

text \<open>
  \<open>internal/hardware\<close>: the translation of the hardware a device reports (\<open>models.HardwareInfo\<close>)
  into the status of its \<open>EdgeDevice\<close>, and the labels derived from it. The loop over the disks
  reads the fields of every disk, so a nil disk panics.
\<close>

definition map_Disk :: "mDisk \<Rightarrow> Disk" where
  "map_Disk d =
     \<lparr>dk_Bootable = mdk_Bootable d,
      dk_ByID = mdk_ByID d,
      dk_ByPath = mdk_ByPath d,
      dk_DriveType = mdk_DriveType d,
      dk_Hctl = mdk_Hctl d,
      dk_ID = mdk_ID d,
      dk_IoPerf = map_option (\<lambda>p. \<lparr>io_SyncDuration = mio_SyncDuration p\<rparr>) (mdk_IoPerf d),
      dk_IsInstallationMedia = mdk_IsInstallationMedia d,
      dk_Model = mdk_Model d,
      dk_Name = mdk_Name d,
      dk_Path = mdk_Path d,
      dk_Serial = mdk_Serial d,
      dk_SizeBytes = mdk_SizeBytes d,
      dk_Smart = mdk_Smart d,
      dk_Vendor = mdk_Vendor d,
      dk_Wwn = mdk_Wwn d\<rparr>"

fun map_Disks :: "mDisk option list \<Rightarrow> Disk list outcome" where
  "map_Disks [] = Done []"
| "map_Disks (None # ds) = nil_dereference"
| "map_Disks (Some d # ds) =
     (case map_Disks ds of Panic p \<Rightarrow> Panic p | Done xs \<Rightarrow> Done (map_Disk d # xs))"

text \<open>The conversions \<open>(*v1alpha1.Gpu)(g)\<close> and \<open>(*v1alpha1.Interface)(i)\<close>.\<close>

definition map_Gpu :: "mGpu \<Rightarrow> Gpu" where
  "map_Gpu g = \<lparr>gpu_Address = mgpu_Address g, gpu_DeviceID = mgpu_DeviceID g, gpu_Name = mgpu_Name g,
     gpu_Vendor = mgpu_Vendor g, gpu_VendorID = mgpu_VendorID g\<rparr>"

definition map_Interface :: "mInterface \<Rightarrow> Interface" where
  "map_Interface i = \<lparr>if_Biosdevname = mif_Biosdevname i, if_ClientID = mif_ClientID i,
     if_Flags = opt_list (mif_Flags i), if_HasCarrier = mif_HasCarrier i, if_IPV4Addresses = opt_list (mif_IPV4Addresses i),
     if_IPV6Addresses = opt_list (mif_IPV6Addresses i), if_MacAddress = mif_MacAddress i, if_Mtu = mif_Mtu i,
     if_Name = mif_Name i, if_Product = mif_Product i, if_SpeedMbps = mif_SpeedMbps i,
     if_Vendor = mif_Vendor i\<rparr>"

text \<open>\<open>fmt_2f\<close> is \<open>fmt.Sprintf("%.2f", _)\<close>.\<close>

definition MapHardware :: "(float64 \<Rightarrow> string) \<Rightarrow> HardwareInfo option \<Rightarrow> Hardware option outcome" where
  "MapHardware fmt_2f hardware =
     (case hardware of
        None \<Rightarrow> Done None
      | Some h \<Rightarrow>
          (case map_Disks (opt_list (hi_Disks h)) of
             Panic p \<Rightarrow> Panic p
           | Done disks \<Rightarrow> Done (Some
               \<lparr>hw_Boot = map_option (\<lambda>b. \<lparr>bt_CurrentBootMode = mbt_CurrentBootMode b,
                                        bt_PxeInterface = mbt_PxeInterface b\<rparr>) (hi_Boot h),
                hw_CPU = map_option (\<lambda>c. \<lparr>cpu_Architecture = mcpu_Architecture c,
                                        cpu_Count = mcpu_Count c,
                                        cpu_Flags = opt_list (mcpu_Flags c),
                                        cpu_Frequency = fmt_2f (mcpu_Frequency c),
                                        cpu_ModelName = mcpu_ModelName c\<rparr>) (hi_CPU h),
                hw_Disks = disks,
                hw_Gpus = map (map_option map_Gpu) (opt_list (hi_Gpus h)),
                hw_Hostname = hi_Hostname h,
                hw_Interfaces = map (map_option map_Interface) (opt_list (hi_Interfaces h)),
                hw_Memory = map_option (\<lambda>m. \<lparr>mem_PhysicalBytes = mmem_PhysicalBytes m,
                                           mem_UsableBytes = mmem_UsableBytes m\<rparr>) (hi_Memory h),
                hw_SystemVendor = map_option (\<lambda>v. \<lparr>sv_Manufacturer = msv_Manufacturer v,
                                                 sv_ProductName = msv_ProductName v,
                                                 sv_SerialNumber = msv_SerialNumber v,
                                                 sv_Virtual = msv_Virtual v\<rparr>) (hi_SystemVendor h)\<rparr>)))"

text \<open>\<open>x, err := utils.NormalizeLabel(value); if err == nil { labels[key] = x }\<close>\<close>

definition put_label :: "unicode \<Rightarrow> string \<Rightarrow> string \<Rightarrow> string gomap \<Rightarrow> string gomap" where
  "put_label U key value labels =
     (case NormalizeLabel U value of Inl _ \<Rightarrow> labels | Inr x \<Rightarrow> gm_set key x labels)"

definition MapLabels :: "unicode \<Rightarrow> HardwareInfo option \<Rightarrow> string gomap option" where
  "MapLabels U hardware =
     (case hardware of
        None \<Rightarrow> None
      | Some h \<Rightarrow>
          let l1 = put_label U ''device.hostname'' (hi_Hostname h) [];
              l2 = (case hi_CPU h of None \<Rightarrow> l1
                    | Some cpu \<Rightarrow>
                        put_label U ''device.cpu-model'' (mcpu_ModelName cpu)
                          (put_label U ''device.cpu-architecture'' (mcpu_Architecture cpu) l1));
              l3 = (case hi_SystemVendor h of None \<Rightarrow> l2
                    | Some v \<Rightarrow>
                        put_label U ''device.system-serial'' (msv_SerialNumber v)
                          (put_label U ''device.system-product'' (msv_ProductName v)
                            (put_label U ''device.system-manufacturer'' (msv_Manufacturer v) l2)))
          in Some l3)"

section \<open>Facts\<close>

lemma map_Disks_Done: "map_Disks ds = Done xs \<Longrightarrow> None \<notin> set ds \<and> xs = map map_Disk (map the ds)"
  by (induction ds arbitrary: xs rule: map_Disks.induct) (auto split: outcome.splits)

lemma map_Disks_total: "None \<notin> set ds \<Longrightarrow> map_Disks ds = Done (map map_Disk (map the ds))"
  by (induction ds rule: map_Disks.induct) auto

lemma map_Disks_Panic: "(\<exists>p. map_Disks ds = Panic p) \<longleftrightarrow> None \<in> set ds"
  by (metis map_Disks_Done map_Disks_total outcome.exhaust outcome.distinct(1))

lemma inj_map_Disk: "inj map_Disk"
proof (rule injI)
  fix a b :: mDisk assume eq: "map_Disk a = map_Disk b"
  have "mdk_IoPerf a = mdk_IoPerf b"
  proof -
    have "map_option (\<lambda>p. \<lparr>io_SyncDuration = mio_SyncDuration p\<rparr>) (mdk_IoPerf a) =
          map_option (\<lambda>p. \<lparr>io_SyncDuration = mio_SyncDuration p\<rparr>) (mdk_IoPerf b)"
      using eq by (simp add: map_Disk_def)
    then show ?thesis by (cases "mdk_IoPerf a"; cases "mdk_IoPerf b") (auto intro: mIoPerf.equality)
  qed
  with eq show "a = b" by (simp add: map_Disk_def mDisk.equality)
qed

lemma inj_map_Gpu: "inj map_Gpu"
  by (rule injI) (simp add: map_Gpu_def mGpu.equality)

lemma map_the_inj: "None \<notin> set xs \<Longrightarrow> None \<notin> set ys \<Longrightarrow> map the xs = map the ys \<Longrightarrow> xs = ys"
proof (induction xs arbitrary: ys)
  case (Cons x xs)
  then show ?case by (cases ys) (auto intro: option.expand)
qed simp

lemma gm_wf_put_label: "gm_wf m \<Longrightarrow> gm_wf (put_label U k v m)"
  by (auto simp: put_label_def split: sum.splits intro: gomap)

lemma MapLabels_wf: "gm_wf (case MapLabels U hw of None \<Rightarrow> [] | Some m \<Rightarrow> m)"
  by (auto simp: MapLabels_def Let_def gm_wf_put_label split: option.splits)

definition hardware_label_keys :: "string list" where
  "hardware_label_keys = [''device.hostname'', ''device.cpu-architecture'', ''device.cpu-model'',
     ''device.system-manufacturer'', ''device.system-product'', ''device.system-serial'']"

lemma gm_get_put_label:
  "gm_get (put_label U key value m) k = Some v \<Longrightarrow>
     (k = key \<and> NormalizeLabel U value = Inr v) \<or> gm_get m k = Some v"
  by (auto simp: put_label_def split: sum.splits if_splits)

lemma MapLabels_entry:
  assumes "gm_lookup (MapLabels U hw) k = Some v"
  shows "k \<in> set hardware_label_keys \<and> (\<exists>value. NormalizeLabel U value = Inr v)"
proof -
  obtain h where h: "hw = Some h" using assms by (cases hw) (simp_all add: MapLabels_def)
  show ?thesis
    using assms
    by (auto simp: h MapLabels_def Let_def hardware_label_keys_def split: option.splits dest!: gm_get_put_label)
qed

section \<open>Properties\<close>

definition set_slice :: "'a list option \<Rightarrow> 'a list option" where
  "set_slice xs = Some (opt_list xs)"

lemma set_slice_eq [simp]: "set_slice xs = set_slice ys \<longleftrightarrow> opt_list xs = opt_list ys"
  by (simp add: set_slice_def)

definition cpu_view :: "(float64 \<Rightarrow> string) \<Rightarrow> mCPU \<Rightarrow> mCPU \<times> string" where
  "cpu_view fmt_2f c = (c\<lparr>mcpu_Frequency := 0, mcpu_Flags := set_slice (mcpu_Flags c)\<rparr>, fmt_2f (mcpu_Frequency c))"

definition interface_view :: "mInterface \<Rightarrow> mInterface" where
  "interface_view i = i\<lparr>mif_Flags := set_slice (mif_Flags i), mif_IPV4Addresses := set_slice (mif_IPV4Addresses i),
     mif_IPV6Addresses := set_slice (mif_IPV6Addresses i)\<rparr>"

definition hardware_view :: "HardwareInfo \<Rightarrow> HardwareInfo" where
  "hardware_view h = h\<lparr>hi_CPU := None, hi_Disks := set_slice (hi_Disks h), hi_Gpus := set_slice (hi_Gpus h),
     hi_Interfaces := Some (map (map_option interface_view) (opt_list (hi_Interfaces h)))\<rparr>"

lemma map_Interface_view: "map_Interface i = map_Interface i' \<longleftrightarrow> interface_view i = interface_view i'"
  by (cases i; cases i') (auto simp: map_Interface_def interface_view_def)

lemma map_Interfaces_view:
  "map (map_option map_Interface) is = map (map_option map_Interface) js \<Longrightarrow>
     map (map_option interface_view) is = map (map_option interface_view) js"
proof (induction "is" arbitrary: js)
  case (Cons i "is")
  then obtain j js' where js: "js = j # js'" "map_option map_Interface i = map_option map_Interface j"
    "map (map_option map_Interface) is = map (map_option map_Interface) js'" by auto
  from js(2) have "map_option interface_view i = map_option interface_view j"
    by (cases i; cases j) (simp_all add: map_Interface_view)
  with Cons.IH [OF js(3)] js(1) show ?case by simp
qed simp

text \<open>The hardware report is translated without a panic exactly when it has no null disk, and
  nothing of it is lost but digits of the frequency and whether an empty list was nil: reports with the same
  translation are equal up to the frequencies of their CPUs, which then print alike, and up to nil lists.\<close>

theorem MapHardware_faithful:
  "((\<exists>p. MapHardware fmt_2f (Some h) = Panic p) \<longleftrightarrow> None \<in> set (opt_list (hi_Disks h))) \<and>
   (\<forall>h' hw. MapHardware fmt_2f (Some h) = Done hw \<and> MapHardware fmt_2f (Some h') = Done hw \<longrightarrow>
      hardware_view h = hardware_view h' \<and>
      map_option (cpu_view fmt_2f) (hi_CPU h) = map_option (cpu_view fmt_2f) (hi_CPU h'))"
proof (intro conjI allI impI)
  show "(\<exists>p. MapHardware fmt_2f (Some h) = Panic p) \<longleftrightarrow> None \<in> set (opt_list (hi_Disks h))"
    using map_Disks_Panic [of "opt_list (hi_Disks h)"] by (auto simp: MapHardware_def split: outcome.splits)
next
  fix h' hw assume eq: "MapHardware fmt_2f (Some h) = Done hw \<and> MapHardware fmt_2f (Some h') = Done hw"
  then obtain ds ds' where ds: "map_Disks (opt_list (hi_Disks h)) = Done ds" "map_Disks (opt_list (hi_Disks h')) = Done ds'"
    by (auto simp: MapHardware_def split: outcome.splits)
  have "ds = ds'" using eq ds by (auto simp: MapHardware_def)
  then have "map map_Disk (map the (opt_list (hi_Disks h))) = map map_Disk (map the (opt_list (hi_Disks h')))"
    using map_Disks_Done [OF ds(1)] map_Disks_Done [OF ds(2)] by metis
  then have "map the (opt_list (hi_Disks h)) = map the (opt_list (hi_Disks h'))"
    by (simp only: inj_map_eq_map [OF inj_map_Disk])
  then have "opt_list (hi_Disks h) = opt_list (hi_Disks h')"
    using map_the_inj map_Disks_Done [OF ds(1)] map_Disks_Done [OF ds(2)] by blast
  moreover have "opt_list (hi_Gpus h) = opt_list (hi_Gpus h')"
    using eq ds inj_map_eq_map [OF option.inj_map [OF inj_map_Gpu]] by (auto simp: MapHardware_def)
  moreover have "map (map_option interface_view) (opt_list (hi_Interfaces h)) = map (map_option interface_view) (opt_list (hi_Interfaces h'))"
    by (rule map_Interfaces_view) (use eq ds in \<open>auto simp: MapHardware_def\<close>)
  moreover have "hi_Boot h = hi_Boot h'"
    using eq ds by (cases "hi_Boot h"; cases "hi_Boot h'") (auto simp: MapHardware_def intro: mBoot.equality)
  moreover have "hi_Memory h = hi_Memory h'"
    using eq ds by (cases "hi_Memory h"; cases "hi_Memory h'") (auto simp: MapHardware_def intro: mMemory.equality)
  moreover have "hi_SystemVendor h = hi_SystemVendor h'"
    using eq ds
    by (cases "hi_SystemVendor h"; cases "hi_SystemVendor h'") (auto simp: MapHardware_def intro: mSystemVendor.equality)
  moreover have "hi_Hostname h = hi_Hostname h'" using eq ds by (auto simp: MapHardware_def)
  ultimately show "hardware_view h = hardware_view h'" by (simp add: hardware_view_def HardwareInfo.equality)
  show "map_option (cpu_view fmt_2f) (hi_CPU h) = map_option (cpu_view fmt_2f) (hi_CPU h')"
    using eq ds by (cases "hi_CPU h"; cases "hi_CPU h'") (auto simp: MapHardware_def cpu_view_def intro: mCPU.equality)
qed

definition sample_hardware :: HardwareInfo where
  "sample_hardware = \<lparr>hi_Boot = None, hi_CPU = None, hi_Disks = None, hi_Gpus = Some [None], hi_Hostname = ''Edge 1'',
     hi_Interfaces = None, hi_Memory = None, hi_SystemVendor = None\<rparr>"

definition sample_hw :: "Hardware" where
  "sample_hw = \<lparr>hw_Boot = None, hw_CPU = None, hw_Disks = [], hw_Gpus = [None], hw_Hostname = ''Edge 1'',
     hw_Interfaces = [], hw_Memory = None, hw_SystemVendor = None\<rparr>"

theorem MapHardware_faithful_witness:
  "MapHardware (\<lambda>_. ''0.00'') (Some sample_hardware) = Done (Some sample_hw) \<and>
   MapHardware (\<lambda>_. ''0.00'') (Some (sample_hardware\<lparr>hi_Hostname := ''Edge 2''\<rparr>)) \<noteq> Done (Some sample_hw)"
proof -
  have "MapHardware (\<lambda>_. ''0.00'') (Some sample_hardware) = Done (Some sample_hw)"
    by (simp add: MapHardware_def sample_hardware_def sample_hw_def opt_list_def)
  moreover have "hardware_view sample_hardware \<noteq> hardware_view (sample_hardware\<lparr>hi_Hostname := ''Edge 2''\<rparr>)"
    by (simp add: sample_hardware_def hardware_view_def)
  ultimately show ?thesis using MapHardware_faithful [of "\<lambda>_. ''0.00''" sample_hardware] by blast
qed

end
