(* ===== verification/Heartbeat_Handler.thy ===== *)
theory Heartbeat_Handler
  imports Repositories Hardware
begin

text \<open>
  \<open>internal/heartbeat\<close>: the synchronous handler that turns a heartbeat into an update of the
  status and the labels of its device, retrying up to four times, and into Kubernetes events.
\<close>

record Notification =
  nt_DeviceID :: string
  nt_Namespace :: string
  nt_Heartbeat :: Heartbeat
  nt_Retry :: int32

section \<open>updater.go\<close>

definition deployment_map :: "Deployment list \<Rightarrow> Deployment gomap" where
  "deployment_map oldDeployments = foldl (\<lambda>m d. gm_set (dpl_Name d) d m) [] oldDeployments"

fun update_from_workloads ::
  "'w env \<Rightarrow> Deployment gomap \<Rightarrow> WorkloadStatus option list \<Rightarrow> ('w, Deployment gomap outcome) io" where
  "update_from_workloads E deploymentMap [] = ret (Done deploymentMap)"
| "update_from_workloads E deploymentMap (None # workloads) = ret nil_dereference"
| "update_from_workloads E deploymentMap (Some status # workloads) =
     (case gm_get deploymentMap (ws_Name status) of
        None \<Rightarrow> update_from_workloads E deploymentMap workloads
      | Some deployment \<Rightarrow> do {
          deployment' \<leftarrow>
            (if dpl_Phase deployment \<noteq> ws_Status status then do {
               now \<leftarrow> k_now E;
               ret (deployment\<lparr>dpl_Phase := ws_Status status, dpl_LastTransitionTime := now\<rparr>)
             } else ret deployment);
          update_from_workloads E
            (gm_set (ws_Name status) (deployment'\<lparr>dpl_LastDataUpload := ws_LastDataUpload status\<rparr>) deploymentMap)
            workloads
        })"

definition updateDeploymentStatuses ::
  "'w env \<Rightarrow> Deployment list \<Rightarrow> WorkloadStatus option list \<Rightarrow> ('w, Deployment list outcome) io" where
  "updateDeploymentStatuses E oldDeployments workloads = do {
     r \<leftarrow> update_from_workloads E (deployment_map oldDeployments) workloads;
     case r of
       Panic p \<Rightarrow> ret (Panic p)
     | Done deploymentMap \<Rightarrow> do {
         entries \<leftarrow> range_map E deploymentMap;
         ret (Done (map snd entries))
       }
   }"

definition map_UpgradeStatus :: "UpgradeStatus \<Rightarrow> UpgradeInformation" where
  "map_UpgradeStatus u = \<lparr>ui_CurrentCommitID = us_CurrentCommitID u,
     ui_LastUpgradeStatus = us_LastUpgradeStatus u, ui_LastUpgradeTime = us_LastUpgradeTime u\<rparr>"

definition updateStatus ::
  "'w env \<Rightarrow> EdgeDevice \<Rightarrow> Heartbeat \<Rightarrow> ('w, (goerr option \<times> EdgeDevice) outcome) io" where
  "updateStatus E edgeDevice heartbeat = do {
     now \<leftarrow> k_now E;
     let status1 = (dev_Status edgeDevice)
           \<lparr>es_LastSyncedResourceVersion := hb_Version heartbeat,
            es_LastSeenTime := now,
            es_Phase := hb_Status heartbeat\<rparr>;
     case (if hb_Hardware heartbeat \<noteq> None then MapHardware (k_fmt_2f E) (hb_Hardware heartbeat)
           else Done (es_Hardware status1)) of
       Panic p \<Rightarrow> ret (Panic p)
     | Done hw \<Rightarrow> do {
         r \<leftarrow> updateDeploymentStatuses E (es_Deployments status1) (opt_list (hb_Workloads heartbeat));
         case r of
           Panic p \<Rightarrow> ret (Panic p)
         | Done deployments \<Rightarrow> do {
             let status2 = status1
                   \<lparr>es_Hardware := hw,
                    es_Deployments := deployments,
                    es_UpgradeInformation := map_option map_UpgradeStatus (hb_Upgrade heartbeat)\<rparr>;
             let edgeDevice' = set_status status2 edgeDevice;
             res \<leftarrow> dev_PatchStatus E edgeDevice' edgeDevice;
             ret (Done (case res of Inl err \<Rightarrow> (Some err, edgeDevice') | Inr d \<Rightarrow> (None, d)))
           }
       }
   }"

definition updateLabels ::
  "'w env \<Rightarrow> EdgeDevice \<Rightarrow> Heartbeat \<Rightarrow> ('w, goerr option \<times> EdgeDevice) io" where
  "updateLabels E edgeDevice heartbeat =
     dev_UpdateLabels E edgeDevice (MapLabels (k_unicode E) (hb_Hardware heartbeat))"

definition EventTypeNormal :: string where "EventTypeNormal = ''Normal''"
definition EventTypeWarning :: string where "EventTypeWarning = ''Warning''"

fun processEvents :: "'w env \<Rightarrow> EdgeDevice \<Rightarrow> EventInfo option list \<Rightarrow> ('w, unit) io" where
  "processEvents E edgeDevice [] = ret ()"
| "processEvents E edgeDevice (None # events) = processEvents E edgeDevice events"
| "processEvents E edgeDevice (Some event # events) = do {
     _ \<leftarrow> (if evi_Type event = EventInfoTypeWarn
          then k_event E edgeDevice EventTypeWarning (evi_Reason event) (evi_Message event)
          else k_event E edgeDevice EventTypeNormal (evi_Reason event) (evi_Message event));
     processEvents E edgeDevice events
   }"

section \<open>synchronous-handler.go\<close>

text \<open>One attempt: the error, and whether to retry.\<close>

definition process :: "'w env \<Rightarrow> Notification \<Rightarrow> ('w, (goerr option \<times> bool) outcome) io" where
  "process E notification = do {
     let heartbeat = nt_Heartbeat notification;
     r \<leftarrow> dev_Read E (nt_DeviceID notification) (nt_Namespace notification);
     case r of
       Inl err \<Rightarrow> ret (Done (if IsNotFound err then (Some err, False) else (Some err, True)))
     | Inr edgeDevice \<Rightarrow> do {
         _ \<leftarrow> (if nt_Retry notification = 0 then processEvents E edgeDevice (opt_list (hb_Events heartbeat)) else ret ());
         s \<leftarrow> updateStatus E edgeDevice heartbeat;
         case s of
           Panic p \<Rightarrow> ret (Panic p)
         | Done (Some err, _) \<Rightarrow> ret (Done (Some err, True))
         | Done (None, edgeDevice') \<Rightarrow> do {
             (lerr, _) \<leftarrow> updateLabels E edgeDevice' heartbeat;
             case lerr of
               Some err \<Rightarrow> ret (Done (Some err, True))
             | None \<Rightarrow> ret (Done (None, False))
           }
       }
   }"

fun Process_loop :: "'w env \<Rightarrow> Notification \<Rightarrow> goerr option \<Rightarrow> int list \<Rightarrow> ('w, goerr option outcome) io" where
  "Process_loop E notification err [] = ret (Done err)"
| "Process_loop E notification err (i # is) = do {
     r \<leftarrow> process E notification;
     case r of
       Panic p \<Rightarrow> ret (Panic p)
     | Done (None, _) \<Rightarrow> ret (Done None)
     | Done (Some e, retry) \<Rightarrow>
         if \<not> retry then ret (Done (Some e))
         else do {
           _ \<leftarrow> k_sleep E (i * 50);
           Process_loop E (notification\<lparr>nt_Retry := nt_Retry notification + 1\<rparr>) (Some e) is
         }
   }"

definition Process :: "'w env \<Rightarrow> Notification \<Rightarrow> ('w, goerr option outcome) io" where
  "Process E notification = Process_loop E notification None [1, 2, 3, 4]"

section \<open>The deployments after a heartbeat\<close>

text \<open>The last report about a workload, and what it makes of a deployment.\<close>

fun last_report :: "WorkloadStatus option list \<Rightarrow> string \<Rightarrow> WorkloadStatus option" where
  "last_report [] n = None"
| "last_report (None # ws) n = last_report ws n"
| "last_report (Some s # ws) n =
     (case last_report ws n of Some t \<Rightarrow> Some t | None \<Rightarrow> if ws_Name s = n then Some s else None)"

definition reported :: "WorkloadStatus option list \<Rightarrow> Deployment \<Rightarrow> Deployment \<Rightarrow> bool" where
  "reported ws old new \<longleftrightarrow>
     dpl_Name new = dpl_Name old \<and>
     (case last_report ws (dpl_Name old) of
        None \<Rightarrow> new = old
      | Some s \<Rightarrow> dpl_Phase new = ws_Status s \<and> dpl_LastDataUpload new = ws_LastDataUpload s)"

definition named_map :: "Deployment gomap \<Rightarrow> bool" where
  "named_map m \<longleftrightarrow> gm_wf m \<and> (\<forall>k d. gm_get m k = Some d \<longrightarrow> dpl_Name d = k)"

lemma named_map_set: "named_map m \<Longrightarrow> named_map (gm_set (dpl_Name d) d m)"
  by (auto simp: named_map_def intro: gomap)

lemma named_deployment_map: "named_map (deployment_map ds)"
proof -
  have "named_map m \<Longrightarrow> named_map (foldl (\<lambda>m d. gm_set (dpl_Name d) d m) m ds)" for m
    by (induction ds arbitrary: m) (simp_all add: named_map_set)
  moreover have "named_map []" by (simp add: named_map_def)
  ultimately show ?thesis by (simp add: deployment_map_def)
qed

lemma gm_get_deployment_map:
  "distinct (map dpl_Name ds) \<Longrightarrow> gm_get (deployment_map ds) n = find (\<lambda>d. dpl_Name d = n) ds"
proof -
  have "distinct (map dpl_Name ds) \<Longrightarrow>
      gm_get (foldl (\<lambda>m d. gm_set (dpl_Name d) d m) m ds) n =
        (case find (\<lambda>d. dpl_Name d = n) ds of Some d \<Rightarrow> Some d | None \<Rightarrow> gm_get m n)" for m
  proof (induction ds arbitrary: m)
    case (Cons d ds)
    then have IH: "gm_get (foldl (\<lambda>m d. gm_set (dpl_Name d) d m) (gm_set (dpl_Name d) d m) ds) n =
        (case find (\<lambda>d. dpl_Name d = n) ds of Some d \<Rightarrow> Some d
         | None \<Rightarrow> gm_get (gm_set (dpl_Name d) d m) n)" by simp
    show ?case
    proof (cases "dpl_Name d = n")
      case True
      have "find (\<lambda>d. dpl_Name d = n) ds = None"
        unfolding find_None_iff using Cons.prems True by (auto simp: rev_image_eqI)
      with IH True show ?thesis by simp
    next
      case False
      with IH show ?thesis by (simp split: option.split)
    qed
  qed simp
  moreover assume "distinct (map dpl_Name ds)"
  ultimately show ?thesis by (simp add: deployment_map_def split: option.splits)
qed

lemma reported_skip:
  "ws_Name s \<noteq> dpl_Name d \<Longrightarrow> reported (Some s # ws) d d' \<longleftrightarrow> reported ws d d'"
  by (auto simp: reported_def split: option.splits)

lemma update_from_workloads_spec:
  "named_map m \<Longrightarrow>
   wp (update_from_workloads E m ws) (\<lambda>r _. case r of
       Panic _ \<Rightarrow> None \<in> set ws
     | Done m' \<Rightarrow> None \<notin> set ws \<and> named_map m' \<and> (\<forall>n. case gm_get m n of
           None \<Rightarrow> gm_get m' n = None
         | Some d \<Rightarrow> \<exists>d'. gm_get m' n = Some d' \<and> reported ws d d')) w"
proof (induction E m ws arbitrary: w rule: update_from_workloads.induct)
  case (1 E m w)
  then show ?case by (auto simp: reported_def split: option.splits)
next
  case (2 E m ws w)
  then show ?case by (simp add: nil_dereference_def)
next
  case (3 E m s ws w)
  have other: "ws_Name s \<noteq> dpl_Name e" if "gm_get m n = Some e" "n \<noteq> ws_Name s" for n e
    using that "3.prems" by (auto simp: named_map_def)
  show ?case
  proof (cases "gm_get m (ws_Name s)")
    case None
    have skip: "ws_Name s \<noteq> dpl_Name e" if "gm_get m n = Some e" for n e
      using other [OF that] that None by (cases "n = ws_Name s") auto
    from "3.IH"(1) [OF None "3.prems", of w] show ?thesis
      unfolding update_from_workloads.simps None option.case
    proof (elim wp_conseq, goal_cases)
      case (1 r w')
      then show ?case
      proof (cases r)
        case (Done m')
        have "case gm_get m n of None \<Rightarrow> gm_get m' n = None
            | Some d \<Rightarrow> \<exists>d'. gm_get m' n = Some d' \<and> reported (Some s # ws) d d'" for n
          using 1 Done by (cases "gm_get m n") (auto simp: reported_skip [OF skip] dest: spec [of _ n])
        with 1 Done show ?thesis by simp
      qed simp
    qed
  next
    case (Some d)
    have name: "dpl_Name d = ws_Name s" using "3.prems" Some by (auto simp: named_map_def)
    let ?upd = "\<lambda>d'. gm_set (ws_Name s) (d'\<lparr>dpl_LastDataUpload := ws_LastDataUpload s\<rparr>) m"
    have step: "wp (update_from_workloads E (?upd d') ws) (\<lambda>r _. case r of
         Panic _ \<Rightarrow> None \<in> set (Some s # ws)
       | Done m' \<Rightarrow> None \<notin> set (Some s # ws) \<and> named_map m' \<and> (\<forall>n. case gm_get m n of
           None \<Rightarrow> gm_get m' n = None
         | Some d \<Rightarrow> \<exists>d'. gm_get m' n = Some d' \<and> reported (Some s # ws) d d')) w'"
      if d': "dpl_Name d' = ws_Name s" "dpl_Phase d' = ws_Status s" for d' w'
    proof -
      have "named_map (?upd d')"
        using named_map_set [OF "3.prems", of "d'\<lparr>dpl_LastDataUpload := ws_LastDataUpload s\<rparr>"] d' by simp
      from "3.IH"(2) [OF Some this, of w'] show ?thesis
      proof (elim wp_conseq, goal_cases)
        case (1 r w'')
        then show ?case
        proof (cases r)
          case (Done m')
          have "case gm_get m n of None \<Rightarrow> gm_get m' n = None
              | Some d \<Rightarrow> \<exists>d'. gm_get m' n = Some d' \<and> reported (Some s # ws) d d'" for n
          proof (cases "n = ws_Name s")
            case True
            from 1 [unfolded Done outcome.case] have "case gm_get (?upd d') n of None \<Rightarrow> gm_get m' n = None
              | Some d \<Rightarrow> \<exists>d'. gm_get m' n = Some d' \<and> reported ws d d'" by blast
            with True obtain x where "gm_get m' n = Some x"
              "reported ws (d'\<lparr>dpl_LastDataUpload := ws_LastDataUpload s\<rparr>) x" by auto
            then show ?thesis using Some True d' name by (auto simp: reported_def split: option.splits)
          next
            case False
            then have eq: "gm_get (?upd d') n = gm_get m n" by simp
            from 1 [unfolded Done outcome.case] have "case gm_get (?upd d') n of None \<Rightarrow> gm_get m' n = None
              | Some d \<Rightarrow> \<exists>d'. gm_get m' n = Some d' \<and> reported ws d d'" by blast
            then show ?thesis unfolding eq
              by (cases "gm_get m n") (auto simp: reported_skip [OF other [OF _ False]])
          qed
          with 1 Done show ?thesis by simp
        qed simp
      qed
    qed
    show ?thesis
    proof (cases "dpl_Phase d = ws_Status s")
      case True
      then show ?thesis using Some step [OF name] by simp
    next
      case False
      have "wp (k_now E) (\<lambda>now w'. wp (update_from_workloads E
            (?upd (d\<lparr>dpl_Phase := ws_Status s, dpl_LastTransitionTime := now\<rparr>)) ws) Q w') w"
        if "\<And>d' w'. dpl_Name d' = ws_Name s \<Longrightarrow> dpl_Phase d' = ws_Status s \<Longrightarrow>
               wp (update_from_workloads E (?upd d') ws) Q w'" for Q
        by (rule wp_intro, rule that) (simp_all add: name)
      from this [OF step] show ?thesis using Some False by simp
    qed
  qed
qed

text \<open>The whole function: the map's values in any order.\<close>

lemma updateDeploymentStatuses_spec:
  assumes fair: "fair_range E" and dist: "distinct (map dpl_Name old)"
  shows "wp (updateDeploymentStatuses E old ws) (\<lambda>r _. case r of
       Panic _ \<Rightarrow> None \<in> set ws
     | Done ds \<Rightarrow> None \<notin> set ws \<and> distinct (map dpl_Name ds) \<and> dpl_Name ` set ds = dpl_Name ` set old
         \<and> (\<forall>d\<in>set ds. \<exists>d0\<in>set old. reported ws d0 d)) w"
  unfolding updateDeploymentStatuses_def
proof (simp, rule wp_conseq [OF update_from_workloads_spec [OF named_deployment_map]], goal_cases)
  case (1 r w')
  show ?case
  proof (cases r)
    case (Panic p)
    with 1 show ?thesis by simp
  next
    case (Done m)
    let ?m0 = "deployment_map old"
    note m = 1 [unfolded Done outcome.case]
    have at: "case gm_get ?m0 k of None \<Rightarrow> gm_get m k = None
        | Some d \<Rightarrow> \<exists>d'. gm_get m k = Some d' \<and> reported ws d d'" for k using m by blast
    have wf: "gm_wf m" and named: "\<And>k d. gm_get m k = Some d \<Longrightarrow> dpl_Name d = k"
      using m by (auto simp: named_map_def)
    have in_old: "\<exists>d0\<in>set old. dpl_Name d0 = k \<and> reported ws d0 d" if "gm_get m k = Some d" for k d
    proof -
      have "gm_get ?m0 k \<noteq> None" using at [of k] that by (auto split: option.splits)
      then obtain d0 where d0: "gm_get ?m0 k = Some d0" by auto
      then have "find (\<lambda>d. dpl_Name d = k) old = Some d0" using gm_get_deployment_map [OF dist] by simp
      then have "d0 \<in> set old" "dpl_Name d0 = k" by (auto simp: find_Some_iff)
      moreover have "reported ws d0 d" using at [of k] d0 that by simp
      ultimately show ?thesis by blast
    qed
    have of_old: "\<exists>d'. gm_get m (dpl_Name d) = Some d'" if "d \<in> set old" for d
    proof -
      have "find (\<lambda>x. dpl_Name x = dpl_Name d) old \<noteq> None" using that by (auto simp: find_None_iff)
      then have "gm_get ?m0 (dpl_Name d) \<noteq> None" using gm_get_deployment_map [OF dist] by simp
      then show ?thesis using at [of "dpl_Name d"] by auto
    qed
    have "wp (range_map E m) (\<lambda>r _. set r = set m \<and> gm_wf r \<and> length r = length m) w'"
      by (rule fair_range_map [OF fair wf])
    then show ?thesis
      unfolding Done outcome.case
    proof (simp, elim wp_conseq, goal_cases)
      case (1 es w'')
      have ent: "(k, d) \<in> set es \<longleftrightarrow> gm_get m k = Some d" for k d
        using 1 wf by (simp add: gm_wf_def)
      have keys: "map dpl_Name (map snd es) = gm_keys es"
        using ent named by (auto intro!: map_cong)
      have "distinct (map dpl_Name (map snd es))" unfolding keys using 1 by (simp add: gm_wf_def)
      moreover have "dpl_Name ` set (map snd es) = dpl_Name ` set old"
      proof (intro equalityI subsetI)
        fix n assume "n \<in> dpl_Name ` set (map snd es)"
        then obtain k d where "(k, d) \<in> set es" "n = dpl_Name d" by auto
        then show "n \<in> dpl_Name ` set old" using ent named in_old by (metis imageI)
      next
        fix n assume "n \<in> dpl_Name ` set old"
        then obtain d where d: "d \<in> set old" "n = dpl_Name d" by auto
        with of_old obtain d' where "(n, d') \<in> set es" using ent by blast
        moreover from this have "dpl_Name d' = n" using ent named by blast
        ultimately show "n \<in> dpl_Name ` set (map snd es)" by force
      qed
      moreover have "\<forall>d\<in>set (map snd es). \<exists>d0\<in>set old. reported ws d0 d"
        using ent in_old by fastforce
      ultimately show ?case using m by simp
    qed
  qed
qed

section \<open>Properties\<close>

text \<open>C34: a heartbeat neither adds nor drops deployments of a device: for every order in which
  the map is read back the names are those before, each once, and each deployment has the phase and
  upload time of the last report about it; the update panics exactly on a null workload.\<close>

theorem updateDeploymentStatuses_correct:
  assumes "fair_range E" and "distinct (map dpl_Name old)"
  shows "wp (updateDeploymentStatuses E old ws) (\<lambda>r _. case r of
       Panic _ \<Rightarrow> None \<in> set ws
     | Done ds \<Rightarrow> None \<notin> set ws \<and> distinct (map dpl_Name ds) \<and> dpl_Name ` set ds = dpl_Name ` set old
         \<and> (\<forall>d\<in>set ds. \<exists>d0\<in>set old. reported ws d0 d)) w"
  using assms by (rule updateDeploymentStatuses_spec)

definition sample_deployments :: "Deployment list" where
  "sample_deployments =
     [\<lparr>dpl_Name = ''a'', dpl_Phase = Deploying, dpl_LastTransitionTime = 0, dpl_LastDataUpload = 0\<rparr>,
      \<lparr>dpl_Name = ''b'', dpl_Phase = Deploying, dpl_LastTransitionTime = 0, dpl_LastDataUpload = 0\<rparr>]"

theorem updateDeploymentStatuses_correct_witness:
  "wp (updateDeploymentStatuses mem_env sample_deployments [None]) (\<lambda>r _. case r of
       Panic _ \<Rightarrow> True | Done ds \<Rightarrow> False) empty_mem"
proof -
  have "distinct (map dpl_Name sample_deployments)" by (simp add: sample_deployments_def)
  from updateDeploymentStatuses_correct [OF mem_fair_range this, of "[None]" empty_mem] show ?thesis
    by (elim wp_conseq) (auto split: outcome.splits)
qed

lemma processEvents_keeps:
  "(\<And>d ty r m. keeps v (k_event E d ty r m)) \<Longrightarrow> keeps v (processEvents E dev evs)"
  by (induction E dev evs rule: processEvents.induct) auto

text \<open>A heartbeat of a device that does not exist is reported at once: the handler reads the
  device, returns the server's error, and neither retries nor writes.\<close>

theorem Process_not_found:
  assumes "run_state (dev_Read E (nt_DeviceID n) (nt_Namespace n)) w = (Inl err, w')" and "IsNotFound err"
  shows "run_state (Process E n) w = (Done (Some err), w')"
  using assms by (simp add: Process_def process_def Let_def run_state_bind split: sum.splits)

definition sample_heartbeat :: Heartbeat where
  "sample_heartbeat = \<lparr>hb_Events = Some [Some \<lparr>evi_Message = ''m'', evi_Reason = ''r'', evi_Type = ''warn''\<rparr>],
     hb_Hardware = None, hb_Status = ''up'', hb_Upgrade = None, hb_Version = ''1'', hb_Workloads = None\<rparr>"

definition sample_notification :: Notification where
  "sample_notification = \<lparr>nt_DeviceID = ''dev'', nt_Namespace = ''default'', nt_Heartbeat = sample_heartbeat,
     nt_Retry = 0\<rparr>"

lemma mem_get_missing: "run_state (dev_Read mem_env n ns) empty_mem = (Inl not_found, empty_mem)"
  by (simp add: dev_Read_def mem_env_def mem_get_def api_call_def empty_mem_def mem_find_def)

theorem Process_not_found_witness:
  "run_state (Process mem_env sample_notification) empty_mem = (Done (Some not_found), empty_mem)"
  by (rule Process_not_found) (simp_all add: mem_get_missing not_found_def)

section \<open>Lost events\<close>

definition only_recorder_writes :: "'w env \<Rightarrow> ('w \<Rightarrow> 'v) \<Rightarrow> bool" where
  "only_recorder_writes E evs \<longleftrightarrow>
     (\<forall>ns n. keeps evs (k_dev_get E ns n)) \<and> (\<forall>a b. keeps evs (k_dev_status_patch E a b)) \<and>
     (\<forall>a b. keeps evs (k_dev_patch E a b)) \<and> keeps evs (k_now E) \<and> (\<forall>t. keeps evs (k_sleep E t)) \<and>
     (\<forall>ks. keeps evs (k_range E ks))"

lemma update_from_workloads_keeps: "keeps v (k_now E) \<Longrightarrow> keeps v (update_from_workloads E m ws)"
  by (induction E m ws rule: update_from_workloads.induct) (auto split: option.split)

lemma updateStatus_keeps: "only_recorder_writes E v \<Longrightarrow> keeps v (updateStatus E d hb)"
  unfolding updateStatus_def updateDeploymentStatuses_def range_map_def dev_PatchStatus_def Let_def
  by (auto simp: only_recorder_writes_def update_from_workloads_keeps
      intro!: keeps_bind keeps_outcome)

lemma dev_updateLabels_keeps: "only_recorder_writes E v \<Longrightarrow> keeps v (dev_updateLabels E d ls)"
  unfolding dev_updateLabels_def dev_Patch_def Let_def
  by (auto simp: only_recorder_writes_def intro!: keeps_bind keeps_sum keeps_if)

lemma dev_UpdateLabels_retry_keeps:
  "only_recorder_writes E v \<Longrightarrow> keeps v (dev_UpdateLabels_retry E d ls err is)"
  by (induction E d ls err "is" rule: dev_UpdateLabels_retry.induct)
     (auto simp: dev_Read_def only_recorder_writes_def [of _ v]
       intro!: keeps_bind keeps_sum keeps_option dev_updateLabels_keeps)

lemma updateLabels_keeps: "only_recorder_writes E v \<Longrightarrow> keeps v (updateLabels E d hb)"
  unfolding updateLabels_def dev_UpdateLabels_def
  by (auto intro!: keeps_bind keeps_option dev_updateLabels_keeps dev_UpdateLabels_retry_keeps)

lemma process_retry_keeps:
  "only_recorder_writes E v \<Longrightarrow> nt_Retry n \<noteq> 0 \<Longrightarrow> keeps v (process E n)"
  unfolding process_def Let_def dev_Read_def
  by (auto simp: only_recorder_writes_def [of _ v] split: option.split
      intro!: keeps_bind keeps_sum keeps_outcome updateStatus_keeps updateLabels_keeps)

lemma Process_loop_retry_keeps:
  "only_recorder_writes E v \<Longrightarrow> nt_Retry n > 0 \<Longrightarrow> keeps v (Process_loop E n err is)"
proof (induction E n err "is" rule: Process_loop.induct)
  case (2 E n err i "is")
  then show ?case
    by (auto simp: only_recorder_writes_def [of _ v] split: option.split
        intro!: keeps_bind keeps_outcome process_retry_keeps)
qed simp

lemma Process_first_read_fails:
  assumes "run_state (dev_Read E (nt_DeviceID n) (nt_Namespace n)) w = (Inl err, w1)" and "\<not> IsNotFound err"
  shows "run_state (Process E n) w =
    run_state (k_sleep E 50 \<bind> (\<lambda>_. Process_loop E (n\<lparr>nt_Retry := nt_Retry n + 1\<rparr>) (Some err) [2, 3, 4])) w1"
proof -
  have "run_state (process E n) w = (Done (Some err, True), w1)"
    using assms by (simp add: process_def Let_def)
  then show ?thesis unfolding Process_def by (subst Process_loop.simps) (simp del: Process_loop.simps)
qed

text \<open>C35: the events of a heartbeat are lost when the first read of the device fails: if only
  the event recorder changes the recorded events, then after such a failure the four attempts
  together record nothing.\<close>

theorem heartbeat_events_lost:
  assumes "only_recorder_writes E evs" and "nt_Retry n = 0"
    and "run_state (dev_Read E (nt_DeviceID n) (nt_Namespace n)) w = (Inl err, w1)" and "\<not> IsNotFound err"
  shows "evs (snd (run_state (Process E n) w)) = evs w"
proof -
  let ?rest = "k_sleep E 50 \<bind> (\<lambda>_. Process_loop E (n\<lparr>nt_Retry := 1\<rparr>) (Some err) [2, 3, 4])"
  have "evs (snd (run_state (Process E n) w)) = evs (snd (run_state ?rest w1))"
    using Process_first_read_fails [OF assms(3,4)] assms(2) by simp
  also have "keeps evs ?rest"
  proof (rule keeps_bind)
    show "keeps evs (k_sleep E 50)" using assms(1) by (simp add: only_recorder_writes_def)
  qed (rule Process_loop_retry_keeps [OF assms(1)], simp)
  then have "evs (snd (run_state ?rest w1)) = evs w1" unfolding keeps_def by (rule spec)
  also have "evs w1 = evs w"
    by (rule keeps_run [OF _ assms(3)]) (use assms(1) in \<open>simp add: dev_Read_def only_recorder_writes_def\<close>)
  finally show ?thesis .
qed

definition sample_faulty :: mem where
  "sample_faulty = empty_mem\<lparr>m_faults := [Some ''connection refused'']\<rparr>"

lemma api_call_keeps_events:
  "(\<And>w. m_events (snd (f w)) = m_events w) \<Longrightarrow> keeps m_events (api_call f)"
  by (auto simp: keeps_def api_call_def split: list.split option.split)

lemma mem_only_recorder_writes: "only_recorder_writes mem_env m_events"
  unfolding only_recorder_writes_def mem_env_def mem_get_def mem_dev_patch_def
  by (auto simp: keeps_def [of _ "State _"] Let_def split: option.split intro!: api_call_keeps_events)

theorem heartbeat_events_lost_witness:
  "m_events (snd (run_state (Process mem_env sample_notification) sample_faulty)) = []"
proof -
  let ?err = "ApiStatus (StatusReasonOther ''InternalError'') ''connection refused''"
  have "run_state (dev_Read mem_env ''dev'' ''default'') sample_faulty = (Inl ?err, empty_mem)"
    by (simp add: dev_Read_def mem_env_def mem_get_def api_call_def sample_faulty_def empty_mem_def)
  then show ?thesis
    using heartbeat_events_lost [OF mem_only_recorder_writes, of sample_notification sample_faulty ?err empty_mem]
    by (simp add: sample_notification_def sample_faulty_def empty_mem_def)
qed

end
