(* ===== verification/Configmaps.thy ===== *)
theory Configmaps
  imports Repositories Utils
begin

text \<open>
  \<open>internal/configmaps\<close>: the config maps a workload needs. \<open>Fetch\<close> collects the references of the
  pod's containers and volumes, reads each config map, checks its mandatory keys and renders it.
  The theory also has the two small readers \<open>internal/images\<close> (image registry credentials) and
  \<open>internal/devicemetrics\<close> (metrics allow lists).

  The locale \<open>config_api\<close> is what the component relies on when it reads config maps.
\<close>

section \<open>configmaps.go\<close>

definition configmap_env_from :: "EnvFromSource \<Rightarrow> bool \<times> bool option \<times> string" where
  "configmap_env_from env = (case ef_ConfigMapRef env of
     Some ref \<Rightarrow> (True, lr_Optional ref, lr_Name ref) | None \<Rightarrow> (False, None, []))"

text \<open>\<open>env.ValueFrom.ConfigMapKeyRef\<close> is read without a test of \<open>ValueFrom\<close>.\<close>

definition configmap_env :: "EnvVar \<Rightarrow> (bool \<times> bool option \<times> string \<times> string) outcome" where
  "configmap_env env = (case ev_ValueFrom env of
     None \<Rightarrow> nil_dereference
   | Some valueFrom \<Rightarrow> Done (case evs_ConfigMapKeyRef valueFrom of
       Some ref \<Rightarrow> (True, ks_Optional ref, ks_Name ref, ks_Key ref) | None \<Rightarrow> (False, None, [], [])))"

definition configmap_volume :: "Volume \<Rightarrow> bool \<times> bool option \<times> string" where
  "configmap_volume volume = (case vol_ConfigMap volume of
     Some ref \<Rightarrow> (True, lr_Optional ref, lr_Name ref) | None \<Rightarrow> (False, None, []))"

definition extractConfigMapsFromEnv :: "Container \<Rightarrow> MapType \<Rightarrow> MapType outcome" where
  "extractConfigMapsFromEnv container configmapMap =
     ExtractInfoFromEnv (ct_Env container)
       (ExtractInfoFromEnvFrom (ct_EnvFrom container) configmapMap configmap_env_from) configmap_env"

definition allContainers :: "PodSpec \<Rightarrow> Container list" where
  "allContainers podSpec = ps_InitContainers podSpec @ ps_Containers podSpec"

fun collect_configmaps :: "Volume list \<Rightarrow> Container list \<Rightarrow> MapType \<Rightarrow> MapType outcome" where
  "collect_configmaps volumes [] cmMap = Done cmMap"
| "collect_configmaps volumes (c # cs) cmMap =
     (case extractConfigMapsFromEnv c cmMap of
        Panic p \<Rightarrow> Panic p
      | Done m \<Rightarrow> collect_configmaps volumes cs (ExtractInfoFromVolume volumes m configmap_volume))"

fun missing_key :: "string gomap option \<Rightarrow> string list \<Rightarrow> string option" where
  "missing_key data [] = None"
| "missing_key data (key # ks) = (if gm_lookup data key \<noteq> None then missing_key data ks else Some key)"

definition readAndValidateConfigMap ::
  "'w env \<Rightarrow> string \<Rightarrow> string \<Rightarrow> StringSet \<Rightarrow> ('w, ConfigMap option result) io" where
  "readAndValidateConfigMap E configmapName configmapNamespace configmapKeys = do {
     r \<leftarrow> k_cm_get E configmapNamespace configmapName;
     case r of
       Inl err \<Rightarrow> ret (if IsNotFound err \<and> configmapKeys = None then Inr None else Inl err)
     | Inr configmapObj \<Rightarrow> do {
         keys \<leftarrow> (case configmapKeys of None \<Rightarrow> ret [] | Some ks \<Rightarrow> k_range E ks);
         case missing_key (cm_Data configmapObj) keys of
           Some key \<Rightarrow> ret (Inl (Errorf (''missing configmap key. configmap: '' @ configmapName @ ''. key: '' @ key
               @ ''. Namespace: '' @ configmapNamespace)))
         | None \<Rightarrow> ret (Inr (Some configmapObj))
       }
   }"

fun fetch_loop :: "'w env \<Rightarrow> string \<Rightarrow> MapType \<Rightarrow> string list \<Rightarrow> ('w, string list result) io" where
  "fetch_loop E namespace [] list = ret (Inr list)"
| "fetch_loop E namespace ((name, keys) # rest) list = do {
     r \<leftarrow> readAndValidateConfigMap E name namespace keys;
     case r of
       Inl err \<Rightarrow> ret (Inl (Errorf (''Can't fetch the configmap '' @ name @ ''/'' @ namespace @ '': '' @ ErrorText err)))
     | Inr None \<Rightarrow> fetch_loop E namespace rest list
     | Inr (Some configmapObj) \<Rightarrow>
         (case k_yaml_cm E (configmapObj\<lparr>cm_meta := new_meta name []\<rparr>) of
            Inl err \<Rightarrow> ret (Inl err)
          | Inr obj \<Rightarrow> fetch_loop E namespace rest (list @ [obj]))
   }"

definition Fetch :: "'w env \<Rightarrow> EdgeDeployment \<Rightarrow> string \<Rightarrow> ('w, string list result outcome) io" where
  "Fetch E deployment namespace =
     (let podSpec = pod_Spec (eds_Pod (dep_Spec deployment)) in
      case collect_configmaps (ps_Volumes podSpec) (allContainers podSpec) [] of
        Panic p \<Rightarrow> ret (Panic p)
      | Done cmMap \<Rightarrow> do {
          entries \<leftarrow> range_map E cmMap;
          r \<leftarrow> fetch_loop E namespace entries [];
          ret (Done r)
        })"

section \<open>registry-auth.go and allow-lists.go\<close>

definition GetAuthFileFromSecret :: "'w env \<Rightarrow> string \<Rightarrow> string \<Rightarrow> ('w, string result) io" where
  "GetAuthFileFromSecret E namespace name =
     try_io (k_secret_get E namespace name) (\<lambda>secret.
     require (gm_lookup (sec_Data secret) ''.dockerconfigjson'')
       (Errorf (''.dockerconfigjson not found in '' @ namespace @ ''/'' @ name @ '' Secret''))
       (\<lambda>authFile. ret (Inr authFile)))"

definition GenerateFromConfigMap :: "'w env \<Rightarrow> string \<Rightarrow> string \<Rightarrow> ('w, MetricsAllowList result) io" where
  "GenerateFromConfigMap E name namespace =
     try_io (k_cm_get E namespace name) (\<lambda>cm.
     require (gm_lookup (cm_Data cm) ''metrics_list.yaml'')
       (Errorf (''metrics_list.yaml not found in '' @ namespace @ ''/'' @ name @ '' config map''))
       (\<lambda>metricsList. ret (k_yaml_allow_list E metricsList)))"

section \<open>The references of a pod\<close>

definition env_from_refs :: "Container \<Rightarrow> reference list" where
  "env_from_refs c = found_refs configmap_env_from (ct_EnvFrom c)"

definition env_ref :: "EnvVar \<Rightarrow> reference option" where
  "env_ref ev = (case ev_ValueFrom ev of None \<Rightarrow> None
     | Some vf \<Rightarrow> map_option (\<lambda>r. (ks_Name r, is_optional (ks_Optional r), Some (ks_Key r))) (evs_ConfigMapKeyRef vf))"

definition container_refs :: "Volume list \<Rightarrow> Container \<Rightarrow> reference set" where
  "container_refs vs c =
     set (env_from_refs c) \<union> set (List.map_filter env_ref (ct_Env c)) \<union> set (found_refs configmap_volume vs)"

definition pod_refs :: "PodSpec \<Rightarrow> reference set" where
  "pod_refs p = (\<Union>c\<in>set (allContainers p). container_refs (ps_Volumes p) c)"

definition plain_env :: "Container \<Rightarrow> bool" where
  "plain_env c \<longleftrightarrow> list_ex (\<lambda>ev. ev_ValueFrom ev = None) (ct_Env c)"

lemma ExtractInfoFromEnv_fold:
  "ExtractInfoFromEnv env m configmap_env =
     (if list_ex (\<lambda>ev. ev_ValueFrom ev = None) env then nil_dereference
      else Done (foldl note_ref m (List.map_filter env_ref env)))"
proof (induction env arbitrary: m)
  case (Cons ev env)
  show ?case
  proof (cases "ev_ValueFrom ev")
    case None
    then show ?thesis by (simp add: configmap_env_def nil_dereference_def)
  next
    case (Some vf)
    then show ?thesis
      using Cons.IH
      by (cases "evs_ConfigMapKeyRef vf")
         (auto simp: configmap_env_def [of ev] env_ref_def [of ev] List.map_filter_simps note_ref_def [of m]
            key_list_def Let_def split: option.splits)
  qed
qed (simp add: List.map_filter_simps)

lemma extractConfigMapsFromEnv_fold:
  "extractConfigMapsFromEnv c m =
     (if plain_env c then nil_dereference
      else Done (foldl note_ref m (env_from_refs c @ List.map_filter env_ref (ct_Env c))))"
  by (simp add: extractConfigMapsFromEnv_def ExtractInfoFromEnvFrom_fold ExtractInfoFromEnv_fold
      env_from_refs_def plain_env_def)

lemma collect_configmaps_spec:
  "describes m R \<Longrightarrow> gm_wf m \<Longrightarrow>
   (case collect_configmaps vs cs m of
      Panic _ \<Rightarrow> \<exists>c\<in>set cs. plain_env c
    | Done m' \<Rightarrow> (\<forall>c\<in>set cs. \<not> plain_env c) \<and> gm_wf m' \<and>
        describes m' (R \<union> (\<Union>c\<in>set cs. container_refs vs c)))"
proof (induction vs cs m arbitrary: R rule: collect_configmaps.induct)
  case (2 vs c cs m)
  show ?case
  proof (cases "plain_env c")
    case True
    then show ?thesis by (simp add: extractConfigMapsFromEnv_fold nil_dereference_def)
  next
    case False
    let ?rs = "env_from_refs c @ List.map_filter env_ref (ct_Env c)"
    let ?vs = "found_refs configmap_volume vs"
    have ext: "extractConfigMapsFromEnv c m = Done (foldl note_ref m ?rs)"
      using False by (simp add: extractConfigMapsFromEnv_fold)
    have "describes (foldl note_ref (foldl note_ref m ?rs) ?vs) (R \<union> container_refs vs c)"
      using foldl_note_ref_describes [OF foldl_note_ref_describes [OF "2.prems"(1), of ?rs], of ?vs]
      by (simp add: container_refs_def Un_assoc)
    moreover have "gm_wf (foldl note_ref (foldl note_ref m ?rs) ?vs)"
      by (intro foldl_note_ref_wf "2.prems")
    ultimately have "case collect_configmaps vs cs (foldl note_ref (foldl note_ref m ?rs) ?vs) of
        Panic _ \<Rightarrow> \<exists>c\<in>set cs. plain_env c
      | Done m' \<Rightarrow> (\<forall>c\<in>set cs. \<not> plain_env c) \<and> gm_wf m' \<and>
          describes m' ((R \<union> container_refs vs c) \<union> (\<Union>c\<in>set cs. container_refs vs c))"
      using "2.IH" [OF ext, unfolded ExtractInfoFromVolume_fold] by blast
    then show ?thesis using ext False
      by (simp add: ExtractInfoFromVolume_fold Un_assoc split: outcome.splits)
  qed
qed simp

lemma collect_configmaps_pod:
  "case collect_configmaps (ps_Volumes p) (allContainers p) [] of
     Panic _ \<Rightarrow> \<exists>c\<in>set (allContainers p). plain_env c
   | Done m \<Rightarrow> (\<forall>c\<in>set (allContainers p). \<not> plain_env c) \<and> gm_wf m \<and> describes m (pod_refs p)"
  using collect_configmaps_spec [OF describes_empty gm_wf_Nil, of "allContainers p" "ps_Volumes p"]
  by (simp add: pod_refs_def split: outcome.splits)

lemma describes_mandatory:
  assumes "describes m R" and "(n, False, key) \<in> R"
  shows "\<exists>ks. gm_get m n = Some (Some ks) \<and> (\<forall>k. key = Some k \<longrightarrow> k \<in> set ks)"
proof -
  have "case gm_get m n of
       None \<Rightarrow> (\<forall>opt k. (n, opt, k) \<notin> R)
     | Some None \<Rightarrow> (\<exists>k. (n, True, k) \<in> R) \<and> (\<forall>k. (n, False, k) \<notin> R)
     | Some (Some ks) \<Rightarrow> (\<exists>k. (n, False, k) \<in> R) \<and> set ks = {k. (n, False, Some k) \<in> R}"
    using assms(1) by (simp add: describes_def)
  with assms(2) show ?thesis by (auto split: option.splits)
qed

lemma describes_keys:
  assumes "describes m R"
  shows "set (gm_keys m) = {n. \<exists>opt key. (n, opt, key) \<in> R}"
proof (rule set_eqI)
  fix n
  have "case gm_get m n of
       None \<Rightarrow> (\<forall>opt k. (n, opt, k) \<notin> R)
     | Some None \<Rightarrow> (\<exists>k. (n, True, k) \<in> R) \<and> (\<forall>k. (n, False, k) \<notin> R)
     | Some (Some ks) \<Rightarrow> (\<exists>k. (n, False, k) \<in> R) \<and> set ks = {k. (n, False, Some k) \<in> R}"
    using assms by (simp add: describes_def)
  then have "gm_mem n m \<longleftrightarrow> (\<exists>opt key. (n, opt, key) \<in> R)"
    by (auto simp: gm_mem_def split: option.splits)
  then show "n \<in> set (gm_keys m) \<longleftrightarrow> n \<in> {n. \<exists>opt key. (n, opt, key) \<in> R}"
    by (simp add: gm_mem_keys)
qed

section \<open>Reading against the API\<close>

locale config_api =
  fixes E :: "'w env"
    and cms :: "'w \<Rightarrow> string \<times> string \<Rightarrow> ConfigMap option"
  assumes cm_get_keeps: "keeps cms (k_cm_get E ns n)"
    and cm_get_found: "run_state (k_cm_get E ns n) w = (Inr c, w') \<Longrightarrow> cms w (ns, n) = Some c"
    and cm_get_missing: "run_state (k_cm_get E ns n) w = (Inl e, w') \<Longrightarrow> IsNotFound e \<Longrightarrow> cms w (ns, n) = None"
    and cm_range_keeps: "keeps cms (k_range E ks)"
    and cm_range_fair: "mset (fst (run_state (k_range E ks) w)) = mset ks"

lemma missing_key_None: "missing_key data ks = None \<longleftrightarrow> (\<forall>k\<in>set ks. gm_lookup data k \<noteq> None)"
  by (induction ks) auto

text \<open>A config map satisfies the collected demand: it exists with every mandatory key, or it is
  absent and all references to it are optional.\<close>

definition satisfies :: "ConfigMap option \<Rightarrow> StringSet \<Rightarrow> bool" where
  "satisfies c keys \<longleftrightarrow> (case c of
     None \<Rightarrow> keys = None
   | Some cm \<Rightarrow> (\<forall>k\<in>set (opt_list keys). gm_lookup (cm_Data cm) k \<noteq> None))"

definition rendered :: "'w env \<Rightarrow> (string \<times> string \<Rightarrow> ConfigMap option) \<Rightarrow> string \<Rightarrow> string \<Rightarrow> string option" where
  "rendered E cs ns n = (case cs (ns, n) of None \<Rightarrow> None
     | Some c \<Rightarrow> (case k_yaml_cm E (c\<lparr>cm_meta := new_meta n []\<rparr>) of Inl _ \<Rightarrow> None | Inr s \<Rightarrow> Some s))"

context config_api
begin

lemma range_keys:
  "wp (k_range E ks) (\<lambda>r w'. cms w' = cms w \<and> set r = set ks) w"
  using keeps_wp [OF cm_range_keeps, of ks w] mset_eq_setD [OF cm_range_fair [of ks w]] by (simp add: wp_run)

lemma readAndValidateConfigMap_spec:
  "wp (readAndValidateConfigMap E n ns keys) (\<lambda>r w'. cms w' = cms w \<and>
     (case r of Inl _ \<Rightarrow> True | Inr c \<Rightarrow> c = cms w (ns, n) \<and> satisfies c keys)) w"
proof (simp add: readAndValidateConfigMap_def, rule wp_intro, goal_cases)
  case (1 r w1)
  have w1: "cms w1 = cms w" by (rule keeps_run [OF cm_get_keeps 1])
  show ?case
  proof (cases r)
    case (Inl e)
    then show ?thesis using 1 w1 cm_get_missing by (auto simp: satisfies_def)
  next
    case (Inr c)
    then have c: "cms w (ns, n) = Some c" using 1 cm_get_found by simp
    show ?thesis
    proof (cases keys)
      case None
      with Inr c w1 show ?thesis by (simp add: satisfies_def opt_list_def)
    next
      case (Some ks)
      show ?thesis unfolding Inr Some
      proof (simp, rule wp_conseq [OF range_keys [of ks w1]], goal_cases)
        case (1 r w2)
        show ?case
        proof (cases "missing_key (cm_Data c) r")
          case None
          then have "\<forall>k\<in>set ks. gm_lookup (cm_Data c) k \<noteq> None" using 1 by (simp add: missing_key_None)
          with None 1 c w1 show ?thesis by (simp add: satisfies_def opt_list_def)
        qed (use 1 w1 in simp)
      qed
    qed
  qed
qed

lemma fetch_loop_spec:
  "wp (fetch_loop E ns entries acc) (\<lambda>r w'. case r of Inl _ \<Rightarrow> True
     | Inr l \<Rightarrow> l = acc @ List.map_filter (\<lambda>(n, keys). rendered E (cms w) ns n) entries \<and>
               (\<forall>(n, keys)\<in>set entries. satisfies (cms w (ns, n)) keys \<and>
                  (cms w (ns, n) \<noteq> None \<longrightarrow> rendered E (cms w) ns n \<noteq> None))) w"
proof (induction entries arbitrary: acc w)
  case Nil
  then show ?case by (simp add: List.map_filter_simps)
next
  case (Cons e entries)
  obtain n keys where e: "e = (n, keys)" by (cases e)
  show ?case unfolding e
  proof (simp, rule wp_conseq [OF readAndValidateConfigMap_spec], goal_cases)
    case (1 r w')
    then have w': "cms w' = cms w" by simp
    note IH = Cons.IH [of _ w', unfolded w']
    show ?case
    proof (cases r)
      case (Inl e)
      then show ?thesis by simp
    next
      case (Inr c)
      with 1 have c: "cms w (ns, n) = c" "satisfies c keys" by auto
      show ?thesis
      proof (cases c)
        case None
        with Inr c show ?thesis
          by simp (rule wp_conseq [OF IH], auto simp: rendered_def List.map_filter_simps split: sum.splits)
      next
        case (Some cm)
        with Inr c show ?thesis
          by (cases "k_yaml_cm E (cm\<lparr>cm_meta := new_meta n []\<rparr>)")
             (simp, simp, rule wp_conseq [OF IH], auto simp: rendered_def List.map_filter_simps split: sum.splits)
      qed
    qed
  qed
qed

lemma range_entries:
  assumes "gm_wf m"
  shows "wp (range_map E m) (\<lambda>r w'. cms w' = cms w \<and> set r = set m \<and> gm_wf r) w"
proof -
  have "keeps cms (range_map E m)" unfolding range_map_def by (intro keeps_bind cm_range_keeps keeps_ret)
  moreover have "fair_range E" by (simp add: fair_range_def cm_range_fair)
  ultimately show ?thesis
    using keeps_wp fair_range_map [OF _ assms, of E w] by (simp add: wp_conj)
qed

lemma Fetch_spec:
  "wp (Fetch E d ns) (\<lambda>r w'. case r of
      Panic _ \<Rightarrow> True
    | Done (Inl _) \<Rightarrow> True
    | Done (Inr l) \<Rightarrow> \<exists>m es. describes m (pod_refs (pod_Spec (eds_Pod (dep_Spec d)))) \<and> gm_wf m \<and>
        set es = set m \<and> gm_wf es \<and> l = List.map_filter (\<lambda>(n, keys). rendered E (cms w) ns n) es \<and>
        (\<forall>(n, keys)\<in>set m. satisfies (cms w (ns, n)) keys \<and>
           (cms w (ns, n) \<noteq> None \<longrightarrow> rendered E (cms w) ns n \<noteq> None))) w"
proof -
  let ?p = "pod_Spec (eds_Pod (dep_Spec d))"
  show ?thesis
  proof (cases "collect_configmaps (ps_Volumes ?p) (allContainers ?p) []")
    case (Panic x)
    then show ?thesis by (simp add: Fetch_def Let_def)
  next
    case (Done m)
    with collect_configmaps_pod [of ?p] have m: "gm_wf m" "describes m (pod_refs ?p)" by auto
    show ?thesis
      unfolding Fetch_def Let_def Done outcome.case wp_bind wp_ret
    proof (rule wp_conseq [OF range_entries [OF m(1)]], goal_cases)
      case (1 es w1)
      then have "cms w1 = cms w" by simp
      from fetch_loop_spec [of ns es "[]" w1, unfolded this] show ?case
        by (rule wp_conseq) (use 1 m in \<open>auto split: sum.splits\<close>)
    qed
  qed
qed

end

text \<open>The cluster in memory provides config maps.\<close>

definition mem_cms :: "mem \<Rightarrow> string \<times> string \<Rightarrow> ConfigMap option" where
  "mem_cms w k = mem_find cm_meta k (m_cms w)"

lemma mem_cms_faults [simp]: "mem_cms (w\<lparr>m_faults := fs\<rparr>) = mem_cms w"
  by (rule ext) (simp add: mem_cms_def)

interpretation memcm: config_api mem_env mem_cms
proof (unfold_locales, goal_cases)
  case (1 ns n)
  show ?case by (auto simp: keeps_def mem_env_def mem_get_def api_call_def split: list.split option.split)
next
  case (2 ns n w c w')
  then show ?case
    by (auto simp: mem_env_def mem_get_def api_call_def mem_cms_def split: list.splits option.splits)
next
  case (3 ns n w e w')
  then show ?case
    by (auto simp: mem_env_def mem_get_def api_call_def mem_cms_def split: list.splits option.splits)
next
  case (4 ks)
  show ?case by (simp add: mem_env_def)
next
  case (5 ks w)
  show ?case by (simp add: mem_env_def)
qed

section \<open>Properties\<close>

text \<open>C38: a workload is turned into a panic of the request exactly when one of its containers,
  init containers included, has an environment variable with a plain value; nothing the API
  server does matters.\<close>

theorem Fetch_panics_iff:
  "(\<exists>p. fst (run_state (Fetch E d ns) w) = Panic p) \<longleftrightarrow>
     (\<exists>c\<in>set (allContainers (pod_Spec (eds_Pod (dep_Spec d)))). \<exists>v\<in>set (ct_Env c). ev_ValueFrom v = None)"
  using collect_configmaps_pod [of "pod_Spec (eds_Pod (dep_Spec d))"]
  by (auto simp: Fetch_def Let_def plain_env_def list_ex_iff split: outcome.splits prod.splits)

text \<open>C37: when \<open>Fetch\<close> succeeds, every config map the pod refers to exists with all the keys that
  a mandatory reference asks for, or is absent and referred to only optionally; and the result is
  the rendering of the config maps that exist, each once.\<close>

theorem Fetch_complete:
  assumes "config_api E cms" and "run_state (Fetch E d ns) w = (Done (Inr l), w')"
  shows "let refs = pod_refs (pod_Spec (eds_Pod (dep_Spec d))) in
    (\<forall>n key. (n, False, key) \<in> refs \<longrightarrow>
       (\<exists>c. cms w (ns, n) = Some c \<and> (\<forall>k. key = Some k \<longrightarrow> gm_lookup (cm_Data c) k \<noteq> None))) \<and>
    (\<exists>names. distinct names \<and> set names = {n. \<exists>opt key. (n, opt, key) \<in> refs} \<and>
       (\<forall>n\<in>set names. cms w (ns, n) \<noteq> None \<longrightarrow> rendered E (cms w) ns n \<noteq> None) \<and>
       l = List.map_filter (rendered E (cms w) ns) names)"
proof -
  let ?refs = "pod_refs (pod_Spec (eds_Pod (dep_Spec d)))"
  from wp_elim [OF config_api.Fetch_spec [OF assms(1)] assms(2)] obtain m es where
    m: "describes m ?refs" "gm_wf m" "set es = set m" "gm_wf es"
    and l: "l = List.map_filter (\<lambda>(n, keys). rendered E (cms w) ns n) es"
    and ok: "\<And>n keys. (n, keys) \<in> set m \<Longrightarrow> satisfies (cms w (ns, n)) keys \<and>
      (cms w (ns, n) \<noteq> None \<longrightarrow> rendered E (cms w) ns n \<noteq> None)"
    by auto blast
  note keys = describes_keys [OF m(1)]
  have "\<exists>c. cms w (ns, n) = Some c \<and> (\<forall>k. key = Some k \<longrightarrow> gm_lookup (cm_Data c) k \<noteq> None)"
    if r: "(n, False, key) \<in> ?refs" for n key
  proof -
    obtain ks where ks: "gm_get m n = Some (Some ks)" "\<And>k. key = Some k \<Longrightarrow> k \<in> set ks"
      using describes_mandatory [OF m(1) r] by blast
    with ok [of n "Some ks"] show ?thesis
      by (auto simp: satisfies_def opt_list_def map_of_SomeD split: option.splits)
  qed
  moreover have "distinct (gm_keys es)" using m by (simp add: gm_wf_def)
  moreover have "set (gm_keys es) = {n. \<exists>opt key. (n, opt, key) \<in> ?refs}"
    using m keys by simp
  moreover have "l = List.map_filter (rendered E (cms w) ns) (gm_keys es)"
    unfolding l by (induction es) (auto simp: List.map_filter_simps split: option.split)
  moreover have "\<forall>n\<in>set (gm_keys es). cms w (ns, n) \<noteq> None \<longrightarrow> rendered E (cms w) ns n \<noteq> None"
    using m(3) ok by force
  ultimately show ?thesis unfolding Let_def by blast
qed

definition sample_container :: Container where
  "sample_container = \<lparr>ct_Name = ''c'', ct_EnvFrom = [\<lparr>ef_ConfigMapRef = Some \<lparr>lr_Name = ''settings'',
       lr_Optional = None\<rparr>, ef_SecretRef = None\<rparr>], ct_Env = [], ct_Limits = [], ct_Requests = [],
     ct_VolumeDevices = [], ct_LivenessProbe = None, ct_ReadinessProbe = None, ct_StartupProbe = None,
     ct_Lifecycle = None\<rparr>"

definition sample_workload :: EdgeDeployment where
  "sample_workload = \<lparr>dep_meta = new_meta ''app'' ''default'',
     dep_Spec = \<lparr>eds_DeviceSelector = None, eds_Device = ''dev'', eds_Type = ''pod'',
       eds_Pod = \<lparr>pod_Spec = \<lparr>ps_Volumes = [], ps_InitContainers = [], ps_Containers = [sample_container],
         ps_Other = ''pod''\<rparr>\<rparr>,
       eds_Data = None, eds_ImageRegistries = None, eds_Metrics = None, eds_LogCollection = []\<rparr>\<rparr>"

definition sample_settings :: mem where
  "sample_settings = empty_mem\<lparr>m_cms := [\<lparr>cm_meta = new_meta ''settings'' ''default'', cm_Data = None\<rparr>]\<rparr>"

theorem Fetch_complete_witness:
  "mem_cms sample_settings (''default'', ''settings'') \<noteq> None"
proof -
  have "run_state (Fetch mem_env sample_workload ''default'') sample_settings
      = (Done (Inr [''settings'']), sample_settings)"
    by code_simp
  moreover have "(''settings'', False, None) \<in> pod_refs (pod_Spec (eds_Pod (dep_Spec sample_workload)))"
    by (simp add: sample_workload_def sample_container_def pod_refs_def allContainers_def container_refs_def
        env_from_refs_def configmap_env_from_def is_optional_def)
  ultimately show ?thesis
    using Fetch_complete [OF memcm.config_api_axioms, of sample_workload "''default''" sample_settings
        "[''settings'']" sample_settings]
    unfolding Let_def by blast
qed

end
