(* ===== verification/Secrets.thy ===== *)
theory Secrets
  imports Configmaps
begin

text \<open>
  The secrets part of \<open>internal/yggdrasil/yggdrasil.go\<close>: collecting the secrets the workloads of a
  device refer to, reading and checking them, and encoding them for the device. The collection
  loops are shown to be the generic ones of \<open>internal/utils\<close>. The locale \<open>secret_api\<close> is what is
  used of the API for secrets.
\<close>

section \<open>Operations\<close>

fun extractSecretsFromEnvFrom :: "EnvFromSource list \<Rightarrow> MapType \<Rightarrow> MapType" where
  "extractSecretsFromEnvFrom [] secretMap = secretMap"
| "extractSecretsFromEnvFrom (envFrom # rest) secretMap =
     (case ef_SecretRef envFrom of
        None \<Rightarrow> extractSecretsFromEnvFrom rest secretMap
      | Some ref \<Rightarrow>
          let optional = is_optional (lr_Optional ref);
              secretMap' =
                (case gm_get secretMap (lr_Name ref) of
                   Some keys \<Rightarrow> if \<not> optional \<and> keys = None then gm_set (lr_Name ref) (Some []) secretMap else secretMap
                 | None \<Rightarrow> if optional then gm_set (lr_Name ref) None secretMap
                          else gm_set (lr_Name ref) (Some []) secretMap)
          in extractSecretsFromEnvFrom rest secretMap')"

fun extractSecretsFromEnv :: "EnvVar list \<Rightarrow> MapType \<Rightarrow> MapType" where
  "extractSecretsFromEnv [] secretMap = secretMap"
| "extractSecretsFromEnv (envVar # rest) secretMap =
     (case (case ev_ValueFrom envVar of None \<Rightarrow> None | Some vf \<Rightarrow> evs_SecretKeyRef vf) of
        None \<Rightarrow> extractSecretsFromEnv rest secretMap
      | Some keyRef \<Rightarrow>
          let optional = is_optional (ks_Optional keyRef);
              secretMap' =
                (case gm_get secretMap (ks_Name keyRef) of
                   Some keys \<Rightarrow>
                     if \<not> optional then
                       (case keys of
                          None \<Rightarrow> gm_set (ks_Name keyRef) (Some [ks_Key keyRef]) secretMap
                        | Some ks \<Rightarrow> gm_set (ks_Name keyRef) (Some (List.insert (ks_Key keyRef) ks)) secretMap)
                     else secretMap
                 | None \<Rightarrow> if optional then gm_set (ks_Name keyRef) None secretMap
                          else gm_set (ks_Name keyRef) (Some [ks_Key keyRef]) secretMap)
          in extractSecretsFromEnv rest secretMap')"

definition extractSecretsFromContainer :: "Container \<Rightarrow> MapType \<Rightarrow> MapType" where
  "extractSecretsFromContainer container secretMap =
     extractSecretsFromEnv (ct_Env container) (extractSecretsFromEnvFrom (ct_EnvFrom container) secretMap)"

fun collect_secrets :: "Container list \<Rightarrow> MapType \<Rightarrow> MapType" where
  "collect_secrets [] secretMap = secretMap"
| "collect_secrets (c # cs) secretMap = collect_secrets cs (extractSecretsFromContainer c secretMap)"

fun secret_map :: "EdgeDeployment list \<Rightarrow> MapType \<Rightarrow> MapType" where
  "secret_map [] secretMap = secretMap"
| "secret_map (deployment # deployments) secretMap =
     secret_map deployments (collect_secrets (allContainers (pod_Spec (eds_Pod (dep_Spec deployment)))) secretMap)"

definition readAndValidateSecret ::
  "'w env \<Rightarrow> string \<Rightarrow> string \<Rightarrow> StringSet \<Rightarrow> ('w, Secret option result) io" where
  "readAndValidateSecret E secretName secretNamespace secretKeys = do {
     let optional = (secretKeys = None);
     r \<leftarrow> k_secret_get E secretNamespace secretName;
     case r of
       Inl err \<Rightarrow> ret (if IsNotFound err \<and> optional then Inr None else Inl err)
     | Inr secretObj \<Rightarrow> do {
         keys \<leftarrow> (case secretKeys of None \<Rightarrow> ret [] | Some ks \<Rightarrow> k_range E ks);
         case missing_key (sec_Data secretObj) keys of
           Some key \<Rightarrow> ret (Inl (Errorf (''missing secret key. secret: '' @ secretName @ ''. key: '' @ key
               @ ''. Namespace: '' @ secretNamespace)))
         | None \<Rightarrow> ret (Inr (Some secretObj))
       }
   }"

text \<open>\<open>strfmt.Base64(value).String()\<close> is the standard encoding; \<open>json.Marshal\<close> of a string map does
  not fail.\<close>

definition addSecretToSecretList :: "mSecret list \<Rightarrow> Secret \<Rightarrow> mSecret list" where
  "addSecretToSecretList secretList secret =
     (let dataMap = map (\<lambda>(name, value). (name, EncodeToString value)) (opt_list (sec_Data secret))
      in secretList @ [\<lparr>ms_Data = json_Marshal_map dataMap, ms_Name = om_Name (sec_meta secret)\<rparr>])"

fun secret_loop :: "'w env \<Rightarrow> string \<Rightarrow> MapType \<Rightarrow> mSecret list \<Rightarrow> ('w, mSecret list result) io" where
  "secret_loop E namespace [] list = ret (Inr list)"
| "secret_loop E namespace ((name, keys) # rest) list = do {
     r \<leftarrow> readAndValidateSecret E name namespace keys;
     case r of
       Inl err \<Rightarrow> ret (Inl err)
     | Inr None \<Rightarrow> secret_loop E namespace rest list
     | Inr (Some secretObj) \<Rightarrow> secret_loop E namespace rest (addSecretToSecretList list secretObj)
   }"

definition createSecretList ::
  "'w env \<Rightarrow> EdgeDeployment list \<Rightarrow> EdgeDevice \<Rightarrow> ('w, mSecret list result) io" where
  "createSecretList E deployments device = do {
     entries \<leftarrow> range_map E (secret_map deployments []);
     secret_loop E (om_Namespace (dev_meta device)) entries []
   }"

section \<open>The generic loops\<close>

definition secret_env_from :: "EnvFromSource \<Rightarrow> bool \<times> bool option \<times> string" where
  "secret_env_from env = (case ef_SecretRef env of
     Some ref \<Rightarrow> (True, lr_Optional ref, lr_Name ref) | None \<Rightarrow> (False, None, []))"

definition secret_env :: "EnvVar \<Rightarrow> (bool \<times> bool option \<times> string \<times> string) outcome" where
  "secret_env env = Done (case ev_ValueFrom env of
     None \<Rightarrow> (False, None, [], [])
   | Some vf \<Rightarrow> (case evs_SecretKeyRef vf of
       Some ref \<Rightarrow> (True, ks_Optional ref, ks_Name ref, ks_Key ref) | None \<Rightarrow> (False, None, [], [])))"

lemma extractSecretsFromEnvFrom_generic:
  "extractSecretsFromEnvFrom envs m = ExtractInfoFromEnvFrom envs m secret_env_from"
  by (induction envs m rule: extractSecretsFromEnvFrom.induct)
     (auto simp: secret_env_from_def Let_def split: option.splits)

lemma extractSecretsFromEnv_generic:
  "ExtractInfoFromEnv env m secret_env = Done (extractSecretsFromEnv env m)"
  by (induction env m rule: extractSecretsFromEnv.induct)
     (auto simp: secret_env_def Let_def split: option.splits)

definition secret_env_ref :: "EnvVar \<Rightarrow> reference option" where
  "secret_env_ref ev = (case ev_ValueFrom ev of None \<Rightarrow> None
     | Some vf \<Rightarrow> map_option (\<lambda>r. (ks_Name r, is_optional (ks_Optional r), Some (ks_Key r))) (evs_SecretKeyRef vf))"

definition secret_refs :: "Container \<Rightarrow> reference list" where
  "secret_refs c = found_refs secret_env_from (ct_EnvFrom c) @ List.map_filter secret_env_ref (ct_Env c)"

definition deployments_secret_refs :: "EdgeDeployment list \<Rightarrow> reference set" where
  "deployments_secret_refs deps =
     (\<Union>dep\<in>set deps. \<Union>c\<in>set (allContainers (pod_Spec (eds_Pod (dep_Spec dep)))). set (secret_refs c))"

lemma extractSecretsFromEnv_fold:
  "extractSecretsFromEnv env m = foldl note_ref m (List.map_filter secret_env_ref env)"
proof (induction env arbitrary: m)
  case (Cons ev env)
  show ?case
  proof (cases "secret_env_ref ev")
    case None
    then show ?thesis using Cons.IH
      by (auto simp: secret_env_ref_def [of ev] List.map_filter_simps split: option.splits)
  next
    case (Some r)
    then show ?thesis using Cons.IH
      by (auto simp: secret_env_ref_def [of ev] List.map_filter_simps note_ref_def [of m] key_list_def Let_def
          split: option.splits)
  qed
qed (simp add: List.map_filter_simps)

lemma extractSecretsFromContainer_fold: "extractSecretsFromContainer c m = foldl note_ref m (secret_refs c)"
  by (simp add: extractSecretsFromContainer_def extractSecretsFromEnvFrom_generic ExtractInfoFromEnvFrom_fold
      extractSecretsFromEnv_fold secret_refs_def)

lemma collect_secrets_spec:
  "describes m R \<Longrightarrow> gm_wf m \<Longrightarrow>
     describes (collect_secrets cs m) (R \<union> (\<Union>c\<in>set cs. set (secret_refs c))) \<and> gm_wf (collect_secrets cs m)"
proof (induction cs arbitrary: m R)
  case (Cons c cs)
  have "describes (extractSecretsFromContainer c m) (R \<union> set (secret_refs c))" "gm_wf (extractSecretsFromContainer c m)"
    unfolding extractSecretsFromContainer_fold by (intro foldl_note_ref_describes foldl_note_ref_wf Cons.prems)+
  from Cons.IH [OF this] show ?case by (simp add: Un_assoc)
qed simp

lemma secret_map_spec: "describes (secret_map deps []) (deployments_secret_refs deps) \<and> gm_wf (secret_map deps [])"
proof -
  have "describes m R \<Longrightarrow> gm_wf m \<Longrightarrow>
     describes (secret_map deps m) (R \<union> deployments_secret_refs deps) \<and> gm_wf (secret_map deps m)" for m R
  proof (induction deps arbitrary: m R)
    case (Cons dep deps)
    note c = collect_secrets_spec [OF Cons.prems, of "allContainers (pod_Spec (eds_Pod (dep_Spec dep)))"]
    from Cons.IH [OF conjunct1 [OF c] conjunct2 [OF c]] show ?case
      by (simp add: deployments_secret_refs_def Un_assoc)
  qed (simp add: deployments_secret_refs_def)
  from this [OF describes_empty gm_wf_Nil] show ?thesis by simp
qed

section \<open>Reading against the API\<close>

locale secret_api =
  fixes E :: "'w env"
    and secrets :: "'w \<Rightarrow> string \<times> string \<Rightarrow> Secret option"
  assumes secret_get_keeps: "keeps secrets (k_secret_get E ns n)"
    and secret_get_found: "run_state (k_secret_get E ns n) w = (Inr c, w') \<Longrightarrow> secrets w (ns, n) = Some c"
    and secret_get_missing: "run_state (k_secret_get E ns n) w = (Inl e, w') \<Longrightarrow> IsNotFound e \<Longrightarrow> secrets w (ns, n) = None"
    and secret_range_keeps: "keeps secrets (k_range E ks)"
    and secret_range_fair: "mset (fst (run_state (k_range E ks) w)) = mset ks"

definition secret_ok :: "Secret option \<Rightarrow> StringSet \<Rightarrow> bool" where
  "secret_ok c keys \<longleftrightarrow> (case c of
     None \<Rightarrow> keys = None
   | Some s \<Rightarrow> (\<forall>k\<in>set (opt_list keys). gm_lookup (sec_Data s) k \<noteq> None))"

definition encoded :: "Secret \<Rightarrow> mSecret" where
  "encoded s = \<lparr>ms_Data = json_Marshal_map (map (\<lambda>(n, v). (n, EncodeToString v)) (opt_list (sec_Data s))),
                ms_Name = om_Name (sec_meta s)\<rparr>"

lemma addSecretToSecretList_snoc: "addSecretToSecretList l s = l @ [encoded s]"
  by (simp add: addSecretToSecretList_def encoded_def)

context secret_api
begin

lemma readAndValidateSecret_spec:
  "wp (readAndValidateSecret E n ns keys) (\<lambda>r w'. secrets w' = secrets w \<and>
     (case r of Inl _ \<Rightarrow> True | Inr c \<Rightarrow> c = secrets w (ns, n) \<and> secret_ok c keys)) w"
proof (simp add: readAndValidateSecret_def Let_def, rule wp_intro, goal_cases)
  case (1 r w1)
  have w1: "secrets w1 = secrets w" by (rule keeps_run [OF secret_get_keeps 1])
  show ?case
  proof (cases r)
    case (Inl e)
    then show ?thesis using 1 w1 secret_get_missing by (auto simp: secret_ok_def)
  next
    case (Inr c)
    then have c: "secrets w (ns, n) = Some c" using 1 secret_get_found by simp
    show ?thesis
    proof (cases keys)
      case None
      with Inr c w1 show ?thesis by (simp add: secret_ok_def opt_list_def)
    next
      case (Some ks)
      have "wp (k_range E ks) (\<lambda>r w'. secrets w' = secrets w1 \<and> set r = set ks) w1"
        using keeps_wp [OF secret_range_keeps, of ks w1] mset_eq_setD [OF secret_range_fair [of ks w1]]
        by (simp add: wp_run)
      then show ?thesis unfolding Inr Some
      proof (simp, elim wp_conseq, goal_cases)
        case (1 r w2)
        show ?case
        proof (cases "missing_key (sec_Data c) r")
          case None
          then have "\<forall>k\<in>set ks. gm_lookup (sec_Data c) k \<noteq> None" using 1 by (simp add: missing_key_None)
          with None 1 c w1 show ?thesis by (simp add: secret_ok_def opt_list_def)
        qed (use 1 w1 in simp)
      qed
    qed
  qed
qed

lemma secret_loop_spec:
  "wp (secret_loop E ns entries acc) (\<lambda>r w'. case r of Inl _ \<Rightarrow> True
     | Inr l \<Rightarrow> l = acc @ List.map_filter (\<lambda>(n, keys). map_option encoded (secrets w (ns, n))) entries \<and>
               (\<forall>(n, keys)\<in>set entries. secret_ok (secrets w (ns, n)) keys)) w"
proof (induction entries arbitrary: acc w)
  case Nil
  then show ?case by (simp add: List.map_filter_simps)
next
  case (Cons e entries)
  obtain n keys where e: "e = (n, keys)" by (cases e)
  show ?case unfolding e
  proof (simp, rule wp_conseq [OF readAndValidateSecret_spec], goal_cases)
    case (1 r w')
    then have w': "secrets w' = secrets w" by simp
    note IH = Cons.IH [of _ w', unfolded w']
    show ?case
    proof (cases r)
      case (Inr c)
      with 1 have c: "secrets w (ns, n) = c" "secret_ok c keys" by auto
      show ?thesis
      proof (cases c)
        case None
        with Inr c show ?thesis
          by simp (rule wp_conseq [OF IH], auto simp: List.map_filter_simps split: sum.splits)
      next
        case (Some s)
        with Inr c show ?thesis
          by simp (rule wp_conseq [OF IH], auto simp: List.map_filter_simps addSecretToSecretList_snoc split: sum.splits)
      qed
    qed simp
  qed
qed

lemma createSecretList_spec:
  "wp (createSecretList E deps d) (\<lambda>r w'. case r of Inl _ \<Rightarrow> True
    | Inr l \<Rightarrow> \<exists>es. set es = set (secret_map deps []) \<and> gm_wf es \<and>
        l = List.map_filter (\<lambda>(n, keys). map_option encoded (secrets w (om_Namespace (dev_meta d), n))) es \<and>
        (\<forall>(n, keys)\<in>set es. secret_ok (secrets w (om_Namespace (dev_meta d), n)) keys)) w"
proof -
  have fair: "fair_range E" by (simp add: fair_range_def secret_range_fair)
  have k: "keeps secrets (range_map E m)" for m :: MapType
    unfolding range_map_def by (intro keeps_bind secret_range_keeps keeps_ret)
  have "gm_wf (secret_map deps [])" using secret_map_spec by blast
  then have "wp (range_map E (secret_map deps [])) (\<lambda>r w'. secrets w' = secrets w \<and>
      (set r = set (secret_map deps []) \<and> gm_wf r \<and> length r = length (secret_map deps []))) w"
    unfolding wp_conj [of _ "\<lambda>_ w'. secrets w' = secrets w"]
    by (intro conjI keeps_wp [OF k] fair_range_map [OF fair])
  then show ?thesis
    unfolding createSecretList_def wp_bind
  proof (rule wp_conseq, goal_cases)
    case (1 es w1)
    then have "secrets w1 = secrets w" by simp
    from secret_loop_spec [of "om_Namespace (dev_meta d)" es "[]" w1, unfolded this] show ?case
      by (rule wp_conseq) (use 1 in \<open>auto split: sum.splits intro!: exI [of _ es]\<close>)
  qed
qed

end

definition mem_secrets :: "mem \<Rightarrow> string \<times> string \<Rightarrow> Secret option" where
  "mem_secrets w k = mem_find sec_meta k (m_secrets w)"

lemma mem_secrets_faults [simp]: "mem_secrets (w\<lparr>m_faults := fs\<rparr>) = mem_secrets w"
  by (rule ext) (simp add: mem_secrets_def)

interpretation memsec: secret_api mem_env mem_secrets
proof (unfold_locales, goal_cases)
  case (1 ns n)
  show ?case by (auto simp: keeps_def mem_env_def mem_get_def api_call_def split: list.split option.split)
next
  case (2 ns n w c w')
  then show ?case
    by (auto simp: mem_env_def mem_get_def api_call_def mem_secrets_def split: list.splits option.splits)
next
  case (3 ns n w e w')
  then show ?case
    by (auto simp: mem_env_def mem_get_def api_call_def mem_secrets_def split: list.splits option.splits)
next
  case (4 ks)
  show ?case by (simp add: mem_env_def)
next
  case (5 ks w)
  show ?case by (simp add: mem_env_def)
qed

section \<open>Properties\<close>

text \<open>The loops that collect secrets and the generic loops of \<open>internal/utils\<close>, which collect
  config maps, compute the same map when given the same kind of reference.\<close>

theorem secret_extraction_generic:
  "extractSecretsFromEnvFrom envs m = ExtractInfoFromEnvFrom envs m secret_env_from \<and>
   Done (extractSecretsFromEnv vars m) = ExtractInfoFromEnv vars m secret_env"
  by (simp add: extractSecretsFromEnvFrom_generic extractSecretsFromEnv_generic)

text \<open>C36: when the list of secrets for a device is created, every secret that some container of its
  workloads refers to without calling it optional exists with every key that is asked for, and
  the list has the encoding of each existing secret that is referred to, once.\<close>

theorem createSecretList_complete:
  assumes "secret_api E secrets" and "run_state (createSecretList E deps d) w = (Inr l, w')"
  shows "(\<forall>n key. (n, False, key) \<in> deployments_secret_refs deps \<longrightarrow>
            (\<exists>s. secrets w (om_Namespace (dev_meta d), n) = Some s \<and>
                 (\<forall>k. key = Some k \<longrightarrow> gm_lookup (sec_Data s) k \<noteq> None))) \<and>
         (\<exists>names. distinct names \<and> set names = {n. \<exists>opt key. (n, opt, key) \<in> deployments_secret_refs deps} \<and>
            l = List.map_filter (\<lambda>n. map_option encoded (secrets w (om_Namespace (dev_meta d), n))) names)"
proof -
  let ?refs = "deployments_secret_refs deps" and ?ns = "om_Namespace (dev_meta d)"
  let ?m = "secret_map deps []"
  from wp_elim [OF secret_api.createSecretList_spec [OF assms(1)] assms(2)] obtain es where
    es: "set es = set ?m" "gm_wf es"
    and l: "l = List.map_filter (\<lambda>(n, keys). map_option encoded (secrets w (?ns, n))) es"
    and ok: "\<And>n keys. (n, keys) \<in> set ?m \<Longrightarrow> secret_ok (secrets w (?ns, n)) keys"
    by auto blast
  have desc: "describes ?m ?refs" using secret_map_spec by blast
  have "\<exists>s. secrets w (?ns, n) = Some s \<and> (\<forall>k. key = Some k \<longrightarrow> gm_lookup (sec_Data s) k \<noteq> None)"
    if r: "(n, False, key) \<in> ?refs" for n key
  proof -
    obtain ks where ks: "gm_get ?m n = Some (Some ks)" "\<And>k. key = Some k \<Longrightarrow> k \<in> set ks"
      using describes_mandatory [OF desc r] by blast
    with ok [of n "Some ks"] show ?thesis
      by (auto simp: secret_ok_def opt_list_def map_of_SomeD split: option.splits)
  qed
  moreover have "distinct (gm_keys es)" using es by (simp add: gm_wf_def)
  moreover have "set (gm_keys es) = {n. \<exists>opt key. (n, opt, key) \<in> ?refs}"
    using es describes_keys [OF desc] by simp
  moreover have "l = List.map_filter (\<lambda>n. map_option encoded (secrets w (?ns, n))) (gm_keys es)"
    unfolding l by (induction es) (auto simp: List.map_filter_simps split: option.split)
  ultimately show ?thesis by blast
qed

definition sample_secret_workload :: EdgeDeployment where
  "sample_secret_workload = sample_workload\<lparr>dep_Spec := (dep_Spec sample_workload)\<lparr>eds_Pod := \<lparr>pod_Spec =
     \<lparr>ps_Volumes = [], ps_InitContainers = [], ps_Containers = [sample_container\<lparr>ct_EnvFrom :=
        [\<lparr>ef_ConfigMapRef = None, ef_SecretRef = Some \<lparr>lr_Name = ''creds'', lr_Optional = None\<rparr>\<rparr>]\<rparr>],
      ps_Other = ''pod''\<rparr>\<rparr>\<rparr>\<rparr>"

definition sample_creds :: Secret where
  "sample_creds = \<lparr>sec_meta = new_meta ''creds'' ''default'', sec_Data = None\<rparr>"

theorem createSecretList_complete_witness:
  "mem_secrets (empty_mem\<lparr>m_secrets := [sample_creds]\<rparr>) (''default'', ''creds'') \<noteq> None"
proof -
  let ?w = "empty_mem\<lparr>m_secrets := [sample_creds]\<rparr>"
  have run: "run_state (createSecretList mem_env [sample_secret_workload] sample_device) ?w = (Inr [encoded sample_creds], ?w)"
    by (simp add: createSecretList_def range_map_def mem_env_def List.map_filter_simps allContainers_def
        sample_secret_workload_def sample_workload_def sample_container_def extractSecretsFromContainer_def
        is_optional_def readAndValidateSecret_def Let_def mem_get_def api_call_def empty_mem_def mem_find_def
        meta_key_def sample_creds_def new_meta_def sample_device_def addSecretToSecretList_snoc)
  have "(''creds'', False, None) \<in> deployments_secret_refs [sample_secret_workload]"
    by (simp add: deployments_secret_refs_def sample_secret_workload_def allContainers_def secret_refs_def
        secret_env_from_def is_optional_def)
  with conjunct1 [OF createSecretList_complete [OF memsec.secret_api_axioms run]]
  have "mem_secrets ?w (om_Namespace (dev_meta sample_device), ''creds'') \<noteq> None" by blast
  then show ?thesis by (simp add: sample_device_def)
qed

end
