(* ===== verification/Mtls.thy ===== *)
theory Mtls
  imports Repositories
begin

text \<open>
  \<open>internal/mtls\<close>: the certificate authority kept in a secret (\<open>caprovider_secret.go\<close>), the
  certificates made with it (\<open>cert_utils.go\<close>), and the TLS configuration and the check of client
  certificates (\<open>ca.go\<close>). The cryptographic primitives of \<open>crypto/x509\<close>, \<open>encoding/pem\<close> and
  \<open>crypto/tls\<close> are the record \<open>crypto\<close>, a parameter; what a property needs of them is a named
  hypothesis. A provider's cached CA is explicit state: operations that set it return the provider.
  A certificate group is built in one step where the source fills an empty one; \<open>GetCert\<close> and the
  PEM buffers are its fields.
\<close>

section \<open>Certificates\<close>

record Subject =
  sj_CommonName :: string
  sj_Organization :: "string list"
  sj_SerialNumber :: string

datatype ExtKeyUsage = ExtKeyUsageClientAuth | ExtKeyUsageServerAuth
datatype KeyUsage = KeyUsageDigitalSignature | KeyUsageCertSign

record Certificate =
  ce_SerialNumber :: int
  ce_Subject :: Subject
  ce_DNSNames :: "string list"
  ce_IPAddresses :: "string list"
  ce_NotBefore :: time
  ce_NotAfter :: time
  ce_IsCA :: bool
  ce_BasicConstraintsValid :: bool
  ce_ExtKeyUsage :: "ExtKeyUsage list"
  ce_KeyUsage :: "KeyUsage list"
  ce_SubjectKeyId :: "nat list"
  ce_Signature :: string
  ce_SignatureAlgorithm :: string
  ce_PublicKeyAlgorithm :: string
  ce_PublicKey :: string

record CertificateRequest =
  csr_Subject :: Subject
  csr_Signature :: string
  csr_SignatureAlgorithm :: string
  csr_PublicKeyAlgorithm :: string
  csr_PublicKey :: string

text \<open>\<open>x509.VerifyOptions\<close>, with the certificate pools as the lists of the PEM texts appended to them.\<close>

record VerifyOptions =
  vo_Roots :: "string list"
  vo_Intermediates :: "string list"
  vo_KeyUsages :: "ExtKeyUsage list"

datatype PrivateKey = ECKey string | RSAKey string | UnknownKey string

record 'w crypto =
  c_pem_decode :: "string \<Rightarrow> (string \<times> string) option"
  c_pem_encode :: "string \<Rightarrow> string \<Rightarrow> string"
  c_parse_cert :: "string \<Rightarrow> Certificate result"
  c_parse_csr :: "string \<Rightarrow> CertificateRequest result"
  c_parse_ec :: "string \<Rightarrow> PrivateKey result"
  c_parse_pkcs1 :: "string \<Rightarrow> PrivateKey result"
  c_marshal_ec :: "PrivateKey \<Rightarrow> string result"
  c_marshal_pkcs1 :: "PrivateKey \<Rightarrow> string"
  c_gen_ec :: "('w, PrivateKey result) io"
  c_gen_rsa :: "nat \<Rightarrow> ('w, PrivateKey result) io"
  c_public :: "PrivateKey \<Rightarrow> string"
  c_create_cert :: "Certificate \<Rightarrow> Certificate \<Rightarrow> string \<Rightarrow> PrivateKey \<Rightarrow> ('w, string result) io"
  c_check_signature :: "Certificate \<Rightarrow> Certificate \<Rightarrow> bool"
  c_verify :: "VerifyOptions \<Rightarrow> Certificate \<Rightarrow> bool"
  c_keypair :: "string \<Rightarrow> string \<Rightarrow> string result"
  c_add_date :: "time \<Rightarrow> int \<Rightarrow> int \<Rightarrow> time"
  c_unix :: "time \<Rightarrow> int"
  c_multierror :: "string list \<Rightarrow> string"

definition empty_cert :: Certificate where
  "empty_cert = \<lparr>ce_SerialNumber = 0, ce_Subject = \<lparr>sj_CommonName = [], sj_Organization = [], sj_SerialNumber = []\<rparr>,
     ce_DNSNames = [], ce_IPAddresses = [], ce_NotBefore = zero_time, ce_NotAfter = zero_time, ce_IsCA = False,
     ce_BasicConstraintsValid = False, ce_ExtKeyUsage = [], ce_KeyUsage = [], ce_SubjectKeyId = [],
     ce_Signature = [], ce_SignatureAlgorithm = [], ce_PublicKeyAlgorithm = [], ce_PublicKey = []\<rparr>"

section \<open>cert\_utils.go\<close>

definition ECPrivateKeyBlockType :: string where "ECPrivateKeyBlockType = ''EC PRIVATE KEY''"
definition RSAPrivateKeyBlockType :: string where "RSAPrivateKeyBlockType = ''RSA PRIVATE KEY''"
definition CASecretName :: string where "CASecretName = ''flotta-ca''"
definition HostTLSCertName :: string where "HostTLSCertName = ''flotta-host-certificate''"
definition caCertSecretKey :: string where "caCertSecretKey = ''ca.key''"
definition caCertCertKey :: string where "caCertCertKey = ''ca.crt''"
definition serverSecretKey :: string where "serverSecretKey = ''server.key''"
definition serverCert :: string where "serverCert = ''server.crt''"
definition clientCertSecretKey :: string where "clientCertSecretKey = ''client.key''"
definition clientCertCertKey :: string where "clientCertCertKey = ''client.crt''"
definition certOrganization :: string where "certOrganization = ''flotta-operator''"
definition certRegisterCN :: string where "certRegisterCN = ''register''"
definition certDefaultExpiration :: int where "certDefaultExpiration = 1"

record CertificateGroup =
  cg_cert :: Certificate
  cg_signedCert :: Certificate
  cg_privKey :: PrivateKey
  cg_certBytes :: string
  cg_certPEM :: string
  cg_PrivKeyPEM :: string

definition decodePrivKeyFromPEM :: "'w crypto \<Rightarrow> string \<Rightarrow> PrivateKey result" where
  "decodePrivKeyFromPEM C privKeyPEM = (case c_pem_decode C privKeyPEM of
     None \<Rightarrow> Inl (Errorf ''Cannot get Certificate key'')
   | Some (ty, bytes) \<Rightarrow>
       if ty = ECPrivateKeyBlockType then c_parse_ec C bytes
       else if ty = RSAPrivateKeyBlockType then
         (case c_parse_pkcs1 C bytes of
            Inl err \<Rightarrow> Inl (Errorf (''failing parsing key: '' @ ErrorText err))
          | Inr key \<Rightarrow> Inr key)
       else Inl (Errorf ''Cannot decode PEM cert key''))"

definition ImportFromPem :: "'w crypto \<Rightarrow> string \<Rightarrow> string \<Rightarrow> CertificateGroup result" where
  "ImportFromPem C certPEM privKeyPEM = (case c_pem_decode C certPEM of
     None \<Rightarrow> Inl (Errorf ''Cannot get CA certificate'')
   | Some (_, bytes) \<Rightarrow>
       (case c_parse_cert C bytes of
          Inl err \<Rightarrow> Inl (Errorf (''Failing parsing cert: '' @ ErrorText err))
        | Inr cert \<Rightarrow>
            (case decodePrivKeyFromPEM C privKeyPEM of
               Inl err \<Rightarrow> Inl err
             | Inr key \<Rightarrow> Inr \<lparr>cg_cert = cert, cg_signedCert = cert, cg_privKey = key, cg_certBytes = [],
                              cg_certPEM = certPEM, cg_PrivKeyPEM = privKeyPEM\<rparr>)))"

definition NewCACertificateGroupFromSecret :: "'w crypto \<Rightarrow> string gomap option \<Rightarrow> CertificateGroup result" where
  "NewCACertificateGroupFromSecret C secretData =
     ImportFromPem C (gm_index secretData caCertCertKey) (gm_index secretData caCertSecretKey)"

definition marshalKeyToPem :: "'w crypto \<Rightarrow> PrivateKey \<Rightarrow> string result" where
  "marshalKeyToPem C key = (case key of
     ECKey _ \<Rightarrow> (case c_marshal_ec C key of
        Inl err \<Rightarrow> Inl err | Inr res \<Rightarrow> Inr (c_pem_encode C ECPrivateKeyBlockType res))
   | RSAKey _ \<Rightarrow> Inr (c_pem_encode C RSAPrivateKeyBlockType (c_marshal_pkcs1 C key))
   | UnknownKey _ \<Rightarrow> Inl (Errorf ''Provider key not supported''))"

text \<open>\<open>CreatePem\<close> followed by \<open>parseSignedCertificate\<close> on the group of a new certificate.\<close>

definition CreatePem :: "'w crypto \<Rightarrow> PrivateKey \<Rightarrow> string \<Rightarrow> (string \<times> string) result" where
  "CreatePem C privKey certBytes = (case marshalKeyToPem C privKey of
     Inl err \<Rightarrow> Inl (Errorf (''Cannot marshal to PEM: '' @ ErrorText err))
   | Inr privKeyPEM \<Rightarrow> Inr (c_pem_encode C ''CERTIFICATE'' certBytes, privKeyPEM))"

definition certificate_bundle :: "'w crypto \<Rightarrow> Certificate \<Rightarrow> PrivateKey \<Rightarrow> string \<Rightarrow> CertificateGroup result" where
  "certificate_bundle C cert privKey certBytes = (case CreatePem C privKey certBytes of
     Inl err \<Rightarrow> Inl (Errorf (''Cannot encode certificate: '' @ ErrorText err))
   | Inr (certPEM, privKeyPEM) \<Rightarrow>
       (case c_parse_cert C certBytes of
          Inl err \<Rightarrow> Inl (Errorf (''Cannot parse PEM certificate: '' @ ErrorText err))
        | Inr signedCert \<Rightarrow> Inr \<lparr>cg_cert = cert, cg_signedCert = signedCert, cg_privKey = privKey,
            cg_certBytes = certBytes, cg_certPEM = certPEM, cg_PrivKeyPEM = privKeyPEM\<rparr>))"

definition GetNewKey :: "'w crypto \<Rightarrow> CertificateGroup \<Rightarrow> ('w, PrivateKey result) io" where
  "GetNewKey C c = (case cg_privKey c of
     ECKey _ \<Rightarrow> c_gen_ec C
   | RSAKey _ \<Rightarrow> c_gen_rsa C 4096
   | UnknownKey _ \<Rightarrow> ret (Inl (Errorf ''unknown algorithm to create the key'')))"

text \<open>\<open>if err != nil { return nil, fmt.Errorf(msg, err) }\<close>\<close>

definition map_err :: "(goerr \<Rightarrow> goerr) \<Rightarrow> ('w, 'a result) io \<Rightarrow> ('w, 'a result) io" where
  "map_err f m = do { r \<leftarrow> m; ret (case r of Inl e \<Rightarrow> Inl (f e) | Inr x \<Rightarrow> Inr x) }"

definition prefixed :: "string \<Rightarrow> goerr \<Rightarrow> goerr" where
  "prefixed msg err = Errorf (msg @ ErrorText err)"

definition getCACertificate :: "'w env \<Rightarrow> 'w crypto \<Rightarrow> ('w, CertificateGroup result) io" where
  "getCACertificate E C = do {
     now1 \<leftarrow> k_now E; now2 \<leftarrow> k_now E; now3 \<leftarrow> k_now E;
     let ca = empty_cert\<lparr>ce_SerialNumber := c_unix C now1,
         ce_Subject := \<lparr>sj_CommonName = [], sj_Organization = [certOrganization], sj_SerialNumber = []\<rparr>,
         ce_NotBefore := now2, ce_NotAfter := c_add_date C now3 10 0, ce_IsCA := True,
         ce_ExtKeyUsage := [ExtKeyUsageClientAuth, ExtKeyUsageServerAuth],
         ce_KeyUsage := [KeyUsageDigitalSignature, KeyUsageCertSign], ce_BasicConstraintsValid := True\<rparr>;
     try_io (map_err (\<lambda>_. Errorf ''Cannot generate CA Key'') (c_gen_ec C)) (\<lambda>caPrivKey.
     try_io (c_create_cert C ca ca (c_public C caPrivKey) caPrivKey) (\<lambda>caBytes.
     ret (certificate_bundle C ca caPrivKey caBytes)))
   }"

definition createKeyAndCSR :: "'w crypto \<Rightarrow> Certificate \<Rightarrow> CertificateGroup \<Rightarrow> ('w, CertificateGroup result) io" where
  "createKeyAndCSR C cert caCert =
     try_io (map_err (prefixed ''Cannot generate cert Key: '') (GetNewKey C caCert)) (\<lambda>certKey.
     try_io (map_err (prefixed ''cannot sign certificate: '')
       (c_create_cert C cert (cg_cert caCert) (c_public C certKey) (cg_privKey caCert))) (\<lambda>certBytes.
     ret (certificate_bundle C cert certKey certBytes)))"

definition getServerCertificate ::
  "'w env \<Rightarrow> 'w crypto \<Rightarrow> string list \<Rightarrow> bool \<Rightarrow> CertificateGroup \<Rightarrow> ('w, CertificateGroup result) io" where
  "getServerCertificate E C dnsNames localhostEnabled caCert = do {
     let ips = (if localhostEnabled then [''127.0.0.1'', ''::1''] else []);
     now1 \<leftarrow> k_now E; now2 \<leftarrow> k_now E;
     createKeyAndCSR C (empty_cert\<lparr>ce_SerialNumber := ce_SerialNumber (cg_cert caCert),
         ce_Subject := \<lparr>sj_CommonName = ''*'', sj_Organization = [certOrganization], sj_SerialNumber = []\<rparr>,
         ce_DNSNames := dnsNames, ce_IPAddresses := ips,
         ce_NotBefore := now1, ce_NotAfter := c_add_date C now2 certDefaultExpiration 0,
         ce_SubjectKeyId := [1, 2, 3, 4, 6],
         ce_ExtKeyUsage := [ExtKeyUsageClientAuth, ExtKeyUsageServerAuth],
         ce_KeyUsage := [KeyUsageDigitalSignature]\<rparr>) caCert
   }"

section \<open>caprovider\_secret.go\<close>

record CASecretProvider =
  pr_namespace :: string
  pr_latestCA :: "CertificateGroup option"

definition providerName :: string where "providerName = ''secret''"

definition NewCASecretProvider :: "string \<Rightarrow> CASecretProvider" where
  "NewCASecretProvider namespace = \<lparr>pr_namespace = namespace, pr_latestCA = None\<rparr>"

definition GetName :: "CASecretProvider \<Rightarrow> string" where
  "GetName config = providerName"

definition cert_secret :: "string \<Rightarrow> string \<Rightarrow> string \<Rightarrow> string \<Rightarrow> CertificateGroup \<Rightarrow> Secret" where
  "cert_secret ns name certKey keyKey g =
     \<lparr>sec_meta = new_meta name ns, sec_Data = Some [(certKey, cg_certPEM g), (keyKey, cg_PrivKeyPEM g)]\<rparr>"

definition GetCACertificate ::
  "'w env \<Rightarrow> 'w crypto \<Rightarrow> CASecretProvider \<Rightarrow> ('w, CertificateGroup result \<times> CASecretProvider) io" where
  "GetCACertificate E C config = do {
     r \<leftarrow> k_secret_get E (pr_namespace config) CASecretName;
     case r of
       Inr secret \<Rightarrow>
         (case NewCACertificateGroupFromSecret C (sec_Data secret) of
            Inl err \<Rightarrow> ret (Inl err, config)
          | Inr certGroup \<Rightarrow> ret (Inr certGroup, config\<lparr>pr_latestCA := Some certGroup\<rparr>))
     | Inl err \<Rightarrow>
         if \<not> IsNotFound err then ret (Inl err, config)
         else do {
           g \<leftarrow> getCACertificate E C;
           case g of
             Inl _ \<Rightarrow> ret (Inl (Errorf ''cannot create sample certificate''), config)
           | Inr certificateGroup \<Rightarrow> do {
               c \<leftarrow> k_secret_create E (cert_secret (pr_namespace config) CASecretName caCertCertKey caCertSecretKey certificateGroup);
               case c of
                 Inl err' \<Rightarrow> ret (Inl err', config)
               | Inr _ \<Rightarrow> ret (Inr certificateGroup, config\<lparr>pr_latestCA := Some certificateGroup\<rparr>)
             }
         }
   }"

definition GetServerCertificate ::
  "'w env \<Rightarrow> 'w crypto \<Rightarrow> CASecretProvider \<Rightarrow> string list \<Rightarrow> bool \<Rightarrow> ('w, CertificateGroup result \<times> CASecretProvider) io" where
  "GetServerCertificate E C config dnsNames localhostEnabled = do {
     r \<leftarrow> k_secret_get E (pr_namespace config) HostTLSCertName;
     case r of
       Inr secret \<Rightarrow> ret (case ImportFromPem C (gm_index (sec_Data secret) serverCert) (gm_index (sec_Data secret) serverSecretKey) of
           Inl err \<Rightarrow> Inl (prefixed ''cannot import server cert from configmap: '' err)
         | Inr g \<Rightarrow> Inr g, config)
     | Inl err \<Rightarrow>
         if \<not> IsNotFound err then ret (Inl (prefixed ''cannot get Host TLS cert:'' err), config)
         else do {
           (ca, config') \<leftarrow> GetCACertificate E C config;
           case ca of
             Inl err' \<Rightarrow> ret (Inl (prefixed ''cannot get Host CA TLS cert:'' err'), config')
           | Inr caCert \<Rightarrow> do {
               g \<leftarrow> getServerCertificate E C dnsNames localhostEnabled caCert;
               case g of
                 Inl err' \<Rightarrow> ret (Inl (prefixed ''cannot create host TLS cert:'' err'), config')
               | Inr cert \<Rightarrow> do {
                   c \<leftarrow> k_secret_create E (cert_secret (pr_namespace config) HostTLSCertName serverCert serverSecretKey cert);
                   ret (case c of Inl err' \<Rightarrow> Inl (prefixed ''cannot store server cert: '' err') | Inr _ \<Rightarrow> Inr cert, config')
                 }
             }
         }
   }"

definition CreateRegistrationCertificate ::
  "'w env \<Rightarrow> 'w crypto \<Rightarrow> CASecretProvider \<Rightarrow> string \<Rightarrow> ('w, string gomap result \<times> CASecretProvider) io" where
  "CreateRegistrationCertificate E C config name = do {
     (ca, config') \<leftarrow> GetCACertificate E C config;
     case ca of
       Inl _ \<Rightarrow> ret (Inl (Errorf ''Cannot retrieve caCert''), config')
     | Inr caCert \<Rightarrow> do {
         now1 \<leftarrow> k_now E; now2 \<leftarrow> k_now E;
         g \<leftarrow> createKeyAndCSR C (empty_cert\<lparr>ce_SerialNumber := ce_SerialNumber (cg_cert caCert),
             ce_Subject := \<lparr>sj_CommonName = certRegisterCN, sj_Organization = [certOrganization], sj_SerialNumber = name\<rparr>,
             ce_NotBefore := now1, ce_NotAfter := c_add_date C now2 certDefaultExpiration 0,
             ce_SubjectKeyId := [1, 2, 3, 4, 6],
             ce_ExtKeyUsage := [ExtKeyUsageClientAuth, ExtKeyUsageServerAuth],
             ce_KeyUsage := [KeyUsageDigitalSignature]\<rparr>) caCert;
         ret (case g of
             Inl err \<Rightarrow> Inl (prefixed ''Cannot sign certificate request: '' err)
           | Inr certGroup \<Rightarrow>
               (case CreatePem C (cg_privKey certGroup) (cg_certBytes certGroup) of
                  Inl err \<Rightarrow> Inl (prefixed ''Cannot encode certs: '' err)
                | Inr (certPEM, privKeyPEM) \<Rightarrow> Inr [(clientCertCertKey, certPEM), (clientCertSecretKey, privKeyPEM)]), config')
       }
   }"

definition client_cert :: "CertificateRequest \<Rightarrow> string \<Rightarrow> int \<Rightarrow> time \<Rightarrow> time \<Rightarrow> Certificate" where
  "client_cert csr commonName serial notBefore expiration =
     empty_cert\<lparr>ce_Signature := csr_Signature csr, ce_SignatureAlgorithm := csr_SignatureAlgorithm csr,
       ce_PublicKeyAlgorithm := csr_PublicKeyAlgorithm csr, ce_PublicKey := csr_PublicKey csr, ce_SerialNumber := serial,
       ce_Subject := (csr_Subject csr)\<lparr>sj_CommonName := commonName, sj_Organization := [certOrganization]\<rparr>,
       ce_NotBefore := notBefore, ce_NotAfter := expiration,
       ce_KeyUsage := [KeyUsageDigitalSignature], ce_ExtKeyUsage := [ExtKeyUsageClientAuth]\<rparr>"

definition provider_SignCSR ::
  "'w env \<Rightarrow> 'w crypto \<Rightarrow> CASecretProvider \<Rightarrow> string \<Rightarrow> string \<Rightarrow> time \<Rightarrow> ('w, string result) io" where
  "provider_SignCSR E C config csrPem commonName expiration =
     require (pr_latestCA config) (Errorf ''Cannot get CA certificate'') (\<lambda>ca.
     require (c_pem_decode C csrPem) (Errorf ''cannot decode CSR certificate'') (\<lambda>(_, bytes).
     try_io (map_err (prefixed ''cannot parse CSR: '') (ret (c_parse_csr C bytes))) (\<lambda>csr. do {
       now1 \<leftarrow> k_now E; now2 \<leftarrow> k_now E;
       try_io (map_err (prefixed ''Cannot sign certificate reques: '')
         (c_create_cert C (client_cert csr commonName (c_unix C now1) (c_add_date C now2 0 (-1)) expiration)
            (cg_cert ca) (csr_PublicKey csr) (cg_privKey ca))) (\<lambda>certBytes.
       ret (Inr (c_pem_encode C ''CERTIFICATE'' certBytes)))
     })))"

section \<open>ca.go\<close>

definition YggdrasilRegisterAuth :: int where "YggdrasilRegisterAuth = 1"
definition YggdrasilCompleteAuth :: int where "YggdrasilCompleteAuth = 0"

record TLSConfig =
  tc_caProvider :: "CASecretProvider list"
  tc_Domains :: "string list"
  tc_LocalhostEnabled :: bool
  tc_namespace :: string
  tc_clientExpirationDays :: int

definition NewMTLSConfig :: "string \<Rightarrow> string list \<Rightarrow> bool \<Rightarrow> TLSConfig" where
  "NewMTLSConfig namespace domains localhostEnabled =
     \<lparr>tc_caProvider = [NewCASecretProvider namespace], tc_Domains = domains,
      tc_LocalhostEnabled = localhostEnabled, tc_namespace = namespace, tc_clientExpirationDays = 7\<rparr>"

definition SetClientExpiration :: "TLSConfig \<Rightarrow> int \<Rightarrow> goerr option \<times> TLSConfig" where
  "SetClientExpiration conf days =
     (if days \<le> 0 then (Some (Errorf ''Cannot set 1 day expiration time''), conf)
      else (None, conf\<lparr>tc_clientExpirationDays := days\<rparr>))"

definition SetCAProvider :: "TLSConfig \<Rightarrow> CASecretProvider list \<Rightarrow> TLSConfig" where
  "SetCAProvider conf caProviders = conf\<lparr>tc_caProvider := caProviders\<rparr>"

definition SignCSR :: "'w env \<Rightarrow> 'w crypto \<Rightarrow> TLSConfig \<Rightarrow> string \<Rightarrow> string \<Rightarrow> ('w, string result) io" where
  "SignCSR E C conf csrPem commonName = (case tc_caProvider conf of
     [] \<Rightarrow> ret (Inl (Errorf ''Cannot get caProvider to sign the CSR''))
   | p # _ \<Rightarrow> do {
       now \<leftarrow> k_now E;
       provider_SignCSR E C p csrPem commonName (c_add_date C now 0 (tc_clientExpirationDays conf))
     })"

text \<open>The loop over the providers: the errors, the certificates, and the providers afterwards.\<close>

fun ca_certificates ::
  "'w env \<Rightarrow> 'w crypto \<Rightarrow> CASecretProvider list \<Rightarrow> ('w, string list \<times> CertificateGroup list \<times> CASecretProvider list) io" where
  "ca_certificates E C [] = ret ([], [], [])"
| "ca_certificates E C (p # ps) = do {
     (r, p') \<leftarrow> GetCACertificate E C p;
     (errs, certs, ps') \<leftarrow> ca_certificates E C ps;
     ret (case r of
         Inl err \<Rightarrow> ((''cannot get CA certificate for provider '' @ GetName p @ '': '' @ ErrorText err) # errs, certs, p' # ps')
       | Inr cert \<Rightarrow> (errs, cert # certs, p' # ps'))
   }"

datatype ClientAuthType = RequireAnyClientCert
datatype TLSVersion = VersionTLS13

record ServerTLS =
  tls_Certificates :: "string list"
  tls_ClientCAs :: "string list"
  tls_ClientAuth :: ClientAuthType
  tls_MinVersion :: TLSVersion

definition InitCertificates ::
  "'w env \<Rightarrow> 'w crypto \<Rightarrow> TLSConfig \<Rightarrow> ('w, (ServerTLS \<times> Certificate list) result \<times> TLSConfig) io" where
  "InitCertificates E C conf =
     (if tc_caProvider conf = [] then ret (Inl (Errorf ''no CA provider is set''), conf)
      else do {
        (errs, caCerts, providers) \<leftarrow> ca_certificates E C (tc_caProvider conf);
        let conf1 = conf\<lparr>tc_caProvider := providers\<rparr>;
        if errs \<noteq> [] then ret (Inl (Errorf (c_multierror C errs)), conf1)
        else if caCerts = [] then ret (Inl (Errorf ''cannot get any CA certificate''), conf1)
        else (case providers of
          [] \<Rightarrow> ret (Inl (Errorf ''no CA provider is set''), conf1)
        | p # ps \<Rightarrow> do {
            (r, p') \<leftarrow> GetServerCertificate E C p (tc_Domains conf) (tc_LocalhostEnabled conf);
            let conf2 = conf\<lparr>tc_caProvider := p' # ps\<rparr>;
            case r of
              Inl err \<Rightarrow> ret (Inl err, conf2)
            | Inr g \<Rightarrow>
                (case c_keypair C (cg_certPEM g) (cg_PrivKeyPEM g) of
                   Inl err \<Rightarrow> ret (Inl (prefixed ''Cannot create server certfificate: '' err), conf2)
                 | Inr certificate \<Rightarrow>
                     ret (Inr (\<lparr>tls_Certificates = [certificate], tls_ClientCAs = map cg_certPEM caCerts,
                               tls_ClientAuth = RequireAnyClientCert, tls_MinVersion = VersionTLS13\<rparr>,
                              map cg_cert caCerts), conf2))
          })
      })"

definition CreateRegistrationClientCerts ::
  "'w env \<Rightarrow> 'w crypto \<Rightarrow> TLSConfig \<Rightarrow> ('w, goerr option \<times> TLSConfig) io" where
  "CreateRegistrationClientCerts E C conf = (case tc_caProvider conf of
     [] \<Rightarrow> ret (Some (Errorf ''Cannot get ca provider''), conf)
   | p # ps \<Rightarrow> do {
       suffix \<leftarrow> k_rand E 10;
       let name = ''reg-client-ca'' @ ''-'' @ suffix;
       (r, p') \<leftarrow> CreateRegistrationCertificate E C p name;
       let conf' = conf\<lparr>tc_caProvider := p' # ps\<rparr>;
       case r of
         Inl _ \<Rightarrow> ret (Some (Errorf ''Cannot create client certificate''), conf')
       | Inr certData \<Rightarrow> do {
           c \<leftarrow> k_secret_create E \<lparr>sec_meta = (new_meta name (tc_namespace conf))
                  \<lparr>om_Labels := Some [(''reg-client-ca'', ''true'')]\<rparr>, sec_Data = Some certData\<rparr>;
           ret (err_of c, conf')
         }
     })"

fun isClientCertificateSigned :: "'w crypto \<Rightarrow> Certificate list \<Rightarrow> Certificate list \<Rightarrow> bool" where
  "isClientCertificateSigned C [] caChain = False"
| "isClientCertificateSigned C (cert # peers) caChain =
     (if list_ex (\<lambda>caCert. c_check_signature C cert caCert) caChain then True
      else isClientCertificateSigned C peers caChain)"

fun verify_all :: "'w crypto \<Rightarrow> VerifyOptions \<Rightarrow> Certificate list \<Rightarrow> bool" where
  "verify_all C verifyOpts [] = True"
| "verify_all C verifyOpts (cert # peers) =
     (if sj_CommonName (ce_Subject cert) = certRegisterCN then False
      else if \<not> c_verify C verifyOpts cert then False
      else verify_all C verifyOpts peers)"

definition VerifyRequest :: "'w crypto \<Rightarrow> Certificate list \<Rightarrow> int \<Rightarrow> VerifyOptions \<Rightarrow> Certificate list \<Rightarrow> bool" where
  "VerifyRequest C peerCertificates verifyType verifyOpts caCertChain =
     (if peerCertificates = [] then False
      else if verifyType = YggdrasilRegisterAuth then isClientCertificateSigned C peerCertificates caCertChain
      else verify_all C verifyOpts peerCertificates)"

section \<open>Checking client certificates\<close>

lemma isClientCertificateSigned_iff:
  "isClientCertificateSigned C peers chain \<longleftrightarrow> (\<exists>c\<in>set peers. \<exists>ca\<in>set chain. c_check_signature C c ca)"
  by (induction peers) (auto simp: list_ex_iff)

lemma verify_all_iff:
  "verify_all C opts peers \<longleftrightarrow> (\<forall>c\<in>set peers. c_verify C opts c \<and> sj_CommonName (ce_Subject c) \<noteq> certRegisterCN)"
  by (induction peers) auto

section \<open>Signing\<close>

lemma run_map_err:
  "run_state (map_err f m) w = (Inr x, w') \<longleftrightarrow> run_state m w = (Inr x, w')"
  by (auto simp: map_err_def split: prod.splits sum.splits)

lemma run_try_Inr:
  "run_state (try_io m f) w = (Inr y, w') \<longleftrightarrow> (\<exists>x w1. run_state m w = (Inr x, w1) \<and> run_state (f x) w1 = (Inr y, w'))"
  by (auto simp: try_io_def split: prod.splits sum.splits)

text \<open>A certificate that was asked of the signer for a device: its subject names the device and the
  operator, whatever the request said, and it can only be used by a client.\<close>

definition device_certificate :: "string \<Rightarrow> CertificateRequest \<Rightarrow> time \<Rightarrow> Certificate \<Rightarrow> bool" where
  "device_certificate cn csr expiration t \<longleftrightarrow>
     sj_CommonName (ce_Subject t) = cn \<and> sj_Organization (ce_Subject t) = [certOrganization] \<and>
     ce_PublicKey t = csr_PublicKey csr \<and> ce_NotAfter t = expiration \<and> \<not> ce_IsCA t \<and>
     ce_ExtKeyUsage t = [ExtKeyUsageClientAuth] \<and> ce_KeyUsage t = [KeyUsageDigitalSignature]"

lemma provider_SignCSR_Inr:
  assumes "run_state (provider_SignCSR E C p pem cn expiration) w = (Inr out, w')"
  shows "\<exists>ca ty bytes csr t w1 certBytes. pr_latestCA p = Some ca \<and> c_pem_decode C pem = Some (ty, bytes) \<and>
    c_parse_csr C bytes = Inr csr \<and> device_certificate cn csr expiration t \<and>
    run_state (c_create_cert C t (cg_cert ca) (csr_PublicKey csr) (cg_privKey ca)) w1 = (Inr certBytes, w') \<and>
    out = c_pem_encode C ''CERTIFICATE'' certBytes"
proof -
  obtain ca where ca: "pr_latestCA p = Some ca"
    using assms by (cases "pr_latestCA p") (auto simp: provider_SignCSR_def)
  obtain ty bytes where pem: "c_pem_decode C pem = Some (ty, bytes)"
    using assms ca by (cases "c_pem_decode C pem") (auto simp: provider_SignCSR_def)
  have run: "run_state (try_io (map_err (prefixed ''cannot parse CSR: '') (ret (c_parse_csr C bytes))) (\<lambda>csr. do {
       now1 \<leftarrow> k_now E; now2 \<leftarrow> k_now E;
       try_io (map_err (prefixed ''Cannot sign certificate reques: '')
         (c_create_cert C (client_cert csr cn (c_unix C now1) (c_add_date C now2 0 (-1)) expiration)
            (cg_cert ca) (csr_PublicKey csr) (cg_privKey ca))) (\<lambda>certBytes.
       ret (Inr (c_pem_encode C ''CERTIFICATE'' certBytes)))
     })) w = (Inr out, w')"
    using assms unfolding provider_SignCSR_def ca pem by simp
  obtain now1 wa where n1: "run_state (k_now E) w = (now1, wa)" by (cases "run_state (k_now E) w")
  obtain now2 wb where n2: "run_state (k_now E) wa = (now2, wb)" by (cases "run_state (k_now E) wa")
  from run obtain csr certBytes where c: "c_parse_csr C bytes = Inr csr"
    "run_state (c_create_cert C (client_cert csr cn (c_unix C now1) (c_add_date C now2 0 (-1)) expiration)
            (cg_cert ca) (csr_PublicKey csr) (cg_privKey ca)) wb = (Inr certBytes, w')"
    "out = c_pem_encode C ''CERTIFICATE'' certBytes"
    by (auto simp: run_try_Inr run_map_err n1 n2)
  moreover have "device_certificate cn csr expiration (client_cert csr cn (c_unix C now1) (c_add_date C now2 0 (-1)) expiration)"
    by (simp add: device_certificate_def client_cert_def empty_cert_def)
  ultimately show ?thesis using ca pem by blast
qed

lemma SignCSR_Inr:
  assumes "run_state (SignCSR E C conf pem cn) w = (Inr out, w')"
  shows "\<exists>p ps ca ty bytes csr t w1 w2 now certBytes. tc_caProvider conf = p # ps \<and> pr_latestCA p = Some ca \<and>
    run_state (k_now E) w = (now, w1) \<and>
    c_pem_decode C pem = Some (ty, bytes) \<and> c_parse_csr C bytes = Inr csr \<and>
    device_certificate cn csr (c_add_date C now 0 (tc_clientExpirationDays conf)) t \<and>
    run_state (c_create_cert C t (cg_cert ca) (csr_PublicKey csr) (cg_privKey ca)) w2 = (Inr certBytes, w') \<and>
    out = c_pem_encode C ''CERTIFICATE'' certBytes"
proof -
  obtain p ps where p: "tc_caProvider conf = p # ps"
    using assms by (cases "tc_caProvider conf") (auto simp: SignCSR_def)
  obtain now w1 where now: "run_state (k_now E) w = (now, w1)" by (cases "run_state (k_now E) w")
  have "run_state (provider_SignCSR E C p pem cn (c_add_date C now 0 (tc_clientExpirationDays conf))) w1 = (Inr out, w')"
    using assms p now by (simp add: SignCSR_def)
  from provider_SignCSR_Inr [OF this] p now show ?thesis by blast
qed

section \<open>The CA survives a restart\<close>

text \<open>What is used of \<open>encoding/pem\<close> and of the key encodings: decoding inverts encoding.\<close>

definition pem_laws :: "'w crypto \<Rightarrow> bool" where
  "pem_laws C \<longleftrightarrow> (\<forall>t b. c_pem_decode C (c_pem_encode C t b) = Some (t, b)) \<and>
     (\<forall>k b. c_marshal_ec C (ECKey k) = Inr b \<longrightarrow> c_parse_ec C b = Inr (ECKey k)) \<and>
     (\<forall>k. c_parse_pkcs1 C (c_marshal_pkcs1 C (RSAKey k)) = Inr (RSAKey k))"

lemma decode_marshalled_key:
  "pem_laws C \<Longrightarrow> marshalKeyToPem C key = Inr pem \<Longrightarrow> decodePrivKeyFromPEM C pem = Inr key"
  by (cases key) (auto simp: marshalKeyToPem_def decodePrivKeyFromPEM_def pem_laws_def
      ECPrivateKeyBlockType_def RSAPrivateKeyBlockType_def split: sum.splits)

lemma certificate_bundle_Inr:
  assumes "certificate_bundle C cert key bytes = Inr g"
  shows "marshalKeyToPem C key = Inr (cg_PrivKeyPEM g)" "cg_certPEM g = c_pem_encode C ''CERTIFICATE'' bytes"
    "c_parse_cert C bytes = Inr (cg_signedCert g)" "cg_privKey g = key"
  using assms by (auto simp: certificate_bundle_def CreatePem_def split: sum.splits)

lemma cert_secret_lookup:
  "gm_index (sec_Data (cert_secret ns n caCertCertKey caCertSecretKey g)) caCertCertKey = cg_certPEM g"
  "gm_index (sec_Data (cert_secret ns n caCertCertKey caCertSecretKey g)) caCertSecretKey = cg_PrivKeyPEM g"
  by (simp_all add: cert_secret_def gm_index_def caCertCertKey_def caCertSecretKey_def)

section \<open>The cached CA\<close>

lemma GetCACertificate_caches:
  "wp (GetCACertificate E C p) (\<lambda>(r, p') _. (\<forall>g. r = Inr g \<longrightarrow> pr_latestCA p' = Some g) \<and>
      (pr_latestCA p \<noteq> None \<longrightarrow> pr_latestCA p' \<noteq> None)) w"
  by (auto simp: GetCACertificate_def wp_def split: prod.splits sum.splits)

lemma GetServerCertificate_caches:
  "pr_latestCA p \<noteq> None \<Longrightarrow> wp (GetServerCertificate E C p dns loc) (\<lambda>(r, p') _. pr_latestCA p' \<noteq> None) w"
  unfolding GetServerCertificate_def wp_bind
proof (rule wp_intro, goal_cases)
  case (1 r w1)
  show ?case
  proof (cases r)
    case (Inr s)
    with 1 show ?thesis by simp
  next
    case (Inl e)
    show ?thesis
    proof (cases "IsNotFound e")
      case False
      with Inl 1 show ?thesis by simp
    next
      case True
      have "wp (GetCACertificate E C p) (\<lambda>(r, p') _. pr_latestCA p' \<noteq> None) w1"
        by (rule wp_conseq [OF GetCACertificate_caches]) (use 1 in auto)
      with Inl True show ?thesis
        by simp (erule wp_conseq, auto simp: wp_def split: prod.splits sum.splits)
    qed
  qed
qed

lemma ca_certificates_caches:
  "wp (ca_certificates E C ps) (\<lambda>(errs, certs, ps') _. length ps' = length ps \<and>
      (errs = [] \<longrightarrow> (\<forall>p\<in>set ps'. pr_latestCA p \<noteq> None) \<and> length certs = length ps)) w"
proof (induction ps arbitrary: w)
  case (Cons p ps)
  show ?case
  proof (simp, rule wp_conseq [OF GetCACertificate_caches], goal_cases)
    case (1 rp w1)
    obtain r p' where rp: "rp = (r, p')" by (cases rp)
    show ?case unfolding rp
      by (simp, rule wp_conseq [OF Cons.IH]) (use 1 rp in \<open>auto split: sum.splits\<close>)
  qed
qed simp

lemma InitCertificates_caches:
  "wp (InitCertificates E C conf) (\<lambda>(r, conf') _. \<forall>x. r = Inr x \<longrightarrow>
      (\<exists>p ps. tc_caProvider conf' = p # ps \<and> pr_latestCA p \<noteq> None) \<and> length (snd x) = length (tc_caProvider conf) \<and>
      tc_clientExpirationDays conf' = tc_clientExpirationDays conf) w"
proof (cases "tc_caProvider conf = []")
  case True
  then show ?thesis by (simp add: InitCertificates_def)
next
  case False
  show ?thesis
    unfolding InitCertificates_def if_not_P [OF False] wp_bind
  proof (rule wp_conseq [OF ca_certificates_caches], goal_cases)
    case (1 x w1)
    obtain errs certs ps where x: "x = (errs, certs, ps)" by (cases x) auto
    show ?case
    proof (cases "errs = [] \<and> certs \<noteq> []")
      case False
      then show ?thesis unfolding x by (auto simp: Let_def)
    next
      case True
      with 1 x False obtain p ps1 where ps: "ps = p # ps1" "pr_latestCA p \<noteq> None" "length certs = length (tc_caProvider conf)"
        by (cases ps) auto
      have "wp (GetServerCertificate E C p (tc_Domains conf) (tc_LocalhostEnabled conf)) (\<lambda>(r, p') _. pr_latestCA p' \<noteq> None) w1"
        by (rule GetServerCertificate_caches [OF ps(2)])
      then show ?thesis
        using True ps unfolding x
        by (simp add: Let_def) (erule wp_conseq, auto simp: wp_def split: sum.splits)
    qed
  qed
qed

section \<open>Properties\<close>

text \<open>C26: a request outside the registration endpoint passes exactly when the peer sent a
  certificate and every certificate it sent verifies and is not a registration certificate; at the
  registration endpoint it is enough that some certificate of the peer, not necessarily the one
  whose key it holds, carries the signature of a CA, expired or not.\<close>

theorem VerifyRequest_iff:
  "(VerifyRequest C peers YggdrasilCompleteAuth opts chain \<longleftrightarrow>
      peers \<noteq> [] \<and> (\<forall>c\<in>set peers. c_verify C opts c \<and> sj_CommonName (ce_Subject c) \<noteq> certRegisterCN)) \<and>
   (VerifyRequest C peers YggdrasilRegisterAuth opts chain \<longleftrightarrow>
      (\<exists>c\<in>set peers. \<exists>ca\<in>set chain. c_check_signature C c ca))"
  by (auto simp: VerifyRequest_def YggdrasilCompleteAuth_def YggdrasilRegisterAuth_def verify_all_iff
      isClientCertificateSigned_iff)

definition toy_crypto :: "mem crypto" where
  "toy_crypto = \<lparr>c_pem_decode = (\<lambda>s. let n = length (takeWhile (\<lambda>c. c = CHR ''n'') s); r = drop (Suc n) s
       in if s = [] then None else Some (take n r, drop n r)),
     c_pem_encode = (\<lambda>t b. replicate (length t) (CHR ''n'') @ CHR ''-'' # t @ b),
     c_parse_cert = (\<lambda>b. Inr (empty_cert\<lparr>ce_PublicKey := b\<rparr>)),
     c_parse_csr = (\<lambda>b. Inr \<lparr>csr_Subject = \<lparr>sj_CommonName = ''other'', sj_Organization = [], sj_SerialNumber = []\<rparr>,
        csr_Signature = [], csr_SignatureAlgorithm = [], csr_PublicKeyAlgorithm = [], csr_PublicKey = b\<rparr>),
     c_parse_ec = (\<lambda>b. Inr (ECKey b)), c_parse_pkcs1 = (\<lambda>b. Inr (RSAKey b)),
     c_marshal_ec = (\<lambda>k. case k of ECKey b \<Rightarrow> Inr b | _ \<Rightarrow> Inl (Errorf ''not an EC key'')),
     c_marshal_pkcs1 = (\<lambda>k. case k of RSAKey b \<Rightarrow> b | _ \<Rightarrow> []),
     c_gen_ec = ret (Inr (ECKey ''k'')), c_gen_rsa = (\<lambda>_. ret (Inr (RSAKey ''k''))), c_public = (\<lambda>_. ''p''),
     c_create_cert = (\<lambda>t p k s. ret (Inr (sj_CommonName (ce_Subject t)))),
     c_check_signature = (\<lambda>c ca. True), c_verify = (\<lambda>opts c. ExtKeyUsageServerAuth \<notin> set (vo_KeyUsages opts)), c_keypair = (\<lambda>a b. Inr a),
     c_add_date = (\<lambda>t y d. t + 365 * y + d), c_unix = (\<lambda>t. t), c_multierror = concat\<rparr>"

definition no_opts :: VerifyOptions where
  "no_opts = \<lparr>vo_Roots = [], vo_Intermediates = [], vo_KeyUsages = []\<rparr>"

theorem VerifyRequest_iff_witness:
  "VerifyRequest toy_crypto [empty_cert] YggdrasilCompleteAuth no_opts [] \<and>
   \<not> VerifyRequest toy_crypto [empty_cert] YggdrasilRegisterAuth no_opts []"
  using VerifyRequest_iff [of toy_crypto "[empty_cert]" no_opts "[]"]
  by (simp add: toy_crypto_def empty_cert_def certRegisterCN_def no_opts_def)

text \<open>C27: whatever subject a certificate request carries, the certificate the operator asks its CA
  to sign names the device it is meant for, belongs to the operator's organisation, uses the
  requested key, expires after the configured number of days and is for clients only; the answer is
  the PEM encoding of the signed bytes.\<close>

theorem SignCSR_names_device:
  assumes "run_state (SignCSR E C conf pem cn) w = (Inr out, w')"
  shows "\<exists>p ps ca ty bytes csr t w1 w2 now certBytes. tc_caProvider conf = p # ps \<and> pr_latestCA p = Some ca \<and>
    run_state (k_now E) w = (now, w1) \<and>
    c_pem_decode C pem = Some (ty, bytes) \<and> c_parse_csr C bytes = Inr csr \<and>
    device_certificate cn csr (c_add_date C now 0 (tc_clientExpirationDays conf)) t \<and>
    run_state (c_create_cert C t (cg_cert ca) (csr_PublicKey csr) (cg_privKey ca)) w2 = (Inr certBytes, w') \<and>
    out = c_pem_encode C ''CERTIFICATE'' certBytes"
  by (rule SignCSR_Inr [OF assms])

theorem SignCSR_names_device_witness:
  "\<exists>csr t. c_parse_csr toy_crypto ''x'' = Inr csr \<and> device_certificate ''dev'' csr 8 t \<and>
     sj_CommonName (csr_Subject csr) = ''other''"
proof -
  let ?g = "\<lparr>cg_cert = empty_cert, cg_signedCert = empty_cert, cg_privKey = ECKey ''k'', cg_certBytes = [],
    cg_certPEM = [], cg_PrivKeyPEM = []\<rparr>"
  let ?conf = "(NewMTLSConfig ''ns'' [] True)\<lparr>tc_caProvider := [\<lparr>pr_namespace = ''ns'', pr_latestCA = Some ?g\<rparr>]\<rparr>"
  have "run_state (SignCSR mem_env toy_crypto ?conf ''-x'' ''dev'') empty_mem = (Inr (''nnnnnnnnnnn-CERTIFICATEdev''), empty_mem\<lparr>m_clock := 4\<rparr>)"
    by (simp add: SignCSR_def provider_SignCSR_def NewMTLSConfig_def NewCASecretProvider_def toy_crypto_def mem_env_def empty_mem_def
        try_io_def map_err_def client_cert_def empty_cert_def)
  from SignCSR_names_device [OF this] show ?thesis
    by (auto simp: toy_crypto_def NewMTLSConfig_def NewCASecretProvider_def mem_env_def empty_mem_def)
qed

text \<open>C28: the CA (key and certificate) that was created and stored in the secret is the CA that is
  loaded from the secret at the next start, so that certificates signed before stay valid.\<close>

theorem CA_secret_roundtrip:
  assumes "pem_laws C" and "certificate_bundle C cert key bytes = Inr g"
  shows "\<exists>g'. NewCACertificateGroupFromSecret C
            (sec_Data (cert_secret ns CASecretName caCertCertKey caCertSecretKey g)) = Inr g' \<and>
          cg_privKey g' = key \<and> cg_signedCert g' = cg_signedCert g \<and> cg_cert g' = cg_signedCert g \<and>
          cg_certPEM g' = cg_certPEM g \<and> cg_PrivKeyPEM g' = cg_PrivKeyPEM g"
proof -
  note b = certificate_bundle_Inr [OF assms(2)]
  have "c_pem_decode C (cg_certPEM g) = Some (''CERTIFICATE'', bytes)"
    using assms(1) b(2) by (simp add: pem_laws_def)
  with b decode_marshalled_key [OF assms(1) b(1)] show ?thesis
    by (simp add: NewCACertificateGroupFromSecret_def ImportFromPem_def cert_secret_lookup)
qed

lemma takeWhile_replicate_append: "x \<noteq> y \<Longrightarrow> takeWhile (\<lambda>c. c = x) (replicate n x @ y # ys) = replicate n x"
  by (induction n) auto

lemma toy_pem_laws: "pem_laws toy_crypto"
  by (simp add: pem_laws_def toy_crypto_def Let_def takeWhile_replicate_append)

theorem CA_secret_roundtrip_witness:
  "\<exists>g g'. certificate_bundle toy_crypto empty_cert (ECKey ''k'') ''c'' = Inr g \<and>
     NewCACertificateGroupFromSecret toy_crypto
       (sec_Data (cert_secret ''ns'' CASecretName caCertCertKey caCertSecretKey g)) = Inr g' \<and> cg_privKey g' = ECKey ''k''"
proof -
  obtain g where g: "certificate_bundle toy_crypto empty_cert (ECKey ''k'') ''c'' = Inr g"
    by (simp add: certificate_bundle_def CreatePem_def marshalKeyToPem_def toy_crypto_def)
  from CA_secret_roundtrip [OF toy_pem_laws g] g show ?thesis by blast
qed

text \<open>C29: once the certificates of the server were initialised without error, the CA that signs the
  requests of devices is in place, and the chain against which peers are checked has one
  certificate per provider.\<close>

theorem InitCertificates_ready:
  assumes "run_state (InitCertificates E C conf) w = ((Inr x, conf'), w')"
  shows "(\<exists>p ps. tc_caProvider conf' = p # ps \<and> pr_latestCA p \<noteq> None) \<and> length (snd x) = length (tc_caProvider conf) \<and>
         tc_clientExpirationDays conf' = tc_clientExpirationDays conf"
  using wp_elim [OF InitCertificates_caches assms] by (cases x) auto

text \<open>A cluster in which an earlier start left the secrets of the CA and of the server.\<close>

definition restarted_mem :: mem where
  "restarted_mem = (let key = ''nnnnnnnnnnnnnn-EC PRIVATE KEYk'' in empty_mem\<lparr>m_secrets :=
     [\<lparr>sec_meta = new_meta CASecretName ''ns'', sec_Data = Some [(caCertCertKey, ''-c''), (caCertSecretKey, key)]\<rparr>,
      \<lparr>sec_meta = new_meta HostTLSCertName ''ns'', sec_Data = Some [(serverCert, ''-s''), (serverSecretKey, key)]\<rparr>]\<rparr>)"

lemma restarted_secrets:
  "\<exists>s. run_state (k_secret_get mem_env ''ns'' CASecretName) restarted_mem = (Inr s, restarted_mem) \<and>
     (\<exists>g. NewCACertificateGroupFromSecret toy_crypto (sec_Data s) = Inr g)"
  "\<exists>s. run_state (k_secret_get mem_env ''ns'' HostTLSCertName) restarted_mem = (Inr s, restarted_mem) \<and>
     (\<exists>g. ImportFromPem toy_crypto (gm_index (sec_Data s) serverCert) (gm_index (sec_Data s) serverSecretKey) = Inr g)"
  by (simp_all add: restarted_mem_def Let_def mem_env_def mem_get_def api_call_def empty_mem_def mem_find_def
      new_meta_def meta_key_def CASecretName_def HostTLSCertName_def NewCACertificateGroupFromSecret_def
      ImportFromPem_def decodePrivKeyFromPEM_def gm_index_def toy_crypto_def ECPrivateKeyBlockType_def
      caCertCertKey_def caCertSecretKey_def serverCert_def serverSecretKey_def)

theorem InitCertificates_ready_witness:
  "\<exists>x conf' w'. run_state (InitCertificates mem_env toy_crypto (NewMTLSConfig ''ns'' [] True)) restarted_mem = ((Inr x, conf'), w') \<and>
     length (snd x) = 1"
proof -
  obtain s g where ca: "run_state (k_secret_get mem_env ''ns'' CASecretName) restarted_mem = (Inr s, restarted_mem)"
    "NewCACertificateGroupFromSecret toy_crypto (sec_Data s) = Inr g" using restarted_secrets(1) by blast
  obtain s' g' where host: "run_state (k_secret_get mem_env ''ns'' HostTLSCertName) restarted_mem = (Inr s', restarted_mem)"
    "ImportFromPem toy_crypto (gm_index (sec_Data s') serverCert) (gm_index (sec_Data s') serverSecretKey) = Inr g'"
    using restarted_secrets(2) by blast
  have keypair: "c_keypair toy_crypto a b = Inr a" for a b by (simp add: toy_crypto_def)
  have "\<exists>x conf' w'. run_state (InitCertificates mem_env toy_crypto (NewMTLSConfig ''ns'' [] True)) restarted_mem = ((Inr x, conf'), w')"
    by (simp add: InitCertificates_def NewMTLSConfig_def NewCASecretProvider_def GetCACertificate_def GetServerCertificate_def Let_def ca host keypair)
  then obtain x conf' w' where
    run: "run_state (InitCertificates mem_env toy_crypto (NewMTLSConfig ''ns'' [] True)) restarted_mem = ((Inr x, conf'), w')" by blast
  from InitCertificates_ready [OF run] run show ?thesis by (auto simp: NewMTLSConfig_def NewCASecretProvider_def)
qed

end
