(* ===== verification/Rest_Api.thy ===== *)
theory Rest_Api
  imports Kube
begin

text \<open>
  The HTTP layer generated from \<open>swagger.yaml\<close>: the responses of the four operations
  (\<open>restapi/operations/yggdrasil/*_responses.go\<close>), the binding of their parameters
  (\<open>*_parameters.go\<close>), the URL builders (\<open>*_urlbuilder.go\<close>), the table of handlers
  (\<open>restapi/operations/flotta_management_api.go\<close>) and the readers of the client library
  (\<open>client/yggdrasil/*_responses.go\<close>).

  The JSON producer and consumer and the string formats are third-party code: they are arguments.
  A \<open>runtime.Consumer\<close> that meets the end of the body returns \<open>io.EOF\<close>.
\<close>

section \<open>Responses\<close>

datatype GetControlMessageForDeviceResponse =
    GetControlMessageForDeviceOK "Message option"
  | GetControlMessageForDeviceUnauthorized
  | GetControlMessageForDeviceForbidden
  | GetControlMessageForDeviceNotFound
  | GetControlMessageForDeviceInternalServerError

datatype GetDataMessageForDeviceResponse =
    GetDataMessageForDeviceOK "Message option"
  | GetDataMessageForDeviceUnauthorized
  | GetDataMessageForDeviceForbidden
  | GetDataMessageForDeviceNotFound
  | GetDataMessageForDeviceInternalServerError

datatype PostControlMessageForDeviceResponse =
    PostControlMessageForDeviceOK
  | PostControlMessageForDeviceUnauthorized
  | PostControlMessageForDeviceForbidden
  | PostControlMessageForDeviceNotFound
  | PostControlMessageForDeviceInternalServerError

datatype PostDataMessageForDeviceResponse =
    PostDataMessageForDeviceOK "MessageResponse option"
  | PostDataMessageForDeviceBadRequest
  | PostDataMessageForDeviceUnauthorized
  | PostDataMessageForDeviceForbidden
  | PostDataMessageForDeviceNotFound
  | PostDataMessageForDeviceInternalServerError

text \<open>An \<open>http.ResponseWriter\<close>: only the first \<open>WriteHeader\<close> counts.\<close>

record ResponseWriter =
  rw_ContentType :: "string option"
  rw_Code :: "int option"
  rw_Body :: string

definition WriteHeader :: "int \<Rightarrow> ResponseWriter \<Rightarrow> ResponseWriter" where
  "WriteHeader code rw = (if rw_Code rw = None then rw\<lparr>rw_Code := Some code\<rparr> else rw)"

definition write_payload ::
  "('p \<Rightarrow> string result) \<Rightarrow> 'p option \<Rightarrow> ResponseWriter \<Rightarrow> ResponseWriter outcome" where
  "write_payload produce payload rw = (case payload of
     None \<Rightarrow> Done rw
   | Some p \<Rightarrow> (case produce p of
       Inl err \<Rightarrow> Panic (ErrorText err)
     | Inr text \<Rightarrow> Done (rw\<lparr>rw_Body := rw_Body rw @ text\<rparr>)))"

definition write_empty :: "int \<Rightarrow> ResponseWriter \<Rightarrow> ResponseWriter outcome" where
  "write_empty code rw = Done (WriteHeader code (rw\<lparr>rw_ContentType := None\<rparr>))"

fun GetControlMessageForDevice_WriteResponse ::
  "(Message \<Rightarrow> string result) \<Rightarrow> GetControlMessageForDeviceResponse \<Rightarrow> ResponseWriter \<Rightarrow> ResponseWriter outcome" where
  "GetControlMessageForDevice_WriteResponse produce (GetControlMessageForDeviceOK payload) rw =
     write_payload produce payload (WriteHeader 200 rw)"
| "GetControlMessageForDevice_WriteResponse produce GetControlMessageForDeviceUnauthorized rw = write_empty 401 rw"
| "GetControlMessageForDevice_WriteResponse produce GetControlMessageForDeviceForbidden rw = write_empty 403 rw"
| "GetControlMessageForDevice_WriteResponse produce GetControlMessageForDeviceNotFound rw = write_empty 404 rw"
| "GetControlMessageForDevice_WriteResponse produce GetControlMessageForDeviceInternalServerError rw = write_empty 500 rw"

fun GetDataMessageForDevice_WriteResponse ::
  "(Message \<Rightarrow> string result) \<Rightarrow> GetDataMessageForDeviceResponse \<Rightarrow> ResponseWriter \<Rightarrow> ResponseWriter outcome" where
  "GetDataMessageForDevice_WriteResponse produce (GetDataMessageForDeviceOK payload) rw =
     write_payload produce payload (WriteHeader 200 rw)"
| "GetDataMessageForDevice_WriteResponse produce GetDataMessageForDeviceUnauthorized rw = write_empty 401 rw"
| "GetDataMessageForDevice_WriteResponse produce GetDataMessageForDeviceForbidden rw = write_empty 403 rw"
| "GetDataMessageForDevice_WriteResponse produce GetDataMessageForDeviceNotFound rw = write_empty 404 rw"
| "GetDataMessageForDevice_WriteResponse produce GetDataMessageForDeviceInternalServerError rw = write_empty 500 rw"

fun PostControlMessageForDevice_WriteResponse ::
  "PostControlMessageForDeviceResponse \<Rightarrow> ResponseWriter \<Rightarrow> ResponseWriter outcome" where
  "PostControlMessageForDevice_WriteResponse PostControlMessageForDeviceOK rw = write_empty 200 rw"
| "PostControlMessageForDevice_WriteResponse PostControlMessageForDeviceUnauthorized rw = write_empty 401 rw"
| "PostControlMessageForDevice_WriteResponse PostControlMessageForDeviceForbidden rw = write_empty 403 rw"
| "PostControlMessageForDevice_WriteResponse PostControlMessageForDeviceNotFound rw = write_empty 404 rw"
| "PostControlMessageForDevice_WriteResponse PostControlMessageForDeviceInternalServerError rw = write_empty 500 rw"

fun PostDataMessageForDevice_WriteResponse ::
  "(MessageResponse \<Rightarrow> string result) \<Rightarrow> PostDataMessageForDeviceResponse \<Rightarrow> ResponseWriter \<Rightarrow> ResponseWriter outcome" where
  "PostDataMessageForDevice_WriteResponse produce (PostDataMessageForDeviceOK payload) rw =
     write_payload produce payload (WriteHeader 200 rw)"
| "PostDataMessageForDevice_WriteResponse produce PostDataMessageForDeviceBadRequest rw = write_empty 400 rw"
| "PostDataMessageForDevice_WriteResponse produce PostDataMessageForDeviceUnauthorized rw = write_empty 401 rw"
| "PostDataMessageForDevice_WriteResponse produce PostDataMessageForDeviceForbidden rw = write_empty 403 rw"
| "PostDataMessageForDevice_WriteResponse produce PostDataMessageForDeviceNotFound rw = write_empty 404 rw"
| "PostDataMessageForDevice_WriteResponse produce PostDataMessageForDeviceInternalServerError rw = write_empty 500 rw"

section \<open>The readers of the client\<close>

datatype 'p consumed = Consumed 'p | ConsumedEOF | ConsumeError goerr

text \<open>The error of a reader: the body could not be read, the server answered with a declared error
  status (the response is the error), or with a status that is not declared.\<close>

datatype 'r read_error = ReadFailed goerr | StatusError 'r | UnknownStatus int

definition read_payload :: "'p \<Rightarrow> (string \<Rightarrow> 'p consumed) \<Rightarrow> string \<Rightarrow> 'p result" where
  "read_payload zero consume body = (case consume body of
     ConsumeError err \<Rightarrow> Inl err
   | ConsumedEOF \<Rightarrow> Inr zero
   | Consumed p \<Rightarrow> Inr p)"

definition read_ok :: "('p option \<Rightarrow> 'r) \<Rightarrow> 'p result \<Rightarrow> 'r read_error + 'r" where
  "read_ok ok r = (case r of Inl err \<Rightarrow> Inl (ReadFailed err) | Inr p \<Rightarrow> Inr (ok (Some p)))"

definition GetControlMessageForDevice_ReadResponse ::
  "(string \<Rightarrow> Message consumed) \<Rightarrow> int \<Rightarrow> string \<Rightarrow>
   GetControlMessageForDeviceResponse read_error + GetControlMessageForDeviceResponse" where
  "GetControlMessageForDevice_ReadResponse consume code body =
     (if code = 200 then read_ok GetControlMessageForDeviceOK (read_payload empty_message consume body)
      else if code = 401 then Inl (StatusError GetControlMessageForDeviceUnauthorized)
      else if code = 403 then Inl (StatusError GetControlMessageForDeviceForbidden)
      else if code = 404 then Inl (StatusError GetControlMessageForDeviceNotFound)
      else if code = 500 then Inl (StatusError GetControlMessageForDeviceInternalServerError)
      else Inl (UnknownStatus code))"

definition GetDataMessageForDevice_ReadResponse ::
  "(string \<Rightarrow> Message consumed) \<Rightarrow> int \<Rightarrow> string \<Rightarrow>
   GetDataMessageForDeviceResponse read_error + GetDataMessageForDeviceResponse" where
  "GetDataMessageForDevice_ReadResponse consume code body =
     (if code = 200 then read_ok GetDataMessageForDeviceOK (read_payload empty_message consume body)
      else if code = 401 then Inl (StatusError GetDataMessageForDeviceUnauthorized)
      else if code = 403 then Inl (StatusError GetDataMessageForDeviceForbidden)
      else if code = 404 then Inl (StatusError GetDataMessageForDeviceNotFound)
      else if code = 500 then Inl (StatusError GetDataMessageForDeviceInternalServerError)
      else Inl (UnknownStatus code))"

definition PostControlMessageForDevice_ReadResponse ::
  "int \<Rightarrow> string \<Rightarrow> PostControlMessageForDeviceResponse read_error + PostControlMessageForDeviceResponse" where
  "PostControlMessageForDevice_ReadResponse code body =
     (if code = 200 then Inr PostControlMessageForDeviceOK
      else if code = 401 then Inl (StatusError PostControlMessageForDeviceUnauthorized)
      else if code = 403 then Inl (StatusError PostControlMessageForDeviceForbidden)
      else if code = 404 then Inl (StatusError PostControlMessageForDeviceNotFound)
      else if code = 500 then Inl (StatusError PostControlMessageForDeviceInternalServerError)
      else Inl (UnknownStatus code))"

definition PostDataMessageForDevice_ReadResponse ::
  "(string \<Rightarrow> MessageResponse consumed) \<Rightarrow> int \<Rightarrow> string \<Rightarrow>
   PostDataMessageForDeviceResponse read_error + PostDataMessageForDeviceResponse" where
  "PostDataMessageForDevice_ReadResponse consume code body =
     (if code = 200 then read_ok PostDataMessageForDeviceOK (read_payload empty_response consume body)
      else if code = 400 then Inl (StatusError PostDataMessageForDeviceBadRequest)
      else if code = 401 then Inl (StatusError PostDataMessageForDeviceUnauthorized)
      else if code = 403 then Inl (StatusError PostDataMessageForDeviceForbidden)
      else if code = 404 then Inl (StatusError PostDataMessageForDeviceNotFound)
      else if code = 500 then Inl (StatusError PostDataMessageForDeviceInternalServerError)
      else Inl (UnknownStatus code))"

section \<open>Parameters\<close>

datatype validation_error =
    InvalidFormat string string
  | NotInEnum string string
  | BelowMinimum string int
  | RequiredIn string string
  | ParseErrorIn string string goerr
  | InvalidContentType string
  | InvalidResponseFormat
  | NoConsumer string
  | CompositeValidationError "validation_error list"

definition composite :: "validation_error list \<Rightarrow> validation_error option" where
  "composite res = (if res \<noteq> [] then Some (CompositeValidationError res) else None)"

definition messageTypeTypePropEnum :: "string list" where
  "messageTypeTypePropEnum =
     [MessageTypeConnectionStatus, MessageTypeCommand, MessageTypeEvent, MessageTypeData]"

definition Message_validateSent :: "(time \<Rightarrow> bool) \<Rightarrow> Message \<Rightarrow> validation_error option" where
  "Message_validateSent is_date_time m =
     (if msg_Sent m = zero_time then None
      else if is_date_time (msg_Sent m) then None
      else Some (InvalidFormat ''sent'' ''date-time''))"

definition Message_validateType :: "Message \<Rightarrow> validation_error option" where
  "Message_validateType m =
     (if msg_Type m = [] then None
      else if List.member messageTypeTypePropEnum (msg_Type m) then None
      else Some (NotInEnum ''type'' (msg_Type m)))"

definition Message_Validate :: "(time \<Rightarrow> bool) \<Rightarrow> Message \<Rightarrow> validation_error option" where
  "Message_Validate is_date_time m =
     composite (List.map_filter id [Message_validateSent is_date_time m, Message_validateType m])"

definition bindDeviceID :: "string list \<Rightarrow> string" where
  "bindDeviceID rawData = (if length rawData > 0 then rawData ! (length rawData - 1) else [])"

record GetParams = gp_DeviceID :: string

record PostParams =
  pp_DeviceID :: string
  pp_Message :: "Message option"

text \<open>Binding the device id of a GET request cannot fail.\<close>

definition Get_BindRequest :: "string list \<Rightarrow> validation_error + GetParams" where
  "Get_BindRequest rawDeviceID = Inr \<lparr>gp_DeviceID = bindDeviceID rawDeviceID\<rparr>"

text \<open>The body of a POST request; \<open>None\<close> when \<open>runtime.HasBody\<close> is false.\<close>

definition bind_message ::
  "(string \<Rightarrow> Message consumed) \<Rightarrow> (time \<Rightarrow> bool) \<Rightarrow> string option \<Rightarrow> validation_error list \<times> Message option" where
  "bind_message consume is_date_time body = (case body of
     None \<Rightarrow> ([RequiredIn ''message'' ''body''], None)
   | Some text \<Rightarrow> (case consume text of
       ConsumedEOF \<Rightarrow> ([RequiredIn ''message'' ''body''], None)
     | ConsumeError err \<Rightarrow> ([ParseErrorIn ''message'' ''body'' err], None)
     | Consumed m \<Rightarrow> (case Message_Validate is_date_time m of
         Some err \<Rightarrow> ([err], None)
       | None \<Rightarrow> ([], Some m))))"

definition Post_BindRequest ::
  "(string \<Rightarrow> Message consumed) \<Rightarrow> (time \<Rightarrow> bool) \<Rightarrow> string list \<Rightarrow> string option \<Rightarrow> validation_error + PostParams" where
  "Post_BindRequest consume is_date_time rawDeviceID body =
     (case bind_message consume is_date_time body of
        (res, message) \<Rightarrow>
          if length res > 0 then Inl (CompositeValidationError res)
          else Inr \<lparr>pp_DeviceID = bindDeviceID rawDeviceID, pp_Message = message\<rparr>)"

section \<open>URLs\<close>

text \<open>\<open>strings.Replace(s, old, new, -1)\<close> for a non-empty \<open>old\<close>.\<close>

function strings_ReplaceAll :: "string \<Rightarrow> string \<Rightarrow> string \<Rightarrow> string" where
  "strings_ReplaceAll old new s =
     (if s = [] \<or> old = [] then s
      else if HasPrefix s old then new @ strings_ReplaceAll old new (drop (length old) s)
      else hd s # strings_ReplaceAll old new (tl s))"
  by pat_completeness auto
termination by (relation "measure (\<lambda>(_, _, s). length s)") auto

declare strings_ReplaceAll.simps [simp del]

text \<open>\<open>path.Clean\<close> and \<open>path.Join\<close>, component by component.\<close>

definition clean_step :: "bool \<Rightarrow> string list \<Rightarrow> string \<Rightarrow> string list" where
  "clean_step rooted stack piece =
     (if piece = [] \<or> piece = ''.'' then stack
      else if piece = ''..'' then
        (case stack of
           [] \<Rightarrow> if rooted then [] else [''..'']
         | c # cs \<Rightarrow> if c = ''..'' then ''..'' # stack else cs)
      else piece # stack)"

definition path_Clean :: "string \<Rightarrow> string" where
  "path_Clean p =
     (if p = [] then ''.''
      else let rooted = (hd p = CHR ''/'');
               body = strings_Join (rev (foldl (clean_step rooted) [] (split_on (CHR ''/'') p))) ''/''
           in if rooted then CHR ''/'' # body else if body = [] then ''.'' else body)"

definition path_Join :: "string list \<Rightarrow> string" where
  "path_Join elems = (case dropWhile (\<lambda>e. e = []) elems of
     [] \<Rightarrow> []
   | rest \<Rightarrow> path_Clean (strings_Join rest ''/''))"

record DeviceURL =
  du_DeviceID :: string
  du_basePath :: string

record URL =
  url_Scheme :: string
  url_Host :: string
  url_Path :: string

definition build_url :: "string \<Rightarrow> string \<Rightarrow> DeviceURL \<Rightarrow> URL result" where
  "build_url pattern name u =
     (if du_DeviceID u = [] then Inl (Errorf (''deviceId is required on '' @ name))
      else let path = strings_ReplaceAll ''{device_id}'' (du_DeviceID u) pattern;
               basePath = (if du_basePath u = [] then ''/api/flotta-management/v1'' else du_basePath u)
           in Inr \<lparr>url_Scheme = [], url_Host = [], url_Path = path_Join [basePath, path]\<rparr>)"

definition GetControlMessageForDeviceURL_Build :: "DeviceURL \<Rightarrow> URL result" where
  "GetControlMessageForDeviceURL_Build = build_url ''/control/{device_id}/in'' ''GetControlMessageForDeviceURL''"

definition GetDataMessageForDeviceURL_Build :: "DeviceURL \<Rightarrow> URL result" where
  "GetDataMessageForDeviceURL_Build = build_url ''/data/{device_id}/in'' ''GetDataMessageForDeviceURL''"

definition PostControlMessageForDeviceURL_Build :: "DeviceURL \<Rightarrow> URL result" where
  "PostControlMessageForDeviceURL_Build = build_url ''/control/{device_id}/out'' ''PostControlMessageForDeviceURL''"

definition PostDataMessageForDeviceURL_Build :: "DeviceURL \<Rightarrow> URL result" where
  "PostDataMessageForDeviceURL_Build = build_url ''/data/{device_id}/out'' ''PostDataMessageForDeviceURL''"

definition build_full_url :: "string \<Rightarrow> (DeviceURL \<Rightarrow> URL result) \<Rightarrow> DeviceURL \<Rightarrow> string \<Rightarrow> string \<Rightarrow> URL result" where
  "build_full_url name build u scheme host =
     (if scheme = [] then Inl (Errorf (''scheme is required for a full url on '' @ name))
      else if host = [] then Inl (Errorf (''host is required for a full url on '' @ name))
      else (case build u of
          Inl err \<Rightarrow> Inl err
        | Inr base \<Rightarrow> Inr (base\<lparr>url_Scheme := scheme, url_Host := host\<rparr>)))"

definition Must :: "URL option \<Rightarrow> goerr option \<Rightarrow> URL outcome" where
  "Must u err = (case err of
     Some e \<Rightarrow> Panic (ErrorText e)
   | None \<Rightarrow> (case u of None \<Rightarrow> Panic ''url can't be nil'' | Some x \<Rightarrow> Done x))"

section \<open>The handler table\<close>

datatype operation =
    GetControlMessageForDeviceOp
  | GetDataMessageForDeviceOp
  | PostControlMessageForDeviceOp
  | PostDataMessageForDeviceOp

definition initHandlerCache :: "operation gomap gomap" where
  "initHandlerCache =
     [(''GET'', [(''/control/{device_id}/in'', GetControlMessageForDeviceOp),
                 (''/data/{device_id}/in'', GetDataMessageForDeviceOp)]),
      (''POST'', [(''/control/{device_id}/out'', PostControlMessageForDeviceOp),
                  (''/data/{device_id}/out'', PostDataMessageForDeviceOp)])]"

fun build_operation :: "operation \<Rightarrow> DeviceURL \<Rightarrow> URL result" where
  "build_operation GetControlMessageForDeviceOp = GetControlMessageForDeviceURL_Build"
| "build_operation GetDataMessageForDeviceOp = GetDataMessageForDeviceURL_Build"
| "build_operation PostControlMessageForDeviceOp = PostControlMessageForDeviceURL_Build"
| "build_operation PostDataMessageForDeviceOp = PostDataMessageForDeviceURL_Build"

section \<open>Cleaned paths\<close>

lemma split_on_snoc: "c \<notin> set ys \<Longrightarrow> split_on c (xs @ c # ys) = split_on c xs @ [ys]"
  by (induction xs) (auto simp: split_on_single split: list.splits)

lemma split_on_clean: "p \<in> set (split_on c xs) \<Longrightarrow> c \<notin> set p"
  by (induction xs arbitrary: p) (auto split: if_splits list.splits)

lemma split_on_Join:
  "comps \<noteq> [] \<Longrightarrow> \<forall>p\<in>set comps. c \<notin> set p \<Longrightarrow> split_on c (strings_Join comps [c]) = comps"
proof (induction comps "[c]" rule: strings_Join.induct)
  case (3 s t ts)
  then have "split_on c (s @ c # strings_Join (t # ts) [c]) = s # split_on c (strings_Join (t # ts) [c])"
    by (intro split_on_append) simp
  with 3 show ?case by simp
qed (simp_all add: split_on_single)

lemma clean_step_subset: "set (clean_step rooted stack piece) \<subseteq> insert piece (insert ''..'' (set stack))"
  by (auto simp: clean_step_def split: list.splits if_splits)

lemma clean_fold_subset: "set (foldl (clean_step rooted) stack comps) \<subseteq> set comps \<union> insert ''..'' (set stack)"
proof (induction comps arbitrary: stack)
  case (Cons piece comps)
  from Cons [of "clean_step rooted stack piece"] clean_step_subset [of rooted stack piece] show ?case by auto
qed auto

definition plain_component :: "string \<Rightarrow> bool" where
  "plain_component p \<longleftrightarrow> p \<noteq> [] \<and> p \<noteq> ''.'' \<and> p \<noteq> ''..'' \<and> CHR ''/'' \<notin> set p"

lemma clean_step_plain: "plain_component p \<Longrightarrow> clean_step rooted stack p = p # stack"
  by (simp add: clean_step_def plain_component_def)

lemma clean_fold_plain:
  "\<forall>p\<in>set comps. plain_component p \<Longrightarrow> foldl (clean_step rooted) stack comps = rev comps @ stack"
  by (induction comps arbitrary: stack) (auto simp: clean_step_plain)

text \<open>A cleaned path ends in the last component of the path, when that is an ordinary name.\<close>

lemma path_Clean_last:
  assumes "plain_component p"
  shows "last (split_on (CHR ''/'') (path_Clean (xs @ CHR ''/'' # p))) = p"
proof -
  let ?full = "xs @ CHR ''/'' # p" and ?rooted = "hd (xs @ CHR ''/'' # p) = CHR ''/''"
  define stack where "stack = foldl (clean_step ?rooted) [] (split_on (CHR ''/'') xs)"
  have fold: "foldl (clean_step ?rooted) [] (split_on (CHR ''/'') ?full) = p # stack"
    using assms by (simp add: split_on_snoc plain_component_def [of p] clean_step_plain stack_def)
  have "\<forall>q\<in>set (rev stack @ [p]). CHR ''/'' \<notin> set q"
    using clean_fold_subset [of ?rooted "[]" "split_on (CHR ''/'') xs"] split_on_clean assms
    by (auto simp: stack_def plain_component_def)
  then have join: "split_on (CHR ''/'') (strings_Join (rev stack @ [p]) ''/'') = rev stack @ [p]"
    by (intro split_on_Join) simp_all
  then have "strings_Join (rev stack @ [p]) ''/'' \<noteq> []"
    using assms by (auto simp: plain_component_def)
  moreover have "path_Clean ?full =
      (let body = strings_Join (rev stack @ [p]) ''/'' in if ?rooted then CHR ''/'' # body else if body = [] then ''.'' else body)"
    unfolding path_Clean_def Let_def fold by simp
  ultimately show ?thesis using join by (simp add: Let_def)
qed

lemma pattern_replaced:
  "strings_ReplaceAll ''{device_id}'' i ''/control/{device_id}/in'' = ''/control/'' @ i @ ''/in''"
  "strings_ReplaceAll ''{device_id}'' i ''/data/{device_id}/in'' = ''/data/'' @ i @ ''/in''"
  "strings_ReplaceAll ''{device_id}'' i ''/control/{device_id}/out'' = ''/control/'' @ i @ ''/out''"
  "strings_ReplaceAll ''{device_id}'' i ''/data/{device_id}/out'' = ''/data/'' @ i @ ''/out''"
  by (simp_all add: strings_ReplaceAll.simps HasPrefix_def)

lemma path_Clean_device:
  assumes "plain_component i" and "plain_component a" and "plain_component b"
  shows "path_Clean (''/api/flotta-management/v1'' @ ''//'' @ a @ ''/'' @ i @ ''/'' @ b) =
         ''/api/flotta-management/v1/'' @ a @ ''/'' @ i @ ''/'' @ b"
proof -
  have plain: "plain_component ''api''" "plain_component ''flotta-management''" "plain_component ''v1''"
    by (simp_all add: plain_component_def)
  have "split_on (CHR ''/'') (''/api/flotta-management/v1'' @ ''//'' @ a @ ''/'' @ i @ ''/'' @ b) =
      [[], ''api'', ''flotta-management'', ''v1'', [], a, i, b]"
    using assms by (simp add: split_on_append split_on_single plain_component_def)
  moreover have "clean_step True stack [] = stack" for stack by (simp add: clean_step_def)
  ultimately show ?thesis
    using assms plain by (simp add: path_Clean_def clean_step_plain)
qed

fun operation_names :: "operation \<Rightarrow> string \<times> string" where
  "operation_names GetControlMessageForDeviceOp = (''control'', ''in'')"
| "operation_names GetDataMessageForDeviceOp = (''data'', ''in'')"
| "operation_names PostControlMessageForDeviceOp = (''control'', ''out'')"
| "operation_names PostDataMessageForDeviceOp = (''data'', ''out'')"

lemma operation_names_plain:
  "plain_component (fst (operation_names op))" "plain_component (snd (operation_names op))"
  by (cases op; simp add: plain_component_def)+

lemma build_operation_path:
  assumes "du_DeviceID u \<noteq> []"
  shows "\<exists>bp. build_operation op u = Inr \<lparr>url_Scheme = [], url_Host = [],
    url_Path = path_Clean (bp @ ''//'' @ fst (operation_names op) @ ''/'' @ du_DeviceID u @ ''/'' @ snd (operation_names op))\<rparr>
    \<and> bp = (if du_basePath u = [] then ''/api/flotta-management/v1'' else du_basePath u)"
  using assms
  by (cases op) (auto simp: GetControlMessageForDeviceURL_Build_def GetDataMessageForDeviceURL_Build_def
      PostControlMessageForDeviceURL_Build_def PostDataMessageForDeviceURL_Build_def build_url_def Let_def
      pattern_replaced path_Join_def)

lemma operation_names_inj: "operation_names op = operation_names op' \<Longrightarrow> op = op'"
  by (cases op; cases op'; simp)

lemma device_path_inj:
  assumes "CHR ''/'' \<notin> set a" "CHR ''/'' \<notin> set i" "CHR ''/'' \<notin> set b"
    and "CHR ''/'' \<notin> set a'" "CHR ''/'' \<notin> set i'" "CHR ''/'' \<notin> set b'"
    and "a @ ''/'' @ i @ ''/'' @ b = a' @ ''/'' @ i' @ ''/'' @ b'"
  shows "a = a' \<and> i = i' \<and> b = b'"
proof -
  have "split_on (CHR ''/'') (a @ ''/'' @ i @ ''/'' @ b) = split_on (CHR ''/'') (a' @ ''/'' @ i' @ ''/'' @ b')"
    using assms(7) by simp
  then show ?thesis using assms(1-6) by (simp add: split_on_append split_on_single)
qed

text \<open>The path of an operation ends in \<open>in\<close> or \<open>out\<close>, for every device id and every base path.\<close>

lemma build_operation_last:
  assumes "build_operation op u = Inr url"
  shows "last (split_on (CHR ''/'') (url_Path url)) = snd (operation_names op)"
proof -
  have "du_DeviceID u \<noteq> []"
    using assms by (cases op) (auto simp: GetControlMessageForDeviceURL_Build_def GetDataMessageForDeviceURL_Build_def
      PostControlMessageForDeviceURL_Build_def PostDataMessageForDeviceURL_Build_def build_url_def)
  with assms obtain xs where "url_Path url = path_Clean (xs @ CHR ''/'' # snd (operation_names op))"
    using build_operation_path [of u op] by (metis append.assoc append_Cons append_Nil sum.inject(2) URL.select_convs(3))
  then show ?thesis by (simp add: path_Clean_last operation_names_plain)
qed

section \<open>Properties\<close>

definition fresh_writer :: ResponseWriter where
  "fresh_writer = \<lparr>rw_ContentType = Some ''application/json'', rw_Code = None, rw_Body = []\<rparr>"

text \<open>What the consumer is relied on for: it reads back the payload the producer wrote.\<close>

definition reads_back :: "('p \<Rightarrow> string result) \<Rightarrow> (string \<Rightarrow> 'p consumed) \<Rightarrow> 'p option \<Rightarrow> bool" where
  "reads_back produce consume p \<longleftrightarrow> consume [] = ConsumedEOF \<and>
     (case p of None \<Rightarrow> True | Some x \<Rightarrow> \<exists>t. produce x = Inr t \<and> consume t = Consumed x)"

text \<open>Two peers agree on an exchange: the server writes a status and a body without a panic, and the
  client makes \<open>expected\<close> of them.\<close>

definition exchanged :: "ResponseWriter outcome \<Rightarrow> (int \<Rightarrow> string \<Rightarrow> 'r) \<Rightarrow> 'r \<Rightarrow> bool" where
  "exchanged written read expected \<longleftrightarrow>
     (\<exists>rw code. written = Done rw \<and> rw_Code rw = Some code \<and> read code (rw_Body rw) = expected)"

lemma write_read_payload:
  assumes "reads_back produce consume p"
    and "\<And>body. read 200 body = read_ok ok (read_payload zero consume body)"
  shows "exchanged (write_payload produce p (WriteHeader 200 fresh_writer)) read
           (Inr (ok (Some (case p of None \<Rightarrow> zero | Some x \<Rightarrow> x))))"
  using assms
  by (cases p) (auto simp: exchanged_def write_payload_def WriteHeader_def fresh_writer_def reads_back_def
      read_payload_def read_ok_def)

lemma write_read_empty: "read code [] = r \<Longrightarrow> exchanged (write_empty code fresh_writer) read r"
  by (simp add: exchanged_def write_empty_def WriteHeader_def fresh_writer_def)

fun GetControlMessageForDevice_GetPayload :: "GetControlMessageForDeviceResponse \<Rightarrow> Message option" where
  "GetControlMessageForDevice_GetPayload (GetControlMessageForDeviceOK p) = p"
| "GetControlMessageForDevice_GetPayload _ = None"

fun GetDataMessageForDevice_GetPayload :: "GetDataMessageForDeviceResponse \<Rightarrow> Message option" where
  "GetDataMessageForDevice_GetPayload (GetDataMessageForDeviceOK p) = p"
| "GetDataMessageForDevice_GetPayload _ = None"

fun PostDataMessageForDevice_GetPayload :: "PostDataMessageForDeviceResponse \<Rightarrow> MessageResponse option" where
  "PostDataMessageForDevice_GetPayload (PostDataMessageForDeviceOK p) = p"
| "PostDataMessageForDevice_GetPayload _ = None"

lemma GetControl_roundtrip:
  assumes "reads_back produce consume (GetControlMessageForDevice_GetPayload r)"
  shows "exchanged (GetControlMessageForDevice_WriteResponse produce r fresh_writer)
           (GetControlMessageForDevice_ReadResponse consume) (case r of
             GetControlMessageForDeviceOK p \<Rightarrow>
               Inr (GetControlMessageForDeviceOK (Some (case p of None \<Rightarrow> empty_message | Some m \<Rightarrow> m)))
           | _ \<Rightarrow> Inl (StatusError r))"
  using assms
  by (cases r) (auto intro!: write_read_payload write_read_empty simp: GetControlMessageForDevice_ReadResponse_def)

lemma GetData_roundtrip:
  assumes "reads_back produce consume (GetDataMessageForDevice_GetPayload r)"
  shows "exchanged (GetDataMessageForDevice_WriteResponse produce r fresh_writer)
           (GetDataMessageForDevice_ReadResponse consume) (case r of
             GetDataMessageForDeviceOK p \<Rightarrow>
               Inr (GetDataMessageForDeviceOK (Some (case p of None \<Rightarrow> empty_message | Some m \<Rightarrow> m)))
           | _ \<Rightarrow> Inl (StatusError r))"
  using assms
  by (cases r) (auto intro!: write_read_payload write_read_empty simp: GetDataMessageForDevice_ReadResponse_def)

lemma PostControl_roundtrip:
  "exchanged (PostControlMessageForDevice_WriteResponse r fresh_writer) PostControlMessageForDevice_ReadResponse
     (if r = PostControlMessageForDeviceOK then Inr r else Inl (StatusError r))"
  by (cases r) (auto intro!: write_read_empty simp: PostControlMessageForDevice_ReadResponse_def)

lemma PostData_roundtrip:
  assumes "reads_back produce consume (PostDataMessageForDevice_GetPayload r)"
  shows "exchanged (PostDataMessageForDevice_WriteResponse produce r fresh_writer)
           (PostDataMessageForDevice_ReadResponse consume) (case r of
             PostDataMessageForDeviceOK p \<Rightarrow>
               Inr (PostDataMessageForDeviceOK (Some (case p of None \<Rightarrow> empty_response | Some m \<Rightarrow> m)))
           | _ \<Rightarrow> Inl (StatusError r))"
  using assms
  by (cases r) (auto intro!: write_read_payload write_read_empty simp: PostDataMessageForDevice_ReadResponse_def)

section \<open>Properties\<close>

text \<open>The client library reads back what the server wrote: an error status arrives as the error
  it was, a success as a success with the payload, and a success without a payload as a success with
  an empty message.\<close>

theorem responses_roundtrip:
  assumes "reads_back produce consume (GetControlMessageForDevice_GetPayload r1)"
    and "reads_back produce consume (GetDataMessageForDevice_GetPayload r2)"
    and "reads_back produceR consumeR (PostDataMessageForDevice_GetPayload r4)"
  shows "exchanged (GetControlMessageForDevice_WriteResponse produce r1 fresh_writer)
           (GetControlMessageForDevice_ReadResponse consume) (case r1 of
             GetControlMessageForDeviceOK p \<Rightarrow>
               Inr (GetControlMessageForDeviceOK (Some (case p of None \<Rightarrow> empty_message | Some m \<Rightarrow> m)))
           | _ \<Rightarrow> Inl (StatusError r1)) \<and>
         exchanged (GetDataMessageForDevice_WriteResponse produce r2 fresh_writer)
           (GetDataMessageForDevice_ReadResponse consume) (case r2 of
             GetDataMessageForDeviceOK p \<Rightarrow>
               Inr (GetDataMessageForDeviceOK (Some (case p of None \<Rightarrow> empty_message | Some m \<Rightarrow> m)))
           | _ \<Rightarrow> Inl (StatusError r2)) \<and>
         exchanged (PostControlMessageForDevice_WriteResponse r3 fresh_writer) PostControlMessageForDevice_ReadResponse
           (if r3 = PostControlMessageForDeviceOK then Inr r3 else Inl (StatusError r3)) \<and>
         exchanged (PostDataMessageForDevice_WriteResponse produceR r4 fresh_writer)
           (PostDataMessageForDevice_ReadResponse consumeR) (case r4 of
             PostDataMessageForDeviceOK p \<Rightarrow>
               Inr (PostDataMessageForDeviceOK (Some (case p of None \<Rightarrow> empty_response | Some m \<Rightarrow> m)))
           | _ \<Rightarrow> Inl (StatusError r4))"
  by (intro conjI GetControl_roundtrip GetData_roundtrip PostControl_roundtrip PostData_roundtrip assms)

theorem responses_roundtrip_witness:
  "\<exists>rw. PostDataMessageForDevice_WriteResponse (\<lambda>_. Inr ''{}'') (PostDataMessageForDeviceOK (Some empty_response)) fresh_writer
      = Done rw \<and> rw_Body rw = ''{}'' \<and> rw_Code rw = Some 200 \<and>
     PostDataMessageForDevice_ReadResponse (\<lambda>s. if s = [] then ConsumedEOF else Consumed empty_response) 200 ''{}'' =
       Inr (PostDataMessageForDeviceOK (Some empty_response))"
proof -
  let ?consume = "\<lambda>z s. if s = [] then ConsumedEOF else Consumed z"
  have "reads_back (\<lambda>_. Inr ''{}'') (?consume empty_message) (GetControlMessageForDevice_GetPayload GetControlMessageForDeviceNotFound)"
    "reads_back (\<lambda>_. Inr ''{}'') (?consume empty_message) (GetDataMessageForDevice_GetPayload (GetDataMessageForDeviceOK (Some empty_message)))"
    "reads_back (\<lambda>_. Inr ''{}'') (?consume empty_response) (PostDataMessageForDevice_GetPayload (PostDataMessageForDeviceOK (Some empty_response)))"
    by (simp_all add: reads_back_def)
  from responses_roundtrip [OF this, of PostControlMessageForDeviceOK] show ?thesis
    by (auto simp: exchanged_def write_payload_def WriteHeader_def fresh_writer_def)
qed

text \<open>Every device has its own URL for every operation: for device ids that are ordinary path
  components the URL of an operation is the pattern of the operation under the base path of the API,
  and two URLs are equal only for the same operation and the same device.\<close>

theorem operation_urls:
  assumes "plain_component i" and "plain_component j"
  shows "build_operation op \<lparr>du_DeviceID = i, du_basePath = []\<rparr> = Inr \<lparr>url_Scheme = [], url_Host = [],
           url_Path = ''/api/flotta-management/v1/'' @ fst (operation_names op) @ ''/'' @ i @ ''/'' @ snd (operation_names op)\<rparr> \<and>
         (build_operation op \<lparr>du_DeviceID = i, du_basePath = []\<rparr> = build_operation op' \<lparr>du_DeviceID = j, du_basePath = []\<rparr>
            \<longleftrightarrow> op = op' \<and> i = j)"
proof -
  have path: "build_operation op \<lparr>du_DeviceID = i, du_basePath = []\<rparr> = Inr \<lparr>url_Scheme = [], url_Host = [],
      url_Path = ''/api/flotta-management/v1/'' @ fst (operation_names op) @ ''/'' @ i @ ''/'' @ snd (operation_names op)\<rparr>"
    if "plain_component i" for op i
    using build_operation_path [of "\<lparr>du_DeviceID = i, du_basePath = []\<rparr>" op] that
      path_Clean_device [OF that operation_names_plain [of op]] by (auto simp: plain_component_def)
  have "op = op' \<and> i = j"
    if "fst (operation_names op) @ ''/'' @ i @ ''/'' @ snd (operation_names op) =
        fst (operation_names op') @ ''/'' @ j @ ''/'' @ snd (operation_names op')"
    using device_path_inj [OF _ _ _ _ _ _ that] assms operation_names_plain [of op] operation_names_plain [of op']
      operation_names_inj [of op op'] by (simp add: plain_component_def prod_eq_iff)
  then show ?thesis using path [OF assms(1)] path [OF assms(2)] by auto
qed

theorem operation_urls_witness:
  "build_operation GetDataMessageForDeviceOp \<lparr>du_DeviceID = ''d1'', du_basePath = []\<rparr> \<noteq>
   build_operation GetDataMessageForDeviceOp \<lparr>du_DeviceID = ''d2'', du_basePath = []\<rparr>"
  using operation_urls [of "''d1''" "''d2''" GetDataMessageForDeviceOp GetDataMessageForDeviceOp]
  by (auto simp: plain_component_def)

text \<open>A POST request is bound exactly when it has a body that decodes to a message whose type, if
  given, is one of the four message types and whose time, if given, is well formed.\<close>

definition well_formed_message :: "(time \<Rightarrow> bool) \<Rightarrow> Message \<Rightarrow> bool" where
  "well_formed_message is_date_time m \<longleftrightarrow>
     (msg_Type m = [] \<or> msg_Type m \<in> {''connection-status'', ''command'', ''event'', ''data''}) \<and>
     (msg_Sent m = zero_time \<or> is_date_time (msg_Sent m))"

lemma Message_Validate_iff: "Message_Validate is_date_time m = None \<longleftrightarrow> well_formed_message is_date_time m"
  by (auto simp: well_formed_message_def Message_Validate_def composite_def Message_validateSent_def Message_validateType_def
      List.map_filter_simps messageTypeTypePropEnum_def MessageTypeConnectionStatus_def MessageTypeCommand_def
      MessageTypeEvent_def MessageTypeData_def)

lemma bindDeviceID_last: "bindDeviceID ids = (if ids = [] then [] else last ids)"
  by (simp add: bindDeviceID_def last_conv_nth)

lemma Post_BindRequest_iff:
  "Post_BindRequest consume is_date_time ids body = Inr params \<longleftrightarrow>
     (\<exists>text m. body = Some text \<and> consume text = Consumed m \<and> well_formed_message is_date_time m \<and>
        params = \<lparr>pp_DeviceID = (if ids = [] then [] else last ids), pp_Message = Some m\<rparr>)"
  by (auto simp: Post_BindRequest_def bind_message_def bindDeviceID_last Message_Validate_iff [symmetric]
      split: option.splits consumed.splits)

end
