(* ===== verification/Yggdrasil.thy ===== *)
theory Yggdrasil
  imports Heartbeat_Handler Secrets Storage_Claimer Mtls Rest_Api
begin

text \<open>
  \<open>internal/yggdrasil/yggdrasil.go\<close>: the handlers of the four operations a device calls. A device
  registers by POSTing a registration message, reports by heartbeats, and polls its configuration
  (data messages) and its commands (control messages). Deletion of a device is a protocol over these
  polls: the workload finalizer goes with the first data message that carries no workloads, the
  connection finalizer with the control message that tells the device to disconnect. The secrets part
  of the file is the theory \<open>Secrets\<close>.

  Handlers return the response, or \<open>Panic\<close> where a nil pointer is dereferenced on the way.
\<close>

section \<open>Handler\<close>

definition YggdrasilConnectionFinalizer :: string where
  "YggdrasilConnectionFinalizer = ''yggdrasil-connection-finalizer''"
definition YggdrasilWorkloadFinalizer :: string where
  "YggdrasilWorkloadFinalizer = ''yggdrasil-workload-finalizer''"

definition defaultHeartbeatConfiguration :: mHeartbeatConfiguration where
  "defaultHeartbeatConfiguration =
     \<lparr>mhc_HardwareProfile = Some \<lparr>mhp_Include = False, mhp_Scope = []\<rparr>, mhc_PeriodSeconds = 60\<rparr>"

record 'w Handler =
  h_initialNamespace :: string
  h_mtlsConfig :: TLSConfig
  h_crypto :: "'w crypto"

definition NewYggdrasilHandler :: "string \<Rightarrow> TLSConfig \<Rightarrow> 'w crypto \<Rightarrow> 'w Handler" where
  "NewYggdrasilHandler initialNamespace mtlsConfig C =
     \<lparr>h_initialNamespace = initialNamespace, h_mtlsConfig = mtlsConfig, h_crypto = C\<rparr>"

definition isRegistrationURL :: "URL \<Rightarrow> bool" where
  "isRegistrationURL url =
     (let parts = split_on (CHR ''/'') (url_Path url) in
      if length parts = 0 then False
      else parts ! (length parts - 1) = ''registration'')"

definition GetAuthType :: "URL \<Rightarrow> int" where
  "GetAuthType url = (if isRegistrationURL url then YggdrasilRegisterAuth else YggdrasilCompleteAuth)"

section \<open>Control messages\<close>

definition createDisconnectCommand :: "'w env \<Rightarrow> ('w, Message) io" where
  "createDisconnectCommand E = do {
     uid \<leftarrow> k_uuid E;
     now \<leftarrow> k_now E;
     ret (empty_message\<lparr>msg_Type := MessageTypeCommand, msg_MessageID := uid, msg_Version := 1,
            msg_Sent := now, msg_Content := CommandContent ''disconnect''\<rparr>)
   }"

definition GetControlMessageForDevice ::
  "'w env \<Rightarrow> 'w Handler \<Rightarrow> GetParams \<Rightarrow> ('w, GetControlMessageForDeviceResponse) io" where
  "GetControlMessageForDevice E h params = do {
     let deviceID = gp_DeviceID params;
     r \<leftarrow> dev_Read E deviceID (h_initialNamespace h);
     case r of
       Inl err \<Rightarrow>
         if IsNotFound err then ret GetControlMessageForDeviceNotFound
         else ret GetControlMessageForDeviceInternalServerError
     | Inr edgeDevice \<Rightarrow>
         if om_DeletionTimestamp (dev_meta edgeDevice) \<noteq> None
            \<and> \<not> HasFinalizer (dev_meta edgeDevice) YggdrasilWorkloadFinalizer then do {
           err \<leftarrow> (if HasFinalizer (dev_meta edgeDevice) YggdrasilConnectionFinalizer then do {
                    (e, _) \<leftarrow> dev_RemoveFinalizer E edgeDevice YggdrasilConnectionFinalizer;
                    case e of
                      Some x \<Rightarrow> ret (Some x)
                    | None \<Rightarrow> do { _ \<leftarrow> k_inc E EdgeDeviceUnregistration; ret None }
                  } else ret None);
           case err of
             Some _ \<Rightarrow> ret GetControlMessageForDeviceInternalServerError
           | None \<Rightarrow> do {
               message \<leftarrow> createDisconnectCommand E;
               ret (GetControlMessageForDeviceOK (Some message))
             }
         }
         else ret (GetControlMessageForDeviceOK None)
   }"

definition PostControlMessageForDevice ::
  "'w env \<Rightarrow> 'w Handler \<Rightarrow> PostParams \<Rightarrow> ('w, PostControlMessageForDeviceResponse) io" where
  "PostControlMessageForDevice E h params = ret PostControlMessageForDeviceOK"

section \<open>The configuration of a device\<close>

definition heartbeat_configuration :: "EdgeDevice \<Rightarrow> mHeartbeatConfiguration" where
  "heartbeat_configuration edgeDevice = (case sp_Heartbeat (dev_Spec edgeDevice) of
     Some hb \<Rightarrow>
       \<lparr>mhc_HardwareProfile = (case hc_HardwareProfile hb of
            Some hp \<Rightarrow> Some \<lparr>mhp_Include = hp_Include hp, mhp_Scope = hp_Scope hp\<rparr>
          | None \<Rightarrow> mhc_HardwareProfile defaultHeartbeatConfiguration),
        mhc_PeriodSeconds = hc_PeriodSeconds hb\<rparr>
   | None \<Rightarrow> defaultHeartbeatConfiguration)"

definition os_information :: "EdgeDevice \<Rightarrow> mOsInformation option" where
  "os_information edgeDevice = map_option (\<lambda>os.
     \<lparr>mos_AutomaticallyUpgrade = os_AutomaticallyUpgrade os, mos_CommitID = os_CommitID os,
      mos_HostedObjectsURL = os_HostedObjectsURL os\<rparr>) (sp_OsInformation (dev_Spec edgeDevice))"

text \<open>The storage configuration to send, if any, beside the error that is only logged.\<close>

definition setStorageConfiguration ::
  "'w env \<Rightarrow> EdgeDevice \<Rightarrow> ('w, (goerr option \<times> StorageConfiguration option) outcome) io" where
  "setStorageConfiguration E edgeDevice = do {
     r \<leftarrow> (if (case es_DataOBC (dev_Status edgeDevice) of Some obc \<Rightarrow> length obc > 0 | None \<Rightarrow> False) then do {
            c \<leftarrow> GetStorageConfiguration E (Some edgeDevice);
            ret (Done (map_sum id Some c))
          } else if ShouldUseExternalConfig (Some edgeDevice) then do {
            c \<leftarrow> GetExternalStorageConfig E edgeDevice;
            ret (map_outcome (map_sum id Some) c)
          } else ret (Done (Inr None)));
     ret (map_outcome (\<lambda>c. case c of
            Inl err \<Rightarrow> (Some err, None)
          | Inr conf \<Rightarrow> (None, map_option (\<lambda>s. \<lparr>stc_S3 = Some s\<rparr>) conf)) r)
   }"

definition getDeviceMetricsConfiguration ::
  "'w env \<Rightarrow> EdgeDevice \<Rightarrow> ('w, mMetricsConfiguration option result) io" where
  "getDeviceMetricsConfiguration E edgeDevice = (case sp_Metrics (dev_Spec edgeDevice) of
     None \<Rightarrow> ret (Inr None)
   | Some spec \<Rightarrow>
       let retention = map_option (\<lambda>r. \<lparr>mr_MaxHours = rt_MaxHours r, mr_MaxMib = rt_MaxMiB r\<rparr>) (mc_Retention spec) in
       (case mc_SystemMetrics spec of
          None \<Rightarrow> ret (Inr (Some \<lparr>mmc_Retention = retention, mmc_System = None\<rparr>))
        | Some systemMetrics \<Rightarrow>
            let system = \<lparr>msm_AllowList = None, msm_Disabled = smc_Disabled systemMetrics, msm_Interval = smc_Interval systemMetrics\<rparr> in
            (case smc_AllowList systemMetrics of
               None \<Rightarrow> ret (Inr (Some \<lparr>mmc_Retention = retention, mmc_System = Some system\<rparr>))
             | Some allowListSpec \<Rightarrow>
                 try_io (GenerateFromConfigMap E (nr_Name allowListSpec) (om_Namespace (dev_meta edgeDevice))) (\<lambda>allowList.
                 ret (Inr (Some \<lparr>mmc_Retention = retention,
                        mmc_System = Some (system\<lparr>msm_AllowList := Some allowList\<rparr>)\<rparr>))))))"

definition getDeviceSyslogLogConfig ::
  "'w env \<Rightarrow> EdgeDevice \<Rightarrow> NameRef \<Rightarrow> ('w, SyslogConfig result) io" where
  "getDeviceSyslogLogConfig E edgeDevice ref = do {
     r \<leftarrow> k_cm_get E (om_Namespace (dev_meta edgeDevice)) (nr_Name ref);
     case r of
       Inl err \<Rightarrow> ret (Inl (Errorf (''cannot get syslogconfig from configmap '' @ nr_Name ref @ '': '' @ ErrorText err)))
     | Inr cm \<Rightarrow>
         let proto = ''tcp'' in
         (case gm_lookup (cm_Data cm) ''Protocol'' of
            None \<Rightarrow> ret (Inr \<lparr>sl_Address = gm_index (cm_Data cm) ''Address'', sl_Protocol = proto\<rparr>)
          | Some cmproto \<Rightarrow>
              if cmproto = ''tcp'' \<or> cmproto = ''udp''
              then ret (Inr \<lparr>sl_Address = gm_index (cm_Data cm) ''Address'', sl_Protocol = cmproto\<rparr>)
              else ret (Inl (Errorf (''Protocol '' @ [CHR 0x27] @ proto @ [CHR 0x27] @ '' is not valid for syslog server''))))
   }"

text \<open>The loop over the log targets; a nil target is dereferenced.\<close>

fun log_targets ::
  "'w env \<Rightarrow> EdgeDevice \<Rightarrow> LogCollectionConfig option gomap \<Rightarrow> LogsCollectionInformation gomap \<Rightarrow>
   ('w, LogsCollectionInformation gomap result outcome) io" where
  "log_targets E edgeDevice [] res = ret (Done (Inr res))"
| "log_targets E edgeDevice ((key, None) # rest) res = ret nil_dereference"
| "log_targets E edgeDevice ((key, Some val) # rest) res =
     (let logConfig = \<lparr>li_BufferSize = lcc_BufferSize val, li_Kind = lcc_Kind val, li_SyslogConfig = None\<rparr> in
      case lcc_SyslogConfig val of
        None \<Rightarrow> log_targets E edgeDevice rest (gm_set key logConfig res)
      | Some ref \<Rightarrow> do {
          r \<leftarrow> getDeviceSyslogLogConfig E edgeDevice ref;
          case r of
            Inl err \<Rightarrow> ret (Done (Inl err))
          | Inr syslogConfig \<Rightarrow>
              log_targets E edgeDevice rest (gm_set key (logConfig\<lparr>li_SyslogConfig := Some syslogConfig\<rparr>) res)
        })"

definition getDeviceLogConfig ::
  "'w env \<Rightarrow> EdgeDevice \<Rightarrow> ('w, LogsCollectionInformation gomap option result outcome) io" where
  "getDeviceLogConfig E edgeDevice =
     (if length (sp_LogCollection (dev_Spec edgeDevice)) = 0 then ret (Done (Inr None))
      else do {
        entries \<leftarrow> range_map E (sp_LogCollection (dev_Spec edgeDevice));
        r \<leftarrow> log_targets E edgeDevice entries [];
        ret (map_outcome (map_sum id Some) r)
      })"

section \<open>Workloads\<close>

definition getAuthFile ::
  "'w env \<Rightarrow> ImageRegistriesConfiguration option \<Rightarrow> string \<Rightarrow> ('w, string result) io" where
  "getAuthFile E imageRegistries namespace = (case imageRegistries of
     None \<Rightarrow> ret (Inr [])
   | Some ir \<Rightarrow> (case irc_AuthFileSecret ir of
       None \<Rightarrow> ret (Inr [])
     | Some secretRef \<Rightarrow> GetAuthFileFromSecret E namespace (nr_Name secretRef)))"

definition workload_data :: "EdgeDeploymentSpec \<Rightarrow> mDataConfiguration option" where
  "workload_data spec = (case eds_Data spec of
     None \<Rightarrow> None
   | Some d \<Rightarrow>
       if length (dcf_Paths d) > 0
       then Some \<lparr>mdc_Paths = Some (map (\<lambda>path. \<lparr>mdp_Source = dp_Source path, mdp_Target = dp_Target path\<rparr>) (dcf_Paths d))\<rparr>
       else None)"

fun container_metrics ::
  "MetricsConfigEntity option gomap \<Rightarrow> ContainerMetrics gomap \<Rightarrow> ContainerMetrics gomap outcome" where
  "container_metrics [] containers = Done containers"
| "container_metrics ((container, None) # rest) containers = nil_dereference"
| "container_metrics ((container, Some metricConf) # rest) containers =
     container_metrics rest (gm_set container
       \<lparr>ctm_Disabled = mce_Disabled metricConf, ctm_Path = mce_Path metricConf, ctm_Port = mce_Port metricConf\<rparr> containers)"

definition workload_metrics ::
  "'w env \<Rightarrow> EdgeDeployment \<Rightarrow> ('w, Metrics option result outcome) io" where
  "workload_metrics E deployment = (case eds_Metrics (dep_Spec deployment) of
     None \<Rightarrow> ret (Done (Inr None))
   | Some spec \<Rightarrow>
       if cmc_Port spec > 0 then do {
         allow \<leftarrow> (case cmc_AllowList spec of
                    None \<Rightarrow> ret (Inr None)
                  | Some allowListSpec \<Rightarrow> do {
                      r \<leftarrow> GenerateFromConfigMap E (nr_Name allowListSpec) (om_Namespace (dep_meta deployment));
                      ret (case r of
                          Inl err \<Rightarrow> Inl (Errorf (''Cannot get AllowList Metrics Confimap for ''
                                       @ om_Name (dep_meta deployment) @ '': '' @ ErrorText err))
                        | Inr allowList \<Rightarrow> Inr (Some allowList))
                    });
         case allow of
           Inl err \<Rightarrow> ret (Done (Inl err))
         | Inr allowList \<Rightarrow>
             ret (map_outcome (\<lambda>containers. Inr (Some
               \<lparr>mt_AllowList = allowList,
                mt_Containers = (if containers \<noteq> [] then Some containers else None),
                mt_Interval = cmc_Interval spec, mt_Path = cmc_Path spec, mt_Port = cmc_Port spec\<rparr>))
               (container_metrics (cmc_Containers spec) []))
       }
       else ret (Done (Inr None)))"

text \<open>One deployment: \<open>None\<close> where the loop goes on without it.\<close>

definition toWorkload ::
  "'w env \<Rightarrow> EdgeDevice \<Rightarrow> EdgeDeployment \<Rightarrow> ('w, Workload option result outcome) io" where
  "toWorkload E device deployment =
     (let spec = dep_Spec deployment; meta = dep_meta deployment in
      if om_DeletionTimestamp meta \<noteq> None then ret (Done (Inr None))
      else case k_yaml_pod E (pod_Spec (eds_Pod spec)) of
        Inl err \<Rightarrow> ret (Done (Inr None))
      | Inr podSpec \<Rightarrow> do {
          auth \<leftarrow> getAuthFile E (eds_ImageRegistries spec) (om_Namespace meta);
          case auth of
            Inl err \<Rightarrow>
              (case Option.bind (eds_ImageRegistries spec) irc_AuthFileSecret of
                 None \<Rightarrow> ret nil_dereference
               | Some ref \<Rightarrow> do {
                   _ \<leftarrow> k_event E device EventTypeWarning ''Misconfiguration''
                         (''Auth file secret '' @ nr_Name ref @ '' used by deployment '' @ om_Namespace meta @ ''/''
                          @ om_Name meta @ '' is missing'');
                   ret (Done (Inl err))
                 })
          | Inr authFile \<Rightarrow> do {
              m \<leftarrow> workload_metrics E deployment;
              case m of
                Panic p \<Rightarrow> ret (Panic p)
              | Done (Inl err) \<Rightarrow> ret (Done (Inl err))
              | Done (Inr metrics) \<Rightarrow> do {
                  c \<leftarrow> Fetch E deployment (om_Namespace (dev_meta device));
                  case c of
                    Panic p \<Rightarrow> ret (Panic p)
                  | Done (Inl err) \<Rightarrow> ret (Done (Inl err))
                  | Done (Inr configmapList) \<Rightarrow>
                      ret (Done (Inr (Some
                        \<lparr>wl_Configmaps = configmapList, wl_Data = workload_data spec,
                         wl_ImageRegistries = (if authFile \<noteq> [] then Some \<lparr>ir_AuthFile = authFile\<rparr> else None),
                         wl_LogCollection = eds_LogCollection spec, wl_Metrics = metrics,
                         wl_Name = om_Name meta, wl_Specification = podSpec\<rparr>)))
                }
            }
        })"

fun toWorkloadList ::
  "'w env \<Rightarrow> EdgeDevice \<Rightarrow> EdgeDeployment list \<Rightarrow> Workload list \<Rightarrow> ('w, Workload list result outcome) io" where
  "toWorkloadList E device [] list = ret (Done (Inr list))"
| "toWorkloadList E device (deployment # deployments) list = do {
     r \<leftarrow> toWorkload E device deployment;
     case r of
       Panic p \<Rightarrow> ret (Panic p)
     | Done (Inl err) \<Rightarrow> ret (Done (Inl err))
     | Done (Inr None) \<Rightarrow> toWorkloadList E device deployments list
     | Done (Inr (Some workload)) \<Rightarrow> toWorkloadList E device deployments (list @ [workload])
   }"

section \<open>Data messages\<close>

fun read_deployments ::
  "'w env \<Rightarrow> string \<Rightarrow> Deployment list \<Rightarrow> EdgeDeployment list \<Rightarrow> ('w, EdgeDeployment list result) io" where
  "read_deployments E namespace [] edgeDeployments = ret (Inr edgeDeployments)"
| "read_deployments E namespace (deployment # deployments) edgeDeployments = do {
     r \<leftarrow> dep_Read E (dpl_Name deployment) namespace;
     case r of
       Inl err \<Rightarrow>
         if \<not> IsNotFound err then ret (Inl err)
         else read_deployments E namespace deployments edgeDeployments
     | Inr edgeDeployment \<Rightarrow>
         read_deployments E namespace deployments
           (if om_DeletionTimestamp (dep_meta edgeDeployment) = None then edgeDeployments @ [edgeDeployment] else edgeDeployments)
   }"

text \<open>The workloads and the secrets of a device, or the response of an early return.\<close>

definition device_payload ::
  "'w env \<Rightarrow> EdgeDevice \<Rightarrow> ('w, (Workload list \<times> mSecret list) result outcome) io" where
  "device_payload E edgeDevice =
     (if om_DeletionTimestamp (dev_meta edgeDevice) = None then do {
        ds \<leftarrow> read_deployments E (om_Namespace (dev_meta edgeDevice)) (deployments_of edgeDevice) [];
        case ds of
          Inl err \<Rightarrow> ret (Done (Inl err))
        | Inr edgeDeployments \<Rightarrow> do {
            wl \<leftarrow> toWorkloadList E edgeDevice edgeDeployments [];
            case wl of
              Panic p \<Rightarrow> ret (Panic p)
            | Done (Inl err) \<Rightarrow> ret (Done (Inl err))
            | Done (Inr workloadList) \<Rightarrow> do {
                sl \<leftarrow> createSecretList E edgeDeployments edgeDevice;
                ret (Done (map_sum id (Pair workloadList) sl))
              }
          }
      }
      else if HasFinalizer (dev_meta edgeDevice) YggdrasilWorkloadFinalizer then do {
        (e, _) \<leftarrow> dev_RemoveFinalizer E edgeDevice YggdrasilWorkloadFinalizer;
        ret (Done (case e of Some err \<Rightarrow> Inl err | None \<Rightarrow> Inr ([], [])))
      }
      else ret (Done (Inr ([], []))))"

definition data_message ::
  "'w env \<Rightarrow> string \<Rightarrow> EdgeDevice \<Rightarrow> Workload list \<Rightarrow> mSecret list \<Rightarrow> ('w, GetDataMessageForDeviceResponse outcome) io" where
  "data_message E deviceID edgeDevice workloadList secretList = do {
     st \<leftarrow> setStorageConfiguration E edgeDevice;
     case st of
       Panic x \<Rightarrow> ret (Panic x)
     | Done (_, storage) \<Rightarrow> do {
         mt \<leftarrow> getDeviceMetricsConfiguration E edgeDevice;
         case mt of
           Inl err \<Rightarrow> ret (Done GetDataMessageForDeviceInternalServerError)
         | Inr metrics \<Rightarrow> do {
             lg \<leftarrow> getDeviceLogConfig E edgeDevice;
             case lg of
               Panic x \<Rightarrow> ret (Panic x)
             | Done (Inl err) \<Rightarrow> ret (Done GetDataMessageForDeviceInternalServerError)
             | Done (Inr logCollection) \<Rightarrow> do {
                 uid \<leftarrow> k_uuid E;
                 now \<leftarrow> k_now E;
                 let dc = \<lparr>dcm_Configuration = Some
                             \<lparr>dc_Heartbeat = Some (heartbeat_configuration edgeDevice),
                              dc_LogCollection = logCollection, dc_Metrics = metrics,
                              dc_Os = os_information edgeDevice, dc_Storage = storage\<rparr>,
                           dcm_DeviceID = deviceID, dcm_Secrets = secretList,
                           dcm_Version = om_ResourceVersion (dev_meta edgeDevice),
                           dcm_Workloads = workloadList, dcm_WorkloadsMonitoringInterval = 0\<rparr>;
                 ret (Done (GetDataMessageForDeviceOK (Some (empty_message
                   \<lparr>msg_Type := MessageTypeData, msg_Directive := ''device'', msg_MessageID := uid,
                    msg_Version := 1, msg_Sent := now, msg_Content := ConfigurationContent dc\<rparr>))))
               }
           }
       }
   }"

definition GetDataMessageForDevice ::
  "'w env \<Rightarrow> 'w Handler \<Rightarrow> GetParams \<Rightarrow> ('w, GetDataMessageForDeviceResponse outcome) io" where
  "GetDataMessageForDevice E h params = do {
     let deviceID = gp_DeviceID params;
     r \<leftarrow> dev_Read E deviceID (h_initialNamespace h);
     case r of
       Inl err \<Rightarrow>
         if IsNotFound err then ret (Done GetDataMessageForDeviceNotFound)
         else ret (Done GetDataMessageForDeviceInternalServerError)
     | Inr edgeDevice \<Rightarrow> do {
         p \<leftarrow> device_payload E edgeDevice;
         case p of
           Panic x \<Rightarrow> ret (Panic x)
         | Done (Inl err) \<Rightarrow> ret (Done GetDataMessageForDeviceInternalServerError)
         | Done (Inr (workloadList, secretList)) \<Rightarrow> data_message E deviceID edgeDevice workloadList secretList
       }
   }"

section \<open>Registration and heartbeats\<close>

fun updateDeviceStatus_retry ::
  "'w env \<Rightarrow> EdgeDevice \<Rightarrow> (EdgeDevice \<Rightarrow> EdgeDevice outcome) \<Rightarrow> goerr \<Rightarrow> int list \<Rightarrow> ('w, goerr option outcome) io" where
  "updateDeviceStatus_retry E device updateFunc err [] = ret (Done (Some err))"
| "updateDeviceStatus_retry E device updateFunc err (i # is) = do {
     _ \<leftarrow> k_sleep E (i * 50);
     r \<leftarrow> dev_Read E (om_Name (dev_meta device)) (om_Namespace (dev_meta device));
     case r of
       Inl _ \<Rightarrow> updateDeviceStatus_retry E device updateFunc err is
     | Inr device2 \<Rightarrow>
         (case updateFunc device2 of
            Panic p \<Rightarrow> ret (Panic p)
          | Done device2' \<Rightarrow> do {
              e \<leftarrow> dev_PatchStatus E device2' device2;
              case e of
                Inr _ \<Rightarrow> ret (Done None)
              | Inl _ \<Rightarrow> updateDeviceStatus_retry E device updateFunc err is
            })
   }"

definition updateDeviceStatus ::
  "'w env \<Rightarrow> EdgeDevice \<Rightarrow> (EdgeDevice \<Rightarrow> EdgeDevice outcome) \<Rightarrow> ('w, (goerr option \<times> EdgeDevice) outcome) io" where
  "updateDeviceStatus E device updateFunc = (case updateFunc device of
     Panic p \<Rightarrow> ret (Panic p)
   | Done device' \<Rightarrow> do {
       r \<leftarrow> dev_PatchStatus E device' device;
       case r of
         Inr patched \<Rightarrow> ret (Done (None, patched))
       | Inl err \<Rightarrow> do {
           e \<leftarrow> updateDeviceStatus_retry E device' updateFunc err [1, 2, 3];
           ret (map_outcome (\<lambda>x. (x, device')) e)
         }
     })"

definition registration_status :: "'w env \<Rightarrow> HardwareInfo option \<Rightarrow> EdgeDevice \<Rightarrow> EdgeDevice outcome" where
  "registration_status E hardware device =
     map_outcome (\<lambda>hw. set_status (empty_status\<lparr>es_Hardware := hw\<rparr>) device) (MapHardware (k_fmt_2f E) hardware)"

definition new_device :: "string \<Rightarrow> string \<Rightarrow> time \<Rightarrow> EdgeDevice" where
  "new_device deviceID namespace now =
     \<lparr>dev_meta = (new_meta deviceID namespace)\<lparr>om_Finalizers := [YggdrasilConnectionFinalizer, YggdrasilWorkloadFinalizer]\<rparr>,
      dev_Spec = empty_spec\<lparr>sp_RequestTime := Some now\<rparr>, dev_Status = empty_status\<rparr>"

text \<open>The device does not exist yet: it is created, then its status and its labels are set.\<close>

definition register_device ::
  "'w env \<Rightarrow> 'w Handler \<Rightarrow> string \<Rightarrow> RegistrationInfo \<Rightarrow> MessageResponse \<Rightarrow> ('w, PostDataMessageForDeviceResponse outcome) io" where
  "register_device E h deviceID info res = do {
     now \<leftarrow> k_now E;
     c \<leftarrow> dev_Create E (new_device deviceID (h_initialNamespace h) now);
     case c of
       Inl err \<Rightarrow> do {
         _ \<leftarrow> k_inc E EdgeDeviceFailedRegistration;
         ret (Done PostDataMessageForDeviceInternalServerError)
       }
     | Inr device \<Rightarrow> do {
         s \<leftarrow> updateDeviceStatus E device (registration_status E (ri_Hardware info));
         case s of
           Panic p \<Rightarrow> ret (Panic p)
         | Done (Some err, _) \<Rightarrow> do {
             _ \<leftarrow> k_inc E EdgeDeviceFailedRegistration;
             ret (Done PostDataMessageForDeviceInternalServerError)
           }
         | Done (None, device') \<Rightarrow> do {
             (lerr, _) \<leftarrow> dev_UpdateLabels E device' (MapLabels (k_unicode E) (ri_Hardware info));
             case lerr of
               Some err \<Rightarrow> do {
                 _ \<leftarrow> k_inc E EdgeDeviceFailedRegistration;
                 ret (Done PostDataMessageForDeviceInternalServerError)
               }
             | None \<Rightarrow> do {
                 _ \<leftarrow> k_inc E EdgeDeviceSuccessfulRegistration;
                 ret (Done (PostDataMessageForDeviceOK (Some res)))
               }
           }
       }
   }"

text \<open>\<open>if registrationInfo.CertificateRequest != ""\<close>: the certificate, when one was asked for.\<close>

definition sign_request ::
  "'w env \<Rightarrow> 'w Handler \<Rightarrow> string \<Rightarrow> RegistrationInfo \<Rightarrow> ('w, string option result) io" where
  "sign_request E h deviceID info =
     (if ri_CertificateRequest info \<noteq> [] then do {
        r \<leftarrow> SignCSR E (h_crypto h) (h_mtlsConfig h) (ri_CertificateRequest info) deviceID;
        ret (map_sum id Some r)
      } else ret (Inr None))"

definition post_registration ::
  "'w env \<Rightarrow> 'w Handler \<Rightarrow> string \<Rightarrow> Message \<Rightarrow> ('w, PostDataMessageForDeviceResponse outcome) io" where
  "post_registration E h deviceID msg = (case k_json_registration E (msg_Content msg) of
     Inl err \<Rightarrow> ret (Done PostDataMessageForDeviceBadRequest)
   | Inr info \<Rightarrow> do {
       let res = empty_response\<lparr>mrs_Directive := msg_Directive msg, mrs_MessageID := msg_MessageID msg\<rparr>;
       r \<leftarrow> dev_Read E deviceID (h_initialNamespace h);
       case r of
         Inr _ \<Rightarrow> do {
           c \<leftarrow> sign_request E h deviceID info;
           case c of
             Inl err \<Rightarrow> ret (Done PostDataMessageForDeviceBadRequest)
           | Inr cert \<Rightarrow> ret (Done (PostDataMessageForDeviceOK (Some (res
               \<lparr>mrs_Content := RegistrationContent \<lparr>rr_Certificate = (case cert of None \<Rightarrow> [] | Some x \<Rightarrow> x)\<rparr>\<rparr>))))
         }
       | Inl err \<Rightarrow>
           if \<not> IsNotFound err then ret (Done PostDataMessageForDeviceInternalServerError)
           else do {
             c \<leftarrow> sign_request E h deviceID info;
             case c of
               Inl err' \<Rightarrow> ret (Done PostDataMessageForDeviceBadRequest)
             | Inr cert \<Rightarrow> register_device E h deviceID info (case cert of
                 None \<Rightarrow> res
               | Some x \<Rightarrow> res\<lparr>mrs_Content := RegistrationContent \<lparr>rr_Certificate = x\<rparr>\<rparr>)
           }
     })"

definition post_heartbeat ::
  "'w env \<Rightarrow> 'w Handler \<Rightarrow> string \<Rightarrow> Message \<Rightarrow> ('w, PostDataMessageForDeviceResponse outcome) io" where
  "post_heartbeat E h deviceID msg = (case k_json_heartbeat E (msg_Content msg) of
     Inl err \<Rightarrow> ret (Done PostDataMessageForDeviceBadRequest)
   | Inr hb \<Rightarrow> do {
       r \<leftarrow> Process E \<lparr>nt_DeviceID = deviceID, nt_Namespace = h_initialNamespace h, nt_Heartbeat = hb, nt_Retry = 0\<rparr>;
       ret (map_outcome (\<lambda>e. case e of
           None \<Rightarrow> PostDataMessageForDeviceOK None
         | Some err \<Rightarrow>
             if IsNotFound err then PostDataMessageForDeviceNotFound
             else PostDataMessageForDeviceInternalServerError) r)
     })"

definition PostDataMessageForDevice ::
  "'w env \<Rightarrow> 'w Handler \<Rightarrow> PostParams \<Rightarrow> ('w, PostDataMessageForDeviceResponse outcome) io" where
  "PostDataMessageForDevice E h params = (case pp_Message params of
     None \<Rightarrow> ret nil_dereference
   | Some msg \<Rightarrow>
       if msg_Directive msg = ''heartbeat'' then post_heartbeat E h (pp_DeviceID params) msg
       else if msg_Directive msg = ''registration'' then post_registration E h (pp_DeviceID params) msg
       else ret (Done PostDataMessageForDeviceBadRequest))"

end
