(* ===== verification/Device_Protocol.thy ===== *)
theory Device_Protocol
  imports Yggdrasil
begin

text \<open>
  The life of a device across the requests of \<open>internal/yggdrasil\<close>. Registration creates a device
  with two finalizers; after the deletion of its resource the data message withdraws its workloads and
  gives up the first, the control message disconnects it and gives up the second. The theory shows
  what each request does to the stored devices (inside \<open>device_api\<close>, for every API server that
  satisfies it), and that no sequence of requests can disconnect a device that still has to be told
  to stop its workloads.
\<close>

section \<open>Invariants of the stored devices\<close>

text \<open>\<open>preserves I m\<close>: running \<open>m\<close> keeps \<open>I\<close> true of the world.\<close>

definition preserves :: "('w \<Rightarrow> bool) \<Rightarrow> ('w, 'a) io \<Rightarrow> bool" where
  "preserves I m \<longleftrightarrow> (\<forall>w. I w \<longrightarrow> I (snd (run_state m w)))"

named_theorems preserving \<open>operations that keep an invariant, and the rules that compose them\<close>

lemma preserves_run: "preserves I m \<Longrightarrow> I w \<Longrightarrow> run_state m w = (r, w') \<Longrightarrow> I w'"
  by (metis preserves_def snd_conv)

lemma preservesI: "(\<And>w r w'. I w \<Longrightarrow> run_state m w = (r, w') \<Longrightarrow> I w') \<Longrightarrow> preserves I m"
  by (metis preserves_def prod.collapse)

lemma preserves_wp: "preserves I m \<Longrightarrow> I w \<Longrightarrow> wp m (\<lambda>_ w'. I w') w"
  by (simp add: wp_run preserves_def)

lemma wp_preserves: "(\<And>w. I w \<Longrightarrow> wp m (\<lambda>_ w'. I w') w) \<Longrightarrow> preserves I m"
  by (simp add: wp_run preserves_def)

lemma preserves_ret [preserving]: "preserves I (ret x)"
  by (simp add: preserves_def)

lemma preserves_bind [preserving]:
  "preserves I m \<Longrightarrow> (\<And>r. preserves I (f r)) \<Longrightarrow> preserves I (State_Monad.bind m f)"
  by (simp add: preserves_def split: prod.splits) (metis snd_conv)

lemma preserves_if [preserving]:
  "(b \<Longrightarrow> preserves I m) \<Longrightarrow> (\<not> b \<Longrightarrow> preserves I n) \<Longrightarrow> preserves I (if b then m else n)"
  by simp

lemma preserves_sum [preserving]:
  "(\<And>e. preserves I (f e)) \<Longrightarrow> (\<And>x. preserves I (g x)) \<Longrightarrow> preserves I (case r of Inl e \<Rightarrow> f e | Inr x \<Rightarrow> g x)"
  by (cases r) simp_all

lemma preserves_option [preserving]:
  "preserves I m \<Longrightarrow> (\<And>x. preserves I (g x)) \<Longrightarrow> preserves I (case r of None \<Rightarrow> m | Some x \<Rightarrow> g x)"
  by (cases r) simp_all

lemma preserves_prod [preserving]: "(\<And>a b. preserves I (f a b)) \<Longrightarrow> preserves I (case p of (a, b) \<Rightarrow> f a b)"
  by (cases p) simp

lemma preserves_outcome [preserving]:
  "(\<And>p. preserves I (f p)) \<Longrightarrow> (\<And>x. preserves I (g x)) \<Longrightarrow> preserves I (case r of Panic p \<Rightarrow> f p | Done x \<Rightarrow> g x)"
  by (cases r) simp_all

lemma preserves_try [preserving]:
  "preserves I m \<Longrightarrow> (\<And>x. preserves I (f x)) \<Longrightarrow> preserves I (try_io m f)"
  unfolding try_io_def by (intro preserving)

lemma keeps_preserves: "keeps v m \<Longrightarrow> preserves (\<lambda>w. P (v w)) m"
  by (simp add: preserves_def keeps_def)

text \<open>Every stored device has finalizers that satisfy \<open>Q\<close>.\<close>

definition fin_inv :: "(string list \<Rightarrow> bool) \<Rightarrow> (string \<times> string \<Rightarrow> EdgeDevice option) \<Rightarrow> bool" where
  "fin_inv Q D \<longleftrightarrow> (\<forall>k d. D k = Some d \<longrightarrow> Q (finalizers_of d))"

lemma fin_inv_update: "fin_inv Q D \<Longrightarrow> (\<And>s. x = Some s \<Longrightarrow> Q (finalizers_of s)) \<Longrightarrow> fin_inv Q (D(k := x))"
  by (simp add: fin_inv_def)

lemma fin_inv_get: "fin_inv Q D \<Longrightarrow> D k = Some d \<Longrightarrow> Q (finalizers_of d)"
  unfolding fin_inv_def by blast

lemma stored_after_finalizers: "stored_after s = Some t \<Longrightarrow> t = s"
  by (simp add: stored_after_def split: if_splits)

context device_api
begin

abbreviation fins :: "(string list \<Rightarrow> bool) \<Rightarrow> 'w \<Rightarrow> bool" where
  "fins Q w \<equiv> fin_inv Q (devs w)"

lemma quiet_preserves: "keeps devs m \<Longrightarrow> preserves (fins Q) m"
  by (rule keeps_preserves [where v = devs and P = "fin_inv Q"])

lemma PatchStatus_preserves [preserving]: "preserves (fins Q) (dev_PatchStatus E new old)"
proof (rule preservesI)
  fix w r w' assume inv: "fins Q w" and run: "run_state (dev_PatchStatus E new old) w = (r, w')"
  show "fins Q w'"
  proof (cases r)
    case (Inl e)
    with run inv show ?thesis using status_fails by (simp add: dev_PatchStatus_def)
  next
    case (Inr d)
    with run obtain cur s where s: "devs w (dev_key new) = Some cur" "devs w' = (devs w)(dev_key new \<mapsto> s)"
      "finalizers_of s = finalizers_of cur" unfolding dev_PatchStatus_def using status_done by blast
    show ?thesis unfolding s(2) using inv fin_inv_get [OF inv s(1)] s(3) by (intro fin_inv_update) auto
  qed
qed

lemma Patch_preserves_aux:
  assumes "fins Q w" and "run_state (dev_Patch E old new) w = (r, w')"
    and "\<And>cur. devs w (dev_key new) = Some cur \<Longrightarrow>
           Q (merge_field (finalizers_of old) (finalizers_of new) (finalizers_of cur))"
  shows "fins Q w'"
proof (cases r)
  case (Inl e)
  with assms show ?thesis using patch_fails by (simp add: dev_Patch_def)
next
  case (Inr d)
  with assms(2) obtain cur s where s: "devs w (dev_key new) = Some cur" "devs w' = (devs w)(dev_key new := stored_after s)"
    "finalizers_of s = merge_field (finalizers_of old) (finalizers_of new) (finalizers_of cur)"
    unfolding dev_Patch_def using patch_done by blast
  show ?thesis unfolding s(2) using assms(1) assms(3) [OF s(1)] s(3)
    by (intro fin_inv_update) (auto dest: stored_after_finalizers)
qed

lemma Patch_preserves [preserving]:
  assumes "finalizers_of new = finalizers_of old" shows "preserves (fins Q) (dev_Patch E old new)"
proof (rule preservesI)
  fix w r w' assume inv: "fins Q w" and run: "run_state (dev_Patch E old new) w = (r, w')"
  show "fins Q w'"
    by (rule Patch_preserves_aux [OF inv run]) (simp add: assms merge_field_def fin_inv_get [OF inv])
qed

lemma RemoveFinalizer_preserves:
  assumes "fins Q w" and "devs w (dev_key d) = Some d" and "Q (drop_finalizer f (finalizers_of d))"
  shows "wp (dev_RemoveFinalizer E d f) (\<lambda>_ w'. fins Q w') w"
proof -
  have "wp (dev_Patch E d (set_finalizers (drop_finalizer f (finalizers_of d)) d)) (\<lambda>_ w'. fins Q w') w"
    by (rule wp_intro, rule Patch_preserves_aux [OF assms(1)], assumption)
       (use assms in \<open>auto simp: merge_field_def dest: fin_inv_get\<close>)
  then show ?thesis unfolding dev_RemoveFinalizer_def Let_def wp_bind
    by (rule wp_conseq) (auto split: sum.splits)
qed

lemma Create_preserves:
  assumes "Q (finalizers_of d)" shows "preserves (fins Q) (dev_Create E d)"
proof (rule preservesI)
  fix w r w' assume inv: "fins Q w" and run: "run_state (dev_Create E d) w = (r, w')"
  show "fins Q w'"
  proof (cases r)
    case (Inl e)
    with run inv show ?thesis using create_fails by (simp add: dev_Create_def)
  next
    case (Inr x)
    with run obtain s where s: "devs w' = (devs w)(dev_key d \<mapsto> s)" "finalizers_of s = finalizers_of d"
      unfolding dev_Create_def using create_done by blast
    show ?thesis unfolding s(1) using inv assms s(2) by (intro fin_inv_update) auto
  qed
qed

section \<open>Labels, heartbeats, registration\<close>

lemma quiet_calls [preserving]:
  "preserves (fins Q) (dev_Read E n ns)" "preserves (fins Q) (k_now E)" "preserves (fins Q) (k_sleep E t)"
  "preserves (fins Q) (k_event E d ty reason msg)" "preserves (fins Q) (k_inc E c)" "preserves (fins Q) (k_uuid E)"
  "preserves (fins Q) (range_map E m)" "preserves (fins Q) (k_cm_get E ns n)" "preserves (fins Q) (k_secret_get E ns n)"
  unfolding dev_Read_def by (intro quiet_preserves quiet range_map_keeps)+

lemma updateLabels_preserves [preserving]: "preserves (fins Q) (dev_updateLabels E d ls)"
  unfolding dev_updateLabels_def Let_def by (intro preserving) simp

lemma UpdateLabels_retry_preserves [preserving]: "preserves (fins Q) (dev_UpdateLabels_retry E d ls err is)"
  by (induction "is") (auto intro!: preserving)

lemma UpdateLabels_preserves [preserving]: "preserves (fins Q) (dev_UpdateLabels E d ls)"
  unfolding dev_UpdateLabels_def by (intro preserving)

lemma processEvents_preserves [preserving]: "preserves (fins Q) (processEvents E d evs)"
proof (induction evs)
  case (Cons e evs)
  then show ?case by (cases e) (auto intro!: preserving)
qed (simp add: preserving)

lemma update_from_workloads_preserves [preserving]: "preserves (fins Q) (update_from_workloads E m ws)"
proof (induction ws arbitrary: m)
  case (Cons x ws)
  then show ?case by (cases x) (auto intro!: preserving split: option.split)
qed (simp add: preserving)

lemma process_preserves [preserving]: "preserves (fins Q) (process E n)"
  unfolding process_def updateStatus_def updateDeploymentStatuses_def updateLabels_def Let_def
  by (intro preserving)

lemma Process_preserves [preserving]: "preserves (fins Q) (Process E n)"
proof -
  have "preserves (fins Q) (Process_loop E n err is)" for n err "is"
    by (induction "is" arbitrary: n err) (auto intro!: preserving)
  then show ?thesis unfolding Process_def .
qed

section \<open>The configuration of a device only reads\<close>

lemmas keeping = keeps_ret keeps_bind keeps_if keeps_sum keeps_option keeps_prod keeps_outcome keeps_try keeps_require
  quiet range_map_keeps

lemma fetch_loop_keeps: "keeps devs (fetch_loop E ns es list)"
proof (induction es arbitrary: list)
  case (Cons x es)
  then show ?case by (cases x) (auto simp: readAndValidateConfigMap_def intro!: keeping)
qed simp

lemma Fetch_keeps: "keeps devs (Fetch E dep ns)"
  unfolding Fetch_def Let_def by (intro keeping fetch_loop_keeps)

lemma secret_loop_keeps: "keeps devs (secret_loop E ns es list)"
proof (induction es arbitrary: list)
  case (Cons x es)
  then show ?case by (cases x) (auto simp: readAndValidateSecret_def Let_def intro!: keeping)
qed simp

lemma createSecretList_keeps: "keeps devs (createSecretList E deps d)"
  unfolding createSecretList_def by (intro keeping secret_loop_keeps)

lemma setStorageConfiguration_keeps: "keeps devs (setStorageConfiguration E d)"
  unfolding setStorageConfiguration_def GetStorageConfiguration_def GetExternalStorageConfig_def external_config_def
    GetClaim_def Let_def
  by (intro keeping)

lemma metrics_keeps: "keeps devs (getDeviceMetricsConfiguration E d)"
  unfolding getDeviceMetricsConfiguration_def GenerateFromConfigMap_def Let_def by (intro keeping)

lemma getDeviceLogConfig_keeps: "keeps devs (getDeviceLogConfig E d)"
proof -
  have "keeps devs (log_targets E d es res)" for es res
  proof (induction es arbitrary: res)
    case (Cons x es)
    obtain k v where "x = (k, v)" by (cases x)
    with Cons show ?case by (cases v) (auto simp: getDeviceSyslogLogConfig_def Let_def intro!: keeping)
  qed simp
  then show ?thesis unfolding getDeviceLogConfig_def by (intro keeping)
qed

lemma toWorkloadList_keeps: "keeps devs (toWorkloadList E d deps list)"
proof (induction deps arbitrary: list)
  case (Cons dep deps)
  have "keeps devs (toWorkload E d dep)"
    unfolding toWorkload_def getAuthFile_def GetAuthFileFromSecret_def workload_metrics_def GenerateFromConfigMap_def Let_def
    by (intro keeping Fetch_keeps)
  with Cons show ?case by (auto intro!: keeping)
qed simp

lemma read_deployments_keeps: "keeps devs (read_deployments E ns ds acc)"
  by (induction ds arbitrary: acc) (auto simp: dep_Read_def intro!: keeping)

lemma createDisconnectCommand_keeps: "keeps devs (createDisconnectCommand E)"
  unfolding createDisconnectCommand_def by (intro keeping)

end

section \<open>Requests\<close>

lemma keeps_map_err: "keeps v m \<Longrightarrow> keeps v (map_err f m)"
  unfolding map_err_def by (intro keeps_bind keeps_ret)

text \<open>
  A patch of a device changes nothing but what differs between the two objects it was made from: the laws of
  \<open>device_api\<close> with the fields of the device that they leave open. The status is a subresource, which a patch of
  the device cannot write.
\<close>

definition patches_exactly :: "'w env \<Rightarrow> ('w \<Rightarrow> string \<times> string \<Rightarrow> EdgeDevice option) \<Rightarrow> bool" where
  "patches_exactly E devs \<longleftrightarrow> (\<forall>new old w r w'. run_state (k_dev_patch E new old) w = (Inr r, w') \<longrightarrow>
     (\<exists>cur s. devs w (dev_key new) = Some cur \<and> devs w' = (devs w)(dev_key new := stored_after s) \<and>
        dev_key s = dev_key cur \<and> om_DeletionTimestamp (dev_meta s) = om_DeletionTimestamp (dev_meta cur) \<and>
        dev_Status s = dev_Status cur \<and> (dev_Spec old = dev_Spec new \<longrightarrow> dev_Spec s = dev_Spec cur) \<and>
        labels_of s = merge_labels old new cur \<and>
        finalizers_of s = merge_field (finalizers_of old) (finalizers_of new) (finalizers_of cur)))"

text \<open>Two devices that differ at most in their finalizers (and in the version the server gives them).\<close>

definition same_but_finalizers :: "EdgeDevice \<Rightarrow> EdgeDevice \<Rightarrow> bool" where
  "same_but_finalizers d s \<longleftrightarrow> dev_key s = dev_key d \<and> om_DeletionTimestamp (dev_meta s) = om_DeletionTimestamp (dev_meta d) \<and>
     dev_Spec s = dev_Spec d \<and> dev_Status s = dev_Status d \<and> labels_of s = labels_of d"

text \<open>
  The answer to a control request for the device stored under \<open>k\<close>, with the devices before and after:
  a device is told to disconnect only when it is being deleted and has given up its workloads, and
  then it changes at most by losing its connection finalizer; every other answer leaves the devices alone.
\<close>

definition control_answer ::
  "string \<times> string \<Rightarrow> (string \<times> string \<Rightarrow> EdgeDevice option) \<Rightarrow> GetControlMessageForDeviceResponse \<Rightarrow>
   (string \<times> string \<Rightarrow> EdgeDevice option) \<Rightarrow> bool" where
  "control_answer k D r D' \<longleftrightarrow> (case r of
     GetControlMessageForDeviceOK (Some m) \<Rightarrow>
       msg_Type m = MessageTypeCommand \<and> msg_Content m = CommandContent ''disconnect'' \<and>
       (\<exists>d. D k = Some d \<and> om_DeletionTimestamp (dev_meta d) \<noteq> None \<and> YggdrasilWorkloadFinalizer \<notin> set (finalizers_of d) \<and>
          (D' = D \<or> (\<exists>s. D' = D(k := stored_after s) \<and> same_but_finalizers d s \<and>
             finalizers_of s = drop_finalizer YggdrasilConnectionFinalizer (finalizers_of d))))
   | GetControlMessageForDeviceOK None \<Rightarrow>
       D' = D \<and> (\<exists>d. D k = Some d \<and>
         (om_DeletionTimestamp (dev_meta d) = None \<or> YggdrasilWorkloadFinalizer \<in> set (finalizers_of d)))
   | GetControlMessageForDeviceNotFound \<Rightarrow> D' = D \<and> D k = None
   | GetControlMessageForDeviceInternalServerError \<Rightarrow> D' = D
   | _ \<Rightarrow> False)"

text \<open>
  The answer to a data request: the configuration of the stored device, without workloads and secrets
  when it is being deleted; at most the workload finalizer of a device that is being deleted goes, and where
  patches are \<open>exact\<close> nothing else of the device.
\<close>

definition data_answer ::
  "bool \<Rightarrow> string \<times> string \<Rightarrow> (string \<times> string \<Rightarrow> EdgeDevice option) \<Rightarrow> GetDataMessageForDeviceResponse outcome \<Rightarrow>
   (string \<times> string \<Rightarrow> EdgeDevice option) \<Rightarrow> bool" where
  "data_answer exact k D r D' \<longleftrightarrow>
     (D' = D \<or> (\<exists>d s. D k = Some d \<and> om_DeletionTimestamp (dev_meta d) \<noteq> None \<and> D' = D(k := stored_after s) \<and>
        finalizers_of s = drop_finalizer YggdrasilWorkloadFinalizer (finalizers_of d) \<and> (exact \<longrightarrow> same_but_finalizers d s))) \<and>
     (\<forall>resp. r = Done resp \<longrightarrow>
        resp = GetDataMessageForDeviceInternalServerError \<or>
        resp = GetDataMessageForDeviceNotFound \<and> D k = None \<or>
        (\<exists>m dc d. resp = GetDataMessageForDeviceOK (Some m) \<and> msg_Content m = ConfigurationContent dc \<and>
           dcm_DeviceID dc = snd k \<and> D k = Some d \<and>
           (om_DeletionTimestamp (dev_meta d) = None \<or> dcm_Workloads dc = [] \<and> dcm_Secrets dc = [])))"

text \<open>Besides the API, the handlers rely on the signer of certificates not to touch the devices.\<close>

locale device_server = device_api E devs
  for E :: "'w env" and devs :: "'w \<Rightarrow> string \<times> string \<Rightarrow> EdgeDevice option" +
  fixes h :: "'w Handler"
  assumes sign_keeps: "keeps devs (c_create_cert (h_crypto h) tmpl parent pub key)"
begin

lemma sign_request_keeps: "keeps devs (sign_request E h i info)"
proof -
  have provider: "keeps devs (provider_SignCSR E (h_crypto h) p pem cn t)" for p pem cn t
    unfolding provider_SignCSR_def by (intro keeping sign_keeps keeps_map_err)
  have "keeps devs (SignCSR E (h_crypto h) (h_mtlsConfig h) pem cn)" for pem cn
    by (cases "tc_caProvider (h_mtlsConfig h)") (auto simp: SignCSR_def intro!: keeping provider)
  then show ?thesis unfolding sign_request_def by (intro keeping)
qed

lemma updateDeviceStatus_preserves [preserving]: "preserves (fins Q) (updateDeviceStatus E d f)"
proof -
  have "preserves (fins Q) (updateDeviceStatus_retry E d f err is)" for d err "is"
    by (induction "is") (auto intro!: preserving)
  then show ?thesis unfolding updateDeviceStatus_def by (intro preserving)
qed

lemma register_device_preserves:
  assumes "Q [YggdrasilConnectionFinalizer, YggdrasilWorkloadFinalizer]"
  shows "preserves (fins Q) (register_device E h i info res)"
  unfolding register_device_def
  by (intro preserving Create_preserves) (simp add: new_device_def assms)

lemma PostData_preserves:
  assumes "Q [YggdrasilConnectionFinalizer, YggdrasilWorkloadFinalizer]"
  shows "preserves (fins Q) (PostDataMessageForDevice E h p)"
  unfolding PostDataMessageForDevice_def post_heartbeat_def post_registration_def Let_def
  by (intro preserving register_device_preserves quiet_preserves sign_request_keeps assms)

lemma wp_Read: "wp (dev_Read E n ns) (\<lambda>r w'. devs w' = devs w \<and>
    (\<forall>d. r = Inr d \<longrightarrow> devs w (ns, n) = Some d \<and> dev_key d = (ns, n))) w"
  by (rule wp_conseq [OF repo.read_spec]) auto

lemma device_payload_fins:
  assumes "fins Q w" and "devs w (dev_key d) = Some d"
    and "\<And>fs. Q fs \<Longrightarrow> Q (drop_finalizer YggdrasilWorkloadFinalizer fs)"
  shows "wp (device_payload E d) (\<lambda>_ w'. fins Q w') w"
proof (cases "om_DeletionTimestamp (dev_meta d) = None")
  case True
  have "preserves (fins Q) (device_payload E d)"
    unfolding device_payload_def if_P [OF True]
    by (intro quiet_preserves keeping read_deployments_keeps toWorkloadList_keeps createSecretList_keeps)
  then show ?thesis using assms(1) by (rule preserves_wp)
next
  case False
  note rm = RemoveFinalizer_preserves [OF assms(1,2) assms(3) [OF fin_inv_get [OF assms(1,2)]]]
  show ?thesis
    unfolding device_payload_def if_not_P [OF False] using rm assms(1)
    by (auto simp: wp_if elim!: wp_conseq)
qed

lemma data_message_preserves: "preserves (fins Q) (data_message E i d wl sl)"
  unfolding data_message_def Let_def
  by (intro quiet_preserves keeping setStorageConfiguration_keeps metrics_keeps getDeviceLogConfig_keeps)

lemma GetData_preserves:
  assumes "\<And>fs. Q fs \<Longrightarrow> Q (drop_finalizer YggdrasilWorkloadFinalizer fs)"
  shows "preserves (fins Q) (GetDataMessageForDevice E h p)"
proof (rule wp_preserves)
  fix w assume inv: "fins Q w"
  show "wp (GetDataMessageForDevice E h p) (\<lambda>_ w'. fins Q w') w"
    unfolding GetDataMessageForDevice_def Let_def wp_bind
  proof (rule wp_conseq [OF wp_Read], goal_cases)
    case (1 r w1)
    then have inv1: "fins Q w1" using inv by simp
    show ?case
    proof (cases r)
      case (Inl e)
      with inv1 show ?thesis by simp
    next
      case (Inr d)
      with 1 have "devs w1 (dev_key d) = Some d" by simp
      then have "wp (device_payload E d) (\<lambda>_ w'. fins Q w') w1" by (rule device_payload_fins [OF inv1 _ assms])
      then show ?thesis
        unfolding Inr sum.case wp_bind
        by (rule wp_conseq) (rule preserves_wp [rotated], assumption, intro preserving data_message_preserves)
    qed
  qed
qed

lemma GetControl_preserves:
  assumes "\<And>fs. Q fs \<Longrightarrow> YggdrasilWorkloadFinalizer \<notin> set fs \<Longrightarrow> Q (drop_finalizer YggdrasilConnectionFinalizer fs)"
  shows "preserves (fins Q) (GetControlMessageForDevice E h p)"
proof (rule wp_preserves)
  fix w assume inv: "fins Q w"
  show "wp (GetControlMessageForDevice E h p) (\<lambda>_ w'. fins Q w') w"
    unfolding GetControlMessageForDevice_def Let_def wp_bind
  proof (rule wp_conseq [OF wp_Read], goal_cases)
    case (1 r w1)
    then have inv1: "fins Q w1" using inv by simp
    show ?case
    proof (cases r)
      case (Inl e)
      with inv1 show ?thesis by simp
    next
      case (Inr d)
      with 1 have stored: "devs w1 (dev_key d) = Some d" by simp
      show ?thesis
      proof (cases "om_DeletionTimestamp (dev_meta d) \<noteq> None \<and> \<not> HasFinalizer (dev_meta d) YggdrasilWorkloadFinalizer")
        case False
        show ?thesis unfolding Inr sum.case if_not_P [OF False] using inv1 by simp
      next
        case True
        then have "Q (drop_finalizer YggdrasilConnectionFinalizer (finalizers_of d))"
          using assms [OF fin_inv_get [OF inv1 stored]] by (simp add: HasFinalizer_iff)
        note rm = RemoveFinalizer_preserves [OF inv1 stored this]
        have tail: "preserves (fins Q) (case e of Some x \<Rightarrow> ret (Some x)
            | None \<Rightarrow> do { _ \<leftarrow> k_inc E EdgeDeviceUnregistration; ret None })" for e :: "goerr option"
          by (intro preserving)
        have cmd: "preserves (fins Q) (case e of Some _ \<Rightarrow> ret GetControlMessageForDeviceInternalServerError
            | None \<Rightarrow> do { message \<leftarrow> createDisconnectCommand E; ret (GetControlMessageForDeviceOK (Some message)) })" for e :: "goerr option"
          by (intro preserving quiet_preserves createDisconnectCommand_keeps)
        have "wp (if HasFinalizer (dev_meta d) YggdrasilConnectionFinalizer then do {
                    (e, _) \<leftarrow> dev_RemoveFinalizer E d YggdrasilConnectionFinalizer;
                    case e of
                      Some x \<Rightarrow> ret (Some x)
                    | None \<Rightarrow> do { _ \<leftarrow> k_inc E EdgeDeviceUnregistration; ret None }
                  } else ret None) (\<lambda>_ w'. fins Q w') w1"
          using inv1 by (auto intro!: wp_conseq [OF rm] preserves_wp [OF tail] split: prod.split)
        then show ?thesis
          unfolding Inr sum.case if_P [OF True] wp_bind by (rule wp_conseq) (rule preserves_wp [OF cmd])
      qed
    qed
  qed
qed

text \<open>What a control request does.\<close>

lemma RemoveFinalizer_result:
  assumes "devs w (dev_key d) = Some d"
  shows "wp (dev_RemoveFinalizer E d f) (\<lambda>(e, _) w'. e = None \<and> (devs w' = devs w \<or>
    (\<exists>s. devs w' = (devs w)(dev_key d := stored_after s) \<and> finalizers_of s = drop_finalizer f (finalizers_of d) \<and>
       (patches_exactly E devs \<longrightarrow> same_but_finalizers d s)))) w"
proof -
  let ?cp = "set_finalizers (drop_finalizer f (finalizers_of d)) d"
  have key: "devs w (dev_key ?cp) = Some d" using assms by simp
  have spec: "dev_Spec d = dev_Spec ?cp" by (simp add: set_finalizers_def)
  let ?gone = "\<lambda>w'. \<exists>s. devs w' = (devs w)(dev_key d := stored_after s) \<and> finalizers_of s = drop_finalizer f (finalizers_of d) \<and>
    (patches_exactly E devs \<longrightarrow> same_but_finalizers d s)"
  have "wp (dev_Patch E d ?cp) (\<lambda>r w'. case r of Inl e \<Rightarrow> devs w' = devs w | Inr _ \<Rightarrow> ?gone w') w"
  proof (rule wp_intro)
    fix r w' assume run: "run_state (dev_Patch E d ?cp) w = (r, w')"
    show "case r of Inl e \<Rightarrow> devs w' = devs w | Inr _ \<Rightarrow> ?gone w'"
    proof (cases r)
      case (Inl e)
      with run show ?thesis using patch_fails by (simp add: dev_Patch_def)
    next
      case (Inr x)
      show ?thesis
      proof (cases "patches_exactly E devs")
        case True
        with run Inr key spec obtain s where "devs w' = (devs w)(dev_key d := stored_after s)" "same_but_finalizers d s"
          "finalizers_of s = merge_field (finalizers_of d) (finalizers_of ?cp) (finalizers_of d)"
          unfolding patches_exactly_def same_but_finalizers_def dev_Patch_def
          by (fastforce simp: merge_labels_def merge_field_def)
        with Inr show ?thesis by (auto simp: merge_field_def)
      next
        case False
        with wp_elim [OF repo.patch_spec [OF key, of d] run] Inr show ?thesis by (auto simp: merge_field_def)
      qed
    qed
  qed
  then show ?thesis
    unfolding dev_RemoveFinalizer_def Let_def wp_bind by (rule wp_conseq) (auto split: sum.splits)
qed

lemma createDisconnectCommand_result:
  "wp (createDisconnectCommand E) (\<lambda>m w'. devs w' = devs w \<and> msg_Type m = MessageTypeCommand \<and>
     msg_Content m = CommandContent ''disconnect'') w"
proof -
  have "wp (createDisconnectCommand E) (\<lambda>m _. msg_Type m = MessageTypeCommand \<and> msg_Content m = CommandContent ''disconnect'') w"
    by (simp add: createDisconnectCommand_def)
  with keeps_wp [OF createDisconnectCommand_keeps, of w] show ?thesis by (simp add: wp_conj)
qed

lemma GetControl_answer:
  assumes exact: "patches_exactly E devs"
  shows "wp (GetControlMessageForDevice E h p) (\<lambda>r w'. control_answer (h_initialNamespace h, gp_DeviceID p) (devs w) r (devs w')) w"
  unfolding GetControlMessageForDevice_def Let_def wp_bind
proof (rule wp_conseq [OF repo.read_spec], goal_cases)
  case (1 r w1)
  let ?k = "(h_initialNamespace h, gp_DeviceID p)"
  show ?case
  proof (cases r)
    case (Inl e)
    with 1 show ?thesis by (simp add: control_answer_def)
  next
    case (Inr d)
    with 1 have d: "devs w1 = devs w" "devs w ?k = Some d" "dev_key d = ?k" by auto
    show ?thesis
    proof (cases "om_DeletionTimestamp (dev_meta d) \<noteq> None \<and> \<not> HasFinalizer (dev_meta d) YggdrasilWorkloadFinalizer")
      case False
      show ?thesis unfolding Inr sum.case if_not_P [OF False] using d False
        by (simp add: control_answer_def HasFinalizer_iff)
    next
      case True
      let ?D = "\<lambda>w'. devs w' = devs w \<or> (\<exists>s. devs w' = (devs w)(?k := stored_after s) \<and> same_but_finalizers d s \<and>
          finalizers_of s = drop_finalizer YggdrasilConnectionFinalizer (finalizers_of d))"
      have "wp (dev_RemoveFinalizer E d YggdrasilConnectionFinalizer) (\<lambda>(e, _) w'. e = None \<and> ?D w') w1"
        using RemoveFinalizer_result [of w1 d YggdrasilConnectionFinalizer] d exact by (auto elim!: wp_conseq)
      then have rm: "wp (if HasFinalizer (dev_meta d) YggdrasilConnectionFinalizer then do {
                    (e, _) \<leftarrow> dev_RemoveFinalizer E d YggdrasilConnectionFinalizer;
                    case e of
                      Some x \<Rightarrow> ret (Some x)
                    | None \<Rightarrow> do { _ \<leftarrow> k_inc E EdgeDeviceUnregistration; ret None }
                  } else ret None) (\<lambda>e w'. e = None \<and> ?D w') w1"
        using d(1) by (auto elim!: wp_conseq intro!: wp_conseq [OF keeps_wp [OF inc_keeps]])
      show ?thesis
        unfolding Inr sum.case if_P [OF True] wp_bind
      proof (rule wp_conseq [OF rm], goal_cases)
        case (1 e w2)
        then have e: "e = None" and D: "?D w2" by auto
        show ?case unfolding e option.case wp_bind wp_ret
        proof (rule wp_conseq [OF createDisconnectCommand_result], goal_cases)
          case (1 m w3)
          have "YggdrasilWorkloadFinalizer \<notin> set (finalizers_of d)" using True by (simp add: HasFinalizer_iff)
          with 1 D True d(2) show ?case unfolding control_answer_def by auto
        qed
      qed
    qed
  qed
qed

text \<open>The finalizer is given up before the configuration is read, whose failure is only reported.\<close>

lemma finalizer_lost_on_error:
  assumes exact: "patches_exactly E devs" and read: "run_state (dev_Read E i (h_initialNamespace h)) w = (Inr d, w1)"
    and leaving: "om_DeletionTimestamp (dev_meta d) \<noteq> None" "HasFinalizer (dev_meta d) YggdrasilWorkloadFinalizer"
      "HasFinalizer (dev_meta d) YggdrasilConnectionFinalizer"
    and patch: "run_state (dev_Patch E d (set_finalizers (drop_finalizer YggdrasilWorkloadFinalizer (finalizers_of d)) d)) w1 = (Inr d', w2)"
    and storage: "run_state (setStorageConfiguration E d) w2 = (Done st, w3)"
    and metrics: "run_state (getDeviceMetricsConfiguration E d) w3 = (Inl e, w4)"
  shows "run_state (GetDataMessageForDevice E h \<lparr>gp_DeviceID = i\<rparr>) w = (Done GetDataMessageForDeviceInternalServerError, w4)"
    and "\<exists>s. devs w4 = (devs w)((h_initialNamespace h, i) \<mapsto> s) \<and> om_DeletionTimestamp (dev_meta s) \<noteq> None \<and>
      finalizers_of s = drop_finalizer YggdrasilWorkloadFinalizer (finalizers_of d)"
proof -
  let ?k = "(h_initialNamespace h, i)" and ?fs = "drop_finalizer YggdrasilWorkloadFinalizer (finalizers_of d)"
  have d: "devs w1 = devs w" "devs w ?k = Some d" "dev_key d = ?k"
    using read get_found keeps_run [OF get_keeps] by (auto simp: dev_Read_def)
  have "run_state (dev_RemoveFinalizer E d YggdrasilWorkloadFinalizer) w1 = ((None, set_finalizers (finalizers_of d') d), w2)"
    using patch by (simp add: dev_RemoveFinalizer_def Let_def)
  then have "run_state (device_payload E d) w1 = (Done (Inr ([], [])), w2)"
    unfolding device_payload_def if_not_P [OF leaving(1)] if_P [OF leaving(2)] by simp
  then show "run_state (GetDataMessageForDevice E h \<lparr>gp_DeviceID = i\<rparr>) w = (Done GetDataMessageForDeviceInternalServerError, w4)"
    using read storage metrics by (cases st) (simp add: GetDataMessageForDevice_def data_message_def Let_def)
  have "devs w4 = devs w2"
    using keeps_run [OF setStorageConfiguration_keeps storage] keeps_run [OF metrics_keeps metrics] by simp
  moreover from exact patch obtain cur s where "devs w1 (dev_key d) = Some cur" "devs w2 = (devs w1)(dev_key d := stored_after s)"
    "om_DeletionTimestamp (dev_meta s) = om_DeletionTimestamp (dev_meta cur)" "finalizers_of s = merge_field (finalizers_of d) ?fs (finalizers_of cur)"
    unfolding patches_exactly_def dev_Patch_def by (metis dev_setters(1,5))
  moreover from this d have "finalizers_of s = ?fs" by (auto simp: merge_field_def)
  moreover have "?fs \<noteq> []"
    using leaving(3) by (auto simp: HasFinalizer_iff drop_finalizer_filter filter_empty_conv
        YggdrasilConnectionFinalizer_def YggdrasilWorkloadFinalizer_def intro!: bexI [of _ YggdrasilConnectionFinalizer])
  ultimately show "\<exists>s. devs w4 = (devs w)(?k \<mapsto> s) \<and> om_DeletionTimestamp (dev_meta s) \<noteq> None \<and> finalizers_of s = ?fs"
    using d leaving(1) by (intro exI [of _ s]) (auto simp: stored_after_def)
qed

text \<open>A device that is being deleted gets an empty configuration.\<close>

lemma data_message_content:
  "wp (data_message E i d wl sl) (\<lambda>r _. \<forall>resp. r = Done resp \<longrightarrow> resp = GetDataMessageForDeviceInternalServerError \<or>
     (\<exists>m dc. resp = GetDataMessageForDeviceOK (Some m) \<and> msg_Content m = ConfigurationContent dc \<and>
        dcm_DeviceID dc = i \<and> dcm_Workloads dc = wl \<and> dcm_Secrets dc = sl)) w"
  by (auto simp: data_message_def Let_def wp_def split: prod.splits sum.splits outcome.splits)

lemma data_message_keeps: "keeps devs (data_message E i d wl sl)"
  unfolding data_message_def Let_def
  by (intro keeping setStorageConfiguration_keeps metrics_keeps getDeviceLogConfig_keeps)

lemma device_payload_result:
  assumes "devs w (dev_key d) = Some d"
  shows "wp (device_payload E d) (\<lambda>r w'.
    (devs w' = devs w \<or> (\<exists>s. om_DeletionTimestamp (dev_meta d) \<noteq> None \<and> devs w' = (devs w)(dev_key d := stored_after s) \<and>
       finalizers_of s = drop_finalizer YggdrasilWorkloadFinalizer (finalizers_of d) \<and>
       (patches_exactly E devs \<longrightarrow> same_but_finalizers d s))) \<and>
    (\<forall>wl sl. r = Done (Inr (wl, sl)) \<longrightarrow> om_DeletionTimestamp (dev_meta d) = None \<or> wl = [] \<and> sl = [])) w"
proof (cases "om_DeletionTimestamp (dev_meta d) = None")
  case True
  have "keeps devs (device_payload E d)"
    unfolding device_payload_def if_P [OF True]
    by (intro keeping read_deployments_keeps toWorkloadList_keeps createSecretList_keeps)
  from keeps_wp [OF this, of w] show ?thesis by (rule wp_conseq) (simp add: True)
next
  case False
  show ?thesis
    unfolding device_payload_def if_not_P [OF False]
    using RemoveFinalizer_result [OF assms, of YggdrasilWorkloadFinalizer] False
    by (auto elim!: wp_conseq)
qed

lemma GetData_answer:
  "wp (GetDataMessageForDevice E h p) (\<lambda>r w'. data_answer (patches_exactly E devs) (h_initialNamespace h, gp_DeviceID p) (devs w) r (devs w')) w"
  unfolding GetDataMessageForDevice_def Let_def wp_bind
proof (rule wp_conseq [OF repo.read_spec], goal_cases)
  case (1 r w1)
  let ?k = "(h_initialNamespace h, gp_DeviceID p)"
  show ?case
  proof (cases r)
    case (Inl e)
    with 1 show ?thesis by (simp add: data_answer_def)
  next
    case (Inr d)
    with 1 have d: "devs w1 = devs w" "devs w ?k = Some d" "dev_key d = ?k" by auto
    then have "devs w1 (dev_key d) = Some d" by simp
    from device_payload_result [OF this] show ?thesis
      unfolding Inr sum.case wp_bind
    proof (rule wp_conseq, goal_cases)
      case (1 r2 w2)
      then have D: "devs w2 = devs w \<or> (\<exists>s. om_DeletionTimestamp (dev_meta d) \<noteq> None \<and> devs w2 = (devs w)(?k := stored_after s) \<and>
          finalizers_of s = drop_finalizer YggdrasilWorkloadFinalizer (finalizers_of d) \<and>
          (patches_exactly E devs \<longrightarrow> same_but_finalizers d s))"
        using d by simp
      show ?case
      proof (cases "\<exists>wl sl. r2 = Done (Inr (wl, sl))")
        case False
        with D d(2) show ?thesis
          by (cases r2) (auto simp: data_answer_def split: sum.split)
      next
        case True
        then obtain wl sl where r2: "r2 = Done (Inr (wl, sl))" by blast
        with 1 have empty: "om_DeletionTimestamp (dev_meta d) = None \<or> wl = [] \<and> sl = []" by simp
        have "wp (data_message E (gp_DeviceID p) d wl sl) (\<lambda>r w'. data_answer (patches_exactly E devs) ?k (devs w) r (devs w')) w2"
        proof (rule wp_intro)
          fix r3 w3 assume run: "run_state (data_message E (gp_DeviceID p) d wl sl) w2 = (r3, w3)"
          have w3: "devs w3 = devs w2" by (rule keeps_run [OF data_message_keeps run])
          show "data_answer (patches_exactly E devs) ?k (devs w) r3 (devs w3)"
            unfolding data_answer_def snd_conv w3
          proof (intro conjI allI impI)
            show "devs w2 = devs w \<or> (\<exists>d s. devs w ?k = Some d \<and> om_DeletionTimestamp (dev_meta d) \<noteq> None \<and>
                devs w2 = (devs w)(?k := stored_after s) \<and>
                finalizers_of s = drop_finalizer YggdrasilWorkloadFinalizer (finalizers_of d) \<and>
                (patches_exactly E devs \<longrightarrow> same_but_finalizers d s))"
              using D d(2) by blast
          next
            fix resp assume "r3 = Done resp"
            with wp_elim [OF data_message_content run] have "resp = GetDataMessageForDeviceInternalServerError \<or>
               (\<exists>m dc. resp = GetDataMessageForDeviceOK (Some m) \<and> msg_Content m = ConfigurationContent dc \<and>
                  dcm_DeviceID dc = gp_DeviceID p \<and> dcm_Workloads dc = wl \<and> dcm_Secrets dc = sl)" by blast
            then show "resp = GetDataMessageForDeviceInternalServerError \<or>
               resp = GetDataMessageForDeviceNotFound \<and> devs w ?k = None \<or>
               (\<exists>m dc d. resp = GetDataMessageForDeviceOK (Some m) \<and> msg_Content m = ConfigurationContent dc \<and>
                  dcm_DeviceID dc = gp_DeviceID p \<and> devs w ?k = Some d \<and>
                  (om_DeletionTimestamp (dev_meta d) = None \<or> dcm_Workloads dc = [] \<and> dcm_Secrets dc = []))"
              using d(2) empty by fastforce
          qed
        qed
        then show ?thesis unfolding r2 by simp
      qed
    qed
  qed
qed

end

section \<open>Registration\<close>

text \<open>The devices \<open>D0\<close> with one device added under \<open>k\<close>: it has both finalizers and labels that satisfy \<open>L\<close>.\<close>

definition registered ::
  "((string \<Rightarrow> string option) \<Rightarrow> bool) \<Rightarrow> (string \<times> string \<Rightarrow> EdgeDevice option) \<Rightarrow> string \<times> string \<Rightarrow>
   (string \<times> string \<Rightarrow> EdgeDevice option) \<Rightarrow> bool" where
  "registered L D0 k D \<longleftrightarrow> (\<exists>s. D = D0(k \<mapsto> s) \<and> dev_key s = k \<and>
     finalizers_of s = [YggdrasilConnectionFinalizer, YggdrasilWorkloadFinalizer] \<and> L (labels_of s))"

definition unlabelled :: "(string \<Rightarrow> string option) \<Rightarrow> bool" where
  "unlabelled l \<longleftrightarrow> (\<forall>k. l k = None)"

definition carries_labels :: "string gomap option \<Rightarrow> (string \<Rightarrow> string option) \<Rightarrow> bool" where
  "carries_labels ls l \<longleftrightarrow> (\<forall>k v. gm_lookup ls k = Some v \<longrightarrow> l k = Some v)"

context device_server
begin

lemma Create_registers:
  assumes "run_state (dev_Create E (new_device i ns now)) w = (Inr d, w')"
  shows "registered unlabelled (devs w) (ns, i) (devs w') \<and> dev_key d = (ns, i) \<and> unlabelled (labels_of d)"
proof -
  let ?n = "new_device i ns now"
  have key: "dev_key ?n = (ns, i)" "labels_of ?n = (\<lambda>_. None)"
    by (auto simp: new_device_def dev_key_def labels_of_def new_meta_def)
  obtain s where s: "dev_key s = (ns, i)" "devs w' = (devs w)((ns, i) \<mapsto> s)" "response_of s ?n d"
      "labels_of s = (\<lambda>_. None)" "finalizers_of s = [YggdrasilConnectionFinalizer, YggdrasilWorkloadFinalizer]"
    using create_done [of ?n w d w'] assms key by (auto simp: dev_Create_def new_device_def)
  have "unlabelled (labels_of d)" "dev_key d = (ns, i)"
    using s(1,3,4) key(2) by (auto simp: unlabelled_def response_of_def decoded_def)
  moreover have "registered unlabelled (devs w) (ns, i) (devs w')"
    using s unfolding registered_def unlabelled_def by (intro exI [of _ s]) simp
  ultimately show ?thesis by blast
qed

lemma PatchStatus_registered:
  assumes "registered unlabelled D0 k (devs w)" and "dev_key new = k" and "unlabelled (labels_of new)"
  shows "wp (dev_PatchStatus E new old) (\<lambda>r w'. registered unlabelled D0 k (devs w') \<and>
           (\<forall>d. r = Inr d \<longrightarrow> dev_key d = k \<and> unlabelled (labels_of d))) w"
proof -
  obtain c where c: "devs w = D0(k \<mapsto> c)" "dev_key c = k" "unlabelled (labels_of c)"
      "finalizers_of c = [YggdrasilConnectionFinalizer, YggdrasilWorkloadFinalizer]"
    using assms(1) unfolding registered_def by blast
  then have "devs w (dev_key new) = Some c" using assms(2) by simp
  from repo.patch_status_spec [OF this, of old] show ?thesis
  proof (rule wp_conseq, goal_cases)
    case (1 r w')
    show ?case
    proof (cases r)
      case (Inl e)
      with 1 assms(1) show ?thesis by simp
    next
      case (Inr d)
      with 1 obtain s where s: "dev_key s = k" "response_of s new d" "devs w' = (devs w)(k \<mapsto> s)"
          "labels_of s = labels_of c" "finalizers_of s = finalizers_of c"
        using assms(2) by auto
      have "dev_key d = k" "unlabelled (labels_of d)"
        using s(1,2,4) c(3) assms(3) by (auto simp: response_of_def unlabelled_def decoded_def)
      moreover have "registered unlabelled D0 k (devs w')"
        unfolding registered_def s(3) c(1) using s c by (intro exI [of _ s]) simp
      ultimately show ?thesis using Inr by simp
    qed
  qed
qed

lemma registration_status_keeps:
  "registration_status E hw d = Done d' \<Longrightarrow> dev_key d' = dev_key d \<and> labels_of d' = labels_of d"
  by (cases "MapHardware (k_fmt_2f E) hw") (auto simp: registration_status_def)

lemma updateDeviceStatus_retry_registered:
  assumes "registered unlabelled D0 k (devs w)" and "dev_key d = k"
  shows "wp (updateDeviceStatus_retry E d (registration_status E hw) err is)
           (\<lambda>_ w'. registered unlabelled D0 k (devs w')) w"
  using assms(1)
proof (induction "is" arbitrary: w)
  case (Cons i "is")
  show ?case
    unfolding updateDeviceStatus_retry.simps wp_bind
  proof (rule wp_conseq [OF keeps_wp [OF sleep_keeps]], rule wp_conseq [OF wp_Read], goal_cases)
    case (1 x w1 r w2)
    then have reg: "registered unlabelled D0 k (devs w2)" using Cons.prems by simp
    show ?case
    proof (cases r)
      case (Inl e)
      with Cons.IH [OF reg] show ?thesis by simp
    next
      case (Inr d2)
      with 1 assms(2) have d2: "devs w2 k = Some d2" "dev_key d2 = k" by (auto simp: dev_key_def)
      then have lab: "unlabelled (labels_of d2)" using reg unfolding registered_def by auto
      show ?thesis
      proof (cases "registration_status E hw d2")
        case (Panic p)
        with reg Inr show ?thesis by simp
      next
        case (Done d2')
        with registration_status_keeps [OF Done] d2 lab have "dev_key d2' = k" "unlabelled (labels_of d2')" by auto
        from PatchStatus_registered [OF reg this, of d2] show ?thesis
          unfolding Inr sum.case Done outcome.case wp_bind
          by (rule wp_conseq) (auto split: sum.split intro: Cons.IH)
      qed
    qed
  qed
qed simp

lemma updateDeviceStatus_registered:
  assumes "registered unlabelled D0 k (devs w)" and "dev_key d = k" and "unlabelled (labels_of d)"
  shows "wp (updateDeviceStatus E d (registration_status E hw)) (\<lambda>r w'. registered unlabelled D0 k (devs w') \<and>
           (\<forall>e d'. r = Done (e, d') \<longrightarrow> dev_key d' = k \<and> unlabelled (labels_of d'))) w"
proof (cases "registration_status E hw d")
  case (Panic p)
  with assms(1) show ?thesis by (simp add: updateDeviceStatus_def)
next
  case (Done d')
  with registration_status_keeps [OF Done] assms have d': "dev_key d' = k" "unlabelled (labels_of d')" by auto
  show ?thesis
    unfolding updateDeviceStatus_def Done outcome.case wp_bind
  proof (rule wp_conseq [OF PatchStatus_registered [OF assms(1) d']], goal_cases)
    case (1 r w1)
    then show ?case
    proof (cases r)
      case (Inl err)
      from 1 have reg: "registered unlabelled D0 k (devs w1)" by simp
      show ?thesis unfolding Inl sum.case wp_bind
      proof (rule wp_conseq [OF updateDeviceStatus_retry_registered [OF reg d'(1)]], goal_cases)
        case (1 e w2)
        with d' show ?case by (cases e) auto
      qed
    qed auto
  qed
qed

text \<open>Labels on a device without labels, or on the device as it is stored.\<close>

lemma updateLabels_registered:
  assumes "devs w = D0(k \<mapsto> c)" and "dev_key c = k"
    and "finalizers_of c = [YggdrasilConnectionFinalizer, YggdrasilWorkloadFinalizer]"
    and "dev_key d = k" and "unlabelled (labels_of d) \<or> d = c" and "gm_wf (opt_list ls)"
  shows "wp (dev_updateLabels E d ls) (\<lambda>(err, _) w'. (case err of
             Some _ \<Rightarrow> devs w' = devs w | None \<Rightarrow> registered (carries_labels ls) D0 k (devs w'))) w"
proof -
  let ?ls = "gm_put_all (opt_list (om_Labels (dev_meta d))) (opt_list ls)"
  have put: "gm_get ?ls x = (case gm_lookup ls x of Some v \<Rightarrow> Some v | None \<Rightarrow> labels_of d x)" for x
    unfolding labels_of_def by (rule gm_lookup_put_all [OF assms(6)])
  show ?thesis
  proof (cases "labels_DeepEqual (Some ?ls) (om_Labels (dev_meta d))")
    case True
    have "labels_of d = gm_get ?ls" using labels_DeepEqual_lookup [OF True] by (simp add: labels_of_def)
    then have eq: "labels_of d x = (case gm_lookup ls x of Some v \<Rightarrow> Some v | None \<Rightarrow> labels_of d x)" for x
      using put by simp
    have "labels_of d x = Some v" if "gm_lookup ls x = Some v" for x v using eq [of x] that by simp
    then have "carries_labels ls (labels_of c)"
      using assms(5) unfolding carries_labels_def unlabelled_def by (metis option.distinct(1))
    then have "registered (carries_labels ls) D0 k (devs w)"
      unfolding registered_def using assms by (intro exI [of _ c]) simp
    with True show ?thesis by (simp add: dev_updateLabels_def)
  next
    case False
    let ?cp = "set_labels (Some ?ls) d"
    have "devs w (dev_key ?cp) = Some c" using assms by simp
    from repo.patch_spec [OF this, of d] have "wp (dev_Patch E d ?cp) (\<lambda>r w'. case r of Inl _ \<Rightarrow> devs w' = devs w
        | Inr _ \<Rightarrow> registered (carries_labels ls) D0 k (devs w')) w"
    proof (rule wp_conseq, goal_cases)
      case (1 r w')
      then show ?case
      proof (cases r)
        case (Inr d')
        with 1 obtain s where s: "dev_key s = k" "devs w' = (devs w)(k := stored_after s)"
          "labels_of s = merge_labels d ?cp c" "finalizers_of s = finalizers_of c"
          using assms(4) by (auto simp: merge_field_def)
        have "labels_of s x = Some v" if "gm_lookup ls x = Some v" for x v
          using that assms(5) unfolding s(3) merge_labels_def
          by (auto simp: put merge_field_def unlabelled_def)
        moreover have "stored_after s = Some s" using s(4) assms(3) by (simp add: stored_after_def)
        ultimately have "registered (carries_labels ls) D0 k (devs w')"
          unfolding registered_def using s assms by (intro exI [of _ s]) (simp add: carries_labels_def)
        with Inr show ?thesis by simp
      qed simp
    qed
    then show ?thesis
      unfolding dev_updateLabels_def Let_def if_not_P [OF False] wp_bind
      by (rule wp_conseq) (auto split: sum.splits)
  qed
qed

lemma UpdateLabels_registered:
  assumes "registered unlabelled D0 k (devs w)" and "dev_key d = k" and "unlabelled (labels_of d)" and "gm_wf (opt_list ls)"
  shows "wp (dev_UpdateLabels E d ls) (\<lambda>(err, _) w'. err = None \<longrightarrow> registered (carries_labels ls) D0 k (devs w')) w"
proof -
  obtain c where c: "devs w = D0(k \<mapsto> c)" "dev_key c = k"
      "finalizers_of c = [YggdrasilConnectionFinalizer, YggdrasilWorkloadFinalizer]"
    using assms(1) unfolding registered_def by blast
  have retry: "wp (dev_UpdateLabels_retry E d ls err is)
      (\<lambda>e w'. e = None \<longrightarrow> registered (carries_labels ls) D0 k (devs w')) w1"
    if "devs w1 = D0(k \<mapsto> c)" for err "is" w1
    using that
  proof (induction "is" arbitrary: w1)
    case (Cons i "is")
    show ?case
      unfolding dev_UpdateLabels_retry.simps wp_bind
    proof (rule wp_conseq [OF keeps_wp [OF sleep_keeps]], rule wp_conseq [OF wp_Read], goal_cases)
      case (1 x wa r wb)
      then have wb: "devs wb = D0(k \<mapsto> c)" using Cons.prems by metis
      show ?case
      proof (cases r)
        case (Inl e)
        with Cons.IH [OF wb] show ?thesis by simp
      next
        case (Inr d2)
        have "devs wb k = Some d2"
          using 1 Inr assms(2) by (auto simp: dev_key_def)
        then have "d2 = c" unfolding wb by simp
        show ?thesis
          unfolding Inr sum.case wp_bind \<open>d2 = c\<close>
        proof (rule wp_conseq [OF updateLabels_registered [OF wb c(2,3) c(2) disjI2 [OF refl] assms(4)]], goal_cases)
          case (1 r wc)
          then show ?case using Cons.IH [of wc] wb by (cases r) (auto split: option.splits)
        qed
      qed
    qed
  qed simp
  show ?thesis
    unfolding dev_UpdateLabels_def wp_bind
  proof (rule wp_conseq [OF updateLabels_registered [OF c assms(2) disjI1 [OF assms(3)] assms(4)]], goal_cases)
    case (1 r w1)
    obtain err d' where r: "r = (err, d')" by (cases r)
    show ?case
    proof (cases err)
      case None
      with 1 r show ?thesis by simp
    next
      case (Some e)
      with 1 r c(1) have "devs w1 = D0(k \<mapsto> c)" by simp
      from retry [OF this] show ?thesis
        unfolding r Some prod.case option.case wp_bind by (rule wp_conseq) simp
    qed
  qed
qed

end

context device_server
begin

lemma register_device_registered:
  "wp (register_device E h i info res) (\<lambda>r w'. \<forall>x. r = Done (PostDataMessageForDeviceOK x) \<longrightarrow> x = Some res \<and>
     registered (carries_labels (MapLabels (k_unicode E) (ri_Hardware info))) (devs w) (h_initialNamespace h, i) (devs w')) w"
    (is "wp _ ?Q w")
  unfolding register_device_def wp_bind
proof (rule wp_conseq [OF keeps_wp [OF now_keeps]], rule wp_intro, goal_cases)
  case (1 now w1 c w2)
  let ?k = "(h_initialNamespace h, i)" and ?ls = "MapLabels (k_unicode E) (ri_Hardware info)"
  show ?case
  proof (cases c)
    case (Inl e)
    then show ?thesis by (simp add: wp_def split: prod.split)
  next
    case (Inr d)
    with Create_registers [of i "h_initialNamespace h" now w1 d w2] 1
    have reg: "registered unlabelled (devs w) ?k (devs w2)" and d: "dev_key d = ?k" "unlabelled (labels_of d)" by simp_all
    have wf: "gm_wf (opt_list ?ls)" using MapLabels_wf [of "k_unicode E" "ri_Hardware info"] by (simp add: opt_list_def)
    show ?thesis
      unfolding Inr sum.case wp_bind
    proof (rule wp_conseq [OF updateDeviceStatus_registered [OF reg d]], goal_cases)
      case (1 s w3)
      show ?case
      proof (cases "\<exists>d'. s = Done (None, d')")
        case False
        then show ?thesis by (auto simp: wp_def split: outcome.splits option.splits prod.splits)
      next
        case True
        then obtain d' where s: "s = Done (None, d')" by blast
        with 1 have d': "registered unlabelled (devs w) ?k (devs w3)" "dev_key d' = ?k" "unlabelled (labels_of d')" by auto
        show ?thesis
          unfolding s outcome.case prod.case option.case wp_bind
        proof (rule wp_conseq [OF UpdateLabels_registered [OF d' wf]], goal_cases)
          case (1 r w4)
          obtain lerr dd where r: "r = (lerr, dd)" by (cases r)
          show ?case
          proof (cases lerr)
            case None
            with 1 r have "registered (carries_labels ?ls) (devs w) ?k (devs w4)" by simp
            then show ?thesis
              unfolding r None prod.case option.case wp_bind wp_ret
              by (intro wp_conseq [OF keeps_wp [OF inc_keeps]]) simp
          next
            case (Some e)
            then show ?thesis unfolding r by (simp add: wp_def split: prod.split)
          qed
        qed
      qed
    qed
  qed
qed

end

text \<open>
  The PEM text of a certificate that the operator's CA signed for the name \<open>cn\<close> and the key of the
  certificate request \<open>csrPem\<close>.
\<close>

definition certificate_for :: "'w Handler \<Rightarrow> string \<Rightarrow> string \<Rightarrow> string \<Rightarrow> bool" where
  "certificate_for h csrPem cn pem \<longleftrightarrow> (\<exists>p ps ca ty bytes csr expiration t w1 w2 certBytes.
     tc_caProvider (h_mtlsConfig h) = p # ps \<and> pr_latestCA p = Some ca \<and>
     c_pem_decode (h_crypto h) csrPem = Some (ty, bytes) \<and> c_parse_csr (h_crypto h) bytes = Inr csr \<and>
     device_certificate cn csr expiration t \<and>
     run_state (c_create_cert (h_crypto h) t (cg_cert ca) (csr_PublicKey csr) (cg_privKey ca)) w1 = (Inr certBytes, w2) \<and>
     pem = c_pem_encode (h_crypto h) ''CERTIFICATE'' certBytes)"

text \<open>
  A registration request that was answered with success: the answer carries a certificate for the
  device, if it asked for one; a device that is known is left as it is; an unknown one is added with
  both finalizers and the labels of its hardware, and nothing else changes.
\<close>

definition answered_certificate :: "'w Handler \<Rightarrow> string \<Rightarrow> RegistrationInfo \<Rightarrow> content \<Rightarrow> content \<Rightarrow> bool" where
  "answered_certificate h i info no_certificate c \<longleftrightarrow>
     (if ri_CertificateRequest info = [] then c = no_certificate
      else \<exists>pem. c = RegistrationContent \<lparr>rr_Certificate = pem\<rparr> \<and> certificate_for h (ri_CertificateRequest info) i pem)"

definition registration_answer ::
  "'w env \<Rightarrow> 'w Handler \<Rightarrow> Message \<Rightarrow> string \<times> string \<Rightarrow> (string \<times> string \<Rightarrow> EdgeDevice option) \<Rightarrow>
   PostDataMessageForDeviceResponse outcome \<Rightarrow> (string \<times> string \<Rightarrow> EdgeDevice option) \<Rightarrow> bool" where
  "registration_answer E h msg k D r D' \<longleftrightarrow> (\<forall>resp. r = Done (PostDataMessageForDeviceOK resp) \<longrightarrow>
     (\<exists>res info. resp = Some res \<and> mrs_Directive res = msg_Directive msg \<and> mrs_MessageID res = msg_MessageID msg \<and>
        k_json_registration E (msg_Content msg) = Inr info \<and>
        answered_certificate h (snd k) info
          (if D k \<noteq> None then RegistrationContent \<lparr>rr_Certificate = []\<rparr> else mrs_Content empty_response) (mrs_Content res) \<and>
        (if D k \<noteq> None then D' = D
         else registered (carries_labels (MapLabels (k_unicode E) (ri_Hardware info))) D k D')))"

lemma sign_request_certificate:
  assumes "run_state (sign_request E h i info) w = (Inr cert, w')"
  shows "case cert of None \<Rightarrow> ri_CertificateRequest info = []
    | Some pem \<Rightarrow> ri_CertificateRequest info \<noteq> [] \<and> certificate_for h (ri_CertificateRequest info) i pem"
proof (cases "ri_CertificateRequest info = []")
  case True
  with assms show ?thesis by (auto simp: sign_request_def)
next
  case False
  then obtain pem where pem: "cert = Some pem"
    "run_state (SignCSR E (h_crypto h) (h_mtlsConfig h) (ri_CertificateRequest info) i) w = (Inr pem, w')"
    using assms by (auto simp: sign_request_def map_sum_def split: prod.splits sum.splits)
  from SignCSR_Inr [OF pem(2)] have "certificate_for h (ri_CertificateRequest info) i pem"
    unfolding certificate_for_def by blast
  with False pem(1) show ?thesis by simp
qed

context device_server
begin

lemma sign_request_result:
  "wp (sign_request E h i info) (\<lambda>r w'. devs w' = devs w \<and> (\<forall>cert. r = Inr cert \<longrightarrow>
     (case cert of None \<Rightarrow> ri_CertificateRequest info = []
      | Some pem \<Rightarrow> ri_CertificateRequest info \<noteq> [] \<and> certificate_for h (ri_CertificateRequest info) i pem))) w"
proof (rule wp_intro, intro conjI allI impI)
  fix r w' assume run: "run_state (sign_request E h i info) w = (r, w')"
  show "devs w' = devs w" by (rule keeps_run [OF sign_request_keeps run])
  fix cert assume "r = Inr cert"
  with run have "run_state (sign_request E h i info) w = (Inr cert, w')" by simp
  then show "case cert of None \<Rightarrow> ri_CertificateRequest info = []
      | Some pem \<Rightarrow> ri_CertificateRequest info \<noteq> [] \<and> certificate_for h (ri_CertificateRequest info) i pem"
    by (rule sign_request_certificate)
qed

lemma post_registration_answer:
  "wp (post_registration E h i msg) (\<lambda>r w'. registration_answer E h msg (h_initialNamespace h, i) (devs w) r (devs w')) w"
proof (cases "k_json_registration E (msg_Content msg)")
  case (Inl e)
  then show ?thesis by (simp add: post_registration_def registration_answer_def)
next
  case (Inr info)
  show ?thesis
    unfolding post_registration_def Inr sum.case Let_def wp_bind
  proof (rule wp_conseq [OF repo.read_spec], goal_cases)
    case (1 r w1)
    show ?case
    proof (cases r)
      case (Inl e)
      show ?thesis
      proof (cases "IsNotFound e")
        case False
        with Inl show ?thesis by (simp add: registration_answer_def)
      next
        case True
        with 1 Inl have w1: "devs w1 = devs w" "devs w (h_initialNamespace h, i) = None" by auto
        have "\<not> \<not> IsNotFound e" using True by simp
        then show ?thesis
          unfolding Inl sum.case if_not_P [OF \<open>\<not> \<not> IsNotFound e\<close>] wp_bind
        proof (intro wp_conseq [OF sign_request_result], goal_cases)
          case (1 c w2)
          show ?case
          proof (cases c)
            case (Inl err)
            then show ?thesis by (simp add: registration_answer_def)
          next
            case (Inr cert)
            let ?res = "empty_response\<lparr>mrs_Directive := msg_Directive msg, mrs_MessageID := msg_MessageID msg\<rparr>"
            define res where "res = (case cert of None \<Rightarrow> ?res | Some x \<Rightarrow> ?res\<lparr>mrs_Content := RegistrationContent \<lparr>rr_Certificate = x\<rparr>\<rparr>)"
            have res: "mrs_Directive res = msg_Directive msg" "mrs_MessageID res = msg_MessageID msg"
              by (simp_all add: res_def split: option.split)
            have cert: "answered_certificate h i info (mrs_Content empty_response) (mrs_Content res)"
              using 1 Inr by (auto simp: answered_certificate_def res_def split: option.splits)
            have w2: "devs w2 = devs w" using 1 w1(1) by simp
            show ?thesis unfolding Inr sum.case res_def [symmetric]
            proof (rule wp_conseq [OF register_device_registered], goal_cases)
              case (1 r w3)
              then show ?case
                unfolding registration_answer_def w2 using res cert w1(2) \<open>k_json_registration E (msg_Content msg) = Inr info\<close> by auto
            qed
          qed
        qed
      qed
    next
      case (Inr d)
      with 1 have w1: "devs w1 = devs w" "devs w (h_initialNamespace h, i) = Some d" by auto
      show ?thesis unfolding Inr sum.case wp_bind
      proof (rule wp_conseq [OF sign_request_result], goal_cases)
        case (1 c w2)
        with w1 \<open>k_json_registration E (msg_Content msg) = Inr info\<close> show ?case
          by (cases c) (auto simp: registration_answer_def answered_certificate_def split: option.splits)
      qed
    qed
  qed
qed

end

section \<open>Steps\<close>

text \<open>
  What can happen to the devices: a request of any device to any of the operations, and the deletion
  of a device resource by a user, which only marks it as long as it has finalizers.
\<close>

inductive device_step ::
  "'w env \<Rightarrow> 'w Handler \<Rightarrow> ('w \<Rightarrow> string \<times> string \<Rightarrow> EdgeDevice option) \<Rightarrow> 'w \<Rightarrow> 'w \<Rightarrow> bool" for E h devs where
  get_control: "run_state (GetControlMessageForDevice E h p) w = (r, w') \<Longrightarrow> device_step E h devs w w'"
| get_data: "run_state (GetDataMessageForDevice E h p) w = (r, w') \<Longrightarrow> device_step E h devs w w'"
| post_control: "run_state (PostControlMessageForDevice E h p) w = (r, w') \<Longrightarrow> device_step E h devs w w'"
| post_data: "run_state (PostDataMessageForDevice E h p) w = (r, w') \<Longrightarrow> device_step E h devs w w'"
| deletion: "devs w k = Some d \<Longrightarrow>
    devs w' = (devs w)(k := stored_after (d\<lparr>dev_meta := (dev_meta d)\<lparr>om_DeletionTimestamp := Some t\<rparr>\<rparr>)) \<Longrightarrow>
    device_step E h devs w w'"

inductive_cases device_stepE: "device_step E h devs w w'"

text \<open>The connection finalizer is there as long as the workload finalizer is.\<close>

definition unregister_ordered :: "string list \<Rightarrow> bool" where
  "unregister_ordered fs \<longleftrightarrow> YggdrasilWorkloadFinalizer \<in> set fs \<longrightarrow> YggdrasilConnectionFinalizer \<in> set fs"

lemma unregister_ordered_drop:
  "unregister_ordered (drop_finalizer YggdrasilWorkloadFinalizer fs)"
  "YggdrasilWorkloadFinalizer \<notin> set fs \<Longrightarrow> unregister_ordered (drop_finalizer f fs)"
  by (auto simp: unregister_ordered_def drop_finalizer_filter)

context device_server
begin

lemma device_step_ordered:
  assumes "device_step E h devs w w'" and inv: "fins unregister_ordered w"
  shows "fins unregister_ordered w'"
  using assms(1)
proof cases
  case (get_control p r)
  show ?thesis
    by (rule preserves_run [OF GetControl_preserves inv get_control]) (rule unregister_ordered_drop(2))
next
  case (get_data p r)
  show ?thesis
    by (rule preserves_run [OF GetData_preserves inv get_data]) (rule unregister_ordered_drop(1))
next
  case (post_control p r)
  with inv show ?thesis by (simp add: PostControlMessageForDevice_def)
next
  case (post_data p r)
  show ?thesis
    by (rule preserves_run [OF PostData_preserves inv post_data]) (simp add: unregister_ordered_def)
next
  case (deletion k d t)
  show ?thesis unfolding deletion(2)
    by (rule fin_inv_update [OF inv]) (use fin_inv_get [OF inv deletion(1)] in \<open>auto dest!: stored_after_finalizers\<close>)
qed

lemma device_steps_ordered:
  "(device_step E h devs)\<^sup>*\<^sup>* w w' \<Longrightarrow> fins unregister_ordered w \<Longrightarrow> fins unregister_ordered w'"
  by (induction rule: rtranclp_induct) (auto intro: device_step_ordered)

end

section \<open>The laws hold\<close>

definition toy_handler :: "mem Handler" where
  "toy_handler = NewYggdrasilHandler ''default'' (NewMTLSConfig ''ns'' [] True) toy_crypto"

lemma mem_patches_exactly: "patches_exactly mem_env mem_devs"
  unfolding patches_exactly_def
proof (intro allI impI)
  fix new old w r w' assume "run_state (k_dev_patch mem_env new old) w = (Inr r, w')"
  then have "run_state (mem_dev_patch mem_patched stored_after new old) w = (Inr r, w')" by (simp add: mem_env_def)
  from mem_patch_run [OF this] obtain cur where "mem_devs w (dev_key new) = Some cur" "r = mem_patched old new cur"
    "mem_devs w' = (mem_devs w)(dev_key new := stored_after r)" by auto
  then show "\<exists>cur s. mem_devs w (dev_key new) = Some cur \<and> mem_devs w' = (mem_devs w)(dev_key new := stored_after s) \<and>
        dev_key s = dev_key cur \<and> om_DeletionTimestamp (dev_meta s) = om_DeletionTimestamp (dev_meta cur) \<and>
        dev_Status s = dev_Status cur \<and> (dev_Spec old = dev_Spec new \<longrightarrow> dev_Spec s = dev_Spec cur) \<and>
        labels_of s = merge_labels old new cur \<and>
        finalizers_of s = merge_field (finalizers_of old) (finalizers_of new) (finalizers_of cur)"
    by (intro exI [of _ cur] exI [of _ r]) (simp add: mem_patched_key labels_of_mem_patched, simp add: mem_patched_def)
qed

interpretation memserver: device_server mem_env mem_devs toy_handler
  by unfold_locales (simp add: toy_handler_def NewYggdrasilHandler_def toy_crypto_def)

definition sample_leaving :: "string list \<Rightarrow> EdgeDevice" where
  "sample_leaving fs = \<lparr>dev_meta = (new_meta ''d1'' ''default'')\<lparr>om_Finalizers := fs, om_DeletionTimestamp := Some 7\<rparr>,
     dev_Spec = empty_spec, dev_Status = empty_status\<rparr>"

definition sample_leaving_mem :: "string list \<Rightarrow> mem" where
  "sample_leaving_mem fs = empty_mem\<lparr>m_devs := [sample_leaving fs]\<rparr>"

section \<open>Properties\<close>

text \<open>No sequence of requests of the devices, whatever errors the API server returns, and no
  deletions in between, can take the connection finalizer from a device that still has its workload
  finalizer: a device is never disconnected before its workloads were withdrawn.\<close>

theorem unregistration_ordered:
  assumes "device_server E devs h" and "(device_step E h devs)\<^sup>*\<^sup>* w w'" and "fin_inv unregister_ordered (devs w)"
  shows "fin_inv unregister_ordered (devs w')"
  by (rule device_server.device_steps_ordered [OF assms])

theorem unregistration_ordered_witness:
  "fin_inv unregister_ordered (mem_devs (snd (run_state (GetDataMessageForDevice mem_env toy_handler \<lparr>gp_DeviceID = ''d1''\<rparr>)
     (sample_leaving_mem [YggdrasilConnectionFinalizer, YggdrasilWorkloadFinalizer]))))"
proof -
  let ?w = "sample_leaving_mem [YggdrasilConnectionFinalizer, YggdrasilWorkloadFinalizer]"
  obtain r w' where run: "run_state (GetDataMessageForDevice mem_env toy_handler \<lparr>gp_DeviceID = ''d1''\<rparr>) ?w = (r, w')"
    by (cases "run_state (GetDataMessageForDevice mem_env toy_handler \<lparr>gp_DeviceID = ''d1''\<rparr>) ?w")
  have "fin_inv unregister_ordered (mem_devs ?w)"
    by (auto simp: fin_inv_def mem_devs_def mem_find_def sample_leaving_mem_def sample_leaving_def unregister_ordered_def
        split: if_splits)
  with run unregistration_ordered [OF memserver.device_server_axioms r_into_rtranclp [of "device_step mem_env toy_handler mem_devs", OF get_data [OF run]]]
  show ?thesis by simp
qed

text \<open>C6: a control request is answered with the command to disconnect only for a device that is
  being deleted and no longer has its workload finalizer, and only then changes anything: its connection
  finalizer goes, or nothing; spec, status, labels and every other device stay as they are, where the server patches
  nothing but what a patch names. The answer is empty only for a device that is not being deleted or still has its
  workload finalizer, and not found only for a device that is not stored; these answers and an error change nothing.\<close>

theorem GetControlMessage_correct:
  assumes "device_server E devs h" and "patches_exactly E devs"
  shows "wp (GetControlMessageForDevice E h p)
           (\<lambda>r w'. control_answer (h_initialNamespace h, gp_DeviceID p) (devs w) r (devs w')) w"
  using assms by (rule device_server.GetControl_answer)

theorem GetControlMessage_correct_witness:
  "\<exists>m w'. run_state (GetControlMessageForDevice mem_env toy_handler \<lparr>gp_DeviceID = ''d1''\<rparr>)
      (sample_leaving_mem [YggdrasilConnectionFinalizer]) = (GetControlMessageForDeviceOK (Some m), w') \<and>
     msg_Content m = CommandContent ''disconnect'' \<and> m_devs w' = []"
proof -
  let ?run = "run_state (GetControlMessageForDevice mem_env toy_handler \<lparr>gp_DeviceID = ''d1''\<rparr>)
      (sample_leaving_mem [YggdrasilConnectionFinalizer])"
  have ev: "(case fst ?run of GetControlMessageForDeviceOK (Some _) \<Rightarrow> True | _ \<Rightarrow> False) \<and> m_devs (snd ?run) = []"
    by code_simp
  have "control_answer (''default'', ''d1'') (mem_devs (sample_leaving_mem [YggdrasilConnectionFinalizer])) (fst ?run) (mem_devs (snd ?run))"
    using GetControlMessage_correct [OF memserver.device_server_axioms mem_patches_exactly, of "\<lparr>gp_DeviceID = ''d1''\<rparr>"
        "sample_leaving_mem [YggdrasilConnectionFinalizer]"]
    by (simp add: wp_run toy_handler_def NewYggdrasilHandler_def)
  with ev show ?thesis
    by (cases ?run) (auto simp: control_answer_def split: GetControlMessageForDeviceResponse.splits option.splits)
qed

text \<open>C8: a successful registration answers with a certificate for this very device, when it asked for
  one. An unknown device is added, and only it, with both finalizers and with the labels of the hardware
  it reported, whatever retries were needed; a known device is left as it is.\<close>

theorem registration_correct:
  assumes "device_server E devs h"
  shows "wp (post_registration E h i msg)
           (\<lambda>r w'. registration_answer E h msg (h_initialNamespace h, i) (devs w) r (devs w')) w"
  by (rule device_server.post_registration_answer [OF assms])

definition sample_registration :: Message where
  "sample_registration = empty_message\<lparr>msg_Directive := ''registration'', msg_Content := RawContent []\<rparr>"

theorem registration_correct_witness:
  "\<exists>w' s. run_state (post_registration mem_env toy_handler ''d1'' sample_registration) empty_mem =
      (Done (PostDataMessageForDeviceOK (Some (empty_response\<lparr>mrs_Directive := ''registration''\<rparr>))), w') \<and>
     mem_devs w' (''default'', ''d1'') = Some s \<and>
     finalizers_of s = [YggdrasilConnectionFinalizer, YggdrasilWorkloadFinalizer]"
proof -
  let ?run = "run_state (post_registration mem_env toy_handler ''d1'' sample_registration) empty_mem"
  have ev: "fst ?run = Done (PostDataMessageForDeviceOK (Some (empty_response\<lparr>mrs_Directive := ''registration''\<rparr>)))"
    by code_simp
  have "registration_answer mem_env toy_handler sample_registration (''default'', ''d1'') (mem_devs empty_mem) (fst ?run) (mem_devs (snd ?run))"
    using registration_correct [OF memserver.device_server_axioms, of "''d1''" sample_registration empty_mem]
    by (simp add: wp_run toy_handler_def NewYggdrasilHandler_def)
  moreover have "mem_devs empty_mem k = None" for k by (simp add: mem_devs_def mem_find_def empty_mem_def)
  ultimately show ?thesis
    using ev by (cases ?run) (auto simp: registration_answer_def registered_def)
qed

definition sample_leaving_metrics :: mem where
  "sample_leaving_metrics = empty_mem\<lparr>m_devs := [sample_leaving [YggdrasilConnectionFinalizer, YggdrasilWorkloadFinalizer]
     \<lparr>dev_Spec := empty_spec\<lparr>sp_Metrics := Some \<lparr>mc_Retention = None, mc_SystemMetrics = Some
        \<lparr>smc_Interval = 60, smc_AllowList = Some \<lparr>nr_Name = ''missing''\<rparr>, smc_Disabled = False\<rparr>\<rparr>\<rparr>\<rparr>]\<rparr>"

text \<open>C18: a device that is being deleted loses its workload finalizer although it was not told to stop its
  workloads. The finalizer is given up before the rest of the configuration is read: whenever that patch succeeds and the
  metrics of the device cannot be read, the request is answered with an error, the finalizer is gone, and a further
  control request can only tell the device to disconnect or fail.\<close>

theorem workloads_not_withdrawn:
  assumes "device_server E devs h" and "patches_exactly E devs"
    and "run_state (dev_Read E i (h_initialNamespace h)) w = (Inr d, w1)"
    and "om_DeletionTimestamp (dev_meta d) \<noteq> None" and "HasFinalizer (dev_meta d) YggdrasilWorkloadFinalizer"
    and "HasFinalizer (dev_meta d) YggdrasilConnectionFinalizer"
    and "run_state (dev_Patch E d (set_finalizers (drop_finalizer YggdrasilWorkloadFinalizer (finalizers_of d)) d)) w1 = (Inr d', w2)"
    and "run_state (setStorageConfiguration E d) w2 = (Done st, w3)"
    and "run_state (getDeviceMetricsConfiguration E d) w3 = (Inl e, w4)"
  shows "run_state (GetDataMessageForDevice E h \<lparr>gp_DeviceID = i\<rparr>) w = (Done GetDataMessageForDeviceInternalServerError, w4) \<and>
    (\<exists>s. devs w4 = (devs w)((h_initialNamespace h, i) \<mapsto> s) \<and>
      finalizers_of s = drop_finalizer YggdrasilWorkloadFinalizer (finalizers_of d)) \<and>
    wp (GetControlMessageForDevice E h \<lparr>gp_DeviceID = i\<rparr>) (\<lambda>r w'. r = GetControlMessageForDeviceInternalServerError \<or>
      (\<exists>m. r = GetControlMessageForDeviceOK (Some m) \<and> msg_Content m = CommandContent ''disconnect'')) w4"
proof (intro conjI)
  note lost = device_server.finalizer_lost_on_error [OF assms]
  show "run_state (GetDataMessageForDevice E h \<lparr>gp_DeviceID = i\<rparr>) w = (Done GetDataMessageForDeviceInternalServerError, w4)"
    by (rule lost(1))
  obtain s where s: "devs w4 = (devs w)((h_initialNamespace h, i) \<mapsto> s)" "om_DeletionTimestamp (dev_meta s) \<noteq> None"
    "finalizers_of s = drop_finalizer YggdrasilWorkloadFinalizer (finalizers_of d)" using lost(2) by blast
  then show "\<exists>s. devs w4 = (devs w)((h_initialNamespace h, i) \<mapsto> s) \<and>
      finalizers_of s = drop_finalizer YggdrasilWorkloadFinalizer (finalizers_of d)" by blast
  have "YggdrasilWorkloadFinalizer \<notin> set (finalizers_of s)" by (simp add: s(3) drop_finalizer_filter)
  with s(1,2) have "control_answer (h_initialNamespace h, i) (devs w4) r D' \<Longrightarrow> r = GetControlMessageForDeviceInternalServerError \<or>
      (\<exists>m. r = GetControlMessageForDeviceOK (Some m) \<and> msg_Content m = CommandContent ''disconnect'')" for r D'
    by (auto simp: control_answer_def split: GetControlMessageForDeviceResponse.splits option.splits)
  then show "wp (GetControlMessageForDevice E h \<lparr>gp_DeviceID = i\<rparr>) (\<lambda>r w'. r = GetControlMessageForDeviceInternalServerError \<or>
      (\<exists>m. r = GetControlMessageForDeviceOK (Some m) \<and> msg_Content m = CommandContent ''disconnect'')) w4"
    using device_server.GetControl_answer [OF assms(1,2), of "\<lparr>gp_DeviceID = i\<rparr>" w4] by (auto elim!: wp_conseq)
qed

text \<open>A device whose metrics refer to a config map that does not exist.\<close>

theorem workloads_not_withdrawn_witness:
  "\<exists>w'. run_state (GetDataMessageForDevice mem_env toy_handler \<lparr>gp_DeviceID = ''d1''\<rparr>) sample_leaving_metrics =
      (Done GetDataMessageForDeviceInternalServerError, w') \<and> mem_devs w' (''default'', ''d1'') \<noteq> None"
proof -
  let ?d = "hd (m_devs sample_leaving_metrics)" and ?w = sample_leaving_metrics
  let ?patch = "run_state (dev_Patch mem_env ?d (set_finalizers (drop_finalizer YggdrasilWorkloadFinalizer (finalizers_of ?d)) ?d)) ?w"
  let ?storage = "run_state (setStorageConfiguration mem_env ?d) (snd ?patch)"
  let ?metrics = "run_state (getDeviceMetricsConfiguration mem_env ?d) (snd ?storage)"
  have ns: "h_initialNamespace toy_handler = ''default''" by (simp add: toy_handler_def NewYggdrasilHandler_def)
  have read: "run_state (dev_Read mem_env ''d1'' (h_initialNamespace toy_handler)) ?w = (Inr ?d, ?w)" by code_simp
  have leaving: "om_DeletionTimestamp (dev_meta ?d) \<noteq> None" "HasFinalizer (dev_meta ?d) YggdrasilWorkloadFinalizer"
    "HasFinalizer (dev_meta ?d) YggdrasilConnectionFinalizer" by code_simp+
  have "(case (fst ?patch, fst ?storage, fst ?metrics) of (Inr _, Done _, Inl _) \<Rightarrow> True | _ \<Rightarrow> False)" by code_simp
  then obtain d' st e where fsts: "fst ?patch = Inr d'" "fst ?storage = Done st" "fst ?metrics = Inl e"
    by (auto split: sum.splits outcome.splits)
  have runs: "?patch = (Inr d', snd ?patch)" "?storage = (Done st, snd ?storage)" "?metrics = (Inl e, snd ?metrics)"
    by (simp_all add: fsts [symmetric])
  from workloads_not_withdrawn [OF memserver.device_server_axioms mem_patches_exactly read leaving runs]
  show ?thesis unfolding ns by auto
qed

end
