(* ===== verification/Workload_Delivery.thy ===== *)
theory Workload_Delivery
  imports Device_Protocol
begin

text \<open>
  What a device is given to run: the workloads in the answer to a data request, compared with the
  deployments stored in the cluster. The locale \<open>workload_api\<close> states the documented behaviour of
  reading deployments; it holds of the cluster in memory.
\<close>

section \<open>The deployments a device should run\<close>

definition live_deployment ::
  "(string \<times> string \<Rightarrow> EdgeDeployment option) \<Rightarrow> string \<Rightarrow> string \<Rightarrow> EdgeDeployment option" where
  "live_deployment deps ns n = (case deps (ns, n) of
     None \<Rightarrow> None
   | Some dep \<Rightarrow> if om_DeletionTimestamp (dep_meta dep) = None then Some dep else None)"

definition live_deployments ::
  "(string \<times> string \<Rightarrow> EdgeDeployment option) \<Rightarrow> EdgeDevice \<Rightarrow> EdgeDeployment list" where
  "live_deployments deps d =
     List.map_filter (live_deployment deps (om_Namespace (dev_meta d))) (map dpl_Name (deployments_of d))"

definition pod_text :: "'w env \<Rightarrow> EdgeDeployment \<Rightarrow> string result" where
  "pod_text E dep = k_yaml_pod E (pod_Spec (eds_Pod (dep_Spec dep)))"

definition marshalled :: "'w env \<Rightarrow> EdgeDeployment \<Rightarrow> bool" where
  "marshalled E dep \<longleftrightarrow> om_DeletionTimestamp (dep_meta dep) = None \<and> (case pod_text E dep of Inr _ \<Rightarrow> True | Inl _ \<Rightarrow> False)"

text \<open>The workload of a deployment: its name, its pod, its data paths and log collection; metrics when a
  port is configured, for every configured container; an auth file only when the deployment names a secret.\<close>

definition metrics_of :: "EdgeDeployment \<Rightarrow> Metrics option \<Rightarrow> bool" where
  "metrics_of dep mo \<longleftrightarrow> (case eds_Metrics (dep_Spec dep) of
     None \<Rightarrow> mo = None
   | Some spec \<Rightarrow>
       if cmc_Port spec \<le> 0 then mo = None
       else \<exists>m. mo = Some m \<and> mt_Port m = cmc_Port spec \<and> mt_Path m = cmc_Path spec \<and> mt_Interval m = cmc_Interval spec \<and>
         (mt_AllowList m = None \<longleftrightarrow> cmc_AllowList spec = None) \<and>
         container_metrics (cmc_Containers spec) [] = Done (opt_list (mt_Containers m)))"

definition workload_of :: "'w env \<Rightarrow> EdgeDeployment \<Rightarrow> Workload \<Rightarrow> bool" where
  "workload_of E dep wl \<longleftrightarrow>
     wl_Name wl = om_Name (dep_meta dep) \<and> pod_text E dep = Inr (wl_Specification wl) \<and>
     wl_Data wl = workload_data (dep_Spec dep) \<and> wl_LogCollection wl = eds_LogCollection (dep_Spec dep) \<and>
     metrics_of dep (wl_Metrics wl) \<and>
     (Option.bind (eds_ImageRegistries (dep_Spec dep)) irc_AuthFileSecret = None \<longrightarrow> wl_ImageRegistries wl = None)"

lemma getAuthFile_none:
  assumes "run_state (getAuthFile E ir ns) w = (Inr f, w')" and "Option.bind ir irc_AuthFileSecret = None"
  shows "f = []"
  using assms by (auto simp: getAuthFile_def split: option.splits)

lemma map_outcome_Done: "map_outcome f x = Done y \<longleftrightarrow> (\<exists>z. x = Done z \<and> y = f z)"
  by (cases x) auto

lemma workload_metrics_of:
  "run_state (workload_metrics E dep) w = (Done (Inr mo), w') \<Longrightarrow> metrics_of dep mo"
  by (auto simp: workload_metrics_def metrics_of_def map_outcome_Done opt_list_def split: option.splits if_splits sum.splits prod.splits outcome.splits)

lemma toWorkload_result:
  assumes "run_state (toWorkload E d dep) w = (Done (Inr wo), w')"
  shows "if marshalled E dep then \<exists>wl. wo = Some wl \<and> workload_of E dep wl else wo = None"
proof (cases "marshalled E dep")
  case False
  then show ?thesis
    using assms by (auto simp: marshalled_def pod_text_def toWorkload_def Let_def split: if_splits sum.splits)
next
  case True
  then obtain y where live: "om_DeletionTimestamp (dep_meta dep) = None" and y: "pod_text E dep = Inr y"
    by (auto simp: marshalled_def split: sum.splits)
  obtain a w1 where auth: "run_state (getAuthFile E (eds_ImageRegistries (dep_Spec dep)) (om_Namespace (dep_meta dep))) w = (a, w1)"
    by (metis surj_pair)
  from assms live y obtain f where f: "a = Inr f"
    by (cases a) (auto simp: toWorkload_def Let_def pod_text_def auth split: option.splits prod.splits)
  obtain mr w2 where metrics: "run_state (workload_metrics E dep) w1 = (mr, w2)" by (metis surj_pair)
  from assms live y f obtain mo where mo: "mr = Done (Inr mo)"
    by (auto simp: toWorkload_def Let_def pod_text_def auth metrics split: outcome.splits sum.splits)
  obtain c w3 where fetch: "run_state (Fetch E dep (om_Namespace (dev_meta d))) w2 = (c, w3)" by (metis surj_pair)
  from assms live y f mo obtain cs where cs: "c = Done (Inr cs)"
    by (auto simp: toWorkload_def Let_def pod_text_def auth metrics fetch split: outcome.splits sum.splits)
  have "wo = Some \<lparr>wl_Configmaps = cs, wl_Data = workload_data (dep_Spec dep),
       wl_ImageRegistries = (if f \<noteq> [] then Some \<lparr>ir_AuthFile = f\<rparr> else None),
       wl_LogCollection = eds_LogCollection (dep_Spec dep), wl_Metrics = mo,
       wl_Name = om_Name (dep_meta dep), wl_Specification = y\<rparr>"
    using assms live y f mo cs by (simp add: toWorkload_def Let_def pod_text_def auth metrics fetch)
  moreover have "metrics_of dep mo" by (rule workload_metrics_of [OF metrics [unfolded mo]])
  moreover have "Option.bind (eds_ImageRegistries (dep_Spec dep)) irc_AuthFileSecret = None \<Longrightarrow> f = []"
    by (rule getAuthFile_none [OF auth [unfolded f]])
  ultimately show ?thesis using True y by (simp add: workload_of_def)
qed

lemma toWorkloadList_result:
  "run_state (toWorkloadList E d ds acc) w = (Done (Inr ws), w') \<Longrightarrow>
   \<exists>ws'. ws = acc @ ws' \<and> list_all2 (workload_of E) (filter (marshalled E) ds) ws'"
proof (induction ds arbitrary: acc w)
  case Nil
  then show ?case by auto
next
  case (Cons dep ds)
  obtain r w1 where one: "run_state (toWorkload E d dep) w = (r, w1)" by (metis surj_pair)
  with Cons.prems obtain wo where r: "r = Done (Inr wo)" by (auto split: outcome.splits sum.splits)
  note res = toWorkload_result [OF one [unfolded r]]
  show ?case
  proof (cases wo)
    case None
    with Cons.prems one r have "run_state (toWorkloadList E d ds acc) w1 = (Done (Inr ws), w')" by simp
    from Cons.IH [OF this] res None show ?thesis by (auto split: if_splits)
  next
    case (Some wl)
    with Cons.prems one r have "run_state (toWorkloadList E d ds (acc @ [wl])) w1 = (Done (Inr ws), w')" by simp
    from Cons.IH [OF this] res Some show ?thesis by (auto split: if_splits)
  qed
qed

section \<open>Reading deployments\<close>

locale workload_api =
  fixes E :: "'w env"
    and deps :: "'w \<Rightarrow> string \<times> string \<Rightarrow> EdgeDeployment option"
  assumes dep_get_keeps: "keeps deps (k_dep_get E ns n)"
    and dev_get_keeps: "keeps deps (k_dev_get E ns n)"
    and dep_get_found: "run_state (k_dep_get E ns n) w = (Inr dep, w') \<Longrightarrow> deps w (ns, n) = Some dep"
    and dep_get_missing: "run_state (k_dep_get E ns n) w = (Inl e, w') \<Longrightarrow> IsNotFound e \<Longrightarrow> deps w (ns, n) = None"
begin

lemma read_deployments_result:
  "run_state (read_deployments E ns ds acc) w = (Inr xs, w') \<Longrightarrow>
   xs = acc @ List.map_filter (live_deployment (deps w) ns) (map dpl_Name ds)"
proof (induction ds arbitrary: acc w)
  case Nil
  then show ?case by (simp add: List.map_filter_simps)
next
  case (Cons x ds)
  obtain r w1 where run: "run_state (k_dep_get E ns (dpl_Name x)) w = (r, w1)" by (metis surj_pair)
  have w1: "deps w1 = deps w" by (rule keeps_run [OF dep_get_keeps run])
  show ?case
  proof (cases r)
    case (Inl e)
    with Cons.prems run have e: "IsNotFound e" "run_state (read_deployments E ns ds acc) w1 = (Inr xs, w')"
      by (auto simp: dep_Read_def split: if_splits)
    have "live_deployment (deps w) ns (dpl_Name x) = None"
      using dep_get_missing [OF run [unfolded Inl] e(1)] by (simp add: live_deployment_def)
    with Cons.IH [OF e(2)] w1 show ?thesis by (simp add: List.map_filter_simps)
  next
    case (Inr dep)
    let ?acc = "if om_DeletionTimestamp (dep_meta dep) = None then acc @ [dep] else acc"
    have "run_state (read_deployments E ns ds ?acc) w1 = (Inr xs, w')"
      using Cons.prems run Inr by (simp add: dep_Read_def)
    from Cons.IH [OF this] dep_get_found [OF run [unfolded Inr]] w1 show ?thesis
      by (simp add: List.map_filter_simps live_deployment_def)
  qed
qed

end

section \<open>The answer to a data request\<close>

definition delivered ::
  "'w env \<Rightarrow> (string \<times> string \<Rightarrow> EdgeDeployment option) \<Rightarrow> EdgeDevice \<Rightarrow> string \<Rightarrow> Message \<Rightarrow> bool" where
  "delivered E deps d i m \<longleftrightarrow> (\<exists>dc cfg. msg_Type m = MessageTypeData \<and> msg_Content m = ConfigurationContent dc \<and>
     dcm_DeviceID dc = i \<and> dcm_Version dc = om_ResourceVersion (dev_meta d) \<and>
     dcm_Configuration dc = Some cfg \<and> dc_Heartbeat cfg = Some (heartbeat_configuration d) \<and> dc_Os cfg = os_information d \<and>
     (if om_DeletionTimestamp (dev_meta d) \<noteq> None then dcm_Workloads dc = [] \<and> dcm_Secrets dc = []
      else list_all2 (workload_of E) (filter (marshalled E) (live_deployments deps d)) (dcm_Workloads dc)))"

lemma data_message_delivered:
  "run_state (data_message E i d wl sl) w = (Done (GetDataMessageForDeviceOK (Some m)), w') \<Longrightarrow>
   \<exists>dc cfg. msg_Type m = MessageTypeData \<and> msg_Content m = ConfigurationContent dc \<and>
     dcm_DeviceID dc = i \<and> dcm_Version dc = om_ResourceVersion (dev_meta d) \<and>
     dcm_Configuration dc = Some cfg \<and> dc_Heartbeat cfg = Some (heartbeat_configuration d) \<and> dc_Os cfg = os_information d \<and>
     dcm_Workloads dc = wl \<and> dcm_Secrets dc = sl"
  by (auto simp: data_message_def Let_def split: prod.splits sum.splits outcome.splits)

text \<open>An answer with a message went through the three parts of the handler.\<close>

lemma GetData_steps:
  assumes "run_state (GetDataMessageForDevice E h p) w = (Done (GetDataMessageForDeviceOK (Some m)), w')"
  shows "\<exists>d w1 wl sl w2. run_state (dev_Read E (gp_DeviceID p) (h_initialNamespace h)) w = (Inr d, w1) \<and>
    run_state (device_payload E d) w1 = (Done (Inr (wl, sl)), w2) \<and>
    run_state (data_message E (gp_DeviceID p) d wl sl) w2 = (Done (GetDataMessageForDeviceOK (Some m)), w')"
proof -
  obtain r w1 where rd: "run_state (dev_Read E (gp_DeviceID p) (h_initialNamespace h)) w = (r, w1)" by (metis surj_pair)
  with assms obtain d where d: "r = Inr d"
    by (cases r) (auto simp: GetDataMessageForDevice_def Let_def split: if_splits)
  obtain pl w2 where pl: "run_state (device_payload E d) w1 = (pl, w2)" by (metis surj_pair)
  with assms rd d obtain wl sl where wl: "pl = Done (Inr (wl, sl))"
    by (auto simp: GetDataMessageForDevice_def Let_def split: outcome.splits sum.splits)
  have "run_state (data_message E (gp_DeviceID p) d wl sl) w2 = (Done (GetDataMessageForDeviceOK (Some m)), w')"
    using assms rd d pl wl by (simp add: GetDataMessageForDevice_def Let_def)
  with rd d pl wl show ?thesis by blast
qed

context workload_api
begin

lemma device_payload_workloads:
  assumes "run_state (device_payload E d) w = (Done (Inr (wl, sl)), w')"
  shows "if om_DeletionTimestamp (dev_meta d) \<noteq> None then wl = [] \<and> sl = []
    else list_all2 (workload_of E) (filter (marshalled E) (live_deployments (deps w) d)) wl"
proof (cases "om_DeletionTimestamp (dev_meta d) = None")
  case True
  obtain r w1 where rd: "run_state (read_deployments E (om_Namespace (dev_meta d)) (deployments_of d) []) w = (r, w1)"
    by (metis surj_pair)
  with assms True obtain ds where ds: "r = Inr ds" by (cases r) (auto simp: device_payload_def)
  obtain l w2 where tw: "run_state (toWorkloadList E d ds []) w1 = (l, w2)" by (metis surj_pair)
  with assms True rd ds have l: "l = Done (Inr wl)"
    by (auto simp: device_payload_def map_sum_def split: outcome.splits sum.splits prod.splits)
  have "ds = live_deployments (deps w) d"
    using read_deployments_result [OF rd [unfolded ds]] by (simp add: live_deployments_def)
  with toWorkloadList_result [OF tw [unfolded l]] True show ?thesis by simp
next
  case False
  with assms show ?thesis
    by (auto simp: device_payload_def split: if_splits prod.splits option.splits)
qed

lemma GetData_delivered:
  assumes "run_state (GetDataMessageForDevice E h p) w = (Done (GetDataMessageForDeviceOK (Some m)), w')"
  shows "\<exists>d w1. run_state (dev_Read E (gp_DeviceID p) (h_initialNamespace h)) w = (Inr d, w1) \<and>
    delivered E (deps w) d (gp_DeviceID p) m"
proof -
  obtain d w1 wl sl w2 where rd: "run_state (dev_Read E (gp_DeviceID p) (h_initialNamespace h)) w = (Inr d, w1)"
    and pl: "run_state (device_payload E d) w1 = (Done (Inr (wl, sl)), w2)"
    and dm: "run_state (data_message E (gp_DeviceID p) d wl sl) w2 = (Done (GetDataMessageForDeviceOK (Some m)), w')"
    using GetData_steps [OF assms] by blast
  have w1: "deps w1 = deps w"
    using keeps_run [OF dev_get_keeps] rd by (simp add: dev_Read_def)
  from data_message_delivered [OF dm] device_payload_workloads [OF pl, unfolded w1]
  have "delivered E (deps w) d (gp_DeviceID p) m" unfolding delivered_def by auto
  with rd show ?thesis by blast
qed

end

section \<open>The laws hold\<close>

definition mem_deps :: "mem \<Rightarrow> string \<times> string \<Rightarrow> EdgeDeployment option" where
  "mem_deps w k = mem_find dep_meta k (m_deps w)"

interpretation memwl: workload_api mem_env mem_deps
proof (unfold_locales, goal_cases)
  case (1 ns n)
  show ?case by (auto simp: keeps_def mem_env_def mem_get_def api_call_def mem_deps_def fun_eq_iff split: list.split option.split)
next
  case (2 ns n)
  show ?case by (auto simp: keeps_def mem_env_def mem_get_def api_call_def mem_deps_def fun_eq_iff split: list.split option.split)
next
  case (3 ns n w dep w')
  then show ?case
    by (auto simp: mem_env_def mem_get_def api_call_def mem_deps_def split: list.splits option.splits)
next
  case (4 ns n w e w')
  then show ?case
    by (auto simp: mem_env_def mem_get_def api_call_def mem_deps_def split: list.splits option.splits)
qed

section \<open>Properties\<close>

text \<open>C7: the answer to a data request is the configuration of the stored device with one workload for
  each deployment in its status, in that order, that exists, is not being deleted and whose pod can be
  written as YAML; the workload has the name, the pod, the data paths, the log collection and the
  metrics of the deployment. A device that is being deleted is given no workloads and no secrets, and
  at most its workload finalizer goes (and nothing else of it, where the server patches nothing but what a patch
  names); a device that is not being deleted is not changed.\<close>

theorem GetDataMessage_delivers:
  assumes "device_server E devs h" and "workload_api E deps"
  shows "wp (GetDataMessageForDevice E h p) (\<lambda>r w'.
      data_answer (patches_exactly E devs) (h_initialNamespace h, gp_DeviceID p) (devs w) r (devs w') \<and>
      (\<forall>m. r = Done (GetDataMessageForDeviceOK (Some m)) \<longrightarrow>
        (\<exists>d. devs w (h_initialNamespace h, gp_DeviceID p) = Some d \<and> delivered E (deps w) d (gp_DeviceID p) m))) w"
proof (rule wp_intro, intro conjI allI impI)
  fix r w' assume run: "run_state (GetDataMessageForDevice E h p) w = (r, w')"
  show "data_answer (patches_exactly E devs) (h_initialNamespace h, gp_DeviceID p) (devs w) r (devs w')"
    by (rule wp_elim [OF device_server.GetData_answer [OF assms(1)] run])
  fix m assume "r = Done (GetDataMessageForDeviceOK (Some m))"
  with workload_api.GetData_delivered [OF assms(2)] run obtain d w1 where
    d: "run_state (dev_Read E (gp_DeviceID p) (h_initialNamespace h)) w = (Inr d, w1)"
      "delivered E (deps w) d (gp_DeviceID p) m" by blast
  from wp_elim [OF device_server.wp_Read [OF assms(1)] d(1)] have "devs w (h_initialNamespace h, gp_DeviceID p) = Some d"
    by simp
  with d(2) show "\<exists>d. devs w (h_initialNamespace h, gp_DeviceID p) = Some d \<and> delivered E (deps w) d (gp_DeviceID p) m"
    by blast
qed

definition sample_running :: mem where
  "sample_running = empty_mem\<lparr>
     m_devs := [(sample_leaving [])\<lparr>dev_meta := new_meta ''d1'' ''default'',
        dev_Status := empty_status\<lparr>es_Deployments := [
          \<lparr>dpl_Name = ''gone'', dpl_Phase = Running, dpl_LastTransitionTime = zero_time, dpl_LastDataUpload = zero_time\<rparr>,
          \<lparr>dpl_Name = ''app'', dpl_Phase = Running, dpl_LastTransitionTime = zero_time, dpl_LastDataUpload = zero_time\<rparr>]\<rparr>\<rparr>],
     m_deps := [sample_workload], m_cms := m_cms sample_settings\<rparr>"

theorem GetDataMessage_delivers_witness:
  "\<exists>m dc wl w'. run_state (GetDataMessageForDevice mem_env toy_handler \<lparr>gp_DeviceID = ''d1''\<rparr>) sample_running =
      (Done (GetDataMessageForDeviceOK (Some m)), w') \<and>
     msg_Content m = ConfigurationContent dc \<and> dcm_Workloads dc = [wl] \<and> wl_Name wl = ''app''"
proof -
  let ?run = "run_state (GetDataMessageForDevice mem_env toy_handler \<lparr>gp_DeviceID = ''d1''\<rparr>) sample_running"
  have "case fst ?run of Done (GetDataMessageForDeviceOK (Some _)) \<Rightarrow> True | _ \<Rightarrow> False" by code_simp
  then obtain m w' where run: "?run = (Done (GetDataMessageForDeviceOK (Some m)), w')"
    by (auto split: outcome.splits GetDataMessageForDeviceResponse.splits option.splits) (metis prod.collapse)
  have ns: "h_initialNamespace toy_handler = ''default''" by (simp add: toy_handler_def NewYggdrasilHandler_def)
  obtain d where d: "mem_devs sample_running (''default'', ''d1'') = Some d"
    "delivered mem_env (mem_deps sample_running) d ''d1'' m"
    using wp_elim [OF GetDataMessage_delivers [OF memserver.device_server_axioms memwl.workload_api_axioms] run] ns by auto
  have "d = hd (m_devs sample_running)"
    using d(1) by (simp add: mem_devs_def mem_find_def sample_running_def meta_key_def new_meta_def)
  then have live: "om_DeletionTimestamp (dev_meta d) = None" "live_deployments (mem_deps sample_running) d = [sample_workload]"
    by (simp_all, code_simp, code_simp)
  have "marshalled mem_env sample_workload" by code_simp
  moreover have "om_Name (dep_meta sample_workload) = ''app''" by (simp add: sample_workload_def new_meta_def)
  ultimately show ?thesis
    using d(2) live run by (auto simp: delivered_def list_all2_Cons1 workload_of_def)
qed

end
