(* ===== verification/Webhook.thy ===== *)
theory Webhook
  imports Configmaps
begin

text \<open>
  \<open>api/v1alpha1/edgedeployment_webhook.go\<close>: the validating webhook that refuses deployments whose
  pod uses what a device cannot run. The repeated \<open>append\<close>s of one container are the list
  \<open>container_paths\<close>, in their order; a name that occurs twice ends the validation at once.
\<close>

section \<open>Validation\<close>

definition containersMsg :: "Container \<Rightarrow> string \<Rightarrow> string" where
  "containersMsg container field = ''containers['' @ ct_Name container @ ''].'' @ field"

definition envMsg :: "Container \<Rightarrow> EnvVar \<Rightarrow> string \<Rightarrow> string" where
  "envMsg container envVar field =
     ''containers['' @ ct_Name container @ ''].env['' @ ev_Name envVar @ ''].ValueFrom.'' @ field"

definition env_path :: "Container \<Rightarrow> EnvVar \<Rightarrow> string list" where
  "env_path container envVar = (case ev_ValueFrom envVar of
     None \<Rightarrow> []
   | Some vf \<Rightarrow>
       if evs_FieldRef vf \<noteq> None then [envMsg container envVar ''fieldRef'']
       else if evs_ResourceFieldRef vf \<noteq> None then [envMsg container envVar ''resourceFieldRef'']
       else [])"

definition container_paths :: "Container \<Rightarrow> string list" where
  "container_paths container =
     (if ct_Lifecycle container \<noteq> None then [containersMsg container ''lifecycle''] else []) @
     (if ct_LivenessProbe container \<noteq> None then [containersMsg container ''livenessProbe''] else []) @
     (if ct_ReadinessProbe container \<noteq> None then [containersMsg container ''readinessProbe''] else []) @
     (if ct_StartupProbe container \<noteq> None then [containersMsg container ''startupProbe''] else []) @
     (if length (ct_VolumeDevices container) \<noteq> 0 then [containersMsg container ''volumeDevices''] else []) @
     (if length (ct_Limits container) \<noteq> 0 then [containersMsg container ''resources.limits''] else []) @
     (if length (ct_Requests container) \<noteq> 0 then [containersMsg container ''resources.requests''] else []) @
     concat (map (env_path container) (ct_Env container))"

fun check_containers :: "string list \<Rightarrow> string list \<Rightarrow> Container list \<Rightarrow> string list result" where
  "check_containers containersNames notValidPaths [] = Inr notValidPaths"
| "check_containers containersNames notValidPaths (container # containers) =
     (if List.member containersNames (ct_Name container)
      then Inl (Errorf (''name collisions for containers within the same pod spec are not supported.'' @ [CHR 0x0A] @
             ''container name: '' @ [CHR 0x27] @ ct_Name container @ [CHR 0x27] @ '' has been reused''))
      else check_containers (ct_Name container # containersNames) (notValidPaths @ container_paths container) containers)"

fun volume_paths :: "Volume list \<Rightarrow> string list" where
  "volume_paths [] = []"
| "volume_paths (volume # volumes) =
     (if vol_HostPath volume = None then (''volumes['' @ vol_Name volume @ '']'') # volume_paths volumes
      else volume_paths volumes)"

definition validate :: "EdgeDeployment \<Rightarrow> goerr option" where
  "validate r =
     (let podSpec = pod_Spec (eds_Pod (dep_Spec r)) in
      case check_containers [] [] (allContainers podSpec) of
        Inl err \<Rightarrow> Some err
      | Inr paths \<Rightarrow>
          let notValidPaths = paths @ volume_paths (ps_Volumes podSpec) in
          if length notValidPaths \<noteq> 0
          then Some (Errorf (''the following paths in podSpec are not supported and should be removed: ''
                 @ strings_Join notValidPaths '',''))
          else None)"

definition ValidateCreate :: "EdgeDeployment \<Rightarrow> goerr option" where "ValidateCreate r = validate r"
definition ValidateUpdate :: "EdgeDeployment \<Rightarrow> EdgeDeployment \<Rightarrow> goerr option" where "ValidateUpdate r old = validate r"
definition ValidateDelete :: "EdgeDeployment \<Rightarrow> goerr option" where "ValidateDelete r = None"

section \<open>What is accepted\<close>

definition supported_container :: "Container \<Rightarrow> bool" where
  "supported_container c \<longleftrightarrow> ct_Lifecycle c = None \<and> ct_LivenessProbe c = None \<and> ct_ReadinessProbe c = None \<and>
     ct_StartupProbe c = None \<and> ct_VolumeDevices c = [] \<and> ct_Limits c = [] \<and> ct_Requests c = [] \<and>
     (\<forall>e\<in>set (ct_Env c). \<forall>vf. ev_ValueFrom e = Some vf \<longrightarrow> evs_FieldRef vf = None \<and> evs_ResourceFieldRef vf = None)"

lemma env_path_Nil:
  "env_path c e = [] \<longleftrightarrow>
     (\<forall>vf. ev_ValueFrom e = Some vf \<longrightarrow> evs_FieldRef vf = None \<and> evs_ResourceFieldRef vf = None)"
  by (cases "ev_ValueFrom e") (simp_all add: env_path_def)

lemma guarded_Nil: "(if b then [x] else []) = [] \<longleftrightarrow> \<not> b"
  by simp

lemma container_paths_Nil: "container_paths c = [] \<longleftrightarrow> supported_container c"
  unfolding container_paths_def supported_container_def append_is_Nil_conv guarded_Nil concat_eq_Nil_conv
  by (simp add: env_path_Nil)

lemma check_containers_Inr:
  "(\<exists>paths. check_containers names acc cs = Inr paths) \<longleftrightarrow>
     distinct (map ct_Name cs) \<and> set names \<inter> set (map ct_Name cs) = {}"
  by (induction names acc cs rule: check_containers.induct) auto

lemma check_containers_paths:
  "check_containers names acc cs = Inr paths \<Longrightarrow> paths = acc @ concat (map container_paths cs)"
  by (induction names acc cs rule: check_containers.induct) (auto split: if_splits)

lemma volume_paths_Nil: "volume_paths vs = [] \<longleftrightarrow> (\<forall>v\<in>set vs. vol_HostPath v \<noteq> None)"
  by (induction vs) auto

definition accepted_pod :: "PodSpec \<Rightarrow> bool" where
  "accepted_pod p \<longleftrightarrow> distinct (map ct_Name (ps_InitContainers p @ ps_Containers p)) \<and>
     (\<forall>c\<in>set (ps_InitContainers p @ ps_Containers p). supported_container c) \<and>
     (\<forall>v\<in>set (ps_Volumes p). vol_HostPath v \<noteq> None)"

lemma validate_None: "validate r = None \<longleftrightarrow> accepted_pod (pod_Spec (eds_Pod (dep_Spec r)))"
proof -
  let ?p = "pod_Spec (eds_Pod (dep_Spec r))"
  let ?cs = "ps_InitContainers ?p @ ps_Containers ?p"
  have all: "allContainers ?p = ?cs" by (simp add: allContainers_def)
  show ?thesis
  proof (cases "check_containers [] [] ?cs")
    case (Inl e)
    then have "\<not> distinct (map ct_Name ?cs)" using check_containers_Inr [of "[]" "[]" ?cs] by auto
    then have "\<not> accepted_pod ?p" unfolding accepted_pod_def by blast
    with Inl show ?thesis by (simp add: validate_def all)
  next
    case (Inr paths)
    then have "distinct (map ct_Name ?cs)" using check_containers_Inr [of "[]" "[]" ?cs] by auto
    moreover have "paths = concat (map container_paths ?cs)" using check_containers_paths [OF Inr] by simp
    ultimately show ?thesis
      using Inr by (auto simp: validate_def all accepted_pod_def Let_def volume_paths_Nil container_paths_Nil)
  qed
qed

section \<open>Properties\<close>

text \<open>C32: the webhook admits a new or changed deployment exactly when no two containers of its pod,
  init containers included, share a name, no container uses lifecycle hooks, probes, volume devices,
  resource limits or requests or environment variables from fields, and every volume is a host path;
  deletion is always admitted. This is not what \<open>docs/design/crds.md\<close> says: volumes of persistent volume claims are refused although
  documented as supported, and \<open>envFrom\<close> and host paths of every type are admitted although documented as unsupported.\<close>

theorem webhook_admits_iff:
  "(ValidateCreate r = None \<longleftrightarrow> accepted_pod (pod_Spec (eds_Pod (dep_Spec r)))) \<and>
   (ValidateUpdate r old = None \<longleftrightarrow> accepted_pod (pod_Spec (eds_Pod (dep_Spec r)))) \<and>
   ValidateDelete r = None"
  by (simp add: ValidateCreate_def ValidateUpdate_def ValidateDelete_def validate_None)

text \<open>
  A deployment that the webhook admits is not necessarily one that the operator can serve: an
  environment variable with a plain value is admitted, and collecting the config maps of the workload
  then dereferences a nil pointer, in whatever state the cluster is.
\<close>

definition plain_workload :: EdgeDeployment where
  "plain_workload = sample_workload\<lparr>dep_Spec := (dep_Spec sample_workload)\<lparr>eds_Pod := \<lparr>pod_Spec =
     (pod_Spec (eds_Pod (dep_Spec sample_workload)))\<lparr>ps_Containers :=
       [sample_container\<lparr>ct_Env := [\<lparr>ev_Name = ''LEVEL'', ev_ValueFrom = None\<rparr>]\<rparr>]\<rparr>\<rparr>\<rparr>\<rparr>"

lemma admitted_deployment_panics:
  "ValidateCreate plain_workload = None \<and> (\<exists>p. run_state (Fetch E plain_workload ns) w = (Panic p, w))"
  by (simp add: plain_workload_def sample_workload_def sample_container_def ValidateCreate_def validate_def
      allContainers_def container_paths_def env_path_def Fetch_def Let_def extractConfigMapsFromEnv_fold
      plain_env_def nil_dereference_def)

end
