(* ===== verification/Management_Api.thy ===== *)
theory Management_Api
  imports Yggdrasil
begin

text \<open>
  The HTTP server of the device API as go-swagger generated it: the object that collects the handlers
  (\<open>restapi/operations/flotta_management_api.go\<close>), its construction from the operator's handlers
  (\<open>restapi/configure_flotta_management.go\<close>), and the \<open>ServeHTTP\<close> of the four operations, which
  bind the parameters, call the handler and write its answer.

  The go-openapi runtime is a parameter, the record \<open>runtime\<close>: the router, content negotiation, the
  JSON consumers and producers and the text of errors; the status an error is answered with is not,
  \<open>ServeError\<close> is translated from \<open>vendor/github.com/go-openapi/errors\<close>. The function types of the handlers, consumers,
  producers and of the middleware are type parameters of the object, \<open>None\<close> is \<open>nil\<close>.
\<close>

section \<open>The object that collects the handlers\<close>

text \<open>\<open>strings.ToUpper\<close>; the argument maps the runes outside ASCII.\<close>

definition strings_ToUpper :: "(rune \<Rightarrow> rune) \<Rightarrow> string \<Rightarrow> string" where
  "strings_ToUpper up s =
     concat (map (\<lambda>(i, r). encode_rune (if r < 128 then (if 97 \<le> r \<and> r \<le> 122 then r - 32 else r) else up r)) (runes s))"

text \<open>A handler of the table: the operation whose \<open>ServeHTTP\<close> it is, and the function it calls.\<close>

type_synonym 'f http_handler = "operation \<times> 'f option"

record ('f, 'c, 'p, 'm) FlottaManagementAPI =
  fa_handlers :: "'f http_handler gomap gomap"
  fa_customConsumers :: "'c gomap"
  fa_customProducers :: "'p gomap"
  fa_defaultConsumes :: string
  fa_defaultProduces :: string
  fa_Middleware :: "'m option"
  fa_useSwaggerUI :: bool
  fa_JSONConsumer :: "'c option"
  fa_JSONProducer :: "'p option"
  fa_GetControlMessageForDeviceHandler :: "'f option"
  fa_GetDataMessageForDeviceHandler :: "'f option"
  fa_PostControlMessageForDeviceHandler :: "'f option"
  fa_PostDataMessageForDeviceHandler :: "'f option"

definition NewFlottaManagementAPI :: "'c \<Rightarrow> 'p \<Rightarrow> (operation \<Rightarrow> 'f) \<Rightarrow> ('f, 'c, 'p, 'm) FlottaManagementAPI" where
  "NewFlottaManagementAPI jsonConsumer jsonProducer notImplemented =
     \<lparr>fa_handlers = [], fa_customConsumers = [], fa_customProducers = [],
      fa_defaultConsumes = ''application/json'', fa_defaultProduces = ''application/json'',
      fa_Middleware = None, fa_useSwaggerUI = False,
      fa_JSONConsumer = Some jsonConsumer, fa_JSONProducer = Some jsonProducer,
      fa_GetControlMessageForDeviceHandler = Some (notImplemented GetControlMessageForDeviceOp),
      fa_GetDataMessageForDeviceHandler = Some (notImplemented GetDataMessageForDeviceOp),
      fa_PostControlMessageForDeviceHandler = Some (notImplemented PostControlMessageForDeviceOp),
      fa_PostDataMessageForDeviceHandler = Some (notImplemented PostDataMessageForDeviceOp)\<rparr>"

definition SetDefaultProduces :: "string \<Rightarrow> ('f, 'c, 'p, 'm) FlottaManagementAPI \<Rightarrow> ('f, 'c, 'p, 'm) FlottaManagementAPI" where
  "SetDefaultProduces mediaType api = api\<lparr>fa_defaultProduces := mediaType\<rparr>"

definition SetDefaultConsumes :: "string \<Rightarrow> ('f, 'c, 'p, 'm) FlottaManagementAPI \<Rightarrow> ('f, 'c, 'p, 'm) FlottaManagementAPI" where
  "SetDefaultConsumes mediaType api = api\<lparr>fa_defaultConsumes := mediaType\<rparr>"

definition UseSwaggerUI :: "('f, 'c, 'p, 'm) FlottaManagementAPI \<Rightarrow> ('f, 'c, 'p, 'm) FlottaManagementAPI" where
  "UseSwaggerUI api = api\<lparr>fa_useSwaggerUI := True\<rparr>"

definition UseRedoc :: "('f, 'c, 'p, 'm) FlottaManagementAPI \<Rightarrow> ('f, 'c, 'p, 'm) FlottaManagementAPI" where
  "UseRedoc api = api\<lparr>fa_useSwaggerUI := False\<rparr>"

definition unregistered :: "'a option \<Rightarrow> string \<Rightarrow> string list" where
  "unregistered field name = (if field = None then [name] else [])"

definition api_Validate :: "('f, 'c, 'p, 'm) FlottaManagementAPI \<Rightarrow> goerr option" where
  "api_Validate api =
     (let missing =
        unregistered (fa_JSONConsumer api) ''JSONConsumer'' @
        unregistered (fa_JSONProducer api) ''JSONProducer'' @
        unregistered (fa_GetControlMessageForDeviceHandler api) ''yggdrasil.GetControlMessageForDeviceHandler'' @
        unregistered (fa_GetDataMessageForDeviceHandler api) ''yggdrasil.GetDataMessageForDeviceHandler'' @
        unregistered (fa_PostControlMessageForDeviceHandler api) ''yggdrasil.PostControlMessageForDeviceHandler'' @
        unregistered (fa_PostDataMessageForDeviceHandler api) ''yggdrasil.PostDataMessageForDeviceHandler''
      in if length missing > 0 then Some (Errorf (''missing registration: '' @ strings_Join missing '', '')) else None)"

text \<open>One turn of the loops of \<open>ConsumersFor\<close> and \<open>ProducersFor\<close>: the JSON one (which may be \<open>nil\<close>)
  for its media type, overridden by a registered one.\<close>

definition codec_step :: "'c option \<Rightarrow> 'c gomap \<Rightarrow> 'c option gomap \<Rightarrow> string \<Rightarrow> 'c option gomap" where
  "codec_step json custom result mt =
     (let result1 = (if mt = ''application/json'' then gm_set ''application/json'' json result else result) in
      case gm_get custom mt of None \<Rightarrow> result1 | Some c \<Rightarrow> gm_set mt (Some c) result1)"

definition ConsumersFor :: "('f, 'c, 'p, 'm) FlottaManagementAPI \<Rightarrow> string list \<Rightarrow> 'c option gomap" where
  "ConsumersFor api mediaTypes = foldl (codec_step (fa_JSONConsumer api) (fa_customConsumers api)) [] mediaTypes"

definition ProducersFor :: "('f, 'c, 'p, 'm) FlottaManagementAPI \<Rightarrow> string list \<Rightarrow> 'p option gomap" where
  "ProducersFor api mediaTypes = foldl (codec_step (fa_JSONProducer api) (fa_customProducers api)) [] mediaTypes"

definition RegisterConsumer :: "string \<Rightarrow> 'c \<Rightarrow> ('f, 'c, 'p, 'm) FlottaManagementAPI \<Rightarrow> ('f, 'c, 'p, 'm) FlottaManagementAPI" where
  "RegisterConsumer mediaType consumer api =
     api\<lparr>fa_customConsumers := gm_set mediaType consumer (fa_customConsumers api)\<rparr>"

definition RegisterProducer :: "string \<Rightarrow> 'p \<Rightarrow> ('f, 'c, 'p, 'm) FlottaManagementAPI \<Rightarrow> ('f, 'c, 'p, 'm) FlottaManagementAPI" where
  "RegisterProducer mediaType producer api =
     api\<lparr>fa_customProducers := gm_set mediaType producer (fa_customProducers api)\<rparr>"

definition HandlerFor :: "(rune \<Rightarrow> rune) \<Rightarrow> ('f, 'c, 'p, 'm) FlottaManagementAPI \<Rightarrow> string \<Rightarrow> string \<Rightarrow> 'f http_handler option" where
  "HandlerFor up api mth path =
     (case gm_get (fa_handlers api) (strings_ToUpper up mth) of
        None \<Rightarrow> None
      | Some handlers \<Rightarrow> gm_get handlers (if path = ''/'' then [] else path))"

text \<open>The handler fields behind the constant table \<open>initHandlerCache\<close> of the routes.\<close>

fun handler_field :: "('f, 'c, 'p, 'm) FlottaManagementAPI \<Rightarrow> operation \<Rightarrow> 'f option" where
  "handler_field api GetControlMessageForDeviceOp = fa_GetControlMessageForDeviceHandler api"
| "handler_field api GetDataMessageForDeviceOp = fa_GetDataMessageForDeviceHandler api"
| "handler_field api PostControlMessageForDeviceOp = fa_PostControlMessageForDeviceHandler api"
| "handler_field api PostDataMessageForDeviceOp = fa_PostDataMessageForDeviceHandler api"

definition Init :: "('f, 'c, 'p, 'm) FlottaManagementAPI \<Rightarrow> ('f, 'c, 'p, 'm) FlottaManagementAPI" where
  "Init api =
     (if length (fa_handlers api) = 0
      then api\<lparr>fa_handlers := map (apsnd (map (apsnd (\<lambda>op. (op, handler_field api op))))) initHandlerCache\<rparr>
      else api)"

datatype 'm served = FromMiddleware 'm | APIHandlerSwaggerUI | APIHandler

definition Serve :: "('f, 'c, 'p, 'm) FlottaManagementAPI \<Rightarrow> 'm served \<times> ('f, 'c, 'p, 'm) FlottaManagementAPI" where
  "Serve api =
     (let api' = Init api in
      case fa_Middleware api' of
        Some m \<Rightarrow> (FromMiddleware m, api')
      | None \<Rightarrow> if fa_useSwaggerUI api' then (APIHandlerSwaggerUI, api') else (APIHandler, api'))"

text \<open>The handler is looked up under the upper-case method and stored under the method as given: the
  assignment to an absent inner map is a panic.\<close>

definition AddMiddlewareFor ::
  "(rune \<Rightarrow> rune) \<Rightarrow> string \<Rightarrow> string \<Rightarrow> ('f http_handler \<Rightarrow> 'f http_handler) \<Rightarrow>
   ('f, 'c, 'p, 'm) FlottaManagementAPI \<Rightarrow> ('f, 'c, 'p, 'm) FlottaManagementAPI outcome" where
  "AddMiddlewareFor up mth path builder api =
     (let um = strings_ToUpper up mth; path' = (if path = ''/'' then [] else path); api' = Init api in
      case Option.bind (gm_get (fa_handlers api') um) (\<lambda>hs. gm_get hs path') of
        None \<Rightarrow> Done api'
      | Some h \<Rightarrow>
          (case gm_get (fa_handlers api') mth of
             None \<Rightarrow> Panic ''assignment to entry in nil map''
           | Some hs \<Rightarrow> Done (api'\<lparr>fa_handlers := gm_set mth (gm_set path' (builder h) hs) (fa_handlers api')\<rparr>)))"

section \<open>Its construction\<close>

definition HandlerAPI ::
  "goerr option \<Rightarrow> 'c \<Rightarrow> 'p \<Rightarrow> (operation \<Rightarrow> 'f) \<Rightarrow> (operation \<Rightarrow> 'f) \<Rightarrow>
   ('m served \<times> ('f, 'c, 'p, 'm) FlottaManagementAPI) result" where
  "HandlerAPI analyzed jsonConsumer jsonProducer notImplemented yggdrasilAPI = (case analyzed of
     Some err \<Rightarrow> Inl (prefixed ''analyze swagger: '' err)
   | None \<Rightarrow>
       let api = NewFlottaManagementAPI jsonConsumer jsonProducer notImplemented;
           api1 = api\<lparr>
             fa_JSONConsumer := Some jsonConsumer,
             fa_JSONProducer := Some jsonProducer,
             fa_GetControlMessageForDeviceHandler := Some (yggdrasilAPI GetControlMessageForDeviceOp),
             fa_GetDataMessageForDeviceHandler := Some (yggdrasilAPI GetDataMessageForDeviceOp),
             fa_PostControlMessageForDeviceHandler := Some (yggdrasilAPI PostControlMessageForDeviceOp),
             fa_PostDataMessageForDeviceHandler := Some (yggdrasilAPI PostDataMessageForDeviceOp)\<rparr>
       in Inr (Serve api1))"


section \<open>Serving a request\<close>

text \<open>What the code reads of an \<open>http.Request\<close>: the peer certificates are there when it came over TLS,
  the body when \<open>runtime.HasBody\<close> holds.\<close>

record Request =
  rq_Method :: string
  rq_URL :: URL
  rq_EscapedPath :: string
  rq_TLS :: "Certificate list option"
  rq_Body :: "string option"

text \<open>The router returns the method and the pattern of the matched route and the values of
  \<open>device_id\<close>; \<open>rt_negotiate\<close> is what \<open>BindValidRequest\<close> has to say about the content types;
  \<open>rt_errorAsJSON\<close> is the body of an error answer (\<open>None\<close> for the unknown error);
  \<open>rt_default_mux\<close> is \<open>http.DefaultServeMux\<close>, which serves when there is no handler.\<close>

record runtime =
  rt_match :: "string \<Rightarrow> string \<Rightarrow> (string \<times> string \<times> string list) option"
  rt_default_mux :: "Request \<Rightarrow> ResponseWriter \<Rightarrow> ResponseWriter outcome"
  rt_no_route :: "Request \<Rightarrow> ResponseWriter \<Rightarrow> ResponseWriter outcome"
  rt_negotiate :: "Request \<Rightarrow> validation_error list"
  rt_format :: "Request \<Rightarrow> string"
  rt_errorAsJSON :: "validation_error option \<Rightarrow> string"
  rt_consume :: "string \<Rightarrow> Message consumed"
  rt_date_time :: "time \<Rightarrow> bool"
  rt_produce_message :: "Message \<Rightarrow> string result"
  rt_produce_response :: "MessageResponse \<Rightarrow> string result"
  rt_upper :: "rune \<Rightarrow> rune"

definition BindValidRequest :: "runtime \<Rightarrow> Request \<Rightarrow> (validation_error + 'p) \<Rightarrow> validation_error + 'p" where
  "BindValidRequest rt r bound =
     (if length (rt_negotiate rt r) > 0 then Inl (CompositeValidationError (rt_negotiate rt r)) else bound)"

definition Respond :: "runtime \<Rightarrow> Request \<Rightarrow> ResponseWriter \<Rightarrow> (ResponseWriter \<Rightarrow> ResponseWriter outcome) \<Rightarrow> ResponseWriter outcome" where
  "Respond rt r rw data = data (rw\<lparr>rw_ContentType := Some (rt_format rt r)\<rparr>)"

text \<open>The error handler of the API, \<open>errors.ServeError\<close>: of a composite error only the first error in
  it counts, and the codes of the validations, which are no status codes, become 422.\<close>

fun error_Code :: "validation_error \<Rightarrow> int" where
  "error_Code (InvalidFormat name format) = 601"
| "error_Code (RequiredIn name inn) = 602"
| "error_Code (NotInEnum name val) = 606"
| "error_Code (BelowMinimum name least) = 609"
| "error_Code (ParseErrorIn name inn err) = 400"
| "error_Code (InvalidContentType val) = 415"
| "error_Code InvalidResponseFormat = 406"
| "error_Code (NoConsumer ct) = 500"
| "error_Code (CompositeValidationError errs) = 422"

definition asHTTPCode :: "int \<Rightarrow> int" where
  "asHTTPCode input = (if input \<ge> 600 then 422 else input)"

fun flattenComposite :: "validation_error list \<Rightarrow> validation_error list" where
  "flattenComposite [] = []"
| "flattenComposite (CompositeValidationError errs # rest) =
     (if length errs > 0 then flattenComposite errs else []) @ flattenComposite rest"
| "flattenComposite (err # rest) = err # flattenComposite rest"

definition serve_one_error :: "runtime \<Rightarrow> Request \<Rightarrow> validation_error option \<Rightarrow> ResponseWriter \<Rightarrow> ResponseWriter outcome" where
  "serve_one_error rt r err rw = (case err of
     None \<Rightarrow> (let rw' = WriteHeader 500 rw in Done (rw'\<lparr>rw_Body := rw_Body rw' @ rt_errorAsJSON rt None\<rparr>))
   | Some e \<Rightarrow>
       let rw' = WriteHeader (asHTTPCode (error_Code e)) rw in
       Done (if rq_Method r \<noteq> ''HEAD'' then rw'\<lparr>rw_Body := rw_Body rw' @ rt_errorAsJSON rt (Some e)\<rparr> else rw'))"

definition ServeError :: "runtime \<Rightarrow> Request \<Rightarrow> validation_error \<Rightarrow> ResponseWriter \<Rightarrow> ResponseWriter outcome" where
  "ServeError rt r err rw =
     (let rw' = rw\<lparr>rw_ContentType := Some ''application/json''\<rparr> in
      case err of
        CompositeValidationError errs \<Rightarrow>
          (case flattenComposite errs of
             [] \<Rightarrow> serve_one_error rt r None rw'
           | e # _ \<Rightarrow> serve_one_error rt r (Some e) rw')
      | _ \<Rightarrow> serve_one_error rt r (Some err) rw')"

definition GetControlMessageForDevice_ServeHTTP ::
  "runtime \<Rightarrow> 'w env \<Rightarrow> 'w Handler \<Rightarrow> string list \<Rightarrow> Request \<Rightarrow> ResponseWriter \<Rightarrow> ('w, ResponseWriter outcome) io" where
  "GetControlMessageForDevice_ServeHTTP rt E h deviceIDs r rw =
     (case BindValidRequest rt r (Get_BindRequest deviceIDs) of
        Inl err \<Rightarrow> ret (Respond rt r rw (ServeError rt r err))
      | Inr Params \<Rightarrow> do {
          res \<leftarrow> GetControlMessageForDevice E h Params;
          ret (Respond rt r rw (GetControlMessageForDevice_WriteResponse (rt_produce_message rt) res))
        })"

definition GetDataMessageForDevice_ServeHTTP ::
  "runtime \<Rightarrow> 'w env \<Rightarrow> 'w Handler \<Rightarrow> string list \<Rightarrow> Request \<Rightarrow> ResponseWriter \<Rightarrow> ('w, ResponseWriter outcome) io" where
  "GetDataMessageForDevice_ServeHTTP rt E h deviceIDs r rw =
     (case BindValidRequest rt r (Get_BindRequest deviceIDs) of
        Inl err \<Rightarrow> ret (Respond rt r rw (ServeError rt r err))
      | Inr Params \<Rightarrow> do {
          res \<leftarrow> GetDataMessageForDevice E h Params;
          ret (case res of
                 Panic p \<Rightarrow> Panic p
               | Done x \<Rightarrow> Respond rt r rw (GetDataMessageForDevice_WriteResponse (rt_produce_message rt) x))
        })"

definition PostControlMessageForDevice_ServeHTTP ::
  "runtime \<Rightarrow> 'w env \<Rightarrow> 'w Handler \<Rightarrow> string list \<Rightarrow> Request \<Rightarrow> ResponseWriter \<Rightarrow> ('w, ResponseWriter outcome) io" where
  "PostControlMessageForDevice_ServeHTTP rt E h deviceIDs r rw =
     (case BindValidRequest rt r (Post_BindRequest (rt_consume rt) (rt_date_time rt) deviceIDs (rq_Body r)) of
        Inl err \<Rightarrow> ret (Respond rt r rw (ServeError rt r err))
      | Inr Params \<Rightarrow> do {
          res \<leftarrow> PostControlMessageForDevice E h Params;
          ret (Respond rt r rw (PostControlMessageForDevice_WriteResponse res))
        })"

definition PostDataMessageForDevice_ServeHTTP ::
  "runtime \<Rightarrow> 'w env \<Rightarrow> 'w Handler \<Rightarrow> string list \<Rightarrow> Request \<Rightarrow> ResponseWriter \<Rightarrow> ('w, ResponseWriter outcome) io" where
  "PostDataMessageForDevice_ServeHTTP rt E h deviceIDs r rw =
     (case BindValidRequest rt r (Post_BindRequest (rt_consume rt) (rt_date_time rt) deviceIDs (rq_Body r)) of
        Inl err \<Rightarrow> ret (Respond rt r rw (ServeError rt r err))
      | Inr Params \<Rightarrow> do {
          res \<leftarrow> PostDataMessageForDevice E h Params;
          ret (case res of
                 Panic p \<Rightarrow> Panic p
               | Done x \<Rightarrow> Respond rt r rw (PostDataMessageForDevice_WriteResponse (rt_produce_response rt) x))
        })"

text \<open>The executor of the matched route; the function of a handler is the operation of the operator's
  handler it was given. A \<open>nil\<close> function is called like any other.\<close>

fun operation_ServeHTTP ::
  "operation \<Rightarrow> runtime \<Rightarrow> 'w env \<Rightarrow> 'w Handler \<Rightarrow> string list \<Rightarrow> Request \<Rightarrow> ResponseWriter \<Rightarrow> ('w, ResponseWriter outcome) io" where
  "operation_ServeHTTP GetControlMessageForDeviceOp = GetControlMessageForDevice_ServeHTTP"
| "operation_ServeHTTP GetDataMessageForDeviceOp = GetDataMessageForDevice_ServeHTTP"
| "operation_ServeHTTP PostControlMessageForDeviceOp = PostControlMessageForDevice_ServeHTTP"
| "operation_ServeHTTP PostDataMessageForDeviceOp = PostDataMessageForDevice_ServeHTTP"

section \<open>Which handler a route has\<close>

lemma strings_ToUpper_known [simp]:
  "strings_ToUpper up ''GET'' = ''GET''" "strings_ToUpper up ''POST'' = ''POST''"
  by (simp_all add: strings_ToUpper_def encode_rune_def char_of_def bit_0)

lemma gm_get_apsnd: "gm_get (map (apsnd f) m) k = map_option f (gm_get m k)"
  by (induction m) auto

definition route :: "string \<Rightarrow> string \<Rightarrow> operation option" where
  "route mth path = Option.bind (gm_get initHandlerCache mth) (\<lambda>t. gm_get t path)"

lemma route_iff:
  "route mth path = Some op \<longleftrightarrow>
     mth = (if op \<in> {GetControlMessageForDeviceOp, GetDataMessageForDeviceOp} then ''GET'' else ''POST'') \<and>
     path = ''/'' @ fst (operation_names op) @ ''/{device_id}/'' @ snd (operation_names op)"
  by (cases op) (auto simp: route_def initHandlerCache_def)

lemma HandlerFor_Init:
  assumes "fa_handlers api = []"
  shows "HandlerFor up (Init api) mth path =
    map_option (\<lambda>op. (op, handler_field api op)) (route (strings_ToUpper up mth) path)"
proof -
  let ?p = "if path = ''/'' then [] else path"
  have "HandlerFor up (Init api) mth path =
      map_option (\<lambda>op. (op, handler_field api op)) (route (strings_ToUpper up mth) ?p)"
    using assms by (auto simp: HandlerFor_def Init_def gm_get_apsnd route_def split: option.splits)
  moreover have "route m ''/'' = None" "route m [] = None" for m by (auto simp: route_def initHandlerCache_def)
  ultimately show ?thesis by (cases "path = ''/''") simp_all
qed

lemma HandlerAPI_Inr:
  "HandlerAPI None c p ni ygg = Inr (served, api) \<Longrightarrow>
     served = APIHandler \<and> api_Validate api = None \<and>
     HandlerFor up api mth path = map_option (\<lambda>op. (op, Some (ygg op))) (route (strings_ToUpper up mth) path)"
proof -
  assume *: "HandlerAPI None c p ni ygg = Inr (served, api)"
  let ?api1 = "(NewFlottaManagementAPI c p ni)\<lparr>
             fa_JSONConsumer := Some c, fa_JSONProducer := Some p,
             fa_GetControlMessageForDeviceHandler := Some (ygg GetControlMessageForDeviceOp),
             fa_GetDataMessageForDeviceHandler := Some (ygg GetDataMessageForDeviceOp),
             fa_PostControlMessageForDeviceHandler := Some (ygg PostControlMessageForDeviceOp),
             fa_PostDataMessageForDeviceHandler := Some (ygg PostDataMessageForDeviceOp)\<rparr>"
  have api: "api = Init ?api1" and s: "served = APIHandler"
    using * by (auto simp: HandlerAPI_def Serve_def Let_def NewFlottaManagementAPI_def Init_def)
  have "api_Validate api = None"
    by (simp add: api api_Validate_def Init_def unregistered_def NewFlottaManagementAPI_def)
  moreover have field: "handler_field ?api1 op = Some (ygg op)" for op by (cases op) simp_all
  have "fa_handlers ?api1 = []" by (simp add: NewFlottaManagementAPI_def)
  from HandlerFor_Init [OF this, of up mth path]
  have "HandlerFor up api mth path = map_option (\<lambda>op. (op, Some (ygg op))) (route (strings_ToUpper up mth) path)"
    unfolding api field .
  ultimately show ?thesis using s by blast
qed

lemma HandlerAPI_handlers:
  "HandlerAPI None c p ni ygg = Inr (served, api) \<Longrightarrow>
     fa_handlers api = map (apsnd (map (apsnd (\<lambda>op. (op, Some (ygg op)))))) initHandlerCache"
  by (auto simp: HandlerAPI_def Serve_def Let_def NewFlottaManagementAPI_def Init_def initHandlerCache_def)

lemma route_method: "route m path = Some op \<Longrightarrow> m = ''GET'' \<or> m = ''POST''"
  by (auto simp: route_def initHandlerCache_def split: if_splits)

lemma route_root: "route m path = Some op \<Longrightarrow> path \<noteq> ''/'' \<and> path \<noteq> []"
  by (auto simp: route_def initHandlerCache_def split: if_splits)

section \<open>Refused requests\<close>

text \<open>The status of an error answer.\<close>

fun error_status :: "validation_error \<Rightarrow> int" where
  "error_status (CompositeValidationError errs) =
     (case flattenComposite errs of [] \<Rightarrow> 500 | e # _ \<Rightarrow> asHTTPCode (error_Code e))"
| "error_status err = asHTTPCode (error_Code err)"

lemma asHTTPCode_Code: "asHTTPCode (error_Code e) \<in> {400, 406, 415, 422, 500}"
  by (cases e) (simp_all add: asHTTPCode_def)

lemma error_status_in: "error_status err \<in> {400, 406, 415, 422, 500}"
proof (cases err)
  case (CompositeValidationError errs)
  then show ?thesis using asHTTPCode_Code by (cases "flattenComposite errs") simp_all
qed (simp_all add: asHTTPCode_def)

text \<open>An answer that refuses the request: the status and nothing else of it is fixed.\<close>

definition refusal :: "validation_error \<Rightarrow> ResponseWriter outcome \<Rightarrow> bool" where
  "refusal err out \<longleftrightarrow> (\<exists>rw. out = Done rw \<and> rw_ContentType rw = Some ''application/json'' \<and> rw_Code rw = Some (error_status err))"

lemma ServeError_refusal:
  assumes "rw_Code rw = None"
  shows "refusal err (Respond rt r rw (ServeError rt r err))"
proof -
  have one: "\<exists>rw'. serve_one_error rt r e rw = Done rw' \<and> rw_ContentType rw' = rw_ContentType rw \<and>
      rw_Code rw' = Some (case e of None \<Rightarrow> 500 | Some e \<Rightarrow> asHTTPCode (error_Code e))" if "rw_Code rw = None" for e rw
    using that by (auto simp: serve_one_error_def WriteHeader_def Let_def split: option.splits)
  let ?rw = "rw\<lparr>rw_ContentType := Some ''application/json''\<rparr>"
  have "\<exists>e. Respond rt r rw (ServeError rt r err) = serve_one_error rt r e ?rw \<and>
      error_status err = (case e of None \<Rightarrow> 500 | Some e \<Rightarrow> asHTTPCode (error_Code e))"
  proof (cases err)
    case (CompositeValidationError errs)
    then show ?thesis
      by (cases "flattenComposite errs") (auto simp: Respond_def ServeError_def Let_def intro: exI [of _ None] exI [of _ "Some _"])
  qed (auto simp: Respond_def ServeError_def Let_def intro!: exI [of _ "Some err"])
  then show ?thesis using one [of ?rw] assms by (fastforce simp: refusal_def)
qed

text \<open>Why a POST request is refused: content negotiation, else a missing body, else a body that cannot
  be decoded, else a message that is not well formed.\<close>

definition post_refused :: "runtime \<Rightarrow> Request \<Rightarrow> int \<Rightarrow> bool" where
  "post_refused rt r code \<longleftrightarrow>
     (if rt_negotiate rt r \<noteq> [] then code = error_status (CompositeValidationError (rt_negotiate rt r))
      else case rq_Body r of
        None \<Rightarrow> code = 422
      | Some text \<Rightarrow> (case rt_consume rt text of
          ConsumedEOF \<Rightarrow> code = 422
        | ConsumeError err \<Rightarrow> code = 400
        | Consumed m \<Rightarrow> \<not> well_formed_message (rt_date_time rt) m \<and> code = 422))"

definition post_accepted :: "runtime \<Rightarrow> Request \<Rightarrow> Message \<Rightarrow> bool" where
  "post_accepted rt r m \<longleftrightarrow> rt_negotiate rt r = [] \<and>
     (\<exists>text. rq_Body r = Some text \<and> rt_consume rt text = Consumed m \<and> well_formed_message (rt_date_time rt) m)"

definition post_bound :: "runtime \<Rightarrow> Request \<Rightarrow> string list \<Rightarrow> validation_error + PostParams" where
  "post_bound rt r ids =
     BindValidRequest rt r (Post_BindRequest (rt_consume rt) (rt_date_time rt) ids (rq_Body r))"

lemma post_bound_Inr:
  "post_bound rt r ids = Inr p \<longleftrightarrow>
     (\<exists>m. post_accepted rt r m \<and> p = \<lparr>pp_DeviceID = bindDeviceID ids, pp_Message = Some m\<rparr>)"
  by (auto simp: post_bound_def BindValidRequest_def post_accepted_def Post_BindRequest_iff bindDeviceID_last)

lemma Message_Validate_status:
  "Message_Validate is_date_time m = Some err \<Longrightarrow> error_status (CompositeValidationError [err]) = 422"
  by (auto simp: Message_Validate_def composite_def Message_validateSent_def Message_validateType_def
      List.map_filter_simps asHTTPCode_def split: if_splits)

lemma post_bound_Inl:
  assumes "post_bound rt r ids = Inl err"
  shows "post_refused rt r (error_status err)"
proof (cases "rt_negotiate rt r = []")
  case True
  have invalid: "\<not> well_formed_message (rt_date_time rt) m \<longleftrightarrow> (\<exists>e. Message_Validate (rt_date_time rt) m = Some e)" for m
    by (simp flip: Message_Validate_iff)
  from True assms show ?thesis
    by (auto simp: post_bound_def BindValidRequest_def post_refused_def Post_BindRequest_def bind_message_def asHTTPCode_def
        invalid Message_Validate_status simp del: error_status.simps split: option.splits consumed.splits)
       (simp_all add: asHTTPCode_def)
next
  case False
  with assms show ?thesis by (auto simp: post_bound_def BindValidRequest_def post_refused_def)
qed

section \<open>Properties\<close>

text \<open>C31: a POST request reaches its handler exactly when the content types of request and answer are
  accepted and the body decodes to a message whose type, if given, is one of the four message types and whose
  time, if given, is well formed; the handler then gets the device of the path and that message, never a nil
  pointer, and its answer is written. Every other request changes nothing and is refused: with the status of
  the refused content type, with 400 when the body cannot be decoded, else with 422.\<close>

theorem post_reaches_handler:
  assumes "rw_Code rw = None"
  shows "(\<forall>m. post_accepted rt r m \<longrightarrow>
      run_state (PostDataMessageForDevice_ServeHTTP rt E h ids r rw) w =
        apfst (\<lambda>res. case res of Panic p \<Rightarrow> Panic p
            | Done x \<Rightarrow> Respond rt r rw (PostDataMessageForDevice_WriteResponse (rt_produce_response rt) x))
          (run_state (PostDataMessageForDevice E h \<lparr>pp_DeviceID = bindDeviceID ids, pp_Message = Some m\<rparr>) w) \<and>
      run_state (PostControlMessageForDevice_ServeHTTP rt E h ids r rw) w =
        apfst (\<lambda>x. Respond rt r rw (PostControlMessageForDevice_WriteResponse x))
          (run_state (PostControlMessageForDevice E h \<lparr>pp_DeviceID = bindDeviceID ids, pp_Message = Some m\<rparr>) w)) \<and>
    ((\<nexists>m. post_accepted rt r m) \<longrightarrow>
      (\<exists>rw' code. post_refused rt r code \<and> code \<in> {400, 406, 415, 422, 500} \<and> rw_Code rw' = Some code \<and>
        run_state (PostDataMessageForDevice_ServeHTTP rt E h ids r rw) w = (Done rw', w) \<and>
        run_state (PostControlMessageForDevice_ServeHTTP rt E h ids r rw) w = (Done rw', w)))"
proof (cases "post_bound rt r ids")
  case (Inl err)
  obtain rw' where rw': "Respond rt r rw (ServeError rt r err) = Done rw'" "rw_Code rw' = Some (error_status err)"
    using ServeError_refusal [OF assms, of err rt r] by (auto simp: refusal_def)
  have none: "\<not> post_accepted rt r m" for m using Inl post_bound_Inr [of rt r ids] by force
  have "run_state (PostDataMessageForDevice_ServeHTTP rt E h ids r rw) w = (Done rw', w)"
    "run_state (PostControlMessageForDevice_ServeHTTP rt E h ids r rw) w = (Done rw', w)"
    using Inl rw'(1)
    by (simp_all add: post_bound_def PostDataMessageForDevice_ServeHTTP_def PostControlMessageForDevice_ServeHTTP_def)
  then show ?thesis using none rw'(2) post_bound_Inl [OF Inl] error_status_in [of err] by blast
next
  case (Inr p)
  then obtain m where m: "post_accepted rt r m" "p = \<lparr>pp_DeviceID = bindDeviceID ids, pp_Message = Some m\<rparr>"
    by (auto simp: post_bound_Inr)
  have only: "m' = m" if "post_accepted rt r m'" for m' using that m(1) by (auto simp: post_accepted_def)
  have "run_state (PostDataMessageForDevice_ServeHTTP rt E h ids r rw) w =
      apfst (\<lambda>res. case res of Panic p \<Rightarrow> Panic p
            | Done x \<Rightarrow> Respond rt r rw (PostDataMessageForDevice_WriteResponse (rt_produce_response rt) x))
          (run_state (PostDataMessageForDevice E h p) w)"
    using Inr by (simp add: post_bound_def PostDataMessageForDevice_ServeHTTP_def split: prod.splits)
  moreover have "run_state (PostControlMessageForDevice_ServeHTTP rt E h ids r rw) w =
        apfst (\<lambda>x. Respond rt r rw (PostControlMessageForDevice_WriteResponse x))
          (run_state (PostControlMessageForDevice E h p) w)"
    using Inr by (simp add: post_bound_def PostControlMessageForDevice_ServeHTTP_def split: prod.splits)
  ultimately show ?thesis using m only by blast
qed

definition sample_post_runtime :: "validation_error list \<Rightarrow> runtime" where
  "sample_post_runtime errs = \<lparr>
     rt_match = (\<lambda>_ _. None), rt_default_mux = (\<lambda>_. Done \<circ> WriteHeader 404), rt_no_route = (\<lambda>_. Done \<circ> WriteHeader 404),
     rt_negotiate = (\<lambda>_. errs), rt_format = (\<lambda>_. ''application/json''), rt_errorAsJSON = (\<lambda>_. ''{}''),
     rt_consume = (\<lambda>_. Consumed empty_message), rt_date_time = (\<lambda>_. True),
     rt_produce_message = (\<lambda>_. Inr ''{}''), rt_produce_response = (\<lambda>_. Inr ''{}''), rt_upper = id\<rparr>"

definition sample_post :: Request where
  "sample_post = \<lparr>rq_Method = ''POST'', rq_URL = \<lparr>url_Scheme = [], url_Host = [], url_Path = ''/''\<rparr>,
     rq_EscapedPath = ''/'', rq_TLS = None, rq_Body = Some ''{}''\<rparr>"

definition sample_post_handler :: "mem Handler" where
  "sample_post_handler = NewYggdrasilHandler ''default'' (NewMTLSConfig ''ns'' [] True) toy_crypto"

theorem post_reaches_handler_witness:
  "\<exists>rw rw'. run_state (PostControlMessageForDevice_ServeHTTP (sample_post_runtime []) mem_env sample_post_handler [''d1'']
      sample_post fresh_writer) empty_mem = (Done rw, empty_mem) \<and> rw_Code rw = Some 200 \<and>
    run_state (PostDataMessageForDevice_ServeHTTP (sample_post_runtime [InvalidContentType ''text/plain'']) mem_env
      sample_post_handler [''d1''] sample_post fresh_writer) empty_mem = (Done rw', empty_mem) \<and> rw_Code rw' = Some 415"
proof -
  have rw: "rw_Code fresh_writer = None" by (simp add: fresh_writer_def)
  have "post_accepted (sample_post_runtime []) sample_post empty_message"
    by (simp add: post_accepted_def sample_post_runtime_def sample_post_def well_formed_message_def empty_message_def)
  with post_reaches_handler [OF rw, of "sample_post_runtime []" sample_post mem_env sample_post_handler "[''d1'']" empty_mem]
  have control: "\<exists>rw. run_state (PostControlMessageForDevice_ServeHTTP (sample_post_runtime []) mem_env sample_post_handler [''d1'']
      sample_post fresh_writer) empty_mem = (Done rw, empty_mem) \<and> rw_Code rw = Some 200"
    by (auto simp: PostControlMessageForDevice_def Respond_def write_empty_def WriteHeader_def fresh_writer_def)
  let ?rt = "sample_post_runtime [InvalidContentType ''text/plain'']"
  have "\<nexists>m. post_accepted ?rt sample_post m"
    by (simp add: post_accepted_def sample_post_runtime_def)
  with post_reaches_handler [OF rw, of ?rt sample_post mem_env sample_post_handler "[''d1'']" empty_mem]
  have "\<exists>rw. run_state (PostDataMessageForDevice_ServeHTTP ?rt mem_env
      sample_post_handler [''d1''] sample_post fresh_writer) empty_mem = (Done rw, empty_mem) \<and> rw_Code rw = Some 415"
    by (auto simp: post_refused_def sample_post_runtime_def asHTTPCode_def)
  with control show ?thesis by blast
qed

text \<open>The object built for the server is complete: every route of the API has the operator's
  handler, for any spelling of the method. A middleware added to a route wraps the handler of that
  route and of no other, when the method is written in upper case; otherwise the call panics.\<close>

theorem middleware_added:
  assumes "HandlerAPI None c p ni ygg = Inr (served, api)"
    and "route (strings_ToUpper up mth) path = Some op"
  shows "api_Validate api = None \<and> HandlerFor up api mth path = Some (op, Some (ygg op)) \<and>
    (if mth = strings_ToUpper up mth then
       \<exists>api'. AddMiddlewareFor up mth path b api = Done api' \<and>
         (\<forall>m q. HandlerFor up api' m q =
            (if strings_ToUpper up m = mth \<and> q = path then Some (b (op, Some (ygg op))) else HandlerFor up api m q))
     else \<exists>msg. AddMiddlewareFor up mth path b api = Panic msg)"
proof -
  have found: "api_Validate api = None" "HandlerFor up api mth path = Some (op, Some (ygg op))"
    using HandlerAPI_Inr [OF assms(1), of up mth path] assms(2) by simp_all
  have nonempty: "fa_handlers api \<noteq> []" using HandlerAPI_handlers [OF assms(1)] by (simp add: initHandlerCache_def)
  then have init: "Init api = api" by (simp add: Init_def)
  have path: "path \<noteq> ''/''" "path \<noteq> []" using route_root [OF assms(2)] by blast+
  obtain hs where hs: "gm_get (fa_handlers api) (strings_ToUpper up mth) = Some hs"
    "gm_get hs path = Some (op, Some (ygg op))"
    using found(2) path by (auto simp: HandlerFor_def split: option.splits)
  show ?thesis
  proof (cases "mth = strings_ToUpper up mth")
    case True
    let ?api = "api\<lparr>fa_handlers := gm_set mth (gm_set path (b (op, Some (ygg op))) hs) (fa_handlers api)\<rparr>"
    have "AddMiddlewareFor up mth path b api = Done ?api"
      using hs True path by (simp add: AddMiddlewareFor_def Let_def init)
    moreover have "HandlerFor up ?api m q =
        (if strings_ToUpper up m = mth \<and> q = path then Some (b (op, Some (ygg op))) else HandlerFor up api m q)" for m q
      using hs True path by (auto simp: HandlerFor_def split: option.splits)
    ultimately show ?thesis using found True by auto
  next
    case False
    then have "mth \<noteq> ''GET''" "mth \<noteq> ''POST''" using route_method [OF assms(2)] by auto
    then have "gm_get (fa_handlers api) mth = None"
      by (simp add: HandlerAPI_handlers [OF assms(1)] initHandlerCache_def)
    then have "AddMiddlewareFor up mth path b api = Panic ''assignment to entry in nil map''"
      using hs path by (simp add: AddMiddlewareFor_def Let_def init)
    with found False show ?thesis by simp
  qed
qed

theorem middleware_added_witness:
  "\<exists>api msg. AddMiddlewareFor id ''get'' ''/data/{device_id}/in'' id api = Panic msg \<and>
     HandlerAPI None () () (\<lambda>_. False) (\<lambda>_. True) = Inr (APIHandler :: unit served, api)"
proof -
  obtain api where api: "HandlerAPI None () () (\<lambda>_. False) (\<lambda>_. True) = Inr (APIHandler :: unit served, api)"
    by (auto simp: HandlerAPI_def Serve_def Let_def NewFlottaManagementAPI_def Init_def)
  have up: "strings_ToUpper id ''get'' = ''GET''" by code_simp
  have "route (strings_ToUpper id ''get'') ''/data/{device_id}/in'' = Some GetDataMessageForDeviceOp"
    by (simp add: up route_def initHandlerCache_def)
  from middleware_added [OF api this, of id] show ?thesis using api by (auto simp: up)
qed

end
