(* ===== verification/Watchers.thy ===== *)
theory Watchers
  imports Api_Types Complex_Main
begin

text \<open>
  \<open>watchers/configmap_watcher.go\<close>: the goroutine that ends the operator when the log level of its
  config map changes, so that it is restarted with the new one; with the retry loop it calls
  (\<open>retry.OnError\<close> and \<open>wait.ExponentialBackoff\<close> of the vendored Kubernetes packages).

  The typed client is a record of operations over a world \<open>'w\<close>: opening a watch, drawing a random
  number (\<open>rand.Float64\<close>), and sleeping. An opened watch is the list of the events that its channel delivers
  before the server closes it. The variables that a Go closure captures and assigns are threaded through it as a
  state \<open>'s\<close>. A \<open>float64\<close> is a rational number and its products are exact: those with the factor 2.0 are exact in
  the program too (durations below \<open>2 ^ 53\<close> nanoseconds), those of the jitter differ by a rounding error far
  below the nanosecond to which they are cut off.
\<close>

section \<open>Exponential backoff\<close>

record Backoff =
  bo_Duration :: int
  bo_Factor :: rat
  bo_Jitter :: rat
  bo_Steps :: int
  bo_Cap :: int

text \<open>\<open>time.Duration(x)\<close> cuts off towards zero.\<close>

definition Duration :: "rat \<Rightarrow> int" where
  "Duration x = (if x < 0 then - \<lfloor>- x\<rfloor> else \<lfloor>x\<rfloor>)"

definition Jitter :: "('w, rat) io \<Rightarrow> int \<Rightarrow> rat \<Rightarrow> ('w, int) io" where
  "Jitter Float64 duration maxFactor = do {
     let maxFactor' = (if maxFactor \<le> 0 then 1 else maxFactor);
     x \<leftarrow> Float64;
     ret (duration + Duration (x * maxFactor' * of_int duration))
   }"

definition Step :: "('w, rat) io \<Rightarrow> Backoff \<Rightarrow> ('w, int \<times> Backoff) io" where
  "Step Float64 b =
     (if bo_Steps b < 1 then
        if bo_Jitter b > 0 then do {
          d \<leftarrow> Jitter Float64 (bo_Duration b) (bo_Jitter b);
          ret (d, b)
        }
        else ret (bo_Duration b, b)
      else do {
        let b1 = b\<lparr>bo_Steps := bo_Steps b - 1\<rparr>;
        let duration = bo_Duration b;
        let b2 = (if bo_Factor b \<noteq> 0 then
                    let b' = b1\<lparr>bo_Duration := Duration (of_int (bo_Duration b) * bo_Factor b)\<rparr> in
                    if bo_Cap b' > 0 \<and> bo_Duration b' > bo_Cap b'
                    then b'\<lparr>bo_Duration := bo_Cap b', bo_Steps := 0\<rparr> else b'
                  else b1);
        if bo_Jitter b > 0 then do {
          d \<leftarrow> Jitter Float64 duration (bo_Jitter b);
          ret (d, b2)
        }
        else ret (duration, b2)
      })"

lemma Step_decreases:
  "run_state (Step Float64 b) w = ((d, b'), w') \<Longrightarrow> bo_Steps b > 0 \<Longrightarrow> nat (bo_Steps b') < nat (bo_Steps b)"
  by (auto simp: Step_def Let_def split: if_splits prod.splits)

text \<open>A recursion after a call may use what the call returned.\<close>

lemma bind_returned_cong [fundef_cong]:
  "m = m' \<Longrightarrow> (\<And>w x w'. run_state m' w = (x, w') \<Longrightarrow> f x = f' x) \<Longrightarrow> State_Monad.bind m f = State_Monad.bind m' f'"
  by (rule state.expand, rule ext) (simp split: prod.split)

datatype wait_error = ErrWaitTimeout | ConditionError goerr

function ExponentialBackoff ::
  "('w, rat) io \<Rightarrow> (int \<Rightarrow> ('w, unit) io) \<Rightarrow> Backoff \<Rightarrow> ('s \<Rightarrow> ('w, bool result \<times> 's) io) \<Rightarrow> 's \<Rightarrow>
   ('w, wait_error option \<times> 's) io" where
  "ExponentialBackoff Float64 sleep backoff condition s =
     (if bo_Steps backoff > 0 then do {
        (r, s') \<leftarrow> condition s;
        case r of
          Inl err \<Rightarrow> ret (Some (ConditionError err), s')
        | Inr ok \<Rightarrow>
            if ok then ret (None, s')
            else if bo_Steps backoff = 1 then ret (Some ErrWaitTimeout, s')
            else do {
              (d, backoff') \<leftarrow> Step Float64 backoff;
              _ \<leftarrow> sleep d;
              ExponentialBackoff Float64 sleep backoff' condition s'
            }
      }
      else ret (Some ErrWaitTimeout, s))"
  by pat_completeness auto
termination
  by (relation "measure (\<lambda>(_, _, b, _, _). nat (bo_Steps b))") (auto dest: Step_decreases)

declare ExponentialBackoff.simps [simp del]

definition on_error_condition ::
  "(goerr \<Rightarrow> bool) \<Rightarrow> ('s \<Rightarrow> ('w, goerr option \<times> 's) io) \<Rightarrow> 's \<times> goerr option \<Rightarrow>
   ('w, bool result \<times> 's \<times> goerr option) io" where
  "on_error_condition retriable fn = (\<lambda>(s, lastErr). do {
     (err, s') \<leftarrow> fn s;
     case err of
       None \<Rightarrow> ret (Inr True, s', lastErr)
     | Some e \<Rightarrow>
         if retriable e then ret (Inr False, s', Some e) else ret (Inl e, s', lastErr)
   })"

definition OnError ::
  "('w, rat) io \<Rightarrow> (int \<Rightarrow> ('w, unit) io) \<Rightarrow> Backoff \<Rightarrow> (goerr \<Rightarrow> bool) \<Rightarrow> ('s \<Rightarrow> ('w, goerr option \<times> 's) io) \<Rightarrow> 's \<Rightarrow>
   ('w, goerr option \<times> 's) io" where
  "OnError Float64 sleep backoff retriable fn s = do {
     (err, s', lastErr) \<leftarrow> ExponentialBackoff Float64 sleep backoff (on_error_condition retriable fn) (s, None);
     ret (case err of None \<Rightarrow> None | Some ErrWaitTimeout \<Rightarrow> lastErr | Some (ConditionError e) \<Rightarrow> Some e, s')
   }"

section \<open>Watching the config map\<close>

datatype EventType = Added | Modified | Deleted | Bookmark | WatchError

datatype Object = ConfigMapObject ConfigMap | OtherObject

record Event =
  we_Type :: EventType
  we_Object :: Object

record 'w clientset =
  cs_watch :: "string \<Rightarrow> string \<Rightarrow> ('w, Event list result) io"
  cs_Float64 :: "('w, rat) io"
  cs_sleep :: "int \<Rightarrow> ('w, unit) io"

definition backoff :: Backoff where
  "backoff = \<lparr>bo_Duration = 10 * 10 ^ 9, bo_Factor = 2, bo_Jitter = 1 / 10, bo_Steps = 10, bo_Cap = 2 * 3600 * 10 ^ 9\<rparr>"

definition retriable :: "goerr \<Rightarrow> bool" where
  "retriable err = True"

text \<open>One attempt assigns the watch, or \<open>nil\<close> with an error, to the variable of the caller.\<close>

definition open_watch ::
  "'w clientset \<Rightarrow> string \<Rightarrow> string \<Rightarrow> Event list option \<Rightarrow> ('w, goerr option \<times> Event list option) io" where
  "open_watch cs namespace configMapName watcher = do {
     r \<leftarrow> cs_watch cs namespace configMapName;
     ret (case r of Inl innerErr \<Rightarrow> (Some innerErr, None) | Inr events \<Rightarrow> (None, Some events))
   }"

definition createWatcher ::
  "'w clientset \<Rightarrow> string \<Rightarrow> string \<Rightarrow> Event list option \<Rightarrow> ('w, goerr option \<times> Event list option) io" where
  "createWatcher cs namespace configMapName watcher =
     OnError (cs_Float64 cs) (cs_sleep cs) backoff retriable (open_watch cs namespace configMapName) watcher"

text \<open>How the loop over the events ends: \<open>os.Exit(1)\<close>, or a return because the channel was closed.\<close>

datatype ended = Exit int | Returned

fun checkConfigMapChanges :: "Event list \<Rightarrow> string \<Rightarrow> string \<Rightarrow> ended" where
  "checkConfigMapChanges [] dataField dataValue = Returned"
| "checkConfigMapChanges (event # events) dataField dataValue =
     (if we_Type event = Added \<or> we_Type event = Modified then
        (case we_Object event of
           ConfigMapObject updatedMap \<Rightarrow>
             (case gm_lookup (cm_Data updatedMap) dataField of
                Some updatedValue \<Rightarrow>
                  if updatedValue \<noteq> dataValue then Exit 1 else checkConfigMapChanges events dataField dataValue
              | None \<Rightarrow> checkConfigMapChanges events dataField dataValue)
         | OtherObject \<Rightarrow> checkConfigMapChanges events dataField dataValue)
      else checkConfigMapChanges events dataField dataValue)"

text \<open>One turn of the loop of \<open>WatchForChanges\<close>; the method call on a \<open>nil\<close> watcher is a panic.\<close>

definition watch_session ::
  "'w clientset \<Rightarrow> string \<Rightarrow> string \<Rightarrow> string \<Rightarrow> string \<Rightarrow> ('w, ended outcome) io" where
  "watch_session cs namespace configMapName dataField dataValue = do {
     (err, watcher) \<leftarrow> createWatcher cs namespace configMapName None;
     case err of
       Some _ \<Rightarrow> ret (Done (Exit 1))
     | None \<Rightarrow>
         (case watcher of
            None \<Rightarrow> ret nil_dereference
          | Some events \<Rightarrow> ret (Done (checkConfigMapChanges events dataField dataValue)))
   }"

text \<open>The loop itself, which returns only by ending the program: \<open>None\<close> when it runs for ever.\<close>

partial_function (option) WatchForChanges ::
  "'w clientset \<Rightarrow> string \<Rightarrow> string \<Rightarrow> string \<Rightarrow> string \<Rightarrow> 'w \<Rightarrow> (ended outcome \<times> 'w) option" where
  "WatchForChanges cs namespace configMapName dataField dataValue w =
     (let r = run_state (watch_session cs namespace configMapName dataField dataValue) w in
      if fst r = Done Returned then WatchForChanges cs namespace configMapName dataField dataValue (snd r)
      else Some r)"

section \<open>The schedule of the attempts\<close>

text \<open>The reference: attempts separated by given pauses, each lengthened at random by the jitter, until one
  succeeds or none is left.\<close>

fun attempts :: "'w clientset \<Rightarrow> string \<Rightarrow> string \<Rightarrow> int list \<Rightarrow> ('w, Event list result) io" where
  "attempts cs ns name [] = cs_watch cs ns name"
| "attempts cs ns name (pause # later) = do {
     r \<leftarrow> cs_watch cs ns name;
     case r of
       Inr events \<Rightarrow> ret (Inr events)
     | Inl _ \<Rightarrow> do { d \<leftarrow> Jitter (cs_Float64 cs) pause (1 / 10); _ \<leftarrow> cs_sleep cs d; attempts cs ns name later }
   }"

text \<open>The pauses of a backoff that doubles and never reaches its cap.\<close>

fun doubling :: "nat \<Rightarrow> int \<Rightarrow> int list" where
  "doubling 0 d = []"
| "doubling (Suc n) d = d # doubling n (d * 2)"

definition pauses :: "int list" where
  "pauses = doubling 9 (10 * 10 ^ 9)"

definition answer :: "Event list result \<Rightarrow> goerr option \<times> Event list option" where
  "answer r = (case r of Inl e \<Rightarrow> (Some e, None) | Inr events \<Rightarrow> (None, Some events))"

lemma Duration_double: "Duration (of_int d * 2) = d * 2"
proof -
  have "of_int d * 2 = (of_int (d * 2) :: rat)" by simp
  then show ?thesis unfolding Duration_def by (simp only: floor_of_int of_int_minus [symmetric]) simp
qed

lemma Step_doubles:
  "bo_Steps b \<ge> 1 \<Longrightarrow> bo_Factor b = 2 \<Longrightarrow> bo_Jitter b > 0 \<Longrightarrow> bo_Duration b * 2 \<le> bo_Cap b \<Longrightarrow>
   Step Float64 b = do {
     d \<leftarrow> Jitter Float64 (bo_Duration b) (bo_Jitter b);
     ret (d, b\<lparr>bo_Steps := bo_Steps b - 1, bo_Duration := bo_Duration b * 2\<rparr>)
   }"
  by (simp add: Step_def Let_def Duration_double)

lemma ExponentialBackoff_attempts:
  assumes "bo_Steps b = int (Suc n)" and "bo_Factor b = 2" and "bo_Jitter b = 1 / 10" and "0 < bo_Duration b"
    and "bo_Duration b * 2 ^ n \<le> bo_Cap b"
  shows "\<exists>l'. run_state (ExponentialBackoff (cs_Float64 cs) (cs_sleep cs) b
             (on_error_condition retriable (open_watch cs ns name)) (s, l)) w =
           (case run_state (attempts cs ns name (doubling n (bo_Duration b))) w of
              (Inl e, w') \<Rightarrow> ((Some ErrWaitTimeout, None, Some e), w')
            | (Inr events, w') \<Rightarrow> ((None, Some events, l'), w'))"
  using assms
proof (induction n arbitrary: b s l w)
  case 0
  then show ?case
    by (subst ExponentialBackoff.simps)
       (auto simp: on_error_condition_def open_watch_def retriable_def split: prod.split sum.split)
next
  case (Suc n)
  let ?b = "b\<lparr>bo_Steps := bo_Steps b - 1, bo_Duration := bo_Duration b * 2\<rparr>"
  have "bo_Duration b * 2 \<le> bo_Duration b * 2 ^ Suc n" using Suc.prems(4) by simp
  then have "bo_Duration b * 2 \<le> bo_Cap b" using Suc.prems(5) by linarith
  then have step: "Step (cs_Float64 cs) b = do { d \<leftarrow> Jitter (cs_Float64 cs) (bo_Duration b) (1 / 10); ret (d, ?b) }"
    using Step_doubles [of b "cs_Float64 cs"] Suc.prems(1-3) unfolding Suc.prems(3) by simp
  obtain r w1 where watch: "run_state (cs_watch cs ns name) w = (r, w1)" by (metis surj_pair)
  show ?case
  proof (cases r)
    case (Inl e)
    obtain d w2 where d: "run_state (Jitter (cs_Float64 cs) (bo_Duration b) (1 / 10)) w1 = (d, w2)" by (metis surj_pair)
    obtain u w3 where u: "run_state (cs_sleep cs d) w2 = (u, w3)" by (metis surj_pair)
    have "\<exists>l'. run_state (ExponentialBackoff (cs_Float64 cs) (cs_sleep cs) ?b
             (on_error_condition retriable (open_watch cs ns name)) (None, Some e)) w3 =
           (case run_state (attempts cs ns name (doubling n (bo_Duration b * 2))) w3 of
              (Inl e, w') \<Rightarrow> ((Some ErrWaitTimeout, None, Some e), w')
            | (Inr events, w') \<Rightarrow> ((None, Some events, l'), w'))"
      using Suc.IH [of ?b] Suc.prems by simp
    then show ?thesis
      using watch d u Inl Suc.prems(1) step
      by (subst ExponentialBackoff.simps) (simp add: on_error_condition_def open_watch_def retriable_def)
  next
    case (Inr events)
    then show ?thesis
      using watch Suc.prems(1)
      by (subst ExponentialBackoff.simps) (simp add: on_error_condition_def open_watch_def retriable_def)
  qed
qed

lemma createWatcher_attempts:
  "run_state (createWatcher cs ns name watcher) w =
     apfst answer (run_state (attempts cs ns name (pauses)) w)"
proof -
  obtain l' where "run_state (ExponentialBackoff (cs_Float64 cs) (cs_sleep cs) backoff
             (on_error_condition retriable (open_watch cs ns name)) (watcher, None)) w =
           (case run_state (attempts cs ns name (doubling 9 (bo_Duration backoff))) w of
              (Inl e, w') \<Rightarrow> ((Some ErrWaitTimeout, None, Some e), w')
            | (Inr events, w') \<Rightarrow> ((None, Some events, l'), w'))"
    using ExponentialBackoff_attempts [of backoff 9 cs ns name watcher None w]
    by (auto simp: backoff_def)
  then show ?thesis
    by (auto simp: createWatcher_def OnError_def answer_def backoff_def pauses_def split: prod.split sum.split)
qed

text \<open>What a number drawn by \<open>rand.Float64\<close> is, and how long a pause becomes with it.\<close>

definition unit_interval :: "('w, rat) io \<Rightarrow> bool" where
  "unit_interval Float64 \<longleftrightarrow> (\<forall>w. wp Float64 (\<lambda>x _. 0 \<le> x \<and> x < 1) w)"

lemma Jitter_tenth:
  assumes "unit_interval Float64" and "0 \<le> d"
  shows "wp (Jitter Float64 d (1 / 10)) (\<lambda>p _. d \<le> p \<and> p \<le> d + d div 10) w"
proof -
  have tenth: "0 \<le> Duration (x * (1 / 10) * of_int d) \<and> Duration (x * (1 / 10) * of_int d) \<le> d div 10"
    if "0 \<le> x" "x < 1" for x :: rat
  proof -
    have nonneg: "0 \<le> x * (1 / 10) * of_int d" using that assms(2) by simp
    have "x * (1 / 10) * of_int d \<le> 1 * (1 / 10) * of_int d" using that assms(2) by (intro mult_right_mono) auto
    then have "\<lfloor>x * (1 / 10) * of_int d\<rfloor> \<le> \<lfloor>(of_int d :: rat) / of_int 10\<rfloor>" by (intro floor_mono) simp
    then show ?thesis using nonneg by (simp add: Duration_def floor_divide_of_int_eq del: of_int_numeral)
  qed
  show ?thesis
    unfolding Jitter_def Let_def wp_bind
    by (rule wp_conseq [of _ "\<lambda>x _. 0 \<le> x \<and> x < 1"])
       (use assms(1) tenth in \<open>auto simp: unit_interval_def\<close>)
qed

section \<open>When the program is ended\<close>

definition changed_level :: "string \<Rightarrow> string \<Rightarrow> Event \<Rightarrow> bool" where
  "changed_level field value e \<longleftrightarrow> we_Type e \<in> {Added, Modified} \<and>
     (case we_Object e of
        ConfigMapObject m \<Rightarrow> (case gm_lookup (cm_Data m) field of Some v \<Rightarrow> v \<noteq> value | None \<Rightarrow> False)
      | OtherObject \<Rightarrow> False)"

lemma checkConfigMapChanges_iff:
  "checkConfigMapChanges events field value =
     (if \<exists>e\<in>set events. changed_level field value e then Exit 1 else Returned)"
proof (induction events)
  case (Cons e events)
  have "checkConfigMapChanges (e # events) field value =
      (if changed_level field value e then Exit 1 else checkConfigMapChanges events field value)"
    by (simp add: changed_level_def split: Object.split option.split)
  with Cons show ?case by simp
qed simp

text \<open>The state after a number of connections that the server closed without a changed level.\<close>

fun quiet_sessions ::
  "'w clientset \<Rightarrow> string \<Rightarrow> string \<Rightarrow> string \<Rightarrow> string \<Rightarrow> nat \<Rightarrow> 'w \<Rightarrow> 'w option" where
  "quiet_sessions cs ns name field value 0 w = Some w"
| "quiet_sessions cs ns name field value (Suc n) w =
     (case run_state (attempts cs ns name (pauses)) w of
        (Inl _, _) \<Rightarrow> None
      | (Inr events, w') \<Rightarrow>
          if list_ex (changed_level field value) events then None
          else quiet_sessions cs ns name field value n w')"

definition ending_session ::
  "'w clientset \<Rightarrow> string \<Rightarrow> string \<Rightarrow> string \<Rightarrow> string \<Rightarrow> 'w \<Rightarrow> 'w option" where
  "ending_session cs ns name field value w =
     (case run_state (attempts cs ns name (pauses)) w of
        (Inl _, w') \<Rightarrow> Some w'
      | (Inr events, w') \<Rightarrow> if list_ex (changed_level field value) events then Some w' else None)"

lemma watch_session_run:
  "run_state (watch_session cs ns name field value) w =
     (case run_state (attempts cs ns name (pauses)) w of
        (Inl _, w') \<Rightarrow> (Done (Exit 1), w')
      | (Inr events, w') \<Rightarrow>
          (Done (if list_ex (changed_level field value) events then Exit 1 else Returned), w'))"
  by (auto simp: watch_session_def createWatcher_attempts answer_def checkConfigMapChanges_iff list_ex_iff
      split: prod.split sum.split)

lemma quiet_then_ends:
  "quiet_sessions cs ns name field value n w = Some w1 \<Longrightarrow> ending_session cs ns name field value w1 = Some w' \<Longrightarrow>
   WatchForChanges cs ns name field value w = Some (Done (Exit 1), w')"
proof (induction n arbitrary: w)
  case 0
  then show ?case
    by (subst WatchForChanges.simps)
       (auto simp: watch_session_run ending_session_def split: prod.splits sum.splits if_splits)
next
  case (Suc n)
  then show ?case
    by (subst WatchForChanges.simps)
       (auto simp: watch_session_run split: prod.splits sum.splits if_splits)
qed

lemma ends_after_quiet:
  fixes cs :: "'a clientset"
  assumes "WatchForChanges cs ns name field value w = Some r"
  shows "\<exists>n w1 w'. quiet_sessions cs ns name field value n w = Some w1 \<and>
           ending_session cs ns name field value w1 = Some w' \<and> r = (Done (Exit 1), w')"
proof (rule WatchForChanges.raw_induct [where P = "\<lambda>cs ns name field value w r.
      \<exists>n w1 w'. quiet_sessions cs ns name field value n w = Some w1 \<and>
           ending_session cs ns name field value w1 = Some w' \<and> r = (Done (Exit 1), w')", OF _ assms])
  fix f :: "'a clientset \<Rightarrow> string \<Rightarrow> string \<Rightarrow> string \<Rightarrow> string \<Rightarrow> 'a \<Rightarrow> (ended outcome \<times> 'a) option"
    and cs :: "'a clientset" and ns name field "value" w r
  let ?Q = "\<lambda>w r. \<exists>n w1 w'. quiet_sessions cs ns name field value n w = Some w1 \<and>
       ending_session cs ns name field value w1 = Some w' \<and> r = (Done (Exit 1), w')"
  assume IH: "\<And>(cs :: 'a clientset) ns name field value w r. f cs ns name field value w = Some r \<Longrightarrow>
      \<exists>n w1 w'. quiet_sessions cs ns name field value n w = Some w1 \<and>
       ending_session cs ns name field value w1 = Some w' \<and> r = (Done (Exit 1), w')"
    and eq: "(let r = run_state (watch_session cs ns name field value) w in
      if fst r = Done Returned then f cs ns name field value (snd r) else Some r) = Some r"
  obtain a w1 where at: "run_state (attempts cs ns name (pauses)) w = (a, w1)"
    by (cases "run_state (attempts cs ns name (pauses)) w")
  show "?Q w r"
  proof (cases "\<exists>events. a = Inr events \<and> \<not> list_ex (changed_level field value) events")
    case True
    then obtain events where ev: "a = Inr events" "\<not> list_ex (changed_level field value) events" by blast
    then have "f cs ns name field value w1 = Some r"
      using eq by (simp add: watch_session_run at Let_def)
    from IH [OF this] obtain n w2 w' where
      q: "quiet_sessions cs ns name field value n w1 = Some w2" "ending_session cs ns name field value w2 = Some w'"
        "r = (Done (Exit 1), w')" by blast
    then have "quiet_sessions cs ns name field value (Suc n) w = Some w2" using at ev by simp
    with q show ?thesis by blast
  next
    case False
    then have "ending_session cs ns name field value w = Some w1 \<and> r = (Done (Exit 1), w1)"
      using eq by (cases a) (auto simp: ending_session_def watch_session_run at Let_def)
    then have "quiet_sessions cs ns name field value 0 w = Some w \<and>
        ending_session cs ns name field value w = Some w1 \<and> r = (Done (Exit 1), w1)" by simp
    then show ?thesis by blast
  qed
qed

section \<open>Properties\<close>

text \<open>C33: the goroutine that watches the log level ends the program, always with status 1 and never by a
  panic, exactly when after some connections that brought no other level one brings it or cannot be
  opened in ten attempts; otherwise it runs for ever. Between the attempts it pauses for 10, 20, ..., 2560 seconds,
  each pause lengthened by a random part of at most a tenth.\<close>

theorem WatchForChanges_iff:
  assumes "unit_interval (cs_Float64 cs)"
  shows "(WatchForChanges cs ns name field value w = Some r \<longleftrightarrow>
     (\<exists>n w1 w'. quiet_sessions cs ns name field value n w = Some w1 \<and>
        ending_session cs ns name field value w1 = Some w' \<and> r = (Done (Exit 1), w'))) \<and>
   pauses = map (\<lambda>s. s * 10 ^ 9) [10, 20, 40, 80, 160, 320, 640, 1280, 2560] \<and>
   (\<forall>d\<in>set pauses. \<forall>w. wp (Jitter (cs_Float64 cs) d (1 / 10)) (\<lambda>p _. d \<le> p \<and> p \<le> d + d div 10) w)"
proof (intro conjI)
  show "WatchForChanges cs ns name field value w = Some r \<longleftrightarrow>
     (\<exists>n w1 w'. quiet_sessions cs ns name field value n w = Some w1 \<and>
        ending_session cs ns name field value w1 = Some w' \<and> r = (Done (Exit 1), w'))"
    using quiet_then_ends [of cs ns name field "value"] ends_after_quiet [of cs ns name field "value" w r] by blast
  show pauses: "pauses = map (\<lambda>s. s * 10 ^ 9) [10, 20, 40, 80, 160, 320, 640, 1280, 2560]"
    by (simp add: pauses_def numeral_eq_Suc)
  show "\<forall>d\<in>set pauses. \<forall>w. wp (Jitter (cs_Float64 cs) d (1 / 10)) (\<lambda>p _. d \<le> p \<and> p \<le> d + d div 10) w"
    unfolding pauses by (intro ballI allI Jitter_tenth [OF assms]) auto
qed

text \<open>A server that refuses every watch, over a world that adds up the pauses: the random numbers are all one half.\<close>

definition refusing_clientset :: "int clientset" where
  "refusing_clientset = \<lparr>cs_watch = (\<lambda>_ _. ret (Inl (Errorf ''connection refused''))), cs_Float64 = ret (1 / 2),
     cs_sleep = (\<lambda>d. State (\<lambda>t. ((), t + d)))\<rparr>"

theorem WatchForChanges_iff_witness:
  "WatchForChanges refusing_clientset ''ns'' ''cm'' ''LOG_LEVEL'' ''info'' 0 = Some (Done (Exit 1), 5365500000000)"
proof -
  have law: "unit_interval (cs_Float64 refusing_clientset)" by (simp add: unit_interval_def refusing_clientset_def)
  have "ending_session refusing_clientset ''ns'' ''cm'' ''LOG_LEVEL'' ''info'' 0 = Some 5365500000000"
    by code_simp
  moreover have "quiet_sessions refusing_clientset ''ns'' ''cm'' ''LOG_LEVEL'' ''info'' 0 0 = Some 0" by simp
  ultimately show ?thesis using WatchForChanges_iff [OF law, of "''ns''" "''cm''" "''LOG_LEVEL''" "''info''" 0] by blast
qed

end
