(* ===== verification/Server.thy ===== *)
theory Server
  imports Management_Api Watchers "HOL-Library.Word"
begin

text \<open>
  \<open>main.go\<close>: reading the configuration, setting up the manager with its three controllers and the
  webhook, the goroutine that prepares the certificates and serves the device API, and the watch of
  the operator's config map. \<open>os.Exit\<close> is the result \<open>Exited\<close>. What the program calls of
  other packages while it starts (the environment variables, the parser of log levels, the manager)
  is the record \<open>boot\<close> of their answers.

  The reconcilers are the structs with the values that \<open>main\<close> gives them; the clients and repositories
  in them are the environment of the controllers' definitions.
\<close>

section \<open>Configuration\<close>

record Config =
  cf_HttpPort :: "16 word"
  cf_HttpsPort :: "16 word"
  cf_Domain :: string
  cf_TLSLocalhostEnabled :: bool
  cf_MetricsAddr :: string
  cf_ProbeAddr :: string
  cf_EnableLeaderElection :: bool
  cf_WebhookPort :: "64 word"
  cf_EnableObcAutoCreation :: bool
  cf_LogLevel :: string
  cf_EdgeDeploymentConcurrency :: "64 word"
  cf_ClientCertExpirationTime :: "64 word"
  cf_MaxConcurrentReconciles :: "64 word"

definition initialDeviceNamespace :: string where "initialDeviceNamespace = ''default''"
definition defaultOperatorNamespace :: string where "defaultOperatorNamespace = ''flotta''"
definition defaultConfigMapName :: string where "defaultConfigMapName = ''flotta-operator-manager-config''"
definition logLevelLabel :: string where "logLevelLabel = ''LOG_LEVEL''"

section \<open>The namespace of the operator\<close>

datatype stat = StatOK | StatNotExist | StatError

definition isInCluster :: "stat \<Rightarrow> bool" where
  "isInCluster st = (case st of StatOK \<Rightarrow> True | StatNotExist \<Rightarrow> False | StatError \<Rightarrow> True)"

text \<open>\<open>unicode.IsSpace\<close> and \<open>strings.TrimSpace\<close>, which cuts the text at the offsets of the first and
  behind the last rune that is not a space.\<close>

definition unicode_IsSpace :: "rune \<Rightarrow> bool" where
  "unicode_IsSpace r \<longleftrightarrow> r \<in> {9, 10, 11, 12, 13, 32, 0x85, 0xA0, 0x1680, 0x2028, 0x2029, 0x202F, 0x205F, 0x3000} \<or>
     0x2000 \<le> r \<and> r \<le> 0x200A"

definition strings_TrimSpace :: "string \<Rightarrow> string" where
  "strings_TrimSpace s =
     (case dropWhile (\<lambda>(i, r). unicode_IsSpace r) (runes s) of
        [] \<Rightarrow> []
      | (start, _) # _ \<Rightarrow>
          let trailing = takeWhile (\<lambda>(i, r). unicode_IsSpace r) (rev (runes s));
              stop = (if trailing = [] then length s else fst (last trailing))
          in drop start (take stop s))"

definition getOperatorNamespace :: "stat \<Rightarrow> string result \<Rightarrow> string result" where
  "getOperatorNamespace st nsBytes =
     (if \<not> isInCluster st then Inr defaultOperatorNamespace
      else (case nsBytes of Inl err \<Rightarrow> Inl err | Inr bytes \<Rightarrow> Inr (strings_TrimSpace bytes)))"

section \<open>Setting up the manager\<close>

record boot =
  bo_config :: "Config result"
  bo_parse_level :: "string \<Rightarrow> goerr option"
  bo_kube_config :: "goerr option"
  bo_manager :: "goerr option"
  bo_setup :: "string \<Rightarrow> goerr option"
  bo_ENABLE_WEBHOOKS :: string
  bo_webhook :: "goerr option"
  bo_healthz :: "goerr option"
  bo_readyz :: "goerr option"

record EdgeDeviceReconciler =
  er_ObcAutoCreate :: bool
  er_MaxConcurrentReconciles :: int

record EdgeDeviceLabelsReconciler =
  lr_MaxConcurrentReconciles :: int

record EdgeDeploymentReconciler =
  dr_Concurrency :: "64 word"
  dr_MaxConcurrentReconciles :: int

record Manager =
  mg_EdgeDevice :: EdgeDeviceReconciler
  mg_EdgeDeviceLabels :: EdgeDeviceLabelsReconciler
  mg_EdgeDeployment :: EdgeDeploymentReconciler
  mg_webhook :: bool

datatype 'a started = Exited int | Running 'a

definition or_exit :: "goerr option \<Rightarrow> 'a started \<Rightarrow> 'a started" where
  "or_exit err cont = (case err of Some _ \<Rightarrow> Exited 1 | None \<Rightarrow> cont)"

definition setup_manager :: "boot \<Rightarrow> (Config \<times> Manager) started" where
  "setup_manager b = (case bo_config b of
     Inl _ \<Rightarrow> Exited 1
   | Inr cfg \<Rightarrow>
       if cf_EdgeDeploymentConcurrency cfg = 0 then Exited 1
       else or_exit (bo_parse_level b (cf_LogLevel cfg))
         (or_exit (bo_kube_config b)
         (or_exit (bo_manager b)
         (or_exit (bo_setup b ''EdgeDevice'')
         (or_exit (bo_setup b ''EdgeDeviceLabels'')
         (or_exit (bo_setup b ''EdgeDeployment'')
         (let webhooks = (bo_ENABLE_WEBHOOKS b \<noteq> ''false'') in
          or_exit (if webhooks then bo_webhook b else None)
         (or_exit (bo_healthz b)
         (or_exit (bo_readyz b)
         (Running (cfg,
            \<lparr>mg_EdgeDevice = \<lparr>er_ObcAutoCreate = cf_EnableObcAutoCreation cfg,
                              er_MaxConcurrentReconciles = sint (cf_MaxConcurrentReconciles cfg)\<rparr>,
             mg_EdgeDeviceLabels = \<lparr>lr_MaxConcurrentReconciles = sint (cf_MaxConcurrentReconciles cfg)\<rparr>,
             mg_EdgeDeployment = \<lparr>dr_Concurrency = cf_EdgeDeploymentConcurrency cfg,
                                  dr_MaxConcurrentReconciles = sint (cf_MaxConcurrentReconciles cfg)\<rparr>,
             mg_webhook = webhooks\<rparr>)))))))))))"

text \<open>The manager runs exactly when nothing failed and a positive concurrency is configured; the
  deployment reconciler gets that concurrency, which may still exceed the range of \<open>int\<close>.\<close>

lemma setup_manager_Running:
  "setup_manager b = Running (cfg, m) \<longleftrightarrow>
     bo_config b = Inr cfg \<and> 0 < unat (cf_EdgeDeploymentConcurrency cfg) \<and>
     bo_parse_level b (cf_LogLevel cfg) = None \<and> bo_kube_config b = None \<and> bo_manager b = None \<and>
     (\<forall>c\<in>{''EdgeDevice'', ''EdgeDeviceLabels'', ''EdgeDeployment''}. bo_setup b c = None) \<and>
     (bo_ENABLE_WEBHOOKS b = ''false'' \<or> bo_webhook b = None) \<and> bo_healthz b = None \<and> bo_readyz b = None \<and>
     m = \<lparr>mg_EdgeDevice = \<lparr>er_ObcAutoCreate = cf_EnableObcAutoCreation cfg,
                           er_MaxConcurrentReconciles = sint (cf_MaxConcurrentReconciles cfg)\<rparr>,
          mg_EdgeDeviceLabels = \<lparr>lr_MaxConcurrentReconciles = sint (cf_MaxConcurrentReconciles cfg)\<rparr>,
          mg_EdgeDeployment = \<lparr>dr_Concurrency = cf_EdgeDeploymentConcurrency cfg,
                               dr_MaxConcurrentReconciles = sint (cf_MaxConcurrentReconciles cfg)\<rparr>,
          mg_webhook = (bo_ENABLE_WEBHOOKS b \<noteq> ''false'')\<rparr>"
  by (auto simp: setup_manager_def or_exit_def Let_def unat_gt_0 split: sum.splits if_splits option.splits)

section \<open>The HTTP servers\<close>

type_synonym server_api = "(operation, unit, unit, unit) FlottaManagementAPI"

record 'w Server =
  sv_tlsConfig :: ServerTLS
  sv_opts :: VerifyOptions
  sv_CACertChain :: "Certificate list"
  sv_handler :: "'w Handler"
  sv_api :: "server_api option"

definition serve ::
  "'w env \<Rightarrow> 'w crypto \<Rightarrow> Config \<Rightarrow> string \<Rightarrow> bool \<Rightarrow> goerr option \<Rightarrow> ('w, 'w Server started) io" where
  "serve E C cfg operatorNamespace cacheSynced analyzed =
     (if \<not> cacheSynced then ret (Exited 1)
      else do {
        let mtlsConfig = NewMTLSConfig operatorNamespace [cf_Domain cfg] (cf_TLSLocalhostEnabled cfg);
        let (_, mtlsConfig1) = SetClientExpiration mtlsConfig (sint (cf_ClientCertExpirationTime cfg));
        (r, mtlsConfig2) \<leftarrow> InitCertificates E C mtlsConfig1;
        case r of
          Inl _ \<Rightarrow> ret (Exited 1)
        | Inr (tlsConfig, caCertChain) \<Rightarrow> do {
            (err, mtlsConfig3) \<leftarrow> CreateRegistrationClientCerts E C mtlsConfig2;
            if err \<noteq> None then ret (Exited 1)
            else ret (Running
              \<lparr>sv_tlsConfig = tlsConfig,
               sv_opts = \<lparr>vo_Roots = tls_ClientCAs tlsConfig, vo_Intermediates = [], vo_KeyUsages = []\<rparr>,
               sv_CACertChain = caCertChain,
               sv_handler = NewYggdrasilHandler initialDeviceNamespace mtlsConfig3 C,
               sv_api = (case HandlerAPI analyzed () () id id of
                           Inl _ \<Rightarrow> None | Inr (_ :: unit served, api) \<Rightarrow> Some api)\<rparr>)
          }
      })"

definition InnerMiddleware ::
  "'w crypto \<Rightarrow> 'w Server \<Rightarrow> ('w, ResponseWriter outcome) io \<Rightarrow> Request \<Rightarrow> ResponseWriter \<Rightarrow> ('w, ResponseWriter outcome) io" where
  "InnerMiddleware C sv next_handler r rw = (case rq_TLS r of
     None \<Rightarrow> next_handler
   | Some peerCertificates \<Rightarrow>
       let authType = GetAuthType (rq_URL r) in
       if \<not> VerifyRequest C peerCertificates authType (sv_opts sv) (sv_CACertChain sv)
       then ret (Done (WriteHeader 401 rw))
       else next_handler)"

text \<open>A request to one of the two servers, which share the handler: the router, around the middleware,
  around the operation.\<close>

definition serve_request ::
  "runtime \<Rightarrow> 'w env \<Rightarrow> 'w crypto \<Rightarrow> 'w Server \<Rightarrow> Request \<Rightarrow> ResponseWriter \<Rightarrow> ('w, ResponseWriter outcome) io" where
  "serve_request rt E C sv r rw = (case sv_api sv of
     None \<Rightarrow> ret (rt_default_mux rt r rw)
   | Some api \<Rightarrow> (case rt_match rt (rq_Method r) (rq_EscapedPath r) of
       None \<Rightarrow> ret (rt_no_route rt r rw)
     | Some (mth, pattern, deviceIDs) \<Rightarrow> (case HandlerFor (rt_upper rt) api mth pattern of
         None \<Rightarrow> ret (rt_no_route rt r rw)
       | Some (op, f) \<Rightarrow>
           InnerMiddleware C sv
             (case f of None \<Rightarrow> ret nil_dereference | Some _ \<Rightarrow> operation_ServeHTTP op rt E (sv_handler sv) deviceIDs r rw)
             r rw)))"

section \<open>Watching the log level\<close>

definition watch_log_level ::
  "'w clientset \<Rightarrow> goerr option \<Rightarrow> ConfigMap result \<Rightarrow> string \<Rightarrow> 'w \<Rightarrow> (ended outcome \<times> 'w) option" where
  "watch_log_level cs client currentConfigMap operatorNamespace w = (case client of
     Some _ \<Rightarrow> Some (Done (Exit 1), w)
   | None \<Rightarrow> (case currentConfigMap of
       Inl _ \<Rightarrow> Some (Done (Exit 1), w)
     | Inr cm \<Rightarrow>
         WatchForChanges cs operatorNamespace defaultConfigMapName logLevelLabel
           (gm_index (cm_Data cm) logLevelLabel) w))"

section \<open>The paths that reach a handler\<close>

text \<open>What is used of \<open>net/url\<close>: the path of a request is its escaped path with the escapes
  (a percent sign and two hexadecimal digits) replaced by the bytes they stand for.\<close>

definition hex_value :: "char \<Rightarrow> nat option" where
  "hex_value c =
     (let n = of_char c in
      if 48 \<le> n \<and> n \<le> 57 then Some (n - 48)
      else if 65 \<le> n \<and> n \<le> 70 then Some (n - 55)
      else if 97 \<le> n \<and> n \<le> 102 then Some (n - 87) else None)"

fun path_unescape :: "string \<Rightarrow> string option" where
  "path_unescape [] = Some []"
| "path_unescape (c # s) =
     (if c \<noteq> CHR ''%'' then map_option ((#) c) (path_unescape s)
      else (case s of
        a # b # s' \<Rightarrow>
          (case (hex_value a, hex_value b) of
             (Some x, Some y) \<Rightarrow> map_option ((#) (char_of (16 * x + y))) (path_unescape s')
           | _ \<Rightarrow> None)
      | _ \<Rightarrow> None))"

definition escaped_path :: "Request \<Rightarrow> bool" where
  "escaped_path r \<longleftrightarrow> path_unescape (rq_EscapedPath r) = Some (url_Path (rq_URL r))"

text \<open>What is used of the router: it matches the cleaned escaped path against the paths of the routes,
  where the parameter stands for one component.\<close>

definition router_law :: "runtime \<Rightarrow> bool" where
  "router_law rt \<longleftrightarrow> (\<forall>m e m' pattern ids op.
     rt_match rt m e = Some (m', pattern, ids) \<longrightarrow> route (strings_ToUpper (rt_upper rt) m') pattern = Some op \<longrightarrow>
     (\<exists>u url. build_operation op u = Inr url \<and> path_Clean e = url_Path url))"

lemma unescape_plain: "CHR ''%'' \<notin> set p \<Longrightarrow> path_unescape p = Some p"
  by (induction p) auto

lemma hex_slash: "hex_value (CHR ''/'') = None"
  by (simp add: hex_value_def)

lemma unescape_suffix:
  "path_unescape (xs @ CHR ''/'' # p) = Some t \<Longrightarrow> CHR ''%'' \<notin> set p \<Longrightarrow> \<exists>t1. t = t1 @ CHR ''/'' # p"
proof (induction xs arbitrary: t rule: path_unescape.induct)
  case 1
  then show ?case by (simp add: unescape_plain)
next
  case (2 c s)
  show ?case
  proof (cases "c = CHR ''%''")
    case False
    with "2.prems" obtain t' where "path_unescape (s @ CHR ''/'' # p) = Some t'" "t = c # t'" by auto
    with "2.IH"(1) [OF False, of t'] "2.prems" show ?thesis by (metis append_Cons)
  next
    case True
    show ?thesis
    proof (cases s)
      case Nil
      with True "2.prems" show ?thesis by (cases p) (simp_all add: hex_slash)
    next
      case (Cons a s1)
      show ?thesis
      proof (cases s1)
        case Nil
        with True Cons "2.prems" show ?thesis by (simp add: hex_slash split: option.splits)
      next
        case (Cons b s2)
        with True \<open>s = a # s1\<close> "2.prems" obtain x y t' where
          h: "hex_value a = Some x" "hex_value b = Some y" "path_unescape (s2 @ CHR ''/'' # p) = Some t'"
            "t = char_of (16 * x + y) # t'" by (auto split: option.splits)
        with "2.IH"(2) [of a s1 b s2 "Some x" "Some y" x y t'] True Cons \<open>s = a # s1\<close> "2.prems"
        obtain t1 where "t' = t1 @ CHR ''/'' # p" by auto
        with h show ?thesis by (metis append_Cons)
      qed
    qed
  qed
qed

lemma last_component:
  "e = last (split_on c e) \<and> c \<notin> set e \<or> (\<exists>xs. e = xs @ c # last (split_on c e)) \<and> c \<notin> set (last (split_on c e))"
proof (cases "c \<in> set e")
  case False
  then show ?thesis by (simp add: split_on_single)
next
  case True
  then obtain xs p where "e = xs @ c # p" "c \<notin> set p" by (meson split_list_last)
  then show ?thesis by (metis last_split_on)
qed

lemma path_Clean_single: "plain_component p \<Longrightarrow> path_Clean p = p"
  by (cases p) (auto simp: path_Clean_def plain_component_def split_on_single clean_step_def Let_def)

lemma cleaned_last:
  assumes "last (split_on (CHR ''/'') (path_Clean e)) \<in> {''in'', ''out''}"
  shows "last (split_on (CHR ''/'') e) \<in> {''in'', ''out'', [], ''.'', ''..''}"
proof (cases "plain_component (last (split_on (CHR ''/'') e))")
  case True
  have "last (split_on (CHR ''/'') (path_Clean e)) = last (split_on (CHR ''/'') e)"
    using last_component [of e "CHR ''/''"]
  proof
    assume "e = last (split_on (CHR ''/'') e) \<and> CHR ''/'' \<notin> set e"
    with True show ?thesis using path_Clean_single [of e] by simp
  next
    assume "(\<exists>xs. e = xs @ CHR ''/'' # last (split_on (CHR ''/'') e)) \<and> CHR ''/'' \<notin> set (last (split_on (CHR ''/'') e))"
    then obtain xs where "e = xs @ CHR ''/'' # last (split_on (CHR ''/'') e)" by blast
    then show ?thesis using path_Clean_last [OF True, of xs] by simp
  qed
  with assms show ?thesis by auto
next
  case False
  have "CHR ''/'' \<notin> set (last (split_on (CHR ''/'') e))" by (rule split_on_clean [of _ _ e]) simp
  with False show ?thesis by (auto simp: plain_component_def)
qed

lemma served_not_registration:
  assumes "router_law rt" and "escaped_path r"
    and "rt_match rt (rq_Method r) (rq_EscapedPath r) = Some (m, pattern, ids)"
    and "route (strings_ToUpper (rt_upper rt) m) pattern = Some op"
  shows "GetAuthType (rq_URL r) = YggdrasilCompleteAuth"
proof -
  let ?e = "rq_EscapedPath r" and ?path = "url_Path (rq_URL r)"
  let ?p = "last (split_on (CHR ''/'') ?e)"
  obtain u url where u: "build_operation op u = Inr url" "path_Clean ?e = url_Path url"
    using assms unfolding router_law_def by blast
  have "last (split_on (CHR ''/'') (path_Clean ?e)) \<in> {''in'', ''out''}"
    using build_operation_last [OF u(1)] u(2) by (cases op) simp_all
  then have p: "?p \<in> {''in'', ''out'', [], ''.'', ''..''}" by (rule cleaned_last)
  then have noesc: "CHR ''%'' \<notin> set ?p" by auto
  have "last (split_on (CHR ''/'') ?path) = ?p"
    using last_component [of ?e "CHR ''/''"]
  proof
    assume e: "?e = ?p \<and> CHR ''/'' \<notin> set ?e"
    then have "path_unescape ?e = Some ?e" using noesc by (metis unescape_plain)
    then show ?thesis using assms(2) by (simp add: escaped_path_def)
  next
    assume "(\<exists>xs. ?e = xs @ CHR ''/'' # ?p) \<and> CHR ''/'' \<notin> set ?p"
    then obtain xs where "?e = xs @ CHR ''/'' # ?p" and p': "CHR ''/'' \<notin> set ?p" by blast
    then have "path_unescape (xs @ CHR ''/'' # ?p) = Some ?path" using assms(2) unfolding escaped_path_def by metis
    from unescape_suffix [OF this noesc] obtain t1 where "?path = t1 @ CHR ''/'' # ?p" by blast
    then show ?thesis using last_split_on [OF p', of t1] by simp
  qed
  with p have "last (split_on (CHR ''/'') ?path) \<noteq> ''registration''" by auto
  then show ?thesis by (simp add: GetAuthType_def isRegistrationURL_def Let_def last_conv_nth)
qed

section \<open>What the server is started with\<close>

lemma InitCertificates_keeps:
  "run_state (InitCertificates E C conf) w = ((r, conf'), w') \<Longrightarrow> \<exists>ps. conf' = conf\<lparr>tc_caProvider := ps\<rparr>"
  by (auto simp: InitCertificates_def Let_def split: if_splits prod.splits list.splits sum.splits
      intro: exI [of _ "tc_caProvider conf"])

lemma CreateRegistrationClientCerts_keeps:
  "run_state (CreateRegistrationClientCerts E C conf) w = ((err, conf'), w') \<Longrightarrow> \<exists>ps. conf' = conf\<lparr>tc_caProvider := ps\<rparr>"
  by (auto simp: CreateRegistrationClientCerts_def Let_def split: prod.splits list.splits sum.splits
      intro: exI [of _ "tc_caProvider conf"])

definition certificate_days :: "64 word \<Rightarrow> int" where
  "certificate_days t = (if 0 < unat t \<and> unat t < 2 ^ 63 then int (unat t) else 7)"

lemma sint_64: "sint (t :: 64 word) = (if unat t < 2 ^ 63 then int (unat t) else int (unat t) - 2 ^ 64)"
proof -
  define n u where "n = unat t" and "u = int n"
  have ut: "uint t = u" by (simp add: u_def n_def)
  then have u: "0 \<le> u" "u < 2 ^ 64" using uint_lt2p [of t] by (simp_all add: u_def)
  have "sint t = (u + 2 ^ 63) mod 2 ^ 64 - 2 ^ 63"
    using int_word_sint [of u, where 'a = 64] word_of_int_uint [of t, unfolded ut] by simp
  moreover have "(u + 2 ^ 63) mod 2 ^ 64 = (if u < 2 ^ 63 then u + 2 ^ 63 else u - 2 ^ 63)"
  proof (cases "u < 2 ^ 63")
    case False
    have "(u + 2 ^ 63) mod 2 ^ 64 = (u - 2 ^ 63) mod 2 ^ 64"
      using minus_mod_self2 [of "u + 2 ^ 63" "2 ^ 64"] by simp
    with False u show ?thesis by simp
  qed (use u in simp)
  moreover have "u < 2 ^ 63 \<longleftrightarrow> n < 2 ^ 63" unfolding u_def by simp
  ultimately show ?thesis unfolding n_def [symmetric] u_def by auto
qed

lemma certificate_days_sint: "certificate_days t = (if sint t \<le> 0 then 7 else sint t)"
proof -
  define n where "n = unat t"
  have "int (unat t) < 2 ^ 64" using uint_lt2p [of t] by simp
  then have "int n < 2 ^ 64" by (simp only: n_def)
  then show ?thesis unfolding sint_64 certificate_days_def n_def [symmetric] by auto
qed

lemma serve_Running:
  assumes "run_state (serve E C cfg ns synced analyzed) w = (Running sv, w')"
  shows "\<exists>ps. sv_handler sv = NewYggdrasilHandler initialDeviceNamespace
      \<lparr>tc_caProvider = ps, tc_Domains = [cf_Domain cfg], tc_LocalhostEnabled = cf_TLSLocalhostEnabled cfg,
       tc_namespace = ns, tc_clientExpirationDays = certificate_days (cf_ClientCertExpirationTime cfg)\<rparr> C"
    and "sv_opts sv = \<lparr>vo_Roots = tls_ClientCAs (sv_tlsConfig sv), vo_Intermediates = [], vo_KeyUsages = []\<rparr>"
    and "sv_api sv = (case HandlerAPI analyzed () () id id of Inl _ \<Rightarrow> None | Inr (_ :: unit served, api) \<Rightarrow> Some api)"
proof -
  let ?conf = "\<lparr>tc_caProvider = [NewCASecretProvider ns], tc_Domains = [cf_Domain cfg],
     tc_LocalhostEnabled = cf_TLSLocalhostEnabled cfg, tc_namespace = ns,
     tc_clientExpirationDays = certificate_days (cf_ClientCertExpirationTime cfg)\<rparr>"
  have conf: "snd (SetClientExpiration (NewMTLSConfig ns [cf_Domain cfg] (cf_TLSLocalhostEnabled cfg))
      (sint (cf_ClientCertExpirationTime cfg))) = ?conf"
    by (simp add: SetClientExpiration_def NewMTLSConfig_def certificate_days_sint)
  obtain r conf2 w1 where init: "run_state (InitCertificates E C ?conf) w = ((r, conf2), w1)"
    by (metis surj_pair)
  obtain tls chain where r: "r = Inr (tls, chain)"
    using assms conf init by (cases r) (auto simp: serve_def Let_def split: if_splits prod.splits)
  obtain err conf3 w2 where reg: "run_state (CreateRegistrationClientCerts E C conf2) w1 = ((err, conf3), w2)"
    by (metis surj_pair)
  have sv: "sv = \<lparr>sv_tlsConfig = tls, sv_opts = \<lparr>vo_Roots = tls_ClientCAs tls, vo_Intermediates = [], vo_KeyUsages = []\<rparr>,
     sv_CACertChain = chain, sv_handler = NewYggdrasilHandler initialDeviceNamespace conf3 C,
     sv_api = (case HandlerAPI analyzed () () id id of Inl _ \<Rightarrow> None | Inr (_ :: unit served, api) \<Rightarrow> Some api)\<rparr>"
    using assms conf init r reg by (auto simp: serve_def Let_def split: if_splits prod.splits)
  show "\<exists>ps. sv_handler sv = NewYggdrasilHandler initialDeviceNamespace \<lparr>tc_caProvider = ps, tc_Domains = [cf_Domain cfg],
     tc_LocalhostEnabled = cf_TLSLocalhostEnabled cfg, tc_namespace = ns,
     tc_clientExpirationDays = certificate_days (cf_ClientCertExpirationTime cfg)\<rparr> C"
    using InitCertificates_keeps [OF init] CreateRegistrationClientCerts_keeps [OF reg] sv by auto
  show "sv_opts sv = \<lparr>vo_Roots = tls_ClientCAs (sv_tlsConfig sv), vo_Intermediates = [], vo_KeyUsages = []\<rparr>"
    "sv_api sv = (case HandlerAPI analyzed () () id id of Inl _ \<Rightarrow> None | Inr (_ :: unit served, api) \<Rightarrow> Some api)"
    using sv by simp_all
qed


lemma HandlerFor_server:
  assumes "HandlerAPI None () () id id = Inr (x :: unit served, api)" and "route (strings_ToUpper up m) pattern = Some op"
  shows "HandlerFor up api m pattern = Some (op, Some op)"
  using HandlerAPI_Inr [OF assms(1), of up m pattern] assms(2) by simp

lemma serve_api:
  assumes "run_state (serve E C cfg ns synced None) w = (Running sv, w')"
  shows "\<exists>x api. HandlerAPI None () () id id = Inr (x :: unit served, api) \<and> sv_api sv = Some api"
proof -
  obtain x api where "HandlerAPI None () () id id = Inr (x :: unit served, api)"
    by (auto simp: HandlerAPI_def Let_def) (metis surj_pair)
  with serve_Running(3) [OF assms] show ?thesis by auto
qed

text \<open>Whom the server admits over TLS.\<close>

definition admitted :: "'w crypto \<Rightarrow> 'w Server \<Rightarrow> Certificate list \<Rightarrow> bool" where
  "admitted C sv peers \<longleftrightarrow> peers \<noteq> [] \<and>
     (\<forall>c\<in>set peers. c_verify C (sv_opts sv) c \<and> sj_CommonName (ce_Subject c) \<noteq> certRegisterCN)"

lemma serve_request_routed:
  assumes "HandlerAPI None () () id id = Inr (x :: unit served, api)" and "sv_api sv = Some api"
    and "router_law rt" and "escaped_path r"
    and "rt_match rt (rq_Method r) (rq_EscapedPath r) = Some (m, pattern, ids)"
    and "route (strings_ToUpper (rt_upper rt) m) pattern = Some op"
  shows "serve_request rt E C sv r rw =
    (case rq_TLS r of
       None \<Rightarrow> operation_ServeHTTP op rt E (sv_handler sv) ids r rw
     | Some peers \<Rightarrow>
         if admitted C sv peers then operation_ServeHTTP op rt E (sv_handler sv) ids r rw
         else ret (Done (WriteHeader 401 rw)))"
  using assms(2,5) HandlerFor_server [OF assms(1,6)] served_not_registration [OF assms(3-6)]
  by (auto simp: serve_request_def InnerMiddleware_def VerifyRequest_def YggdrasilCompleteAuth_def
      YggdrasilRegisterAuth_def verify_all_iff admitted_def split: option.splits)

text \<open>What is used of \<open>crypto/x509\<close>: verification without a list of key usages asks for the usage of a
  server, which a certificate with a list of other usages does not have, and a certificate has the
  usages of the template it was made from.\<close>

definition key_usage_laws :: "'w crypto \<Rightarrow> bool" where
  "key_usage_laws C \<longleftrightarrow>
     (\<forall>t b. c_pem_decode C (c_pem_encode C t b) = Some (t, b)) \<and>
     (\<forall>opts c. vo_KeyUsages opts = [] \<and> c_verify C opts c \<longrightarrow>
        ce_ExtKeyUsage c = [] \<or> ExtKeyUsageServerAuth \<in> set (ce_ExtKeyUsage c)) \<and>
     (\<forall>t parent key signer w bytes w' c. run_state (c_create_cert C t parent key signer) w = (Inr bytes, w') \<and>
        c_parse_cert C bytes = Inr c \<longrightarrow> ce_ExtKeyUsage c = ce_ExtKeyUsage t)"

lemma issued_certificate_usage:
  assumes "run_state (SignCSR E C conf csr cn) w = (Inr pem, w')" and "key_usage_laws C"
    and "c_pem_decode C pem = Some (ty, bytes)" and "c_parse_cert C bytes = Inr c"
  shows "ce_ExtKeyUsage c = [ExtKeyUsageClientAuth]"
proof -
  from SignCSR_Inr [OF assms(1)] obtain now t and ca :: CertificateGroup and req :: CertificateRequest and w2 certBytes where
    t: "device_certificate cn req (c_add_date C now 0 (tc_clientExpirationDays conf)) t"
      "run_state (c_create_cert C t (cg_cert ca) (csr_PublicKey req) (cg_privKey ca)) w2 = (Inr certBytes, w')"
      "pem = c_pem_encode C ''CERTIFICATE'' certBytes" by blast
  then have "bytes = certBytes" using assms(2,3) by (simp add: key_usage_laws_def)
  with t assms(2,4) have "ce_ExtKeyUsage c = ce_ExtKeyUsage t" unfolding key_usage_laws_def by blast
  with t(1) show ?thesis by (simp add: device_certificate_def)
qed

section \<open>Properties\<close>

text \<open>C9: on the TLS port an operation is only reached by a client whose certificates all verify
  against the operator's CA and none of which is the registration certificate; otherwise the answer is
  401 and nothing is changed. This holds for registration too, since no path that is routed counts as
  the registration endpoint, so that the registration certificate is never accepted. On the plain HTTP
  port every request is served.\<close>

theorem requests_authenticated:
  assumes "run_state (serve E C cfg ns synced None) w0 = (Running sv, w1)"
    and "router_law rt" and "escaped_path r"
    and "rt_match rt (rq_Method r) (rq_EscapedPath r) = Some (m, pattern, ids)"
    and "route (strings_ToUpper (rt_upper rt) m) pattern = Some op"
  shows "run_state (serve_request rt E C sv r rw) w =
    (case rq_TLS r of
       None \<Rightarrow> run_state (operation_ServeHTTP op rt E (sv_handler sv) ids r rw) w
     | Some peers \<Rightarrow>
         if peers \<noteq> [] \<and> (\<forall>c\<in>set peers. sj_CommonName (ce_Subject c) \<noteq> certRegisterCN \<and>
              c_verify C \<lparr>vo_Roots = tls_ClientCAs (sv_tlsConfig sv), vo_Intermediates = [], vo_KeyUsages = []\<rparr> c)
         then run_state (operation_ServeHTTP op rt E (sv_handler sv) ids r rw) w
         else (Done (WriteHeader 401 rw), w))"
proof -
  obtain x api where "HandlerAPI None () () id id = Inr (x :: unit served, api)" "sv_api sv = Some api"
    using serve_api [OF assms(1)] by blast
  from serve_request_routed [OF this assms(2-5)] serve_Running(2) [OF assms(1)] show ?thesis
    by (auto simp: admitted_def split: option.splits)
qed

text \<open>C10: a device that presents the certificate the operator issued to it is not admitted on the TLS
  port: the operator signs certificates for clients, and verifies them without a list of key usages,
  which asks for the certificate of a server.\<close>

theorem issued_certificates_refused:
  assumes "run_state (serve E C cfg ns synced None) w0 = (Running sv, w1)"
    and "router_law rt" and "escaped_path r"
    and "rt_match rt (rq_Method r) (rq_EscapedPath r) = Some (m, pattern, ids)"
    and "route (strings_ToUpper (rt_upper rt) m) pattern = Some op"
    and "key_usage_laws C"
    and "run_state (SignCSR E C (h_mtlsConfig (sv_handler sv)) csr deviceID) w2 = (Inr pem, w3)"
    and "c_pem_decode C pem = Some (ty, bytes)" and "c_parse_cert C bytes = Inr c"
    and "rq_TLS r = Some peers" and "c \<in> set peers"
  shows "run_state (serve_request rt E C sv r rw) w = (Done (WriteHeader 401 rw), w)"
proof -
  obtain x api where api: "HandlerAPI None () () id id = Inr (x :: unit served, api)" "sv_api sv = Some api"
    using serve_api [OF assms(1)] by blast
  have "ce_ExtKeyUsage c = [ExtKeyUsageClientAuth]" by (rule issued_certificate_usage [OF assms(7,6,8,9)])
  moreover have "vo_KeyUsages (sv_opts sv) = []" using serve_Running(2) [OF assms(1)] by simp
  moreover have "ce_ExtKeyUsage c = [] \<or> ExtKeyUsageServerAuth \<in> set (ce_ExtKeyUsage c)"
    if "vo_KeyUsages (sv_opts sv) = []" "c_verify C (sv_opts sv) c"
    using assms(6) that unfolding key_usage_laws_def by blast
  ultimately have "\<not> c_verify C (sv_opts sv) c" by auto
  with assms(11) have "\<not> admitted C sv peers" by (auto simp: admitted_def)
  with serve_request_routed [OF api assms(2-5)] assms(10) show ?thesis by simp
qed

text \<open>C30: the number of days a device certificate is valid is the configured one when it is positive
  and below \<open>2 ^ 63\<close>, and the default of 7 days otherwise, since the error is only logged; the handlers
  serve the devices of the namespace \<open>default\<close> with the configured domain.\<close>

theorem server_settings:
  assumes "run_state (serve E C cfg ns synced analyzed) w = (Running sv, w')"
  shows "tc_clientExpirationDays (h_mtlsConfig (sv_handler sv)) =
      (let t = unat (cf_ClientCertExpirationTime cfg) in if 0 < t \<and> t < 2 ^ 63 then int t else 7) \<and>
    tc_Domains (h_mtlsConfig (sv_handler sv)) = [cf_Domain cfg] \<and>
    tc_namespace (h_mtlsConfig (sv_handler sv)) = ns \<and> h_initialNamespace (sv_handler sv) = ''default'' \<and>
    h_crypto (sv_handler sv) = C"
proof -
  obtain ps where "sv_handler sv = NewYggdrasilHandler initialDeviceNamespace
      \<lparr>tc_caProvider = ps, tc_Domains = [cf_Domain cfg], tc_LocalhostEnabled = cf_TLSLocalhostEnabled cfg,
       tc_namespace = ns, tc_clientExpirationDays = certificate_days (cf_ClientCertExpirationTime cfg)\<rparr> C"
    using serve_Running(1) [OF assms] by blast
  then show ?thesis
    by (simp add: NewYggdrasilHandler_def initialDeviceNamespace_def certificate_days_def Let_def)
qed

section \<open>The hypotheses can hold\<close>

definition sample_config :: Config where
  "sample_config = \<lparr>cf_HttpPort = 8888, cf_HttpsPort = 8043, cf_Domain = ''project-flotta.io'',
     cf_TLSLocalhostEnabled = True, cf_MetricsAddr = '':8080'', cf_ProbeAddr = '':8081'',
     cf_EnableLeaderElection = False, cf_WebhookPort = 9443, cf_EnableObcAutoCreation = True,
     cf_LogLevel = ''info'', cf_EdgeDeploymentConcurrency = 5, cf_ClientCertExpirationTime = 30,
     cf_MaxConcurrentReconciles = 3\<rparr>"

definition sample_path :: string where
  "sample_path = ''/api/flotta-management/v1/data/d1/out''"

definition sample_runtime :: runtime where
  "sample_runtime = \<lparr>
     rt_match = (\<lambda>m e. if e = sample_path then Some (''POST'', ''/data/{device_id}/out'', [''d1'']) else None),
     rt_default_mux = (\<lambda>_. Done \<circ> WriteHeader 404), rt_no_route = (\<lambda>_. Done \<circ> WriteHeader 404),
     rt_negotiate = (\<lambda>_. []), rt_format = (\<lambda>_. ''application/json''),
     rt_errorAsJSON = (\<lambda>_. ''{}''), rt_consume = (\<lambda>_. ConsumedEOF), rt_date_time = (\<lambda>_. True),
     rt_produce_message = (\<lambda>_. Inr ''{}''), rt_produce_response = (\<lambda>_. Inr ''{}''), rt_upper = id\<rparr>"

definition sample_request :: "Certificate list option \<Rightarrow> Request" where
  "sample_request peers = \<lparr>rq_Method = ''POST'', rq_URL = \<lparr>url_Scheme = [], url_Host = [], url_Path = sample_path\<rparr>,
     rq_EscapedPath = sample_path, rq_TLS = peers, rq_Body = None\<rparr>"

lemma sample_routed:
  "rt_match sample_runtime (rq_Method (sample_request p)) (rq_EscapedPath (sample_request p)) =
     Some (''POST'', ''/data/{device_id}/out'', [''d1''])"
  "route (strings_ToUpper (rt_upper sample_runtime) ''POST'') ''/data/{device_id}/out'' = Some PostDataMessageForDeviceOp"
  by (simp_all add: sample_runtime_def sample_request_def route_def initHandlerCache_def)

lemma sample_escaped: "escaped_path (sample_request p)"
  by (simp add: escaped_path_def sample_request_def sample_path_def)

lemma sample_router: "router_law sample_runtime"
proof -
  have "build_operation PostDataMessageForDeviceOp \<lparr>du_DeviceID = ''d1'', du_basePath = []\<rparr> =
      Inr \<lparr>url_Scheme = [], url_Host = [], url_Path = path_Clean sample_path\<rparr>" by code_simp
  moreover have "e = sample_path \<and> op = PostDataMessageForDeviceOp"
    if "rt_match sample_runtime m e = Some (m', pattern, ids)" "route (strings_ToUpper (rt_upper sample_runtime) m') pattern = Some op"
    for m e m' pattern ids op
    using that sample_routed(2) by (auto simp: sample_runtime_def split: if_splits)
  ultimately show ?thesis unfolding router_law_def by (metis URL.select_convs(3))
qed

lemma sample_serve:
  "\<exists>sv w1. run_state (serve mem_env toy_crypto sample_config ''ns'' True None) empty_mem = (Running sv, w1)"
proof -
  have "case fst (run_state (serve mem_env toy_crypto sample_config ''ns'' True None) empty_mem) of
      Running _ \<Rightarrow> True | Exited _ \<Rightarrow> False" by code_simp
  then show ?thesis by (metis prod.collapse started.case(1) started.exhaust)
qed

theorem requests_authenticated_witness:
  "\<exists>sv. run_state (serve_request sample_runtime mem_env toy_crypto sv
      (sample_request (Some [empty_cert\<lparr>ce_Subject := (ce_Subject empty_cert)\<lparr>sj_CommonName := ''register''\<rparr>\<rparr>]))
      fresh_writer) empty_mem = (Done (WriteHeader 401 fresh_writer), empty_mem)"
proof -
  obtain sv w1 where "run_state (serve mem_env toy_crypto sample_config ''ns'' True None) empty_mem = (Running sv, w1)"
    using sample_serve by blast
  from requests_authenticated [OF this sample_router sample_escaped sample_routed, of
      "Some [empty_cert\<lparr>ce_Subject := (ce_Subject empty_cert)\<lparr>sj_CommonName := ''register''\<rparr>\<rparr>]" fresh_writer empty_mem]
  have "run_state (serve_request sample_runtime mem_env toy_crypto sv
      (sample_request (Some [empty_cert\<lparr>ce_Subject := (ce_Subject empty_cert)\<lparr>sj_CommonName := ''register''\<rparr>\<rparr>]))
      fresh_writer) empty_mem = (Done (WriteHeader 401 fresh_writer), empty_mem)"
    by (simp add: sample_request_def certRegisterCN_def)
  then show ?thesis by blast
qed

theorem server_settings_witness:
  "\<exists>sv :: mem Server. tc_clientExpirationDays (h_mtlsConfig (sv_handler sv)) = 30"
proof -
  obtain sv w1 where "run_state (serve mem_env toy_crypto sample_config ''ns'' True None) empty_mem = (Running sv, w1)"
    using sample_serve by blast
  from server_settings [OF this] show ?thesis by (auto simp: sample_config_def)
qed

text \<open>A crypto library whose certificates carry their key usages and are verified for them.\<close>

definition usage_crypto :: "mem crypto" where
  "usage_crypto = toy_crypto\<lparr>
     c_create_cert := (\<lambda>t p k s. ret (Inr (map (\<lambda>u. if u = ExtKeyUsageClientAuth then CHR ''c'' else CHR ''s'') (ce_ExtKeyUsage t)
                        @ ''-''))),
     c_parse_cert := (\<lambda>b. Inr (empty_cert\<lparr>ce_ExtKeyUsage :=
        map (\<lambda>x. if x = CHR ''c'' then ExtKeyUsageClientAuth else ExtKeyUsageServerAuth) (takeWhile (\<lambda>x. x \<noteq> CHR ''-'') b)\<rparr>)),
     c_verify := (\<lambda>opts c. ce_ExtKeyUsage c = [] \<or> ExtKeyUsageServerAuth \<in> set (ce_ExtKeyUsage c))\<rparr>"

lemma usage_crypto_laws: "key_usage_laws usage_crypto"
proof -
  have "takeWhile (\<lambda>x. x \<noteq> CHR ''-'') (map (\<lambda>u. if u = ExtKeyUsageClientAuth then CHR ''c'' else CHR ''s'') us @ ''-'') =
      map (\<lambda>u. if u = ExtKeyUsageClientAuth then CHR ''c'' else CHR ''s'') us" for us
    by (induction us) auto
  moreover have "map ((\<lambda>x. if x = CHR ''c'' then ExtKeyUsageClientAuth else ExtKeyUsageServerAuth) \<circ>
      (\<lambda>u. if u = ExtKeyUsageClientAuth then CHR ''c'' else CHR ''s'')) us = us" for us
    by (rule map_idI) (auto intro: ExtKeyUsage.exhaust)
  moreover have "c_pem_decode toy_crypto (c_pem_encode toy_crypto t b) = Some (t, b)" for t b
    using toy_pem_laws by (simp add: pem_laws_def)
  ultimately show ?thesis
    by (auto simp: key_usage_laws_def usage_crypto_def)
qed


lemma usage_serve:
  "\<exists>sv w1 pem w3. run_state (serve mem_env usage_crypto sample_config ''ns'' True None) empty_mem = (Running sv, w1) \<and>
     run_state (SignCSR mem_env usage_crypto (h_mtlsConfig (sv_handler sv)) ''-x'' ''d1'') w1 = (Inr pem, w3)"
proof -
  have "case run_state (serve mem_env usage_crypto sample_config ''ns'' True None) empty_mem of
      (Running sv, w1) \<Rightarrow>
        (case fst (run_state (SignCSR mem_env usage_crypto (h_mtlsConfig (sv_handler sv)) ''-x'' ''d1'') w1) of
           Inr pem \<Rightarrow> True | Inl _ \<Rightarrow> False)
    | (Exited _, _) \<Rightarrow> False" by code_simp
  then show ?thesis by (auto split: prod.splits started.splits sum.splits) (metis prod.collapse)
qed

theorem issued_certificates_refused_witness:
  "\<exists>sv c. ce_ExtKeyUsage c = [ExtKeyUsageClientAuth] \<and>
     run_state (serve_request sample_runtime mem_env usage_crypto sv (sample_request (Some [c])) fresh_writer) empty_mem =
       (Done (WriteHeader 401 fresh_writer), empty_mem)"
proof -
  obtain sv w1 pem w3 where sv: "run_state (serve mem_env usage_crypto sample_config ''ns'' True None) empty_mem = (Running sv, w1)"
    "run_state (SignCSR mem_env usage_crypto (h_mtlsConfig (sv_handler sv)) ''-x'' ''d1'') w1 = (Inr pem, w3)"
    using usage_serve by blast
  obtain ty bytes where pem: "c_pem_decode usage_crypto pem = Some (ty, bytes)"
    using sv(2) by (auto simp: SignCSR_def dest!: provider_SignCSR_Inr split: list.splits prod.splits)
      (use usage_crypto_laws in \<open>auto simp: key_usage_laws_def\<close>)
  obtain c where c: "c_parse_cert usage_crypto bytes = Inr c" by (simp add: usage_crypto_def)
  have "ce_ExtKeyUsage c = [ExtKeyUsageClientAuth]"
    by (rule issued_certificate_usage [OF sv(2) usage_crypto_laws pem c])
  moreover have "run_state (serve_request sample_runtime mem_env usage_crypto sv (sample_request (Some [c])) fresh_writer) empty_mem =
       (Done (WriteHeader 401 fresh_writer), empty_mem)"
    by (rule issued_certificates_refused [OF sv(1) sample_router sample_escaped sample_routed usage_crypto_laws sv(2) pem c,
          where peers = "[c]"]) (simp_all add: sample_request_def)
  ultimately show ?thesis by blast
qed

end
