(* ===== verification/Json_Codec.thy ===== *)
theory Json_Codec
  imports Api_Types
begin

text \<open>
  What the models use of \<open>encoding/json\<close> (through \<open>swag.WriteJSON\<close> and \<open>swag.ReadJSON\<close>): JSON values, the
  members a struct field is written as under its tag, and decoding into a value that is already
  there. The text of a JSON value, the literals of floating-point numbers and the text of a date are
  arguments (\<open>codec\<close>).

  A decoder takes the value it decodes into, as \<open>json.Unmarshal\<close> does: a member that is missing leaves
  the field alone, \<open>null\<close> makes a pointer, a slice or a map nil and leaves anything else alone, and
  a member that occurs again is decoded into what the earlier one left. A member belongs to a
  field when the names agree up to case. The first error is the result.

  A nil slice is \<open>None\<close> and written as \<open>null\<close>, an empty one as an empty array; for a slice with \<open>omitempty\<close> the
  encoder does not tell the two apart, such a slice is a list.
\<close>

named_theorems decoding \<open>what decoding the members of an encoded struct gives\<close>
named_theorems folded \<open>member names under case folding\<close>

section \<open>Results\<close>

definition try_res :: "'a result \<Rightarrow> ('a \<Rightarrow> 'b result) \<Rightarrow> 'b result" where
  "try_res r f = (case r of Inl err \<Rightarrow> Inl err | Inr x \<Rightarrow> f x)"

lemma try_res_simps [simp]: "try_res (Inl err) f = Inl err" "try_res (Inr x) f = f x"
  by (simp_all add: try_res_def)

lemma try_res_Inr: "try_res r f = Inr y \<longleftrightarrow> (\<exists>x. r = Inr x \<and> f x = Inr y)"
  by (cases r) simp_all

section \<open>Integers\<close>

text \<open>\<open>strconv.Itoa\<close> and \<open>strconv.FormatInt\<close>; \<open>strconv.ParseInt(s, 10, 64)\<close> followed by the check of the
  width of the field.\<close>

fun Itoa :: "nat \<Rightarrow> string" where
  "Itoa n = (if n < 10 then [char_of (48 + n)] else Itoa (n div 10) @ [char_of (48 + n mod 10)])"

declare Itoa.simps [simp del]

definition FormatInt :: "int \<Rightarrow> string" where
  "FormatInt i = (if i < 0 then CHR ''-'' # Itoa (nat (- i)) else Itoa (nat i))"

definition out_of_range :: goerr where
  "out_of_range = Errorf ''strconv.ParseInt: value out of range''"

definition ParseInt :: "string \<Rightarrow> nat \<Rightarrow> int result" where
  "ParseInt s bits = (case s of
     c # t \<Rightarrow>
       if c = CHR ''-'' then
         try_res (ParseUint t 64) (\<lambda>n. if n > 2 ^ (bits - 1) then Inl out_of_range else Inr (- int n))
       else try_res (ParseUint s 64) (\<lambda>n. if n \<ge> 2 ^ (bits - 1) then Inl out_of_range else Inr (int n))
   | [] \<Rightarrow> Inl (Errorf ''strconv.ParseInt: invalid syntax''))"

definition in_bits :: "nat \<Rightarrow> int \<Rightarrow> bool" where
  "in_bits bits i \<longleftrightarrow> - (2 ^ (bits - 1)) \<le> i \<and> i < 2 ^ (bits - 1)"

lemma byte_digit: "(n :: nat) < 10 \<Longrightarrow> byte (char_of (48 + n)) = 48 + n"
  by (simp add: of_char_of)

lemma digit_char: "(n :: nat) < 10 \<Longrightarrow> is_digit (char_of (48 + n)) \<and> char_of (48 + n) \<noteq> CHR ''-''"
proof
  assume n: "n < 10"
  then show "is_digit (char_of (48 + n))" by (simp add: is_digit_def in_range_def byte_digit)
  show "char_of (48 + n) \<noteq> CHR ''-''"
  proof
    assume "char_of (48 + n) = CHR ''-''"
    then have "byte (char_of (48 + n)) = byte (CHR ''-'')" by simp
    with byte_digit [OF n] show False by simp
  qed
qed

lemma Itoa_digits: "list_all is_digit (Itoa n) \<and> dec_val 0 (Itoa n) = n \<and> Itoa n \<noteq> [] \<and> hd (Itoa n) \<noteq> CHR ''-''"
proof (induction n rule: Itoa.induct)
  case (1 n)
  show ?case
  proof (cases "n < 10")
    case True
    then show ?thesis using digit_char [of n] by (subst (1 2 3 4) Itoa.simps) (simp add: dec_val_def byte_digit)
  next
    case False
    have "n mod 10 < 10" by simp
    with 1 False digit_char [of "n mod 10"] show ?thesis
      by (subst (1 2 3 4) Itoa.simps) (simp add: dec_val_def byte_digit)
  qed
qed

lemma ParseUint_Itoa: "n < 2 ^ bits \<Longrightarrow> ParseUint (Itoa n) bits = Inr n"
  using Itoa_digits [of n] ParseUint_loop_ok [of "Itoa n" 0 bits] by (simp add: ParseUint_def)

lemma ParseInt_FormatInt:
  assumes "in_bits bits i" and "0 < bits" and "bits \<le> 64"
  shows "ParseInt (FormatInt i) bits = Inr i"
proof -
  have le: "(2 :: nat) ^ (bits - 1) \<le> 2 ^ 63" using assms(3) by (intro power_increasing) auto
  show ?thesis
  proof (cases "i < 0")
    case True
    with assms(1) have n: "nat (- i) \<le> 2 ^ (bits - 1)" by (simp add: in_bits_def nat_le_iff)
    have "nat (- i) \<le> 2 ^ 63" using n le by (rule order.trans)
    then have "nat (- i) < 2 ^ 64" by simp
    then show ?thesis using True n by (simp add: FormatInt_def ParseInt_def ParseUint_Itoa)
  next
    case False
    with assms(1) have n: "nat i < 2 ^ (bits - 1)" by (simp add: in_bits_def nat_less_iff)
    have "nat i < 2 ^ 63" using n le by (rule order.strict_trans2)
    then have "nat i < 2 ^ 64" by simp
    moreover obtain c t where "Itoa (nat i) = c # t" "c \<noteq> CHR ''-''"
      using Itoa_digits [of "nat i"] by (cases "Itoa (nat i)") auto
    ultimately show ?thesis using False n ParseUint_Itoa [of "nat i" 64] by (simp add: FormatInt_def ParseInt_def)
  qed
qed

section \<open>Values\<close>

datatype json =
    JNull
  | JBool bool
  | JNumber string
  | JString string
  | JArray "json list"
  | JObject "(string \<times> json) list"

text \<open>\<open>jc_print\<close> and \<open>jc_parse\<close> are the text of a value, \<open>jc_float\<close> and \<open>jc_parse_float\<close> the literal of a
  floating-point number (an error for an infinity or a NaN), \<open>jc_time\<close> and \<open>jc_parse_time\<close> the text of a
  \<open>strfmt.DateTime\<close>.\<close>

record codec =
  jc_print :: "json \<Rightarrow> string"
  jc_parse :: "string \<Rightarrow> json result"
  jc_float :: "float64 \<Rightarrow> string result"
  jc_parse_float :: "string \<Rightarrow> float64 result"
  jc_time :: "time \<Rightarrow> string"
  jc_parse_time :: "string \<Rightarrow> time result"

section \<open>Encoding a field\<close>

definition str_member :: "string \<Rightarrow> string \<Rightarrow> (string \<times> json) list" where
  "str_member name s = (if s = [] then [] else [(name, JString s)])"

definition int_member :: "string \<Rightarrow> int \<Rightarrow> (string \<times> json) list" where
  "int_member name i = (if i = 0 then [] else [(name, JNumber (FormatInt i))])"

definition bool_member :: "string \<Rightarrow> bool \<Rightarrow> (string \<times> json) list" where
  "bool_member name b = (if b then [(name, JBool True)] else [])"

text \<open>A \<open>float64\<close> is zero when all bits but the sign are.\<close>

definition float_zero :: "float64 \<Rightarrow> bool" where
  "float_zero f \<longleftrightarrow> f mod 2 ^ 63 = 0"

definition float_member :: "codec \<Rightarrow> string \<Rightarrow> float64 \<Rightarrow> (string \<times> json) list result" where
  "float_member J name f =
     (if float_zero f then Inr [] else try_res (jc_float J f) (\<lambda>s. Inr [(name, JNumber s)]))"

text \<open>A struct is never empty, so \<open>omitempty\<close> does nothing for a \<open>strfmt.DateTime\<close>.\<close>

definition time_member :: "codec \<Rightarrow> string \<Rightarrow> time \<Rightarrow> (string \<times> json) list" where
  "time_member J name t = [(name, JString (jc_time J t))]"

definition slice_json :: "('a \<Rightarrow> json) \<Rightarrow> 'a list option \<Rightarrow> json" where
  "slice_json enc xs = (case xs of None \<Rightarrow> JNull | Some ys \<Rightarrow> JArray (map enc ys))"

definition strs_member :: "string \<Rightarrow> string list option \<Rightarrow> (string \<times> json) list" where
  "strs_member name xs = [(name, slice_json JString xs)]"

definition strs_member_opt :: "string \<Rightarrow> string list \<Rightarrow> (string \<times> json) list" where
  "strs_member_opt name xs = (if xs = [] then [] else strs_member name (Some xs))"

definition ptr_member :: "string \<Rightarrow> ('a \<Rightarrow> json) \<Rightarrow> 'a option \<Rightarrow> (string \<times> json) list" where
  "ptr_member name enc p = (case p of None \<Rightarrow> [] | Some x \<Rightarrow> [(name, enc x)])"

definition ptr_member_try :: "string \<Rightarrow> ('a \<Rightarrow> json result) \<Rightarrow> 'a option \<Rightarrow> (string \<times> json) list result" where
  "ptr_member_try name enc p = (case p of None \<Rightarrow> Inr [] | Some x \<Rightarrow> try_res (enc x) (\<lambda>j. Inr [(name, j)]))"

definition ptr_json :: "('a \<Rightarrow> json) \<Rightarrow> 'a option \<Rightarrow> json" where
  "ptr_json enc p = (case p of None \<Rightarrow> JNull | Some x \<Rightarrow> enc x)"

definition ptrs_member :: "string \<Rightarrow> ('a \<Rightarrow> json) \<Rightarrow> 'a option list option \<Rightarrow> (string \<times> json) list" where
  "ptrs_member name enc ps = [(name, slice_json (ptr_json enc) ps)]"

definition ptrs_member_opt :: "string \<Rightarrow> ('a \<Rightarrow> json) \<Rightarrow> 'a option list \<Rightarrow> (string \<times> json) list" where
  "ptrs_member_opt name enc ps = (if ps = [] then [] else ptrs_member name enc (Some ps))"

text \<open>The entries of a map are written in the order of their keys.\<close>

definition map_member :: "string \<Rightarrow> ('a \<Rightarrow> json) \<Rightarrow> 'a gomap option \<Rightarrow> (string \<times> json) list" where
  "map_member name enc mo = (case mo of
     None \<Rightarrow> []
   | Some m \<Rightarrow> if m = [] then [] else [(name, JObject (map (apsnd enc) (sort_key fst m)))])"

section \<open>Decoding into a field\<close>

definition type_error :: goerr where
  "type_error = Errorf ''json: cannot unmarshal''"

definition dec_str :: "json \<Rightarrow> string \<Rightarrow> string result" where
  "dec_str j x = (case j of JNull \<Rightarrow> Inr x | JString s \<Rightarrow> Inr s | _ \<Rightarrow> Inl type_error)"

definition dec_int :: "nat \<Rightarrow> json \<Rightarrow> int \<Rightarrow> int result" where
  "dec_int bits j x = (case j of JNull \<Rightarrow> Inr x | JNumber s \<Rightarrow> ParseInt s bits | _ \<Rightarrow> Inl type_error)"

definition dec_bool :: "json \<Rightarrow> bool \<Rightarrow> bool result" where
  "dec_bool j x = (case j of JNull \<Rightarrow> Inr x | JBool b \<Rightarrow> Inr b | _ \<Rightarrow> Inl type_error)"

definition dec_float :: "codec \<Rightarrow> json \<Rightarrow> float64 \<Rightarrow> float64 result" where
  "dec_float J j x = (case j of JNull \<Rightarrow> Inr x | JNumber s \<Rightarrow> jc_parse_float J s | _ \<Rightarrow> Inl type_error)"

definition dec_time :: "codec \<Rightarrow> json \<Rightarrow> time \<Rightarrow> time result" where
  "dec_time J j x = (case j of JNull \<Rightarrow> Inr x | JString s \<Rightarrow> jc_parse_time J s | _ \<Rightarrow> Inl type_error)"

fun dec_elems :: "(json \<Rightarrow> 'a \<Rightarrow> 'a result) \<Rightarrow> 'a \<Rightarrow> json list \<Rightarrow> 'a list \<Rightarrow> 'a list result" where
  "dec_elems dec z [] old = Inr []"
| "dec_elems dec z (j # js) old =
     try_res (dec j (case old of [] \<Rightarrow> z | x # _ \<Rightarrow> x)) (\<lambda>y.
     try_res (dec_elems dec z js (drop 1 old)) (\<lambda>ys. Inr (y # ys)))"

definition dec_list :: "(json \<Rightarrow> 'a \<Rightarrow> 'a result) \<Rightarrow> 'a \<Rightarrow> json \<Rightarrow> 'a list option \<Rightarrow> 'a list option result" where
  "dec_list dec z j xs = (case j of
     JNull \<Rightarrow> Inr None
   | JArray js \<Rightarrow> try_res (dec_elems dec z js (opt_list xs)) (\<lambda>ys. Inr (Some ys))
   | _ \<Rightarrow> Inl type_error)"

definition dec_ptr :: "(json \<Rightarrow> 'a \<Rightarrow> 'a result) \<Rightarrow> 'a \<Rightarrow> json \<Rightarrow> 'a option \<Rightarrow> 'a option result" where
  "dec_ptr dec z j p = (case j of
     JNull \<Rightarrow> Inr None
   | _ \<Rightarrow> try_res (dec j (case p of None \<Rightarrow> z | Some x \<Rightarrow> x)) (\<lambda>y. Inr (Some y)))"

fun dec_entries :: "(json \<Rightarrow> 'a \<Rightarrow> 'a result) \<Rightarrow> 'a \<Rightarrow> (string \<times> json) list \<Rightarrow> 'a gomap \<Rightarrow> 'a gomap result" where
  "dec_entries dec z [] m = Inr m"
| "dec_entries dec z ((k, j) # es) m = try_res (dec j z) (\<lambda>y. dec_entries dec z es (gm_set k y m))"

definition dec_map :: "(json \<Rightarrow> 'a \<Rightarrow> 'a result) \<Rightarrow> 'a \<Rightarrow> json \<Rightarrow> 'a gomap option \<Rightarrow> 'a gomap option result" where
  "dec_map dec z j mo = (case j of
     JNull \<Rightarrow> Inr None
   | JObject es \<Rightarrow> try_res (dec_entries dec z es (case mo of None \<Rightarrow> [] | Some m \<Rightarrow> m)) (\<lambda>m. Inr (Some m))
   | _ \<Rightarrow> Inl type_error)"

text \<open>Names up to case: besides the letters of ASCII, the long s and the Kelvin sign.\<close>

definition fold_byte :: "char \<Rightarrow> char" where
  "fold_byte c = (if in_range 65 90 (byte c) then char_of (byte c + 32) else c)"

function json_fold :: "string \<Rightarrow> string" where
  "json_fold s = (case s of
     [] \<Rightarrow> []
   | c # t \<Rightarrow>
       if HasPrefix s [CHR 0xC5, CHR 0xBF] then CHR ''s'' # json_fold (drop 1 t)
       else if HasPrefix s [CHR 0xE2, CHR 0x84, CHR 0xAA] then CHR ''k'' # json_fold (drop 2 t)
       else fold_byte c # json_fold t)"
  by pat_completeness auto
termination by (relation "measure length") auto

declare json_fold.simps [simp del]

definition members_of :: "string \<Rightarrow> (string \<times> json) list \<Rightarrow> json list" where
  "members_of name ms = map snd (filter (\<lambda>(k, _). json_fold k = json_fold name) ms)"

fun dec_all :: "(json \<Rightarrow> 'a \<Rightarrow> 'a result) \<Rightarrow> json list \<Rightarrow> 'a \<Rightarrow> 'a result" where
  "dec_all dec [] x = Inr x"
| "dec_all dec (j # js) x = try_res (dec j x) (dec_all dec js)"

definition field :: "(json \<Rightarrow> 'a \<Rightarrow> 'a result) \<Rightarrow> string \<Rightarrow> (string \<times> json) list \<Rightarrow> 'a \<Rightarrow> 'a result" where
  "field dec name ms = dec_all dec (members_of name ms)"

definition dec_struct :: "((string \<times> json) list \<Rightarrow> 'a \<Rightarrow> 'a result) \<Rightarrow> json \<Rightarrow> 'a \<Rightarrow> 'a result" where
  "dec_struct f j x = (case j of JNull \<Rightarrow> Inr x | JObject ms \<Rightarrow> f ms x | _ \<Rightarrow> Inl type_error)"

section \<open>Marshalling\<close>

text \<open>\<open>MarshalBinary\<close> and \<open>UnmarshalBinary\<close> of a model: a nil receiver gives no bytes; bytes that do not decode
  leave the receiver as it was.\<close>

definition marshal :: "codec \<Rightarrow> ('a \<Rightarrow> json result) \<Rightarrow> 'a option \<Rightarrow> string result" where
  "marshal J enc m = (case m of None \<Rightarrow> Inr [] | Some x \<Rightarrow> try_res (enc x) (\<lambda>j. Inr (jc_print J j)))"

definition unmarshal ::
  "codec \<Rightarrow> (json \<Rightarrow> 'a \<Rightarrow> 'a result) \<Rightarrow> 'a \<Rightarrow> string \<Rightarrow> 'a \<Rightarrow> goerr option \<times> 'a" where
  "unmarshal J dec zero b m = (case try_res (jc_parse J b) (\<lambda>j. dec j zero) of
     Inl err \<Rightarrow> (Some err, m)
   | Inr res \<Rightarrow> (None, res))"

lemma unmarshal_marshal:
  assumes "enc x = Inr j" and "jc_parse J (jc_print J j) = Inr j" and "dec j zero = Inr x"
  shows "\<exists>b. marshal J enc (Some x) = Inr b \<and> unmarshal J dec zero b m = (None, x)"
  using assms by (simp add: marshal_def unmarshal_def)

section \<open>Decoding what was encoded\<close>

lemma members_of_simps [decoding]:
  "members_of name [] = []"
  "members_of name (ms @ ms') = members_of name ms @ members_of name ms'"
  by (simp_all add: members_of_def)

lemma members_of_single [decoding]:
  "members_of name [(k, j)] = (if json_fold k = json_fold name then [j] else [])"
  by (simp add: members_of_def)

lemma members_of_member [decoding]:
  "members_of name (str_member k s) = (if json_fold k = json_fold name then (if s = [] then [] else [JString s]) else [])"
  "members_of name (int_member k i) = (if json_fold k = json_fold name then (if i = 0 then [] else [JNumber (FormatInt i)]) else [])"
  "members_of name (bool_member k b) = (if json_fold k = json_fold name then (if b then [JBool True] else []) else [])"
  "members_of name (strs_member k xs) = (if json_fold k = json_fold name then [slice_json JString xs] else [])"
  "members_of name (time_member J k t) = (if json_fold k = json_fold name then [JString (jc_time J t)] else [])"
  "members_of name (ptr_member k enc p) =
     (if json_fold k = json_fold name then (case p of None \<Rightarrow> [] | Some x \<Rightarrow> [enc x]) else [])"
  "members_of name (ptrs_member k penc ps) = (if json_fold k = json_fold name then [slice_json (ptr_json penc) ps] else [])"
  by (auto simp: members_of_def str_member_def int_member_def bool_member_def strs_member_def time_member_def
      ptr_member_def ptrs_member_def split: option.split)

lemma dec_all_str [decoding]: "dec_all dec_str (if s = [] then [] else [JString s]) [] = Inr s"
  by (simp add: dec_str_def)

lemma dec_all_int [decoding]:
  "in_bits bits i \<Longrightarrow> 0 < bits \<Longrightarrow> bits \<le> 64 \<Longrightarrow>
     dec_all (dec_int bits) (if i = 0 then [] else [JNumber (FormatInt i)]) 0 = Inr i"
  by (simp add: dec_int_def ParseInt_FormatInt)

lemma dec_all_bool [decoding]: "dec_all dec_bool (if b then [JBool True] else []) False = Inr b"
  by (simp add: dec_bool_def)

lemma dec_elems_map:
  "(\<And>x. x \<in> set xs \<Longrightarrow> dec (enc x) z = Inr x) \<Longrightarrow> dec_elems dec z (map enc xs) [] = Inr xs"
  by (induction xs) simp_all

lemma dec_list_slice:
  "(\<And>x. x \<in> set (opt_list xs) \<Longrightarrow> dec (enc x) z = Inr x) \<Longrightarrow> dec_list dec z (slice_json enc xs) None = Inr xs"
  by (cases xs) (simp_all add: dec_list_def slice_json_def opt_list_def dec_elems_map)

lemma dec_all_strs [decoding]: "dec_all (dec_list dec_str []) [slice_json JString xs] None = Inr xs"
  by (simp add: dec_list_slice dec_str_def)

lemma dec_all_time [decoding]:
  "jc_parse_time J (jc_time J t) = Inr t \<Longrightarrow> dec_all (dec_time J) [JString (jc_time J t)] t0 = Inr t"
  by (simp add: dec_time_def)

text \<open>A struct is never written as \<open>null\<close>.\<close>

lemma dec_ptr_struct:
  "enc x \<noteq> JNull \<Longrightarrow> dec (enc x) z = Inr x \<Longrightarrow> dec_ptr dec z (enc x) None = Inr (Some x)"
  by (cases "enc x") (simp_all add: dec_ptr_def)

lemma dec_all_ptr [decoding]:
  "(\<And>x. enc x \<noteq> JNull \<and> dec (enc x) z = Inr x) \<Longrightarrow>
     dec_all (dec_ptr dec z) (case p of None \<Rightarrow> [] | Some x \<Rightarrow> [enc x]) None = Inr p"
  by (cases p) (simp_all add: dec_ptr_struct)

lemma dec_all_ptr_ok:
  "pred_option ok p \<Longrightarrow> (\<And>x. ok x \<Longrightarrow> enc x \<noteq> JNull \<and> dec (enc x) z = Inr x) \<Longrightarrow>
     dec_all (dec_ptr dec z) (case p of None \<Rightarrow> [] | Some x \<Rightarrow> [enc x]) None = Inr p"
  by (cases p) (simp_all add: dec_ptr_struct)

lemma dec_all_ptrs_ok:
  assumes "list_all (pred_option ok) (opt_list ps)" and "\<And>x. ok x \<Longrightarrow> enc x \<noteq> JNull \<and> dec (enc x) z = Inr x"
  shows "dec_all (dec_list (dec_ptr dec z) None) [slice_json (ptr_json enc) ps] None = Inr ps"
proof -
  have "dec_ptr dec z (ptr_json enc p) None = Inr p" if "p \<in> set (opt_list ps)" for p
  proof (cases p)
    case None
    then show ?thesis by (simp add: ptr_json_def dec_ptr_def)
  next
    case (Some x)
    with assms(1) that have "ok x" by (auto simp: list_all_iff)
    with Some assms(2) [of x] show ?thesis by (simp add: ptr_json_def dec_ptr_struct)
  qed
  then show ?thesis by (simp add: dec_list_slice)
qed

lemma dec_all_ptrs [decoding]:
  "(\<And>x. enc x \<noteq> JNull \<and> dec (enc x) z = Inr x) \<Longrightarrow>
     dec_all (dec_list (dec_ptr dec z) None) [slice_json (ptr_json enc) ps] None = Inr ps"
  using dec_all_ptrs_ok [of "\<lambda>_. True" ps] by (simp add: list_all_iff pred_option_def)

lemma gm_set_fresh: "k \<notin> set (gm_keys m) \<Longrightarrow> gm_set k v m = m @ [(k, v)]"
  by (induction m) auto

text \<open>A map with entries, in the order of its keys; the encoder does not tell an empty map from nil.\<close>

definition map_wf :: "('a \<Rightarrow> bool) \<Rightarrow> 'a gomap option \<Rightarrow> bool" where
  "map_wf ok mo = (case mo of
     None \<Rightarrow> True
   | Some m \<Rightarrow> m \<noteq> [] \<and> sorted (gm_keys m) \<and> gm_wf m \<and> list_all (\<lambda>e. ok (snd e)) m)"

lemma dec_entries_map:
  "gm_wf (acc @ m) \<Longrightarrow> (\<And>e. e \<in> set m \<Longrightarrow> dec (enc (snd e)) z = Inr (snd e)) \<Longrightarrow>
     dec_entries dec z (map (apsnd enc) m) acc = Inr (acc @ m)"
proof (induction m arbitrary: acc)
  case (Cons e m)
  obtain k v where e: "e = (k, v)" by (cases e)
  have "k \<notin> set (gm_keys acc)" using Cons.prems(1) by (auto simp: gm_wf_def e)
  moreover have "dec (enc v) z = Inr v" using Cons.prems(2) [of e] by (simp add: e)
  moreover have "dec_entries dec z (map (apsnd enc) m) (acc @ [e]) = Inr ((acc @ [e]) @ m)"
    by (rule Cons.IH) (use Cons.prems in \<open>auto simp: gm_wf_def\<close>)
  ultimately show ?case by (simp add: e gm_set_fresh)
qed simp

lemma members_of_map [decoding]:
  "members_of name (map_member k enc mo) = (if json_fold k = json_fold name then (case mo of
     None \<Rightarrow> [] | Some m \<Rightarrow> if m = [] then [] else [JObject (map (apsnd enc) (sort_key fst m))]) else [])"
  by (simp add: members_of_def map_member_def split: option.split)

lemma dec_all_map:
  assumes "map_wf ok mo" and "\<And>x. ok x \<Longrightarrow> dec (enc x) z = Inr x"
  shows "dec_all (dec_map dec z) (case mo of
     None \<Rightarrow> [] | Some m \<Rightarrow> if m = [] then [] else [JObject (map (apsnd enc) (sort_key fst m))]) None = Inr mo"
proof (cases mo)
  case (Some m)
  with assms(1) have m: "m \<noteq> []" "sorted (map fst m)" "gm_wf m" "\<And>e. e \<in> set m \<Longrightarrow> ok (snd e)"
    by (auto simp: map_wf_def list_all_iff)
  have "dec_entries dec z (map (apsnd enc) m) [] = Inr ([] @ m)"
    by (rule dec_entries_map) (use m assms(2) in auto)
  with Some m show ?thesis by (simp add: dec_map_def sort_key_id_if_sorted)
qed simp

text \<open>A number that is written and read back: not a negative zero, and with a literal.\<close>

definition float_ok :: "codec \<Rightarrow> float64 \<Rightarrow> bool" where
  "float_ok J f \<longleftrightarrow> f = 0 \<or> \<not> float_zero f \<and>
     (case jc_float J f of Inl err \<Rightarrow> False | Inr s \<Rightarrow> jc_parse_float J s = Inr f)"

lemma float_roundtrip:
  assumes "float_ok J f"
  shows "\<exists>ms. float_member J k f = Inr ms \<and> (\<forall>name. json_fold name \<noteq> json_fold k \<longrightarrow> members_of name ms = []) \<and>
    dec_all (dec_float J) (members_of k ms) 0 = Inr f"
  using assms
  by (auto simp: float_ok_def float_member_def float_zero_def members_of_def dec_float_def split: sum.splits)

declare dec_all.simps [simp del]

end
