(* ===== verification/Flotta_Client.thy ===== *)
theory Flotta_Client
  imports Server Json_Codec
begin

text \<open>
  The client library (\<open>client/flotta_management_client.go\<close>, \<open>client/yggdrasil\<close>): the parameters of the four
  operations with their constructors, setters and writers, the client object, its four calls, and the
  composition of a call with the server of the operator.

  The request the parameters are written to and \<open>Submit\<close> are those of the vendored
  \<open>go-openapi/runtime/client\<close> (\<open>request.go\<close>, \<open>runtime.go\<close>), of which the parts these operations reach are
  written out; the network and the JSON codec are arguments (\<open>net\<close>). A setter returns the updated value; the
  \<open>With\<close> form of a setter calls it and returns its receiver, so it is the same function.
  Contexts, HTTP clients, round trippers and authenticators are opaque.
\<close>

section \<open>The request of the runtime\<close>

record request =
  cq_timeout :: int64
  cq_pathParams :: "string gomap"
  cq_payload :: "Message option"

definition DefaultTimeout :: int64 where
  "DefaultTimeout = 30 * 10 ^ 9"

definition newRequest :: request where
  "newRequest = \<lparr>cq_timeout = DefaultTimeout, cq_pathParams = [], cq_payload = None\<rparr>"

definition request_SetTimeout :: "int64 \<Rightarrow> request \<Rightarrow> request result" where
  "request_SetTimeout timeout r = Inr (r\<lparr>cq_timeout := timeout\<rparr>)"

definition request_SetPathParam :: "string \<Rightarrow> string \<Rightarrow> request \<Rightarrow> request result" where
  "request_SetPathParam name value r = Inr (r\<lparr>cq_pathParams := gm_set name value (cq_pathParams r)\<rparr>)"

definition request_SetBodyParam :: "Message \<Rightarrow> request \<Rightarrow> request result" where
  "request_SetBodyParam payload r = Inr (r\<lparr>cq_payload := Some payload\<rparr>)"

section \<open>Parameters\<close>

record ('ctx, 'cl) GetControlMessageForDeviceParams =
  gcp_DeviceID :: string
  gcp_timeout :: int64
  gcp_Context :: "'ctx option"
  gcp_HTTPClient :: "'cl option"

definition NewGetControlMessageForDeviceParams :: "('ctx, 'cl) GetControlMessageForDeviceParams" where
  "NewGetControlMessageForDeviceParams =
     \<lparr>gcp_DeviceID = [], gcp_timeout = DefaultTimeout, gcp_Context = None, gcp_HTTPClient = None\<rparr>"

definition NewGetControlMessageForDeviceParamsWithTimeout :: "int64 \<Rightarrow> ('ctx, 'cl) GetControlMessageForDeviceParams" where
  "NewGetControlMessageForDeviceParamsWithTimeout timeout =
     \<lparr>gcp_DeviceID = [], gcp_timeout = timeout, gcp_Context = None, gcp_HTTPClient = None\<rparr>"

definition NewGetControlMessageForDeviceParamsWithContext :: "'ctx option \<Rightarrow> ('ctx, 'cl) GetControlMessageForDeviceParams" where
  "NewGetControlMessageForDeviceParamsWithContext ctx =
     \<lparr>gcp_DeviceID = [], gcp_timeout = 0, gcp_Context = ctx, gcp_HTTPClient = None\<rparr>"

definition NewGetControlMessageForDeviceParamsWithHTTPClient :: "'cl option \<Rightarrow> ('ctx, 'cl) GetControlMessageForDeviceParams" where
  "NewGetControlMessageForDeviceParamsWithHTTPClient client =
     \<lparr>gcp_DeviceID = [], gcp_timeout = 0, gcp_Context = None, gcp_HTTPClient = client\<rparr>"

definition GetControlMessageForDeviceParams_SetTimeout :: "int64 \<Rightarrow> ('ctx, 'cl) GetControlMessageForDeviceParams \<Rightarrow> ('ctx, 'cl) GetControlMessageForDeviceParams" where
  "GetControlMessageForDeviceParams_SetTimeout timeout params = params\<lparr>gcp_timeout := timeout\<rparr>"

definition GetControlMessageForDeviceParams_SetContext :: "'ctx option \<Rightarrow> ('ctx, 'cl) GetControlMessageForDeviceParams \<Rightarrow> ('ctx, 'cl) GetControlMessageForDeviceParams" where
  "GetControlMessageForDeviceParams_SetContext ctx params = params\<lparr>gcp_Context := ctx\<rparr>"

definition GetControlMessageForDeviceParams_SetHTTPClient :: "'cl option \<Rightarrow> ('ctx, 'cl) GetControlMessageForDeviceParams \<Rightarrow> ('ctx, 'cl) GetControlMessageForDeviceParams" where
  "GetControlMessageForDeviceParams_SetHTTPClient client params = params\<lparr>gcp_HTTPClient := client\<rparr>"

definition GetControlMessageForDeviceParams_SetDeviceID :: "string \<Rightarrow> ('ctx, 'cl) GetControlMessageForDeviceParams \<Rightarrow> ('ctx, 'cl) GetControlMessageForDeviceParams" where
  "GetControlMessageForDeviceParams_SetDeviceID deviceID params = params\<lparr>gcp_DeviceID := deviceID\<rparr>"

definition GetControlMessageForDeviceParams_WriteToRequest :: "('ctx, 'cl) GetControlMessageForDeviceParams \<Rightarrow> request \<Rightarrow> request result" where
  "GetControlMessageForDeviceParams_WriteToRequest params r =
     try_res (request_SetTimeout (gcp_timeout params) r) (\<lambda>r.
     try_res (request_SetPathParam ''device_id'' (gcp_DeviceID params) r) (\<lambda>r. Inr r))"

record ('ctx, 'cl) GetDataMessageForDeviceParams =
  gdp_DeviceID :: string
  gdp_timeout :: int64
  gdp_Context :: "'ctx option"
  gdp_HTTPClient :: "'cl option"

definition NewGetDataMessageForDeviceParams :: "('ctx, 'cl) GetDataMessageForDeviceParams" where
  "NewGetDataMessageForDeviceParams =
     \<lparr>gdp_DeviceID = [], gdp_timeout = DefaultTimeout, gdp_Context = None, gdp_HTTPClient = None\<rparr>"

definition NewGetDataMessageForDeviceParamsWithTimeout :: "int64 \<Rightarrow> ('ctx, 'cl) GetDataMessageForDeviceParams" where
  "NewGetDataMessageForDeviceParamsWithTimeout timeout =
     \<lparr>gdp_DeviceID = [], gdp_timeout = timeout, gdp_Context = None, gdp_HTTPClient = None\<rparr>"

definition NewGetDataMessageForDeviceParamsWithContext :: "'ctx option \<Rightarrow> ('ctx, 'cl) GetDataMessageForDeviceParams" where
  "NewGetDataMessageForDeviceParamsWithContext ctx =
     \<lparr>gdp_DeviceID = [], gdp_timeout = 0, gdp_Context = ctx, gdp_HTTPClient = None\<rparr>"

definition NewGetDataMessageForDeviceParamsWithHTTPClient :: "'cl option \<Rightarrow> ('ctx, 'cl) GetDataMessageForDeviceParams" where
  "NewGetDataMessageForDeviceParamsWithHTTPClient client =
     \<lparr>gdp_DeviceID = [], gdp_timeout = 0, gdp_Context = None, gdp_HTTPClient = client\<rparr>"

definition GetDataMessageForDeviceParams_SetTimeout :: "int64 \<Rightarrow> ('ctx, 'cl) GetDataMessageForDeviceParams \<Rightarrow> ('ctx, 'cl) GetDataMessageForDeviceParams" where
  "GetDataMessageForDeviceParams_SetTimeout timeout params = params\<lparr>gdp_timeout := timeout\<rparr>"

definition GetDataMessageForDeviceParams_SetContext :: "'ctx option \<Rightarrow> ('ctx, 'cl) GetDataMessageForDeviceParams \<Rightarrow> ('ctx, 'cl) GetDataMessageForDeviceParams" where
  "GetDataMessageForDeviceParams_SetContext ctx params = params\<lparr>gdp_Context := ctx\<rparr>"

definition GetDataMessageForDeviceParams_SetHTTPClient :: "'cl option \<Rightarrow> ('ctx, 'cl) GetDataMessageForDeviceParams \<Rightarrow> ('ctx, 'cl) GetDataMessageForDeviceParams" where
  "GetDataMessageForDeviceParams_SetHTTPClient client params = params\<lparr>gdp_HTTPClient := client\<rparr>"

definition GetDataMessageForDeviceParams_SetDeviceID :: "string \<Rightarrow> ('ctx, 'cl) GetDataMessageForDeviceParams \<Rightarrow> ('ctx, 'cl) GetDataMessageForDeviceParams" where
  "GetDataMessageForDeviceParams_SetDeviceID deviceID params = params\<lparr>gdp_DeviceID := deviceID\<rparr>"

definition GetDataMessageForDeviceParams_WriteToRequest :: "('ctx, 'cl) GetDataMessageForDeviceParams \<Rightarrow> request \<Rightarrow> request result" where
  "GetDataMessageForDeviceParams_WriteToRequest params r =
     try_res (request_SetTimeout (gdp_timeout params) r) (\<lambda>r.
     try_res (request_SetPathParam ''device_id'' (gdp_DeviceID params) r) (\<lambda>r. Inr r))"

record ('ctx, 'cl) PostControlMessageForDeviceParams =
  pcp_DeviceID :: string
  pcp_Message :: "Message option"
  pcp_timeout :: int64
  pcp_Context :: "'ctx option"
  pcp_HTTPClient :: "'cl option"

definition NewPostControlMessageForDeviceParams :: "('ctx, 'cl) PostControlMessageForDeviceParams" where
  "NewPostControlMessageForDeviceParams =
     \<lparr>pcp_DeviceID = [], pcp_Message = None, pcp_timeout = DefaultTimeout, pcp_Context = None, pcp_HTTPClient = None\<rparr>"

definition NewPostControlMessageForDeviceParamsWithTimeout :: "int64 \<Rightarrow> ('ctx, 'cl) PostControlMessageForDeviceParams" where
  "NewPostControlMessageForDeviceParamsWithTimeout timeout =
     \<lparr>pcp_DeviceID = [], pcp_Message = None, pcp_timeout = timeout, pcp_Context = None, pcp_HTTPClient = None\<rparr>"

definition NewPostControlMessageForDeviceParamsWithContext :: "'ctx option \<Rightarrow> ('ctx, 'cl) PostControlMessageForDeviceParams" where
  "NewPostControlMessageForDeviceParamsWithContext ctx =
     \<lparr>pcp_DeviceID = [], pcp_Message = None, pcp_timeout = 0, pcp_Context = ctx, pcp_HTTPClient = None\<rparr>"

definition NewPostControlMessageForDeviceParamsWithHTTPClient :: "'cl option \<Rightarrow> ('ctx, 'cl) PostControlMessageForDeviceParams" where
  "NewPostControlMessageForDeviceParamsWithHTTPClient client =
     \<lparr>pcp_DeviceID = [], pcp_Message = None, pcp_timeout = 0, pcp_Context = None, pcp_HTTPClient = client\<rparr>"

definition PostControlMessageForDeviceParams_SetTimeout :: "int64 \<Rightarrow> ('ctx, 'cl) PostControlMessageForDeviceParams \<Rightarrow> ('ctx, 'cl) PostControlMessageForDeviceParams" where
  "PostControlMessageForDeviceParams_SetTimeout timeout params = params\<lparr>pcp_timeout := timeout\<rparr>"

definition PostControlMessageForDeviceParams_SetContext :: "'ctx option \<Rightarrow> ('ctx, 'cl) PostControlMessageForDeviceParams \<Rightarrow> ('ctx, 'cl) PostControlMessageForDeviceParams" where
  "PostControlMessageForDeviceParams_SetContext ctx params = params\<lparr>pcp_Context := ctx\<rparr>"

definition PostControlMessageForDeviceParams_SetHTTPClient :: "'cl option \<Rightarrow> ('ctx, 'cl) PostControlMessageForDeviceParams \<Rightarrow> ('ctx, 'cl) PostControlMessageForDeviceParams" where
  "PostControlMessageForDeviceParams_SetHTTPClient client params = params\<lparr>pcp_HTTPClient := client\<rparr>"

definition PostControlMessageForDeviceParams_SetDeviceID :: "string \<Rightarrow> ('ctx, 'cl) PostControlMessageForDeviceParams \<Rightarrow> ('ctx, 'cl) PostControlMessageForDeviceParams" where
  "PostControlMessageForDeviceParams_SetDeviceID deviceID params = params\<lparr>pcp_DeviceID := deviceID\<rparr>"

definition PostControlMessageForDeviceParams_SetMessage :: "Message option \<Rightarrow> ('ctx, 'cl) PostControlMessageForDeviceParams \<Rightarrow> ('ctx, 'cl) PostControlMessageForDeviceParams" where
  "PostControlMessageForDeviceParams_SetMessage message params = params\<lparr>pcp_Message := message\<rparr>"

definition PostControlMessageForDeviceParams_WriteToRequest :: "('ctx, 'cl) PostControlMessageForDeviceParams \<Rightarrow> request \<Rightarrow> request result" where
  "PostControlMessageForDeviceParams_WriteToRequest params r =
     try_res (request_SetTimeout (pcp_timeout params) r) (\<lambda>r.
     try_res (request_SetPathParam ''device_id'' (pcp_DeviceID params) r) (\<lambda>r. (case pcp_Message params of None \<Rightarrow> Inr r | Some m \<Rightarrow> request_SetBodyParam m r)))"

record ('ctx, 'cl) PostDataMessageForDeviceParams =
  pdp_DeviceID :: string
  pdp_Message :: "Message option"
  pdp_timeout :: int64
  pdp_Context :: "'ctx option"
  pdp_HTTPClient :: "'cl option"

definition NewPostDataMessageForDeviceParams :: "('ctx, 'cl) PostDataMessageForDeviceParams" where
  "NewPostDataMessageForDeviceParams =
     \<lparr>pdp_DeviceID = [], pdp_Message = None, pdp_timeout = DefaultTimeout, pdp_Context = None, pdp_HTTPClient = None\<rparr>"

definition NewPostDataMessageForDeviceParamsWithTimeout :: "int64 \<Rightarrow> ('ctx, 'cl) PostDataMessageForDeviceParams" where
  "NewPostDataMessageForDeviceParamsWithTimeout timeout =
     \<lparr>pdp_DeviceID = [], pdp_Message = None, pdp_timeout = timeout, pdp_Context = None, pdp_HTTPClient = None\<rparr>"

definition NewPostDataMessageForDeviceParamsWithContext :: "'ctx option \<Rightarrow> ('ctx, 'cl) PostDataMessageForDeviceParams" where
  "NewPostDataMessageForDeviceParamsWithContext ctx =
     \<lparr>pdp_DeviceID = [], pdp_Message = None, pdp_timeout = 0, pdp_Context = ctx, pdp_HTTPClient = None\<rparr>"

definition NewPostDataMessageForDeviceParamsWithHTTPClient :: "'cl option \<Rightarrow> ('ctx, 'cl) PostDataMessageForDeviceParams" where
  "NewPostDataMessageForDeviceParamsWithHTTPClient client =
     \<lparr>pdp_DeviceID = [], pdp_Message = None, pdp_timeout = 0, pdp_Context = None, pdp_HTTPClient = client\<rparr>"

definition PostDataMessageForDeviceParams_SetTimeout :: "int64 \<Rightarrow> ('ctx, 'cl) PostDataMessageForDeviceParams \<Rightarrow> ('ctx, 'cl) PostDataMessageForDeviceParams" where
  "PostDataMessageForDeviceParams_SetTimeout timeout params = params\<lparr>pdp_timeout := timeout\<rparr>"

definition PostDataMessageForDeviceParams_SetContext :: "'ctx option \<Rightarrow> ('ctx, 'cl) PostDataMessageForDeviceParams \<Rightarrow> ('ctx, 'cl) PostDataMessageForDeviceParams" where
  "PostDataMessageForDeviceParams_SetContext ctx params = params\<lparr>pdp_Context := ctx\<rparr>"

definition PostDataMessageForDeviceParams_SetHTTPClient :: "'cl option \<Rightarrow> ('ctx, 'cl) PostDataMessageForDeviceParams \<Rightarrow> ('ctx, 'cl) PostDataMessageForDeviceParams" where
  "PostDataMessageForDeviceParams_SetHTTPClient client params = params\<lparr>pdp_HTTPClient := client\<rparr>"

definition PostDataMessageForDeviceParams_SetDeviceID :: "string \<Rightarrow> ('ctx, 'cl) PostDataMessageForDeviceParams \<Rightarrow> ('ctx, 'cl) PostDataMessageForDeviceParams" where
  "PostDataMessageForDeviceParams_SetDeviceID deviceID params = params\<lparr>pdp_DeviceID := deviceID\<rparr>"

definition PostDataMessageForDeviceParams_SetMessage :: "Message option \<Rightarrow> ('ctx, 'cl) PostDataMessageForDeviceParams \<Rightarrow> ('ctx, 'cl) PostDataMessageForDeviceParams" where
  "PostDataMessageForDeviceParams_SetMessage message params = params\<lparr>pdp_Message := message\<rparr>"

definition PostDataMessageForDeviceParams_WriteToRequest :: "('ctx, 'cl) PostDataMessageForDeviceParams \<Rightarrow> request \<Rightarrow> request result" where
  "PostDataMessageForDeviceParams_WriteToRequest params r =
     try_res (request_SetTimeout (pdp_timeout params) r) (\<lambda>r.
     try_res (request_SetPathParam ''device_id'' (pdp_DeviceID params) r) (\<lambda>r. (case pdp_Message params of None \<Rightarrow> Inr r | Some m \<Rightarrow> request_SetBodyParam m r)))"

section \<open>Submitting an operation\<close>

text \<open>\<open>url.PathEscape\<close>: every byte but the unreserved ones and those allowed in a path segment becomes a
  percent sign and two upper-case hexadecimal digits.\<close>

definition path_unreserved :: "char \<Rightarrow> bool" where
  "path_unreserved c \<longleftrightarrow>
     (let n = of_char c :: nat in 48 \<le> n \<and> n \<le> 57 \<or> 65 \<le> n \<and> n \<le> 90 \<or> 97 \<le> n \<and> n \<le> 122) \<or>
     List.member ''-_.~$&+=:@'' c"

definition upper_hex :: "nat \<Rightarrow> char" where
  "upper_hex n = char_of (if n < 10 then 48 + n else 55 + n)"

definition path_escape :: "string \<Rightarrow> string" where
  "path_escape s = concat (map (\<lambda>c.
     if path_unreserved c then [c] else [CHR ''%'', upper_hex (of_char c div 16), upper_hex (of_char c mod 16)]) s)"

record JSON =
  js_produce :: "Message \<Rightarrow> string result"
  js_message :: "string \<Rightarrow> Message consumed"
  js_response :: "string \<Rightarrow> MessageResponse consumed"

record HTTPRequest =
  hr_Method :: string
  hr_Scheme :: string
  hr_Host :: string
  hr_Path :: string
  hr_Body :: "string option"

record HTTPResponse =
  hs_Code :: int
  hs_ContentType :: "string option"
  hs_Body :: string

text \<open>The network and the codec: \<open>nt_Do\<close> makes the \<open>http.Request\<close> for a path and performs it with the given
  client (else a client on the given round tripper) under a context (\<open>Inl\<close>, the argument of the
  operation; \<open>Inr\<close>, the background with a timeout); \<open>nt_consumer\<close> is the consumer registered for a
  content type.\<close>

record ('ctx, 'cl, 'tp, 'w) net =
  nt_json :: JSON
  nt_consumer :: "string \<Rightarrow> JSON result"
  nt_Do :: "'cl option \<Rightarrow> 'tp option \<Rightarrow> 'ctx + int64 \<Rightarrow> HTTPRequest \<Rightarrow> ('w, HTTPResponse result) io"

record 'tp Transport =
  tr_Host :: string
  tr_BasePath :: string
  tr_schemes :: "string list"
  tr_Transport :: "'tp option"

record ('ctx, 'cl, 'res) ClientOperation =
  co_ID :: string
  co_Method :: string
  co_PathPattern :: string
  co_ProducesMediaTypes :: "string list"
  co_ConsumesMediaTypes :: "string list"
  co_Schemes :: "string list"
  co_Params :: "request \<Rightarrow> request result"
  co_Reader :: "JSON \<Rightarrow> int \<Rightarrow> string \<Rightarrow> 'res read_error + 'res"
  co_AuthInfo :: "(request \<Rightarrow> request result) option"
  co_Context :: "'ctx option"
  co_Client :: "'cl option"

definition selectScheme :: "string list \<Rightarrow> string" where
  "selectScheme schemes = (case schemes of
     [] \<Rightarrow> []
   | scheme # _ \<Rightarrow>
       if scheme \<noteq> ''https'' \<and> length schemes > 1 \<and> List.member schemes ''https'' then ''https'' else scheme)"

definition pickScheme :: "'tp Transport \<Rightarrow> string list \<Rightarrow> string" where
  "pickScheme t schemes =
     (if selectScheme (tr_schemes t) \<noteq> [] then selectScheme (tr_schemes t)
      else if selectScheme schemes \<noteq> [] then selectScheme schemes else ''http'')"

definition url_path :: "string \<Rightarrow> string \<Rightarrow> string gomap \<Rightarrow> string" where
  "url_path basePath pattern params =
     (let reinstateSlash = pattern \<noteq> [] \<and> pattern \<noteq> ''/'' \<and> last pattern = CHR ''/'';
          urlPath = fold (\<lambda>(k, v) path. strings_ReplaceAll (''{'' @ k @ ''}'') (path_escape v) path) params
            (path_Join [basePath, pattern])
      in if reinstateSlash then urlPath @ ''/'' else urlPath)"

definition buildHTTP ::
  "JSON \<Rightarrow> 'tp Transport \<Rightarrow> ('ctx, 'cl, 'res) ClientOperation \<Rightarrow> (request \<times> HTTPRequest) result" where
  "buildHTTP js t operation =
     try_res (co_Params operation newRequest) (\<lambda>r.
     try_res (case cq_payload r of
                None \<Rightarrow> Inr None
              | Some payload \<Rightarrow> map_sum id Some (js_produce js payload)) (\<lambda>body.
     try_res (case co_AuthInfo operation of None \<Rightarrow> Inr r | Some auth \<Rightarrow> auth r) (\<lambda>r.
     Inr (r, \<lparr>hr_Method = co_Method operation, hr_Scheme = pickScheme t (co_Schemes operation), hr_Host = tr_Host t,
              hr_Path = url_path (tr_BasePath t) (co_PathPattern operation) (cq_pathParams r), hr_Body = body\<rparr>))))"

definition Submit ::
  "('ctx, 'cl, 'tp, 'w) net \<Rightarrow> 'tp Transport \<Rightarrow> ('ctx, 'cl, 'res) ClientOperation \<Rightarrow> ('w, 'res read_error + 'res) io" where
  "Submit N t operation = (case buildHTTP (nt_json N) t operation of
     Inl err \<Rightarrow> ret (Inl (ReadFailed err))
   | Inr (r, req) \<Rightarrow> do {
       let ctx = (case co_Context operation of Some c \<Rightarrow> Inl c | None \<Rightarrow> Inr (cq_timeout r));
       resp \<leftarrow> nt_Do N (co_Client operation) (tr_Transport t) ctx req;
       ret (case resp of
           Inl err \<Rightarrow> Inl (ReadFailed err)
         | Inr res \<Rightarrow>
             (case nt_consumer N (case hs_ContentType res of None \<Rightarrow> ''application/json'' | Some ct \<Rightarrow> ct) of
                Inl err \<Rightarrow> Inl (ReadFailed err)
              | Inr js \<Rightarrow> co_Reader operation js (hs_Code res) (hs_Body res)))
     })"

section \<open>The client\<close>

record ('tp, 'au) Client =
  cl_transport :: "'tp Transport"
  cl_authInfo :: "'au option"

definition yggdrasil_New :: "'tp Transport \<Rightarrow> 'au option \<Rightarrow> ('tp, 'au) Client" where
  "yggdrasil_New transport authInfo = \<lparr>cl_transport = transport, cl_authInfo = authInfo\<rparr>"

definition DefaultHost :: string where "DefaultHost = ''localhost''"
definition DefaultBasePath :: string where "DefaultBasePath = ''/api/flotta-management/v1''"
definition DefaultSchemes :: "string list" where "DefaultSchemes = [''http'', ''https'']"

record ('tp, 'au) ClientConfig =
  cc_URL :: "URL option"
  cc_Transport :: "'tp option"
  cc_AuthInfo :: "'au option"

record ('tp, 'au) FlottaManagement =
  fm_Yggdrasil :: "('tp, 'au) Client"
  fm_Transport :: "'tp Transport"

text \<open>\<open>rtclient.New\<close> of the runtime: a base path without a leading slash gets one.\<close>

definition rtclient_New :: "string \<Rightarrow> string \<Rightarrow> string list \<Rightarrow> 'tp Transport" where
  "rtclient_New host basePath schemes =
     \<lparr>tr_Host = host, tr_BasePath = (if HasPrefix basePath ''/'' then basePath else CHR ''/'' # basePath),
      tr_schemes = schemes, tr_Transport = None\<rparr>"

definition client_New :: "('tp, 'au) ClientConfig \<Rightarrow> ('tp, 'au) FlottaManagement" where
  "client_New c =
     (let (host, basePath, schemes) = (case cc_URL c of
            None \<Rightarrow> (DefaultHost, DefaultBasePath, DefaultSchemes)
          | Some u \<Rightarrow> (url_Host u, url_Path u, [url_Scheme u]));
          transport = rtclient_New host basePath schemes;
          transport = (case cc_Transport c of None \<Rightarrow> transport | Some t \<Rightarrow> transport\<lparr>tr_Transport := Some t\<rparr>)
      in \<lparr>fm_Yggdrasil = yggdrasil_New transport (cc_AuthInfo c), fm_Transport = transport\<rparr>)"

text \<open>The calls. The arguments of a call are not nil.\<close>

definition Client_GetControlMessageForDevice ::
  "('ctx, 'cl, 'tp, 'w) net \<Rightarrow> ('tp, 'au) Client \<Rightarrow> 'ctx option \<Rightarrow> ('ctx, 'cl) GetControlMessageForDeviceParams \<Rightarrow>
   ('w, (GetControlMessageForDeviceResponse read_error + Message option) outcome) io" where
  "Client_GetControlMessageForDevice N a ctx params = do {
     r \<leftarrow> Submit N (cl_transport a)
       \<lparr>co_ID = ''GetControlMessageForDevice'', co_Method = ''GET'', co_PathPattern = ''/control/{device_id}/in'',
        co_ProducesMediaTypes = [''application/json''], co_ConsumesMediaTypes = [''application/json''],
        co_Schemes = [''http'', ''https''], co_Params = GetControlMessageForDeviceParams_WriteToRequest params,
        co_Reader = (\<lambda>js. GetControlMessageForDevice_ReadResponse (js_message js)), co_AuthInfo = None,
        co_Context = ctx, co_Client = gcp_HTTPClient params\<rparr>;
     ret (case r of
         Inl err \<Rightarrow> Done (Inl err)
       | Inr result \<Rightarrow> (case result of GetControlMessageForDeviceOK p \<Rightarrow> Done (Inr p) | _ \<Rightarrow> Panic ''interface conversion''))
   }"

definition Client_GetDataMessageForDevice ::
  "('ctx, 'cl, 'tp, 'w) net \<Rightarrow> ('tp, 'au) Client \<Rightarrow> 'ctx option \<Rightarrow> ('ctx, 'cl) GetDataMessageForDeviceParams \<Rightarrow>
   ('w, (GetDataMessageForDeviceResponse read_error + Message option) outcome) io" where
  "Client_GetDataMessageForDevice N a ctx params = do {
     r \<leftarrow> Submit N (cl_transport a)
       \<lparr>co_ID = ''GetDataMessageForDevice'', co_Method = ''GET'', co_PathPattern = ''/data/{device_id}/in'',
        co_ProducesMediaTypes = [''application/json''], co_ConsumesMediaTypes = [''application/json''],
        co_Schemes = [''http'', ''https''], co_Params = GetDataMessageForDeviceParams_WriteToRequest params,
        co_Reader = (\<lambda>js. GetDataMessageForDevice_ReadResponse (js_message js)), co_AuthInfo = None,
        co_Context = ctx, co_Client = gdp_HTTPClient params\<rparr>;
     ret (case r of
         Inl err \<Rightarrow> Done (Inl err)
       | Inr result \<Rightarrow> (case result of GetDataMessageForDeviceOK p \<Rightarrow> Done (Inr p) | _ \<Rightarrow> Panic ''interface conversion''))
   }"

definition Client_PostControlMessageForDevice ::
  "('ctx, 'cl, 'tp, 'w) net \<Rightarrow> ('tp, 'au) Client \<Rightarrow> 'ctx option \<Rightarrow> ('ctx, 'cl) PostControlMessageForDeviceParams \<Rightarrow>
   ('w, (PostControlMessageForDeviceResponse read_error + unit) outcome) io" where
  "Client_PostControlMessageForDevice N a ctx params = do {
     r \<leftarrow> Submit N (cl_transport a)
       \<lparr>co_ID = ''PostControlMessageForDevice'', co_Method = ''POST'', co_PathPattern = ''/control/{device_id}/out'',
        co_ProducesMediaTypes = [''application/json''], co_ConsumesMediaTypes = [''application/json''],
        co_Schemes = [''http'', ''https''], co_Params = PostControlMessageForDeviceParams_WriteToRequest params,
        co_Reader = (\<lambda>js. PostControlMessageForDevice_ReadResponse), co_AuthInfo = None,
        co_Context = ctx, co_Client = pcp_HTTPClient params\<rparr>;
     ret (case r of
         Inl err \<Rightarrow> Done (Inl err)
       | Inr result \<Rightarrow> (case result of PostControlMessageForDeviceOK \<Rightarrow> Done (Inr ()) | _ \<Rightarrow> Panic ''interface conversion''))
   }"

definition Client_PostDataMessageForDevice ::
  "('ctx, 'cl, 'tp, 'w) net \<Rightarrow> ('tp, 'au) Client \<Rightarrow> 'ctx option \<Rightarrow> ('ctx, 'cl) PostDataMessageForDeviceParams \<Rightarrow>
   ('w, (PostDataMessageForDeviceResponse read_error + MessageResponse option) outcome) io" where
  "Client_PostDataMessageForDevice N a ctx params = do {
     r \<leftarrow> Submit N (cl_transport a)
       \<lparr>co_ID = ''PostDataMessageForDevice'', co_Method = ''POST'', co_PathPattern = ''/data/{device_id}/out'',
        co_ProducesMediaTypes = [''application/json''], co_ConsumesMediaTypes = [''application/json''],
        co_Schemes = [''http'', ''https''], co_Params = PostDataMessageForDeviceParams_WriteToRequest params,
        co_Reader = (\<lambda>js. PostDataMessageForDevice_ReadResponse (js_response js)), co_AuthInfo = None,
        co_Context = ctx, co_Client = pdp_HTTPClient params\<rparr>;
     ret (case r of
         Inl err \<Rightarrow> Done (Inl err)
       | Inr result \<Rightarrow> (case result of PostDataMessageForDeviceOK p \<Rightarrow> Done (Inr p) | _ \<Rightarrow> Panic ''interface conversion''))
   }"

section \<open>The texts of the responses\<close>

text \<open>Every response of the client is an \<open>error\<close>: its text has the operation, the status and the name of the
  response. The rendering of a payload (\<open>%+v\<close>) is an argument.\<close>

fun GetControlMessageForDevice_Error :: "(Message option \<Rightarrow> string) \<Rightarrow> GetControlMessageForDeviceResponse \<Rightarrow> string" where
  "GetControlMessageForDevice_Error fmt (GetControlMessageForDeviceOK payload) = ''[GET /control/{device_id}/in][200] getControlMessageForDeviceOK  '' @ fmt payload"
| "GetControlMessageForDevice_Error fmt GetControlMessageForDeviceUnauthorized = ''[GET /control/{device_id}/in][401] getControlMessageForDeviceUnauthorized ''"
| "GetControlMessageForDevice_Error fmt GetControlMessageForDeviceForbidden = ''[GET /control/{device_id}/in][403] getControlMessageForDeviceForbidden ''"
| "GetControlMessageForDevice_Error fmt GetControlMessageForDeviceNotFound = ''[GET /control/{device_id}/in][404] getControlMessageForDeviceNotFound ''"
| "GetControlMessageForDevice_Error fmt GetControlMessageForDeviceInternalServerError = ''[GET /control/{device_id}/in][500] getControlMessageForDeviceInternalServerError ''"

fun GetDataMessageForDevice_Error :: "(Message option \<Rightarrow> string) \<Rightarrow> GetDataMessageForDeviceResponse \<Rightarrow> string" where
  "GetDataMessageForDevice_Error fmt (GetDataMessageForDeviceOK payload) = ''[GET /data/{device_id}/in][200] getDataMessageForDeviceOK  '' @ fmt payload"
| "GetDataMessageForDevice_Error fmt GetDataMessageForDeviceUnauthorized = ''[GET /data/{device_id}/in][401] getDataMessageForDeviceUnauthorized ''"
| "GetDataMessageForDevice_Error fmt GetDataMessageForDeviceForbidden = ''[GET /data/{device_id}/in][403] getDataMessageForDeviceForbidden ''"
| "GetDataMessageForDevice_Error fmt GetDataMessageForDeviceNotFound = ''[GET /data/{device_id}/in][404] getDataMessageForDeviceNotFound ''"
| "GetDataMessageForDevice_Error fmt GetDataMessageForDeviceInternalServerError = ''[GET /data/{device_id}/in][500] getDataMessageForDeviceInternalServerError ''"

fun PostControlMessageForDevice_Error :: "PostControlMessageForDeviceResponse \<Rightarrow> string" where
  "PostControlMessageForDevice_Error PostControlMessageForDeviceOK = ''[POST /control/{device_id}/out][200] postControlMessageForDeviceOK ''"
| "PostControlMessageForDevice_Error PostControlMessageForDeviceUnauthorized = ''[POST /control/{device_id}/out][401] postControlMessageForDeviceUnauthorized ''"
| "PostControlMessageForDevice_Error PostControlMessageForDeviceForbidden = ''[POST /control/{device_id}/out][403] postControlMessageForDeviceForbidden ''"
| "PostControlMessageForDevice_Error PostControlMessageForDeviceNotFound = ''[POST /control/{device_id}/out][404] postControlMessageForDeviceNotFound ''"
| "PostControlMessageForDevice_Error PostControlMessageForDeviceInternalServerError = ''[POST /control/{device_id}/out][500] postControlMessageForDeviceInternalServerError ''"

fun PostDataMessageForDevice_Error :: "(MessageResponse option \<Rightarrow> string) \<Rightarrow> PostDataMessageForDeviceResponse \<Rightarrow> string" where
  "PostDataMessageForDevice_Error fmt (PostDataMessageForDeviceOK payload) = ''[POST /data/{device_id}/out][200] postDataMessageForDeviceOK  '' @ fmt payload"
| "PostDataMessageForDevice_Error fmt PostDataMessageForDeviceBadRequest = ''[POST /data/{device_id}/out][400] postDataMessageForDeviceBadRequest ''"
| "PostDataMessageForDevice_Error fmt PostDataMessageForDeviceUnauthorized = ''[POST /data/{device_id}/out][401] postDataMessageForDeviceUnauthorized ''"
| "PostDataMessageForDevice_Error fmt PostDataMessageForDeviceForbidden = ''[POST /data/{device_id}/out][403] postDataMessageForDeviceForbidden ''"
| "PostDataMessageForDevice_Error fmt PostDataMessageForDeviceNotFound = ''[POST /data/{device_id}/out][404] postDataMessageForDeviceNotFound ''"
| "PostDataMessageForDevice_Error fmt PostDataMessageForDeviceInternalServerError = ''[POST /data/{device_id}/out][500] postDataMessageForDeviceInternalServerError ''"

text \<open>The error a call returns for a status of the server names the operation and that status.\<close>

lemma status_in_error:
  "GetControlMessageForDevice_ReadResponse consume code body = Inl (StatusError r1) \<Longrightarrow>
     HasPrefix (GetControlMessageForDevice_Error fmt r1) (''[GET /control/{device_id}/in]['' @ FormatInt code @ '']'')"
  "GetDataMessageForDevice_ReadResponse consume code body = Inl (StatusError r2) \<Longrightarrow>
     HasPrefix (GetDataMessageForDevice_Error fmt r2) (''[GET /data/{device_id}/in]['' @ FormatInt code @ '']'')"
  "PostControlMessageForDevice_ReadResponse code body = Inl (StatusError r3) \<Longrightarrow>
     HasPrefix (PostControlMessageForDevice_Error r3) (''[POST /control/{device_id}/out]['' @ FormatInt code @ '']'')"
  "PostDataMessageForDevice_ReadResponse consumeR code body = Inl (StatusError r4) \<Longrightarrow>
     HasPrefix (PostDataMessageForDevice_Error fmtR r4) (''[POST /data/{device_id}/out]['' @ FormatInt code @ '']'')"
proof -
  have itoa: "FormatInt 400 = ''400''" "FormatInt 401 = ''401''" "FormatInt 403 = ''403''" "FormatInt 404 = ''404''" "FormatInt 500 = ''500''" by code_simp+
  note reads = GetControlMessageForDevice_ReadResponse_def GetDataMessageForDevice_ReadResponse_def
    PostControlMessageForDevice_ReadResponse_def PostDataMessageForDevice_ReadResponse_def read_ok_def
  show "GetControlMessageForDevice_ReadResponse consume code body = Inl (StatusError r1) \<Longrightarrow>
     HasPrefix (GetControlMessageForDevice_Error fmt r1) (''[GET /control/{device_id}/in]['' @ FormatInt code @ '']'')"
    by (auto simp: reads itoa HasPrefix_def split: if_splits sum.splits)
  show "GetDataMessageForDevice_ReadResponse consume code body = Inl (StatusError r2) \<Longrightarrow>
     HasPrefix (GetDataMessageForDevice_Error fmt r2) (''[GET /data/{device_id}/in]['' @ FormatInt code @ '']'')"
    by (auto simp: reads itoa HasPrefix_def split: if_splits sum.splits)
  show "PostControlMessageForDevice_ReadResponse code body = Inl (StatusError r3) \<Longrightarrow>
     HasPrefix (PostControlMessageForDevice_Error r3) (''[POST /control/{device_id}/out]['' @ FormatInt code @ '']'')"
    by (auto simp: reads itoa HasPrefix_def split: if_splits sum.splits)
  show "PostDataMessageForDevice_ReadResponse consumeR code body = Inl (StatusError r4) \<Longrightarrow>
     HasPrefix (PostDataMessageForDevice_Error fmtR r4) (''[POST /data/{device_id}/out]['' @ FormatInt code @ '']'')"
    by (auto simp: reads itoa HasPrefix_def split: if_splits sum.splits)
qed

section \<open>The path of a call\<close>

lemma hex_upper: "n < 16 \<Longrightarrow> hex_value (upper_hex n) = Some n"
  by (auto simp: hex_value_def upper_hex_def Let_def of_char_of)

lemma escape_byte: "path_unescape ([CHR ''%'', upper_hex (of_char c div 16), upper_hex (of_char c mod 16)] @ s) =
  map_option ((#) c) (path_unescape s)"
proof -
  have "of_char c div 16 < (16 :: nat)" by (rule less_mult_imp_div_less) simp
  then show ?thesis by (simp add: hex_upper)
qed

text \<open>A device id survives the escaping.\<close>

lemma unescape_escape: "path_unescape (path_escape i @ t) = map_option ((@) i) (path_unescape t)"
proof (induction i)
  case (Cons c i)
  then show ?case using escape_byte [of c "path_escape i @ t"]
    by (auto simp: path_escape_def path_unreserved_def List.member_iff option.map_comp comp_def)
qed (simp add: path_escape_def option.map_ident)

lemma unescape_append:
  "CHR ''%'' \<notin> set a \<Longrightarrow> path_unescape (a @ s) = map_option ((@) a) (path_unescape s)"
  by (induction a) (auto simp: option.map_comp comp_def fun_eq_iff option.map_ident cong: option.map_cong)

definition operation_method :: "operation \<Rightarrow> string" where
  "operation_method op = (if op \<in> {GetControlMessageForDeviceOp, GetDataMessageForDeviceOp} then ''GET'' else ''POST'')"

definition operation_pattern :: "operation \<Rightarrow> string" where
  "operation_pattern op = ''/'' @ fst (operation_names op) @ ''/{device_id}/'' @ snd (operation_names op)"

definition api_path :: "operation \<Rightarrow> string \<Rightarrow> string" where
  "api_path op i = ''/api/flotta-management/v1/'' @ fst (operation_names op) @ ''/'' @ i @ ''/'' @ snd (operation_names op)"

text \<open>What is used of the router for a device: the path of an operation leads to that operation, with the
  device id unescaped.\<close>

definition routed :: "runtime \<Rightarrow> operation \<Rightarrow> string \<Rightarrow> bool" where
  "routed rt op i \<longleftrightarrow> rt_match rt (operation_method op) (api_path op (path_escape i)) =
     Some (operation_method op, operation_pattern op, [i])"

lemma base_joined:
  "path_Join [''/api/flotta-management/v1'', operation_pattern op] =
     ''/api/flotta-management/v1/'' @ fst (operation_names op) @ ''/{device_id}/'' @ snd (operation_names op)"
  by (cases op; hypsubst; code_simp)

lemma url_path_device:
  "url_path ''/api/flotta-management/v1'' (operation_pattern op) [(''device_id'', i)] = api_path op (path_escape i)"
  unfolding url_path_def base_joined
  by (cases op) (simp_all add: api_path_def operation_pattern_def strings_ReplaceAll.simps HasPrefix_def)

section \<open>A client connected to the server\<close>

text \<open>A request as the server sees it: \<open>runtime.HasBody\<close> is false for an empty body. A response as the
  client sees it: a handler that panics closes the connection, and a status that was not written is 200.\<close>

definition to_server :: "Certificate list option \<Rightarrow> HTTPRequest \<Rightarrow> Request" where
  "to_server peers req =
     \<lparr>rq_Method = hr_Method req,
      rq_URL = \<lparr>url_Scheme = [], url_Host = [],
                url_Path = (case path_unescape (hr_Path req) of None \<Rightarrow> hr_Path req | Some p \<Rightarrow> p)\<rparr>,
      rq_EscapedPath = hr_Path req, rq_TLS = peers,
      rq_Body = (case hr_Body req of None \<Rightarrow> None | Some t \<Rightarrow> if t = [] then None else Some t)\<rparr>"

definition connection_lost :: goerr where
  "connection_lost = Errorf ''EOF''"

definition http_response :: "ResponseWriter outcome \<Rightarrow> HTTPResponse result" where
  "http_response out = (case out of
     Panic _ \<Rightarrow> Inl connection_lost
   | Done rw \<Rightarrow> Inr \<lparr>hs_Code = (case rw_Code rw of None \<Rightarrow> 200 | Some c \<Rightarrow> c), hs_ContentType = rw_ContentType rw,
                     hs_Body = rw_Body rw\<rparr>)"

text \<open>What arrives of a payload: what the consumer of the client makes of the text of the producer.\<close>

definition arrived :: "'p \<Rightarrow> ('p \<Rightarrow> string result) \<Rightarrow> (string \<Rightarrow> 'p consumed) \<Rightarrow> 'p option \<Rightarrow> 'r read_error + 'p option" where
  "arrived zero produce consume payload =
     (case (case payload of None \<Rightarrow> Inr [] | Some p \<Rightarrow> produce p) of
        Inl err \<Rightarrow> Inl (ReadFailed connection_lost)
      | Inr text \<Rightarrow> (case read_payload zero consume text of Inl err \<Rightarrow> Inl (ReadFailed err) | Inr p \<Rightarrow> Inr (Some p)))"

fun control_received ::
  "runtime \<Rightarrow> JSON \<Rightarrow> GetControlMessageForDeviceResponse \<Rightarrow> GetControlMessageForDeviceResponse read_error + Message option" where
  "control_received rt js (GetControlMessageForDeviceOK p) = arrived empty_message (rt_produce_message rt) (js_message js) p"
| "control_received rt js r = Inl (StatusError r)"

fun data_received ::
  "runtime \<Rightarrow> JSON \<Rightarrow> GetDataMessageForDeviceResponse outcome \<Rightarrow> GetDataMessageForDeviceResponse read_error + Message option" where
  "data_received rt js (Panic x) = Inl (ReadFailed connection_lost)"
| "data_received rt js (Done (GetDataMessageForDeviceOK p)) = arrived empty_message (rt_produce_message rt) (js_message js) p"
| "data_received rt js (Done r) = Inl (StatusError r)"

fun control_posted ::
  "PostControlMessageForDeviceResponse \<Rightarrow> PostControlMessageForDeviceResponse read_error + unit" where
  "control_posted PostControlMessageForDeviceOK = Inr ()"
| "control_posted r = Inl (StatusError r)"

fun data_posted ::
  "runtime \<Rightarrow> JSON \<Rightarrow> PostDataMessageForDeviceResponse outcome \<Rightarrow> PostDataMessageForDeviceResponse read_error + MessageResponse option" where
  "data_posted rt js (Panic x) = Inl (ReadFailed connection_lost)"
| "data_posted rt js (Done (PostDataMessageForDeviceOK p)) = arrived empty_response (rt_produce_response rt) (js_response js) p"
| "data_posted rt js (Done r) = Inl (StatusError r)"

text \<open>The server accepts a message: its text is not empty, decodes and is valid; \<open>m'\<close> is what the server
  gets of the message.\<close>

definition accepted :: "('ctx, 'cl, 'tp, 'w) net \<Rightarrow> runtime \<Rightarrow> Message \<Rightarrow> string \<Rightarrow> Message \<Rightarrow> bool" where
  "accepted N rt m text m' \<longleftrightarrow> js_produce (nt_json N) m = Inr text \<and> text \<noteq> [] \<and> rt_consume rt text = Consumed m' \<and>
     Message_Validate (rt_date_time rt) m' = None"

lemma accepted_produced: "accepted N rt m text m' \<Longrightarrow> js_produce (nt_json N) m = Inr text"
  by (simp add: accepted_def)

lemma accepted_bound: "accepted N rt m text m' \<Longrightarrow>
  Post_BindRequest (rt_consume rt) (rt_date_time rt) [i] (if text = [] then None else Some text) =
    Inr \<lparr>pp_DeviceID = i, pp_Message = Some m'\<rparr>"
  by (simp add: accepted_def Post_BindRequest_def bind_message_def bindDeviceID_def)

text \<open>The context a call runs under: the one it is given, or when that is nil the timeout of its parameters.\<close>

definition call_context :: "'ctx option \<Rightarrow> int64 \<Rightarrow> 'ctx + int64" where
  "call_context ctx timeout = (case ctx of Some c \<Rightarrow> Inl c | None \<Rightarrow> Inr timeout)"

text \<open>The contract of a connection: a request made with an HTTP client, a transport and a context that are
  \<open>live\<close>, that is, reach the server and last until the response is there, is delivered to the started server and the
  response back; of other requests nothing is assumed. The client talks HTTP, or TLS with certificates the
  server admits; its paths are under the base path of the API; the server accepts the content types of its
  requests and answers them in JSON.\<close>

locale connection =
  fixes N :: "('ctx, 'cl, 'tp, 'w) net" and a :: "('tp, 'au) Client"
    and rt :: runtime and E :: "'w env" and C :: "'w crypto" and sv :: "'w Server"
    and peers :: "Certificate list option" and js :: JSON
    and live :: "'cl option \<Rightarrow> 'tp option \<Rightarrow> 'ctx + int64 \<Rightarrow> bool"
  assumes connected: "live cl tp ctx \<Longrightarrow> run_state (nt_Do N cl tp ctx req) w =
      apfst http_response (run_state (serve_request rt E C sv (to_server peers req) fresh_writer) w)"
    and started: "\<exists>cfg ns synced w0 w1. run_state (serve E C cfg ns synced None) w0 = (Running sv, w1)"
    and admits: "peers = Some ps \<Longrightarrow> admitted C sv ps"
    and base: "tr_BasePath (cl_transport a) = ''/api/flotta-management/v1''"
    and router: "router_law rt"
    and negotiated: "rt_negotiate rt (to_server peers req) = []"
    and formatted: "rt_format rt (to_server peers req) = ''application/json''"
    and json: "nt_consumer N ''application/json'' = Inr js"
begin

lemma escaped: "escaped_path (to_server peers \<lparr>hr_Method = m, hr_Scheme = sc, hr_Host = ho, hr_Path = api_path op (path_escape i), hr_Body = b\<rparr>)"
proof -
  have plain: "CHR ''%'' \<notin> set (''/api/flotta-management/v1/'' @ fst (operation_names op) @ ''/'')"
    "CHR ''%'' \<notin> set (''/'' @ snd (operation_names op))" by (cases op; simp)+
  have "path_unescape (api_path op (path_escape i)) \<noteq> None"
    using unescape_append [OF plain(1), of "path_escape i @ ''/'' @ snd (operation_names op)"] unescape_plain [OF plain(2)]
    by (simp add: api_path_def unescape_escape)
  then show ?thesis by (auto simp: escaped_path_def to_server_def)
qed

text \<open>A call of an operation ends up in the operation of the server.\<close>

lemma served:
  assumes "routed rt op i"
  shows "serve_request rt E C sv (to_server peers \<lparr>hr_Method = operation_method op, hr_Scheme = sc, hr_Host = ho,
      hr_Path = api_path op (path_escape i), hr_Body = b\<rparr>) rw =
    operation_ServeHTTP op rt E (sv_handler sv) [i] (to_server peers \<lparr>hr_Method = operation_method op, hr_Scheme = sc,
      hr_Host = ho, hr_Path = api_path op (path_escape i), hr_Body = b\<rparr>) rw"
    (is "serve_request rt E C sv ?r rw = _")
proof -
  obtain x api where api: "HandlerAPI None () () id id = Inr (x :: unit served, api)" "sv_api sv = Some api"
    using started serve_api by metis
  have match: "rt_match rt (rq_Method ?r) (rq_EscapedPath ?r) = Some (operation_method op, operation_pattern op, [i])"
    using assms by (simp add: to_server_def routed_def)
  have "route (strings_ToUpper (rt_upper rt) (operation_method op)) (operation_pattern op) = Some op"
    unfolding route_iff by (simp add: operation_method_def operation_pattern_def)
  from serve_request_routed [OF api router escaped match this] admits show ?thesis
    by (cases peers) (simp_all add: to_server_def)
qed

text \<open>What the client makes of the outcome of the server.\<close>

definition client_view :: "('ctx, 'cl, 'res) ClientOperation \<Rightarrow> ResponseWriter outcome \<Rightarrow> 'res read_error + 'res" where
  "client_view operation out = (case out of
     Panic _ \<Rightarrow> Inl (ReadFailed connection_lost)
   | Done rw \<Rightarrow>
       (case nt_consumer N (case rw_ContentType rw of None \<Rightarrow> ''application/json'' | Some ct \<Rightarrow> ct) of
          Inl err \<Rightarrow> Inl (ReadFailed err)
        | Inr js \<Rightarrow> co_Reader operation js (case rw_Code rw of None \<Rightarrow> 200 | Some c \<Rightarrow> c) (rw_Body rw)))"

lemma client_view_panic: "client_view operation (Panic x) = Inl (ReadFailed connection_lost)"
  by (simp add: client_view_def)

lemma client_view_empty:
  "client_view operation (write_empty code (fresh_writer\<lparr>rw_ContentType := ct\<rparr>)) = co_Reader operation js code []"
  by (simp add: client_view_def write_empty_def WriteHeader_def fresh_writer_def json)

lemma client_view_payload:
  "client_view operation (write_payload produce payload (WriteHeader code (fresh_writer\<lparr>rw_ContentType := Some ''application/json''\<rparr>))) =
     (case (case payload of None \<Rightarrow> Inr [] | Some p \<Rightarrow> produce p) of
        Inl err \<Rightarrow> Inl (ReadFailed connection_lost)
      | Inr text \<Rightarrow> co_Reader operation js code text)"
  by (simp add: client_view_def write_payload_def WriteHeader_def fresh_writer_def json split: option.split sum.split)

text \<open>The request of an operation as the server gets it.\<close>

definition sent :: "('ctx, 'cl, 'res) ClientOperation \<Rightarrow> operation \<Rightarrow> string \<Rightarrow> string option \<Rightarrow> Request" where
  "sent operation op i b = to_server peers
     \<lparr>hr_Method = operation_method op, hr_Scheme = pickScheme (cl_transport a) (co_Schemes operation),
      hr_Host = tr_Host (cl_transport a), hr_Path = api_path op (path_escape i), hr_Body = b\<rparr>"

lemma sent_body [simp]: "rq_Body (sent operation op i b) = (if b = Some [] then None else b)"
  by (simp add: sent_def to_server_def split: option.split)

lemma sent_negotiated [simp]:
  "rt_negotiate rt (sent operation op i b) = []" "rt_format rt (sent operation op i b) = ''application/json''"
  by (simp_all add: sent_def negotiated formatted)

lemma Submit_served:
  assumes "co_Method operation = operation_method op" and "co_PathPattern operation = operation_pattern op"
    and "co_AuthInfo operation = None"
    and "co_Params operation newRequest = Inr \<lparr>cq_timeout = t, cq_pathParams = [(''device_id'', i)], cq_payload = mo\<rparr>"
    and "b = map_option (\<lambda>_. text) mo" and "\<And>m. mo = Some m \<Longrightarrow> js_produce (nt_json N) m = Inr text"
    and "routed rt op i" and "live (co_Client operation) (tr_Transport (cl_transport a)) (call_context (co_Context operation) t)"
  shows "run_state (Submit N (cl_transport a) operation) w = apfst (client_view operation)
    (run_state (operation_ServeHTTP op rt E (sv_handler sv) [i] (sent operation op i b) fresh_writer) w)"
    (is "_ = apfst _ ?run")
proof -
  have "url_path (tr_BasePath (cl_transport a)) (operation_pattern op) [(''device_id'', i)] = api_path op (path_escape i)"
    using url_path_device [of op i] by (simp add: base)
  then have build: "buildHTTP (nt_json N) (cl_transport a) operation =
    Inr (\<lparr>cq_timeout = t, cq_pathParams = [(''device_id'', i)], cq_payload = mo\<rparr>, \<lparr>hr_Method = operation_method op,
      hr_Scheme = pickScheme (cl_transport a) (co_Schemes operation), hr_Host = tr_Host (cl_transport a),
      hr_Path = api_path op (path_escape i), hr_Body = b\<rparr>)"
    using assms by (cases mo) (simp_all add: buildHTTP_def)
  have ctx: "(case co_Context operation of None \<Rightarrow> Inr (cq_timeout \<lparr>cq_timeout = t, cq_pathParams = [(''device_id'', i)], cq_payload = mo\<rparr>)
      | Some c \<Rightarrow> Inl c) = call_context (co_Context operation) t" by (simp add: call_context_def split: option.split)
  show ?thesis
  proof (cases ?run)
    case (Pair out w')
    then show ?thesis
      unfolding Submit_def build Let_def
      by (cases out) (simp_all add: ctx connected [OF assms(8)] served [OF assms(7)] http_response_def client_view_def sent_def split: sum.split)
  qed
qed

lemmas call_defs = newRequest_def request_SetTimeout_def request_SetPathParam_def request_SetBodyParam_def
  operation_method_def operation_pattern_def

lemmas serve_defs = BindValidRequest_def Respond_def Get_BindRequest_def bindDeviceID_def
  client_view_panic client_view_empty client_view_payload arrived_def read_ok_def

lemma GetControl_call:
  assumes "routed rt GetControlMessageForDeviceOp (gcp_DeviceID p)"
    and live: "live (gcp_HTTPClient p) (tr_Transport (cl_transport a)) (call_context ctx (gcp_timeout p))"
  shows "run_state (Client_GetControlMessageForDevice N a ctx p) w =
    apfst (Done \<circ> control_received rt js) (run_state (GetControlMessageForDevice E (sv_handler sv) \<lparr>gp_DeviceID = gcp_DeviceID p\<rparr>) w)"
proof -
  let ?op = "\<lparr>co_ID = ''GetControlMessageForDevice'', co_Method = ''GET'', co_PathPattern = ''/control/{device_id}/in'',
        co_ProducesMediaTypes = [''application/json''], co_ConsumesMediaTypes = [''application/json''],
        co_Schemes = [''http'', ''https''], co_Params = GetControlMessageForDeviceParams_WriteToRequest p,
        co_Reader = (\<lambda>js. GetControlMessageForDevice_ReadResponse (js_message js)), co_AuthInfo = None,
        co_Context = ctx, co_Client = gcp_HTTPClient p\<rparr>"
  have submit: "run_state (Submit N (cl_transport a) ?op) w = apfst (client_view ?op)
      (run_state (GetControlMessageForDevice_ServeHTTP rt E (sv_handler sv) [gcp_DeviceID p]
        (sent ?op GetControlMessageForDeviceOp (gcp_DeviceID p) None) fresh_writer) w)"
    using Submit_served [of ?op GetControlMessageForDeviceOp "gcp_timeout p" "gcp_DeviceID p" None None "[]", OF _ _ _ _ _ _ assms(1) _, of w] live
    by (simp add: GetControlMessageForDeviceParams_WriteToRequest_def call_defs)
  obtain x w' where run: "run_state (GetControlMessageForDevice E (sv_handler sv) \<lparr>gp_DeviceID = gcp_DeviceID p\<rparr>) w = (x, w')"
    by (metis surj_pair)
  show ?thesis
    unfolding Client_GetControlMessageForDevice_def
    using run
    by (cases x)
      (simp_all add: submit GetControlMessageForDevice_ServeHTTP_def serve_defs
        GetControlMessageForDevice_ReadResponse_def split: option.split sum.split)
qed

lemma GetData_call:
  assumes "routed rt GetDataMessageForDeviceOp (gdp_DeviceID p)"
    and live: "live (gdp_HTTPClient p) (tr_Transport (cl_transport a)) (call_context ctx (gdp_timeout p))"
  shows "run_state (Client_GetDataMessageForDevice N a ctx p) w =
    apfst (Done \<circ> data_received rt js) (run_state (GetDataMessageForDevice E (sv_handler sv) \<lparr>gp_DeviceID = gdp_DeviceID p\<rparr>) w)"
proof -
  let ?op = "\<lparr>co_ID = ''GetDataMessageForDevice'', co_Method = ''GET'', co_PathPattern = ''/data/{device_id}/in'',
        co_ProducesMediaTypes = [''application/json''], co_ConsumesMediaTypes = [''application/json''],
        co_Schemes = [''http'', ''https''], co_Params = GetDataMessageForDeviceParams_WriteToRequest p,
        co_Reader = (\<lambda>js. GetDataMessageForDevice_ReadResponse (js_message js)), co_AuthInfo = None,
        co_Context = ctx, co_Client = gdp_HTTPClient p\<rparr>"
  have submit: "run_state (Submit N (cl_transport a) ?op) w = apfst (client_view ?op)
      (run_state (GetDataMessageForDevice_ServeHTTP rt E (sv_handler sv) [gdp_DeviceID p]
        (sent ?op GetDataMessageForDeviceOp (gdp_DeviceID p) None) fresh_writer) w)"
    using Submit_served [of ?op GetDataMessageForDeviceOp "gdp_timeout p" "gdp_DeviceID p" None None "[]", OF _ _ _ _ _ _ assms(1) _, of w] live
    by (simp add: GetDataMessageForDeviceParams_WriteToRequest_def call_defs)
  obtain x w' where run: "run_state (GetDataMessageForDevice E (sv_handler sv) \<lparr>gp_DeviceID = gdp_DeviceID p\<rparr>) w = (x, w')"
    by (metis surj_pair)
  show ?thesis
    unfolding Client_GetDataMessageForDevice_def
    using run
    by (cases "(rt, js, x)" rule: data_received.cases)
      (simp_all add: submit GetDataMessageForDevice_ServeHTTP_def serve_defs
        GetDataMessageForDevice_ReadResponse_def split: option.split sum.split)
qed

lemma PostControl_call:
  assumes "routed rt PostControlMessageForDeviceOp (pcp_DeviceID p)"
    and live: "live (pcp_HTTPClient p) (tr_Transport (cl_transport a)) (call_context ctx (pcp_timeout p))"
    and "pcp_Message p = Some m" and "accepted N rt m text m'"
  shows "run_state (Client_PostControlMessageForDevice N a ctx p) w =
    apfst (Done \<circ> control_posted) (run_state (PostControlMessageForDevice E (sv_handler sv) \<lparr>pp_DeviceID = pcp_DeviceID p, pp_Message = Some m'\<rparr>) w)"
proof -
  let ?op = "\<lparr>co_ID = ''PostControlMessageForDevice'', co_Method = ''POST'', co_PathPattern = ''/control/{device_id}/out'',
        co_ProducesMediaTypes = [''application/json''], co_ConsumesMediaTypes = [''application/json''],
        co_Schemes = [''http'', ''https''], co_Params = PostControlMessageForDeviceParams_WriteToRequest p,
        co_Reader = (\<lambda>js. PostControlMessageForDevice_ReadResponse), co_AuthInfo = None,
        co_Context = ctx, co_Client = pcp_HTTPClient p\<rparr>"
  have submit: "run_state (Submit N (cl_transport a) ?op) w = apfst (client_view ?op)
      (run_state (PostControlMessageForDevice_ServeHTTP rt E (sv_handler sv) [pcp_DeviceID p]
        (sent ?op PostControlMessageForDeviceOp (pcp_DeviceID p) (Some text)) fresh_writer) w)"
    using Submit_served [of ?op PostControlMessageForDeviceOp "pcp_timeout p" "pcp_DeviceID p" "Some m" "Some text" "text", OF _ _ _ _ _ _ assms(1) _, of w] live
    by (simp add: PostControlMessageForDeviceParams_WriteToRequest_def call_defs assms(3) accepted_produced [OF assms(4)])
  obtain x w' where run: "run_state (PostControlMessageForDevice E (sv_handler sv) \<lparr>pp_DeviceID = pcp_DeviceID p, pp_Message = Some m'\<rparr>) w = (x, w')"
    by (metis surj_pair)
  show ?thesis
    unfolding Client_PostControlMessageForDevice_def
    using run
    by (cases x)
      (simp_all add: submit PostControlMessageForDevice_ServeHTTP_def serve_defs accepted_bound [OF assms(4)]
        PostControlMessageForDevice_ReadResponse_def split: option.split sum.split)
qed

lemma PostData_call:
  assumes "routed rt PostDataMessageForDeviceOp (pdp_DeviceID p)"
    and live: "live (pdp_HTTPClient p) (tr_Transport (cl_transport a)) (call_context ctx (pdp_timeout p))"
    and "pdp_Message p = Some m" and "accepted N rt m text m'"
  shows "run_state (Client_PostDataMessageForDevice N a ctx p) w =
    apfst (Done \<circ> data_posted rt js) (run_state (PostDataMessageForDevice E (sv_handler sv) \<lparr>pp_DeviceID = pdp_DeviceID p, pp_Message = Some m'\<rparr>) w)"
proof -
  let ?op = "\<lparr>co_ID = ''PostDataMessageForDevice'', co_Method = ''POST'', co_PathPattern = ''/data/{device_id}/out'',
        co_ProducesMediaTypes = [''application/json''], co_ConsumesMediaTypes = [''application/json''],
        co_Schemes = [''http'', ''https''], co_Params = PostDataMessageForDeviceParams_WriteToRequest p,
        co_Reader = (\<lambda>js. PostDataMessageForDevice_ReadResponse (js_response js)), co_AuthInfo = None,
        co_Context = ctx, co_Client = pdp_HTTPClient p\<rparr>"
  have submit: "run_state (Submit N (cl_transport a) ?op) w = apfst (client_view ?op)
      (run_state (PostDataMessageForDevice_ServeHTTP rt E (sv_handler sv) [pdp_DeviceID p]
        (sent ?op PostDataMessageForDeviceOp (pdp_DeviceID p) (Some text)) fresh_writer) w)"
    using Submit_served [of ?op PostDataMessageForDeviceOp "pdp_timeout p" "pdp_DeviceID p" "Some m" "Some text" "text", OF _ _ _ _ _ _ assms(1) _, of w] live
    by (simp add: PostDataMessageForDeviceParams_WriteToRequest_def call_defs assms(3) accepted_produced [OF assms(4)])
  obtain x w' where run: "run_state (PostDataMessageForDevice E (sv_handler sv) \<lparr>pp_DeviceID = pdp_DeviceID p, pp_Message = Some m'\<rparr>) w = (x, w')"
    by (metis surj_pair)
  show ?thesis
    unfolding Client_PostDataMessageForDevice_def
    using run
    by (cases "(rt, js, x)" rule: data_posted.cases)
      (simp_all add: submit PostDataMessageForDevice_ServeHTTP_def serve_defs accepted_bound [OF assms(4)]
        PostDataMessageForDevice_ReadResponse_def split: option.split sum.split)
qed

end

section \<open>The contract can hold\<close>

text \<open>A router for one device, and the started server behind a network that hands requests over.\<close>

definition sample_match :: "string \<Rightarrow> string \<Rightarrow> (string \<times> string \<times> string list) option" where
  "sample_match m e = map_option (\<lambda>op. (m, operation_pattern op, [''d1'']))
     (find (\<lambda>op. operation_method op = m \<and> api_path op ''d1'' = e)
        [GetControlMessageForDeviceOp, GetDataMessageForDeviceOp, PostControlMessageForDeviceOp, PostDataMessageForDeviceOp])"

definition sample_rt :: "runtime" where
  "sample_rt = sample_runtime\<lparr>rt_match := sample_match,
     rt_consume := (\<lambda>_. Consumed (empty_message\<lparr>msg_Directive := ''unknown''\<rparr>))\<rparr>"

definition sample_json :: JSON where
  "sample_json = \<lparr>js_produce = (\<lambda>_. Inr ''{}''), js_message = (\<lambda>t. if t = [] then ConsumedEOF else Consumed empty_message),
     js_response = (\<lambda>t. if t = [] then ConsumedEOF else Consumed empty_response)\<rparr>"

definition sample_server :: "mem Server" where
  "sample_server = (case fst (run_state (serve mem_env toy_crypto sample_config ''ns'' True None) empty_mem) of Running sv \<Rightarrow> sv)"

text \<open>A context does not end by itself; a timeout that is not positive has run out.\<close>

definition sample_live :: "unit option \<Rightarrow> unit option \<Rightarrow> unit + int64 \<Rightarrow> bool" where
  "sample_live cl tp ctx = (case ctx of Inl _ \<Rightarrow> True | Inr t \<Rightarrow> t > 0)"

definition sample_net :: "(unit, unit, unit, mem) net" where
  "sample_net = \<lparr>nt_json = sample_json, nt_consumer = (\<lambda>_. Inr sample_json),
     nt_Do = (\<lambda>_ _ ctx req. if sample_live None None ctx
        then State (\<lambda>w. apfst http_response
          (run_state (serve_request sample_rt mem_env toy_crypto sample_server (to_server None req) fresh_writer) w))
        else ret (Inl (Errorf ''context deadline exceeded'')))\<rparr>"

definition sample_client :: "(unit, unit) Client" where
  "sample_client = fm_Yggdrasil (client_New \<lparr>cc_URL = None, cc_Transport = None, cc_AuthInfo = Some ()\<rparr>)"

lemma sample_find:
  "sample_match m e = Some (m', pattern, ids) \<Longrightarrow>
     \<exists>op. m = operation_method op \<and> m' = m \<and> e = api_path op ''d1'' \<and> pattern = operation_pattern op"
  by (auto simp: sample_match_def split: if_splits)

lemma sample_routes: "routed sample_rt op ''d1''"
  by (cases op) (simp_all add: routed_def sample_rt_def sample_match_def operation_method_def api_path_def path_escape_def
      path_unreserved_def)

lemma sample_api_router: "router_law sample_rt"
proof -
  have build: "build_operation op \<lparr>du_DeviceID = ''d1'', du_basePath = []\<rparr> =
      Inr \<lparr>url_Scheme = [], url_Host = [], url_Path = path_Clean (api_path op ''d1'')\<rparr>" for op
    by (cases op; hypsubst; code_simp)
  show ?thesis unfolding router_law_def
  proof (intro allI impI)
    fix m e m' pattern ids op
    assume match: "rt_match sample_rt m e = Some (m', pattern, ids)"
      and op: "route (strings_ToUpper (rt_upper sample_rt) m') pattern = Some op"
    then obtain op' where op': "m' = operation_method op'" "e = api_path op' ''d1''" "pattern = operation_pattern op'"
      using sample_find [of m e m' pattern ids] by (auto simp: sample_rt_def)
    have "route (strings_ToUpper (rt_upper sample_rt) m') pattern = Some op'"
      unfolding route_iff op' by (simp add: operation_method_def operation_pattern_def)
    with op have "op' = op" by simp
    with op' build [of op] show "\<exists>u url. build_operation op u = Inr url \<and> path_Clean e = url_Path url"
      by (metis URL.select_convs(3))
  qed
qed

lemma sample_started: "\<exists>w1. run_state (serve mem_env toy_crypto sample_config ''ns'' True None) empty_mem = (Running sample_server, w1)"
  using sample_serve by (auto simp: sample_server_def)

interpretation sample_connection: connection sample_net sample_client sample_rt mem_env toy_crypto sample_server None sample_json sample_live
proof (unfold_locales, goal_cases)
  case 2
  then show ?case using sample_started by blast
next
  case 5
  then show ?case by (rule sample_api_router)
qed (simp_all add: sample_net_def sample_live_def sample_client_def client_New_def Let_def rtclient_New_def DefaultBasePath_def HasPrefix_def
    yggdrasil_New_def sample_rt_def sample_runtime_def)

section \<open>Properties\<close>



end
