(* ===== verification/Json_Received.thy ===== *)
theory Json_Received
  imports Json_Codec
begin

text \<open>
  The JSON form of what a device sends (\<open>models/heartbeat.go\<close>, \<open>registration_info.go\<close> and the structs in them):
  for each struct its zero value, the members its fields are written as under their tags, decoding
  into it, and \<open>MarshalBinary\<close> and \<open>UnmarshalBinary\<close>. The lemmas show that decoding gives back
  what was encoded.
\<close>

section \<open>The structs\<close>

definition zero_Boot :: mBoot where
  "zero_Boot = \<lparr>mbt_CurrentBootMode = [], mbt_PxeInterface = []\<rparr>"

definition Boot_json :: "mBoot \<Rightarrow> json" where
  "Boot_json m = JObject (str_member ''current_boot_mode'' (mbt_CurrentBootMode m) @
     str_member ''pxe_interface'' (mbt_PxeInterface m))"

definition Boot_MarshalBinary :: "codec \<Rightarrow> mBoot option \<Rightarrow> string result" where
  "Boot_MarshalBinary J = marshal J (\<lambda>x. Inr (Boot_json x))"

definition Boot_of_json :: "json \<Rightarrow> mBoot \<Rightarrow> mBoot result" where
  "Boot_of_json = dec_struct (\<lambda>ms m.
     try_res (field dec_str ''current_boot_mode'' ms (mbt_CurrentBootMode m)) (\<lambda>v1.
     try_res (field dec_str ''pxe_interface'' ms (mbt_PxeInterface m)) (\<lambda>v2.
     Inr \<lparr>mbt_CurrentBootMode = v1, mbt_PxeInterface = v2\<rparr>)))"

definition Boot_UnmarshalBinary :: "codec \<Rightarrow> string \<Rightarrow> mBoot \<Rightarrow> goerr option \<times> mBoot" where
  "Boot_UnmarshalBinary J = unmarshal J Boot_of_json zero_Boot"

definition zero_CPU :: mCPU where
  "zero_CPU = \<lparr>mcpu_Architecture = [], mcpu_Count = 0, mcpu_Flags = None, mcpu_Frequency = 0, mcpu_ModelName = []\<rparr>"

definition CPU_json :: "codec \<Rightarrow> mCPU \<Rightarrow> json result" where
  "CPU_json J m =
     try_res (float_member J ''frequency'' (mcpu_Frequency m)) (\<lambda>ms3.
     Inr (JObject (str_member ''architecture'' (mcpu_Architecture m) @ int_member ''count'' (mcpu_Count m) @
     strs_member ''flags'' (mcpu_Flags m) @ ms3 @ str_member ''model_name'' (mcpu_ModelName m))))"

definition CPU_MarshalBinary :: "codec \<Rightarrow> mCPU option \<Rightarrow> string result" where
  "CPU_MarshalBinary J = marshal J (CPU_json J)"

definition CPU_of_json :: "codec \<Rightarrow> json \<Rightarrow> mCPU \<Rightarrow> mCPU result" where
  "CPU_of_json J = dec_struct (\<lambda>ms m.
     try_res (field dec_str ''architecture'' ms (mcpu_Architecture m)) (\<lambda>v1.
     try_res (field (dec_int 64) ''count'' ms (mcpu_Count m)) (\<lambda>v2.
     try_res (field (dec_list dec_str []) ''flags'' ms (mcpu_Flags m)) (\<lambda>v3.
     try_res (field (dec_float J) ''frequency'' ms (mcpu_Frequency m)) (\<lambda>v4.
     try_res (field dec_str ''model_name'' ms (mcpu_ModelName m)) (\<lambda>v5.
     Inr \<lparr>mcpu_Architecture = v1, mcpu_Count = v2, mcpu_Flags = v3, mcpu_Frequency = v4, mcpu_ModelName = v5\<rparr>))))))"

definition CPU_UnmarshalBinary :: "codec \<Rightarrow> string \<Rightarrow> mCPU \<Rightarrow> goerr option \<times> mCPU" where
  "CPU_UnmarshalBinary J = unmarshal J (CPU_of_json J) zero_CPU"

definition zero_IoPerf :: mIoPerf where
  "zero_IoPerf = \<lparr>mio_SyncDuration = 0\<rparr>"

definition IoPerf_json :: "mIoPerf \<Rightarrow> json" where
  "IoPerf_json m = JObject (int_member ''sync_duration'' (mio_SyncDuration m))"

definition IoPerf_MarshalBinary :: "codec \<Rightarrow> mIoPerf option \<Rightarrow> string result" where
  "IoPerf_MarshalBinary J = marshal J (\<lambda>x. Inr (IoPerf_json x))"

definition IoPerf_of_json :: "json \<Rightarrow> mIoPerf \<Rightarrow> mIoPerf result" where
  "IoPerf_of_json = dec_struct (\<lambda>ms m.
     try_res (field (dec_int 64) ''sync_duration'' ms (mio_SyncDuration m)) (\<lambda>v1.
     Inr \<lparr>mio_SyncDuration = v1\<rparr>))"

definition IoPerf_UnmarshalBinary :: "codec \<Rightarrow> string \<Rightarrow> mIoPerf \<Rightarrow> goerr option \<times> mIoPerf" where
  "IoPerf_UnmarshalBinary J = unmarshal J IoPerf_of_json zero_IoPerf"

definition zero_Disk :: mDisk where
  "zero_Disk = \<lparr>mdk_Bootable = False, mdk_ByID = [], mdk_ByPath = [], mdk_DriveType = [], mdk_Hctl = [], mdk_ID = [],
     mdk_IoPerf = None, mdk_IsInstallationMedia = False, mdk_Model = [], mdk_Name = [], mdk_Path = [],
     mdk_Serial = [], mdk_SizeBytes = 0, mdk_Smart = [], mdk_Vendor = [], mdk_Wwn = []\<rparr>"

definition Disk_json :: "mDisk \<Rightarrow> json" where
  "Disk_json m = JObject (bool_member ''bootable'' (mdk_Bootable m) @ str_member ''by_id'' (mdk_ByID m) @
     str_member ''by_path'' (mdk_ByPath m) @ str_member ''drive_type'' (mdk_DriveType m) @
     str_member ''hctl'' (mdk_Hctl m) @ str_member ''id'' (mdk_ID m) @
     ptr_member ''io_perf'' IoPerf_json (mdk_IoPerf m) @
     bool_member ''is_installation_media'' (mdk_IsInstallationMedia m) @
     str_member ''model'' (mdk_Model m) @ str_member ''name'' (mdk_Name m) @
     str_member ''path'' (mdk_Path m) @ str_member ''serial'' (mdk_Serial m) @
     int_member ''size_bytes'' (mdk_SizeBytes m) @ str_member ''smart'' (mdk_Smart m) @
     str_member ''vendor'' (mdk_Vendor m) @ str_member ''wwn'' (mdk_Wwn m))"

definition Disk_MarshalBinary :: "codec \<Rightarrow> mDisk option \<Rightarrow> string result" where
  "Disk_MarshalBinary J = marshal J (\<lambda>x. Inr (Disk_json x))"

definition Disk_of_json :: "json \<Rightarrow> mDisk \<Rightarrow> mDisk result" where
  "Disk_of_json = dec_struct (\<lambda>ms m.
     try_res (field dec_bool ''bootable'' ms (mdk_Bootable m)) (\<lambda>v1.
     try_res (field dec_str ''by_id'' ms (mdk_ByID m)) (\<lambda>v2.
     try_res (field dec_str ''by_path'' ms (mdk_ByPath m)) (\<lambda>v3.
     try_res (field dec_str ''drive_type'' ms (mdk_DriveType m)) (\<lambda>v4.
     try_res (field dec_str ''hctl'' ms (mdk_Hctl m)) (\<lambda>v5.
     try_res (field dec_str ''id'' ms (mdk_ID m)) (\<lambda>v6.
     try_res (field (dec_ptr IoPerf_of_json zero_IoPerf) ''io_perf'' ms (mdk_IoPerf m)) (\<lambda>v7.
     try_res (field dec_bool ''is_installation_media'' ms (mdk_IsInstallationMedia m)) (\<lambda>v8.
     try_res (field dec_str ''model'' ms (mdk_Model m)) (\<lambda>v9.
     try_res (field dec_str ''name'' ms (mdk_Name m)) (\<lambda>v10.
     try_res (field dec_str ''path'' ms (mdk_Path m)) (\<lambda>v11.
     try_res (field dec_str ''serial'' ms (mdk_Serial m)) (\<lambda>v12.
     try_res (field (dec_int 64) ''size_bytes'' ms (mdk_SizeBytes m)) (\<lambda>v13.
     try_res (field dec_str ''smart'' ms (mdk_Smart m)) (\<lambda>v14.
     try_res (field dec_str ''vendor'' ms (mdk_Vendor m)) (\<lambda>v15.
     try_res (field dec_str ''wwn'' ms (mdk_Wwn m)) (\<lambda>v16.
     Inr \<lparr>mdk_Bootable = v1, mdk_ByID = v2, mdk_ByPath = v3, mdk_DriveType = v4, mdk_Hctl = v5, mdk_ID = v6,
     mdk_IoPerf = v7, mdk_IsInstallationMedia = v8, mdk_Model = v9, mdk_Name = v10, mdk_Path = v11,
     mdk_Serial = v12, mdk_SizeBytes = v13, mdk_Smart = v14, mdk_Vendor = v15, mdk_Wwn = v16\<rparr>)))))))))))))))))"

definition Disk_UnmarshalBinary :: "codec \<Rightarrow> string \<Rightarrow> mDisk \<Rightarrow> goerr option \<times> mDisk" where
  "Disk_UnmarshalBinary J = unmarshal J Disk_of_json zero_Disk"

definition zero_Gpu :: mGpu where
  "zero_Gpu = \<lparr>mgpu_Address = [], mgpu_DeviceID = [], mgpu_Name = [], mgpu_Vendor = [], mgpu_VendorID = []\<rparr>"

definition Gpu_json :: "mGpu \<Rightarrow> json" where
  "Gpu_json m = JObject (str_member ''address'' (mgpu_Address m) @ str_member ''device_id'' (mgpu_DeviceID m) @
     str_member ''name'' (mgpu_Name m) @ str_member ''vendor'' (mgpu_Vendor m) @
     str_member ''vendor_id'' (mgpu_VendorID m))"

definition Gpu_MarshalBinary :: "codec \<Rightarrow> mGpu option \<Rightarrow> string result" where
  "Gpu_MarshalBinary J = marshal J (\<lambda>x. Inr (Gpu_json x))"

definition Gpu_of_json :: "json \<Rightarrow> mGpu \<Rightarrow> mGpu result" where
  "Gpu_of_json = dec_struct (\<lambda>ms m.
     try_res (field dec_str ''address'' ms (mgpu_Address m)) (\<lambda>v1.
     try_res (field dec_str ''device_id'' ms (mgpu_DeviceID m)) (\<lambda>v2.
     try_res (field dec_str ''name'' ms (mgpu_Name m)) (\<lambda>v3.
     try_res (field dec_str ''vendor'' ms (mgpu_Vendor m)) (\<lambda>v4.
     try_res (field dec_str ''vendor_id'' ms (mgpu_VendorID m)) (\<lambda>v5.
     Inr \<lparr>mgpu_Address = v1, mgpu_DeviceID = v2, mgpu_Name = v3, mgpu_Vendor = v4, mgpu_VendorID = v5\<rparr>))))))"

definition Gpu_UnmarshalBinary :: "codec \<Rightarrow> string \<Rightarrow> mGpu \<Rightarrow> goerr option \<times> mGpu" where
  "Gpu_UnmarshalBinary J = unmarshal J Gpu_of_json zero_Gpu"

definition zero_Interface :: mInterface where
  "zero_Interface = \<lparr>mif_Biosdevname = [], mif_ClientID = [], mif_Flags = None, mif_HasCarrier = False, mif_IPV4Addresses = None,
     mif_IPV6Addresses = None, mif_MacAddress = [], mif_Mtu = 0, mif_Name = [], mif_Product = [], mif_SpeedMbps = 0,
     mif_Vendor = []\<rparr>"

definition Interface_json :: "mInterface \<Rightarrow> json" where
  "Interface_json m = JObject (str_member ''biosdevname'' (mif_Biosdevname m) @ str_member ''client_id'' (mif_ClientID m) @
     strs_member ''flags'' (mif_Flags m) @ bool_member ''has_carrier'' (mif_HasCarrier m) @
     strs_member ''ipv4_addresses'' (mif_IPV4Addresses m) @
     strs_member ''ipv6_addresses'' (mif_IPV6Addresses m) @
     str_member ''mac_address'' (mif_MacAddress m) @ int_member ''mtu'' (mif_Mtu m) @
     str_member ''name'' (mif_Name m) @ str_member ''product'' (mif_Product m) @
     int_member ''speed_mbps'' (mif_SpeedMbps m) @ str_member ''vendor'' (mif_Vendor m))"

definition Interface_MarshalBinary :: "codec \<Rightarrow> mInterface option \<Rightarrow> string result" where
  "Interface_MarshalBinary J = marshal J (\<lambda>x. Inr (Interface_json x))"

definition Interface_of_json :: "json \<Rightarrow> mInterface \<Rightarrow> mInterface result" where
  "Interface_of_json = dec_struct (\<lambda>ms m.
     try_res (field dec_str ''biosdevname'' ms (mif_Biosdevname m)) (\<lambda>v1.
     try_res (field dec_str ''client_id'' ms (mif_ClientID m)) (\<lambda>v2.
     try_res (field (dec_list dec_str []) ''flags'' ms (mif_Flags m)) (\<lambda>v3.
     try_res (field dec_bool ''has_carrier'' ms (mif_HasCarrier m)) (\<lambda>v4.
     try_res (field (dec_list dec_str []) ''ipv4_addresses'' ms (mif_IPV4Addresses m)) (\<lambda>v5.
     try_res (field (dec_list dec_str []) ''ipv6_addresses'' ms (mif_IPV6Addresses m)) (\<lambda>v6.
     try_res (field dec_str ''mac_address'' ms (mif_MacAddress m)) (\<lambda>v7.
     try_res (field (dec_int 64) ''mtu'' ms (mif_Mtu m)) (\<lambda>v8.
     try_res (field dec_str ''name'' ms (mif_Name m)) (\<lambda>v9.
     try_res (field dec_str ''product'' ms (mif_Product m)) (\<lambda>v10.
     try_res (field (dec_int 64) ''speed_mbps'' ms (mif_SpeedMbps m)) (\<lambda>v11.
     try_res (field dec_str ''vendor'' ms (mif_Vendor m)) (\<lambda>v12.
     Inr \<lparr>mif_Biosdevname = v1, mif_ClientID = v2, mif_Flags = v3, mif_HasCarrier = v4, mif_IPV4Addresses = v5,
     mif_IPV6Addresses = v6, mif_MacAddress = v7, mif_Mtu = v8, mif_Name = v9, mif_Product = v10,
     mif_SpeedMbps = v11, mif_Vendor = v12\<rparr>)))))))))))))"

definition Interface_UnmarshalBinary :: "codec \<Rightarrow> string \<Rightarrow> mInterface \<Rightarrow> goerr option \<times> mInterface" where
  "Interface_UnmarshalBinary J = unmarshal J Interface_of_json zero_Interface"

definition zero_Memory :: mMemory where
  "zero_Memory = \<lparr>mmem_PhysicalBytes = 0, mmem_UsableBytes = 0\<rparr>"

definition Memory_json :: "mMemory \<Rightarrow> json" where
  "Memory_json m = JObject (int_member ''physical_bytes'' (mmem_PhysicalBytes m) @
     int_member ''usable_bytes'' (mmem_UsableBytes m))"

definition Memory_MarshalBinary :: "codec \<Rightarrow> mMemory option \<Rightarrow> string result" where
  "Memory_MarshalBinary J = marshal J (\<lambda>x. Inr (Memory_json x))"

definition Memory_of_json :: "json \<Rightarrow> mMemory \<Rightarrow> mMemory result" where
  "Memory_of_json = dec_struct (\<lambda>ms m.
     try_res (field (dec_int 64) ''physical_bytes'' ms (mmem_PhysicalBytes m)) (\<lambda>v1.
     try_res (field (dec_int 64) ''usable_bytes'' ms (mmem_UsableBytes m)) (\<lambda>v2.
     Inr \<lparr>mmem_PhysicalBytes = v1, mmem_UsableBytes = v2\<rparr>)))"

definition Memory_UnmarshalBinary :: "codec \<Rightarrow> string \<Rightarrow> mMemory \<Rightarrow> goerr option \<times> mMemory" where
  "Memory_UnmarshalBinary J = unmarshal J Memory_of_json zero_Memory"

definition zero_SystemVendor :: mSystemVendor where
  "zero_SystemVendor = \<lparr>msv_Manufacturer = [], msv_ProductName = [], msv_SerialNumber = [], msv_Virtual = False\<rparr>"

definition SystemVendor_json :: "mSystemVendor \<Rightarrow> json" where
  "SystemVendor_json m = JObject (str_member ''manufacturer'' (msv_Manufacturer m) @
     str_member ''product_name'' (msv_ProductName m) @
     str_member ''serial_number'' (msv_SerialNumber m) @ bool_member ''virtual'' (msv_Virtual m))"

definition SystemVendor_MarshalBinary :: "codec \<Rightarrow> mSystemVendor option \<Rightarrow> string result" where
  "SystemVendor_MarshalBinary J = marshal J (\<lambda>x. Inr (SystemVendor_json x))"

definition SystemVendor_of_json :: "json \<Rightarrow> mSystemVendor \<Rightarrow> mSystemVendor result" where
  "SystemVendor_of_json = dec_struct (\<lambda>ms m.
     try_res (field dec_str ''manufacturer'' ms (msv_Manufacturer m)) (\<lambda>v1.
     try_res (field dec_str ''product_name'' ms (msv_ProductName m)) (\<lambda>v2.
     try_res (field dec_str ''serial_number'' ms (msv_SerialNumber m)) (\<lambda>v3.
     try_res (field dec_bool ''virtual'' ms (msv_Virtual m)) (\<lambda>v4.
     Inr \<lparr>msv_Manufacturer = v1, msv_ProductName = v2, msv_SerialNumber = v3, msv_Virtual = v4\<rparr>)))))"

definition SystemVendor_UnmarshalBinary :: "codec \<Rightarrow> string \<Rightarrow> mSystemVendor \<Rightarrow> goerr option \<times> mSystemVendor" where
  "SystemVendor_UnmarshalBinary J = unmarshal J SystemVendor_of_json zero_SystemVendor"

definition zero_HardwareInfo :: HardwareInfo where
  "zero_HardwareInfo = \<lparr>hi_Boot = None, hi_CPU = None, hi_Disks = None, hi_Gpus = None, hi_Hostname = [], hi_Interfaces = None,
     hi_Memory = None, hi_SystemVendor = None\<rparr>"

definition HardwareInfo_json :: "codec \<Rightarrow> HardwareInfo \<Rightarrow> json result" where
  "HardwareInfo_json J m =
     try_res (ptr_member_try ''cpu'' (CPU_json J) (hi_CPU m)) (\<lambda>ms1.
     Inr (JObject (ptr_member ''boot'' Boot_json (hi_Boot m) @ ms1 @ ptrs_member ''disks'' Disk_json (hi_Disks m) @
     ptrs_member ''gpus'' Gpu_json (hi_Gpus m) @ str_member ''hostname'' (hi_Hostname m) @
     ptrs_member ''interfaces'' Interface_json (hi_Interfaces m) @
     ptr_member ''memory'' Memory_json (hi_Memory m) @
     ptr_member ''system_vendor'' SystemVendor_json (hi_SystemVendor m))))"

definition HardwareInfo_MarshalBinary :: "codec \<Rightarrow> HardwareInfo option \<Rightarrow> string result" where
  "HardwareInfo_MarshalBinary J = marshal J (HardwareInfo_json J)"

definition HardwareInfo_of_json :: "codec \<Rightarrow> json \<Rightarrow> HardwareInfo \<Rightarrow> HardwareInfo result" where
  "HardwareInfo_of_json J = dec_struct (\<lambda>ms m.
     try_res (field (dec_ptr Boot_of_json zero_Boot) ''boot'' ms (hi_Boot m)) (\<lambda>v1.
     try_res (field (dec_ptr (CPU_of_json J) zero_CPU) ''cpu'' ms (hi_CPU m)) (\<lambda>v2.
     try_res (field (dec_list (dec_ptr Disk_of_json zero_Disk) None) ''disks'' ms (hi_Disks m)) (\<lambda>v3.
     try_res (field (dec_list (dec_ptr Gpu_of_json zero_Gpu) None) ''gpus'' ms (hi_Gpus m)) (\<lambda>v4.
     try_res (field dec_str ''hostname'' ms (hi_Hostname m)) (\<lambda>v5.
     try_res (field (dec_list (dec_ptr Interface_of_json zero_Interface) None) ''interfaces'' ms (hi_Interfaces m)) (\<lambda>v6.
     try_res (field (dec_ptr Memory_of_json zero_Memory) ''memory'' ms (hi_Memory m)) (\<lambda>v7.
     try_res (field (dec_ptr SystemVendor_of_json zero_SystemVendor) ''system_vendor'' ms (hi_SystemVendor m)) (\<lambda>v8.
     Inr \<lparr>hi_Boot = v1, hi_CPU = v2, hi_Disks = v3, hi_Gpus = v4, hi_Hostname = v5, hi_Interfaces = v6, hi_Memory = v7,
     hi_SystemVendor = v8\<rparr>)))))))))"

definition HardwareInfo_UnmarshalBinary :: "codec \<Rightarrow> string \<Rightarrow> HardwareInfo \<Rightarrow> goerr option \<times> HardwareInfo" where
  "HardwareInfo_UnmarshalBinary J = unmarshal J (HardwareInfo_of_json J) zero_HardwareInfo"

definition zero_EventInfo :: EventInfo where
  "zero_EventInfo = \<lparr>evi_Message = [], evi_Reason = [], evi_Type = []\<rparr>"

definition EventInfo_json :: "EventInfo \<Rightarrow> json" where
  "EventInfo_json m = JObject (str_member ''message'' (evi_Message m) @ str_member ''reason'' (evi_Reason m) @
     str_member ''type'' (evi_Type m))"

definition EventInfo_MarshalBinary :: "codec \<Rightarrow> EventInfo option \<Rightarrow> string result" where
  "EventInfo_MarshalBinary J = marshal J (\<lambda>x. Inr (EventInfo_json x))"

definition EventInfo_of_json :: "json \<Rightarrow> EventInfo \<Rightarrow> EventInfo result" where
  "EventInfo_of_json = dec_struct (\<lambda>ms m.
     try_res (field dec_str ''message'' ms (evi_Message m)) (\<lambda>v1.
     try_res (field dec_str ''reason'' ms (evi_Reason m)) (\<lambda>v2.
     try_res (field dec_str ''type'' ms (evi_Type m)) (\<lambda>v3.
     Inr \<lparr>evi_Message = v1, evi_Reason = v2, evi_Type = v3\<rparr>))))"

definition EventInfo_UnmarshalBinary :: "codec \<Rightarrow> string \<Rightarrow> EventInfo \<Rightarrow> goerr option \<times> EventInfo" where
  "EventInfo_UnmarshalBinary J = unmarshal J EventInfo_of_json zero_EventInfo"

definition zero_UpgradeStatus :: UpgradeStatus where
  "zero_UpgradeStatus = \<lparr>us_CurrentCommitID = [], us_LastUpgradeStatus = [], us_LastUpgradeTime = []\<rparr>"

definition UpgradeStatus_json :: "UpgradeStatus \<Rightarrow> json" where
  "UpgradeStatus_json m = JObject (str_member ''current_commit_ID'' (us_CurrentCommitID m) @
     str_member ''last_upgrade_status'' (us_LastUpgradeStatus m) @
     str_member ''last_upgrade_time'' (us_LastUpgradeTime m))"

definition UpgradeStatus_MarshalBinary :: "codec \<Rightarrow> UpgradeStatus option \<Rightarrow> string result" where
  "UpgradeStatus_MarshalBinary J = marshal J (\<lambda>x. Inr (UpgradeStatus_json x))"

definition UpgradeStatus_of_json :: "json \<Rightarrow> UpgradeStatus \<Rightarrow> UpgradeStatus result" where
  "UpgradeStatus_of_json = dec_struct (\<lambda>ms m.
     try_res (field dec_str ''current_commit_ID'' ms (us_CurrentCommitID m)) (\<lambda>v1.
     try_res (field dec_str ''last_upgrade_status'' ms (us_LastUpgradeStatus m)) (\<lambda>v2.
     try_res (field dec_str ''last_upgrade_time'' ms (us_LastUpgradeTime m)) (\<lambda>v3.
     Inr \<lparr>us_CurrentCommitID = v1, us_LastUpgradeStatus = v2, us_LastUpgradeTime = v3\<rparr>))))"

definition UpgradeStatus_UnmarshalBinary :: "codec \<Rightarrow> string \<Rightarrow> UpgradeStatus \<Rightarrow> goerr option \<times> UpgradeStatus" where
  "UpgradeStatus_UnmarshalBinary J = unmarshal J UpgradeStatus_of_json zero_UpgradeStatus"

definition zero_WorkloadStatus :: WorkloadStatus where
  "zero_WorkloadStatus = \<lparr>ws_LastDataUpload = zero_time, ws_Name = [], ws_Status = []\<rparr>"

definition WorkloadStatus_json :: "codec \<Rightarrow> WorkloadStatus \<Rightarrow> json" where
  "WorkloadStatus_json J m = JObject (time_member J ''last_data_upload'' (ws_LastDataUpload m) @ str_member ''name'' (ws_Name m) @
     str_member ''status'' (ws_Status m))"

definition WorkloadStatus_MarshalBinary :: "codec \<Rightarrow> WorkloadStatus option \<Rightarrow> string result" where
  "WorkloadStatus_MarshalBinary J = marshal J (\<lambda>x. Inr (WorkloadStatus_json J x))"

definition WorkloadStatus_of_json :: "codec \<Rightarrow> json \<Rightarrow> WorkloadStatus \<Rightarrow> WorkloadStatus result" where
  "WorkloadStatus_of_json J = dec_struct (\<lambda>ms m.
     try_res (field (dec_time J) ''last_data_upload'' ms (ws_LastDataUpload m)) (\<lambda>v1.
     try_res (field dec_str ''name'' ms (ws_Name m)) (\<lambda>v2.
     try_res (field dec_str ''status'' ms (ws_Status m)) (\<lambda>v3.
     Inr \<lparr>ws_LastDataUpload = v1, ws_Name = v2, ws_Status = v3\<rparr>))))"

definition WorkloadStatus_UnmarshalBinary :: "codec \<Rightarrow> string \<Rightarrow> WorkloadStatus \<Rightarrow> goerr option \<times> WorkloadStatus" where
  "WorkloadStatus_UnmarshalBinary J = unmarshal J (WorkloadStatus_of_json J) zero_WorkloadStatus"

definition zero_Heartbeat :: Heartbeat where
  "zero_Heartbeat = \<lparr>hb_Events = None, hb_Hardware = None, hb_Status = [], hb_Upgrade = None, hb_Version = [], hb_Workloads = None\<rparr>"

definition Heartbeat_json :: "codec \<Rightarrow> Heartbeat \<Rightarrow> json result" where
  "Heartbeat_json J m =
     try_res (ptr_member_try ''hardware'' (HardwareInfo_json J) (hb_Hardware m)) (\<lambda>ms1.
     Inr (JObject (ptrs_member ''events'' EventInfo_json (hb_Events m) @ ms1 @ str_member ''status'' (hb_Status m) @
     ptr_member ''upgrade'' UpgradeStatus_json (hb_Upgrade m) @ str_member ''version'' (hb_Version m) @
     ptrs_member ''workloads'' (WorkloadStatus_json J) (hb_Workloads m))))"

definition Heartbeat_MarshalBinary :: "codec \<Rightarrow> Heartbeat option \<Rightarrow> string result" where
  "Heartbeat_MarshalBinary J = marshal J (Heartbeat_json J)"

definition Heartbeat_of_json :: "codec \<Rightarrow> json \<Rightarrow> Heartbeat \<Rightarrow> Heartbeat result" where
  "Heartbeat_of_json J = dec_struct (\<lambda>ms m.
     try_res (field (dec_list (dec_ptr EventInfo_of_json zero_EventInfo) None) ''events'' ms (hb_Events m)) (\<lambda>v1.
     try_res (field (dec_ptr (HardwareInfo_of_json J) zero_HardwareInfo) ''hardware'' ms (hb_Hardware m)) (\<lambda>v2.
     try_res (field dec_str ''status'' ms (hb_Status m)) (\<lambda>v3.
     try_res (field (dec_ptr UpgradeStatus_of_json zero_UpgradeStatus) ''upgrade'' ms (hb_Upgrade m)) (\<lambda>v4.
     try_res (field dec_str ''version'' ms (hb_Version m)) (\<lambda>v5.
     try_res (field (dec_list (dec_ptr (WorkloadStatus_of_json J) zero_WorkloadStatus) None) ''workloads'' ms (hb_Workloads m)) (\<lambda>v6.
     Inr \<lparr>hb_Events = v1, hb_Hardware = v2, hb_Status = v3, hb_Upgrade = v4, hb_Version = v5, hb_Workloads = v6\<rparr>)))))))"

definition Heartbeat_UnmarshalBinary :: "codec \<Rightarrow> string \<Rightarrow> Heartbeat \<Rightarrow> goerr option \<times> Heartbeat" where
  "Heartbeat_UnmarshalBinary J = unmarshal J (Heartbeat_of_json J) zero_Heartbeat"

definition zero_RegistrationInfo :: RegistrationInfo where
  "zero_RegistrationInfo = \<lparr>ri_CertificateRequest = [], ri_Hardware = None\<rparr>"

definition RegistrationInfo_json :: "codec \<Rightarrow> RegistrationInfo \<Rightarrow> json result" where
  "RegistrationInfo_json J m =
     try_res (ptr_member_try ''hardware'' (HardwareInfo_json J) (ri_Hardware m)) (\<lambda>ms1.
     Inr (JObject (str_member ''certificate_request'' (ri_CertificateRequest m) @ ms1)))"

definition RegistrationInfo_MarshalBinary :: "codec \<Rightarrow> RegistrationInfo option \<Rightarrow> string result" where
  "RegistrationInfo_MarshalBinary J = marshal J (RegistrationInfo_json J)"

definition RegistrationInfo_of_json :: "codec \<Rightarrow> json \<Rightarrow> RegistrationInfo \<Rightarrow> RegistrationInfo result" where
  "RegistrationInfo_of_json J = dec_struct (\<lambda>ms m.
     try_res (field dec_str ''certificate_request'' ms (ri_CertificateRequest m)) (\<lambda>v1.
     try_res (field (dec_ptr (HardwareInfo_of_json J) zero_HardwareInfo) ''hardware'' ms (ri_Hardware m)) (\<lambda>v2.
     Inr \<lparr>ri_CertificateRequest = v1, ri_Hardware = v2\<rparr>)))"

definition RegistrationInfo_UnmarshalBinary :: "codec \<Rightarrow> string \<Rightarrow> RegistrationInfo \<Rightarrow> goerr option \<times> RegistrationInfo" where
  "RegistrationInfo_UnmarshalBinary J = unmarshal J (RegistrationInfo_of_json J) zero_RegistrationInfo"

section \<open>Values that survive the round trip\<close>

text \<open>Numbers in the width of their fields, dates and frequencies the codec gives back.\<close>

definition CPU_wf :: "codec \<Rightarrow> mCPU \<Rightarrow> bool" where
  "CPU_wf J m \<longleftrightarrow> in_bits 64 (mcpu_Count m) \<and> float_ok J (mcpu_Frequency m)"

definition IoPerf_wf :: "mIoPerf \<Rightarrow> bool" where
  "IoPerf_wf m \<longleftrightarrow> in_bits 64 (mio_SyncDuration m)"

definition Disk_wf :: "mDisk \<Rightarrow> bool" where
  "Disk_wf m \<longleftrightarrow> pred_option IoPerf_wf (mdk_IoPerf m) \<and> in_bits 64 (mdk_SizeBytes m)"

definition Interface_wf :: "mInterface \<Rightarrow> bool" where
  "Interface_wf m \<longleftrightarrow> in_bits 64 (mif_Mtu m) \<and> in_bits 64 (mif_SpeedMbps m)"

definition Memory_wf :: "mMemory \<Rightarrow> bool" where
  "Memory_wf m \<longleftrightarrow> in_bits 64 (mmem_PhysicalBytes m) \<and> in_bits 64 (mmem_UsableBytes m)"

definition HardwareInfo_wf :: "codec \<Rightarrow> HardwareInfo \<Rightarrow> bool" where
  "HardwareInfo_wf J m \<longleftrightarrow> pred_option (CPU_wf J) (hi_CPU m) \<and> list_all (pred_option Disk_wf) (opt_list (hi_Disks m)) \<and>
     list_all (pred_option Interface_wf) (opt_list (hi_Interfaces m)) \<and> pred_option Memory_wf (hi_Memory m)"

definition WorkloadStatus_wf :: "codec \<Rightarrow> WorkloadStatus \<Rightarrow> bool" where
  "WorkloadStatus_wf J m \<longleftrightarrow> jc_parse_time J (jc_time J (ws_LastDataUpload m)) = Inr (ws_LastDataUpload m)"

definition Heartbeat_wf :: "codec \<Rightarrow> Heartbeat \<Rightarrow> bool" where
  "Heartbeat_wf J m \<longleftrightarrow> pred_option (HardwareInfo_wf J) (hb_Hardware m) \<and>
     list_all (pred_option (WorkloadStatus_wf J)) (opt_list (hb_Workloads m))"

definition RegistrationInfo_wf :: "codec \<Rightarrow> RegistrationInfo \<Rightarrow> bool" where
  "RegistrationInfo_wf J m \<longleftrightarrow> pred_option (HardwareInfo_wf J) (ri_Hardware m)"

section \<open>Decoding what was encoded\<close>

lemma names_folded [folded]:
  "json_fold ''address'' = ''address''"
  "json_fold ''architecture'' = ''architecture''"
  "json_fold ''biosdevname'' = ''biosdevname''"
  "json_fold ''boot'' = ''boot''"
  "json_fold ''bootable'' = ''bootable''"
  "json_fold ''by_id'' = ''by_id''"
  "json_fold ''by_path'' = ''by_path''"
  "json_fold ''certificate_request'' = ''certificate_request''"
  "json_fold ''client_id'' = ''client_id''"
  "json_fold ''count'' = ''count''"
  "json_fold ''cpu'' = ''cpu''"
  "json_fold ''current_boot_mode'' = ''current_boot_mode''"
  "json_fold ''current_commit_ID'' = ''current_commit_id''"
  "json_fold ''device_id'' = ''device_id''"
  "json_fold ''disks'' = ''disks''"
  "json_fold ''drive_type'' = ''drive_type''"
  "json_fold ''events'' = ''events''"
  "json_fold ''flags'' = ''flags''"
  "json_fold ''frequency'' = ''frequency''"
  "json_fold ''gpus'' = ''gpus''"
  "json_fold ''hardware'' = ''hardware''"
  "json_fold ''has_carrier'' = ''has_carrier''"
  "json_fold ''hctl'' = ''hctl''"
  "json_fold ''hostname'' = ''hostname''"
  "json_fold ''id'' = ''id''"
  "json_fold ''interfaces'' = ''interfaces''"
  "json_fold ''io_perf'' = ''io_perf''"
  "json_fold ''ipv4_addresses'' = ''ipv4_addresses''"
  "json_fold ''ipv6_addresses'' = ''ipv6_addresses''"
  "json_fold ''is_installation_media'' = ''is_installation_media''"
  "json_fold ''last_data_upload'' = ''last_data_upload''"
  "json_fold ''last_upgrade_status'' = ''last_upgrade_status''"
  "json_fold ''last_upgrade_time'' = ''last_upgrade_time''"
  "json_fold ''mac_address'' = ''mac_address''"
  "json_fold ''manufacturer'' = ''manufacturer''"
  "json_fold ''memory'' = ''memory''"
  "json_fold ''message'' = ''message''"
  "json_fold ''model'' = ''model''"
  "json_fold ''model_name'' = ''model_name''"
  "json_fold ''mtu'' = ''mtu''"
  "json_fold ''name'' = ''name''"
  "json_fold ''path'' = ''path''"
  "json_fold ''physical_bytes'' = ''physical_bytes''"
  "json_fold ''product'' = ''product''"
  "json_fold ''product_name'' = ''product_name''"
  "json_fold ''pxe_interface'' = ''pxe_interface''"
  "json_fold ''reason'' = ''reason''"
  "json_fold ''serial'' = ''serial''"
  "json_fold ''serial_number'' = ''serial_number''"
  "json_fold ''size_bytes'' = ''size_bytes''"
  "json_fold ''smart'' = ''smart''"
  "json_fold ''speed_mbps'' = ''speed_mbps''"
  "json_fold ''status'' = ''status''"
  "json_fold ''sync_duration'' = ''sync_duration''"
  "json_fold ''system_vendor'' = ''system_vendor''"
  "json_fold ''type'' = ''type''"
  "json_fold ''upgrade'' = ''upgrade''"
  "json_fold ''usable_bytes'' = ''usable_bytes''"
  "json_fold ''vendor'' = ''vendor''"
  "json_fold ''vendor_id'' = ''vendor_id''"
  "json_fold ''version'' = ''version''"
  "json_fold ''virtual'' = ''virtual''"
  "json_fold ''workloads'' = ''workloads''"
  "json_fold ''wwn'' = ''wwn''"
  by code_simp+

lemmas struct_parts = dec_struct_def field_def

lemma Boot_roundtrip [decoding]: "Boot_json m \<noteq> JNull \<and> Boot_of_json (Boot_json m) zero_Boot = Inr m"
  by (simp add: Boot_json_def Boot_of_json_def zero_Boot_def struct_parts decoding folded)

lemma IoPerf_roundtrip [decoding]: "IoPerf_wf m \<Longrightarrow> IoPerf_json m \<noteq> JNull \<and> IoPerf_of_json (IoPerf_json m) zero_IoPerf = Inr m"
  by (simp add: IoPerf_json_def IoPerf_of_json_def zero_IoPerf_def IoPerf_wf_def struct_parts decoding folded)

lemmas IoPerf_ptr [decoding] = dec_all_ptr_ok
  [where ok = IoPerf_wf and enc = IoPerf_json and dec = IoPerf_of_json and z = zero_IoPerf, OF _ IoPerf_roundtrip]

lemma Disk_roundtrip [decoding]: "Disk_wf m \<Longrightarrow> Disk_json m \<noteq> JNull \<and> Disk_of_json (Disk_json m) zero_Disk = Inr m"
  by (simp add: Disk_json_def Disk_of_json_def zero_Disk_def Disk_wf_def struct_parts decoding folded)

lemmas Disk_ptrs [decoding] = dec_all_ptrs_ok
  [where ok = Disk_wf and enc = Disk_json and dec = Disk_of_json and z = zero_Disk, OF _ Disk_roundtrip]

lemma Gpu_roundtrip [decoding]: "Gpu_json m \<noteq> JNull \<and> Gpu_of_json (Gpu_json m) zero_Gpu = Inr m"
  by (simp add: Gpu_json_def Gpu_of_json_def zero_Gpu_def struct_parts decoding folded)

lemma Interface_roundtrip [decoding]: "Interface_wf m \<Longrightarrow> Interface_json m \<noteq> JNull \<and> Interface_of_json (Interface_json m) zero_Interface = Inr m"
  by (simp add: Interface_json_def Interface_of_json_def zero_Interface_def Interface_wf_def struct_parts decoding folded)

lemmas Interface_ptrs [decoding] = dec_all_ptrs_ok
  [where ok = Interface_wf and enc = Interface_json and dec = Interface_of_json and z = zero_Interface, OF _ Interface_roundtrip]

lemma Memory_roundtrip [decoding]: "Memory_wf m \<Longrightarrow> Memory_json m \<noteq> JNull \<and> Memory_of_json (Memory_json m) zero_Memory = Inr m"
  by (simp add: Memory_json_def Memory_of_json_def zero_Memory_def Memory_wf_def struct_parts decoding folded)

lemmas Memory_ptr [decoding] = dec_all_ptr_ok
  [where ok = Memory_wf and enc = Memory_json and dec = Memory_of_json and z = zero_Memory, OF _ Memory_roundtrip]

lemma SystemVendor_roundtrip [decoding]: "SystemVendor_json m \<noteq> JNull \<and> SystemVendor_of_json (SystemVendor_json m) zero_SystemVendor = Inr m"
  by (simp add: SystemVendor_json_def SystemVendor_of_json_def zero_SystemVendor_def struct_parts decoding folded)

lemma EventInfo_roundtrip [decoding]: "EventInfo_json m \<noteq> JNull \<and> EventInfo_of_json (EventInfo_json m) zero_EventInfo = Inr m"
  by (simp add: EventInfo_json_def EventInfo_of_json_def zero_EventInfo_def struct_parts decoding folded)

lemma UpgradeStatus_roundtrip [decoding]: "UpgradeStatus_json m \<noteq> JNull \<and> UpgradeStatus_of_json (UpgradeStatus_json m) zero_UpgradeStatus = Inr m"
  by (simp add: UpgradeStatus_json_def UpgradeStatus_of_json_def zero_UpgradeStatus_def struct_parts decoding folded)

lemma WorkloadStatus_roundtrip [decoding]:
  "WorkloadStatus_wf J m \<Longrightarrow> WorkloadStatus_json J m \<noteq> JNull \<and>
     WorkloadStatus_of_json J (WorkloadStatus_json J m) zero_WorkloadStatus = Inr m"
  by (simp add: WorkloadStatus_json_def WorkloadStatus_of_json_def zero_WorkloadStatus_def WorkloadStatus_wf_def struct_parts decoding folded)

lemmas WorkloadStatus_ptrs [decoding] = dec_all_ptrs_ok
  [where ok = "WorkloadStatus_wf J" and enc = "WorkloadStatus_json J" and dec = "WorkloadStatus_of_json J"
   and z = zero_WorkloadStatus, OF _ WorkloadStatus_roundtrip] for J

text \<open>The encoders that can fail, on values that can be written.\<close>

definition codes :: "('a \<Rightarrow> json result) \<Rightarrow> (json \<Rightarrow> 'a \<Rightarrow> 'a result) \<Rightarrow> 'a \<Rightarrow> 'a \<Rightarrow> bool" where
  "codes enc dec z x \<longleftrightarrow> (\<exists>j. enc x = Inr j \<and> j \<noteq> JNull \<and> dec j z = Inr x)"

lemma codes_ptr:
  assumes "pred_option (codes enc dec z) p"
  shows "\<exists>ms. ptr_member_try k enc p = Inr ms \<and>
    (\<forall>name. json_fold name \<noteq> json_fold k \<longrightarrow> members_of name ms = []) \<and>
    dec_all (dec_ptr dec z) (members_of k ms) None = Inr p"
proof (cases p)
  case None
  then show ?thesis by (simp add: ptr_member_try_def members_of_def dec_all.simps)
next
  case (Some x)
  with assms obtain j where j: "enc x = Inr j" "j \<noteq> JNull" "dec j z = Inr x" by (auto simp: codes_def)
  then have "dec_ptr dec z j None = Inr (Some x)" by (cases j) (simp_all add: dec_ptr_def)
  with Some j show ?thesis by (simp add: ptr_member_try_def members_of_def dec_all.simps)
qed

lemma CPU_codes: "CPU_wf J c \<Longrightarrow> codes (CPU_json J) (CPU_of_json J) zero_CPU c"
proof -
  assume wf: "CPU_wf J c"
  then obtain ms where ms: "float_member J ''frequency'' (mcpu_Frequency c) = Inr ms"
    "\<And>name. json_fold name \<noteq> json_fold ''frequency'' \<Longrightarrow> members_of name ms = []"
    "dec_all (dec_float J) (members_of ''frequency'' ms) 0 = Inr (mcpu_Frequency c)"
    using float_roundtrip [of J "mcpu_Frequency c" "''frequency''"] by (meson CPU_wf_def)
  show ?thesis
    using wf unfolding codes_def CPU_json_def ms(1)
    by (simp add: CPU_of_json_def zero_CPU_def CPU_wf_def struct_parts decoding folded ms(2,3))
qed

lemma HardwareInfo_codes:
  assumes wf: "HardwareInfo_wf J h"
  shows "codes (HardwareInfo_json J) (HardwareInfo_of_json J) zero_HardwareInfo h"
proof -
  have "pred_option (codes (CPU_json J) (CPU_of_json J) zero_CPU) (hi_CPU h)"
    using wf CPU_codes by (cases "hi_CPU h") (auto simp: HardwareInfo_wf_def)
  from codes_ptr [OF this, of "''cpu''"] obtain ms where ms: "ptr_member_try ''cpu'' (CPU_json J) (hi_CPU h) = Inr ms"
    "\<And>name. json_fold name \<noteq> json_fold ''cpu'' \<Longrightarrow> members_of name ms = []"
    "dec_all (dec_ptr (CPU_of_json J) zero_CPU) (members_of ''cpu'' ms) None = Inr (hi_CPU h)" by blast
  show ?thesis
    using wf unfolding codes_def HardwareInfo_json_def ms(1)
    by (simp add: HardwareInfo_of_json_def zero_HardwareInfo_def HardwareInfo_wf_def struct_parts decoding folded ms(2,3))
qed

lemma hardware_member:
  assumes "pred_option (HardwareInfo_wf J) p"
  shows "\<exists>ms. ptr_member_try ''hardware'' (HardwareInfo_json J) p = Inr ms \<and>
    (\<forall>name. json_fold name \<noteq> json_fold ''hardware'' \<longrightarrow> members_of name ms = []) \<and>
    dec_all (dec_ptr (HardwareInfo_of_json J) zero_HardwareInfo) (members_of ''hardware'' ms) None = Inr p"
proof -
  have "pred_option (codes (HardwareInfo_json J) (HardwareInfo_of_json J) zero_HardwareInfo) p"
    using assms HardwareInfo_codes by (cases p) auto
  then show ?thesis by (rule codes_ptr)
qed

lemma Heartbeat_codes:
  assumes "Heartbeat_wf J hb"
  shows "codes (Heartbeat_json J) (Heartbeat_of_json J) zero_Heartbeat hb"
proof -
  obtain ms where ms: "ptr_member_try ''hardware'' (HardwareInfo_json J) (hb_Hardware hb) = Inr ms"
    "\<And>name. json_fold name \<noteq> json_fold ''hardware'' \<Longrightarrow> members_of name ms = []"
    "dec_all (dec_ptr (HardwareInfo_of_json J) zero_HardwareInfo) (members_of ''hardware'' ms) None = Inr (hb_Hardware hb)"
    using hardware_member [of J "hb_Hardware hb"] assms by (meson Heartbeat_wf_def)
  show ?thesis
    using assms unfolding codes_def Heartbeat_json_def ms(1)
    by (simp add: Heartbeat_of_json_def zero_Heartbeat_def Heartbeat_wf_def struct_parts decoding folded ms(2,3))
qed

lemma RegistrationInfo_codes:
  assumes "RegistrationInfo_wf J r"
  shows "codes (RegistrationInfo_json J) (RegistrationInfo_of_json J) zero_RegistrationInfo r"
proof -
  obtain ms where ms: "ptr_member_try ''hardware'' (HardwareInfo_json J) (ri_Hardware r) = Inr ms"
    "\<And>name. json_fold name \<noteq> json_fold ''hardware'' \<Longrightarrow> members_of name ms = []"
    "dec_all (dec_ptr (HardwareInfo_of_json J) zero_HardwareInfo) (members_of ''hardware'' ms) None = Inr (ri_Hardware r)"
    using hardware_member [of J "ri_Hardware r"] assms by (meson RegistrationInfo_wf_def)
  show ?thesis
    using assms unfolding codes_def RegistrationInfo_json_def ms(1)
    by (simp add: RegistrationInfo_of_json_def zero_RegistrationInfo_def struct_parts decoding folded ms(2,3))
qed

end
