(* ===== verification/Json_Sent.thy ===== *)
theory Json_Sent
  imports Json_Received
begin

text \<open>
  The JSON form of what a device is sent (\<open>models/device_configuration_message.go\<close> and the structs in it,
  \<open>registration_response.go\<close>), as in \<open>Json_Received\<close>. The lists of workloads, secrets and data paths have no nil
  elements in the model, so the structs with such a list are encoded but not decoded.
\<close>

section \<open>The structs\<close>

definition zero_DataPath :: mDataPath where
  "zero_DataPath = \<lparr>mdp_Source = [], mdp_Target = []\<rparr>"

definition DataPath_json :: "mDataPath \<Rightarrow> json" where
  "DataPath_json m = JObject (str_member ''source'' (mdp_Source m) @ str_member ''target'' (mdp_Target m))"

definition DataPath_MarshalBinary :: "codec \<Rightarrow> mDataPath option \<Rightarrow> string result" where
  "DataPath_MarshalBinary J = marshal J (\<lambda>x. Inr (DataPath_json x))"

definition DataPath_of_json :: "json \<Rightarrow> mDataPath \<Rightarrow> mDataPath result" where
  "DataPath_of_json = dec_struct (\<lambda>ms m.
     try_res (field dec_str ''source'' ms (mdp_Source m)) (\<lambda>v1.
     try_res (field dec_str ''target'' ms (mdp_Target m)) (\<lambda>v2.
     Inr \<lparr>mdp_Source = v1, mdp_Target = v2\<rparr>)))"

definition DataPath_UnmarshalBinary :: "codec \<Rightarrow> string \<Rightarrow> mDataPath \<Rightarrow> goerr option \<times> mDataPath" where
  "DataPath_UnmarshalBinary J = unmarshal J DataPath_of_json zero_DataPath"

definition zero_DataConfiguration :: mDataConfiguration where
  "zero_DataConfiguration = \<lparr>mdc_Paths = None\<rparr>"

definition DataConfiguration_json :: "mDataConfiguration \<Rightarrow> json" where
  "DataConfiguration_json m = JObject (ptrs_member ''paths'' DataPath_json (map_option (map Some) (mdc_Paths m)))"

definition DataConfiguration_MarshalBinary :: "codec \<Rightarrow> mDataConfiguration option \<Rightarrow> string result" where
  "DataConfiguration_MarshalBinary J = marshal J (\<lambda>x. Inr (DataConfiguration_json x))"

definition zero_ImageRegistries :: ImageRegistries where
  "zero_ImageRegistries = \<lparr>ir_AuthFile = []\<rparr>"

definition ImageRegistries_json :: "ImageRegistries \<Rightarrow> json" where
  "ImageRegistries_json m = JObject (str_member ''authFile'' (ir_AuthFile m))"

definition ImageRegistries_MarshalBinary :: "codec \<Rightarrow> ImageRegistries option \<Rightarrow> string result" where
  "ImageRegistries_MarshalBinary J = marshal J (\<lambda>x. Inr (ImageRegistries_json x))"

definition ImageRegistries_of_json :: "json \<Rightarrow> ImageRegistries \<Rightarrow> ImageRegistries result" where
  "ImageRegistries_of_json = dec_struct (\<lambda>ms m.
     try_res (field dec_str ''authFile'' ms (ir_AuthFile m)) (\<lambda>v1.
     Inr \<lparr>ir_AuthFile = v1\<rparr>))"

definition ImageRegistries_UnmarshalBinary :: "codec \<Rightarrow> string \<Rightarrow> ImageRegistries \<Rightarrow> goerr option \<times> ImageRegistries" where
  "ImageRegistries_UnmarshalBinary J = unmarshal J ImageRegistries_of_json zero_ImageRegistries"

definition zero_MetricsAllowList :: MetricsAllowList where
  "zero_MetricsAllowList = \<lparr>mal_Names = None\<rparr>"

definition MetricsAllowList_json :: "MetricsAllowList \<Rightarrow> json" where
  "MetricsAllowList_json m = JObject (strs_member ''names'' (mal_Names m))"

definition MetricsAllowList_MarshalBinary :: "codec \<Rightarrow> MetricsAllowList option \<Rightarrow> string result" where
  "MetricsAllowList_MarshalBinary J = marshal J (\<lambda>x. Inr (MetricsAllowList_json x))"

definition MetricsAllowList_of_json :: "json \<Rightarrow> MetricsAllowList \<Rightarrow> MetricsAllowList result" where
  "MetricsAllowList_of_json = dec_struct (\<lambda>ms m.
     try_res (field (dec_list dec_str []) ''names'' ms (mal_Names m)) (\<lambda>v1.
     Inr \<lparr>mal_Names = v1\<rparr>))"

definition MetricsAllowList_UnmarshalBinary :: "codec \<Rightarrow> string \<Rightarrow> MetricsAllowList \<Rightarrow> goerr option \<times> MetricsAllowList" where
  "MetricsAllowList_UnmarshalBinary J = unmarshal J MetricsAllowList_of_json zero_MetricsAllowList"

definition zero_ContainerMetrics :: ContainerMetrics where
  "zero_ContainerMetrics = \<lparr>ctm_Disabled = False, ctm_Path = [], ctm_Port = 0\<rparr>"

definition ContainerMetrics_json :: "ContainerMetrics \<Rightarrow> json" where
  "ContainerMetrics_json m = JObject (bool_member ''disabled'' (ctm_Disabled m) @ str_member ''path'' (ctm_Path m) @
     int_member ''port'' (ctm_Port m))"

definition ContainerMetrics_MarshalBinary :: "codec \<Rightarrow> ContainerMetrics option \<Rightarrow> string result" where
  "ContainerMetrics_MarshalBinary J = marshal J (\<lambda>x. Inr (ContainerMetrics_json x))"

definition ContainerMetrics_of_json :: "json \<Rightarrow> ContainerMetrics \<Rightarrow> ContainerMetrics result" where
  "ContainerMetrics_of_json = dec_struct (\<lambda>ms m.
     try_res (field dec_bool ''disabled'' ms (ctm_Disabled m)) (\<lambda>v1.
     try_res (field dec_str ''path'' ms (ctm_Path m)) (\<lambda>v2.
     try_res (field (dec_int 32) ''port'' ms (ctm_Port m)) (\<lambda>v3.
     Inr \<lparr>ctm_Disabled = v1, ctm_Path = v2, ctm_Port = v3\<rparr>))))"

definition ContainerMetrics_UnmarshalBinary :: "codec \<Rightarrow> string \<Rightarrow> ContainerMetrics \<Rightarrow> goerr option \<times> ContainerMetrics" where
  "ContainerMetrics_UnmarshalBinary J = unmarshal J ContainerMetrics_of_json zero_ContainerMetrics"

definition zero_Metrics :: Metrics where
  "zero_Metrics = \<lparr>mt_AllowList = None, mt_Containers = None, mt_Interval = 0, mt_Path = [], mt_Port = 0\<rparr>"

definition Metrics_json :: "Metrics \<Rightarrow> json" where
  "Metrics_json m = JObject (ptr_member ''allow_list'' MetricsAllowList_json (mt_AllowList m) @
     map_member ''containers'' ContainerMetrics_json (mt_Containers m) @
     int_member ''interval'' (mt_Interval m) @ str_member ''path'' (mt_Path m) @
     int_member ''port'' (mt_Port m))"

definition Metrics_MarshalBinary :: "codec \<Rightarrow> Metrics option \<Rightarrow> string result" where
  "Metrics_MarshalBinary J = marshal J (\<lambda>x. Inr (Metrics_json x))"

definition Metrics_of_json :: "json \<Rightarrow> Metrics \<Rightarrow> Metrics result" where
  "Metrics_of_json = dec_struct (\<lambda>ms m.
     try_res (field (dec_ptr MetricsAllowList_of_json zero_MetricsAllowList) ''allow_list'' ms (mt_AllowList m)) (\<lambda>v1.
     try_res (field (dec_map ContainerMetrics_of_json zero_ContainerMetrics) ''containers'' ms (mt_Containers m)) (\<lambda>v2.
     try_res (field (dec_int 32) ''interval'' ms (mt_Interval m)) (\<lambda>v3.
     try_res (field dec_str ''path'' ms (mt_Path m)) (\<lambda>v4.
     try_res (field (dec_int 32) ''port'' ms (mt_Port m)) (\<lambda>v5.
     Inr \<lparr>mt_AllowList = v1, mt_Containers = v2, mt_Interval = v3, mt_Path = v4, mt_Port = v5\<rparr>))))))"

definition Metrics_UnmarshalBinary :: "codec \<Rightarrow> string \<Rightarrow> Metrics \<Rightarrow> goerr option \<times> Metrics" where
  "Metrics_UnmarshalBinary J = unmarshal J Metrics_of_json zero_Metrics"

definition zero_Workload :: Workload where
  "zero_Workload = \<lparr>wl_Configmaps = [], wl_Data = None, wl_ImageRegistries = None, wl_LogCollection = [], wl_Metrics = None,
     wl_Name = [], wl_Specification = []\<rparr>"

definition Workload_json :: "Workload \<Rightarrow> json" where
  "Workload_json m = JObject (strs_member_opt ''configmaps'' (wl_Configmaps m) @
     ptr_member ''data'' DataConfiguration_json (wl_Data m) @
     ptr_member ''imageRegistries'' ImageRegistries_json (wl_ImageRegistries m) @
     str_member ''log_collection'' (wl_LogCollection m) @
     ptr_member ''metrics'' Metrics_json (wl_Metrics m) @ str_member ''name'' (wl_Name m) @
     str_member ''specification'' (wl_Specification m))"

definition Workload_MarshalBinary :: "codec \<Rightarrow> Workload option \<Rightarrow> string result" where
  "Workload_MarshalBinary J = marshal J (\<lambda>x. Inr (Workload_json x))"

definition zero_Secret :: mSecret where
  "zero_Secret = \<lparr>ms_Data = [], ms_Name = []\<rparr>"

definition Secret_json :: "mSecret \<Rightarrow> json" where
  "Secret_json m = JObject (str_member ''data'' (ms_Data m) @ str_member ''name'' (ms_Name m))"

definition Secret_MarshalBinary :: "codec \<Rightarrow> mSecret option \<Rightarrow> string result" where
  "Secret_MarshalBinary J = marshal J (\<lambda>x. Inr (Secret_json x))"

definition Secret_of_json :: "json \<Rightarrow> mSecret \<Rightarrow> mSecret result" where
  "Secret_of_json = dec_struct (\<lambda>ms m.
     try_res (field dec_str ''data'' ms (ms_Data m)) (\<lambda>v1.
     try_res (field dec_str ''name'' ms (ms_Name m)) (\<lambda>v2.
     Inr \<lparr>ms_Data = v1, ms_Name = v2\<rparr>)))"

definition Secret_UnmarshalBinary :: "codec \<Rightarrow> string \<Rightarrow> mSecret \<Rightarrow> goerr option \<times> mSecret" where
  "Secret_UnmarshalBinary J = unmarshal J Secret_of_json zero_Secret"

definition zero_MetricsRetention :: MetricsRetention where
  "zero_MetricsRetention = \<lparr>mr_MaxHours = 0, mr_MaxMib = 0\<rparr>"

definition MetricsRetention_json :: "MetricsRetention \<Rightarrow> json" where
  "MetricsRetention_json m = JObject (int_member ''max_hours'' (mr_MaxHours m) @ int_member ''max_mib'' (mr_MaxMib m))"

definition MetricsRetention_MarshalBinary :: "codec \<Rightarrow> MetricsRetention option \<Rightarrow> string result" where
  "MetricsRetention_MarshalBinary J = marshal J (\<lambda>x. Inr (MetricsRetention_json x))"

definition MetricsRetention_of_json :: "json \<Rightarrow> MetricsRetention \<Rightarrow> MetricsRetention result" where
  "MetricsRetention_of_json = dec_struct (\<lambda>ms m.
     try_res (field (dec_int 32) ''max_hours'' ms (mr_MaxHours m)) (\<lambda>v1.
     try_res (field (dec_int 32) ''max_mib'' ms (mr_MaxMib m)) (\<lambda>v2.
     Inr \<lparr>mr_MaxHours = v1, mr_MaxMib = v2\<rparr>)))"

definition MetricsRetention_UnmarshalBinary :: "codec \<Rightarrow> string \<Rightarrow> MetricsRetention \<Rightarrow> goerr option \<times> MetricsRetention" where
  "MetricsRetention_UnmarshalBinary J = unmarshal J MetricsRetention_of_json zero_MetricsRetention"

definition zero_SystemMetricsConfiguration :: mSystemMetricsConfiguration where
  "zero_SystemMetricsConfiguration = \<lparr>msm_AllowList = None, msm_Disabled = False, msm_Interval = 0\<rparr>"

definition SystemMetricsConfiguration_json :: "mSystemMetricsConfiguration \<Rightarrow> json" where
  "SystemMetricsConfiguration_json m = JObject (ptr_member ''allow_list'' MetricsAllowList_json (msm_AllowList m) @
     bool_member ''disabled'' (msm_Disabled m) @ int_member ''interval'' (msm_Interval m))"

definition SystemMetricsConfiguration_MarshalBinary :: "codec \<Rightarrow> mSystemMetricsConfiguration option \<Rightarrow> string result" where
  "SystemMetricsConfiguration_MarshalBinary J = marshal J (\<lambda>x. Inr (SystemMetricsConfiguration_json x))"

definition SystemMetricsConfiguration_of_json :: "json \<Rightarrow> mSystemMetricsConfiguration \<Rightarrow> mSystemMetricsConfiguration result" where
  "SystemMetricsConfiguration_of_json = dec_struct (\<lambda>ms m.
     try_res (field (dec_ptr MetricsAllowList_of_json zero_MetricsAllowList) ''allow_list'' ms (msm_AllowList m)) (\<lambda>v1.
     try_res (field dec_bool ''disabled'' ms (msm_Disabled m)) (\<lambda>v2.
     try_res (field (dec_int 32) ''interval'' ms (msm_Interval m)) (\<lambda>v3.
     Inr \<lparr>msm_AllowList = v1, msm_Disabled = v2, msm_Interval = v3\<rparr>))))"

definition SystemMetricsConfiguration_UnmarshalBinary :: "codec \<Rightarrow> string \<Rightarrow> mSystemMetricsConfiguration \<Rightarrow> goerr option \<times> mSystemMetricsConfiguration" where
  "SystemMetricsConfiguration_UnmarshalBinary J = unmarshal J SystemMetricsConfiguration_of_json zero_SystemMetricsConfiguration"

definition zero_MetricsConfiguration :: mMetricsConfiguration where
  "zero_MetricsConfiguration = \<lparr>mmc_Retention = None, mmc_System = None\<rparr>"

definition MetricsConfiguration_json :: "mMetricsConfiguration \<Rightarrow> json" where
  "MetricsConfiguration_json m = JObject (ptr_member ''retention'' MetricsRetention_json (mmc_Retention m) @
     ptr_member ''system'' SystemMetricsConfiguration_json (mmc_System m))"

definition MetricsConfiguration_MarshalBinary :: "codec \<Rightarrow> mMetricsConfiguration option \<Rightarrow> string result" where
  "MetricsConfiguration_MarshalBinary J = marshal J (\<lambda>x. Inr (MetricsConfiguration_json x))"

definition MetricsConfiguration_of_json :: "json \<Rightarrow> mMetricsConfiguration \<Rightarrow> mMetricsConfiguration result" where
  "MetricsConfiguration_of_json = dec_struct (\<lambda>ms m.
     try_res (field (dec_ptr MetricsRetention_of_json zero_MetricsRetention) ''retention'' ms (mmc_Retention m)) (\<lambda>v1.
     try_res (field (dec_ptr SystemMetricsConfiguration_of_json zero_SystemMetricsConfiguration) ''system'' ms (mmc_System m)) (\<lambda>v2.
     Inr \<lparr>mmc_Retention = v1, mmc_System = v2\<rparr>)))"

definition MetricsConfiguration_UnmarshalBinary :: "codec \<Rightarrow> string \<Rightarrow> mMetricsConfiguration \<Rightarrow> goerr option \<times> mMetricsConfiguration" where
  "MetricsConfiguration_UnmarshalBinary J = unmarshal J MetricsConfiguration_of_json zero_MetricsConfiguration"

definition zero_SyslogConfig :: SyslogConfig where
  "zero_SyslogConfig = \<lparr>sl_Address = [], sl_Protocol = []\<rparr>"

definition SyslogConfig_json :: "SyslogConfig \<Rightarrow> json" where
  "SyslogConfig_json m = JObject (str_member ''address'' (sl_Address m) @ str_member ''protocol'' (sl_Protocol m))"

definition SyslogConfig_MarshalBinary :: "codec \<Rightarrow> SyslogConfig option \<Rightarrow> string result" where
  "SyslogConfig_MarshalBinary J = marshal J (\<lambda>x. Inr (SyslogConfig_json x))"

definition SyslogConfig_of_json :: "json \<Rightarrow> SyslogConfig \<Rightarrow> SyslogConfig result" where
  "SyslogConfig_of_json = dec_struct (\<lambda>ms m.
     try_res (field dec_str ''address'' ms (sl_Address m)) (\<lambda>v1.
     try_res (field dec_str ''protocol'' ms (sl_Protocol m)) (\<lambda>v2.
     Inr \<lparr>sl_Address = v1, sl_Protocol = v2\<rparr>)))"

definition SyslogConfig_UnmarshalBinary :: "codec \<Rightarrow> string \<Rightarrow> SyslogConfig \<Rightarrow> goerr option \<times> SyslogConfig" where
  "SyslogConfig_UnmarshalBinary J = unmarshal J SyslogConfig_of_json zero_SyslogConfig"

definition zero_LogsCollectionInformation :: LogsCollectionInformation where
  "zero_LogsCollectionInformation = \<lparr>li_BufferSize = 0, li_Kind = [], li_SyslogConfig = None\<rparr>"

definition LogsCollectionInformation_json :: "LogsCollectionInformation \<Rightarrow> json" where
  "LogsCollectionInformation_json m = JObject (int_member ''buffer_size'' (li_BufferSize m) @ str_member ''kind'' (li_Kind m) @
     ptr_member ''syslog_config'' SyslogConfig_json (li_SyslogConfig m))"

definition LogsCollectionInformation_MarshalBinary :: "codec \<Rightarrow> LogsCollectionInformation option \<Rightarrow> string result" where
  "LogsCollectionInformation_MarshalBinary J = marshal J (\<lambda>x. Inr (LogsCollectionInformation_json x))"

definition LogsCollectionInformation_of_json :: "json \<Rightarrow> LogsCollectionInformation \<Rightarrow> LogsCollectionInformation result" where
  "LogsCollectionInformation_of_json = dec_struct (\<lambda>ms m.
     try_res (field (dec_int 32) ''buffer_size'' ms (li_BufferSize m)) (\<lambda>v1.
     try_res (field dec_str ''kind'' ms (li_Kind m)) (\<lambda>v2.
     try_res (field (dec_ptr SyslogConfig_of_json zero_SyslogConfig) ''syslog_config'' ms (li_SyslogConfig m)) (\<lambda>v3.
     Inr \<lparr>li_BufferSize = v1, li_Kind = v2, li_SyslogConfig = v3\<rparr>))))"

definition LogsCollectionInformation_UnmarshalBinary :: "codec \<Rightarrow> string \<Rightarrow> LogsCollectionInformation \<Rightarrow> goerr option \<times> LogsCollectionInformation" where
  "LogsCollectionInformation_UnmarshalBinary J = unmarshal J LogsCollectionInformation_of_json zero_LogsCollectionInformation"

definition zero_HardwareProfileConfiguration :: mHardwareProfileConfiguration where
  "zero_HardwareProfileConfiguration = \<lparr>mhp_Include = False, mhp_Scope = []\<rparr>"

definition HardwareProfileConfiguration_json :: "mHardwareProfileConfiguration \<Rightarrow> json" where
  "HardwareProfileConfiguration_json m = JObject (bool_member ''include'' (mhp_Include m) @ str_member ''scope'' (mhp_Scope m))"

definition HardwareProfileConfiguration_MarshalBinary :: "codec \<Rightarrow> mHardwareProfileConfiguration option \<Rightarrow> string result" where
  "HardwareProfileConfiguration_MarshalBinary J = marshal J (\<lambda>x. Inr (HardwareProfileConfiguration_json x))"

definition HardwareProfileConfiguration_of_json :: "json \<Rightarrow> mHardwareProfileConfiguration \<Rightarrow> mHardwareProfileConfiguration result" where
  "HardwareProfileConfiguration_of_json = dec_struct (\<lambda>ms m.
     try_res (field dec_bool ''include'' ms (mhp_Include m)) (\<lambda>v1.
     try_res (field dec_str ''scope'' ms (mhp_Scope m)) (\<lambda>v2.
     Inr \<lparr>mhp_Include = v1, mhp_Scope = v2\<rparr>)))"

definition HardwareProfileConfiguration_UnmarshalBinary :: "codec \<Rightarrow> string \<Rightarrow> mHardwareProfileConfiguration \<Rightarrow> goerr option \<times> mHardwareProfileConfiguration" where
  "HardwareProfileConfiguration_UnmarshalBinary J = unmarshal J HardwareProfileConfiguration_of_json zero_HardwareProfileConfiguration"

definition zero_HeartbeatConfiguration :: mHeartbeatConfiguration where
  "zero_HeartbeatConfiguration = \<lparr>mhc_HardwareProfile = None, mhc_PeriodSeconds = 0\<rparr>"

definition HeartbeatConfiguration_json :: "mHeartbeatConfiguration \<Rightarrow> json" where
  "HeartbeatConfiguration_json m = JObject (ptr_member ''hardware_profile'' HardwareProfileConfiguration_json (mhc_HardwareProfile m) @
     int_member ''period_seconds'' (mhc_PeriodSeconds m))"

definition HeartbeatConfiguration_MarshalBinary :: "codec \<Rightarrow> mHeartbeatConfiguration option \<Rightarrow> string result" where
  "HeartbeatConfiguration_MarshalBinary J = marshal J (\<lambda>x. Inr (HeartbeatConfiguration_json x))"

definition HeartbeatConfiguration_of_json :: "json \<Rightarrow> mHeartbeatConfiguration \<Rightarrow> mHeartbeatConfiguration result" where
  "HeartbeatConfiguration_of_json = dec_struct (\<lambda>ms m.
     try_res (field (dec_ptr HardwareProfileConfiguration_of_json zero_HardwareProfileConfiguration) ''hardware_profile'' ms (mhc_HardwareProfile m)) (\<lambda>v1.
     try_res (field (dec_int 64) ''period_seconds'' ms (mhc_PeriodSeconds m)) (\<lambda>v2.
     Inr \<lparr>mhc_HardwareProfile = v1, mhc_PeriodSeconds = v2\<rparr>)))"

definition HeartbeatConfiguration_UnmarshalBinary :: "codec \<Rightarrow> string \<Rightarrow> mHeartbeatConfiguration \<Rightarrow> goerr option \<times> mHeartbeatConfiguration" where
  "HeartbeatConfiguration_UnmarshalBinary J = unmarshal J HeartbeatConfiguration_of_json zero_HeartbeatConfiguration"

definition zero_OsInformation :: mOsInformation where
  "zero_OsInformation = \<lparr>mos_AutomaticallyUpgrade = False, mos_CommitID = [], mos_HostedObjectsURL = []\<rparr>"

definition OsInformation_json :: "mOsInformation \<Rightarrow> json" where
  "OsInformation_json m = JObject (bool_member ''automatically_upgrade'' (mos_AutomaticallyUpgrade m) @
     str_member ''commit_id'' (mos_CommitID m) @
     str_member ''hosted_objects_url'' (mos_HostedObjectsURL m))"

definition OsInformation_MarshalBinary :: "codec \<Rightarrow> mOsInformation option \<Rightarrow> string result" where
  "OsInformation_MarshalBinary J = marshal J (\<lambda>x. Inr (OsInformation_json x))"

definition OsInformation_of_json :: "json \<Rightarrow> mOsInformation \<Rightarrow> mOsInformation result" where
  "OsInformation_of_json = dec_struct (\<lambda>ms m.
     try_res (field dec_bool ''automatically_upgrade'' ms (mos_AutomaticallyUpgrade m)) (\<lambda>v1.
     try_res (field dec_str ''commit_id'' ms (mos_CommitID m)) (\<lambda>v2.
     try_res (field dec_str ''hosted_objects_url'' ms (mos_HostedObjectsURL m)) (\<lambda>v3.
     Inr \<lparr>mos_AutomaticallyUpgrade = v1, mos_CommitID = v2, mos_HostedObjectsURL = v3\<rparr>))))"

definition OsInformation_UnmarshalBinary :: "codec \<Rightarrow> string \<Rightarrow> mOsInformation \<Rightarrow> goerr option \<times> mOsInformation" where
  "OsInformation_UnmarshalBinary J = unmarshal J OsInformation_of_json zero_OsInformation"

definition zero_S3StorageConfiguration :: S3StorageConfiguration where
  "zero_S3StorageConfiguration = \<lparr>s3c_AwsAccessKeyID = [], s3c_AwsCaBundle = [], s3c_AwsSecretAccessKey = [], s3c_BucketHost = [],
     s3c_BucketName = [], s3c_BucketPort = 0, s3c_BucketRegion = []\<rparr>"

definition S3StorageConfiguration_json :: "S3StorageConfiguration \<Rightarrow> json" where
  "S3StorageConfiguration_json m = JObject (str_member ''aws_access_key_id'' (s3c_AwsAccessKeyID m) @
     str_member ''aws_ca_bundle'' (s3c_AwsCaBundle m) @
     str_member ''aws_secret_access_key'' (s3c_AwsSecretAccessKey m) @
     str_member ''bucket_host'' (s3c_BucketHost m) @ str_member ''bucket_name'' (s3c_BucketName m) @
     int_member ''bucket_port'' (s3c_BucketPort m) @ str_member ''bucket_region'' (s3c_BucketRegion m))"

definition S3StorageConfiguration_MarshalBinary :: "codec \<Rightarrow> S3StorageConfiguration option \<Rightarrow> string result" where
  "S3StorageConfiguration_MarshalBinary J = marshal J (\<lambda>x. Inr (S3StorageConfiguration_json x))"

definition S3StorageConfiguration_of_json :: "json \<Rightarrow> S3StorageConfiguration \<Rightarrow> S3StorageConfiguration result" where
  "S3StorageConfiguration_of_json = dec_struct (\<lambda>ms m.
     try_res (field dec_str ''aws_access_key_id'' ms (s3c_AwsAccessKeyID m)) (\<lambda>v1.
     try_res (field dec_str ''aws_ca_bundle'' ms (s3c_AwsCaBundle m)) (\<lambda>v2.
     try_res (field dec_str ''aws_secret_access_key'' ms (s3c_AwsSecretAccessKey m)) (\<lambda>v3.
     try_res (field dec_str ''bucket_host'' ms (s3c_BucketHost m)) (\<lambda>v4.
     try_res (field dec_str ''bucket_name'' ms (s3c_BucketName m)) (\<lambda>v5.
     try_res (field (dec_int 32) ''bucket_port'' ms (s3c_BucketPort m)) (\<lambda>v6.
     try_res (field dec_str ''bucket_region'' ms (s3c_BucketRegion m)) (\<lambda>v7.
     Inr \<lparr>s3c_AwsAccessKeyID = v1, s3c_AwsCaBundle = v2, s3c_AwsSecretAccessKey = v3, s3c_BucketHost = v4,
     s3c_BucketName = v5, s3c_BucketPort = v6, s3c_BucketRegion = v7\<rparr>))))))))"

definition S3StorageConfiguration_UnmarshalBinary :: "codec \<Rightarrow> string \<Rightarrow> S3StorageConfiguration \<Rightarrow> goerr option \<times> S3StorageConfiguration" where
  "S3StorageConfiguration_UnmarshalBinary J = unmarshal J S3StorageConfiguration_of_json zero_S3StorageConfiguration"

definition zero_StorageConfiguration :: StorageConfiguration where
  "zero_StorageConfiguration = \<lparr>stc_S3 = None\<rparr>"

definition StorageConfiguration_json :: "StorageConfiguration \<Rightarrow> json" where
  "StorageConfiguration_json m = JObject (ptr_member ''s3'' S3StorageConfiguration_json (stc_S3 m))"

definition StorageConfiguration_MarshalBinary :: "codec \<Rightarrow> StorageConfiguration option \<Rightarrow> string result" where
  "StorageConfiguration_MarshalBinary J = marshal J (\<lambda>x. Inr (StorageConfiguration_json x))"

definition StorageConfiguration_of_json :: "json \<Rightarrow> StorageConfiguration \<Rightarrow> StorageConfiguration result" where
  "StorageConfiguration_of_json = dec_struct (\<lambda>ms m.
     try_res (field (dec_ptr S3StorageConfiguration_of_json zero_S3StorageConfiguration) ''s3'' ms (stc_S3 m)) (\<lambda>v1.
     Inr \<lparr>stc_S3 = v1\<rparr>))"

definition StorageConfiguration_UnmarshalBinary :: "codec \<Rightarrow> string \<Rightarrow> StorageConfiguration \<Rightarrow> goerr option \<times> StorageConfiguration" where
  "StorageConfiguration_UnmarshalBinary J = unmarshal J StorageConfiguration_of_json zero_StorageConfiguration"

definition zero_DeviceConfiguration :: DeviceConfiguration where
  "zero_DeviceConfiguration = \<lparr>dc_Heartbeat = None, dc_LogCollection = None, dc_Metrics = None, dc_Os = None, dc_Storage = None\<rparr>"

definition DeviceConfiguration_json :: "DeviceConfiguration \<Rightarrow> json" where
  "DeviceConfiguration_json m = JObject (ptr_member ''heartbeat'' HeartbeatConfiguration_json (dc_Heartbeat m) @
     map_member ''log-collection'' LogsCollectionInformation_json (dc_LogCollection m) @
     ptr_member ''metrics'' MetricsConfiguration_json (dc_Metrics m) @
     ptr_member ''os'' OsInformation_json (dc_Os m) @
     ptr_member ''storage'' StorageConfiguration_json (dc_Storage m))"

definition DeviceConfiguration_MarshalBinary :: "codec \<Rightarrow> DeviceConfiguration option \<Rightarrow> string result" where
  "DeviceConfiguration_MarshalBinary J = marshal J (\<lambda>x. Inr (DeviceConfiguration_json x))"

definition DeviceConfiguration_of_json :: "json \<Rightarrow> DeviceConfiguration \<Rightarrow> DeviceConfiguration result" where
  "DeviceConfiguration_of_json = dec_struct (\<lambda>ms m.
     try_res (field (dec_ptr HeartbeatConfiguration_of_json zero_HeartbeatConfiguration) ''heartbeat'' ms (dc_Heartbeat m)) (\<lambda>v1.
     try_res (field (dec_map LogsCollectionInformation_of_json zero_LogsCollectionInformation) ''log-collection'' ms (dc_LogCollection m)) (\<lambda>v2.
     try_res (field (dec_ptr MetricsConfiguration_of_json zero_MetricsConfiguration) ''metrics'' ms (dc_Metrics m)) (\<lambda>v3.
     try_res (field (dec_ptr OsInformation_of_json zero_OsInformation) ''os'' ms (dc_Os m)) (\<lambda>v4.
     try_res (field (dec_ptr StorageConfiguration_of_json zero_StorageConfiguration) ''storage'' ms (dc_Storage m)) (\<lambda>v5.
     Inr \<lparr>dc_Heartbeat = v1, dc_LogCollection = v2, dc_Metrics = v3, dc_Os = v4, dc_Storage = v5\<rparr>))))))"

definition DeviceConfiguration_UnmarshalBinary :: "codec \<Rightarrow> string \<Rightarrow> DeviceConfiguration \<Rightarrow> goerr option \<times> DeviceConfiguration" where
  "DeviceConfiguration_UnmarshalBinary J = unmarshal J DeviceConfiguration_of_json zero_DeviceConfiguration"

definition zero_DeviceConfigurationMessage :: DeviceConfigurationMessage where
  "zero_DeviceConfigurationMessage = \<lparr>dcm_Configuration = None, dcm_DeviceID = [], dcm_Secrets = [], dcm_Version = [], dcm_Workloads = [],
     dcm_WorkloadsMonitoringInterval = 0\<rparr>"

definition DeviceConfigurationMessage_json :: "DeviceConfigurationMessage \<Rightarrow> json" where
  "DeviceConfigurationMessage_json m = JObject (ptr_member ''configuration'' DeviceConfiguration_json (dcm_Configuration m) @
     str_member ''device_id'' (dcm_DeviceID m) @
     ptrs_member_opt ''secrets'' Secret_json (map Some (dcm_Secrets m)) @
     str_member ''version'' (dcm_Version m) @
     ptrs_member_opt ''workloads'' Workload_json (map Some (dcm_Workloads m)) @
     int_member ''workloads_monitoring_interval'' (dcm_WorkloadsMonitoringInterval m))"

definition DeviceConfigurationMessage_MarshalBinary :: "codec \<Rightarrow> DeviceConfigurationMessage option \<Rightarrow> string result" where
  "DeviceConfigurationMessage_MarshalBinary J = marshal J (\<lambda>x. Inr (DeviceConfigurationMessage_json x))"

definition zero_RegistrationResponse :: RegistrationResponse where
  "zero_RegistrationResponse = \<lparr>rr_Certificate = []\<rparr>"

definition RegistrationResponse_json :: "RegistrationResponse \<Rightarrow> json" where
  "RegistrationResponse_json m = JObject (str_member ''certificate'' (rr_Certificate m))"

definition RegistrationResponse_MarshalBinary :: "codec \<Rightarrow> RegistrationResponse option \<Rightarrow> string result" where
  "RegistrationResponse_MarshalBinary J = marshal J (\<lambda>x. Inr (RegistrationResponse_json x))"

definition RegistrationResponse_of_json :: "json \<Rightarrow> RegistrationResponse \<Rightarrow> RegistrationResponse result" where
  "RegistrationResponse_of_json = dec_struct (\<lambda>ms m.
     try_res (field dec_str ''certificate'' ms (rr_Certificate m)) (\<lambda>v1.
     Inr \<lparr>rr_Certificate = v1\<rparr>))"

definition RegistrationResponse_UnmarshalBinary :: "codec \<Rightarrow> string \<Rightarrow> RegistrationResponse \<Rightarrow> goerr option \<times> RegistrationResponse" where
  "RegistrationResponse_UnmarshalBinary J = unmarshal J RegistrationResponse_of_json zero_RegistrationResponse"

section \<open>Values that survive the round trip\<close>

definition ContainerMetrics_wf :: "ContainerMetrics \<Rightarrow> bool" where
  "ContainerMetrics_wf m \<longleftrightarrow> in_bits 32 (ctm_Port m)"

definition Metrics_wf :: "Metrics \<Rightarrow> bool" where
  "Metrics_wf m \<longleftrightarrow> map_wf ContainerMetrics_wf (mt_Containers m) \<and> in_bits 32 (mt_Interval m) \<and>
     in_bits 32 (mt_Port m)"

definition MetricsRetention_wf :: "MetricsRetention \<Rightarrow> bool" where
  "MetricsRetention_wf m \<longleftrightarrow> in_bits 32 (mr_MaxHours m) \<and> in_bits 32 (mr_MaxMib m)"

definition SystemMetricsConfiguration_wf :: "mSystemMetricsConfiguration \<Rightarrow> bool" where
  "SystemMetricsConfiguration_wf m \<longleftrightarrow> in_bits 32 (msm_Interval m)"

definition MetricsConfiguration_wf :: "mMetricsConfiguration \<Rightarrow> bool" where
  "MetricsConfiguration_wf m \<longleftrightarrow> pred_option MetricsRetention_wf (mmc_Retention m) \<and>
     pred_option SystemMetricsConfiguration_wf (mmc_System m)"

definition LogsCollectionInformation_wf :: "LogsCollectionInformation \<Rightarrow> bool" where
  "LogsCollectionInformation_wf m \<longleftrightarrow> in_bits 32 (li_BufferSize m)"

definition HeartbeatConfiguration_wf :: "mHeartbeatConfiguration \<Rightarrow> bool" where
  "HeartbeatConfiguration_wf m \<longleftrightarrow> in_bits 64 (mhc_PeriodSeconds m)"

definition S3StorageConfiguration_wf :: "S3StorageConfiguration \<Rightarrow> bool" where
  "S3StorageConfiguration_wf m \<longleftrightarrow> in_bits 32 (s3c_BucketPort m)"

definition StorageConfiguration_wf :: "StorageConfiguration \<Rightarrow> bool" where
  "StorageConfiguration_wf m \<longleftrightarrow> pred_option S3StorageConfiguration_wf (stc_S3 m)"

definition DeviceConfiguration_wf :: "DeviceConfiguration \<Rightarrow> bool" where
  "DeviceConfiguration_wf m \<longleftrightarrow> pred_option HeartbeatConfiguration_wf (dc_Heartbeat m) \<and>
     map_wf LogsCollectionInformation_wf (dc_LogCollection m) \<and>
     pred_option MetricsConfiguration_wf (dc_Metrics m) \<and>
     pred_option StorageConfiguration_wf (dc_Storage m)"

section \<open>Decoding what was encoded\<close>

lemma sent_names_folded [folded]:
  "json_fold ''allow_list'' = ''allow_list''"
  "json_fold ''authFile'' = ''authfile''"
  "json_fold ''automatically_upgrade'' = ''automatically_upgrade''"
  "json_fold ''aws_access_key_id'' = ''aws_access_key_id''"
  "json_fold ''aws_ca_bundle'' = ''aws_ca_bundle''"
  "json_fold ''aws_secret_access_key'' = ''aws_secret_access_key''"
  "json_fold ''bucket_host'' = ''bucket_host''"
  "json_fold ''bucket_name'' = ''bucket_name''"
  "json_fold ''bucket_port'' = ''bucket_port''"
  "json_fold ''bucket_region'' = ''bucket_region''"
  "json_fold ''buffer_size'' = ''buffer_size''"
  "json_fold ''certificate'' = ''certificate''"
  "json_fold ''commit_id'' = ''commit_id''"
  "json_fold ''configmaps'' = ''configmaps''"
  "json_fold ''configuration'' = ''configuration''"
  "json_fold ''containers'' = ''containers''"
  "json_fold ''data'' = ''data''"
  "json_fold ''disabled'' = ''disabled''"
  "json_fold ''hardware_profile'' = ''hardware_profile''"
  "json_fold ''heartbeat'' = ''heartbeat''"
  "json_fold ''hosted_objects_url'' = ''hosted_objects_url''"
  "json_fold ''imageRegistries'' = ''imageregistries''"
  "json_fold ''include'' = ''include''"
  "json_fold ''interval'' = ''interval''"
  "json_fold ''kind'' = ''kind''"
  "json_fold ''log-collection'' = ''log-collection''"
  "json_fold ''log_collection'' = ''log_collection''"
  "json_fold ''max_hours'' = ''max_hours''"
  "json_fold ''max_mib'' = ''max_mib''"
  "json_fold ''metrics'' = ''metrics''"
  "json_fold ''names'' = ''names''"
  "json_fold ''os'' = ''os''"
  "json_fold ''paths'' = ''paths''"
  "json_fold ''period_seconds'' = ''period_seconds''"
  "json_fold ''port'' = ''port''"
  "json_fold ''protocol'' = ''protocol''"
  "json_fold ''retention'' = ''retention''"
  "json_fold ''s3'' = ''s3''"
  "json_fold ''scope'' = ''scope''"
  "json_fold ''secrets'' = ''secrets''"
  "json_fold ''source'' = ''source''"
  "json_fold ''specification'' = ''specification''"
  "json_fold ''storage'' = ''storage''"
  "json_fold ''syslog_config'' = ''syslog_config''"
  "json_fold ''system'' = ''system''"
  "json_fold ''target'' = ''target''"
  "json_fold ''workloads_monitoring_interval'' = ''workloads_monitoring_interval''"
  by code_simp+

lemma DataPath_roundtrip [decoding]: "DataPath_json m \<noteq> JNull \<and> DataPath_of_json (DataPath_json m) zero_DataPath = Inr m"
  by (simp add: DataPath_json_def DataPath_of_json_def zero_DataPath_def struct_parts decoding folded)

lemma ImageRegistries_roundtrip [decoding]: "ImageRegistries_json m \<noteq> JNull \<and> ImageRegistries_of_json (ImageRegistries_json m) zero_ImageRegistries = Inr m"
  by (simp add: ImageRegistries_json_def ImageRegistries_of_json_def zero_ImageRegistries_def struct_parts decoding folded)

lemma MetricsAllowList_roundtrip [decoding]: "MetricsAllowList_json m \<noteq> JNull \<and> MetricsAllowList_of_json (MetricsAllowList_json m) zero_MetricsAllowList = Inr m"
  by (simp add: MetricsAllowList_json_def MetricsAllowList_of_json_def zero_MetricsAllowList_def struct_parts decoding folded)

lemma ContainerMetrics_roundtrip [decoding]: "ContainerMetrics_wf m \<Longrightarrow> ContainerMetrics_json m \<noteq> JNull \<and> ContainerMetrics_of_json (ContainerMetrics_json m) zero_ContainerMetrics = Inr m"
  by (simp add: ContainerMetrics_json_def ContainerMetrics_of_json_def zero_ContainerMetrics_def ContainerMetrics_wf_def struct_parts decoding folded)

lemmas ContainerMetrics_map [decoding] = dec_all_map
  [where ok = ContainerMetrics_wf and enc = ContainerMetrics_json and dec = ContainerMetrics_of_json and z = zero_ContainerMetrics, OF _ ContainerMetrics_roundtrip [THEN conjunct2]]

lemma Metrics_roundtrip [decoding]: "Metrics_wf m \<Longrightarrow> Metrics_json m \<noteq> JNull \<and> Metrics_of_json (Metrics_json m) zero_Metrics = Inr m"
  by (simp add: Metrics_json_def Metrics_of_json_def zero_Metrics_def Metrics_wf_def struct_parts decoding folded)

lemma Secret_roundtrip [decoding]: "Secret_json m \<noteq> JNull \<and> Secret_of_json (Secret_json m) zero_Secret = Inr m"
  by (simp add: Secret_json_def Secret_of_json_def zero_Secret_def struct_parts decoding folded)

lemma MetricsRetention_roundtrip [decoding]: "MetricsRetention_wf m \<Longrightarrow> MetricsRetention_json m \<noteq> JNull \<and> MetricsRetention_of_json (MetricsRetention_json m) zero_MetricsRetention = Inr m"
  by (simp add: MetricsRetention_json_def MetricsRetention_of_json_def zero_MetricsRetention_def MetricsRetention_wf_def struct_parts decoding folded)

lemmas MetricsRetention_ptr [decoding] = dec_all_ptr_ok
  [where ok = MetricsRetention_wf and enc = MetricsRetention_json and dec = MetricsRetention_of_json and z = zero_MetricsRetention, OF _ MetricsRetention_roundtrip]

lemma SystemMetricsConfiguration_roundtrip [decoding]: "SystemMetricsConfiguration_wf m \<Longrightarrow> SystemMetricsConfiguration_json m \<noteq> JNull \<and> SystemMetricsConfiguration_of_json (SystemMetricsConfiguration_json m) zero_SystemMetricsConfiguration = Inr m"
  by (simp add: SystemMetricsConfiguration_json_def SystemMetricsConfiguration_of_json_def zero_SystemMetricsConfiguration_def SystemMetricsConfiguration_wf_def struct_parts decoding folded)

lemmas SystemMetricsConfiguration_ptr [decoding] = dec_all_ptr_ok
  [where ok = SystemMetricsConfiguration_wf and enc = SystemMetricsConfiguration_json and dec = SystemMetricsConfiguration_of_json and z = zero_SystemMetricsConfiguration, OF _ SystemMetricsConfiguration_roundtrip]

lemma MetricsConfiguration_roundtrip [decoding]: "MetricsConfiguration_wf m \<Longrightarrow> MetricsConfiguration_json m \<noteq> JNull \<and> MetricsConfiguration_of_json (MetricsConfiguration_json m) zero_MetricsConfiguration = Inr m"
  by (simp add: MetricsConfiguration_json_def MetricsConfiguration_of_json_def zero_MetricsConfiguration_def MetricsConfiguration_wf_def struct_parts decoding folded)

lemmas MetricsConfiguration_ptr [decoding] = dec_all_ptr_ok
  [where ok = MetricsConfiguration_wf and enc = MetricsConfiguration_json and dec = MetricsConfiguration_of_json and z = zero_MetricsConfiguration, OF _ MetricsConfiguration_roundtrip]

lemma SyslogConfig_roundtrip [decoding]: "SyslogConfig_json m \<noteq> JNull \<and> SyslogConfig_of_json (SyslogConfig_json m) zero_SyslogConfig = Inr m"
  by (simp add: SyslogConfig_json_def SyslogConfig_of_json_def zero_SyslogConfig_def struct_parts decoding folded)

lemma LogsCollectionInformation_roundtrip [decoding]: "LogsCollectionInformation_wf m \<Longrightarrow> LogsCollectionInformation_json m \<noteq> JNull \<and> LogsCollectionInformation_of_json (LogsCollectionInformation_json m) zero_LogsCollectionInformation = Inr m"
  by (simp add: LogsCollectionInformation_json_def LogsCollectionInformation_of_json_def zero_LogsCollectionInformation_def LogsCollectionInformation_wf_def struct_parts decoding folded)

lemmas LogsCollectionInformation_map [decoding] = dec_all_map
  [where ok = LogsCollectionInformation_wf and enc = LogsCollectionInformation_json and dec = LogsCollectionInformation_of_json and z = zero_LogsCollectionInformation, OF _ LogsCollectionInformation_roundtrip [THEN conjunct2]]

lemma HardwareProfileConfiguration_roundtrip [decoding]: "HardwareProfileConfiguration_json m \<noteq> JNull \<and> HardwareProfileConfiguration_of_json (HardwareProfileConfiguration_json m) zero_HardwareProfileConfiguration = Inr m"
  by (simp add: HardwareProfileConfiguration_json_def HardwareProfileConfiguration_of_json_def zero_HardwareProfileConfiguration_def struct_parts decoding folded)

lemma HeartbeatConfiguration_roundtrip [decoding]: "HeartbeatConfiguration_wf m \<Longrightarrow> HeartbeatConfiguration_json m \<noteq> JNull \<and> HeartbeatConfiguration_of_json (HeartbeatConfiguration_json m) zero_HeartbeatConfiguration = Inr m"
  by (simp add: HeartbeatConfiguration_json_def HeartbeatConfiguration_of_json_def zero_HeartbeatConfiguration_def HeartbeatConfiguration_wf_def struct_parts decoding folded)

lemmas HeartbeatConfiguration_ptr [decoding] = dec_all_ptr_ok
  [where ok = HeartbeatConfiguration_wf and enc = HeartbeatConfiguration_json and dec = HeartbeatConfiguration_of_json and z = zero_HeartbeatConfiguration, OF _ HeartbeatConfiguration_roundtrip]

lemma OsInformation_roundtrip [decoding]: "OsInformation_json m \<noteq> JNull \<and> OsInformation_of_json (OsInformation_json m) zero_OsInformation = Inr m"
  by (simp add: OsInformation_json_def OsInformation_of_json_def zero_OsInformation_def struct_parts decoding folded)

lemma S3StorageConfiguration_roundtrip [decoding]: "S3StorageConfiguration_wf m \<Longrightarrow> S3StorageConfiguration_json m \<noteq> JNull \<and> S3StorageConfiguration_of_json (S3StorageConfiguration_json m) zero_S3StorageConfiguration = Inr m"
  by (simp add: S3StorageConfiguration_json_def S3StorageConfiguration_of_json_def zero_S3StorageConfiguration_def S3StorageConfiguration_wf_def struct_parts decoding folded)

lemmas S3StorageConfiguration_ptr [decoding] = dec_all_ptr_ok
  [where ok = S3StorageConfiguration_wf and enc = S3StorageConfiguration_json and dec = S3StorageConfiguration_of_json and z = zero_S3StorageConfiguration, OF _ S3StorageConfiguration_roundtrip]

lemma StorageConfiguration_roundtrip [decoding]: "StorageConfiguration_wf m \<Longrightarrow> StorageConfiguration_json m \<noteq> JNull \<and> StorageConfiguration_of_json (StorageConfiguration_json m) zero_StorageConfiguration = Inr m"
  by (simp add: StorageConfiguration_json_def StorageConfiguration_of_json_def zero_StorageConfiguration_def StorageConfiguration_wf_def struct_parts decoding folded)

lemmas StorageConfiguration_ptr [decoding] = dec_all_ptr_ok
  [where ok = StorageConfiguration_wf and enc = StorageConfiguration_json and dec = StorageConfiguration_of_json and z = zero_StorageConfiguration, OF _ StorageConfiguration_roundtrip]

lemma DeviceConfiguration_roundtrip [decoding]: "DeviceConfiguration_wf m \<Longrightarrow> DeviceConfiguration_json m \<noteq> JNull \<and> DeviceConfiguration_of_json (DeviceConfiguration_json m) zero_DeviceConfiguration = Inr m"
  by (simp add: DeviceConfiguration_json_def DeviceConfiguration_of_json_def zero_DeviceConfiguration_def DeviceConfiguration_wf_def struct_parts decoding folded)

lemma RegistrationResponse_roundtrip [decoding]: "RegistrationResponse_json m \<noteq> JNull \<and> RegistrationResponse_of_json (RegistrationResponse_json m) zero_RegistrationResponse = Inr m"
  by (simp add: RegistrationResponse_json_def RegistrationResponse_of_json_def zero_RegistrationResponse_def struct_parts decoding folded)

section \<open>Properties\<close>

text \<open>What is used of the text of JSON: the value written is read back.\<close>

definition text_kept :: "codec \<Rightarrow> json result \<Rightarrow> bool" where
  "text_kept J r = (case r of Inl err \<Rightarrow> True | Inr j \<Rightarrow> jc_parse J (jc_print J j) = Inr j)"

lemma codes_marshalled:
  "codes enc dec zero x \<Longrightarrow> text_kept J (enc x) \<Longrightarrow>
     \<exists>b. marshal J enc (Some x) = Inr b \<and> unmarshal J dec zero b m = (None, x)"
  unfolding codes_def text_kept_def by (elim exE conjE, rule unmarshal_marshal) (auto split: sum.splits)

text \<open>C16: a heartbeat, a registration and a device configuration come back from their JSON form as they were, in any
  receiver, when their numbers fit the widths of the fields, their dates and frequencies have a text, and
  their maps are not empty: no two fields of a struct share a member, and what is omitted from the text is
  the zero value.\<close>

theorem messages_roundtrip:
  assumes "Heartbeat_wf J hb" and "text_kept J (Heartbeat_json J hb)"
    and "RegistrationInfo_wf J ri" and "text_kept J (RegistrationInfo_json J ri)"
    and "DeviceConfiguration_wf dc" and "text_kept J (Inr (DeviceConfiguration_json dc))"
  shows "(\<exists>b. Heartbeat_MarshalBinary J (Some hb) = Inr b \<and> Heartbeat_UnmarshalBinary J b hb0 = (None, hb)) \<and>
    (\<exists>b. RegistrationInfo_MarshalBinary J (Some ri) = Inr b \<and> RegistrationInfo_UnmarshalBinary J b ri0 = (None, ri)) \<and>
    (\<exists>b. DeviceConfiguration_MarshalBinary J (Some dc) = Inr b \<and> DeviceConfiguration_UnmarshalBinary J b dc0 = (None, dc))"
proof -
  have "codes (\<lambda>x. Inr (DeviceConfiguration_json x)) DeviceConfiguration_of_json zero_DeviceConfiguration dc"
    using DeviceConfiguration_roundtrip [OF assms(5)] by (simp add: codes_def)
  from codes_marshalled [OF Heartbeat_codes [OF assms(1)] assms(2), of hb0]
    codes_marshalled [OF RegistrationInfo_codes [OF assms(3)] assms(4), of ri0] codes_marshalled [OF this assms(6), of dc0]
  show ?thesis
    by (simp add: Heartbeat_MarshalBinary_def Heartbeat_UnmarshalBinary_def RegistrationInfo_MarshalBinary_def
        RegistrationInfo_UnmarshalBinary_def DeviceConfiguration_MarshalBinary_def DeviceConfiguration_UnmarshalBinary_def)
qed

text \<open>A codec for a few values: their place in a list is their text.\<close>

definition sample_codec :: "json list \<Rightarrow> codec" where
  "sample_codec js = \<lparr>jc_print = (\<lambda>j. Itoa (length (takeWhile (\<lambda>x. x \<noteq> j) js))),
     jc_parse = (\<lambda>s. try_res (ParseUint s 64) (\<lambda>n. if n < length js then Inr (js ! n) else Inl type_error)),
     jc_float = (\<lambda>f. Inr (Itoa f)), jc_parse_float = (\<lambda>s. ParseUint s 64),
     jc_time = (\<lambda>t. FormatInt t), jc_parse_time = (\<lambda>s. ParseInt s 64)\<rparr>"

lemma sample_codec_text: "j \<in> set js \<Longrightarrow> length js < 2 ^ 64 \<Longrightarrow> jc_parse (sample_codec js) (jc_print (sample_codec js) j) = Inr j"
proof -
  assume j: "j \<in> set js" and len: "length js < 2 ^ 64"
  have "length (takeWhile (\<lambda>x. x \<noteq> j) js) < length js"
    using j by (metis (mono_tags, lifting) length_takeWhile_le nat_less_le takeWhile_eq_all_conv takeWhile_eq_take take_all_iff)
  moreover from this have "js ! length (takeWhile (\<lambda>x. x \<noteq> j) js) = j"
    using nth_length_takeWhile [of "\<lambda>x. x \<noteq> j" js] by simp
  ultimately show ?thesis using len by (simp add: sample_codec_def ParseUint_Itoa)
qed

definition sample_beat :: Heartbeat where
  "sample_beat = zero_Heartbeat\<lparr>hb_Status := ''up'', hb_Hardware := Some (zero_HardwareInfo\<lparr>hi_CPU :=
     Some (zero_CPU\<lparr>mcpu_Count := 4, mcpu_Frequency := 4654311885213007872\<rparr>)\<rparr>)\<rparr>"

definition sample_logging :: DeviceConfiguration where
  "sample_logging = zero_DeviceConfiguration\<lparr>dc_LogCollection := Some [(''syslog'', zero_LogsCollectionInformation\<lparr>li_BufferSize := 12\<rparr>)]\<rparr>"

theorem messages_roundtrip_witness:
  "\<exists>J b. Heartbeat_MarshalBinary J (Some sample_beat) = Inr b \<and> Heartbeat_UnmarshalBinary J b zero_Heartbeat = (None, sample_beat)"
proof -
  let ?B = "sample_codec []"
  obtain j1 j2 where j: "Heartbeat_json ?B sample_beat = Inr j1" "RegistrationInfo_json ?B zero_RegistrationInfo = Inr j2"
    by (simp add: Heartbeat_json_def sample_beat_def zero_Heartbeat_def ptr_member_try_def HardwareInfo_json_def
        zero_HardwareInfo_def CPU_json_def zero_CPU_def float_member_def float_zero_def sample_codec_def
        RegistrationInfo_json_def zero_RegistrationInfo_def)
  define J where "J = sample_codec [j1, j2, DeviceConfiguration_json sample_logging]"
  have same: "Heartbeat_json J sample_beat = Inr j1" "RegistrationInfo_json J zero_RegistrationInfo = Inr j2"
    using j by (simp_all add: J_def Heartbeat_json_def sample_beat_def zero_Heartbeat_def ptr_member_try_def HardwareInfo_json_def
        zero_HardwareInfo_def CPU_json_def zero_CPU_def float_member_def float_zero_def sample_codec_def ptrs_member_def slice_json_def opt_list_def
        RegistrationInfo_json_def zero_RegistrationInfo_def)
  have kept: "text_kept J (Inr x)" if "x \<in> {j1, j2, DeviceConfiguration_json sample_logging}" for x
    using that by (simp add: text_kept_def J_def sample_codec_text)
  have wf: "Heartbeat_wf J sample_beat" "RegistrationInfo_wf J zero_RegistrationInfo" "DeviceConfiguration_wf sample_logging"
    by (simp_all add: J_def opt_list_def Heartbeat_wf_def sample_beat_def zero_Heartbeat_def HardwareInfo_wf_def zero_HardwareInfo_def CPU_wf_def
        zero_CPU_def in_bits_def float_ok_def float_zero_def sample_codec_def ParseUint_Itoa RegistrationInfo_wf_def
        zero_RegistrationInfo_def DeviceConfiguration_wf_def sample_logging_def zero_DeviceConfiguration_def map_wf_def gm_wf_def
        LogsCollectionInformation_wf_def zero_LogsCollectionInformation_def)
  show ?thesis
    using messages_roundtrip [OF wf(1) _ wf(2) _ wf(3), of zero_Heartbeat] same kept by (intro exI [of _ J]) auto
qed

end
