(* ===== verification/Models_Validate.thy ===== *)
theory Models_Validate
  imports Workload_Delivery Json_Sent
begin

text \<open>
  The \<open>Validate\<close> functions of the message structs (\<open>models/*.go\<close>) with their \<open>validateX\<close> parts, and what
  they say of the messages the operator sends and receives: the constraints of \<open>swagger.yaml\<close> that
  the generated code enforces.

  \<open>None\<close> is the nil error. The checks of the vendored \<open>go-openapi/validate\<close> package the
  functions call (\<open>EnumCase\<close>, \<open>Required\<close>, \<open>MinimumInt\<close>, \<open>FormatOf\<close>) and \<open>Validation.ValidateName\<close> of
  \<open>go-openapi/errors\<close> are written out; the format \<open>date-time\<close> is an argument. A loop over a map takes
  its keys in the order \<open>ord\<close> gives them.
\<close>

section \<open>The checks of the validation library\<close>

text \<open>\<open>ve.ValidateName(name)\<close> where the error is an \<open>*errors.Validation\<close>: an error without a name gets
  this one. A composite error is not of that type and is returned as it is.\<close>

fun ValidateName :: "string \<Rightarrow> validation_error \<Rightarrow> validation_error" where
  "ValidateName name (InvalidFormat n f) = InvalidFormat (if n = [] then name else n) f"
| "ValidateName name (NotInEnum n v) = NotInEnum (if n = [] then name else n) v"
| "ValidateName name (BelowMinimum n v) = BelowMinimum (if n = [] then name else n) v"
| "ValidateName name (RequiredIn n l) = RequiredIn (if n = [] then name else n) l"
| "ValidateName name (ParseErrorIn n l e) = ParseErrorIn n l e"
| "ValidateName name (CompositeValidationError es) = CompositeValidationError es"

definition EnumCase :: "string \<Rightarrow> string \<Rightarrow> string list \<Rightarrow> validation_error option" where
  "EnumCase path data enum = (if List.member enum data then None else Some (NotInEnum path data))"

definition Required :: "string \<Rightarrow> 'a \<Rightarrow> 'a \<Rightarrow> validation_error option" where
  "Required path zero data = (if data = zero then Some (RequiredIn path ''body'') else None)"

definition MinimumInt_exclusive :: "string \<Rightarrow> int64 \<Rightarrow> int64 \<Rightarrow> validation_error option" where
  "MinimumInt_exclusive path data least = (if data \<le> least then Some (BelowMinimum path data) else None)"

definition FormatOf :: "string \<Rightarrow> string \<Rightarrow> bool \<Rightarrow> validation_error option" where
  "FormatOf path format ok = (if ok then None else Some (InvalidFormat path format))"

text \<open>The three shapes of a \<open>validateX\<close> function: a pointer, a slice of pointers, a map of structs.\<close>

definition validate_ptr ::
  "string \<Rightarrow> ('a \<Rightarrow> validation_error option) \<Rightarrow> 'a option \<Rightarrow> validation_error option" where
  "validate_ptr name v p = (case p of
     None \<Rightarrow> None
   | Some x \<Rightarrow> (case v x of None \<Rightarrow> None | Some err \<Rightarrow> Some (ValidateName name err)))"

fun validate_slice ::
  "string \<Rightarrow> ('a \<Rightarrow> validation_error option) \<Rightarrow> nat \<Rightarrow> 'a option list \<Rightarrow> validation_error option" where
  "validate_slice prefix v i [] = None"
| "validate_slice prefix v i (p # ps) = (case validate_ptr (prefix @ Itoa i) v p of
     Some err \<Rightarrow> Some err
   | None \<Rightarrow> validate_slice prefix v (Suc i) ps)"

fun validate_entries ::
  "string \<Rightarrow> 'a \<Rightarrow> ('a \<Rightarrow> validation_error option) \<Rightarrow> 'a gomap \<Rightarrow> string list \<Rightarrow> validation_error option" where
  "validate_entries prefix zero v m [] = None"
| "validate_entries prefix zero v m (k # ks) =
     (case Required (prefix @ k) zero (case gm_get m k of None \<Rightarrow> zero | Some val \<Rightarrow> val) of
        Some err \<Rightarrow> Some err
      | None \<Rightarrow> (case gm_get m k of
          None \<Rightarrow> validate_entries prefix zero v m ks
        | Some val \<Rightarrow> (case v val of
            Some err \<Rightarrow> Some err
          | None \<Rightarrow> validate_entries prefix zero v m ks)))"

definition validate_map ::
  "(string list \<Rightarrow> string list) \<Rightarrow> string \<Rightarrow> 'a \<Rightarrow> ('a \<Rightarrow> validation_error option) \<Rightarrow> 'a gomap option \<Rightarrow>
   validation_error option" where
  "validate_map ord prefix zero v mo = (case mo of
     None \<Rightarrow> None
   | Some m \<Rightarrow> validate_entries prefix zero v m (ord (gm_keys m)))"

text \<open>The errors of the parts of a struct, in the order of its fields.\<close>

definition collect :: "validation_error option list \<Rightarrow> validation_error option" where
  "collect checks = composite (List.map_filter id checks)"

section \<open>What a device sends\<close>

definition Boot_Validate :: "mBoot \<Rightarrow> validation_error option" where
  "Boot_Validate m = None"

definition CPU_Validate :: "mCPU \<Rightarrow> validation_error option" where
  "CPU_Validate m = None"

definition IoPerf_Validate :: "mIoPerf \<Rightarrow> validation_error option" where
  "IoPerf_Validate m = None"

definition Disk_validateIoPerf :: "mDisk \<Rightarrow> validation_error option" where
  "Disk_validateIoPerf m = validate_ptr ''io_perf'' IoPerf_Validate (mdk_IoPerf m)"

definition Disk_Validate :: "mDisk \<Rightarrow> validation_error option" where
  "Disk_Validate m = collect [Disk_validateIoPerf m]"

definition Gpu_Validate :: "mGpu \<Rightarrow> validation_error option" where
  "Gpu_Validate m = None"

definition Interface_Validate :: "mInterface \<Rightarrow> validation_error option" where
  "Interface_Validate m = None"

definition Memory_Validate :: "mMemory \<Rightarrow> validation_error option" where
  "Memory_Validate m = None"

definition SystemVendor_Validate :: "mSystemVendor \<Rightarrow> validation_error option" where
  "SystemVendor_Validate m = None"

definition HardwareInfo_validateBoot :: "HardwareInfo \<Rightarrow> validation_error option" where
  "HardwareInfo_validateBoot m = validate_ptr ''boot'' Boot_Validate (hi_Boot m)"

definition HardwareInfo_validateCPU :: "HardwareInfo \<Rightarrow> validation_error option" where
  "HardwareInfo_validateCPU m = validate_ptr ''cpu'' CPU_Validate (hi_CPU m)"

definition HardwareInfo_validateDisks :: "HardwareInfo \<Rightarrow> validation_error option" where
  "HardwareInfo_validateDisks m = validate_slice ''disks.'' Disk_Validate 0 (opt_list (hi_Disks m))"

definition HardwareInfo_validateGpus :: "HardwareInfo \<Rightarrow> validation_error option" where
  "HardwareInfo_validateGpus m = validate_slice ''gpus.'' Gpu_Validate 0 (opt_list (hi_Gpus m))"

definition HardwareInfo_validateInterfaces :: "HardwareInfo \<Rightarrow> validation_error option" where
  "HardwareInfo_validateInterfaces m = validate_slice ''interfaces.'' Interface_Validate 0 (opt_list (hi_Interfaces m))"

definition HardwareInfo_validateMemory :: "HardwareInfo \<Rightarrow> validation_error option" where
  "HardwareInfo_validateMemory m = validate_ptr ''memory'' Memory_Validate (hi_Memory m)"

definition HardwareInfo_validateSystemVendor :: "HardwareInfo \<Rightarrow> validation_error option" where
  "HardwareInfo_validateSystemVendor m = validate_ptr ''system_vendor'' SystemVendor_Validate (hi_SystemVendor m)"

definition HardwareInfo_Validate :: "HardwareInfo \<Rightarrow> validation_error option" where
  "HardwareInfo_Validate m = collect
     [HardwareInfo_validateBoot m, HardwareInfo_validateCPU m, HardwareInfo_validateDisks m,
      HardwareInfo_validateGpus m, HardwareInfo_validateInterfaces m, HardwareInfo_validateMemory m,
      HardwareInfo_validateSystemVendor m]"

definition eventInfoTypeTypePropEnum :: "string list" where
  "eventInfoTypeTypePropEnum = [EventInfoTypeInfo, EventInfoTypeWarn]"

definition EventInfo_validateTypeEnum :: "string \<Rightarrow> string \<Rightarrow> validation_error option" where
  "EventInfo_validateTypeEnum path value = EnumCase path value eventInfoTypeTypePropEnum"

definition EventInfo_validateType :: "EventInfo \<Rightarrow> validation_error option" where
  "EventInfo_validateType m =
     (if evi_Type m = [] then None else EventInfo_validateTypeEnum ''type'' (evi_Type m))"

definition EventInfo_Validate :: "EventInfo \<Rightarrow> validation_error option" where
  "EventInfo_Validate m = collect [EventInfo_validateType m]"

definition upgradeStatusTypeLastUpgradeStatusPropEnum :: "string list" where
  "upgradeStatusTypeLastUpgradeStatusPropEnum = [''succeeded'', ''failed'']"

definition UpgradeStatus_validateLastUpgradeStatusEnum :: "string \<Rightarrow> string \<Rightarrow> validation_error option" where
  "UpgradeStatus_validateLastUpgradeStatusEnum path value =
     EnumCase path value upgradeStatusTypeLastUpgradeStatusPropEnum"

definition UpgradeStatus_validateLastUpgradeStatus :: "UpgradeStatus \<Rightarrow> validation_error option" where
  "UpgradeStatus_validateLastUpgradeStatus m =
     (if us_LastUpgradeStatus m = [] then None
      else UpgradeStatus_validateLastUpgradeStatusEnum ''last_upgrade_status'' (us_LastUpgradeStatus m))"

definition UpgradeStatus_Validate :: "UpgradeStatus \<Rightarrow> validation_error option" where
  "UpgradeStatus_Validate m = collect [UpgradeStatus_validateLastUpgradeStatus m]"

definition workloadStatusTypeStatusPropEnum :: "string list" where
  "workloadStatusTypeStatusPropEnum = [''deploying'', ''running'', ''crashed'', ''stopped'']"

definition WorkloadStatus_validateLastDataUpload :: "(time \<Rightarrow> bool) \<Rightarrow> WorkloadStatus \<Rightarrow> validation_error option" where
  "WorkloadStatus_validateLastDataUpload is_date_time m =
     (if ws_LastDataUpload m = zero_time then None
      else FormatOf ''last_data_upload'' ''date-time'' (is_date_time (ws_LastDataUpload m)))"

definition WorkloadStatus_validateStatusEnum :: "string \<Rightarrow> string \<Rightarrow> validation_error option" where
  "WorkloadStatus_validateStatusEnum path value = EnumCase path value workloadStatusTypeStatusPropEnum"

definition WorkloadStatus_validateStatus :: "WorkloadStatus \<Rightarrow> validation_error option" where
  "WorkloadStatus_validateStatus m =
     (if ws_Status m = [] then None else WorkloadStatus_validateStatusEnum ''status'' (ws_Status m))"

definition WorkloadStatus_Validate :: "(time \<Rightarrow> bool) \<Rightarrow> WorkloadStatus \<Rightarrow> validation_error option" where
  "WorkloadStatus_Validate is_date_time m =
     collect [WorkloadStatus_validateLastDataUpload is_date_time m, WorkloadStatus_validateStatus m]"

definition heartbeatTypeStatusPropEnum :: "string list" where
  "heartbeatTypeStatusPropEnum = [''up'', ''degraded'']"

definition Heartbeat_validateEvents :: "Heartbeat \<Rightarrow> validation_error option" where
  "Heartbeat_validateEvents m = validate_slice ''events.'' EventInfo_Validate 0 (opt_list (hb_Events m))"

definition Heartbeat_validateHardware :: "Heartbeat \<Rightarrow> validation_error option" where
  "Heartbeat_validateHardware m = validate_ptr ''hardware'' HardwareInfo_Validate (hb_Hardware m)"

definition Heartbeat_validateStatusEnum :: "string \<Rightarrow> string \<Rightarrow> validation_error option" where
  "Heartbeat_validateStatusEnum path value = EnumCase path value heartbeatTypeStatusPropEnum"

definition Heartbeat_validateStatus :: "Heartbeat \<Rightarrow> validation_error option" where
  "Heartbeat_validateStatus m =
     (if hb_Status m = [] then None else Heartbeat_validateStatusEnum ''status'' (hb_Status m))"

definition Heartbeat_validateUpgrade :: "Heartbeat \<Rightarrow> validation_error option" where
  "Heartbeat_validateUpgrade m = validate_ptr ''upgrade'' UpgradeStatus_Validate (hb_Upgrade m)"

definition Heartbeat_validateWorkloads :: "(time \<Rightarrow> bool) \<Rightarrow> Heartbeat \<Rightarrow> validation_error option" where
  "Heartbeat_validateWorkloads is_date_time m =
     validate_slice ''workloads.'' (WorkloadStatus_Validate is_date_time) 0 (opt_list (hb_Workloads m))"

definition Heartbeat_Validate :: "(time \<Rightarrow> bool) \<Rightarrow> Heartbeat \<Rightarrow> validation_error option" where
  "Heartbeat_Validate is_date_time m = collect
     [Heartbeat_validateEvents m, Heartbeat_validateHardware m, Heartbeat_validateStatus m,
      Heartbeat_validateUpgrade m, Heartbeat_validateWorkloads is_date_time m]"

definition RegistrationInfo_validateHardware :: "RegistrationInfo \<Rightarrow> validation_error option" where
  "RegistrationInfo_validateHardware m = validate_ptr ''hardware'' HardwareInfo_Validate (ri_Hardware m)"

definition RegistrationInfo_Validate :: "RegistrationInfo \<Rightarrow> validation_error option" where
  "RegistrationInfo_Validate m = collect [RegistrationInfo_validateHardware m]"

section \<open>What a device is sent\<close>

definition DataPath_Validate :: "mDataPath \<Rightarrow> validation_error option" where
  "DataPath_Validate m = None"

definition DataConfiguration_validatePaths :: "mDataConfiguration \<Rightarrow> validation_error option" where
  "DataConfiguration_validatePaths m = validate_slice ''paths.'' DataPath_Validate 0 (map Some (opt_list (mdc_Paths m)))"

definition DataConfiguration_Validate :: "mDataConfiguration \<Rightarrow> validation_error option" where
  "DataConfiguration_Validate m = collect [DataConfiguration_validatePaths m]"

definition ImageRegistries_Validate :: "ImageRegistries \<Rightarrow> validation_error option" where
  "ImageRegistries_Validate m = None"

definition MetricsAllowList_Validate :: "MetricsAllowList \<Rightarrow> validation_error option" where
  "MetricsAllowList_Validate m = None"

definition ContainerMetrics_Validate :: "ContainerMetrics \<Rightarrow> validation_error option" where
  "ContainerMetrics_Validate m = None"

definition Metrics_validateAllowList :: "Metrics \<Rightarrow> validation_error option" where
  "Metrics_validateAllowList m = validate_ptr ''allow_list'' MetricsAllowList_Validate (mt_AllowList m)"

definition Metrics_validateContainers :: "(string list \<Rightarrow> string list) \<Rightarrow> Metrics \<Rightarrow> validation_error option" where
  "Metrics_validateContainers ord m =
     validate_map ord ''containers.'' zero_ContainerMetrics ContainerMetrics_Validate (mt_Containers m)"

definition Metrics_Validate :: "(string list \<Rightarrow> string list) \<Rightarrow> Metrics \<Rightarrow> validation_error option" where
  "Metrics_Validate ord m = collect [Metrics_validateAllowList m, Metrics_validateContainers ord m]"

definition ConfigmapList_Validate :: "string list \<Rightarrow> validation_error option" where
  "ConfigmapList_Validate m = None"

definition Workload_validateConfigmaps :: "Workload \<Rightarrow> validation_error option" where
  "Workload_validateConfigmaps m = validate_ptr ''configmaps'' ConfigmapList_Validate (Some (wl_Configmaps m))"

definition Workload_validateData :: "Workload \<Rightarrow> validation_error option" where
  "Workload_validateData m = validate_ptr ''data'' DataConfiguration_Validate (wl_Data m)"

definition Workload_validateImageRegistries :: "Workload \<Rightarrow> validation_error option" where
  "Workload_validateImageRegistries m = validate_ptr ''imageRegistries'' ImageRegistries_Validate (wl_ImageRegistries m)"

definition Workload_validateMetrics :: "(string list \<Rightarrow> string list) \<Rightarrow> Workload \<Rightarrow> validation_error option" where
  "Workload_validateMetrics ord m = validate_ptr ''metrics'' (Metrics_Validate ord) (wl_Metrics m)"

definition Workload_Validate :: "(string list \<Rightarrow> string list) \<Rightarrow> Workload \<Rightarrow> validation_error option" where
  "Workload_Validate ord m = collect
     [Workload_validateConfigmaps m, Workload_validateData m, Workload_validateImageRegistries m,
      Workload_validateMetrics ord m]"

definition Secret_Validate :: "mSecret \<Rightarrow> validation_error option" where
  "Secret_Validate m = None"

definition SecretList_Validate :: "mSecret list \<Rightarrow> validation_error option" where
  "SecretList_Validate m = validate_slice [] Secret_Validate 0 (map Some m)"

definition WorkloadList_Validate :: "(string list \<Rightarrow> string list) \<Rightarrow> Workload list \<Rightarrow> validation_error option" where
  "WorkloadList_Validate ord m = validate_slice [] (Workload_Validate ord) 0 (map Some m)"

definition MetricsRetention_Validate :: "MetricsRetention \<Rightarrow> validation_error option" where
  "MetricsRetention_Validate m = None"

definition SystemMetricsConfiguration_validateAllowList :: "mSystemMetricsConfiguration \<Rightarrow> validation_error option" where
  "SystemMetricsConfiguration_validateAllowList m =
     validate_ptr ''allow_list'' MetricsAllowList_Validate (msm_AllowList m)"

definition SystemMetricsConfiguration_Validate :: "mSystemMetricsConfiguration \<Rightarrow> validation_error option" where
  "SystemMetricsConfiguration_Validate m = collect [SystemMetricsConfiguration_validateAllowList m]"

definition MetricsConfiguration_validateRetention :: "mMetricsConfiguration \<Rightarrow> validation_error option" where
  "MetricsConfiguration_validateRetention m = validate_ptr ''retention'' MetricsRetention_Validate (mmc_Retention m)"

definition MetricsConfiguration_validateSystem :: "mMetricsConfiguration \<Rightarrow> validation_error option" where
  "MetricsConfiguration_validateSystem m = validate_ptr ''system'' SystemMetricsConfiguration_Validate (mmc_System m)"

definition MetricsConfiguration_Validate :: "mMetricsConfiguration \<Rightarrow> validation_error option" where
  "MetricsConfiguration_Validate m =
     collect [MetricsConfiguration_validateRetention m, MetricsConfiguration_validateSystem m]"

definition SyslogConfig_Validate :: "SyslogConfig \<Rightarrow> validation_error option" where
  "SyslogConfig_Validate m = None"

definition LogsCollectionInformation_validateSyslogConfig :: "LogsCollectionInformation \<Rightarrow> validation_error option" where
  "LogsCollectionInformation_validateSyslogConfig m =
     validate_ptr ''syslog_config'' SyslogConfig_Validate (li_SyslogConfig m)"

definition LogsCollectionInformation_Validate :: "LogsCollectionInformation \<Rightarrow> validation_error option" where
  "LogsCollectionInformation_Validate m = collect [LogsCollectionInformation_validateSyslogConfig m]"

definition hardwareProfileConfigurationTypeScopePropEnum :: "string list" where
  "hardwareProfileConfigurationTypeScopePropEnum = [''full'', ''delta'']"

definition HardwareProfileConfiguration_validateScopeEnum :: "string \<Rightarrow> string \<Rightarrow> validation_error option" where
  "HardwareProfileConfiguration_validateScopeEnum path value =
     EnumCase path value hardwareProfileConfigurationTypeScopePropEnum"

definition HardwareProfileConfiguration_validateScope :: "mHardwareProfileConfiguration \<Rightarrow> validation_error option" where
  "HardwareProfileConfiguration_validateScope m =
     (if mhp_Scope m = [] then None
      else HardwareProfileConfiguration_validateScopeEnum ''scope'' (mhp_Scope m))"

definition HardwareProfileConfiguration_Validate :: "mHardwareProfileConfiguration \<Rightarrow> validation_error option" where
  "HardwareProfileConfiguration_Validate m = collect [HardwareProfileConfiguration_validateScope m]"

definition HeartbeatConfiguration_validateHardwareProfile :: "mHeartbeatConfiguration \<Rightarrow> validation_error option" where
  "HeartbeatConfiguration_validateHardwareProfile m =
     validate_ptr ''hardware_profile'' HardwareProfileConfiguration_Validate (mhc_HardwareProfile m)"

definition HeartbeatConfiguration_Validate :: "mHeartbeatConfiguration \<Rightarrow> validation_error option" where
  "HeartbeatConfiguration_Validate m = collect [HeartbeatConfiguration_validateHardwareProfile m]"

definition OsInformation_Validate :: "mOsInformation \<Rightarrow> validation_error option" where
  "OsInformation_Validate m = None"

definition S3StorageConfiguration_Validate :: "S3StorageConfiguration \<Rightarrow> validation_error option" where
  "S3StorageConfiguration_Validate m = None"

definition StorageConfiguration_validateS3 :: "StorageConfiguration \<Rightarrow> validation_error option" where
  "StorageConfiguration_validateS3 m = validate_ptr ''s3'' S3StorageConfiguration_Validate (stc_S3 m)"

definition StorageConfiguration_Validate :: "StorageConfiguration \<Rightarrow> validation_error option" where
  "StorageConfiguration_Validate m = collect [StorageConfiguration_validateS3 m]"

definition DeviceConfiguration_validateHeartbeat :: "DeviceConfiguration \<Rightarrow> validation_error option" where
  "DeviceConfiguration_validateHeartbeat m = validate_ptr ''heartbeat'' HeartbeatConfiguration_Validate (dc_Heartbeat m)"

definition DeviceConfiguration_validateLogCollection ::
  "(string list \<Rightarrow> string list) \<Rightarrow> DeviceConfiguration \<Rightarrow> validation_error option" where
  "DeviceConfiguration_validateLogCollection ord m =
     validate_map ord ''log-collection.'' zero_LogsCollectionInformation LogsCollectionInformation_Validate (dc_LogCollection m)"

definition DeviceConfiguration_validateMetrics :: "DeviceConfiguration \<Rightarrow> validation_error option" where
  "DeviceConfiguration_validateMetrics m = validate_ptr ''metrics'' MetricsConfiguration_Validate (dc_Metrics m)"

definition DeviceConfiguration_validateOs :: "DeviceConfiguration \<Rightarrow> validation_error option" where
  "DeviceConfiguration_validateOs m = validate_ptr ''os'' OsInformation_Validate (dc_Os m)"

definition DeviceConfiguration_validateStorage :: "DeviceConfiguration \<Rightarrow> validation_error option" where
  "DeviceConfiguration_validateStorage m = validate_ptr ''storage'' StorageConfiguration_Validate (dc_Storage m)"

definition DeviceConfiguration_Validate ::
  "(string list \<Rightarrow> string list) \<Rightarrow> DeviceConfiguration \<Rightarrow> validation_error option" where
  "DeviceConfiguration_Validate ord m = collect
     [DeviceConfiguration_validateHeartbeat m, DeviceConfiguration_validateLogCollection ord m,
      DeviceConfiguration_validateMetrics m, DeviceConfiguration_validateOs m, DeviceConfiguration_validateStorage m]"

definition DeviceConfigurationMessage_validateConfiguration ::
  "(string list \<Rightarrow> string list) \<Rightarrow> DeviceConfigurationMessage \<Rightarrow> validation_error option" where
  "DeviceConfigurationMessage_validateConfiguration ord m =
     validate_ptr ''configuration'' (DeviceConfiguration_Validate ord) (dcm_Configuration m)"

definition DeviceConfigurationMessage_validateSecrets :: "DeviceConfigurationMessage \<Rightarrow> validation_error option" where
  "DeviceConfigurationMessage_validateSecrets m = validate_ptr ''secrets'' SecretList_Validate (Some (dcm_Secrets m))"

definition DeviceConfigurationMessage_validateWorkloads ::
  "(string list \<Rightarrow> string list) \<Rightarrow> DeviceConfigurationMessage \<Rightarrow> validation_error option" where
  "DeviceConfigurationMessage_validateWorkloads ord m =
     validate_ptr ''workloads'' (WorkloadList_Validate ord) (Some (dcm_Workloads m))"

definition DeviceConfigurationMessage_validateWorkloadsMonitoringInterval ::
  "DeviceConfigurationMessage \<Rightarrow> validation_error option" where
  "DeviceConfigurationMessage_validateWorkloadsMonitoringInterval m =
     (if dcm_WorkloadsMonitoringInterval m = 0 then None
      else MinimumInt_exclusive ''workloads_monitoring_interval'' (dcm_WorkloadsMonitoringInterval m) 0)"

definition DeviceConfigurationMessage_Validate ::
  "(string list \<Rightarrow> string list) \<Rightarrow> DeviceConfigurationMessage \<Rightarrow> validation_error option" where
  "DeviceConfigurationMessage_Validate ord m = collect
     [DeviceConfigurationMessage_validateConfiguration ord m, DeviceConfigurationMessage_validateSecrets m,
      DeviceConfigurationMessage_validateWorkloads ord m, DeviceConfigurationMessage_validateWorkloadsMonitoringInterval m]"

definition MessageResponse_Validate :: "MessageResponse \<Rightarrow> validation_error option" where
  "MessageResponse_Validate m = None"

definition RegistrationResponse_Validate :: "RegistrationResponse \<Rightarrow> validation_error option" where
  "RegistrationResponse_Validate m = None"

section \<open>When a message is valid\<close>

named_theorems validity \<open>when a check reports nothing\<close>

lemma collect_None [validity]:
  "collect [] = None"
  "collect (c # cs) = None \<longleftrightarrow> c = None \<and> collect cs = None"
  by (auto simp: collect_def composite_def List.map_filter_simps split: option.splits)

lemma validate_ptr_None [validity]: "validate_ptr name v p = None \<longleftrightarrow> (\<forall>x. p = Some x \<longrightarrow> v x = None)"
  by (auto simp: validate_ptr_def split: option.splits)

lemma validate_slice_None [validity]:
  "validate_slice prefix v i ps = None \<longleftrightarrow> (\<forall>x. Some x \<in> set ps \<longrightarrow> v x = None)"
proof (induction ps arbitrary: i)
  case (Cons p ps)
  have "validate_slice prefix v i (p # ps) = None \<longleftrightarrow>
      validate_ptr (prefix @ Itoa i) v p = None \<and> validate_slice prefix v (Suc i) ps = None"
    by (simp split: option.split)
  with Cons show ?case by (auto simp: validate_ptr_None)
qed simp

lemma Some_map [validity]: "Some x \<in> set (map Some xs) \<longleftrightarrow> x \<in> set xs"
  by auto

lemma validate_entries_None:
  "validate_entries prefix zero v m ks = None \<longleftrightarrow>
     (\<forall>k\<in>set ks. \<exists>val. gm_get m k = Some val \<and> val \<noteq> zero \<and> v val = None)"
  by (induction ks) (auto simp: Required_def split: option.splits)

lemma validate_map_None:
  assumes "\<And>ks. set (ord ks) = set ks" and "\<And>m. mo = Some m \<Longrightarrow> gm_wf m"
  shows "validate_map ord prefix zero v mo = None \<longleftrightarrow>
    (\<forall>m k val. mo = Some m \<longrightarrow> (k, val) \<in> set m \<longrightarrow> val \<noteq> zero \<and> v val = None)"
proof (cases mo)
  case (Some m)
  then have "gm_wf m" by (rule assms(2))
  then have get: "gm_get m k = Some val \<longleftrightarrow> (k, val) \<in> set m" for k val
    by (auto simp: gm_wf_def dest: map_of_SomeD intro: map_of_is_SomeI)
  have "validate_map ord prefix zero v mo = None \<longleftrightarrow>
      (\<forall>k\<in>set (gm_keys m). \<exists>val. (k, val) \<in> set m \<and> val \<noteq> zero \<and> v val = None)"
    by (simp only: validate_map_def Some option.simps validate_entries_None assms(1) get)
  also have "\<dots> \<longleftrightarrow> (\<forall>k val. (k, val) \<in> set m \<longrightarrow> val \<noteq> zero \<and> v val = None)"
  proof (intro iffI allI impI ballI)
    fix k val assume all: "\<forall>k\<in>set (gm_keys m). \<exists>val. (k, val) \<in> set m \<and> val \<noteq> zero \<and> v val = None"
      and kv: "(k, val) \<in> set m"
    then have "k \<in> set (gm_keys m)" using get gm_get_keys by metis
    with all obtain val' where "(k, val') \<in> set m" "val' \<noteq> zero" "v val' = None" by blast
    with kv get show "val \<noteq> zero \<and> v val = None" by (metis option.inject)
  next
    fix k assume all: "\<forall>k val. (k, val) \<in> set m \<longrightarrow> val \<noteq> zero \<and> v val = None" and "k \<in> set (gm_keys m)"
    then obtain val where "(k, val) \<in> set m" by auto
    with all show "\<exists>val. (k, val) \<in> set m \<and> val \<noteq> zero \<and> v val = None" by blast
  qed
  finally show ?thesis by (simp add: Some)
qed (simp add: validate_map_def)

lemma EnumCase_None [validity]: "EnumCase path data enum = None \<longleftrightarrow> data \<in> set enum"
  by (simp add: EnumCase_def List.member_iff)

lemma FormatOf_None [validity]: "FormatOf path format ok = None \<longleftrightarrow> ok"
  by (simp add: FormatOf_def)

lemmas hardware_checks =
  Boot_Validate_def CPU_Validate_def IoPerf_Validate_def Disk_validateIoPerf_def Disk_Validate_def Gpu_Validate_def
  Interface_Validate_def Memory_Validate_def SystemVendor_Validate_def HardwareInfo_validateBoot_def
  HardwareInfo_validateCPU_def HardwareInfo_validateDisks_def HardwareInfo_validateGpus_def
  HardwareInfo_validateInterfaces_def HardwareInfo_validateMemory_def HardwareInfo_validateSystemVendor_def

lemma HardwareInfo_valid [validity]: "HardwareInfo_Validate m = None"
  by (simp add: HardwareInfo_Validate_def hardware_checks validity)

lemma EventInfo_valid_iff [validity]:
  "EventInfo_Validate e = None \<longleftrightarrow> evi_Type e \<in> {[], ''info'', ''warn''}"
  by (auto simp: EventInfo_Validate_def EventInfo_validateType_def EventInfo_validateTypeEnum_def
      eventInfoTypeTypePropEnum_def EventInfoTypeInfo_def EventInfoTypeWarn_def validity)

lemma UpgradeStatus_valid_iff [validity]:
  "UpgradeStatus_Validate u = None \<longleftrightarrow> us_LastUpgradeStatus u \<in> {[], ''succeeded'', ''failed''}"
  by (auto simp: UpgradeStatus_Validate_def UpgradeStatus_validateLastUpgradeStatus_def
      UpgradeStatus_validateLastUpgradeStatusEnum_def upgradeStatusTypeLastUpgradeStatusPropEnum_def validity)

lemma WorkloadStatus_valid_iff [validity]:
  "WorkloadStatus_Validate is_date_time ws = None \<longleftrightarrow>
     (ws_LastDataUpload ws = zero_time \<or> is_date_time (ws_LastDataUpload ws)) \<and>
     ws_Status ws \<in> {[], ''deploying'', ''running'', ''crashed'', ''stopped''}"
  by (auto simp: WorkloadStatus_Validate_def WorkloadStatus_validateLastDataUpload_def WorkloadStatus_validateStatus_def
      WorkloadStatus_validateStatusEnum_def workloadStatusTypeStatusPropEnum_def validity)

lemma Heartbeat_valid_iff:
  "Heartbeat_Validate is_date_time hb = None \<longleftrightarrow>
     hb_Status hb \<in> {[], ''up'', ''degraded''} \<and>
     (\<forall>e. Some e \<in> set (opt_list (hb_Events hb)) \<longrightarrow> evi_Type e \<in> {[], ''info'', ''warn''}) \<and>
     (\<forall>u. hb_Upgrade hb = Some u \<longrightarrow> us_LastUpgradeStatus u \<in> {[], ''succeeded'', ''failed''}) \<and>
     (\<forall>ws. Some ws \<in> set (opt_list (hb_Workloads hb)) \<longrightarrow>
        (ws_LastDataUpload ws = zero_time \<or> is_date_time (ws_LastDataUpload ws)) \<and>
        ws_Status ws \<in> {[], ''deploying'', ''running'', ''crashed'', ''stopped''})"
  by (auto simp: Heartbeat_Validate_def Heartbeat_validateEvents_def Heartbeat_validateHardware_def
      Heartbeat_validateStatus_def Heartbeat_validateStatusEnum_def heartbeatTypeStatusPropEnum_def
      Heartbeat_validateUpgrade_def Heartbeat_validateWorkloads_def validity)

lemma RegistrationInfo_valid: "RegistrationInfo_Validate m = None"
  by (simp add: RegistrationInfo_Validate_def RegistrationInfo_validateHardware_def validity)

section \<open>The configuration the operator sends\<close>

text \<open>The constraints on the stored resources under which the message made from them is valid: the
  scope of the hardware profile is one the API knows, no log target and no container of the metrics is
  left empty.\<close>

definition known_scope :: "EdgeDevice \<Rightarrow> bool" where
  "known_scope d \<longleftrightarrow> (case Option.bind (sp_Heartbeat (dev_Spec d)) hc_HardwareProfile of
     None \<Rightarrow> True
   | Some hp \<Rightarrow> hp_Scope hp \<in> {[], ''full'', ''delta''})"

definition empty_target :: "LogCollectionConfig \<Rightarrow> bool" where
  "empty_target t \<longleftrightarrow> lcc_Kind t = [] \<and> lcc_BufferSize t = 0 \<and> lcc_SyslogConfig t = None"

definition targets_filled :: "EdgeDevice \<Rightarrow> bool" where
  "targets_filled d \<longleftrightarrow>
     list_all (\<lambda>e. case snd e of None \<Rightarrow> True | Some t \<Rightarrow> \<not> empty_target t) (sp_LogCollection (dev_Spec d))"

definition empty_entity :: "MetricsConfigEntity \<Rightarrow> bool" where
  "empty_entity c \<longleftrightarrow> mce_Path c = [] \<and> mce_Port c = 0 \<and> \<not> mce_Disabled c"

definition containers_filled :: "EdgeDeployment \<Rightarrow> bool" where
  "containers_filled dep \<longleftrightarrow> (case eds_Metrics (dep_Spec dep) of
     None \<Rightarrow> True
   | Some spec \<Rightarrow> cmc_Port spec \<le> 0 \<or>
       list_all (\<lambda>e. case snd e of None \<Rightarrow> True | Some c \<Rightarrow> \<not> empty_entity c) (cmc_Containers spec))"

definition containers_wf :: "EdgeDeployment \<Rightarrow> bool" where
  "containers_wf dep \<longleftrightarrow> (case eds_Metrics (dep_Spec dep) of None \<Rightarrow> True | Some spec \<Rightarrow> gm_wf (cmc_Containers spec))"

text \<open>The log targets sent are those of the device, one for one.\<close>

definition target_of :: "string \<times> LogCollectionConfig option \<Rightarrow> string \<times> LogsCollectionInformation \<Rightarrow> bool" where
  "target_of e f \<longleftrightarrow> fst f = fst e \<and> (\<exists>t. snd e = Some t \<and> li_Kind (snd f) = lcc_Kind t \<and>
     li_BufferSize (snd f) = lcc_BufferSize t \<and> (li_SyslogConfig (snd f) = None \<longleftrightarrow> lcc_SyslogConfig t = None))"

lemma target_of_pair: "target_of (k, Some t) (k', i) \<longleftrightarrow> k' = k \<and> li_Kind i = lcc_Kind t \<and>
  li_BufferSize i = lcc_BufferSize t \<and> (li_SyslogConfig i = None \<longleftrightarrow> lcc_SyslogConfig t = None)"
  by (simp add: target_of_def)

lemma log_targets_result:
  "run_state (log_targets E d entries acc) w = (Done (Inr res), w') \<Longrightarrow> gm_wf (acc @ map (\<lambda>e. (fst e, x)) entries) \<Longrightarrow>
   \<exists>new. res = acc @ new \<and> list_all2 target_of entries new"
proof (induction E d entries acc arbitrary: w rule: log_targets.induct)
  case (3 E d key val rest acc)
  let ?info = "\<lparr>li_BufferSize = lcc_BufferSize val, li_Kind = lcc_Kind val, li_SyslogConfig = None\<rparr>"
  have fresh: "gm_set key i acc = acc @ [(key, i)]" for i
    using 3(4) by (intro gm_set_fresh) (auto simp: gm_wf_def)
  have wf: "gm_wf ((acc @ [(key, i)]) @ map (\<lambda>e. (fst e, x)) rest)" for i
    using 3(4) by (simp add: gm_wf_def)
  show ?case
  proof (cases "lcc_SyslogConfig val")
    case None
    with 3(3) have "run_state (log_targets E d rest (gm_set key ?info acc)) w = (Done (Inr res), w')" by (simp add: Let_def)
    from 3(1) [OF refl None this] wf fresh obtain new where
      "res = (acc @ [(key, ?info)]) @ new" "list_all2 target_of rest new" by auto
    with None show ?thesis by (intro exI [of _ "(key, ?info) # new"]) (simp add: target_of_pair)
  next
    case (Some ref)
    obtain r w1 where r: "run_state (getDeviceSyslogLogConfig E d ref) w = (r, w1)" by (metis surj_pair)
    with 3(3) Some obtain sc where sc: "r = Inr sc" by (cases r) (auto simp: Let_def)
    let ?info' = "?info\<lparr>li_SyslogConfig := Some sc\<rparr>"
    from 3(3) Some r sc have "run_state (log_targets E d rest (gm_set key ?info' acc)) w1 = (Done (Inr res), w')"
      by (simp add: Let_def)
    from 3(2) [OF refl Some this] wf fresh obtain new where
      "res = (acc @ [(key, ?info')]) @ new" "list_all2 target_of rest new" by auto
    with Some show ?thesis by (intro exI [of _ "(key, ?info') # new"]) (simp add: target_of_pair)
  qed
qed (simp_all)

text \<open>The metrics of the containers likewise.\<close>

definition entity_of :: "string \<times> MetricsConfigEntity option \<Rightarrow> string \<times> ContainerMetrics \<Rightarrow> bool" where
  "entity_of e f \<longleftrightarrow> fst f = fst e \<and> (\<exists>c. snd e = Some c \<and>
     snd f = \<lparr>ctm_Disabled = mce_Disabled c, ctm_Path = mce_Path c, ctm_Port = mce_Port c\<rparr>)"

lemma entity_of_pair: "entity_of (k, Some c) (k', m) \<longleftrightarrow> k' = k \<and>
  m = \<lparr>ctm_Disabled = mce_Disabled c, ctm_Path = mce_Path c, ctm_Port = mce_Port c\<rparr>"
  by (simp add: entity_of_def)

lemma container_metrics_result:
  "container_metrics cs acc = Done res \<Longrightarrow> gm_wf (acc @ map (\<lambda>e. (fst e, x)) cs) \<Longrightarrow>
   \<exists>new. res = acc @ new \<and> list_all2 entity_of cs new"
proof (induction cs acc rule: container_metrics.induct)
  case (3 key c rest acc)
  let ?m = "\<lparr>ctm_Disabled = mce_Disabled c, ctm_Path = mce_Path c, ctm_Port = mce_Port c\<rparr>"
  have fresh: "gm_set key ?m acc = acc @ [(key, ?m)]"
    using 3(3) by (intro gm_set_fresh) (auto simp: gm_wf_def)
  have "gm_wf ((acc @ [(key, ?m)]) @ map (\<lambda>e. (fst e, x)) rest)"
    using 3(3) by (simp add: gm_wf_def)
  with 3 fresh obtain new where "res = (acc @ [(key, ?m)]) @ new" "list_all2 entity_of rest new" by auto
  then show ?case by (intro exI [of _ "(key, ?m) # new"]) (simp add: entity_of_pair)
qed simp_all

lemma gm_wf_image: "list_all2 P xs ys \<Longrightarrow> (\<And>x y. P x y \<Longrightarrow> fst y = fst x) \<Longrightarrow> gm_wf xs \<Longrightarrow> gm_wf ys"
proof -
  assume "list_all2 P xs ys" and "\<And>x y. P x y \<Longrightarrow> fst y = fst x"
  then have "map fst ys = map fst xs" by (induction rule: list_all2_induct) auto
  moreover assume "gm_wf xs"
  ultimately show "gm_wf ys" by (simp add: gm_wf_def)
qed

lemma list_all2_ex: "list_all2 P xs ys \<Longrightarrow> (\<And>x y. P x y \<Longrightarrow> Q x \<longleftrightarrow> R y) \<Longrightarrow> (\<forall>x\<in>set xs. Q x) \<longleftrightarrow> (\<forall>y\<in>set ys. R y)"
  by (induction rule: list_all2_induct) auto

lemma filled_targets:
  assumes "list_all2 target_of xs ys"
  shows "list_all (\<lambda>e. case snd e of None \<Rightarrow> True | Some t \<Rightarrow> \<not> empty_target t) xs \<longleftrightarrow> (\<forall>f\<in>set ys. snd f \<noteq> zero_LogsCollectionInformation)"
  unfolding list_all_iff by (rule list_all2_ex [OF assms]) (auto simp: target_of_def empty_target_def zero_LogsCollectionInformation_def)

lemma filled_entities:
  assumes "list_all2 entity_of xs ys"
  shows "list_all (\<lambda>e. case snd e of None \<Rightarrow> True | Some c \<Rightarrow> \<not> empty_entity c) xs \<longleftrightarrow> (\<forall>f\<in>set ys. snd f \<noteq> zero_ContainerMetrics)"
  unfolding list_all_iff by (rule list_all2_ex [OF assms]) (auto simp: entity_of_def empty_entity_def zero_ContainerMetrics_def)

lemma getDeviceLogConfig_filled:
  assumes "fair_range E" and "gm_wf (sp_LogCollection (dev_Spec d))"
    and run: "run_state (getDeviceLogConfig E d) w = (Done (Inr mo), w')"
  shows "\<forall>m. mo = Some m \<longrightarrow> gm_wf m"
    and "targets_filled d \<longleftrightarrow> (\<forall>m k i. mo = Some m \<longrightarrow> (k, i) \<in> set m \<longrightarrow> i \<noteq> zero_LogsCollectionInformation)"
proof -
  let ?lc = "sp_LogCollection (dev_Spec d)"
  have "(\<forall>m. mo = Some m \<longrightarrow> gm_wf m) \<and>
    (targets_filled d \<longleftrightarrow> (\<forall>m k i. mo = Some m \<longrightarrow> (k, i) \<in> set m \<longrightarrow> i \<noteq> zero_LogsCollectionInformation))"
  proof (cases "?lc = []")
    case True
    with run show ?thesis by (simp add: getDeviceLogConfig_def targets_filled_def)
  next
    case False
    obtain entries w1 where e: "run_state (range_map E ?lc) w = (entries, w1)" by (metis surj_pair)
    have es: "set entries = set ?lc" "gm_wf entries"
      using wp_elim [OF fair_range_map [OF assms(1,2)] e] by simp_all
    obtain r w2 where r: "run_state (log_targets E d entries []) w1 = (r, w2)" by (metis surj_pair)
    with run False e obtain m where m: "mo = Some m" "r = Done (Inr m)"
      by (cases r) (auto simp: getDeviceLogConfig_def map_sum_def split: sum.splits)
    have "gm_wf ([] @ map (\<lambda>e. (fst e, zero_LogsCollectionInformation)) entries)" using es(2) by (simp add: gm_wf_def comp_def)
    from log_targets_result [OF r [unfolded m(2)] this] have all: "list_all2 target_of entries m" by auto
    have "gm_wf m" by (rule gm_wf_image [OF all _ es(2)]) (simp add: target_of_def)
    moreover have "targets_filled d \<longleftrightarrow> (\<forall>f\<in>set m. snd f \<noteq> zero_LogsCollectionInformation)"
      using filled_targets [OF all] es(1) by (simp add: targets_filled_def list_all_iff)
    ultimately show ?thesis by (auto simp: m(1))
  qed
  then show "\<forall>m. mo = Some m \<longrightarrow> gm_wf m"
    and "targets_filled d \<longleftrightarrow> (\<forall>m k i. mo = Some m \<longrightarrow> (k, i) \<in> set m \<longrightarrow> i \<noteq> zero_LogsCollectionInformation)"
    by simp_all
qed

lemma Metrics_valid_iff:
  assumes "\<And>ks. set (ord ks) = set ks" and "gm_wf (opt_list (mt_Containers m))"
  shows "Metrics_Validate ord m = None \<longleftrightarrow> (\<forall>f\<in>set (opt_list (mt_Containers m)). snd f \<noteq> zero_ContainerMetrics)"
proof -
  have "Metrics_validateContainers ord m = None \<longleftrightarrow>
    (\<forall>cs k val. mt_Containers m = Some cs \<longrightarrow> (k, val) \<in> set cs \<longrightarrow> val \<noteq> zero_ContainerMetrics \<and> ContainerMetrics_Validate val = None)"
    unfolding Metrics_validateContainers_def
    by (rule validate_map_None) (use assms in \<open>auto simp: opt_list_def\<close>)
  also have "\<dots> \<longleftrightarrow> (\<forall>f\<in>set (opt_list (mt_Containers m)). snd f \<noteq> zero_ContainerMetrics)"
    by (cases "mt_Containers m") (auto simp: opt_list_def ContainerMetrics_Validate_def)
  finally show ?thesis
    by (simp add: Metrics_Validate_def Metrics_validateAllowList_def MetricsAllowList_Validate_def validity)
qed

lemma Workload_Validate_metrics:
  "Workload_Validate ord wl = None \<longleftrightarrow> (\<forall>m. wl_Metrics wl = Some m \<longrightarrow> Metrics_Validate ord m = None)"
  by (auto simp: Workload_Validate_def Workload_validateConfigmaps_def ConfigmapList_Validate_def Workload_validateData_def
      DataConfiguration_Validate_def DataConfiguration_validatePaths_def DataPath_Validate_def
      Workload_validateImageRegistries_def ImageRegistries_Validate_def Workload_validateMetrics_def validity)

lemma DeviceConfigurationMessage_Validate_parts:
  "DeviceConfigurationMessage_Validate ord m = None \<longleftrightarrow>
     (\<forall>c. dcm_Configuration m = Some c \<longrightarrow> DeviceConfiguration_Validate ord c = None) \<and>
     (\<forall>wl\<in>set (dcm_Workloads m). Workload_Validate ord wl = None) \<and> dcm_WorkloadsMonitoringInterval m \<ge> 0"
  by (auto simp: DeviceConfigurationMessage_Validate_def DeviceConfigurationMessage_validateConfiguration_def
      DeviceConfigurationMessage_validateSecrets_def SecretList_Validate_def Secret_Validate_def
      DeviceConfigurationMessage_validateWorkloads_def WorkloadList_Validate_def
      DeviceConfigurationMessage_validateWorkloadsMonitoringInterval_def MinimumInt_exclusive_def validity)

lemma Workload_valid_iff:
  assumes ord: "\<And>ks. set (ord ks) = set ks" and wf: "containers_wf dep" and wl: "workload_of E dep wl"
  shows "Workload_Validate ord wl = None \<longleftrightarrow> containers_filled dep"
proof -
  have "Workload_Validate ord wl = None \<longleftrightarrow> (\<forall>m. wl_Metrics wl = Some m \<longrightarrow> Metrics_Validate ord m = None)"
    by (rule Workload_Validate_metrics)
  also have "\<dots> \<longleftrightarrow> containers_filled dep"
  proof (cases "eds_Metrics (dep_Spec dep)")
    case None
    with wl show ?thesis by (simp add: workload_of_def metrics_of_def containers_filled_def)
  next
    case (Some spec)
    show ?thesis
    proof (cases "cmc_Port spec \<le> 0")
      case True
      with Some wl show ?thesis by (simp add: workload_of_def metrics_of_def containers_filled_def)
    next
      case False
      with Some wl obtain m where m: "wl_Metrics wl = Some m"
        "container_metrics (cmc_Containers spec) [] = Done (opt_list (mt_Containers m))"
        by (auto simp: workload_of_def metrics_of_def)
      have cs: "gm_wf (cmc_Containers spec)" using wf Some by (simp add: containers_wf_def)
      then have "gm_wf ([] @ map (\<lambda>e. (fst e, zero_ContainerMetrics)) (cmc_Containers spec))" by (simp add: gm_wf_def comp_def)
      from container_metrics_result [OF m(2) this] have all: "list_all2 entity_of (cmc_Containers spec) (opt_list (mt_Containers m))"
        by auto
      have "gm_wf (opt_list (mt_Containers m))" by (rule gm_wf_image [OF all _ cs]) (simp add: entity_of_def)
      from Metrics_valid_iff [OF ord this] filled_entities [OF all] Some False m(1) show ?thesis
        by (force simp: containers_filled_def)
    qed
  qed
  finally show ?thesis .
qed

lemma heartbeat_configuration_valid_iff: "HeartbeatConfiguration_Validate (heartbeat_configuration d) = None \<longleftrightarrow> known_scope d"
  by (auto simp: HeartbeatConfiguration_Validate_def HeartbeatConfiguration_validateHardwareProfile_def
      HardwareProfileConfiguration_Validate_def HardwareProfileConfiguration_validateScope_def
      HardwareProfileConfiguration_validateScopeEnum_def hardwareProfileConfigurationTypeScopePropEnum_def
      heartbeat_configuration_def defaultHeartbeatConfiguration_def known_scope_def validity split: option.splits)

lemmas configuration_checks =
  DeviceConfiguration_Validate_def DeviceConfiguration_validateHeartbeat_def DeviceConfiguration_validateMetrics_def
  DeviceConfiguration_validateOs_def DeviceConfiguration_validateStorage_def MetricsConfiguration_Validate_def
  MetricsConfiguration_validateRetention_def MetricsConfiguration_validateSystem_def MetricsRetention_Validate_def
  SystemMetricsConfiguration_Validate_def SystemMetricsConfiguration_validateAllowList_def MetricsAllowList_Validate_def
  OsInformation_Validate_def StorageConfiguration_Validate_def StorageConfiguration_validateS3_def
  S3StorageConfiguration_Validate_def

lemma DeviceConfiguration_valid_iff:
  assumes "\<And>ks. set (ord ks) = set ks" and "\<And>m. dc_LogCollection c = Some m \<Longrightarrow> gm_wf m"
  shows "DeviceConfiguration_Validate ord c = None \<longleftrightarrow>
    (\<forall>h. dc_Heartbeat c = Some h \<longrightarrow> HeartbeatConfiguration_Validate h = None) \<and>
    (\<forall>m k i. dc_LogCollection c = Some m \<longrightarrow> (k, i) \<in> set m \<longrightarrow> i \<noteq> zero_LogsCollectionInformation)"
proof -
  have "DeviceConfiguration_validateLogCollection ord c = None \<longleftrightarrow>
    (\<forall>m k i. dc_LogCollection c = Some m \<longrightarrow> (k, i) \<in> set m \<longrightarrow>
       i \<noteq> zero_LogsCollectionInformation \<and> LogsCollectionInformation_Validate i = None)"
    unfolding DeviceConfiguration_validateLogCollection_def by (rule validate_map_None [OF assms])
  moreover have "LogsCollectionInformation_Validate i = None" for i
    by (simp add: LogsCollectionInformation_Validate_def LogsCollectionInformation_validateSyslogConfig_def
        SyslogConfig_Validate_def validity)
  ultimately show ?thesis by (simp add: configuration_checks validity)
qed

lemma data_message_valid_iff:
  assumes ord: "\<And>ks. set (ord ks) = set ks" and fair: "fair_range E" and wf: "gm_wf (sp_LogCollection (dev_Spec d))"
    and run: "run_state (data_message E i d wl sl) w = (Done (GetDataMessageForDeviceOK (Some m)), w')"
  shows "\<exists>dc. msg_Content m = ConfigurationContent dc \<and> dcm_Workloads dc = wl \<and>
    (DeviceConfigurationMessage_Validate ord dc = None \<longleftrightarrow>
       known_scope d \<and> targets_filled d \<and> (\<forall>x\<in>set wl. Workload_Validate ord x = None))"
proof -
  from run obtain lc w1 w2 dc cfg where lc: "run_state (getDeviceLogConfig E d) w1 = (Done (Inr lc), w2)"
    and m: "msg_Content m = ConfigurationContent dc" and dc: "dcm_Configuration dc = Some cfg"
      "dcm_WorkloadsMonitoringInterval dc = 0" "dcm_Workloads dc = wl"
    and cfg: "dc_Heartbeat cfg = Some (heartbeat_configuration d)" "dc_LogCollection cfg = lc"
    by (auto simp: data_message_def Let_def split: prod.splits sum.splits outcome.splits)
  note filled = getDeviceLogConfig_filled [OF fair wf lc]
  have "DeviceConfiguration_Validate ord cfg = None \<longleftrightarrow> known_scope d \<and> targets_filled d"
    using filled by (subst DeviceConfiguration_valid_iff [OF ord]) (auto simp: cfg heartbeat_configuration_valid_iff)
  then have "DeviceConfigurationMessage_Validate ord dc = None \<longleftrightarrow>
       known_scope d \<and> targets_filled d \<and> (\<forall>x\<in>set wl. Workload_Validate ord x = None)"
    by (simp add: DeviceConfigurationMessage_Validate_parts dc)
  then show ?thesis using m dc(3) by (intro exI [of _ dc] conjI)
qed

lemma workloads_valid_iff:
  assumes "list_all2 (workload_of E) deps wls" and "\<And>ks. set (ord ks) = set ks" and "\<forall>dep\<in>set deps. containers_wf dep"
  shows "(\<forall>x\<in>set wls. Workload_Validate ord x = None) \<longleftrightarrow> (\<forall>dep\<in>set deps. containers_filled dep)"
  using assms(1,3) by (induction rule: list_all2_induct) (auto simp: Workload_valid_iff [OF assms(2)])

section \<open>Properties\<close>

definition sendable :: "'w env \<Rightarrow> (string \<times> string \<Rightarrow> EdgeDeployment option) \<Rightarrow> EdgeDevice \<Rightarrow> bool" where
  "sendable E deps d \<longleftrightarrow> known_scope d \<and> targets_filled d \<and>
     (om_DeletionTimestamp (dev_meta d) = None \<longrightarrow>
        (\<forall>dep\<in>set (live_deployments deps d). marshalled E dep \<longrightarrow> containers_filled dep))"

text \<open>C13: the configuration a device is sent satisfies the constraints of the API, as the generated
  \<open>Validate\<close> of the message checks them, exactly when the scope of the hardware profile of the stored
  device is empty, full or delta, none of its log targets is left empty, and (unless the device is being
  deleted) no container in the metrics of a deployment it is to run is left empty, unless these metrics have no
  positive port and are not sent: an entry without any field set counts as missing. Everything else the handler puts into the message is valid by
  construction.\<close>

theorem configuration_valid_iff:
  assumes "device_server E devs h" and "workload_api E deps" and "fair_range E" and ord: "\<And>ks. set (ord ks) = set ks"
    and stored: "devs w (h_initialNamespace h, gp_DeviceID p) = Some d"
    and maps: "gm_wf (sp_LogCollection (dev_Spec d))" "\<forall>dep\<in>set (live_deployments (deps w) d). containers_wf dep"
    and run: "run_state (GetDataMessageForDevice E h p) w = (Done (GetDataMessageForDeviceOK (Some m)), w')"
  shows "\<exists>dc. msg_Content m = ConfigurationContent dc \<and>
    (DeviceConfigurationMessage_Validate ord dc = None \<longleftrightarrow> sendable E (deps w) d)"
proof -
  obtain d' w1 wl sl w2 where rd: "run_state (dev_Read E (gp_DeviceID p) (h_initialNamespace h)) w = (Inr d', w1)"
    and pl: "run_state (device_payload E d') w1 = (Done (Inr (wl, sl)), w2)"
    and dm: "run_state (data_message E (gp_DeviceID p) d' wl sl) w2 = (Done (GetDataMessageForDeviceOK (Some m)), w')"
    using GetData_steps [OF run] by blast
  have d': "d' = d" using wp_elim [OF device_server.wp_Read [OF assms(1)] rd] stored by simp
  have w1: "deps w1 = deps w"
    using keeps_run [OF workload_api.dev_get_keeps [OF assms(2)]] rd by (simp add: dev_Read_def)
  have "(\<forall>x\<in>set wl. Workload_Validate ord x = None) \<longleftrightarrow> (om_DeletionTimestamp (dev_meta d) = None \<longrightarrow>
      (\<forall>dep\<in>set (live_deployments (deps w) d). marshalled E dep \<longrightarrow> containers_filled dep))"
    using workload_api.device_payload_workloads [OF assms(2) pl, unfolded w1 d'] maps(2)
    by (auto simp: workloads_valid_iff [OF _ ord] split: if_splits)
  with data_message_valid_iff [OF ord assms(3) _ dm] maps(1) show ?thesis by (auto simp: d' sendable_def)
qed

definition sample_scoped :: "string \<Rightarrow> mem" where
  "sample_scoped scope = sample_running\<lparr>m_devs := map (\<lambda>d. d\<lparr>dev_Spec := (dev_Spec d)\<lparr>sp_Heartbeat :=
     Some \<lparr>hc_HardwareProfile = Some \<lparr>hp_Include = True, hp_Scope = scope\<rparr>, hc_PeriodSeconds = 5\<rparr>\<rparr>\<rparr>) (m_devs sample_running)\<rparr>"

lemma sample_scoped_answered:
  assumes "scope = ''delta'' \<or> scope = ''partial''"
  shows "\<exists>m w'. run_state (GetDataMessageForDevice mem_env toy_handler \<lparr>gp_DeviceID = ''d1''\<rparr>) (sample_scoped scope) =
      (Done (GetDataMessageForDeviceOK (Some m)), w')"
proof -
  let ?run = "run_state (GetDataMessageForDevice mem_env toy_handler \<lparr>gp_DeviceID = ''d1''\<rparr>) (sample_scoped scope)"
  have "case fst ?run of Done (GetDataMessageForDeviceOK (Some _)) \<Rightarrow> True | _ \<Rightarrow> False"
    using assms by (elim disjE) (hypsubst, code_simp)+
  then show ?thesis
    by (cases ?run) (auto split: outcome.splits GetDataMessageForDeviceResponse.splits option.splits)
qed

lemma sample_scoped_device:
  assumes "scope = ''delta'' \<or> scope = ''partial''"
  shows "\<exists>d. mem_devs (sample_scoped scope) (''default'', ''d1'') = Some d \<and> gm_wf (sp_LogCollection (dev_Spec d)) \<and>
    (\<forall>dep\<in>set (live_deployments (mem_deps (sample_scoped scope)) d). containers_wf dep) \<and>
    (sendable mem_env (mem_deps (sample_scoped scope)) d \<longleftrightarrow> scope = ''delta'')"
  using assms
  by (elim disjE; intro exI [of _ "hd (m_devs (sample_scoped scope))"]; hypsubst; code_simp)

theorem configuration_valid_iff_witness:
  "(\<exists>m dc w'. run_state (GetDataMessageForDevice mem_env toy_handler \<lparr>gp_DeviceID = ''d1''\<rparr>) (sample_scoped ''delta'') =
      (Done (GetDataMessageForDeviceOK (Some m)), w') \<and>
     msg_Content m = ConfigurationContent dc \<and> DeviceConfigurationMessage_Validate id dc = None) \<and>
   (\<exists>m dc w'. run_state (GetDataMessageForDevice mem_env toy_handler \<lparr>gp_DeviceID = ''d1''\<rparr>) (sample_scoped ''partial'') =
      (Done (GetDataMessageForDeviceOK (Some m)), w') \<and>
     msg_Content m = ConfigurationContent dc \<and> DeviceConfigurationMessage_Validate id dc \<noteq> None)"
proof -
  have ns: "h_initialNamespace toy_handler = ''default''" by (simp add: toy_handler_def NewYggdrasilHandler_def)
  have "\<exists>m dc w'. run_state (GetDataMessageForDevice mem_env toy_handler \<lparr>gp_DeviceID = ''d1''\<rparr>) (sample_scoped scope) =
      (Done (GetDataMessageForDeviceOK (Some m)), w') \<and> msg_Content m = ConfigurationContent dc \<and>
      (DeviceConfigurationMessage_Validate id dc = None \<longleftrightarrow> scope = ''delta'')"
    if sc: "scope = ''delta'' \<or> scope = ''partial''" for scope
  proof -
    obtain m w' where run: "run_state (GetDataMessageForDevice mem_env toy_handler \<lparr>gp_DeviceID = ''d1''\<rparr>) (sample_scoped scope) =
      (Done (GetDataMessageForDeviceOK (Some m)), w')" using sample_scoped_answered [OF sc] by blast
    obtain d where d: "mem_devs (sample_scoped scope) (''default'', ''d1'') = Some d" "gm_wf (sp_LogCollection (dev_Spec d))"
      "\<forall>dep\<in>set (live_deployments (mem_deps (sample_scoped scope)) d). containers_wf dep"
      "sendable mem_env (mem_deps (sample_scoped scope)) d \<longleftrightarrow> scope = ''delta''"
      using sample_scoped_device [OF sc] by blast
    from configuration_valid_iff [OF memserver.device_server_axioms memwl.workload_api_axioms mem_fair_range _ _ d(2,3) run, of id]
      d(1) obtain dc where "msg_Content m = ConfigurationContent dc"
        "DeviceConfigurationMessage_Validate id dc = None \<longleftrightarrow> sendable mem_env (mem_deps (sample_scoped scope)) d"
      by (auto simp: ns)
    then show ?thesis using run d(4) by (intro exI [of _ m] exI [of _ dc] exI [of _ w']) simp
  qed
  from this [of "''delta''"] this [of "''partial''"] show ?thesis by auto
qed

end
