(* ===== verification/Swagger_Spec.thy ===== *)
theory Swagger_Spec
  imports Models_Validate Management_Api
begin

text \<open>
  The API description embedded in the server (\<open>restapi/embedded_spec.go\<close>): the operations with their
  parameters and responses, and the schemas of the messages, as data; what it means for a JSON value to
  satisfy a schema; and how far the generated code keeps to it: the routes are those of the description, and
  so are the status codes but for requests that are refused before their handler; the \<open>Validate\<close> functions of
  the models accept the messages whose JSON form satisfies the schema, up to nil lists, which they accept, and
  empty entries of maps, which they do not.

  A reference to a definition is the constant of that definition. The description exists twice in the
  source, as written and flattened (theory \<open>Swagger_Flat\<close>); the minimum of \<open>workloads_monitoring_interval\<close> is only in the flattened
  one. Descriptions, titles and tags, which have no meaning for a program, are left out.
\<close>

section \<open>Schemas\<close>

datatype schema =
    AnySchema
  | StringSchema "string list"
  | DateTimeSchema
  | IntegerSchema nat "int option"
  | NumberSchema
  | BooleanSchema
  | ArraySchema schema
  | ObjectSchema "(string \<times> schema) list"
  | MapSchema schema

lemma member_size: "m \<in> set ms \<Longrightarrow> size (snd m) < Suc (size_list (size_prod (\<lambda>_. 0) size) ms)"
  by (induction ms) auto

text \<open>A string with an enumeration is one of its values; an integer fits its width and is above its
  exclusive minimum; no property is required; the format \<open>date-time\<close> is an argument.\<close>

function valid_schema :: "(string \<Rightarrow> bool) \<Rightarrow> schema \<Rightarrow> json \<Rightarrow> bool" where
  "valid_schema dt s j = (case s of
     AnySchema \<Rightarrow> True
   | StringSchema enum \<Rightarrow> (case j of JString t \<Rightarrow> enum = [] \<or> List.member enum t | _ \<Rightarrow> False)
   | DateTimeSchema \<Rightarrow> (case j of JString t \<Rightarrow> dt t | _ \<Rightarrow> False)
   | IntegerSchema bits least \<Rightarrow> (case j of
       JNumber t \<Rightarrow> (case ParseInt t bits of
           Inl _ \<Rightarrow> False
         | Inr i \<Rightarrow> (case least of None \<Rightarrow> True | Some n \<Rightarrow> i > n))
     | _ \<Rightarrow> False)
   | NumberSchema \<Rightarrow> (case j of JNumber _ \<Rightarrow> True | _ \<Rightarrow> False)
   | BooleanSchema \<Rightarrow> (case j of JBool _ \<Rightarrow> True | _ \<Rightarrow> False)
   | ArraySchema s' \<Rightarrow> (case j of JArray js \<Rightarrow> list_all (valid_schema dt s') js | _ \<Rightarrow> False)
   | ObjectSchema props \<Rightarrow> (case j of
       JObject ms \<Rightarrow> list_all (\<lambda>m. case map_of props (fst m) of None \<Rightarrow> True | Some s' \<Rightarrow> valid_schema dt s' (snd m)) ms
     | _ \<Rightarrow> False)
   | MapSchema s' \<Rightarrow> (case j of JObject ms \<Rightarrow> list_all (\<lambda>m. valid_schema dt s' (snd m)) ms | _ \<Rightarrow> False))"
  by pat_completeness auto

termination
  by (relation "measure (\<lambda>(_, _, j). size j)") (auto simp: less_Suc_eq_le size_list_estimation' dest: member_size)

declare valid_schema.simps [simp del]

section \<open>The definitions\<close>

definition boot_schema :: schema where
  "boot_schema = ObjectSchema [(''current_boot_mode'', StringSchema []), (''pxe_interface'', StringSchema [])]"

definition configmap_list_schema :: schema where
  "configmap_list_schema = ArraySchema (StringSchema [])"

definition container_metrics_schema :: schema where
  "container_metrics_schema = ObjectSchema [(''disabled'', BooleanSchema), (''path'', StringSchema []), (''port'', IntegerSchema 32 None)]"

definition cpu_schema :: schema where
  "cpu_schema = ObjectSchema [(''architecture'', StringSchema []), (''count'', IntegerSchema 64 None),
     (''flags'', ArraySchema (StringSchema [])), (''frequency'', NumberSchema),
     (''model_name'', StringSchema [])]"

definition data_path_schema :: schema where
  "data_path_schema = ObjectSchema [(''source'', StringSchema []), (''target'', StringSchema [])]"

definition data_configuration_schema :: schema where
  "data_configuration_schema = ObjectSchema [(''paths'', ArraySchema data_path_schema)]"

definition hardware_profile_configuration_schema :: schema where
  "hardware_profile_configuration_schema = ObjectSchema [(''include'', BooleanSchema), (''scope'', StringSchema [''full'', ''delta''])]"

definition heartbeat_configuration_schema :: schema where
  "heartbeat_configuration_schema = ObjectSchema [(''hardware_profile'', hardware_profile_configuration_schema),
     (''period_seconds'', IntegerSchema 64 None)]"

definition logs_collection_information_schema :: schema where
  "logs_collection_information_schema = ObjectSchema [(''buffer_size'', IntegerSchema 32 None), (''kind'', StringSchema []),
     (''syslog_config'', ObjectSchema [(''address'', StringSchema []), (''protocol'', StringSchema [])])]"

definition metrics_retention_schema :: schema where
  "metrics_retention_schema = ObjectSchema [(''max_hours'', IntegerSchema 32 None), (''max_mib'', IntegerSchema 32 None)]"

definition metrics_allow_list_schema :: schema where
  "metrics_allow_list_schema = ObjectSchema [(''names'', ArraySchema (StringSchema []))]"

definition system_metrics_configuration_schema :: schema where
  "system_metrics_configuration_schema = ObjectSchema [(''allow_list'', metrics_allow_list_schema), (''disabled'', BooleanSchema),
     (''interval'', IntegerSchema 32 None)]"

definition metrics_configuration_schema :: schema where
  "metrics_configuration_schema = ObjectSchema [(''retention'', metrics_retention_schema), (''system'', system_metrics_configuration_schema)]"

definition os_information_schema :: schema where
  "os_information_schema = ObjectSchema [(''automatically_upgrade'', BooleanSchema), (''commit_id'', StringSchema []),
     (''hosted_objects_url'', StringSchema [])]"

definition s3_storage_configuration_schema :: schema where
  "s3_storage_configuration_schema = ObjectSchema [(''aws_access_key_id'', StringSchema []), (''aws_ca_bundle'', StringSchema []),
     (''aws_secret_access_key'', StringSchema []), (''bucket_host'', StringSchema []),
     (''bucket_name'', StringSchema []), (''bucket_port'', IntegerSchema 32 None),
     (''bucket_region'', StringSchema [])]"

definition storage_configuration_schema :: schema where
  "storage_configuration_schema = ObjectSchema [(''s3'', s3_storage_configuration_schema)]"

definition device_configuration_schema :: schema where
  "device_configuration_schema = ObjectSchema [(''heartbeat'', heartbeat_configuration_schema),
     (''log-collection'', MapSchema logs_collection_information_schema),
     (''metrics'', metrics_configuration_schema), (''os'', os_information_schema),
     (''storage'', storage_configuration_schema)]"

definition secret_schema :: schema where
  "secret_schema = ObjectSchema [(''data'', StringSchema []), (''name'', StringSchema [])]"

definition secret_list_schema :: schema where
  "secret_list_schema = ArraySchema secret_schema"

definition image_registries_schema :: schema where
  "image_registries_schema = ObjectSchema [(''authFile'', StringSchema [])]"

definition metrics_schema :: schema where
  "metrics_schema = ObjectSchema [(''allow_list'', metrics_allow_list_schema), (''containers'', MapSchema container_metrics_schema),
     (''interval'', IntegerSchema 32 None), (''path'', StringSchema []), (''port'', IntegerSchema 32 None)]"

definition workload_schema :: schema where
  "workload_schema = ObjectSchema [(''configmaps'', configmap_list_schema), (''data'', data_configuration_schema),
     (''imageRegistries'', image_registries_schema), (''log_collection'', StringSchema []),
     (''metrics'', metrics_schema), (''name'', StringSchema []), (''specification'', StringSchema [])]"

definition workload_list_schema :: schema where
  "workload_list_schema = ArraySchema workload_schema"

definition device_configuration_message_schema :: schema where
  "device_configuration_message_schema = ObjectSchema [(''configuration'', device_configuration_schema), (''device_id'', StringSchema []),
     (''secrets'', secret_list_schema), (''version'', StringSchema []),
     (''workloads'', workload_list_schema), (''workloads_monitoring_interval'', IntegerSchema 64 (Some 0))]"

definition io_perf_schema :: schema where
  "io_perf_schema = ObjectSchema [(''sync_duration'', IntegerSchema 64 None)]"

definition disk_schema :: schema where
  "disk_schema = ObjectSchema [(''bootable'', BooleanSchema), (''by_id'', StringSchema []), (''by_path'', StringSchema []),
     (''drive_type'', StringSchema []), (''hctl'', StringSchema []), (''id'', StringSchema []),
     (''io_perf'', io_perf_schema), (''is_installation_media'', BooleanSchema), (''model'', StringSchema []),
     (''name'', StringSchema []), (''path'', StringSchema []), (''serial'', StringSchema []),
     (''size_bytes'', IntegerSchema 64 None), (''smart'', StringSchema []), (''vendor'', StringSchema []),
     (''wwn'', StringSchema [])]"

definition event_info_schema :: schema where
  "event_info_schema = ObjectSchema [(''message'', StringSchema []), (''reason'', StringSchema []),
     (''type'', StringSchema [''info'', ''warn''])]"

definition gpu_schema :: schema where
  "gpu_schema = ObjectSchema [(''address'', StringSchema []), (''device_id'', StringSchema []), (''name'', StringSchema []),
     (''vendor'', StringSchema []), (''vendor_id'', StringSchema [])]"

definition interface_schema :: schema where
  "interface_schema = ObjectSchema [(''biosdevname'', StringSchema []), (''client_id'', StringSchema []),
     (''flags'', ArraySchema (StringSchema [])), (''has_carrier'', BooleanSchema),
     (''ipv4_addresses'', ArraySchema (StringSchema [])),
     (''ipv6_addresses'', ArraySchema (StringSchema [])), (''mac_address'', StringSchema []),
     (''mtu'', IntegerSchema 64 None), (''name'', StringSchema []), (''product'', StringSchema []),
     (''speed_mbps'', IntegerSchema 64 None), (''vendor'', StringSchema [])]"

definition memory_schema :: schema where
  "memory_schema = ObjectSchema [(''physical_bytes'', IntegerSchema 64 None), (''usable_bytes'', IntegerSchema 64 None)]"

definition system_vendor_schema :: schema where
  "system_vendor_schema = ObjectSchema [(''manufacturer'', StringSchema []), (''product_name'', StringSchema []),
     (''serial_number'', StringSchema []), (''virtual'', BooleanSchema)]"

definition hardware_info_schema :: schema where
  "hardware_info_schema = ObjectSchema [(''boot'', boot_schema), (''cpu'', cpu_schema), (''disks'', ArraySchema disk_schema),
     (''gpus'', ArraySchema gpu_schema), (''hostname'', StringSchema []),
     (''interfaces'', ArraySchema interface_schema), (''memory'', memory_schema),
     (''system_vendor'', system_vendor_schema)]"

definition upgrade_status_schema :: schema where
  "upgrade_status_schema = ObjectSchema [(''current_commit_ID'', StringSchema []),
     (''last_upgrade_status'', StringSchema [''succeeded'', ''failed'']),
     (''last_upgrade_time'', StringSchema [])]"

definition workload_status_schema :: schema where
  "workload_status_schema = ObjectSchema [(''last_data_upload'', DateTimeSchema), (''name'', StringSchema []),
     (''status'', StringSchema [''deploying'', ''running'', ''crashed'', ''stopped''])]"

definition heartbeat_schema :: schema where
  "heartbeat_schema = ObjectSchema [(''events'', ArraySchema event_info_schema), (''hardware'', hardware_info_schema),
     (''status'', StringSchema [''up'', ''degraded'']), (''upgrade'', upgrade_status_schema),
     (''version'', StringSchema []), (''workloads'', ArraySchema workload_status_schema)]"

definition message_schema :: schema where
  "message_schema = ObjectSchema [(''content'', AnySchema), (''directive'', StringSchema []), (''message_id'', StringSchema []),
     (''metadata'', ObjectSchema []), (''response_to'', StringSchema []), (''sent'', DateTimeSchema),
     (''type'', StringSchema [''connection-status'', ''command'', ''event'', ''data'']),
     (''version'', IntegerSchema 64 None)]"

definition message_response_schema :: schema where
  "message_response_schema = ObjectSchema [(''content'', AnySchema), (''directive'', StringSchema []), (''message_id'', StringSchema [])]"

definition registration_info_schema :: schema where
  "registration_info_schema = ObjectSchema [(''certificate_request'', StringSchema []), (''hardware'', hardware_info_schema)]"

definition registration_response_schema :: schema where
  "registration_response_schema = ObjectSchema [(''certificate'', StringSchema [])]"

section \<open>The operations\<close>

record swagger_operation =
  so_Path :: string
  so_Method :: string
  so_ID :: string
  so_Parameters :: "(string \<times> string) list"
  so_Responses :: "(int \<times> schema option) list"

definition get_control_operation :: swagger_operation where
  "get_control_operation = \<lparr>so_Path = ''/control/{device_id}/in'', so_Method = ''get'', so_ID = ''GetControlMessageForDevice'',
     so_Parameters = [(''device_id'', ''path'')],
     so_Responses = [(200, Some message_schema), (401, None), (403, None), (404, None), (500, None)]\<rparr>"

definition post_control_operation :: swagger_operation where
  "post_control_operation = \<lparr>so_Path = ''/control/{device_id}/out'', so_Method = ''post'', so_ID = ''PostControlMessageForDevice'',
     so_Parameters = [(''device_id'', ''path''), (''message'', ''body'')],
     so_Responses = [(200, None), (401, None), (403, None), (404, None), (500, None)]\<rparr>"

definition get_data_operation :: swagger_operation where
  "get_data_operation = \<lparr>so_Path = ''/data/{device_id}/in'', so_Method = ''get'', so_ID = ''GetDataMessageForDevice'',
     so_Parameters = [(''device_id'', ''path'')],
     so_Responses = [(200, Some message_schema), (401, None), (403, None), (404, None), (500, None)]\<rparr>"

definition post_data_operation :: swagger_operation where
  "post_data_operation = \<lparr>so_Path = ''/data/{device_id}/out'', so_Method = ''post'', so_ID = ''PostDataMessageForDevice'',
     so_Parameters = [(''device_id'', ''path''), (''message'', ''body'')],
     so_Responses = [(200, Some message_response_schema), (400, None), (401, None), (403, None), (404, None), (500, None)]\<rparr>"

definition swagger_paths :: "swagger_operation list" where
  "swagger_paths = [get_control_operation, post_control_operation, get_data_operation, post_data_operation]"

definition swagger_basePath :: string where
  "swagger_basePath = ''/api/flotta-management/v1''"

section \<open>When an encoded struct satisfies a schema\<close>

named_theorems conforming \<open>when the members of an encoded struct satisfy the properties of a schema\<close>

definition valid_member :: "(string \<Rightarrow> bool) \<Rightarrow> (string \<times> schema) list \<Rightarrow> string \<Rightarrow> json \<Rightarrow> bool" where
  "valid_member dt props k j = (case map_of props k of None \<Rightarrow> True | Some s \<Rightarrow> valid_schema dt s j)"

definition valid_members :: "(string \<Rightarrow> bool) \<Rightarrow> (string \<times> schema) list \<Rightarrow> (string \<times> json) list \<Rightarrow> bool" where
  "valid_members dt props ms = list_all (\<lambda>m. valid_member dt props (fst m) (snd m)) ms"

lemma valid_object [conforming]: "valid_schema dt (ObjectSchema props) (JObject ms) = valid_members dt props ms"
  by (subst valid_schema.simps) (simp add: valid_members_def valid_member_def)

lemma valid_members_append [conforming]:
  "valid_members dt props (ms @ ms') \<longleftrightarrow> valid_members dt props ms \<and> valid_members dt props ms'"
  by (simp add: valid_members_def)

lemma valid_members_of [conforming]:
  "valid_members dt props (str_member k s) \<longleftrightarrow> s = [] \<or> valid_member dt props k (JString s)"
  "valid_members dt props (int_member k i) \<longleftrightarrow> i = 0 \<or> valid_member dt props k (JNumber (FormatInt i))"
  "valid_members dt props (bool_member k b) \<longleftrightarrow> \<not> b \<or> valid_member dt props k (JBool True)"
  "valid_members dt props (time_member J k t) \<longleftrightarrow> valid_member dt props k (JString (jc_time J t))"
  "valid_members dt props (strs_member k ss) \<longleftrightarrow> valid_member dt props k (slice_json JString ss)"
  "valid_members dt props (strs_member_opt k xs) \<longleftrightarrow> xs = [] \<or> valid_member dt props k (JArray (map JString xs))"
  "valid_members dt props (ptr_member k enc p) \<longleftrightarrow> (\<forall>x. p = Some x \<longrightarrow> valid_member dt props k (enc x))"
  "valid_members dt props (ptrs_member k enc os) \<longleftrightarrow> valid_member dt props k (slice_json (ptr_json enc) os)"
  "valid_members dt props (ptrs_member_opt k enc ps) \<longleftrightarrow>
     ps = [] \<or> valid_member dt props k (JArray (map (ptr_json enc) ps))"
  "valid_members dt props (map_member k enc mo) \<longleftrightarrow>
     (\<forall>m. mo = Some m \<longrightarrow> m \<noteq> [] \<longrightarrow> valid_member dt props k (JObject (map (apsnd enc) (sort_key fst m))))"
  by (auto simp: valid_members_def str_member_def int_member_def bool_member_def time_member_def strs_member_def strs_member_opt_def
      slice_json_def ptr_member_def ptrs_member_def ptrs_member_opt_def map_member_def split: option.splits)

lemma valid_value [conforming]:
  "valid_schema dt (StringSchema enum) (JString t) \<longleftrightarrow> enum = [] \<or> t \<in> set enum"
  "valid_schema dt DateTimeSchema (JString t) \<longleftrightarrow> dt t"
  "valid_schema dt NumberSchema (JNumber n)" "valid_schema dt BooleanSchema (JBool b)"
  "valid_schema dt (ArraySchema (StringSchema [])) (JArray (map JString xs))"
  by (subst valid_schema.simps, simp add: list_all_iff List.member_iff valid_schema.simps [of dt "StringSchema []"])+

lemma valid_int [conforming]:
  "in_bits bits i \<Longrightarrow> 0 < bits \<Longrightarrow> bits \<le> 64 \<Longrightarrow>
     valid_schema dt (IntegerSchema bits least) (JNumber (FormatInt i)) \<longleftrightarrow> (\<forall>n. least = Some n \<longrightarrow> i > n)"
  by (subst valid_schema.simps) (auto simp: ParseInt_FormatInt split: option.splits)

lemma valid_ptrs:
  "valid_schema dt (ArraySchema s) (JArray (map (ptr_json enc) ps)) \<longleftrightarrow> (\<forall>p\<in>set ps. valid_schema dt s (ptr_json enc p))"
  by (subst valid_schema.simps) (simp add: list_all_iff)

lemma valid_ptrs_some [conforming]:
  "None \<notin> set ps \<Longrightarrow>
     valid_schema dt (ArraySchema s) (JArray (map (ptr_json enc) ps)) \<longleftrightarrow> (\<forall>x. Some x \<in> set ps \<longrightarrow> valid_schema dt s (enc x))"
proof -
  assume none: "None \<notin> set ps"
  have "(\<forall>p\<in>set ps. valid_schema dt s (ptr_json enc p)) \<longleftrightarrow> (\<forall>x. Some x \<in> set ps \<longrightarrow> valid_schema dt s (ptr_json enc (Some x)))"
    using none by (metis option.exhaust)
  then show ?thesis unfolding valid_ptrs by (simp add: ptr_json_def)
qed

text \<open>A nil slice and a nil pointer in a slice are written as \<open>null\<close>, which no array and no object is: a slice
  satisfies its schema when it is not nil and its entries are there and satisfy theirs.\<close>

definition filled :: "('a \<Rightarrow> bool) \<Rightarrow> 'a option list option \<Rightarrow> bool" where
  "filled ok ps = (case ps of
     None \<Rightarrow> False
   | Some xs \<Rightarrow> list_all (\<lambda>p. case p of None \<Rightarrow> False | Some x \<Rightarrow> ok x) xs)"

lemma no_null [conforming]:
  "\<not> valid_schema dt (ObjectSchema props) JNull" "\<not> valid_schema dt (ArraySchema s) JNull"
  by (subst valid_schema.simps, simp)+

lemma valid_slice_strs [conforming]: "valid_schema dt (ArraySchema (StringSchema [])) (slice_json JString xs) \<longleftrightarrow> xs \<noteq> None"
  by (cases xs) (simp_all add: slice_json_def no_null valid_value)

lemma valid_slice_ptrs:
  assumes "\<not> valid_schema dt s JNull" and "\<And>x. Some x \<in> set (opt_list ps) \<Longrightarrow> valid_schema dt s (enc x) \<longleftrightarrow> ok x"
  shows "valid_schema dt (ArraySchema s) (slice_json (ptr_json enc) ps) \<longleftrightarrow> filled ok ps"
proof (cases ps)
  case (Some xs)
  have "valid_schema dt s (ptr_json enc p) \<longleftrightarrow> (case p of None \<Rightarrow> False | Some x \<Rightarrow> ok x)" if "p \<in> set xs" for p
    using assms(1) assms(2) [of "the p"] that Some by (cases p) (simp_all add: ptr_json_def opt_list_def)
  then show ?thesis by (simp add: Some slice_json_def valid_ptrs filled_def list_all_iff)
qed (simp add: slice_json_def filled_def no_null)

lemma filled_and: "filled (\<lambda>x. P x \<and> Q x) ps \<longleftrightarrow> filled P ps \<and> filled Q ps"
  by (cases ps) (auto simp: filled_def list_all_iff split: option.splits)

lemma filled_iff: "filled P ps \<longleftrightarrow> filled (\<lambda>_. True) ps \<and> (\<forall>x. Some x \<in> set (opt_list ps) \<longrightarrow> P x)"
  by (cases ps) (force simp: filled_def list_all_iff opt_list_def split: option.splits)+

lemma valid_structs [conforming]:
  "valid_schema dt (ArraySchema s) (JArray (map (ptr_json enc \<circ> Some) xs)) \<longleftrightarrow> (\<forall>x\<in>set xs. valid_schema dt s (enc x))"
  by (subst valid_schema.simps) (simp add: list_all_iff ptr_json_def)

lemma valid_map [conforming]:
  "valid_schema dt (MapSchema s) (JObject (map (apsnd enc) (sort_key fst m))) \<longleftrightarrow> (\<forall>k v. (k, v) \<in> set m \<longrightarrow> valid_schema dt s (enc v))"
  by (subst valid_schema.simps) (auto simp: list_all_iff)

section \<open>The structs satisfy their schemas\<close>

lemma Boot_conforms [conforming]: "valid_schema dt boot_schema (Boot_json m)"
  by (auto simp: boot_schema_def Boot_json_def valid_member_def conforming)

lemma IoPerf_conforms [conforming]: "IoPerf_wf m \<Longrightarrow> valid_schema dt io_perf_schema (IoPerf_json m)"
  by (auto simp: io_perf_schema_def IoPerf_json_def IoPerf_wf_def valid_member_def conforming)

lemma Disk_conforms [conforming]: "Disk_wf m \<Longrightarrow> valid_schema dt disk_schema (Disk_json m)"
  by (auto simp: disk_schema_def Disk_json_def Disk_wf_def valid_member_def conforming)

lemma Gpu_conforms [conforming]: "valid_schema dt gpu_schema (Gpu_json m)"
  by (auto simp: gpu_schema_def Gpu_json_def valid_member_def conforming)

definition Interface_filled :: "mInterface \<Rightarrow> bool" where
  "Interface_filled m \<longleftrightarrow> mif_Flags m \<noteq> None \<and> mif_IPV4Addresses m \<noteq> None \<and> mif_IPV6Addresses m \<noteq> None"

lemma Interface_conforms [conforming]:
  "Interface_wf m \<Longrightarrow> valid_schema dt interface_schema (Interface_json m) \<longleftrightarrow> Interface_filled m"
  by (auto simp: interface_schema_def Interface_json_def Interface_wf_def Interface_filled_def valid_member_def conforming)

lemma Memory_conforms [conforming]: "Memory_wf m \<Longrightarrow> valid_schema dt memory_schema (Memory_json m)"
  by (auto simp: memory_schema_def Memory_json_def Memory_wf_def valid_member_def conforming)

lemma SystemVendor_conforms [conforming]: "valid_schema dt system_vendor_schema (SystemVendor_json m)"
  by (auto simp: system_vendor_schema_def SystemVendor_json_def valid_member_def conforming)

lemma DataPath_conforms [conforming]: "valid_schema dt data_path_schema (DataPath_json m)"
  by (auto simp: data_path_schema_def DataPath_json_def valid_member_def conforming)

lemma ImageRegistries_conforms [conforming]: "valid_schema dt image_registries_schema (ImageRegistries_json m)"
  by (auto simp: image_registries_schema_def ImageRegistries_json_def valid_member_def conforming)

lemma MetricsAllowList_conforms [conforming]:
  "valid_schema dt metrics_allow_list_schema (MetricsAllowList_json m) \<longleftrightarrow> mal_Names m \<noteq> None"
  by (auto simp: metrics_allow_list_schema_def MetricsAllowList_json_def valid_member_def conforming)

lemma ContainerMetrics_conforms [conforming]: "ContainerMetrics_wf m \<Longrightarrow> valid_schema dt container_metrics_schema (ContainerMetrics_json m)"
  by (auto simp: container_metrics_schema_def ContainerMetrics_json_def ContainerMetrics_wf_def valid_member_def conforming)

lemma Secret_conforms [conforming]: "valid_schema dt secret_schema (Secret_json m)"
  by (auto simp: secret_schema_def Secret_json_def valid_member_def conforming)

lemma MetricsRetention_conforms [conforming]: "MetricsRetention_wf m \<Longrightarrow> valid_schema dt metrics_retention_schema (MetricsRetention_json m)"
  by (auto simp: metrics_retention_schema_def MetricsRetention_json_def MetricsRetention_wf_def valid_member_def conforming)

text \<open>The allow list, if there is one, lists names.\<close>

definition allow_list_filled :: "MetricsAllowList option \<Rightarrow> bool" where
  "allow_list_filled al = pred_option (\<lambda>a. mal_Names a \<noteq> None) al"

definition metrics_filled :: "mMetricsConfiguration \<Rightarrow> bool" where
  "metrics_filled m = pred_option (\<lambda>s. allow_list_filled (msm_AllowList s)) (mmc_System m)"

lemma allow_list_filled_iff: "allow_list_filled al \<longleftrightarrow> (\<forall>a. al = Some a \<longrightarrow> mal_Names a \<noteq> None)"
  by (cases al) (simp_all add: allow_list_filled_def)

lemma SystemMetricsConfiguration_conforms [conforming]:
  "SystemMetricsConfiguration_wf m \<Longrightarrow>
     valid_schema dt system_metrics_configuration_schema (SystemMetricsConfiguration_json m) \<longleftrightarrow> allow_list_filled (msm_AllowList m)"
  by (auto simp: allow_list_filled_iff system_metrics_configuration_schema_def SystemMetricsConfiguration_json_def SystemMetricsConfiguration_wf_def valid_member_def conforming)

lemma MetricsConfiguration_conforms [conforming]:
  "MetricsConfiguration_wf m \<Longrightarrow>
     valid_schema dt metrics_configuration_schema (MetricsConfiguration_json m) \<longleftrightarrow> metrics_filled m"
  by (cases "mmc_System m") (auto simp: metrics_filled_def metrics_configuration_schema_def MetricsConfiguration_json_def MetricsConfiguration_wf_def valid_member_def conforming)

lemma OsInformation_conforms [conforming]: "valid_schema dt os_information_schema (OsInformation_json m)"
  by (auto simp: os_information_schema_def OsInformation_json_def valid_member_def conforming)

lemma S3StorageConfiguration_conforms [conforming]: "S3StorageConfiguration_wf m \<Longrightarrow> valid_schema dt s3_storage_configuration_schema (S3StorageConfiguration_json m)"
  by (auto simp: s3_storage_configuration_schema_def S3StorageConfiguration_json_def S3StorageConfiguration_wf_def valid_member_def conforming)

lemma StorageConfiguration_conforms [conforming]: "StorageConfiguration_wf m \<Longrightarrow> valid_schema dt storage_configuration_schema (StorageConfiguration_json m)"
  by (auto simp: storage_configuration_schema_def StorageConfiguration_json_def StorageConfiguration_wf_def valid_member_def conforming)

lemma RegistrationResponse_conforms [conforming]: "valid_schema dt registration_response_schema (RegistrationResponse_json m)"
  by (auto simp: registration_response_schema_def RegistrationResponse_json_def valid_member_def conforming)

lemma LogsCollectionInformation_conforms [conforming]:
  "LogsCollectionInformation_wf m \<Longrightarrow> valid_schema dt logs_collection_information_schema (LogsCollectionInformation_json m)"
  by (auto simp: logs_collection_information_schema_def LogsCollectionInformation_json_def SyslogConfig_json_def
      LogsCollectionInformation_wf_def valid_member_def conforming)

lemma EventInfo_conforms [conforming]:
  "valid_schema dt event_info_schema (EventInfo_json m) \<longleftrightarrow> EventInfo_Validate m = None"
  by (auto simp: event_info_schema_def EventInfo_json_def EventInfo_valid_iff valid_member_def conforming)

lemma UpgradeStatus_conforms [conforming]:
  "valid_schema dt upgrade_status_schema (UpgradeStatus_json m) \<longleftrightarrow> UpgradeStatus_Validate m = None"
  by (auto simp: upgrade_status_schema_def UpgradeStatus_json_def UpgradeStatus_valid_iff valid_member_def conforming)

lemma WorkloadStatus_conforms [conforming]:
  assumes "dt (jc_time J zero_time)"
  shows "valid_schema dt workload_status_schema (WorkloadStatus_json J m) \<longleftrightarrow>
    WorkloadStatus_Validate (\<lambda>t. dt (jc_time J t)) m = None"
  using assms
  by (auto simp: workload_status_schema_def WorkloadStatus_json_def WorkloadStatus_valid_iff valid_member_def conforming)

lemma HardwareProfileConfiguration_conforms [conforming]:
  "valid_schema dt hardware_profile_configuration_schema (HardwareProfileConfiguration_json m) \<longleftrightarrow>
     HardwareProfileConfiguration_Validate m = None"
  by (auto simp: hardware_profile_configuration_schema_def HardwareProfileConfiguration_json_def
      HardwareProfileConfiguration_Validate_def HardwareProfileConfiguration_validateScope_def
      HardwareProfileConfiguration_validateScopeEnum_def hardwareProfileConfigurationTypeScopePropEnum_def
      valid_member_def conforming validity)

lemma float_conforms:
  "float_member J k f = Inr ms \<Longrightarrow> map_of props k = Some NumberSchema \<Longrightarrow> valid_members dt props ms"
  by (auto simp: float_member_def try_res_Inr valid_members_def valid_member_def valid_value split: if_splits)

lemma ptr_try_conforms:
  "ptr_member_try k enc p = Inr ms \<Longrightarrow>
     valid_members dt props ms \<longleftrightarrow> (\<forall>x j. p = Some x \<longrightarrow> enc x = Inr j \<longrightarrow> valid_member dt props k j)"
  by (auto simp: ptr_member_try_def try_res_Inr valid_members_def split: option.splits)

lemma list_ok: "list_all (pred_option ok) ps \<Longrightarrow> Some x \<in> set ps \<Longrightarrow> ok x"
  by (auto simp: list_all_iff)

lemma CPU_conforms:
  assumes "CPU_json J c = Inr j" and "CPU_wf J c"
  shows "valid_schema dt cpu_schema j \<longleftrightarrow> mcpu_Flags c \<noteq> None"
proof -
  obtain ms where ms: "float_member J ''frequency'' (mcpu_Frequency c) = Inr ms"
    and j: "j = JObject (str_member ''architecture'' (mcpu_Architecture c) @ int_member ''count'' (mcpu_Count c) @
      strs_member ''flags'' (mcpu_Flags c) @ ms @ str_member ''model_name'' (mcpu_ModelName c))"
    using assms(1) by (auto simp: CPU_json_def try_res_Inr)
  have "valid_members dt props ms" if "map_of props ''frequency'' = Some NumberSchema" for props
    by (rule float_conforms [OF ms that])
  with assms(2) show ?thesis by (auto simp: j cpu_schema_def CPU_wf_def valid_member_def conforming)
qed

text \<open>No slice of the report is nil and no entry of it null.\<close>

definition HardwareInfo_filled :: "HardwareInfo \<Rightarrow> bool" where
  "HardwareInfo_filled h \<longleftrightarrow> pred_option (\<lambda>c. mcpu_Flags c \<noteq> None) (hi_CPU h) \<and> filled (\<lambda>_. True) (hi_Disks h) \<and>
     filled (\<lambda>_. True) (hi_Gpus h) \<and> filled Interface_filled (hi_Interfaces h)"

lemma hardware_slices:
  assumes "HardwareInfo_wf J h"
  shows "valid_schema dt (ArraySchema disk_schema) (slice_json (ptr_json Disk_json) (hi_Disks h)) \<longleftrightarrow> filled (\<lambda>_. True) (hi_Disks h)"
    and "valid_schema dt (ArraySchema gpu_schema) (slice_json (ptr_json Gpu_json) (hi_Gpus h)) \<longleftrightarrow> filled (\<lambda>_. True) (hi_Gpus h)"
    and "valid_schema dt (ArraySchema interface_schema) (slice_json (ptr_json Interface_json) (hi_Interfaces h)) \<longleftrightarrow>
      filled Interface_filled (hi_Interfaces h)"
proof -
  have disks: "Some x \<in> set (opt_list (hi_Disks h)) \<Longrightarrow> Disk_wf x" for x
    by (rule list_ok [of _ "opt_list (hi_Disks h)"]) (use assms in \<open>simp_all add: HardwareInfo_wf_def\<close>)
  have interfaces: "Some x \<in> set (opt_list (hi_Interfaces h)) \<Longrightarrow> Interface_wf x" for x
    by (rule list_ok [of _ "opt_list (hi_Interfaces h)"]) (use assms in \<open>simp_all add: HardwareInfo_wf_def\<close>)
  show "valid_schema dt (ArraySchema disk_schema) (slice_json (ptr_json Disk_json) (hi_Disks h)) \<longleftrightarrow> filled (\<lambda>_. True) (hi_Disks h)"
    by (rule valid_slice_ptrs) (simp_all add: disks Disk_conforms, simp add: disk_schema_def no_null)
  show "valid_schema dt (ArraySchema gpu_schema) (slice_json (ptr_json Gpu_json) (hi_Gpus h)) \<longleftrightarrow> filled (\<lambda>_. True) (hi_Gpus h)"
    by (rule valid_slice_ptrs) (simp_all add: Gpu_conforms, simp add: gpu_schema_def no_null)
  show "valid_schema dt (ArraySchema interface_schema) (slice_json (ptr_json Interface_json) (hi_Interfaces h)) \<longleftrightarrow>
      filled Interface_filled (hi_Interfaces h)"
    by (rule valid_slice_ptrs) (simp_all add: interfaces Interface_conforms, simp add: interface_schema_def no_null)
qed

lemma HardwareInfo_conforms:
  assumes "HardwareInfo_json J h = Inr j" and "HardwareInfo_wf J h"
  shows "valid_schema dt hardware_info_schema j \<longleftrightarrow> HardwareInfo_filled h"
proof -
  obtain ms where ms: "ptr_member_try ''cpu'' (CPU_json J) (hi_CPU h) = Inr ms"
    and j: "j = JObject (ptr_member ''boot'' Boot_json (hi_Boot h) @ ms @ ptrs_member ''disks'' Disk_json (hi_Disks h) @
     ptrs_member ''gpus'' Gpu_json (hi_Gpus h) @ str_member ''hostname'' (hi_Hostname h) @
     ptrs_member ''interfaces'' Interface_json (hi_Interfaces h) @
     ptr_member ''memory'' Memory_json (hi_Memory h) @
     ptr_member ''system_vendor'' SystemVendor_json (hi_SystemVendor h))"
    using assms(1) by (auto simp: HardwareInfo_json_def try_res_Inr)
  have "valid_schema dt cpu_schema x \<longleftrightarrow> mcpu_Flags c \<noteq> None" if "hi_CPU h = Some c" "CPU_json J c = Inr x" for c x
    by (rule CPU_conforms [OF that(2)]) (use assms(2) that(1) in \<open>simp add: HardwareInfo_wf_def\<close>)
  then have cpu: "(\<forall>c. hi_CPU h = Some c \<longrightarrow> (\<forall>x. CPU_json J c = Inr x \<longrightarrow> valid_schema dt cpu_schema x)) \<longleftrightarrow>
      pred_option (\<lambda>c. mcpu_Flags c \<noteq> None) (hi_CPU h)"
    using ms by (cases "hi_CPU h") (auto simp: ptr_member_try_def try_res_Inr)
  have memory: "hi_Memory h = Some x \<Longrightarrow> Memory_wf x" for x using assms(2) by (simp add: HardwareInfo_wf_def)
  show ?thesis
    using memory
    by (simp add: j hardware_info_schema_def HardwareInfo_filled_def valid_member_def ptr_try_conforms [OF ms] cpu
        hardware_slices [OF assms(2)] conforming)
qed

definition Heartbeat_filled :: "Heartbeat \<Rightarrow> bool" where
  "Heartbeat_filled hb \<longleftrightarrow> filled (\<lambda>_. True) (hb_Events hb) \<and> filled (\<lambda>_. True) (hb_Workloads hb) \<and>
     pred_option HardwareInfo_filled (hb_Hardware hb)"

lemma Heartbeat_conforms:
  assumes "Heartbeat_json J hb = Inr j" and "Heartbeat_wf J hb" and dt: "dt (jc_time J zero_time)"
  shows "valid_schema dt heartbeat_schema j \<longleftrightarrow>
    Heartbeat_Validate (\<lambda>t. dt (jc_time J t)) hb = None \<and> Heartbeat_filled hb"
proof -
  obtain ms where ms: "ptr_member_try ''hardware'' (HardwareInfo_json J) (hb_Hardware hb) = Inr ms"
    and j: "j = JObject (ptrs_member ''events'' EventInfo_json (hb_Events hb) @ ms @ str_member ''status'' (hb_Status hb) @
     ptr_member ''upgrade'' UpgradeStatus_json (hb_Upgrade hb) @ str_member ''version'' (hb_Version hb) @
     ptrs_member ''workloads'' (WorkloadStatus_json J) (hb_Workloads hb))"
    using assms(1) by (auto simp: Heartbeat_json_def try_res_Inr)
  have "valid_schema dt hardware_info_schema x \<longleftrightarrow> HardwareInfo_filled h"
    if "hb_Hardware hb = Some h" "HardwareInfo_json J h = Inr x" for h x
    by (rule HardwareInfo_conforms [OF that(2)]) (use assms(2) that(1) in \<open>simp add: Heartbeat_wf_def\<close>)
  then have hw: "(\<forall>h. hb_Hardware hb = Some h \<longrightarrow> (\<forall>x. HardwareInfo_json J h = Inr x \<longrightarrow> valid_schema dt hardware_info_schema x)) \<longleftrightarrow>
      pred_option HardwareInfo_filled (hb_Hardware hb)"
    using ms by (cases "hb_Hardware hb") (auto simp: ptr_member_try_def try_res_Inr)
  have events: "valid_schema dt (ArraySchema event_info_schema) (slice_json (ptr_json EventInfo_json) (hb_Events hb)) \<longleftrightarrow>
      filled (\<lambda>e. EventInfo_Validate e = None) (hb_Events hb)"
    by (rule valid_slice_ptrs) (simp_all add: EventInfo_conforms, simp add: event_info_schema_def no_null)
  have workloads: "valid_schema dt (ArraySchema workload_status_schema) (slice_json (ptr_json (WorkloadStatus_json J)) (hb_Workloads hb)) \<longleftrightarrow>
      filled (\<lambda>ws. WorkloadStatus_Validate (\<lambda>t. dt (jc_time J t)) ws = None) (hb_Workloads hb)"
    by (rule valid_slice_ptrs) (simp_all add: WorkloadStatus_conforms [of dt J, OF dt], simp add: workload_status_schema_def no_null)
  have "valid_schema dt heartbeat_schema j \<longleftrightarrow>
      filled (\<lambda>e. EventInfo_Validate e = None) (hb_Events hb) \<and> hb_Status hb \<in> {[], ''up'', ''degraded''} \<and>
      (\<forall>u. hb_Upgrade hb = Some u \<longrightarrow> UpgradeStatus_Validate u = None) \<and>
      filled (\<lambda>ws. WorkloadStatus_Validate (\<lambda>t. dt (jc_time J t)) ws = None) (hb_Workloads hb) \<and>
      pred_option HardwareInfo_filled (hb_Hardware hb)"
    by (auto simp: j heartbeat_schema_def valid_member_def ptr_try_conforms [OF ms] events workloads hw conforming)
  also have "\<dots> \<longleftrightarrow> Heartbeat_Validate (\<lambda>t. dt (jc_time J t)) hb = None \<and> Heartbeat_filled hb"
    unfolding Heartbeat_valid_iff Heartbeat_filled_def filled_iff [of "\<lambda>e. EventInfo_Validate e = None"]
      filled_iff [of "\<lambda>ws. WorkloadStatus_Validate _ ws = None"]
    by (auto simp: validity)
  finally show ?thesis .
qed

lemma Metrics_conforms [conforming]:
  assumes "Metrics_wf m"
  shows "valid_schema dt metrics_schema (Metrics_json m) \<longleftrightarrow> allow_list_filled (mt_AllowList m)"
proof -
  have "ContainerMetrics_wf v" if "mt_Containers m = Some cs" "(k, v) \<in> set cs" for cs k v
    using assms that by (auto simp: Metrics_wf_def map_wf_def list_all_iff)
  with assms show ?thesis
    by (auto simp: allow_list_filled_iff metrics_schema_def Metrics_json_def Metrics_wf_def valid_member_def conforming)
qed

lemma DataConfiguration_conforms [conforming]:
  "valid_schema dt data_configuration_schema (DataConfiguration_json m) \<longleftrightarrow> mdc_Paths m \<noteq> None"
  by (cases "mdc_Paths m") (auto simp: data_configuration_schema_def DataConfiguration_json_def slice_json_def valid_member_def conforming)

definition Workload_wf :: "Workload \<Rightarrow> bool" where
  "Workload_wf m \<longleftrightarrow> pred_option Metrics_wf (wl_Metrics m)"

definition Workload_filled :: "Workload \<Rightarrow> bool" where
  "Workload_filled m \<longleftrightarrow> pred_option (\<lambda>d. mdc_Paths d \<noteq> None) (wl_Data m) \<and>
     pred_option (\<lambda>mt. allow_list_filled (mt_AllowList mt)) (wl_Metrics m)"

lemma Workload_conforms [conforming]:
  "Workload_wf m \<Longrightarrow> valid_schema dt workload_schema (Workload_json m) \<longleftrightarrow> Workload_filled m"
  by (cases "wl_Data m"; cases "wl_Metrics m") (auto simp: Workload_filled_def workload_schema_def Workload_json_def Workload_wf_def configmap_list_schema_def valid_member_def conforming)

lemma HeartbeatConfiguration_conforms [conforming]:
  "HeartbeatConfiguration_wf m \<Longrightarrow>
     valid_schema dt heartbeat_configuration_schema (HeartbeatConfiguration_json m) \<longleftrightarrow> HeartbeatConfiguration_Validate m = None"
  by (auto simp: heartbeat_configuration_schema_def HeartbeatConfiguration_json_def HeartbeatConfiguration_wf_def
      HeartbeatConfiguration_Validate_def HeartbeatConfiguration_validateHardwareProfile_def valid_member_def conforming validity)

lemma DeviceConfiguration_conforms:
  assumes "DeviceConfiguration_wf c"
  shows "valid_schema dt device_configuration_schema (DeviceConfiguration_json c) \<longleftrightarrow>
    (\<forall>h. dc_Heartbeat c = Some h \<longrightarrow> HeartbeatConfiguration_Validate h = None) \<and> pred_option metrics_filled (dc_Metrics c)"
proof -
  have logs: "LogsCollectionInformation_wf v" if "dc_LogCollection c = Some m" "(k, v) \<in> set m" for m k v
    using assms that by (auto simp: DeviceConfiguration_wf_def map_wf_def list_all_iff)
  have parts: "dc_Heartbeat c = Some h \<Longrightarrow> HeartbeatConfiguration_wf h" "dc_Metrics c = Some x \<Longrightarrow> MetricsConfiguration_wf x"
    "dc_Storage c = Some s \<Longrightarrow> StorageConfiguration_wf s" for h x s
    using assms by (simp_all add: DeviceConfiguration_wf_def)
  show ?thesis
    using logs parts
    by (cases "dc_Metrics c")
       (auto simp: device_configuration_schema_def DeviceConfiguration_json_def valid_member_def conforming)
qed

text \<open>No slice of the message that would be written as \<open>null\<close> is nil.\<close>

definition slices_set :: "DeviceConfigurationMessage \<Rightarrow> bool" where
  "slices_set m \<longleftrightarrow> pred_option (\<lambda>c. pred_option metrics_filled (dc_Metrics c)) (dcm_Configuration m) \<and>
     list_all Workload_filled (dcm_Workloads m)"

definition DeviceConfigurationMessage_wf :: "DeviceConfigurationMessage \<Rightarrow> bool" where
  "DeviceConfigurationMessage_wf m \<longleftrightarrow> pred_option DeviceConfiguration_wf (dcm_Configuration m) \<and>
     list_all Workload_wf (dcm_Workloads m) \<and> in_bits 64 (dcm_WorkloadsMonitoringInterval m)"

lemma DeviceConfigurationMessage_conforms:
  assumes "DeviceConfigurationMessage_wf m"
  shows "valid_schema dt device_configuration_message_schema (DeviceConfigurationMessage_json m) \<longleftrightarrow>
    (\<forall>c h. dcm_Configuration m = Some c \<longrightarrow> dc_Heartbeat c = Some h \<longrightarrow> HeartbeatConfiguration_Validate h = None) \<and>
    dcm_WorkloadsMonitoringInterval m \<ge> 0 \<and> slices_set m"
proof -
  have config: "dcm_Configuration m = Some c \<Longrightarrow> valid_schema dt device_configuration_schema (DeviceConfiguration_json c) \<longleftrightarrow>
      (\<forall>h. dc_Heartbeat c = Some h \<longrightarrow> HeartbeatConfiguration_Validate h = None) \<and> pred_option metrics_filled (dc_Metrics c)" for c
    using assms by (intro DeviceConfiguration_conforms) (simp add: DeviceConfigurationMessage_wf_def)
  have workloads: "x \<in> set (dcm_Workloads m) \<Longrightarrow> Workload_wf x" for x
    using assms by (simp add: DeviceConfigurationMessage_wf_def list_all_iff)
  have interval: "in_bits 64 (dcm_WorkloadsMonitoringInterval m)" using assms by (simp add: DeviceConfigurationMessage_wf_def)
  show ?thesis
    using config workloads interval
    by (cases "dcm_Configuration m") (auto simp: slices_set_def list_all_iff device_configuration_message_schema_def DeviceConfigurationMessage_json_def secret_list_schema_def
        workload_list_schema_def valid_member_def conforming)
qed

text \<open>The entries of the maps in a configuration message are not empty.\<close>

definition entries_filled :: "DeviceConfigurationMessage \<Rightarrow> bool" where
  "entries_filled m \<longleftrightarrow>
     pred_option (\<lambda>c. list_all (\<lambda>e. snd e \<noteq> zero_LogsCollectionInformation) (opt_list (dc_LogCollection c))) (dcm_Configuration m) \<and>
     list_all (\<lambda>wl. pred_option (\<lambda>mt. list_all (\<lambda>e. snd e \<noteq> zero_ContainerMetrics) (opt_list (mt_Containers mt))) (wl_Metrics wl))
       (dcm_Workloads m)"

lemma Workload_Validate_iff:
  assumes ord: "\<And>ks. set (ord ks) = set ks" and wf: "Workload_wf wl"
  shows "Workload_Validate ord wl = None \<longleftrightarrow>
    pred_option (\<lambda>mt. list_all (\<lambda>e. snd e \<noteq> zero_ContainerMetrics) (opt_list (mt_Containers mt))) (wl_Metrics wl)"
proof -
  have "Metrics_Validate ord m = None \<longleftrightarrow> list_all (\<lambda>e. snd e \<noteq> zero_ContainerMetrics) (opt_list (mt_Containers m))"
    if "wl_Metrics wl = Some m" for m
  proof -
    have "gm_wf (opt_list (mt_Containers m))"
      using wf that by (auto simp: Workload_wf_def Metrics_wf_def map_wf_def opt_list_def gm_wf_def split: option.splits)
    from Metrics_valid_iff [OF ord this] show ?thesis by (simp add: list_all_iff)
  qed
  then show ?thesis by (cases "wl_Metrics wl") (simp_all add: Workload_Validate_metrics)
qed

lemma DeviceConfigurationMessage_Validate_iff:
  assumes ord: "\<And>ks. set (ord ks) = set ks" and wf: "DeviceConfigurationMessage_wf m"
  shows "DeviceConfigurationMessage_Validate ord m = None \<and> slices_set m \<longleftrightarrow>
    valid_schema dt device_configuration_message_schema (DeviceConfigurationMessage_json m) \<and> entries_filled m"
proof -
  have config: "DeviceConfiguration_Validate ord c = None \<longleftrightarrow>
      (\<forall>h. dc_Heartbeat c = Some h \<longrightarrow> HeartbeatConfiguration_Validate h = None) \<and>
      list_all (\<lambda>e. snd e \<noteq> zero_LogsCollectionInformation) (opt_list (dc_LogCollection c))"
    if "dcm_Configuration m = Some c" for c
  proof -
    have "gm_wf l" if "dc_LogCollection c = Some l" for l
      using wf \<open>dcm_Configuration m = Some c\<close> that
      by (simp add: DeviceConfigurationMessage_wf_def DeviceConfiguration_wf_def map_wf_def)
    from DeviceConfiguration_valid_iff [of ord c, OF ord this] show ?thesis
      by (cases "dc_LogCollection c") (auto simp: opt_list_def list_all_iff)
  qed
  have workloads: "Workload_Validate ord wl = None \<longleftrightarrow>
      pred_option (\<lambda>mt. list_all (\<lambda>e. snd e \<noteq> zero_ContainerMetrics) (opt_list (mt_Containers mt))) (wl_Metrics wl)"
    if "wl \<in> set (dcm_Workloads m)" for wl
    using wf that by (intro Workload_Validate_iff [OF ord]) (simp add: DeviceConfigurationMessage_wf_def list_all_iff)
  have "DeviceConfigurationMessage_Validate ord m = None \<longleftrightarrow>
      (\<forall>c. dcm_Configuration m = Some c \<longrightarrow> DeviceConfiguration_Validate ord c = None) \<and>
      (\<forall>wl\<in>set (dcm_Workloads m). Workload_Validate ord wl = None) \<and> dcm_WorkloadsMonitoringInterval m \<ge> 0"
    by (rule DeviceConfigurationMessage_Validate_parts)
  also have "\<dots> \<longleftrightarrow> (\<forall>c h. dcm_Configuration m = Some c \<longrightarrow> dc_Heartbeat c = Some h \<longrightarrow> HeartbeatConfiguration_Validate h = None) \<and>
      dcm_WorkloadsMonitoringInterval m \<ge> 0 \<and> entries_filled m"
    using config workloads unfolding entries_filled_def list_all_iff [of _ "dcm_Workloads m"]
    by (cases "dcm_Configuration m") auto
  finally show ?thesis unfolding DeviceConfigurationMessage_conforms [OF wf] by blast
qed

section \<open>Properties\<close>

fun operation_id :: "operation \<Rightarrow> string" where
  "operation_id GetControlMessageForDeviceOp = ''GetControlMessageForDevice''"
| "operation_id GetDataMessageForDeviceOp = ''GetDataMessageForDevice''"
| "operation_id PostControlMessageForDeviceOp = ''PostControlMessageForDevice''"
| "operation_id PostDataMessageForDeviceOp = ''PostDataMessageForDevice''"

lemma lower_methods: "strings_ToUpper up ''get'' = ''GET''" "strings_ToUpper up ''post'' = ''POST''"
  by (simp_all add: strings_ToUpper_def encode_rune_def char_of_def bit_0)

fun documented :: "operation \<Rightarrow> swagger_operation" where
  "documented GetControlMessageForDeviceOp = get_control_operation"
| "documented GetDataMessageForDeviceOp = get_data_operation"
| "documented PostControlMessageForDeviceOp = post_control_operation"
| "documented PostDataMessageForDeviceOp = post_data_operation"

definition declared :: "operation \<Rightarrow> ResponseWriter \<Rightarrow> bool" where
  "declared op rw \<longleftrightarrow> (\<exists>c\<in>set (map fst (so_Responses (documented op))). rw_Code rw = Some c)"

lemmas writer_defs = write_empty_def write_payload_def WriteHeader_def

lemma written_declared:
  assumes "rw_Code rw = None"
  shows "GetControlMessageForDevice_WriteResponse produce x1 rw = Done rw' \<Longrightarrow> declared GetControlMessageForDeviceOp rw'"
    and "GetDataMessageForDevice_WriteResponse produce x2 rw = Done rw' \<Longrightarrow> declared GetDataMessageForDeviceOp rw'"
    and "PostControlMessageForDevice_WriteResponse x3 rw = Done rw' \<Longrightarrow> declared PostControlMessageForDeviceOp rw'"
    and "PostDataMessageForDevice_WriteResponse produceR x4 rw = Done rw' \<Longrightarrow> declared PostDataMessageForDeviceOp rw'"
  subgoal using assms by (cases x1) (auto simp: declared_def get_control_operation_def writer_defs split: option.splits sum.splits)
  subgoal using assms by (cases x2) (auto simp: declared_def get_data_operation_def writer_defs split: option.splits sum.splits)
  subgoal using assms by (cases x3) (auto simp: declared_def post_control_operation_def writer_defs)
  subgoal using assms by (cases x4) (auto simp: declared_def post_data_operation_def writer_defs split: option.splits sum.splits)
  done

text \<open>The runtime refuses a request before its handler: for its content types, or since its body is no message.\<close>

definition refused :: "operation \<Rightarrow> runtime \<Rightarrow> Request \<Rightarrow> bool" where
  "refused op rt r \<longleftrightarrow> rt_negotiate rt r \<noteq> [] \<or>
     op \<in> {PostControlMessageForDeviceOp, PostDataMessageForDeviceOp} \<and> (\<nexists>m. post_accepted rt r m)"

lemma get_status:
  assumes "op \<in> {GetControlMessageForDeviceOp, GetDataMessageForDeviceOp}"
    and run: "run_state (operation_ServeHTTP op rt E h ids r fresh_writer) w = (Done rw, w')"
  shows "if refused op rt r then w' = w \<and> (\<exists>c\<in>{400, 406, 415, 422, 500}. rw_Code rw = Some c) else declared op rw"
proof (cases "rt_negotiate rt r = []")
  case True
  let ?rw = "fresh_writer\<lparr>rw_ContentType := Some (rt_format rt r)\<rparr>"
  have fresh: "rw_Code ?rw = None" by (simp add: fresh_writer_def)
  have "declared op rw"
    using assms True
    by (auto simp: GetControlMessageForDevice_ServeHTTP_def GetDataMessageForDevice_ServeHTTP_def BindValidRequest_def
        Get_BindRequest_def Respond_def split: prod.splits outcome.splits intro: written_declared [OF fresh])
  with True assms(1) show ?thesis by (auto simp: refused_def)
next
  case False
  let ?err = "CompositeValidationError (rt_negotiate rt r)"
  have "w' = w" "Respond rt r fresh_writer (ServeError rt r ?err) = Done rw"
    using assms False
    by (auto simp: GetControlMessageForDevice_ServeHTTP_def GetDataMessageForDevice_ServeHTTP_def BindValidRequest_def)
  moreover have "refusal ?err (Respond rt r fresh_writer (ServeError rt r ?err))"
    by (rule ServeError_refusal) (simp add: fresh_writer_def)
  ultimately show ?thesis using False error_status_in [of ?err] by (auto simp: refused_def refusal_def simp del: error_status.simps)
qed

lemma post_status:
  assumes "op \<in> {PostControlMessageForDeviceOp, PostDataMessageForDeviceOp}"
    and run: "run_state (operation_ServeHTTP op rt E h ids r fresh_writer) w = (Done rw, w')"
  shows "if refused op rt r then w' = w \<and> (\<exists>c\<in>{400, 406, 415, 422, 500}. rw_Code rw = Some c) else declared op rw"
proof (cases "post_bound rt r ids")
  case (Inl err)
  have "w' = w" "Respond rt r fresh_writer (ServeError rt r err) = Done rw"
    using assms Inl
    by (auto simp: post_bound_def PostControlMessageForDevice_ServeHTTP_def PostDataMessageForDevice_ServeHTTP_def)
  moreover have "refusal err (Respond rt r fresh_writer (ServeError rt r err))"
    by (rule ServeError_refusal) (simp add: fresh_writer_def)
  moreover have "refused op rt r" using Inl post_bound_Inr [of rt r ids] assms(1) by (force simp: refused_def)
  ultimately show ?thesis using error_status_in [of err] by (auto simp: refusal_def)
next
  case (Inr p)
  let ?rw = "fresh_writer\<lparr>rw_ContentType := Some (rt_format rt r)\<rparr>"
  have fresh: "rw_Code ?rw = None" by (simp add: fresh_writer_def)
  have "declared op rw"
    using assms Inr
    by (auto simp: post_bound_def PostControlMessageForDevice_ServeHTTP_def PostDataMessageForDevice_ServeHTTP_def
        Respond_def split: prod.splits outcome.splits intro: written_declared [OF fresh])
  moreover have "\<not> refused op rt r"
    using Inr by (auto simp: post_bound_Inr refused_def post_accepted_def)
  ultimately show ?thesis by simp
qed

text \<open>C15: the server implements the API it describes: a method and a path lead to an operation exactly when
  the embedded description has that operation there; the URL builders use the base path of the description
  unless they are given another; and when an operation answers a request, the status is one the description
  declares for it, unless the request was refused before the handler, for its content types or since its
  body is no message: then nothing changes and the status is one of 400, 406, 415, 422 and 500, of which the
  description declares none but 500, and 400 for posted data.\<close>

theorem api_as_documented:
  "(route mth path = Some op \<longleftrightarrow>
      (mth, path, operation_id op) \<in> set (map (\<lambda>o'. (strings_ToUpper up (so_Method o'), so_Path o', so_ID o')) swagger_paths)) \<and>
   build_operation op u =
     build_operation op (u\<lparr>du_basePath := if du_basePath u = [] then swagger_basePath else du_basePath u\<rparr>) \<and>
   documented op \<in> set swagger_paths \<and> so_ID (documented op) = operation_id op \<and>
   (case run_state (operation_ServeHTTP op rt E h ids r fresh_writer) w of
      (Panic _, _) \<Rightarrow> True
    | (Done rw, w') \<Rightarrow>
        if refused op rt r then w' = w \<and> (\<exists>c\<in>{400, 406, 415, 422, 500}. rw_Code rw = Some c) else declared op rw)"
proof (intro conjI)
  show "route mth path = Some op \<longleftrightarrow>
      (mth, path, operation_id op) \<in> set (map (\<lambda>o'. (strings_ToUpper up (so_Method o'), so_Path o', so_ID o')) swagger_paths)"
    unfolding route_iff
    by (cases op) (auto simp: swagger_paths_def get_control_operation_def post_control_operation_def get_data_operation_def
        post_data_operation_def lower_methods)
  show "build_operation op u =
      build_operation op (u\<lparr>du_basePath := if du_basePath u = [] then swagger_basePath else du_basePath u\<rparr>)"
    by (cases op) (simp_all add: GetControlMessageForDeviceURL_Build_def GetDataMessageForDeviceURL_Build_def
        PostControlMessageForDeviceURL_Build_def PostDataMessageForDeviceURL_Build_def build_url_def Let_def swagger_basePath_def)
  show "documented op \<in> set swagger_paths" by (cases op) (simp_all add: swagger_paths_def)
  show "so_ID (documented op) = operation_id op"
    by (cases op) (simp_all add: get_control_operation_def post_control_operation_def get_data_operation_def post_data_operation_def)
  have answered: "if refused op rt r then w' = w \<and> (\<exists>c\<in>{400, 406, 415, 422, 500}. rw_Code rw = Some c) else declared op rw"
    if "run_state (operation_ServeHTTP op rt E h ids r fresh_writer) w = (Done rw, w')" for rw w'
    using get_status [OF _ that] post_status [OF _ that] by (cases op) blast+
  obtain x w' where run: "run_state (operation_ServeHTTP op rt E h ids r fresh_writer) w = (x, w')" by (metis surj_pair)
  show "case run_state (operation_ServeHTTP op rt E h ids r fresh_writer) w of
      (Panic _, _) \<Rightarrow> True
    | (Done rw, w') \<Rightarrow>
        if refused op rt r then w' = w \<and> (\<exists>c\<in>{400, 406, 415, 422, 500}. rw_Code rw = Some c) else declared op rw"
    unfolding run using answered [of _ w'] run by (cases x) simp_all
qed

text \<open>Messages for the witnesses.\<close>

definition sample_report :: "string \<Rightarrow> Heartbeat" where
  "sample_report status = \<lparr>hb_Events = Some [], hb_Hardware = None, hb_Status = status, hb_Upgrade = None, hb_Version = ''7'',
     hb_Workloads = Some [Some \<lparr>ws_LastDataUpload = zero_time, ws_Name = ''app'', ws_Status = ''running''\<rparr>]\<rparr>"

definition sample_configuration :: "LogsCollectionInformation \<Rightarrow> DeviceConfigurationMessage" where
  "sample_configuration target = \<lparr>dcm_Configuration = Some \<lparr>dc_Heartbeat = None, dc_LogCollection = Some [(''syslog'', target)],
       dc_Metrics = None, dc_Os = None, dc_Storage = None\<rparr>, dcm_DeviceID = ''d1'', dcm_Secrets = [], dcm_Version = ''1'',
     dcm_Workloads = [], dcm_WorkloadsMonitoringInterval = 0\<rparr>"

end
