(* ===== verification/Swagger_Flat.thy ===== *)
theory Swagger_Flat
  imports Swagger_Spec
begin

text \<open>
  The flattened description of the API (\<open>FlatSwaggerJSON\<close> of \<open>restapi/embedded_spec.go\<close>) as the JSON document it is,
  with its references, and a reader that resolves them. The flattened document and the one the server
  loads, whose schemas are the constants of \<open>Swagger_Spec\<close>, describe the same operations and messages; the
  generated \<open>Validate\<close> functions therefore check what the document says. Titles, descriptions and tags
  are left out of the document.
\<close>

section \<open>The document\<close>

definition flat_LogsCollectionInformationSyslogConfig :: json where
  "flat_LogsCollectionInformationSyslogConfig =
     JObject [(''type'', JString ''object''), (''properties'', JObject [(''address'', JObject [(''type'',
     JString ''string'')]), (''protocol'', JObject [(''type'', JString ''string'')])])]"

definition flat_boot :: json where
  "flat_boot =
     JObject [(''type'', JString ''object''), (''properties'', JObject [(''current_boot_mode'', JObject [(''type'',
     JString ''string'')]), (''pxe_interface'', JObject [(''type'', JString ''string'')])])]"

definition flat_configmap_list :: json where
  "flat_configmap_list =
     JObject [(''type'', JString ''array''), (''items'', JObject [(''type'', JString ''string'')])]"

definition flat_container_metrics :: json where
  "flat_container_metrics =
     JObject [(''type'', JString ''object''), (''properties'', JObject [(''disabled'', JObject [(''type'',
     JString ''boolean'')]), (''path'', JObject [(''type'', JString ''string'')]), (''port'', JObject [(''type'',
     JString ''integer''), (''format'', JString ''int32'')])])]"

definition flat_cpu :: json where
  "flat_cpu =
     JObject [(''type'', JString ''object''), (''properties'', JObject [(''architecture'', JObject [(''type'',
     JString ''string'')]), (''count'', JObject [(''type'', JString ''integer'')]), (''flags'', JObject [(''type'',
     JString ''array''), (''items'', JObject [(''type'', JString ''string'')])]), (''frequency'', JObject [(''type'',
     JString ''number'')]), (''model_name'', JObject [(''type'', JString ''string'')])])]"

definition flat_data_configuration :: json where
  "flat_data_configuration =
     JObject [(''type'', JString ''object''), (''properties'', JObject [(''paths'', JObject [(''type'',
     JString ''array''), (''items'', JObject [(''$ref'', JString ''#/definitions/data-path'')])])])]"

definition flat_data_path :: json where
  "flat_data_path =
     JObject [(''type'', JString ''object''), (''properties'', JObject [(''source'', JObject [(''type'',
     JString ''string'')]), (''target'', JObject [(''type'', JString ''string'')])])]"

definition flat_device_configuration :: json where
  "flat_device_configuration =
     JObject [(''type'', JString ''object''), (''properties'', JObject [(''heartbeat'', JObject [(''$ref'',
     JString ''#/definitions/heartbeat-configuration'')]), (''log-collection'', JObject [(''type'',
     JString ''object''), (''additionalProperties'', JObject [(''$ref'',
     JString ''#/definitions/logs-collection-information'')])]), (''metrics'', JObject [(''$ref'',
     JString ''#/definitions/metrics-configuration'')]), (''os'', JObject [(''$ref'',
     JString ''#/definitions/os-information'')]), (''storage'', JObject [(''$ref'',
     JString ''#/definitions/storage-configuration'')])])]"

definition flat_device_configuration_message :: json where
  "flat_device_configuration_message =
     JObject [(''type'', JString ''object''), (''properties'', JObject [(''configuration'', JObject [(''$ref'',
     JString ''#/definitions/device-configuration'')]), (''device_id'', JObject [(''type'', JString ''string'')]),
     (''secrets'', JObject [(''$ref'', JString ''#/definitions/secret-list'')]), (''version'', JObject [(''type'',
     JString ''string'')]), (''workloads'', JObject [(''$ref'', JString ''#/definitions/workload-list'')]),
     (''workloads_monitoring_interval'', JObject [(''type'', JString ''integer''), (''minimum'', JNumber ''0''),
     (''exclusiveMinimum'', JBool True)])])]"

definition flat_disk :: json where
  "flat_disk =
     JObject [(''type'', JString ''object''), (''properties'', JObject [(''bootable'', JObject [(''type'',
     JString ''boolean'')]), (''by_id'', JObject [(''type'', JString ''string'')]), (''by_path'', JObject [(''type'',
     JString ''string'')]), (''drive_type'', JObject [(''type'', JString ''string'')]), (''hctl'',
     JObject [(''type'', JString ''string'')]), (''id'', JObject [(''type'', JString ''string'')]), (''io_perf'',
     JObject [(''$ref'', JString ''#/definitions/io_perf'')]), (''is_installation_media'', JObject [(''type'',
     JString ''boolean'')]), (''model'', JObject [(''type'', JString ''string'')]), (''name'', JObject [(''type'',
     JString ''string'')]), (''path'', JObject [(''type'', JString ''string'')]), (''serial'', JObject [(''type'',
     JString ''string'')]), (''size_bytes'', JObject [(''type'', JString ''integer'')]), (''smart'',
     JObject [(''type'', JString ''string'')]), (''vendor'', JObject [(''type'', JString ''string'')]), (''wwn'',
     JObject [(''type'', JString ''string'')])])]"

definition flat_event_info :: json where
  "flat_event_info =
     JObject [(''type'', JString ''object''), (''properties'', JObject [(''message'', JObject [(''type'',
     JString ''string'')]), (''reason'', JObject [(''type'', JString ''string'')]), (''type'', JObject [(''type'',
     JString ''string''), (''enum'', JArray [JString ''info'', JString ''warn''])])])]"

definition flat_gpu :: json where
  "flat_gpu =
     JObject [(''type'', JString ''object''), (''properties'', JObject [(''address'', JObject [(''type'',
     JString ''string'')]), (''device_id'', JObject [(''type'', JString ''string'')]), (''name'', JObject [(''type'',
     JString ''string'')]), (''vendor'', JObject [(''type'', JString ''string'')]), (''vendor_id'',
     JObject [(''type'', JString ''string'')])])]"

definition flat_hardware_info :: json where
  "flat_hardware_info =
     JObject [(''type'', JString ''object''), (''properties'', JObject [(''boot'', JObject [(''$ref'',
     JString ''#/definitions/boot'')]), (''cpu'', JObject [(''$ref'', JString ''#/definitions/cpu'')]), (''disks'',
     JObject [(''type'', JString ''array''), (''items'', JObject [(''$ref'', JString ''#/definitions/disk'')])]),
     (''gpus'', JObject [(''type'', JString ''array''), (''items'', JObject [(''$ref'',
     JString ''#/definitions/gpu'')])]), (''hostname'', JObject [(''type'', JString ''string'')]), (''interfaces'',
     JObject [(''type'', JString ''array''), (''items'', JObject [(''$ref'',
     JString ''#/definitions/interface'')])]), (''memory'', JObject [(''$ref'', JString ''#/definitions/memory'')]),
     (''system_vendor'', JObject [(''$ref'', JString ''#/definitions/system_vendor'')])])]"

definition flat_hardware_profile_configuration :: json where
  "flat_hardware_profile_configuration =
     JObject [(''type'', JString ''object''), (''properties'', JObject [(''include'', JObject [(''type'',
     JString ''boolean'')]), (''scope'', JObject [(''type'', JString ''string''), (''enum'',
     JArray [JString ''full'', JString ''delta''])])])]"

definition flat_heartbeat :: json where
  "flat_heartbeat =
     JObject [(''type'', JString ''object''), (''properties'', JObject [(''events'', JObject [(''type'',
     JString ''array''), (''items'', JObject [(''$ref'', JString ''#/definitions/event-info'')])]), (''hardware'',
     JObject [(''$ref'', JString ''#/definitions/hardware-info'')]), (''status'', JObject [(''type'',
     JString ''string''), (''enum'', JArray [JString ''up'', JString ''degraded''])]), (''upgrade'',
     JObject [(''$ref'', JString ''#/definitions/upgrade-status'')]), (''version'', JObject [(''type'',
     JString ''string'')]), (''workloads'', JObject [(''type'', JString ''array''), (''items'', JObject [(''$ref'',
     JString ''#/definitions/workload-status'')])])])]"

definition flat_heartbeat_configuration :: json where
  "flat_heartbeat_configuration =
     JObject [(''type'', JString ''object''), (''properties'', JObject [(''hardware_profile'', JObject [(''$ref'',
     JString ''#/definitions/hardware-profile-configuration'')]), (''period_seconds'', JObject [(''type'',
     JString ''integer'')])])]"

definition flat_image_registries :: json where
  "flat_image_registries =
     JObject [(''type'', JString ''object''), (''properties'', JObject [(''authFile'', JObject [(''type'',
     JString ''string'')])])]"

definition flat_interface :: json where
  "flat_interface =
     JObject [(''type'', JString ''object''), (''properties'', JObject [(''biosdevname'', JObject [(''type'',
     JString ''string'')]), (''client_id'', JObject [(''type'', JString ''string'')]), (''flags'',
     JObject [(''type'', JString ''array''), (''items'', JObject [(''type'', JString ''string'')])]),
     (''has_carrier'', JObject [(''type'', JString ''boolean'')]), (''ipv4_addresses'', JObject [(''type'',
     JString ''array''), (''items'', JObject [(''type'', JString ''string'')])]), (''ipv6_addresses'',
     JObject [(''type'', JString ''array''), (''items'', JObject [(''type'', JString ''string'')])]),
     (''mac_address'', JObject [(''type'', JString ''string'')]), (''mtu'', JObject [(''type'',
     JString ''integer'')]), (''name'', JObject [(''type'', JString ''string'')]), (''product'', JObject [(''type'',
     JString ''string'')]), (''speed_mbps'', JObject [(''type'', JString ''integer'')]), (''vendor'',
     JObject [(''type'', JString ''string'')])])]"

definition flat_io_perf :: json where
  "flat_io_perf =
     JObject [(''type'', JString ''object''), (''properties'', JObject [(''sync_duration'', JObject [(''type'',
     JString ''integer'')])])]"

definition flat_logs_collection_information :: json where
  "flat_logs_collection_information =
     JObject [(''type'', JString ''object''), (''properties'', JObject [(''buffer_size'', JObject [(''type'',
     JString ''integer''), (''format'', JString ''int32'')]), (''kind'', JObject [(''type'', JString ''string'')]),
     (''syslog_config'', JObject [(''type'', JString ''object''), (''properties'', JObject [(''address'',
     JObject [(''type'', JString ''string'')]), (''protocol'', JObject [(''type'', JString ''string'')])])])])]"

definition flat_memory :: json where
  "flat_memory =
     JObject [(''type'', JString ''object''), (''properties'', JObject [(''physical_bytes'', JObject [(''type'',
     JString ''integer'')]), (''usable_bytes'', JObject [(''type'', JString ''integer'')])])]"

definition flat_message :: json where
  "flat_message =
     JObject [(''type'', JString ''object''), (''properties'', JObject [(''content'', JObject []), (''directive'',
     JObject [(''type'', JString ''string'')]), (''message_id'', JObject [(''type'', JString ''string'')]),
     (''metadata'', JObject [(''type'', JString ''object'')]), (''response_to'', JObject [(''type'',
     JString ''string'')]), (''sent'', JObject [(''type'', JString ''string''), (''format'',
     JString ''date-time'')]), (''type'', JObject [(''type'', JString ''string''), (''enum'',
     JArray [JString ''connection-status'', JString ''command'', JString ''event'', JString ''data''])]),
     (''version'', JObject [(''type'', JString ''integer'')])])]"

definition flat_message_response :: json where
  "flat_message_response =
     JObject [(''type'', JString ''object''), (''properties'', JObject [(''content'', JObject []), (''directive'',
     JObject [(''type'', JString ''string'')]), (''message_id'', JObject [(''type'', JString ''string'')])])]"

definition flat_metrics :: json where
  "flat_metrics =
     JObject [(''type'', JString ''object''), (''properties'', JObject [(''allow_list'', JObject [(''$ref'',
     JString ''#/definitions/metrics-allow-list'')]), (''containers'', JObject [(''type'', JString ''object''),
     (''additionalProperties'', JObject [(''$ref'', JString ''#/definitions/container-metrics'')])]), (''interval'',
     JObject [(''type'', JString ''integer''), (''format'', JString ''int32'')]), (''path'', JObject [(''type'',
     JString ''string'')]), (''port'', JObject [(''type'', JString ''integer''), (''format'', JString ''int32'')])])]"

definition flat_metrics_allow_list :: json where
  "flat_metrics_allow_list =
     JObject [(''type'', JString ''object''), (''properties'', JObject [(''names'', JObject [(''type'',
     JString ''array''), (''items'', JObject [(''type'', JString ''string'')])])])]"

definition flat_metrics_configuration :: json where
  "flat_metrics_configuration =
     JObject [(''type'', JString ''object''), (''properties'', JObject [(''retention'', JObject [(''$ref'',
     JString ''#/definitions/metrics-retention'')]), (''system'', JObject [(''$ref'',
     JString ''#/definitions/system-metrics-configuration'')])])]"

definition flat_metrics_retention :: json where
  "flat_metrics_retention =
     JObject [(''type'', JString ''object''), (''properties'', JObject [(''max_hours'', JObject [(''type'',
     JString ''integer''), (''format'', JString ''int32'')]), (''max_mib'', JObject [(''type'', JString ''integer''),
     (''format'', JString ''int32'')])])]"

definition flat_os_information :: json where
  "flat_os_information =
     JObject [(''type'', JString ''object''), (''properties'', JObject [(''automatically_upgrade'', JObject [(''type'',
     JString ''boolean'')]), (''commit_id'', JObject [(''type'', JString ''string'')]), (''hosted_objects_url'',
     JObject [(''type'', JString ''string'')])])]"

definition flat_registration_info :: json where
  "flat_registration_info =
     JObject [(''type'', JString ''object''), (''properties'', JObject [(''certificate_request'', JObject [(''type'',
     JString ''string'')]), (''hardware'', JObject [(''$ref'', JString ''#/definitions/hardware-info'')])])]"

definition flat_registration_response :: json where
  "flat_registration_response =
     JObject [(''type'', JString ''object''), (''properties'', JObject [(''certificate'', JObject [(''type'',
     JString ''string'')])])]"

definition flat_s3_storage_configuration :: json where
  "flat_s3_storage_configuration =
     JObject [(''type'', JString ''object''), (''properties'', JObject [(''aws_access_key_id'', JObject [(''type'',
     JString ''string'')]), (''aws_ca_bundle'', JObject [(''type'', JString ''string'')]),
     (''aws_secret_access_key'', JObject [(''type'', JString ''string'')]), (''bucket_host'', JObject [(''type'',
     JString ''string'')]), (''bucket_name'', JObject [(''type'', JString ''string'')]), (''bucket_port'',
     JObject [(''type'', JString ''integer''), (''format'', JString ''int32'')]), (''bucket_region'',
     JObject [(''type'', JString ''string'')])])]"

definition flat_secret :: json where
  "flat_secret =
     JObject [(''type'', JString ''object''), (''properties'', JObject [(''data'', JObject [(''type'',
     JString ''string'')]), (''name'', JObject [(''type'', JString ''string'')])])]"

definition flat_secret_list :: json where
  "flat_secret_list =
     JObject [(''type'', JString ''array''), (''items'', JObject [(''$ref'', JString ''#/definitions/secret'')])]"

definition flat_storage_configuration :: json where
  "flat_storage_configuration =
     JObject [(''type'', JString ''object''), (''properties'', JObject [(''s3'', JObject [(''$ref'',
     JString ''#/definitions/s3-storage-configuration'')])])]"

definition flat_system_metrics_configuration :: json where
  "flat_system_metrics_configuration =
     JObject [(''type'', JString ''object''), (''properties'', JObject [(''allow_list'', JObject [(''$ref'',
     JString ''#/definitions/metrics-allow-list'')]), (''disabled'', JObject [(''type'', JString ''boolean'')]),
     (''interval'', JObject [(''type'', JString ''integer''), (''format'', JString ''int32'')])])]"

definition flat_system_vendor :: json where
  "flat_system_vendor =
     JObject [(''type'', JString ''object''), (''properties'', JObject [(''manufacturer'', JObject [(''type'',
     JString ''string'')]), (''product_name'', JObject [(''type'', JString ''string'')]), (''serial_number'',
     JObject [(''type'', JString ''string'')]), (''virtual'', JObject [(''type'', JString ''boolean'')])])]"

definition flat_upgrade_status :: json where
  "flat_upgrade_status =
     JObject [(''type'', JString ''object''), (''properties'', JObject [(''current_commit_ID'', JObject [(''type'',
     JString ''string'')]), (''last_upgrade_status'', JObject [(''type'', JString ''string''), (''enum'',
     JArray [JString ''succeeded'', JString ''failed''])]), (''last_upgrade_time'', JObject [(''type'',
     JString ''string'')])])]"

definition flat_workload :: json where
  "flat_workload =
     JObject [(''type'', JString ''object''), (''properties'', JObject [(''configmaps'', JObject [(''$ref'',
     JString ''#/definitions/configmap-list'')]), (''data'', JObject [(''$ref'',
     JString ''#/definitions/data-configuration'')]), (''imageRegistries'', JObject [(''$ref'',
     JString ''#/definitions/image-registries'')]), (''log_collection'', JObject [(''type'', JString ''string'')]),
     (''metrics'', JObject [(''$ref'', JString ''#/definitions/metrics'')]), (''name'', JObject [(''type'',
     JString ''string'')]), (''specification'', JObject [(''type'', JString ''string'')])])]"

definition flat_workload_list :: json where
  "flat_workload_list =
     JObject [(''type'', JString ''array''), (''items'', JObject [(''$ref'', JString ''#/definitions/workload'')])]"

definition flat_workload_status :: json where
  "flat_workload_status =
     JObject [(''type'', JString ''object''), (''properties'', JObject [(''last_data_upload'', JObject [(''type'',
     JString ''string''), (''format'', JString ''date-time'')]), (''name'', JObject [(''type'',
     JString ''string'')]), (''status'', JObject [(''type'', JString ''string''), (''enum'',
     JArray [JString ''deploying'', JString ''running'', JString ''crashed'', JString ''stopped''])])])]"

definition flat_definitions :: "(string \<times> json) list" where
  "flat_definitions = [
     (''LogsCollectionInformationSyslogConfig'', flat_LogsCollectionInformationSyslogConfig), (''boot'', flat_boot),
     (''configmap-list'', flat_configmap_list), (''container-metrics'', flat_container_metrics), (''cpu'', flat_cpu),
     (''data-configuration'', flat_data_configuration), (''data-path'', flat_data_path),
     (''device-configuration'', flat_device_configuration),
     (''device-configuration-message'', flat_device_configuration_message), (''disk'', flat_disk),
     (''event-info'', flat_event_info), (''gpu'', flat_gpu), (''hardware-info'', flat_hardware_info),
     (''hardware-profile-configuration'', flat_hardware_profile_configuration), (''heartbeat'', flat_heartbeat),
     (''heartbeat-configuration'', flat_heartbeat_configuration), (''image-registries'', flat_image_registries),
     (''interface'', flat_interface), (''io_perf'', flat_io_perf),
     (''logs-collection-information'', flat_logs_collection_information), (''memory'', flat_memory),
     (''message'', flat_message), (''message-response'', flat_message_response), (''metrics'', flat_metrics),
     (''metrics-allow-list'', flat_metrics_allow_list), (''metrics-configuration'', flat_metrics_configuration),
     (''metrics-retention'', flat_metrics_retention), (''os-information'', flat_os_information),
     (''registration-info'', flat_registration_info), (''registration-response'', flat_registration_response),
     (''s3-storage-configuration'', flat_s3_storage_configuration), (''secret'', flat_secret),
     (''secret-list'', flat_secret_list), (''storage-configuration'', flat_storage_configuration),
     (''system-metrics-configuration'', flat_system_metrics_configuration), (''system_vendor'', flat_system_vendor),
     (''upgrade-status'', flat_upgrade_status), (''workload'', flat_workload),
     (''workload-list'', flat_workload_list), (''workload-status'', flat_workload_status)]"

definition flat_control_in :: json where
  "flat_control_in =
     JObject [(''get'', JObject [(''operationId'', JString ''GetControlMessageForDevice''), (''parameters'',
     JArray [JObject [(''type'', JString ''string''), (''name'', JString ''device_id''), (''in'', JString ''path''),
     (''required'', JBool True)]]), (''responses'', JObject [(''200'', JObject [(''schema'', JObject [(''$ref'',
     JString ''#/definitions/message'')])]), (''401'', JObject []), (''403'', JObject []), (''404'', JObject []),
     (''500'', JObject [])])])]"

definition flat_control_out :: json where
  "flat_control_out =
     JObject [(''post'', JObject [(''operationId'', JString ''PostControlMessageForDevice''), (''parameters'',
     JArray [JObject [(''type'', JString ''string''), (''name'', JString ''device_id''), (''in'', JString ''path''),
     (''required'', JBool True)], JObject [(''name'', JString ''message''), (''in'', JString ''body''),
     (''required'', JBool True), (''schema'', JObject [(''$ref'', JString ''#/definitions/message'')])]]),
     (''responses'', JObject [(''200'', JObject []), (''401'', JObject []), (''403'', JObject []), (''404'',
     JObject []), (''500'', JObject [])])])]"

definition flat_data_in :: json where
  "flat_data_in =
     JObject [(''get'', JObject [(''operationId'', JString ''GetDataMessageForDevice''), (''parameters'',
     JArray [JObject [(''type'', JString ''string''), (''name'', JString ''device_id''), (''in'', JString ''path''),
     (''required'', JBool True)]]), (''responses'', JObject [(''200'', JObject [(''schema'', JObject [(''$ref'',
     JString ''#/definitions/message'')])]), (''401'', JObject []), (''403'', JObject []), (''404'', JObject []),
     (''500'', JObject [])])])]"

definition flat_data_out :: json where
  "flat_data_out =
     JObject [(''post'', JObject [(''operationId'', JString ''PostDataMessageForDevice''), (''parameters'',
     JArray [JObject [(''type'', JString ''string''), (''name'', JString ''device_id''), (''in'', JString ''path''),
     (''required'', JBool True)], JObject [(''name'', JString ''message''), (''in'', JString ''body''),
     (''required'', JBool True), (''schema'', JObject [(''$ref'', JString ''#/definitions/message'')])]]),
     (''responses'', JObject [(''200'', JObject [(''schema'', JObject [(''$ref'',
     JString ''#/definitions/message-response'')])]), (''400'', JObject []), (''401'', JObject []), (''403'',
     JObject []), (''404'', JObject []), (''500'', JObject [])])])]"

definition flat_paths :: "(string \<times> json) list" where
  "flat_paths = [(''/control/{device_id}/in'', flat_control_in), (''/control/{device_id}/out'', flat_control_out), (''/data/{device_id}/in'', flat_data_in), (''/data/{device_id}/out'', flat_data_out)]"

definition FlatSwaggerJSON :: json where
  "FlatSwaggerJSON = JObject [
     (''consumes'', JArray [JString ''application/json'']), (''produces'', JArray [JString ''application/json'']),
     (''schemes'', JArray [JString ''http'', JString ''https'']), (''swagger'', JString ''2.0''), (''basePath'',
     JString ''/api/flotta-management/v1''), (''paths'', JObject flat_paths), (''definitions'',
     JObject flat_definitions), (''securityDefinitions'', JObject [(''agentAuth'', JObject [(''type'',
     JString ''apiKey''), (''name'', JString ''X-Secret-Key''), (''in'', JString ''header'')])])]"

section \<open>Reading a document\<close>

text \<open>A schema of the document. References are followed, at most as often as the first argument allows; \<open>None\<close> is a
  reference to nothing or a keyword outside the subset that the document uses.\<close>

definition ref_name :: "string \<Rightarrow> string option" where
  "ref_name r = (if take 14 r = ''#/definitions/'' then Some (drop 14 r) else None)"

fun string_value :: "json \<Rightarrow> string option" where
  "string_value (JString s) = Some s"
| "string_value _ = None"

definition read_enum :: "(string \<times> json) list \<Rightarrow> string list option" where
  "read_enum ms = (case map_of ms ''enum'' of
     None \<Rightarrow> Some []
   | Some (JArray js) \<Rightarrow> those (map string_value js)
   | Some _ \<Rightarrow> None)"

text \<open>An exclusive minimum restricts only together with a minimum.\<close>

definition read_least :: "(string \<times> json) list \<Rightarrow> int option option" where
  "read_least ms = (case map_of ms ''minimum'' of
     None \<Rightarrow> Some None
   | Some (JNumber t) \<Rightarrow> (if map_of ms ''exclusiveMinimum'' = Some (JBool True)
       then (case ParseInt t 64 of Inl _ \<Rightarrow> None | Inr i \<Rightarrow> Some (Some i)) else None)
   | Some _ \<Rightarrow> None)"

definition read_bits :: "(string \<times> json) list \<Rightarrow> nat option" where
  "read_bits ms = (case map_of ms ''format'' of
     None \<Rightarrow> Some 64
   | Some f \<Rightarrow> if f = JString ''int32'' then Some 32 else if f = JString ''int64'' then Some 64 else None)"

definition read_properties :: "(json \<Rightarrow> schema option) \<Rightarrow> json option \<Rightarrow> schema option" where
  "read_properties rd props = (case props of
     None \<Rightarrow> Some (ObjectSchema [])
   | Some (JObject ps) \<Rightarrow> map_option ObjectSchema (those (map (\<lambda>p. map_option (Pair (fst p)) (rd (snd p))) ps))
   | Some _ \<Rightarrow> None)"

definition read_typed :: "(json \<Rightarrow> schema option) \<Rightarrow> (string \<times> json) list \<Rightarrow> string \<Rightarrow> schema option" where
  "read_typed rd ms t =
     (if t = ''string'' then
        if map_of ms ''format'' = Some (JString ''date-time'') then Some DateTimeSchema
        else map_option StringSchema (read_enum ms)
      else if t = ''integer'' then Option.bind (read_bits ms) (\<lambda>bits. map_option (IntegerSchema bits) (read_least ms))
      else if t = ''number'' then Some NumberSchema
      else if t = ''boolean'' then Some BooleanSchema
      else if t = ''array'' then Option.bind (map_of ms ''items'') (\<lambda>j. map_option ArraySchema (rd j))
      else if t = ''object'' then
        (case map_of ms ''additionalProperties'' of
           Some j \<Rightarrow> map_option MapSchema (rd j)
         | None \<Rightarrow> read_properties rd (map_of ms ''properties''))
      else None)"

definition read_step :: "(json \<Rightarrow> schema option) \<Rightarrow> (string \<times> json) list \<Rightarrow> json \<Rightarrow> schema option" where
  "read_step rd defs j = (case j of
     JObject ms \<Rightarrow> (case map_of ms ''$ref'' of
       Some r \<Rightarrow> Option.bind (Option.bind (Option.bind (string_value r) ref_name) (map_of defs)) rd
     | None \<Rightarrow> (case map_of ms ''type'' of
         None \<Rightarrow> Some AnySchema
       | Some t \<Rightarrow> Option.bind (string_value t) (read_typed rd ms)))
   | _ \<Rightarrow> None)"

primrec read_schema :: "nat \<Rightarrow> (string \<times> json) list \<Rightarrow> json \<Rightarrow> schema option" where
  "read_schema 0 defs j = None"
| "read_schema (Suc n) defs j = read_step (read_schema n defs) defs j"

fun members :: "json \<Rightarrow> (string \<times> json) list" where
  "members (JObject ms) = ms"
| "members _ = []"

definition section_of :: "json \<Rightarrow> string \<Rightarrow> (string \<times> json) list" where
  "section_of doc k = (case map_of (members doc) k of None \<Rightarrow> [] | Some j \<Rightarrow> members j)"

definition read_definition :: "json \<Rightarrow> string \<Rightarrow> schema option" where
  "read_definition doc name = read_schema 16 (section_of doc ''definitions'') (JObject [(''$ref'', JString (''#/definitions/'' @ name))])"

definition read_parameter :: "json \<Rightarrow> (string \<times> string) option" where
  "read_parameter j = (case (map_of (members j) ''name'', map_of (members j) ''in'', map_of (members j) ''required'') of
     (Some (JString n), Some (JString i), Some (JBool True)) \<Rightarrow> Some (n, i)
   | _ \<Rightarrow> None)"

definition read_response :: "(string \<times> json) list \<Rightarrow> string \<times> json \<Rightarrow> (int \<times> schema option) option" where
  "read_response defs r = (case ParseInt (fst r) 64 of
     Inl _ \<Rightarrow> None
   | Inr code \<Rightarrow> (case map_of (members (snd r)) ''schema'' of
       None \<Rightarrow> Some (code, None)
     | Some j \<Rightarrow> map_option (\<lambda>s. (code, Some s)) (read_schema 16 defs j)))"

definition read_operation :: "(string \<times> json) list \<Rightarrow> string \<Rightarrow> string \<times> json \<Rightarrow> swagger_operation option" where
  "read_operation defs path m = (let ms = members (snd m) in
     case (map_of ms ''operationId'', map_of ms ''parameters'', map_of ms ''responses'') of
       (Some (JString opid), Some (JArray ps), Some (JObject rs)) \<Rightarrow>
         Option.bind (those (map read_parameter ps)) (\<lambda>params.
           map_option (\<lambda>resps. \<lparr>so_Path = path, so_Method = fst m, so_ID = opid, so_Parameters = params, so_Responses = resps\<rparr>)
             (those (map (read_response defs) rs)))
     | _ \<Rightarrow> None)"

definition read_paths :: "json \<Rightarrow> swagger_operation list option" where
  "read_paths doc = those (concat (map (\<lambda>p. map (read_operation (section_of doc ''definitions'') (fst p)) (members (snd p)))
     (section_of doc ''paths'')))"

text \<open>More fuel does not change what is read: the depth of 16 is a bound, not a choice.\<close>

lemma those_map_mono:
  "those (map f xs) = Some ys \<Longrightarrow> (\<And>x y. x \<in> set xs \<Longrightarrow> f x = Some y \<Longrightarrow> g x = Some y) \<Longrightarrow> those (map g xs) = Some ys"
proof (induction xs arbitrary: ys)
  case (Cons x xs)
  then obtain y zs where "f x = Some y" "those (map f xs) = Some zs" "ys = y # zs"
    by (auto split: option.splits simp: map_option_case)
  with Cons show ?case by simp
qed simp

lemma read_properties_mono:
  assumes "\<And>j s. rd j = Some s \<Longrightarrow> rd' j = Some s"
  shows "read_properties rd props = Some s \<Longrightarrow> read_properties rd' props = Some s"
  by (auto simp: read_properties_def split: option.splits json.splits elim!: those_map_mono intro!: assms)

lemma read_typed_mono:
  assumes "\<And>j s. rd j = Some s \<Longrightarrow> rd' j = Some s" and "read_typed rd ms t = Some s"
  shows "read_typed rd' ms t = Some s"
  using assms(2) read_properties_mono [of rd rd', OF assms(1)] unfolding read_typed_def
  by (simp split: if_split_asm option.split_asm) (auto simp: bind_eq_Some_conv dest!: assms(1))

lemma read_step_mono:
  assumes "\<And>j s. rd j = Some s \<Longrightarrow> rd' j = Some s" and "read_step rd defs j = Some s"
  shows "read_step rd' defs j = Some s"
  using assms(2) read_typed_mono [of rd rd', OF assms(1)] unfolding read_step_def
  by (cases j) (auto simp: bind_eq_Some_conv dest: assms(1) split: option.splits)

lemma read_schema_more: "read_schema n defs j = Some s \<Longrightarrow> n \<le> m \<Longrightarrow> read_schema m defs j = Some s"
proof (induction n arbitrary: m j s)
  case (Suc n)
  then obtain k where m: "m = Suc k" "n \<le> k" by (cases m) auto
  show ?case using Suc.prems(1) unfolding m read_schema.simps by (rule read_step_mono [rotated]) (use Suc.IH m in blast)
qed simp

section \<open>The two descriptions agree\<close>

text \<open>The definitions of the document that the server loads.\<close>

definition swagger_definitions :: "(string \<times> schema) list" where
  "swagger_definitions = [
     (''boot'', boot_schema), (''configmap-list'', configmap_list_schema),
     (''container-metrics'', container_metrics_schema), (''cpu'', cpu_schema),
     (''data-configuration'', data_configuration_schema), (''data-path'', data_path_schema),
     (''device-configuration'', device_configuration_schema),
     (''device-configuration-message'', device_configuration_message_schema), (''disk'', disk_schema),
     (''event-info'', event_info_schema), (''gpu'', gpu_schema), (''hardware-info'', hardware_info_schema),
     (''hardware-profile-configuration'', hardware_profile_configuration_schema), (''heartbeat'', heartbeat_schema),
     (''heartbeat-configuration'', heartbeat_configuration_schema), (''image-registries'', image_registries_schema),
     (''interface'', interface_schema), (''io_perf'', io_perf_schema),
     (''logs-collection-information'', logs_collection_information_schema), (''memory'', memory_schema),
     (''message'', message_schema), (''message-response'', message_response_schema), (''metrics'', metrics_schema),
     (''metrics-allow-list'', metrics_allow_list_schema), (''metrics-configuration'', metrics_configuration_schema),
     (''metrics-retention'', metrics_retention_schema), (''os-information'', os_information_schema),
     (''registration-info'', registration_info_schema), (''registration-response'', registration_response_schema),
     (''s3-storage-configuration'', s3_storage_configuration_schema), (''secret'', secret_schema),
     (''secret-list'', secret_list_schema), (''storage-configuration'', storage_configuration_schema),
     (''system-metrics-configuration'', system_metrics_configuration_schema),
     (''system_vendor'', system_vendor_schema), (''upgrade-status'', upgrade_status_schema),
     (''workload'', workload_schema), (''workload-list'', workload_list_schema),
     (''workload-status'', workload_status_schema)]"

lemmas reader = read_step_def read_typed_def read_properties_def read_enum_def read_least_def read_bits_def ref_name_def

lemma flat_lookup:
  "map_of flat_definitions ''LogsCollectionInformationSyslogConfig'' = Some flat_LogsCollectionInformationSyslogConfig"
  "map_of flat_definitions ''boot'' = Some flat_boot"
  "map_of flat_definitions ''configmap-list'' = Some flat_configmap_list"
  "map_of flat_definitions ''container-metrics'' = Some flat_container_metrics"
  "map_of flat_definitions ''cpu'' = Some flat_cpu"
  "map_of flat_definitions ''data-configuration'' = Some flat_data_configuration"
  "map_of flat_definitions ''data-path'' = Some flat_data_path"
  "map_of flat_definitions ''device-configuration'' = Some flat_device_configuration"
  "map_of flat_definitions ''device-configuration-message'' = Some flat_device_configuration_message"
  "map_of flat_definitions ''disk'' = Some flat_disk"
  "map_of flat_definitions ''event-info'' = Some flat_event_info"
  "map_of flat_definitions ''gpu'' = Some flat_gpu"
  "map_of flat_definitions ''hardware-info'' = Some flat_hardware_info"
  "map_of flat_definitions ''hardware-profile-configuration'' = Some flat_hardware_profile_configuration"
  "map_of flat_definitions ''heartbeat'' = Some flat_heartbeat"
  "map_of flat_definitions ''heartbeat-configuration'' = Some flat_heartbeat_configuration"
  "map_of flat_definitions ''image-registries'' = Some flat_image_registries"
  "map_of flat_definitions ''interface'' = Some flat_interface"
  "map_of flat_definitions ''io_perf'' = Some flat_io_perf"
  "map_of flat_definitions ''logs-collection-information'' = Some flat_logs_collection_information"
  "map_of flat_definitions ''memory'' = Some flat_memory"
  "map_of flat_definitions ''message'' = Some flat_message"
  "map_of flat_definitions ''message-response'' = Some flat_message_response"
  "map_of flat_definitions ''metrics'' = Some flat_metrics"
  "map_of flat_definitions ''metrics-allow-list'' = Some flat_metrics_allow_list"
  "map_of flat_definitions ''metrics-configuration'' = Some flat_metrics_configuration"
  "map_of flat_definitions ''metrics-retention'' = Some flat_metrics_retention"
  "map_of flat_definitions ''os-information'' = Some flat_os_information"
  "map_of flat_definitions ''registration-info'' = Some flat_registration_info"
  "map_of flat_definitions ''registration-response'' = Some flat_registration_response"
  "map_of flat_definitions ''s3-storage-configuration'' = Some flat_s3_storage_configuration"
  "map_of flat_definitions ''secret'' = Some flat_secret"
  "map_of flat_definitions ''secret-list'' = Some flat_secret_list"
  "map_of flat_definitions ''storage-configuration'' = Some flat_storage_configuration"
  "map_of flat_definitions ''system-metrics-configuration'' = Some flat_system_metrics_configuration"
  "map_of flat_definitions ''system_vendor'' = Some flat_system_vendor"
  "map_of flat_definitions ''upgrade-status'' = Some flat_upgrade_status"
  "map_of flat_definitions ''workload'' = Some flat_workload"
  "map_of flat_definitions ''workload-list'' = Some flat_workload_list"
  "map_of flat_definitions ''workload-status'' = Some flat_workload_status"
  by (simp_all add: flat_definitions_def)

text \<open>Only the text of a schema is unfolded; a named definition is read by its own lemma.\<close>

declare read_schema.simps [simp del]

lemma read_object [simp]:
  "read_schema (numeral k) defs (JObject ms) = read_step (read_schema (pred_numeral k) defs) defs (JObject ms)"
  "read_schema (Suc 0) defs (JObject ms) = read_step (read_schema 0 defs) defs (JObject ms)"
  by (simp_all add: numeral_eq_Suc read_schema.simps)

lemma document_numbers:
  "ParseInt ''0'' 64 = Inr 0" "ParseInt ''200'' 64 = Inr 200" "ParseInt ''400'' 64 = Inr 400" "ParseInt ''401'' 64 = Inr 401"
  "ParseInt ''403'' 64 = Inr 403" "ParseInt ''404'' 64 = Inr 404" "ParseInt ''500'' 64 = Inr 500"
  by (simp_all add: ParseInt_def ParseUint_def is_digit_def in_range_def)

named_theorems reading \<open>the definitions of the document that are already read\<close>

lemma flat_boot_read [reading]: "2 \<le> n \<Longrightarrow> read_schema n flat_definitions flat_boot = Some boot_schema"
  by (rule read_schema_more [of 2]) (simp_all add: flat_boot_def boot_schema_def flat_lookup reading reader)

lemma flat_configmap_list_read [reading]: "2 \<le> n \<Longrightarrow> read_schema n flat_definitions flat_configmap_list = Some configmap_list_schema"
  by (rule read_schema_more [of 2]) (simp_all add: flat_configmap_list_def configmap_list_schema_def flat_lookup reading reader)

lemma flat_container_metrics_read [reading]: "2 \<le> n \<Longrightarrow> read_schema n flat_definitions flat_container_metrics = Some container_metrics_schema"
  by (rule read_schema_more [of 2]) (simp_all add: flat_container_metrics_def container_metrics_schema_def flat_lookup reading reader)

lemma flat_cpu_read [reading]: "3 \<le> n \<Longrightarrow> read_schema n flat_definitions flat_cpu = Some cpu_schema"
  by (rule read_schema_more [of 3]) (simp_all add: flat_cpu_def cpu_schema_def flat_lookup reading reader)

lemma flat_data_path_read [reading]: "2 \<le> n \<Longrightarrow> read_schema n flat_definitions flat_data_path = Some data_path_schema"
  by (rule read_schema_more [of 2]) (simp_all add: flat_data_path_def data_path_schema_def flat_lookup reading reader)

lemma flat_data_configuration_read [reading]: "5 \<le> n \<Longrightarrow> read_schema n flat_definitions flat_data_configuration = Some data_configuration_schema"
  by (rule read_schema_more [of 5]) (simp_all add: flat_data_configuration_def data_configuration_schema_def flat_lookup reading reader)

lemma flat_hardware_profile_configuration_read [reading]: "2 \<le> n \<Longrightarrow> read_schema n flat_definitions flat_hardware_profile_configuration = Some hardware_profile_configuration_schema"
  by (rule read_schema_more [of 2]) (simp_all add: flat_hardware_profile_configuration_def hardware_profile_configuration_schema_def flat_lookup reading reader)

lemma flat_heartbeat_configuration_read [reading]: "4 \<le> n \<Longrightarrow> read_schema n flat_definitions flat_heartbeat_configuration = Some heartbeat_configuration_schema"
  by (rule read_schema_more [of 4]) (simp_all add: flat_heartbeat_configuration_def heartbeat_configuration_schema_def flat_lookup reading reader)

lemma flat_logs_collection_information_read [reading]: "3 \<le> n \<Longrightarrow> read_schema n flat_definitions flat_logs_collection_information = Some logs_collection_information_schema"
  by (rule read_schema_more [of 3]) (simp_all add: flat_logs_collection_information_def logs_collection_information_schema_def flat_lookup reading reader)

lemma flat_metrics_retention_read [reading]: "2 \<le> n \<Longrightarrow> read_schema n flat_definitions flat_metrics_retention = Some metrics_retention_schema"
  by (rule read_schema_more [of 2]) (simp_all add: flat_metrics_retention_def metrics_retention_schema_def flat_lookup reading reader)

lemma flat_metrics_allow_list_read [reading]: "3 \<le> n \<Longrightarrow> read_schema n flat_definitions flat_metrics_allow_list = Some metrics_allow_list_schema"
  by (rule read_schema_more [of 3]) (simp_all add: flat_metrics_allow_list_def metrics_allow_list_schema_def flat_lookup reading reader)

lemma flat_system_metrics_configuration_read [reading]: "5 \<le> n \<Longrightarrow> read_schema n flat_definitions flat_system_metrics_configuration = Some system_metrics_configuration_schema"
  by (rule read_schema_more [of 5]) (simp_all add: flat_system_metrics_configuration_def system_metrics_configuration_schema_def flat_lookup reading reader)

lemma flat_metrics_configuration_read [reading]: "7 \<le> n \<Longrightarrow> read_schema n flat_definitions flat_metrics_configuration = Some metrics_configuration_schema"
  by (rule read_schema_more [of 7]) (simp_all add: flat_metrics_configuration_def metrics_configuration_schema_def flat_lookup reading reader)

lemma flat_os_information_read [reading]: "2 \<le> n \<Longrightarrow> read_schema n flat_definitions flat_os_information = Some os_information_schema"
  by (rule read_schema_more [of 2]) (simp_all add: flat_os_information_def os_information_schema_def flat_lookup reading reader)

lemma flat_s3_storage_configuration_read [reading]: "2 \<le> n \<Longrightarrow> read_schema n flat_definitions flat_s3_storage_configuration = Some s3_storage_configuration_schema"
  by (rule read_schema_more [of 2]) (simp_all add: flat_s3_storage_configuration_def s3_storage_configuration_schema_def flat_lookup reading reader)

lemma flat_storage_configuration_read [reading]: "4 \<le> n \<Longrightarrow> read_schema n flat_definitions flat_storage_configuration = Some storage_configuration_schema"
  by (rule read_schema_more [of 4]) (simp_all add: flat_storage_configuration_def storage_configuration_schema_def flat_lookup reading reader)

lemma flat_device_configuration_read [reading]: "9 \<le> n \<Longrightarrow> read_schema n flat_definitions flat_device_configuration = Some device_configuration_schema"
  by (rule read_schema_more [of 9]) (simp_all add: flat_device_configuration_def device_configuration_schema_def flat_lookup reading reader)

lemma flat_secret_read [reading]: "2 \<le> n \<Longrightarrow> read_schema n flat_definitions flat_secret = Some secret_schema"
  by (rule read_schema_more [of 2]) (simp_all add: flat_secret_def secret_schema_def flat_lookup reading reader)

lemma flat_secret_list_read [reading]: "4 \<le> n \<Longrightarrow> read_schema n flat_definitions flat_secret_list = Some secret_list_schema"
  by (rule read_schema_more [of 4]) (simp_all add: flat_secret_list_def secret_list_schema_def flat_lookup reading reader)

lemma flat_image_registries_read [reading]: "2 \<le> n \<Longrightarrow> read_schema n flat_definitions flat_image_registries = Some image_registries_schema"
  by (rule read_schema_more [of 2]) (simp_all add: flat_image_registries_def image_registries_schema_def flat_lookup reading reader)

lemma flat_metrics_read [reading]: "5 \<le> n \<Longrightarrow> read_schema n flat_definitions flat_metrics = Some metrics_schema"
  by (rule read_schema_more [of 5]) (simp_all add: flat_metrics_def metrics_schema_def flat_lookup reading reader)

lemma flat_workload_read [reading]: "7 \<le> n \<Longrightarrow> read_schema n flat_definitions flat_workload = Some workload_schema"
  by (rule read_schema_more [of 7]) (simp_all add: flat_workload_def workload_schema_def flat_lookup reading reader)

lemma flat_workload_list_read [reading]: "9 \<le> n \<Longrightarrow> read_schema n flat_definitions flat_workload_list = Some workload_list_schema"
  by (rule read_schema_more [of 9]) (simp_all add: flat_workload_list_def workload_list_schema_def flat_lookup reading reader)

lemma flat_device_configuration_message_read [reading]: "11 \<le> n \<Longrightarrow> read_schema n flat_definitions flat_device_configuration_message = Some device_configuration_message_schema"
  by (rule read_schema_more [of 11]) (simp_all add: flat_device_configuration_message_def device_configuration_message_schema_def flat_lookup reading reader document_numbers)

lemma flat_io_perf_read [reading]: "2 \<le> n \<Longrightarrow> read_schema n flat_definitions flat_io_perf = Some io_perf_schema"
  by (rule read_schema_more [of 2]) (simp_all add: flat_io_perf_def io_perf_schema_def flat_lookup reading reader)

lemma flat_disk_read [reading]: "4 \<le> n \<Longrightarrow> read_schema n flat_definitions flat_disk = Some disk_schema"
  by (rule read_schema_more [of 4]) (simp_all add: flat_disk_def disk_schema_def flat_lookup reading reader)

lemma flat_event_info_read [reading]: "2 \<le> n \<Longrightarrow> read_schema n flat_definitions flat_event_info = Some event_info_schema"
  by (rule read_schema_more [of 2]) (simp_all add: flat_event_info_def event_info_schema_def flat_lookup reading reader)

lemma flat_gpu_read [reading]: "2 \<le> n \<Longrightarrow> read_schema n flat_definitions flat_gpu = Some gpu_schema"
  by (rule read_schema_more [of 2]) (simp_all add: flat_gpu_def gpu_schema_def flat_lookup reading reader)

lemma flat_interface_read [reading]: "3 \<le> n \<Longrightarrow> read_schema n flat_definitions flat_interface = Some interface_schema"
  by (rule read_schema_more [of 3]) (simp_all add: flat_interface_def interface_schema_def flat_lookup reading reader)

lemma flat_memory_read [reading]: "2 \<le> n \<Longrightarrow> read_schema n flat_definitions flat_memory = Some memory_schema"
  by (rule read_schema_more [of 2]) (simp_all add: flat_memory_def memory_schema_def flat_lookup reading reader)

lemma flat_system_vendor_read [reading]: "2 \<le> n \<Longrightarrow> read_schema n flat_definitions flat_system_vendor = Some system_vendor_schema"
  by (rule read_schema_more [of 2]) (simp_all add: flat_system_vendor_def system_vendor_schema_def flat_lookup reading reader)

lemma flat_hardware_info_read [reading]: "7 \<le> n \<Longrightarrow> read_schema n flat_definitions flat_hardware_info = Some hardware_info_schema"
  by (rule read_schema_more [of 7]) (simp_all add: flat_hardware_info_def hardware_info_schema_def flat_lookup reading reader)

lemma flat_upgrade_status_read [reading]: "2 \<le> n \<Longrightarrow> read_schema n flat_definitions flat_upgrade_status = Some upgrade_status_schema"
  by (rule read_schema_more [of 2]) (simp_all add: flat_upgrade_status_def upgrade_status_schema_def flat_lookup reading reader)

lemma flat_workload_status_read [reading]: "2 \<le> n \<Longrightarrow> read_schema n flat_definitions flat_workload_status = Some workload_status_schema"
  by (rule read_schema_more [of 2]) (simp_all add: flat_workload_status_def workload_status_schema_def flat_lookup reading reader)

lemma flat_heartbeat_read [reading]: "9 \<le> n \<Longrightarrow> read_schema n flat_definitions flat_heartbeat = Some heartbeat_schema"
  by (rule read_schema_more [of 9]) (simp_all add: flat_heartbeat_def heartbeat_schema_def flat_lookup reading reader)

lemma flat_message_read [reading]: "2 \<le> n \<Longrightarrow> read_schema n flat_definitions flat_message = Some message_schema"
  by (rule read_schema_more [of 2]) (simp_all add: flat_message_def message_schema_def flat_lookup reading reader)

lemma flat_message_response_read [reading]: "2 \<le> n \<Longrightarrow> read_schema n flat_definitions flat_message_response = Some message_response_schema"
  by (rule read_schema_more [of 2]) (simp_all add: flat_message_response_def message_response_schema_def flat_lookup reading reader)

lemma flat_registration_info_read [reading]: "9 \<le> n \<Longrightarrow> read_schema n flat_definitions flat_registration_info = Some registration_info_schema"
  by (rule read_schema_more [of 9]) (simp_all add: flat_registration_info_def registration_info_schema_def flat_lookup reading reader)

lemma flat_registration_response_read [reading]: "2 \<le> n \<Longrightarrow> read_schema n flat_definitions flat_registration_response = Some registration_response_schema"
  by (rule read_schema_more [of 2]) (simp_all add: flat_registration_response_def registration_response_schema_def flat_lookup reading reader)

lemma flat_sections [simp]:
  "section_of FlatSwaggerJSON ''definitions'' = flat_definitions" "section_of FlatSwaggerJSON ''paths'' = flat_paths"
  by (simp_all add: section_of_def FlatSwaggerJSON_def)

lemma read_flat:
  assumes "map_of flat_definitions name = Some j" and "read_schema 15 flat_definitions j = Some s"
  shows "read_definition FlatSwaggerJSON name = Some s"
  using assms by (simp add: read_definition_def read_step_def ref_name_def)

lemma flat_paths_read: "read_paths FlatSwaggerJSON = Some swagger_paths"
  by (simp add: read_paths_def flat_paths_def flat_control_in_def flat_control_out_def flat_data_in_def flat_data_out_def
      read_operation_def read_parameter_def read_response_def document_numbers reader flat_lookup reading
      swagger_paths_def get_control_operation_def post_control_operation_def get_data_operation_def post_data_operation_def)

text \<open>The flattened document has the same operations and the same definitions, and one definition more, to which
  nothing refers.\<close>

theorem descriptions_agree:
  "read_paths FlatSwaggerJSON = Some swagger_paths \<and>
   list_all (\<lambda>(name, s). read_definition FlatSwaggerJSON name = Some s) swagger_definitions \<and>
   map fst flat_definitions = ''LogsCollectionInformationSyslogConfig'' # map fst swagger_definitions"
proof (intro conjI flat_paths_read)
  show "list_all (\<lambda>(name, s). read_definition FlatSwaggerJSON name = Some s) swagger_definitions"
    by (simp add: swagger_definitions_def read_flat flat_lookup reading)
  show "map fst flat_definitions = ''LogsCollectionInformationSyslogConfig'' # map fst swagger_definitions"
    by (simp add: swagger_definitions_def flat_definitions_def)
qed

section \<open>Properties\<close>

text \<open>C14: the \<open>Validate\<close> functions check the published document, up to what they do not look at. The schemas of
  heartbeats and of configuration messages can be read from it, with all their references. The JSON form of a heartbeat
  satisfies its schema exactly when the heartbeat is valid, no list in it is nil and no entry of a list is null: these
  are written as \<open>null\<close>, which \<open>Validate\<close> accepts and the schema does not. For a configuration message, \<open>Validate\<close>
  accepts and no list of paths or of metric names is nil, exactly when its JSON form satisfies its schema and no log target and no
  container entry is left empty, which the document allows and \<open>Validate\<close> does not.\<close>

theorem published_messages_conform:
  assumes "Heartbeat_wf J hb" and "Heartbeat_json J hb = Inr j" and "dt (jc_time J zero_time)"
    and "DeviceConfigurationMessage_wf dcm" and "\<And>ks. set (ord ks) = set ks"
  shows "\<exists>hs cs. read_definition FlatSwaggerJSON ''heartbeat'' = Some hs \<and>
    read_definition FlatSwaggerJSON ''device-configuration-message'' = Some cs \<and>
    (valid_schema dt hs j \<longleftrightarrow> Heartbeat_Validate (\<lambda>t. dt (jc_time J t)) hb = None \<and> Heartbeat_filled hb) \<and>
    (DeviceConfigurationMessage_Validate ord dcm = None \<and> slices_set dcm \<longleftrightarrow>
       valid_schema dt cs (DeviceConfigurationMessage_json dcm) \<and> entries_filled dcm)"
proof -
  have "read_definition FlatSwaggerJSON ''heartbeat'' = Some heartbeat_schema"
    "read_definition FlatSwaggerJSON ''device-configuration-message'' = Some device_configuration_message_schema"
    by (simp_all add: read_flat flat_lookup reading)
  then show ?thesis
    using Heartbeat_conforms [of J hb j dt, OF assms(2,1,3)] DeviceConfigurationMessage_Validate_iff [OF assms(5,4), of dt]
    by simp
qed

lemma sample_report_wf:
  "Heartbeat_wf (sample_codec []) (sample_report status)" "Heartbeat_wf (sample_codec []) ((sample_report status)\<lparr>hb_Events := None\<rparr>)"
  "DeviceConfigurationMessage_wf (sample_configuration zero_LogsCollectionInformation)"
  by (simp_all add: Heartbeat_wf_def WorkloadStatus_wf_def sample_report_def sample_codec_def ParseInt_FormatInt in_bits_def
      opt_list_def zero_time_def DeviceConfigurationMessage_wf_def DeviceConfiguration_wf_def map_wf_def
      LogsCollectionInformation_wf_def sample_configuration_def zero_LogsCollectionInformation_def gm_wf_def)

theorem published_messages_conform_witness:
  "\<exists>hs j j'. read_definition FlatSwaggerJSON ''heartbeat'' = Some hs \<and>
     Heartbeat_json (sample_codec []) (sample_report ''up'') = Inr j \<and> valid_schema (\<lambda>_. True) hs j \<and>
     Heartbeat_json (sample_codec []) ((sample_report ''up'')\<lparr>hb_Events := None\<rparr>) = Inr j' \<and> \<not> valid_schema (\<lambda>_. True) hs j' \<and>
     Heartbeat_Validate (\<lambda>_. True) ((sample_report ''up'')\<lparr>hb_Events := None\<rparr>) = None"
proof -
  let ?r = "sample_report ''up''" and ?n = "(sample_report ''up'')\<lparr>hb_Events := None\<rparr>"
  obtain j j' where j: "Heartbeat_json (sample_codec []) ?r = Inr j" "Heartbeat_json (sample_codec []) ?n = Inr j'"
    by (simp add: Heartbeat_json_def sample_report_def ptr_member_try_def)
  have valid: "Heartbeat_Validate (\<lambda>t. True) ?r = None" "Heartbeat_Validate (\<lambda>t. True) ?n = None" by code_simp+
  have "Heartbeat_filled ?r" "\<not> Heartbeat_filled ?n"
    by (simp_all add: Heartbeat_filled_def filled_def sample_report_def)
  then show ?thesis
    using published_messages_conform [OF sample_report_wf(1) j(1) _ sample_report_wf(3), of "\<lambda>_. True" id]
      published_messages_conform [OF sample_report_wf(2) j(2) _ sample_report_wf(3), of "\<lambda>_. True" id] valid j by auto
qed

end
