(* ===== verification/Deep_Copy.thy ===== *)
theory Deep_Copy
  imports Flotta_Prelude
begin

text \<open>
  The generated deep copies of the resources (\<open>api/v1alpha1/zz_generated.deepcopy.go\<close>) on a store with addresses.

  The rest of the development passes resources as values. The program passes pointers, and copies an object
  before it changes it in place (\<open>client.MergeFrom(edgeDevice.DeepCopy())\<close>). Here a struct is a value whose
  pointers, slices and maps are addresses of a heap, \<open>DeepCopyInto\<close> is the function of the source on that heap,
  and the theorem says that a copy has the content of the original and shares no cell with it, which is what
  justifies the values elsewhere.

  A slice is the array of its elements, a map the table of its entries in some order; a new cell is
  allocated with the content the code fills it with. Types carry the fields of the structs with their names.
\<close>

named_theorems copy_rules \<open>which functions are deep copies\<close>

section \<open>Values and the heap\<close>

type_synonym addr = nat

datatype basic = GoString string | GoInt int | GoBool bool | GoTime int

datatype kind = KString | KInt | KBool | KTime

fun kind_of :: "basic \<Rightarrow> kind" where
  "kind_of (GoString _) = KString"
| "kind_of (GoInt _) = KInt"
| "kind_of (GoBool _) = KBool"
| "kind_of (GoTime _) = KTime"

datatype goval =
    Basic basic
  | Struct "(string \<times> goval) list"
  | Ptr "addr option"
  | Slice "addr option"
  | Map "addr option"

datatype cell = Cell goval | Array "goval list" | Table "(string \<times> goval) list"

type_synonym heap = "cell list"

datatype gotype =
    TBasic kind
  | TStruct "(string \<times> gotype) list"
  | TPtr gotype
  | TSlice gotype
  | TMap gotype

text \<open>The content of a value: the value with everything behind its references.\<close>

datatype content =
    Leaf basic
  | Node "(string \<times> content) list"
  | NilRef
  | Target content
  | Elements "content list"
  | Entries "(string \<times> content) list"

definition load :: "heap \<Rightarrow> addr \<Rightarrow> cell option" where
  "load h a = (if a < length h then Some (h ! a) else None)"

fun all_some :: "'a option list \<Rightarrow> 'a list option" where
  "all_some [] = Some []"
| "all_some (None # xs) = None"
| "all_some (Some x # xs) = map_option ((#) x) (all_some xs)"

fun view :: "heap \<Rightarrow> gotype \<Rightarrow> goval \<Rightarrow> content option"
  and view_fields :: "heap \<Rightarrow> (string \<times> gotype) list \<Rightarrow> (string \<times> goval) list \<Rightarrow> (string \<times> content) list option" where
  "view h (TBasic k) v = (case v of Basic b \<Rightarrow> if kind_of b = k then Some (Leaf b) else None | _ \<Rightarrow> None)"
| "view h (TStruct fs) v = (case v of Struct vs \<Rightarrow> map_option Node (view_fields h fs vs) | _ \<Rightarrow> None)"
| "view h (TPtr T) v = (case v of
     Ptr None \<Rightarrow> Some NilRef
   | Ptr (Some a) \<Rightarrow> (case load h a of Some (Cell w) \<Rightarrow> map_option Target (view h T w) | _ \<Rightarrow> None)
   | _ \<Rightarrow> None)"
| "view h (TSlice T) v = (case v of
     Slice None \<Rightarrow> Some NilRef
   | Slice (Some a) \<Rightarrow> (case load h a of
       Some (Array ws) \<Rightarrow> map_option Elements (all_some (map (view h T) ws)) | _ \<Rightarrow> None)
   | _ \<Rightarrow> None)"
| "view h (TMap T) v = (case v of
     Map None \<Rightarrow> Some NilRef
   | Map (Some a) \<Rightarrow> (case load h a of
       Some (Table es) \<Rightarrow> map_option (\<lambda>ts. Entries (zip (map fst es) ts)) (all_some (map (\<lambda>e. view h T (snd e)) es)) | _ \<Rightarrow> None)
   | _ \<Rightarrow> None)"
| "view_fields h [] vs = (if vs = [] then Some [] else None)"
| "view_fields h (f # fs) vs = (case vs of
     [] \<Rightarrow> None
   | w # ws \<Rightarrow> if fst w = fst f then
       (case view h (snd f) (snd w) of
          None \<Rightarrow> None
        | Some t \<Rightarrow> map_option ((#) (fst f, t)) (view_fields h fs ws))
     else None)"

text \<open>The cells a value refers to, directly or not.\<close>

fun reach :: "heap \<Rightarrow> gotype \<Rightarrow> goval \<Rightarrow> addr set"
  and reach_fields :: "heap \<Rightarrow> (string \<times> gotype) list \<Rightarrow> (string \<times> goval) list \<Rightarrow> addr set" where
  "reach h (TBasic k) v = {}"
| "reach h (TStruct fs) v = (case v of Struct vs \<Rightarrow> reach_fields h fs vs | _ \<Rightarrow> {})"
| "reach h (TPtr T) v = (case v of
     Ptr (Some a) \<Rightarrow> insert a (case load h a of Some (Cell w) \<Rightarrow> reach h T w | _ \<Rightarrow> {})
   | _ \<Rightarrow> {})"
| "reach h (TSlice T) v = (case v of
     Slice (Some a) \<Rightarrow> insert a (case load h a of Some (Array ws) \<Rightarrow> \<Union> (set (map (reach h T) ws)) | _ \<Rightarrow> {})
   | _ \<Rightarrow> {})"
| "reach h (TMap T) v = (case v of
     Map (Some a) \<Rightarrow> insert a (case load h a of Some (Table es) \<Rightarrow> \<Union> (set (map (\<lambda>e. reach h T (snd e)) es)) | _ \<Rightarrow> {})
   | _ \<Rightarrow> {})"
| "reach_fields h [] vs = {}"
| "reach_fields h (f # fs) vs = (case vs of [] \<Rightarrow> {} | w # ws \<Rightarrow> reach h (snd f) (snd w) \<union> reach_fields h fs ws)"

section \<open>The statements of a generated copy\<close>

type_synonym 'a store = "(heap, 'a) io"

definition alloc :: "cell \<Rightarrow> addr store" where
  "alloc c = State (\<lambda>h. (length h, h @ [c]))"

definition read_cell :: "addr \<Rightarrow> cell option store" where
  "read_cell a = State (\<lambda>h. (load h a, h))"

fun copy_elements :: "(goval \<Rightarrow> goval store) \<Rightarrow> goval list \<Rightarrow> goval list store" where
  "copy_elements f [] = ret []"
| "copy_elements f (w # ws) = do { w' \<leftarrow> f w; ws' \<leftarrow> copy_elements f ws; ret (w' # ws') }"

text \<open>\<open>if in.F != nil { *out = new(T); (*in).DeepCopyInto(*out) }\<close>, and the loops over slices and maps; with
  \<open>ret\<close> as the copy of an element they are \<open>**out = **in\<close>, \<open>copy(*out, *in)\<close> and \<open>(*out)[key] = val\<close>.\<close>

definition copy_ptr :: "(goval \<Rightarrow> goval store) \<Rightarrow> goval \<Rightarrow> goval store" where
  "copy_ptr f v = (case v of
     Ptr (Some a) \<Rightarrow> do {
       c \<leftarrow> read_cell a;
       case c of
         Some (Cell w) \<Rightarrow> do { w' \<leftarrow> f w; b \<leftarrow> alloc (Cell w'); ret (Ptr (Some b)) }
       | _ \<Rightarrow> ret v
     }
   | _ \<Rightarrow> ret v)"

definition copy_slice :: "(goval \<Rightarrow> goval store) \<Rightarrow> goval \<Rightarrow> goval store" where
  "copy_slice f v = (case v of
     Slice (Some a) \<Rightarrow> do {
       c \<leftarrow> read_cell a;
       case c of
         Some (Array ws) \<Rightarrow> do { ws' \<leftarrow> copy_elements f ws; b \<leftarrow> alloc (Array ws'); ret (Slice (Some b)) }
       | _ \<Rightarrow> ret v
     }
   | _ \<Rightarrow> ret v)"

definition copy_map :: "(goval \<Rightarrow> goval store) \<Rightarrow> goval \<Rightarrow> goval store" where
  "copy_map f v = (case v of
     Map (Some a) \<Rightarrow> do {
       c \<leftarrow> read_cell a;
       case c of
         Some (Table es) \<Rightarrow> do {
           ws' \<leftarrow> copy_elements f (map snd es);
           b \<leftarrow> alloc (Table (zip (map fst es) ws'));
           ret (Map (Some b))
         }
       | _ \<Rightarrow> ret v
     }
   | _ \<Rightarrow> ret v)"

text \<open>A \<open>DeepCopyInto\<close>: \<open>*out = *in\<close>, then a statement for some of the fields, in order. \<open>get_field\<close> reads a
  field of \<open>in\<close>, \<open>set_field\<close> writes it in \<open>out\<close>.\<close>

definition set_field :: "string \<Rightarrow> goval \<Rightarrow> (string \<times> goval) list \<Rightarrow> (string \<times> goval) list" where
  "set_field n x vs = map (\<lambda>w. if fst w = n then (n, x) else w) vs"

fun copy_fields ::
  "(string \<times> (goval \<Rightarrow> goval store)) list \<Rightarrow> (string \<times> goval) list \<Rightarrow> (string \<times> goval) list \<Rightarrow> (string \<times> goval) list store" where
  "copy_fields [] inn out = ret out"
| "copy_fields (c # cs) inn out = (case map_of inn (fst c) of
     None \<Rightarrow> copy_fields cs inn out
   | Some x \<Rightarrow> do { x' \<leftarrow> snd c x; copy_fields cs inn (set_field (fst c) x' out) })"

definition copy_struct :: "(string \<times> (goval \<Rightarrow> goval store)) list \<Rightarrow> goval \<Rightarrow> goval store" where
  "copy_struct cs v = (case v of
     Struct vs \<Rightarrow> do { out \<leftarrow> copy_fields cs vs vs; ret (Struct out) }
   | _ \<Rightarrow> ret v)"

section \<open>Content and reach\<close>

lemma all_some_iff: "all_some (map f xs) = Some ys \<longleftrightarrow> list_all2 (\<lambda>x y. f x = Some y) xs ys"
proof (induction xs arbitrary: ys)
  case (Cons x xs)
  then show ?case by (cases "f x"; cases ys) auto
qed auto

lemma list_all2_left: "list_all2 P xs ys \<Longrightarrow> x \<in> set xs \<Longrightarrow> \<exists>y. P x y"
  by (induction rule: list_all2_induct) auto

lemma load_append: "a < length h \<Longrightarrow> load (h @ cs) a = load h a"
  by (simp add: load_def nth_append)

lemma load_update: "a \<noteq> b \<Longrightarrow> load (h[b := c]) a = load h a"
  by (simp add: load_def)

lemma load_Some: "load h a = Some c \<Longrightarrow> a < length h"
  by (simp add: load_def split: if_splits)

lemma gotype_induct [case_names Basic Struct Ptr Slice Map]:
  assumes "\<And>k. P (TBasic k)" and "\<And>fs. (\<And>f. f \<in> set fs \<Longrightarrow> P (snd f)) \<Longrightarrow> P (TStruct fs)"
    and "\<And>T. P T \<Longrightarrow> P (TPtr T)" and "\<And>T. P T \<Longrightarrow> P (TSlice T)" and "\<And>T. P T \<Longrightarrow> P (TMap T)"
  shows "P T"
proof (induction T)
  case (TStruct fs)
  show ?case by (rule assms(2)) (metis TStruct snds.intros)
qed (auto intro: assms)

text \<open>Both depend on the cells within reach only.\<close>

definition agree :: "heap \<Rightarrow> heap \<Rightarrow> addr set \<Rightarrow> bool" where
  "agree h h' A \<longleftrightarrow> (\<forall>a\<in>A. load h' a = load h a)"

lemma fields_agree:
  assumes "\<And>f v. f \<in> set fs \<Longrightarrow> agree h h' (reach h (snd f) v) \<Longrightarrow>
      view h' (snd f) v = view h (snd f) v \<and> reach h' (snd f) v = reach h (snd f) v"
    and "agree h h' (reach_fields h fs vs)"
  shows "view_fields h' fs vs = view_fields h fs vs \<and> reach_fields h' fs vs = reach_fields h fs vs"
  using assms
proof (induction fs arbitrary: vs)
  case (Cons f fs)
  show ?case
  proof (cases vs)
    case (Cons w ws)
    with Cons.prems(2) have "agree h h' (reach h (snd f) (snd w))" "agree h h' (reach_fields h fs ws)"
      by (simp_all add: agree_def)
    with Cons.IH [of ws] Cons.prems(1) Cons show ?thesis by (simp split: option.split)
  qed simp
qed simp

lemma view_agree: "agree h h' (reach h T v) \<Longrightarrow> view h' T v = view h T v \<and> reach h' T v = reach h T v"
proof (induction T arbitrary: v rule: gotype_induct)
  case (Struct fs)
  then show ?case using fields_agree [of fs h h'] by (cases v) simp_all
next
  case (Slice T)
  show ?case
  proof (cases "\<exists>a ws. v = goval.Slice (Some a) \<and> load h a = Some (Array ws)")
    case True
    then obtain a ws where v: "v = goval.Slice (Some a)" "load h a = Some (Array ws)" by blast
    with Slice.prems have "load h' a = load h a" "\<forall>w\<in>set ws. agree h h' (reach h T w)" by (auto simp: agree_def)
    with v Slice.IH show ?thesis by (auto cong: map_cong)
  next
    case False
    with Slice.prems show ?thesis by (auto simp: agree_def split: goval.splits option.splits cell.splits)
  qed
next
  case (Map T)
  show ?case
  proof (cases "\<exists>a es. v = goval.Map (Some a) \<and> load h a = Some (Table es)")
    case True
    then obtain a es where v: "v = goval.Map (Some a)" "load h a = Some (Table es)" by blast
    with Map.prems have "load h' a = load h a" "\<forall>e\<in>set es. agree h h' (reach h T (snd e))" by (auto simp: agree_def)
    with v Map.IH show ?thesis by (auto cong: map_cong)
  next
    case False
    with Map.prems show ?thesis by (auto simp: agree_def split: goval.splits option.splits cell.splits)
  qed
qed (auto simp: agree_def split: goval.splits option.splits cell.splits)

lemma reach_fields_allocated:
  assumes "\<And>f v t. f \<in> set fs \<Longrightarrow> view h (snd f) v = Some t \<Longrightarrow> reach h (snd f) v \<subseteq> {..<length h}"
    and "view_fields h fs vs = Some ts"
  shows "reach_fields h fs vs \<subseteq> {..<length h}"
  using assms
proof (induction fs arbitrary: vs ts)
  case (Cons f fs)
  then obtain w ws t ts' where "vs = w # ws" "view h (snd f) (snd w) = Some t" "view_fields h fs ws = Some ts'"
    by (auto split: list.splits option.splits if_splits)
  with Cons.IH [of ws ts'] Cons.prems(1) show ?case by simp
qed simp

lemma reach_allocated: "view h T v = Some t \<Longrightarrow> reach h T v \<subseteq> {..<length h}"
proof (induction T arbitrary: v t rule: gotype_induct)
  case (Struct fs)
  then show ?case using reach_fields_allocated [of fs h] by (auto split: goval.splits)
next
  case (Slice T)
  have "reach h T w \<subseteq> {..<length h}" if "list_all2 (\<lambda>w t. view h T w = Some t) ws ts" "w \<in> set ws" for w ws ts
    using list_all2_left [OF that] Slice.IH by blast
  with Slice.prems show ?case
    by (fastforce simp: all_some_iff split: goval.splits option.splits cell.splits dest: load_Some)
next
  case (Map T)
  have "reach h T (snd e) \<subseteq> {..<length h}" if "list_all2 (\<lambda>e t. view h T (snd e) = Some t) es ts" "e \<in> set es" for e es ts
    using list_all2_left [OF that] Map.IH by blast
  with Map.prems show ?case
    by (fastforce simp: all_some_iff split: goval.splits option.splits cell.splits dest: load_Some)
qed (fastforce split: goval.splits option.splits cell.splits dest: load_Some)+

lemma view_extended:
  assumes "view h T v = Some t"
  shows "view (h @ cs) T v = Some t" "reach (h @ cs) T v = reach h T v"
proof -
  have "agree h (h @ cs) (reach h T v)" using reach_allocated [OF assms] by (auto simp: agree_def load_append)
  from view_agree [OF this] assms show "view (h @ cs) T v = Some t" "reach (h @ cs) T v = reach h T v" by simp_all
qed

text \<open>A write outside the reach of a value leaves its content alone.\<close>

lemma view_framed: "a \<notin> reach h T v \<Longrightarrow> view (h[a := c]) T v = view h T v"
  by (rule conjunct1 [OF view_agree]) (metis agree_def load_update)

section \<open>Copies\<close>

text \<open>What a copy of a value with content \<open>t\<close> promises: nothing that was allocated changes, the result has the
  content, and all the cells it refers to are new.\<close>

definition copied :: "gotype \<Rightarrow> content \<Rightarrow> heap \<Rightarrow> goval \<Rightarrow> heap \<Rightarrow> bool" where
  "copied T t h v' h' \<longleftrightarrow> (\<exists>cs. h' = h @ cs) \<and> view h' T v' = Some t \<and> reach h' T v' \<subseteq> {length h..}"

definition deep_copies :: "gotype \<Rightarrow> (goval \<Rightarrow> goval store) \<Rightarrow> bool" where
  "deep_copies T f \<longleftrightarrow> (\<forall>h v t. view h T v = Some t \<longrightarrow> wp (f v) (copied T t h) h)"

lemma deep_copiesI: "(\<And>h v t. view h T v = Some t \<Longrightarrow> wp (f v) (copied T t h) h) \<Longrightarrow> deep_copies T f"
  by (simp add: deep_copies_def)

lemma deep_copiesD: "deep_copies T f \<Longrightarrow> view h T v = Some t \<Longrightarrow> wp (f v) (copied T t h) h"
  by (simp add: deep_copies_def)

lemma copied_extended: "copied T t h v' h' \<Longrightarrow> copied T t h v' (h' @ cs)"
  unfolding copied_def using view_extended [of h' T v' t cs] by auto

lemma copied_later: "copied T t (h @ cs) v' h' \<Longrightarrow> copied T t h v' h'"
  unfolding copied_def by auto

lemma wp_alloc [wp_rules, simp]: "wp (alloc c) Q h \<longleftrightarrow> Q (length h) (h @ [c])"
  by (simp add: wp_def alloc_def)

lemma wp_read_cell [wp_rules, simp]: "wp (read_cell a) Q h \<longleftrightarrow> Q (load h a) h"
  by (simp add: wp_def read_cell_def)

lemma load_new: "load (h @ [c]) (length h) = Some c"
  by (simp add: load_def)

text \<open>A value without references is copied by assignment.\<close>

fun flat :: "gotype \<Rightarrow> bool" and flat_fields :: "(string \<times> gotype) list \<Rightarrow> bool" where
  "flat (TBasic k) = True"
| "flat (TStruct fs) = flat_fields fs"
| "flat (TPtr T) = False"
| "flat (TSlice T) = False"
| "flat (TMap T) = False"
| "flat_fields [] = True"
| "flat_fields (f # fs) = (flat (snd f) \<and> flat_fields fs)"

lemma flat_fields_all: "flat_fields fs \<longleftrightarrow> (\<forall>f\<in>set fs. flat (snd f))"
  by (induction fs) auto

lemma reach_flat: "flat T \<Longrightarrow> reach h T v = {}"
proof (induction T arbitrary: v rule: gotype_induct)
  case (Struct fs)
  have "(\<And>f v. f \<in> set fs \<Longrightarrow> reach h (snd f) v = {}) \<Longrightarrow> reach_fields h fs vs = {}" for vs
    by (induction fs arbitrary: vs) (auto split: list.split)
  with Struct show ?case by (simp add: flat_fields_all split: goval.split)
qed simp_all

lemma copies_assign [copy_rules]: "flat T \<Longrightarrow> deep_copies T ret"
  by (rule deep_copiesI) (simp add: copied_def reach_flat)

lemma copies_ptr [copy_rules]:
  assumes "deep_copies T f"
  shows "deep_copies (TPtr T) (copy_ptr f)"
proof (rule deep_copiesI)
  fix h v t assume v: "view h (TPtr T) v = Some t"
  then consider "v = Ptr None" "t = NilRef"
    | a w t' where "v = Ptr (Some a)" "load h a = Some (Cell w)" "view h T w = Some t'" "t = Target t'"
    by (auto split: goval.splits option.splits cell.splits)
  then show "wp (copy_ptr f v) (copied (TPtr T) t h) h"
  proof cases
    case 2
    have "copied (TPtr T) t h (Ptr (Some (length h'))) (h' @ [Cell w'])" if "copied T t' h w' h'" for w' h'
      using that view_extended [of h' T w' t' "[Cell w']"] by (auto simp: copied_def load_new 2(4))
    with deep_copiesD [OF assms 2(3)] 2(1,2) show ?thesis by (auto simp: copy_ptr_def intro: wp_conseq)
  qed (simp add: copy_ptr_def copied_def)
qed

text \<open>Elements copied one after the other.\<close>

definition elements_copied :: "gotype \<Rightarrow> content list \<Rightarrow> heap \<Rightarrow> goval list \<Rightarrow> heap \<Rightarrow> bool" where
  "elements_copied T ts h ws' h' \<longleftrightarrow> (\<exists>cs. h' = h @ cs) \<and> list_all2 (\<lambda>w t. copied T t h w h') ws' ts"

lemma copies_elements:
  assumes "deep_copies T f" and "list_all2 (\<lambda>w t. view h T w = Some t) ws ts"
  shows "wp (copy_elements f ws) (elements_copied T ts h) h"
  using assms(2)
proof (induction ws arbitrary: ts h)
  case (Cons w ws)
  then obtain t ts' where ts: "ts = t # ts'" "view h T w = Some t" "list_all2 (\<lambda>w t. view h T w = Some t) ws ts'"
    by (auto simp: list_all2_Cons1)
  have step: "wp (copy_elements f ws) (\<lambda>ws' h2. elements_copied T ts h (w' # ws') h2) h1" if c: "copied T t h w' h1" for w' h1
  proof -
    obtain cs where h1: "h1 = h @ cs" using c by (auto simp: copied_def)
    have "list_all2 (\<lambda>w t. view h1 T w = Some t) ws ts'"
      using ts(3) unfolding h1 by (rule list_all2_mono) (rule view_extended)
    from Cons.IH [OF this] show ?thesis
    proof (rule wp_conseq)
      fix ws' h2 assume r: "elements_copied T ts' h1 ws' h2"
      then have "copied T t h w' h2" using copied_extended [OF c] by (auto simp: elements_copied_def)
      moreover have "list_all2 (\<lambda>w t. copied T t h w h2) ws' ts'"
        using r copied_later unfolding elements_copied_def h1 by (blast intro: list_all2_mono)
      ultimately show "elements_copied T ts h (w' # ws') h2" using r h1 by (auto simp: elements_copied_def ts(1))
    qed
  qed
  show ?case using deep_copiesD [OF assms(1) ts(2)] by (auto elim!: wp_conseq dest!: step)
qed (simp add: elements_copied_def)

text \<open>The new cell of a slice or a map.\<close>

lemma elements_allocated:
  assumes "elements_copied T ts h ws' h'"
  shows "list_all2 (\<lambda>w t. copied T t h w (h' @ [c])) ws' ts" "length h \<le> length h'" "\<exists>cs. h' = h @ cs"
proof -
  have "list_all2 (\<lambda>w t. copied T t h w h') ws' ts" using assms by (simp add: elements_copied_def)
  then show "list_all2 (\<lambda>w t. copied T t h w (h' @ [c])) ws' ts" by (rule list_all2_mono) (rule copied_extended)
qed (use assms in \<open>auto simp: elements_copied_def\<close>)

lemma elements_reach:
  assumes "list_all2 (\<lambda>w t. copied T t h w h') ws' ts"
  shows "list_all2 (\<lambda>w t. view h' T w = Some t) ws' ts" "\<forall>w\<in>set ws'. reach h' T w \<subseteq> {length h..}"
proof -
  show "list_all2 (\<lambda>w t. view h' T w = Some t) ws' ts" using assms by (rule list_all2_mono) (simp add: copied_def)
  show "\<forall>w\<in>set ws'. reach h' T w \<subseteq> {length h..}" using list_all2_left [OF assms] by (auto simp: copied_def)
qed

lemma copies_slice [copy_rules]:
  assumes "deep_copies T f"
  shows "deep_copies (TSlice T) (copy_slice f)"
proof (rule deep_copiesI)
  fix h v t assume v: "view h (TSlice T) v = Some t"
  then consider "v = Slice None" "t = NilRef"
    | a ws ts where "v = Slice (Some a)" "load h a = Some (Array ws)" "list_all2 (\<lambda>w t. view h T w = Some t) ws ts" "t = Elements ts"
    by (auto simp: all_some_iff split: goval.splits option.splits cell.splits)
  then show "wp (copy_slice f v) (copied (TSlice T) t h) h"
  proof cases
    case 2
    have "copied (TSlice T) t h (Slice (Some (length h'))) (h' @ [Array ws'])" if "elements_copied T ts h ws' h'" for ws' h'
      using elements_reach [OF elements_allocated(1) [OF that, of "Array ws'"]] elements_allocated(2,3) [OF that]
      by (auto simp: copied_def load_new 2(4) all_some_iff)
    with copies_elements [OF assms 2(3)] 2(1,2) show ?thesis by (auto simp: copy_slice_def intro: wp_conseq)
  qed (simp add: copy_slice_def copied_def)
qed

lemma copies_map [copy_rules]:
  assumes "deep_copies T f"
  shows "deep_copies (TMap T) (copy_map f)"
proof (rule deep_copiesI)
  fix h v t assume v: "view h (TMap T) v = Some t"
  then consider "v = Map None" "t = NilRef"
    | a es ts where "v = Map (Some a)" "load h a = Some (Table es)" "list_all2 (\<lambda>w t. view h T w = Some t) (map snd es) ts"
        "t = Entries (zip (map fst es) ts)"
    by (auto simp: all_some_iff list_all2_map1 split: goval.splits option.splits cell.splits)
  then show "wp (copy_map f v) (copied (TMap T) t h) h"
  proof cases
    case 2
    have "copied (TMap T) t h (Map (Some (length h'))) (h' @ [Table (zip (map fst es) ws')])"
      if "elements_copied T ts h ws' h'" for ws' h'
    proof -
      let ?es = "zip (map fst es) ws'"
      have "length ws' = length es"
        using that 2(3) by (auto simp: elements_copied_def dest!: list_all2_lengthD)
      then have zip: "map fst ?es = map fst es" "map snd ?es = ws'" by simp_all
      note r = elements_reach [OF elements_allocated(1) [OF that, of "Table ?es"]]
      have "list_all2 (\<lambda>w t. view (h' @ [Table ?es]) T w = Some t) (map snd ?es) ts" using r(1) by (simp only: zip(2))
      then have "list_all2 (\<lambda>e t. view (h' @ [Table ?es]) T (snd e) = Some t) ?es ts" by (simp only: list_all2_map1)
      moreover have "\<forall>e\<in>set ?es. reach (h' @ [Table ?es]) T (snd e) \<subseteq> {length h..}"
        using r(2) zip(2) by (metis imageI list.set_map)
      ultimately show ?thesis
        using elements_allocated(2,3) [OF that] by (auto simp: copied_def load_new 2(4) all_some_iff zip)
    qed
    with copies_elements [OF assms 2(3)] 2(1,2) show ?thesis by (auto simp: copy_map_def intro: wp_conseq)
  qed (simp add: copy_map_def copied_def)
qed

text \<open>The fields of a struct, by name.\<close>

lemma view_fields_Some:
  assumes "distinct (map fst fs)" and "view_fields h fs vs = Some ts"
  shows "map fst vs = map fst fs \<and> map fst ts = map fst fs \<and>
    (\<forall>n T. map_of fs n = Some T \<longrightarrow> (\<exists>v t. map_of vs n = Some v \<and> map_of ts n = Some t \<and> view h T v = Some t))"
  using assms
proof (induction fs arbitrary: vs ts)
  case (Cons f fs)
  then obtain w ws t ts' where "vs = w # ws" "fst w = fst f" "view h (snd f) (snd w) = Some t"
      "view_fields h fs ws = Some ts'" "ts = (fst f, t) # ts'"
    by (auto split: list.splits option.splits if_splits)
  with Cons show ?case by (cases w, cases f) (fastforce split: if_splits)
qed (simp split: if_splits)

lemma view_fieldsI:
  assumes "distinct (map fst fs)" and "map fst vs = map fst fs" and "map fst ts = map fst fs"
    and "\<And>n T v t. map_of fs n = Some T \<Longrightarrow> map_of vs n = Some v \<Longrightarrow> map_of ts n = Some t \<Longrightarrow> view h T v = Some t"
  shows "view_fields h fs vs = Some ts"
  using assms
proof (induction fs arbitrary: vs ts)
  case (Cons f fs)
  then obtain v ws t ts' where vs: "vs = (fst f, v) # ws" "ts = (fst f, t) # ts'"
    by (cases vs; cases ts) (auto simp: prod_eq_iff)
  have "view h T' v' = Some t''" if "map_of fs n = Some T'" "map_of ws n = Some v'" "map_of ts' n = Some t''" for n T' v' t''
  proof -
    have "n \<noteq> fst f" using that(1) Cons.prems(1) by (auto dest: map_of_SomeD simp: rev_image_eqI)
    with that Cons.prems(4) [of n T' v' t''] show ?thesis by (cases f) (simp add: vs)
  qed
  with Cons.IH [of ws ts'] Cons.prems(1-3) have "view_fields h fs ws = Some ts'" by (simp add: vs)
  with Cons.prems(4) [of "fst f" "snd f" v t] show ?case by (cases f) (simp add: vs)
qed simp

lemma reach_fields_in:
  assumes "distinct (map fst fs)" and "map fst vs = map fst fs" and "a \<in> reach_fields h fs vs"
  shows "\<exists>n T v. map_of fs n = Some T \<and> map_of vs n = Some v \<and> a \<in> reach h T v"
  using assms
proof (induction fs arbitrary: vs)
  case (Cons f fs)
  then obtain v ws where vs: "vs = (fst f, v) # ws" by (cases vs) (auto simp: prod_eq_iff)
  show ?case
  proof (cases "a \<in> reach h (snd f) v")
    case True
    then show ?thesis by (intro exI [of _ "fst f"] exI [of _ "snd f"] exI [of _ v]) (cases f, simp add: vs)
  next
    case False
    with Cons.prems vs have "\<exists>n T v. map_of fs n = Some T \<and> map_of ws n = Some v \<and> a \<in> reach h T v"
      by (intro Cons.IH) auto
    then obtain n T x where x: "map_of fs n = Some T" "map_of ws n = Some x" "a \<in> reach h T x" by blast
    then have "n \<noteq> fst f" using Cons.prems(1) by (auto dest: map_of_SomeD simp: rev_image_eqI)
    with x show ?thesis by (intro exI [of _ n] exI [of _ T] exI [of _ x]) (cases f, simp add: vs)
  qed
qed simp

lemma map_of_set_field: "map_of (set_field n x vs) m = (if m = n then map_option (\<lambda>_. x) (map_of vs n) else map_of vs m)"
  unfolding set_field_def by (induction vs) auto

lemma names_set_field [simp]: "map fst (set_field n x vs) = map fst vs"
  unfolding set_field_def by (induction vs) auto

text \<open>Every field of \<open>out\<close> is a copy, except those whose statement is still to come.\<close>

definition fields_copied ::
  "(string \<times> gotype) list \<Rightarrow> (string \<times> content) list \<Rightarrow> heap \<Rightarrow> string list \<Rightarrow> (string \<times> goval) list \<Rightarrow> heap \<Rightarrow> bool" where
  "fields_copied fs ts h ns out h' \<longleftrightarrow> (\<exists>cs. h' = h @ cs) \<and> map fst out = map fst fs \<and>
     (\<forall>n T t v. map_of fs n = Some T \<longrightarrow> map_of ts n = Some t \<longrightarrow> map_of out n = Some v \<longrightarrow> n \<notin> set ns \<longrightarrow> copied T t h v h')"

lemma copies_fields:
  assumes "distinct (map fst fs)" and "view_fields h fs vs = Some ts"
    and "\<And>c T. c \<in> set cs \<Longrightarrow> map_of fs (fst c) = Some T \<Longrightarrow> deep_copies T (snd c)"
    and "fields_copied fs ts h (map fst cs) out h1"
  shows "wp (copy_fields cs vs out) (fields_copied fs ts h []) h1"
  using assms(3,4)
proof (induction cs arbitrary: out h1)
  case (Cons c cs)
  note fields = view_fields_Some [OF assms(1,2)]
  show ?case
  proof (cases "map_of vs (fst c)")
    case None
    have "map_of fs (fst c) = None" using None fields by (metis option.exhaust option.distinct(1))
    with Cons.prems(2) have "fields_copied fs ts h (map fst cs) out h1"
      by (auto simp: fields_copied_def) (metis option.distinct(1))
    with Cons.IH Cons.prems(1) None show ?thesis by simp
  next
    case (Some x)
    then have "fst c \<in> fst ` set fs" using fields by (metis (no_types) map_of_eq_None_iff list.set_map option.distinct(1))
    then obtain T t where T: "map_of fs (fst c) = Some T" "map_of ts (fst c) = Some t" "view h T x = Some t"
      using fields Some by (metis map_of_eq_None_iff not_None_eq option.sel)
    obtain k where h1: "h1 = h @ k" using Cons.prems(2) by (auto simp: fields_copied_def)
    have "wp (snd c x) (copied T t h1) h1"
      using deep_copiesD [OF Cons.prems(1) [of c T]] T(1) view_extended(1) [OF T(3), of k] by (simp add: h1)
    then show ?thesis
    proof (simp add: Some, elim wp_conseq)
      fix x' h2 assume x': "copied T t h1 x' h2"
      then obtain k2 where h2: "h2 = h1 @ k2" by (auto simp: copied_def)
      have "copied T t h x' h2" using x' copied_later unfolding h1 by blast
      then have "fields_copied fs ts h (map fst cs) (set_field (fst c) x' out) h2"
        using Cons.prems(2) copied_extended [of _ _ h _ h1 k2] T(1,2)
        unfolding fields_copied_def by (auto simp: h2 h1 map_of_set_field split: if_splits)
      with Cons.IH Cons.prems(1) show "wp (copy_fields cs vs (set_field (fst c) x' out)) (fields_copied fs ts h []) h2" by simp
    qed
  qed
qed simp

lemma copies_struct:
  assumes "distinct (map fst fs)" and "\<forall>f\<in>set fs. flat (snd f) \<or> fst f \<in> set (map fst cs)"
    and "\<And>c T. c \<in> set cs \<Longrightarrow> map_of fs (fst c) = Some T \<Longrightarrow> deep_copies T (snd c)"
  shows "deep_copies (TStruct fs) (copy_struct cs)"
proof (rule deep_copiesI)
  fix h v t assume "view h (TStruct fs) v = Some t"
  then obtain vs ts where v: "v = Struct vs" "view_fields h fs vs = Some ts" "t = Node ts" by (auto split: goval.splits)
  note fields = view_fields_Some [OF assms(1) v(2)]
  have "copied T t' h w h" if "map_of fs n = Some T" "map_of ts n = Some t'" "map_of vs n = Some w" "n \<notin> set (map fst cs)" for n T t' w
  proof -
    have "flat T" using assms(2) that(1,4) by (fastforce dest: map_of_SomeD)
    with that fields show ?thesis by (fastforce simp: copied_def reach_flat)
  qed
  with fields have "fields_copied fs ts h (map fst cs) vs h" by (auto simp: fields_copied_def)
  from copies_fields [OF assms(1) v(2) assms(3) this]
  have "wp (copy_fields cs vs vs) (fields_copied fs ts h []) h" .
  moreover have "copied (TStruct fs) t h (Struct out) h'" if out: "fields_copied fs ts h [] out h'" for out h'
  proof -
    have names: "map fst out = map fst fs" using out by (simp add: fields_copied_def)
    have "view_fields h' fs out = Some ts"
      using out fields by (intro view_fieldsI [OF assms(1) names]) (auto simp: fields_copied_def copied_def)
    moreover have "reach_fields h' fs out \<subseteq> {length h..}"
    proof
      fix a assume "a \<in> reach_fields h' fs out"
      then obtain n T w where w: "map_of fs n = Some T" "map_of out n = Some w" "a \<in> reach h' T w"
        using reach_fields_in [OF assms(1) names] by blast
      with fields out show "a \<in> {length h..}" unfolding fields_copied_def copied_def by fastforce
    qed
    ultimately show ?thesis using out by (auto simp: copied_def fields_copied_def v(3))
  qed
  ultimately show "wp (copy_struct cs v) (copied (TStruct fs) t h) h"
    by (auto simp: copy_struct_def v(1) intro: wp_conseq)
qed

section \<open>Independence\<close>

text \<open>Two references of type \<open>T\<close> with the same content that share nothing: whatever is written to the cells of
  one, the content of the other stays.\<close>

definition independent :: "gotype \<Rightarrow> content \<Rightarrow> goval \<Rightarrow> goval \<Rightarrow> heap \<Rightarrow> bool" where
  "independent T t p q h \<longleftrightarrow> view h T p = Some t \<and> view h T q = Some t \<and> reach h T p \<inter> reach h T q = {} \<and>
     (\<forall>a c. a \<in> reach h T p \<longrightarrow> view (h[a := c]) T q = Some t) \<and>
     (\<forall>a c. a \<in> reach h T q \<longrightarrow> view (h[a := c]) T p = Some t)"

text \<open>The contract of a \<open>DeepCopyInto\<close>, with what the callers of \<open>DeepCopy\<close> rely on.\<close>

locale deep_copier =
  fixes T :: gotype and into :: "goval \<Rightarrow> goval store"
  assumes copies: "deep_copies T into"
begin

lemma pointer_copied: "view h (TPtr T) p = Some t \<Longrightarrow> wp (copy_ptr into p) (copied (TPtr T) t h) h"
  by (rule deep_copiesD [OF copies_ptr [OF copies]])

lemma pointer_independent:
  assumes "view h (TPtr T) p = Some t" and "run_state (copy_ptr into p) h = (q, h')"
  shows "independent (TPtr T) t p q h'" "\<exists>cs. h' = h @ cs"
proof -
  have q: "copied (TPtr T) t h q h'" by (rule wp_elim [OF pointer_copied [OF assms(1)] assms(2)])
  then obtain cs where h': "h' = h @ cs" by (auto simp: copied_def)
  have p: "view h' (TPtr T) p = Some t" "reach h' (TPtr T) p \<subseteq> {..<length h}"
    using view_extended [OF assms(1), of cs] reach_allocated [OF assms(1)] unfolding h' by simp_all
  have "reach h' (TPtr T) q \<subseteq> {length h..}" using q by (simp only: copied_def)
  with p(2) have disjoint: "reach h' (TPtr T) p \<inter> reach h' (TPtr T) q = {}"
    by (metis disjoint_iff lessThan_iff atLeast_iff not_le subsetD)
  have qv: "view h' (TPtr T) q = Some t" using q by (simp only: copied_def)
  have "view (h'[a := c]) (TPtr T) q = Some t" if "a \<in> reach h' (TPtr T) p" for a c
    using view_framed [of a h' "TPtr T" q c] that disjoint qv by (metis disjoint_iff)
  moreover have "view (h'[a := c]) (TPtr T) p = Some t" if "a \<in> reach h' (TPtr T) q" for a c
    using view_framed [of a h' "TPtr T" p c] that disjoint p(1) by (metis disjoint_iff)
  ultimately show "independent (TPtr T) t p q h'" using p(1) qv disjoint
    unfolding independent_def by (intro conjI allI impI)
qed (use wp_elim [OF pointer_copied [OF assms(1)] assms(2)] in \<open>simp add: copied_def\<close>)

end

end
