(* ===== verification/Resource_Copies.thy ===== *)
theory Resource_Copies
  imports Deep_Copy
begin

text \<open>
  The structs of \<open>api/v1alpha1\<close> as types of the heap model, their generated copies
  (\<open>zz_generated.deepcopy.go\<close>) statement by statement, and those of the Kubernetes metadata they contain
  (\<open>apimachinery/pkg/apis/meta/v1\<close>). Each \<open>DeepCopyInto\<close> lists the statements that follow \<open>*out = *in\<close>; a field
  that is not listed keeps what the assignment gave it. \<open>v1.PodSpec\<close> is a type argument \<open>P\<close> with its copy \<open>podSpec\<close>.
  \<open>metav1.Time\<close> is a value: the location behind it is never written.
\<close>

section \<open>Types and copies\<close>

definition Time_type :: gotype where
  "Time_type = TBasic KTime"

definition Time_DeepCopyInto :: "goval \<Rightarrow> goval store" where
  "Time_DeepCopyInto = ret"

definition Time_DeepCopy :: "goval \<Rightarrow> goval store" where
  "Time_DeepCopy = copy_ptr Time_DeepCopyInto"

definition Boot_type :: gotype where
  "Boot_type = TStruct [(''CurrentBootMode'', TBasic KString), (''PxeInterface'', TBasic KString)]"

definition Boot_DeepCopyInto :: "goval \<Rightarrow> goval store" where
  "Boot_DeepCopyInto = copy_struct []"

definition Boot_DeepCopy :: "goval \<Rightarrow> goval store" where
  "Boot_DeepCopy = copy_ptr Boot_DeepCopyInto"

definition CPU_type :: gotype where
  "CPU_type = TStruct [(''Architecture'', TBasic KString), (''Count'', TBasic KInt), (''Flags'', TSlice (TBasic KString)),
     (''Frequency'', TBasic KString), (''ModelName'', TBasic KString)]"

definition CPU_DeepCopyInto :: "goval \<Rightarrow> goval store" where
  "CPU_DeepCopyInto = copy_struct [(''Flags'', copy_slice ret)]"

definition CPU_DeepCopy :: "goval \<Rightarrow> goval store" where
  "CPU_DeepCopy = copy_ptr CPU_DeepCopyInto"

definition NameRef_type :: gotype where
  "NameRef_type = TStruct [(''Name'', TBasic KString)]"

definition NameRef_DeepCopyInto :: "goval \<Rightarrow> goval store" where
  "NameRef_DeepCopyInto = copy_struct []"

definition NameRef_DeepCopy :: "goval \<Rightarrow> goval store" where
  "NameRef_DeepCopy = copy_ptr NameRef_DeepCopyInto"

definition MetricsConfigEntity_type :: gotype where
  "MetricsConfigEntity_type = TStruct [(''Path'', TBasic KString), (''Port'', TBasic KInt), (''Disabled'', TBasic KBool)]"

definition MetricsConfigEntity_DeepCopyInto :: "goval \<Rightarrow> goval store" where
  "MetricsConfigEntity_DeepCopyInto = copy_struct []"

definition MetricsConfigEntity_DeepCopy :: "goval \<Rightarrow> goval store" where
  "MetricsConfigEntity_DeepCopy = copy_ptr MetricsConfigEntity_DeepCopyInto"

definition ContainerMetricsConfiguration_type :: gotype where
  "ContainerMetricsConfiguration_type = TStruct [(''Path'', TBasic KString), (''Port'', TBasic KInt), (''Interval'', TBasic KInt),
     (''AllowList'', TPtr NameRef_type), (''Containers'', TMap (TPtr MetricsConfigEntity_type))]"

definition ContainerMetricsConfiguration_DeepCopyInto :: "goval \<Rightarrow> goval store" where
  "ContainerMetricsConfiguration_DeepCopyInto = copy_struct [(''AllowList'', copy_ptr ret), (''Containers'', copy_map (copy_ptr ret))]"

definition ContainerMetricsConfiguration_DeepCopy :: "goval \<Rightarrow> goval store" where
  "ContainerMetricsConfiguration_DeepCopy = copy_ptr ContainerMetricsConfiguration_DeepCopyInto"

definition DataPath_type :: gotype where
  "DataPath_type = TStruct [(''Source'', TBasic KString), (''Target'', TBasic KString)]"

definition DataPath_DeepCopyInto :: "goval \<Rightarrow> goval store" where
  "DataPath_DeepCopyInto = copy_struct []"

definition DataPath_DeepCopy :: "goval \<Rightarrow> goval store" where
  "DataPath_DeepCopy = copy_ptr DataPath_DeepCopyInto"

definition DataConfiguration_type :: gotype where
  "DataConfiguration_type = TStruct [(''Paths'', TSlice DataPath_type)]"

definition DataConfiguration_DeepCopyInto :: "goval \<Rightarrow> goval store" where
  "DataConfiguration_DeepCopyInto = copy_struct [(''Paths'', copy_slice ret)]"

definition DataConfiguration_DeepCopy :: "goval \<Rightarrow> goval store" where
  "DataConfiguration_DeepCopy = copy_ptr DataConfiguration_DeepCopyInto"

definition Deployment_type :: gotype where
  "Deployment_type = TStruct [(''Name'', TBasic KString), (''Phase'', TBasic KString), (''LastTransitionTime'', Time_type),
     (''LastDataUpload'', Time_type)]"

definition Deployment_DeepCopyInto :: "goval \<Rightarrow> goval store" where
  "Deployment_DeepCopyInto = copy_struct [(''LastTransitionTime'', Time_DeepCopyInto), (''LastDataUpload'', Time_DeepCopyInto)]"

definition Deployment_DeepCopy :: "goval \<Rightarrow> goval store" where
  "Deployment_DeepCopy = copy_ptr Deployment_DeepCopyInto"

definition HardwareProfileConfiguration_type :: gotype where
  "HardwareProfileConfiguration_type = TStruct [(''Include'', TBasic KBool), (''Scope'', TBasic KString)]"

definition HardwareProfileConfiguration_DeepCopyInto :: "goval \<Rightarrow> goval store" where
  "HardwareProfileConfiguration_DeepCopyInto = copy_struct []"

definition HardwareProfileConfiguration_DeepCopy :: "goval \<Rightarrow> goval store" where
  "HardwareProfileConfiguration_DeepCopy = copy_ptr HardwareProfileConfiguration_DeepCopyInto"

definition HeartbeatConfiguration_type :: gotype where
  "HeartbeatConfiguration_type = TStruct [(''HardwareProfile'', TPtr HardwareProfileConfiguration_type), (''PeriodSeconds'', TBasic KInt)]"

definition HeartbeatConfiguration_DeepCopyInto :: "goval \<Rightarrow> goval store" where
  "HeartbeatConfiguration_DeepCopyInto = copy_struct [(''HardwareProfile'', copy_ptr ret)]"

definition HeartbeatConfiguration_DeepCopy :: "goval \<Rightarrow> goval store" where
  "HeartbeatConfiguration_DeepCopy = copy_ptr HeartbeatConfiguration_DeepCopyInto"

definition S3StorageConfiguration_type :: gotype where
  "S3StorageConfiguration_type = TStruct [(''BucketHost'', TBasic KString), (''BucketPort'', TBasic KInt), (''BucketName'', TBasic KString),
     (''BucketRegion'', TBasic KString), (''AWSAccessKey'', TBasic KString),
     (''AWSSecretAccessKey'', TBasic KString)]"

definition S3StorageConfiguration_DeepCopyInto :: "goval \<Rightarrow> goval store" where
  "S3StorageConfiguration_DeepCopyInto = copy_struct []"

definition S3StorageConfiguration_DeepCopy :: "goval \<Rightarrow> goval store" where
  "S3StorageConfiguration_DeepCopy = copy_ptr S3StorageConfiguration_DeepCopyInto"

definition StorageConfiguration_type :: gotype where
  "StorageConfiguration_type = TStruct [(''S3'', TPtr S3StorageConfiguration_type)]"

definition StorageConfiguration_DeepCopyInto :: "goval \<Rightarrow> goval store" where
  "StorageConfiguration_DeepCopyInto = copy_struct [(''S3'', copy_ptr ret)]"

definition StorageConfiguration_DeepCopy :: "goval \<Rightarrow> goval store" where
  "StorageConfiguration_DeepCopy = copy_ptr StorageConfiguration_DeepCopyInto"

definition DeviceConfiguration_type :: gotype where
  "DeviceConfiguration_type = TStruct [(''Heartbeat'', TPtr HeartbeatConfiguration_type), (''Storage'', TPtr StorageConfiguration_type)]"

definition DeviceConfiguration_DeepCopyInto :: "goval \<Rightarrow> goval store" where
  "DeviceConfiguration_DeepCopyInto = copy_struct [(''Heartbeat'', copy_ptr HeartbeatConfiguration_DeepCopyInto),
     (''Storage'', copy_ptr StorageConfiguration_DeepCopyInto)]"

definition DeviceConfiguration_DeepCopy :: "goval \<Rightarrow> goval store" where
  "DeviceConfiguration_DeepCopy = copy_ptr DeviceConfiguration_DeepCopyInto"

definition IoPerf_type :: gotype where
  "IoPerf_type = TStruct [(''SyncDuration'', TBasic KInt)]"

definition IoPerf_DeepCopyInto :: "goval \<Rightarrow> goval store" where
  "IoPerf_DeepCopyInto = copy_struct []"

definition IoPerf_DeepCopy :: "goval \<Rightarrow> goval store" where
  "IoPerf_DeepCopy = copy_ptr IoPerf_DeepCopyInto"

definition Disk_type :: gotype where
  "Disk_type = TStruct [(''Bootable'', TBasic KBool), (''ByID'', TBasic KString), (''ByPath'', TBasic KString),
     (''DriveType'', TBasic KString), (''Hctl'', TBasic KString), (''ID'', TBasic KString),
     (''IoPerf'', TPtr IoPerf_type), (''IsInstallationMedia'', TBasic KBool), (''Model'', TBasic KString),
     (''Name'', TBasic KString), (''Path'', TBasic KString), (''Serial'', TBasic KString),
     (''SizeBytes'', TBasic KInt), (''Smart'', TBasic KString), (''Vendor'', TBasic KString),
     (''Wwn'', TBasic KString)]"

definition Disk_DeepCopyInto :: "goval \<Rightarrow> goval store" where
  "Disk_DeepCopyInto = copy_struct [(''IoPerf'', copy_ptr ret)]"

definition Disk_DeepCopy :: "goval \<Rightarrow> goval store" where
  "Disk_DeepCopy = copy_ptr Disk_DeepCopyInto"

definition TypeMeta_type :: gotype where
  "TypeMeta_type = TStruct [(''Kind'', TBasic KString), (''APIVersion'', TBasic KString)]"

definition OwnerReference_type :: gotype where
  "OwnerReference_type = TStruct [(''APIVersion'', TBasic KString), (''Kind'', TBasic KString), (''Name'', TBasic KString),
     (''UID'', TBasic KString), (''Controller'', TPtr (TBasic KBool)),
     (''BlockOwnerDeletion'', TPtr (TBasic KBool))]"

definition OwnerReference_DeepCopyInto :: "goval \<Rightarrow> goval store" where
  "OwnerReference_DeepCopyInto = copy_struct [(''Controller'', copy_ptr ret), (''BlockOwnerDeletion'', copy_ptr ret)]"

definition OwnerReference_DeepCopy :: "goval \<Rightarrow> goval store" where
  "OwnerReference_DeepCopy = copy_ptr OwnerReference_DeepCopyInto"

definition FieldsV1_type :: gotype where
  "FieldsV1_type = TStruct [(''Raw'', TSlice (TBasic KInt))]"

definition FieldsV1_DeepCopyInto :: "goval \<Rightarrow> goval store" where
  "FieldsV1_DeepCopyInto = copy_struct [(''Raw'', copy_slice ret)]"

definition FieldsV1_DeepCopy :: "goval \<Rightarrow> goval store" where
  "FieldsV1_DeepCopy = copy_ptr FieldsV1_DeepCopyInto"

definition ManagedFieldsEntry_type :: gotype where
  "ManagedFieldsEntry_type = TStruct [(''Manager'', TBasic KString), (''Operation'', TBasic KString), (''APIVersion'', TBasic KString),
     (''Time'', TPtr Time_type), (''FieldsType'', TBasic KString), (''FieldsV1'', TPtr FieldsV1_type)]"

definition ManagedFieldsEntry_DeepCopyInto :: "goval \<Rightarrow> goval store" where
  "ManagedFieldsEntry_DeepCopyInto = copy_struct [(''Time'', Time_DeepCopy), (''FieldsV1'', copy_ptr FieldsV1_DeepCopyInto)]"

definition ManagedFieldsEntry_DeepCopy :: "goval \<Rightarrow> goval store" where
  "ManagedFieldsEntry_DeepCopy = copy_ptr ManagedFieldsEntry_DeepCopyInto"

definition ObjectMeta_type :: gotype where
  "ObjectMeta_type = TStruct [(''Name'', TBasic KString), (''GenerateName'', TBasic KString), (''Namespace'', TBasic KString),
     (''SelfLink'', TBasic KString), (''UID'', TBasic KString), (''ResourceVersion'', TBasic KString),
     (''Generation'', TBasic KInt), (''CreationTimestamp'', Time_type), (''DeletionTimestamp'', TPtr Time_type),
     (''DeletionGracePeriodSeconds'', TPtr (TBasic KInt)), (''Labels'', TMap (TBasic KString)),
     (''Annotations'', TMap (TBasic KString)), (''OwnerReferences'', TSlice OwnerReference_type),
     (''Finalizers'', TSlice (TBasic KString)), (''ClusterName'', TBasic KString),
     (''ManagedFields'', TSlice ManagedFieldsEntry_type)]"

definition ObjectMeta_DeepCopyInto :: "goval \<Rightarrow> goval store" where
  "ObjectMeta_DeepCopyInto = copy_struct [(''CreationTimestamp'', Time_DeepCopyInto), (''DeletionTimestamp'', Time_DeepCopy),
     (''DeletionGracePeriodSeconds'', copy_ptr ret), (''Labels'', copy_map ret), (''Annotations'', copy_map ret),
     (''OwnerReferences'', copy_slice OwnerReference_DeepCopyInto), (''Finalizers'', copy_slice ret),
     (''ManagedFields'', copy_slice ManagedFieldsEntry_DeepCopyInto)]"

definition ObjectMeta_DeepCopy :: "goval \<Rightarrow> goval store" where
  "ObjectMeta_DeepCopy = copy_ptr ObjectMeta_DeepCopyInto"

definition LabelSelectorRequirement_type :: gotype where
  "LabelSelectorRequirement_type = TStruct [(''Key'', TBasic KString), (''Operator'', TBasic KString), (''Values'', TSlice (TBasic KString))]"

definition LabelSelectorRequirement_DeepCopyInto :: "goval \<Rightarrow> goval store" where
  "LabelSelectorRequirement_DeepCopyInto = copy_struct [(''Values'', copy_slice ret)]"

definition LabelSelectorRequirement_DeepCopy :: "goval \<Rightarrow> goval store" where
  "LabelSelectorRequirement_DeepCopy = copy_ptr LabelSelectorRequirement_DeepCopyInto"

definition LabelSelector_type :: gotype where
  "LabelSelector_type = TStruct [(''MatchLabels'', TMap (TBasic KString)), (''MatchExpressions'', TSlice LabelSelectorRequirement_type)]"

definition LabelSelector_DeepCopyInto :: "goval \<Rightarrow> goval store" where
  "LabelSelector_DeepCopyInto = copy_struct [(''MatchLabels'', copy_map ret), (''MatchExpressions'', copy_slice LabelSelectorRequirement_DeepCopyInto)]"

definition LabelSelector_DeepCopy :: "goval \<Rightarrow> goval store" where
  "LabelSelector_DeepCopy = copy_ptr LabelSelector_DeepCopyInto"

definition Pod_type :: "gotype \<Rightarrow> gotype" where
  "Pod_type P = TStruct [(''Spec'', P)]"

definition Pod_DeepCopyInto :: "(goval \<Rightarrow> goval store) \<Rightarrow> goval \<Rightarrow> goval store" where
  "Pod_DeepCopyInto podSpec = copy_struct [(''Spec'', podSpec)]"

definition Pod_DeepCopy :: "(goval \<Rightarrow> goval store) \<Rightarrow> goval \<Rightarrow> goval store" where
  "Pod_DeepCopy podSpec = copy_ptr (Pod_DeepCopyInto podSpec)"

definition ImageRegistriesConfiguration_type :: gotype where
  "ImageRegistriesConfiguration_type = TStruct [(''AuthFileSecret'', TPtr NameRef_type)]"

definition ImageRegistriesConfiguration_DeepCopyInto :: "goval \<Rightarrow> goval store" where
  "ImageRegistriesConfiguration_DeepCopyInto = copy_struct [(''AuthFileSecret'', copy_ptr ret)]"

definition ImageRegistriesConfiguration_DeepCopy :: "goval \<Rightarrow> goval store" where
  "ImageRegistriesConfiguration_DeepCopy = copy_ptr ImageRegistriesConfiguration_DeepCopyInto"

definition EdgeDeploymentSpec_type :: "gotype \<Rightarrow> gotype" where
  "EdgeDeploymentSpec_type P = TStruct [(''DeviceSelector'', TPtr LabelSelector_type), (''Device'', TBasic KString), (''Type'', TBasic KString),
     (''Pod'', Pod_type P), (''Data'', TPtr DataConfiguration_type),
     (''ImageRegistries'', TPtr ImageRegistriesConfiguration_type),
     (''Metrics'', TPtr ContainerMetricsConfiguration_type), (''LogCollection'', TBasic KString)]"

definition EdgeDeploymentSpec_DeepCopyInto :: "(goval \<Rightarrow> goval store) \<Rightarrow> goval \<Rightarrow> goval store" where
  "EdgeDeploymentSpec_DeepCopyInto podSpec = copy_struct [(''DeviceSelector'', copy_ptr LabelSelector_DeepCopyInto), (''Pod'', Pod_DeepCopyInto podSpec),
     (''Data'', copy_ptr DataConfiguration_DeepCopyInto),
     (''ImageRegistries'', copy_ptr ImageRegistriesConfiguration_DeepCopyInto),
     (''Metrics'', copy_ptr ContainerMetricsConfiguration_DeepCopyInto)]"

definition EdgeDeploymentSpec_DeepCopy :: "(goval \<Rightarrow> goval store) \<Rightarrow> goval \<Rightarrow> goval store" where
  "EdgeDeploymentSpec_DeepCopy podSpec = copy_ptr (EdgeDeploymentSpec_DeepCopyInto podSpec)"

definition EdgeDeploymentStatus_type :: gotype where
  "EdgeDeploymentStatus_type = TStruct []"

definition EdgeDeploymentStatus_DeepCopyInto :: "goval \<Rightarrow> goval store" where
  "EdgeDeploymentStatus_DeepCopyInto = copy_struct []"

definition EdgeDeploymentStatus_DeepCopy :: "goval \<Rightarrow> goval store" where
  "EdgeDeploymentStatus_DeepCopy = copy_ptr EdgeDeploymentStatus_DeepCopyInto"

definition EdgeDeployment_type :: "gotype \<Rightarrow> gotype" where
  "EdgeDeployment_type P = TStruct [(''TypeMeta'', TypeMeta_type), (''ObjectMeta'', ObjectMeta_type), (''Spec'', EdgeDeploymentSpec_type P),
     (''Status'', EdgeDeploymentStatus_type)]"

definition EdgeDeployment_DeepCopyInto :: "(goval \<Rightarrow> goval store) \<Rightarrow> goval \<Rightarrow> goval store" where
  "EdgeDeployment_DeepCopyInto podSpec = copy_struct [(''TypeMeta'', ret), (''ObjectMeta'', ObjectMeta_DeepCopyInto),
     (''Spec'', EdgeDeploymentSpec_DeepCopyInto podSpec), (''Status'', ret)]"

definition EdgeDeployment_DeepCopy :: "(goval \<Rightarrow> goval store) \<Rightarrow> goval \<Rightarrow> goval store" where
  "EdgeDeployment_DeepCopy podSpec = copy_ptr (EdgeDeployment_DeepCopyInto podSpec)"

definition EdgeDeployment_DeepCopyObject :: "(goval \<Rightarrow> goval store) \<Rightarrow> goval \<Rightarrow> goval store" where
  "EdgeDeployment_DeepCopyObject podSpec inn = do {
     c \<leftarrow> EdgeDeployment_DeepCopy podSpec inn;
     if c \<noteq> Ptr None then ret c else ret (Ptr None)
   }"

definition ListMeta_type :: gotype where
  "ListMeta_type = TStruct [(''SelfLink'', TBasic KString), (''ResourceVersion'', TBasic KString), (''Continue'', TBasic KString),
     (''RemainingItemCount'', TPtr (TBasic KInt))]"

definition ListMeta_DeepCopyInto :: "goval \<Rightarrow> goval store" where
  "ListMeta_DeepCopyInto = copy_struct [(''RemainingItemCount'', copy_ptr ret)]"

definition ListMeta_DeepCopy :: "goval \<Rightarrow> goval store" where
  "ListMeta_DeepCopy = copy_ptr ListMeta_DeepCopyInto"

definition EdgeDeploymentList_type :: "gotype \<Rightarrow> gotype" where
  "EdgeDeploymentList_type P = TStruct [(''TypeMeta'', TypeMeta_type), (''ListMeta'', ListMeta_type), (''Items'', TSlice (EdgeDeployment_type P))]"

definition EdgeDeploymentList_DeepCopyInto :: "(goval \<Rightarrow> goval store) \<Rightarrow> goval \<Rightarrow> goval store" where
  "EdgeDeploymentList_DeepCopyInto podSpec = copy_struct [(''TypeMeta'', ret), (''ListMeta'', ListMeta_DeepCopyInto),
     (''Items'', copy_slice (EdgeDeployment_DeepCopyInto podSpec))]"

definition EdgeDeploymentList_DeepCopy :: "(goval \<Rightarrow> goval store) \<Rightarrow> goval \<Rightarrow> goval store" where
  "EdgeDeploymentList_DeepCopy podSpec = copy_ptr (EdgeDeploymentList_DeepCopyInto podSpec)"

definition EdgeDeploymentList_DeepCopyObject :: "(goval \<Rightarrow> goval store) \<Rightarrow> goval \<Rightarrow> goval store" where
  "EdgeDeploymentList_DeepCopyObject podSpec inn = do {
     c \<leftarrow> EdgeDeploymentList_DeepCopy podSpec inn;
     if c \<noteq> Ptr None then ret c else ret (Ptr None)
   }"

definition OsInformation_type :: gotype where
  "OsInformation_type = TStruct [(''AutomaticallyUpgrade'', TBasic KBool), (''CommitID'', TBasic KString),
     (''HostedObjectsURL'', TBasic KString)]"

definition OsInformation_DeepCopyInto :: "goval \<Rightarrow> goval store" where
  "OsInformation_DeepCopyInto = copy_struct []"

definition OsInformation_DeepCopy :: "goval \<Rightarrow> goval store" where
  "OsInformation_DeepCopy = copy_ptr OsInformation_DeepCopyInto"

definition S3Storage_type :: gotype where
  "S3Storage_type = TStruct [(''SecretName'', TBasic KString), (''ConfigMapName'', TBasic KString), (''CreateOBC'', TBasic KBool)]"

definition S3Storage_DeepCopyInto :: "goval \<Rightarrow> goval store" where
  "S3Storage_DeepCopyInto = copy_struct []"

definition S3Storage_DeepCopy :: "goval \<Rightarrow> goval store" where
  "S3Storage_DeepCopy = copy_ptr S3Storage_DeepCopyInto"

definition Storage_type :: gotype where
  "Storage_type = TStruct [(''S3'', TPtr S3Storage_type)]"

definition Storage_DeepCopyInto :: "goval \<Rightarrow> goval store" where
  "Storage_DeepCopyInto = copy_struct [(''S3'', copy_ptr ret)]"

definition Storage_DeepCopy :: "goval \<Rightarrow> goval store" where
  "Storage_DeepCopy = copy_ptr Storage_DeepCopyInto"

definition Retention_type :: gotype where
  "Retention_type = TStruct [(''MaxMiB'', TBasic KInt), (''MaxHours'', TBasic KInt)]"

definition Retention_DeepCopyInto :: "goval \<Rightarrow> goval store" where
  "Retention_DeepCopyInto = copy_struct []"

definition Retention_DeepCopy :: "goval \<Rightarrow> goval store" where
  "Retention_DeepCopy = copy_ptr Retention_DeepCopyInto"

definition SystemMetricsConfiguration_type :: gotype where
  "SystemMetricsConfiguration_type = TStruct [(''Interval'', TBasic KInt), (''AllowList'', TPtr NameRef_type), (''Disabled'', TBasic KBool)]"

definition SystemMetricsConfiguration_DeepCopyInto :: "goval \<Rightarrow> goval store" where
  "SystemMetricsConfiguration_DeepCopyInto = copy_struct [(''AllowList'', copy_ptr ret)]"

definition SystemMetricsConfiguration_DeepCopy :: "goval \<Rightarrow> goval store" where
  "SystemMetricsConfiguration_DeepCopy = copy_ptr SystemMetricsConfiguration_DeepCopyInto"

definition MetricsConfiguration_type :: gotype where
  "MetricsConfiguration_type = TStruct [(''Retention'', TPtr Retention_type), (''SystemMetrics'', TPtr SystemMetricsConfiguration_type)]"

definition MetricsConfiguration_DeepCopyInto :: "goval \<Rightarrow> goval store" where
  "MetricsConfiguration_DeepCopyInto = copy_struct [(''Retention'', copy_ptr ret), (''SystemMetrics'', copy_ptr SystemMetricsConfiguration_DeepCopyInto)]"

definition MetricsConfiguration_DeepCopy :: "goval \<Rightarrow> goval store" where
  "MetricsConfiguration_DeepCopy = copy_ptr MetricsConfiguration_DeepCopyInto"

definition LogCollectionConfig_type :: gotype where
  "LogCollectionConfig_type = TStruct [(''Kind'', TBasic KString), (''BufferSize'', TBasic KInt), (''SyslogConfig'', TPtr NameRef_type)]"

definition LogCollectionConfig_DeepCopyInto :: "goval \<Rightarrow> goval store" where
  "LogCollectionConfig_DeepCopyInto = copy_struct [(''SyslogConfig'', copy_ptr ret)]"

definition LogCollectionConfig_DeepCopy :: "goval \<Rightarrow> goval store" where
  "LogCollectionConfig_DeepCopy = copy_ptr LogCollectionConfig_DeepCopyInto"

definition EdgeDeviceSpec_type :: gotype where
  "EdgeDeviceSpec_type = TStruct [(''OsInformation'', TPtr OsInformation_type), (''RequestTime'', TPtr Time_type),
     (''Heartbeat'', TPtr HeartbeatConfiguration_type), (''Storage'', TPtr Storage_type),
     (''Metrics'', TPtr MetricsConfiguration_type), (''LogCollection'', TMap (TPtr LogCollectionConfig_type))]"

definition EdgeDeviceSpec_DeepCopyInto :: "goval \<Rightarrow> goval store" where
  "EdgeDeviceSpec_DeepCopyInto = copy_struct [(''OsInformation'', copy_ptr ret), (''RequestTime'', Time_DeepCopy),
     (''Heartbeat'', copy_ptr HeartbeatConfiguration_DeepCopyInto), (''Storage'', copy_ptr Storage_DeepCopyInto),
     (''Metrics'', copy_ptr MetricsConfiguration_DeepCopyInto),
     (''LogCollection'', copy_map (copy_ptr LogCollectionConfig_DeepCopyInto))]"

definition EdgeDeviceSpec_DeepCopy :: "goval \<Rightarrow> goval store" where
  "EdgeDeviceSpec_DeepCopy = copy_ptr EdgeDeviceSpec_DeepCopyInto"

definition Gpu_type :: gotype where
  "Gpu_type = TStruct [(''Address'', TBasic KString), (''DeviceID'', TBasic KString), (''Name'', TBasic KString),
     (''Vendor'', TBasic KString), (''VendorID'', TBasic KString)]"

definition Gpu_DeepCopyInto :: "goval \<Rightarrow> goval store" where
  "Gpu_DeepCopyInto = copy_struct []"

definition Gpu_DeepCopy :: "goval \<Rightarrow> goval store" where
  "Gpu_DeepCopy = copy_ptr Gpu_DeepCopyInto"

definition Interface_type :: gotype where
  "Interface_type = TStruct [(''Biosdevname'', TBasic KString), (''ClientID'', TBasic KString), (''Flags'', TSlice (TBasic KString)),
     (''HasCarrier'', TBasic KBool), (''IPV4Addresses'', TSlice (TBasic KString)),
     (''IPV6Addresses'', TSlice (TBasic KString)), (''MacAddress'', TBasic KString), (''Mtu'', TBasic KInt),
     (''Name'', TBasic KString), (''Product'', TBasic KString), (''SpeedMbps'', TBasic KInt),
     (''Vendor'', TBasic KString)]"

definition Interface_DeepCopyInto :: "goval \<Rightarrow> goval store" where
  "Interface_DeepCopyInto = copy_struct [(''Flags'', copy_slice ret), (''IPV4Addresses'', copy_slice ret), (''IPV6Addresses'', copy_slice ret)]"

definition Interface_DeepCopy :: "goval \<Rightarrow> goval store" where
  "Interface_DeepCopy = copy_ptr Interface_DeepCopyInto"

definition Memory_type :: gotype where
  "Memory_type = TStruct [(''PhysicalBytes'', TBasic KInt), (''UsableBytes'', TBasic KInt)]"

definition Memory_DeepCopyInto :: "goval \<Rightarrow> goval store" where
  "Memory_DeepCopyInto = copy_struct []"

definition Memory_DeepCopy :: "goval \<Rightarrow> goval store" where
  "Memory_DeepCopy = copy_ptr Memory_DeepCopyInto"

definition SystemVendor_type :: gotype where
  "SystemVendor_type = TStruct [(''Manufacturer'', TBasic KString), (''ProductName'', TBasic KString), (''SerialNumber'', TBasic KString),
     (''Virtual'', TBasic KBool)]"

definition SystemVendor_DeepCopyInto :: "goval \<Rightarrow> goval store" where
  "SystemVendor_DeepCopyInto = copy_struct []"

definition SystemVendor_DeepCopy :: "goval \<Rightarrow> goval store" where
  "SystemVendor_DeepCopy = copy_ptr SystemVendor_DeepCopyInto"

definition Hardware_type :: gotype where
  "Hardware_type = TStruct [(''Boot'', TPtr Boot_type), (''CPU'', TPtr CPU_type), (''Disks'', TSlice (TPtr Disk_type)),
     (''Gpus'', TSlice (TPtr Gpu_type)), (''Hostname'', TBasic KString),
     (''Interfaces'', TSlice (TPtr Interface_type)), (''Memory'', TPtr Memory_type),
     (''SystemVendor'', TPtr SystemVendor_type)]"

definition Hardware_DeepCopyInto :: "goval \<Rightarrow> goval store" where
  "Hardware_DeepCopyInto = copy_struct [(''Boot'', copy_ptr ret), (''CPU'', copy_ptr CPU_DeepCopyInto),
     (''Disks'', copy_slice (copy_ptr Disk_DeepCopyInto)), (''Gpus'', copy_slice (copy_ptr ret)),
     (''Interfaces'', copy_slice (copy_ptr Interface_DeepCopyInto)), (''Memory'', copy_ptr ret),
     (''SystemVendor'', copy_ptr ret)]"

definition Hardware_DeepCopy :: "goval \<Rightarrow> goval store" where
  "Hardware_DeepCopy = copy_ptr Hardware_DeepCopyInto"

definition UpgradeInformation_type :: gotype where
  "UpgradeInformation_type = TStruct [(''CurrentCommitID'', TBasic KString), (''LastUpgradeStatus'', TBasic KString),
     (''LastUpgradeTime'', TBasic KString)]"

definition UpgradeInformation_DeepCopyInto :: "goval \<Rightarrow> goval store" where
  "UpgradeInformation_DeepCopyInto = copy_struct []"

definition UpgradeInformation_DeepCopy :: "goval \<Rightarrow> goval store" where
  "UpgradeInformation_DeepCopy = copy_ptr UpgradeInformation_DeepCopyInto"

definition EdgeDeviceStatus_type :: gotype where
  "EdgeDeviceStatus_type = TStruct [(''Phase'', TBasic KString), (''LastSeenTime'', Time_type), (''LastSyncedResourceVersion'', TBasic KString),
     (''Hardware'', TPtr Hardware_type), (''Deployments'', TSlice Deployment_type),
     (''DataOBC'', TPtr (TBasic KString)), (''UpgradeInformation'', TPtr UpgradeInformation_type)]"

definition EdgeDeviceStatus_DeepCopyInto :: "goval \<Rightarrow> goval store" where
  "EdgeDeviceStatus_DeepCopyInto = copy_struct [(''LastSeenTime'', Time_DeepCopyInto), (''Hardware'', copy_ptr Hardware_DeepCopyInto),
     (''Deployments'', copy_slice Deployment_DeepCopyInto), (''DataOBC'', copy_ptr ret),
     (''UpgradeInformation'', copy_ptr ret)]"

definition EdgeDeviceStatus_DeepCopy :: "goval \<Rightarrow> goval store" where
  "EdgeDeviceStatus_DeepCopy = copy_ptr EdgeDeviceStatus_DeepCopyInto"

definition EdgeDevice_type :: gotype where
  "EdgeDevice_type = TStruct [(''TypeMeta'', TypeMeta_type), (''ObjectMeta'', ObjectMeta_type), (''Spec'', EdgeDeviceSpec_type),
     (''Status'', EdgeDeviceStatus_type)]"

definition EdgeDevice_DeepCopyInto :: "goval \<Rightarrow> goval store" where
  "EdgeDevice_DeepCopyInto = copy_struct [(''TypeMeta'', ret), (''ObjectMeta'', ObjectMeta_DeepCopyInto), (''Spec'', EdgeDeviceSpec_DeepCopyInto),
     (''Status'', EdgeDeviceStatus_DeepCopyInto)]"

definition EdgeDevice_DeepCopy :: "goval \<Rightarrow> goval store" where
  "EdgeDevice_DeepCopy = copy_ptr EdgeDevice_DeepCopyInto"

definition EdgeDevice_DeepCopyObject :: "goval \<Rightarrow> goval store" where
  "EdgeDevice_DeepCopyObject inn = do {
     c \<leftarrow> EdgeDevice_DeepCopy inn;
     if c \<noteq> Ptr None then ret c else ret (Ptr None)
   }"

definition EdgeDeviceList_type :: gotype where
  "EdgeDeviceList_type = TStruct [(''TypeMeta'', TypeMeta_type), (''ListMeta'', ListMeta_type), (''Items'', TSlice EdgeDevice_type)]"

definition EdgeDeviceList_DeepCopyInto :: "goval \<Rightarrow> goval store" where
  "EdgeDeviceList_DeepCopyInto = copy_struct [(''TypeMeta'', ret), (''ListMeta'', ListMeta_DeepCopyInto), (''Items'', copy_slice EdgeDevice_DeepCopyInto)]"

definition EdgeDeviceList_DeepCopy :: "goval \<Rightarrow> goval store" where
  "EdgeDeviceList_DeepCopy = copy_ptr EdgeDeviceList_DeepCopyInto"

definition EdgeDeviceList_DeepCopyObject :: "goval \<Rightarrow> goval store" where
  "EdgeDeviceList_DeepCopyObject inn = do {
     c \<leftarrow> EdgeDeviceList_DeepCopy inn;
     if c \<noteq> Ptr None then ret c else ret (Ptr None)
   }"

definition Route_type :: gotype where
  "Route_type = TStruct [(''Destination'', TBasic KString), (''Family'', TBasic KInt), (''Gateway'', TBasic KString),
     (''Interface'', TBasic KString)]"

definition Route_DeepCopyInto :: "goval \<Rightarrow> goval store" where
  "Route_DeepCopyInto = copy_struct []"

definition Route_DeepCopy :: "goval \<Rightarrow> goval store" where
  "Route_DeepCopy = copy_ptr Route_DeepCopyInto"

section \<open>Every reference is copied\<close>

lemma flat_types [simp]:
  "flat Time_type"
  "flat Boot_type"
  "flat NameRef_type"
  "flat MetricsConfigEntity_type"
  "flat DataPath_type"
  "flat Deployment_type"
  "flat HardwareProfileConfiguration_type"
  "flat S3StorageConfiguration_type"
  "flat IoPerf_type"
  "flat TypeMeta_type"
  "flat EdgeDeploymentStatus_type"
  "flat OsInformation_type"
  "flat S3Storage_type"
  "flat Retention_type"
  "flat Gpu_type"
  "flat Memory_type"
  "flat SystemVendor_type"
  "flat UpgradeInformation_type"
  "flat Route_type"
  by (simp_all add: Time_type_def Boot_type_def NameRef_type_def MetricsConfigEntity_type_def DataPath_type_def Deployment_type_def HardwareProfileConfiguration_type_def S3StorageConfiguration_type_def IoPerf_type_def TypeMeta_type_def EdgeDeploymentStatus_type_def OsInformation_type_def S3Storage_type_def Retention_type_def Gpu_type_def Memory_type_def SystemVendor_type_def UpgradeInformation_type_def Route_type_def)

lemma Time_copies [copy_rules]: "deep_copies Time_type Time_DeepCopyInto" "deep_copies (TPtr Time_type) Time_DeepCopy"
  by (simp_all add: Time_DeepCopyInto_def Time_DeepCopy_def copy_rules)

text \<open>The rule for structs, with the fields checked one by one.\<close>

lemma copies_structI:
  assumes "T = TStruct fs" and "f = copy_struct cs" and "distinct (map fst fs)"
    and "list_all (\<lambda>p. flat (snd p) \<or> List.member (map fst cs) (fst p)) fs"
    and "list_all (\<lambda>c. case map_of fs (fst c) of None \<Rightarrow> True | Some T \<Rightarrow> deep_copies T (snd c)) cs"
  shows "deep_copies T f"
  unfolding assms(1,2) using assms(3-5)
  by (intro copies_struct) (auto simp: list_all_iff List.member_iff split: option.splits)

lemma Boot_copies [copy_rules]: "deep_copies Boot_type Boot_DeepCopyInto"
  by (rule copies_structI [OF Boot_type_def Boot_DeepCopyInto_def]) (simp_all add: copy_rules)

lemma CPU_copies [copy_rules]: "deep_copies CPU_type CPU_DeepCopyInto"
  by (rule copies_structI [OF CPU_type_def CPU_DeepCopyInto_def]) (simp_all add: copy_rules)

lemma NameRef_copies [copy_rules]: "deep_copies NameRef_type NameRef_DeepCopyInto"
  by (rule copies_structI [OF NameRef_type_def NameRef_DeepCopyInto_def]) (simp_all add: copy_rules)

lemma MetricsConfigEntity_copies [copy_rules]: "deep_copies MetricsConfigEntity_type MetricsConfigEntity_DeepCopyInto"
  by (rule copies_structI [OF MetricsConfigEntity_type_def MetricsConfigEntity_DeepCopyInto_def]) (simp_all add: copy_rules)

lemma ContainerMetricsConfiguration_copies [copy_rules]: "deep_copies ContainerMetricsConfiguration_type ContainerMetricsConfiguration_DeepCopyInto"
  by (rule copies_structI [OF ContainerMetricsConfiguration_type_def ContainerMetricsConfiguration_DeepCopyInto_def]) (simp_all add: copy_rules)

lemma DataPath_copies [copy_rules]: "deep_copies DataPath_type DataPath_DeepCopyInto"
  by (rule copies_structI [OF DataPath_type_def DataPath_DeepCopyInto_def]) (simp_all add: copy_rules)

lemma DataConfiguration_copies [copy_rules]: "deep_copies DataConfiguration_type DataConfiguration_DeepCopyInto"
  by (rule copies_structI [OF DataConfiguration_type_def DataConfiguration_DeepCopyInto_def]) (simp_all add: copy_rules)

lemma Deployment_copies [copy_rules]: "deep_copies Deployment_type Deployment_DeepCopyInto"
  by (rule copies_structI [OF Deployment_type_def Deployment_DeepCopyInto_def]) (simp_all add: copy_rules)

lemma HardwareProfileConfiguration_copies [copy_rules]: "deep_copies HardwareProfileConfiguration_type HardwareProfileConfiguration_DeepCopyInto"
  by (rule copies_structI [OF HardwareProfileConfiguration_type_def HardwareProfileConfiguration_DeepCopyInto_def]) (simp_all add: copy_rules)

lemma HeartbeatConfiguration_copies [copy_rules]: "deep_copies HeartbeatConfiguration_type HeartbeatConfiguration_DeepCopyInto"
  by (rule copies_structI [OF HeartbeatConfiguration_type_def HeartbeatConfiguration_DeepCopyInto_def]) (simp_all add: copy_rules)

lemma S3StorageConfiguration_copies [copy_rules]: "deep_copies S3StorageConfiguration_type S3StorageConfiguration_DeepCopyInto"
  by (rule copies_structI [OF S3StorageConfiguration_type_def S3StorageConfiguration_DeepCopyInto_def]) (simp_all add: copy_rules)

lemma StorageConfiguration_copies [copy_rules]: "deep_copies StorageConfiguration_type StorageConfiguration_DeepCopyInto"
  by (rule copies_structI [OF StorageConfiguration_type_def StorageConfiguration_DeepCopyInto_def]) (simp_all add: copy_rules)

lemma DeviceConfiguration_copies [copy_rules]: "deep_copies DeviceConfiguration_type DeviceConfiguration_DeepCopyInto"
  by (rule copies_structI [OF DeviceConfiguration_type_def DeviceConfiguration_DeepCopyInto_def]) (simp_all add: copy_rules)

lemma IoPerf_copies [copy_rules]: "deep_copies IoPerf_type IoPerf_DeepCopyInto"
  by (rule copies_structI [OF IoPerf_type_def IoPerf_DeepCopyInto_def]) (simp_all add: copy_rules)

lemma Disk_copies [copy_rules]: "deep_copies Disk_type Disk_DeepCopyInto"
  by (rule copies_structI [OF Disk_type_def Disk_DeepCopyInto_def]) (simp_all add: copy_rules)

lemma OwnerReference_copies [copy_rules]: "deep_copies OwnerReference_type OwnerReference_DeepCopyInto"
  by (rule copies_structI [OF OwnerReference_type_def OwnerReference_DeepCopyInto_def]) (simp_all add: copy_rules)

lemma FieldsV1_copies [copy_rules]: "deep_copies FieldsV1_type FieldsV1_DeepCopyInto"
  by (rule copies_structI [OF FieldsV1_type_def FieldsV1_DeepCopyInto_def]) (simp_all add: copy_rules)

lemma ManagedFieldsEntry_copies [copy_rules]: "deep_copies ManagedFieldsEntry_type ManagedFieldsEntry_DeepCopyInto"
  by (rule copies_structI [OF ManagedFieldsEntry_type_def ManagedFieldsEntry_DeepCopyInto_def]) (simp_all add: copy_rules)

lemma ObjectMeta_copies [copy_rules]: "deep_copies ObjectMeta_type ObjectMeta_DeepCopyInto"
  by (rule copies_structI [OF ObjectMeta_type_def ObjectMeta_DeepCopyInto_def]) (simp_all add: copy_rules)

lemma LabelSelectorRequirement_copies [copy_rules]: "deep_copies LabelSelectorRequirement_type LabelSelectorRequirement_DeepCopyInto"
  by (rule copies_structI [OF LabelSelectorRequirement_type_def LabelSelectorRequirement_DeepCopyInto_def]) (simp_all add: copy_rules)

lemma LabelSelector_copies [copy_rules]: "deep_copies LabelSelector_type LabelSelector_DeepCopyInto"
  by (rule copies_structI [OF LabelSelector_type_def LabelSelector_DeepCopyInto_def]) (simp_all add: copy_rules)

lemma Pod_copies [copy_rules]: "deep_copies P podSpec \<Longrightarrow> deep_copies (Pod_type P) (Pod_DeepCopyInto podSpec)"
  by (rule copies_structI [OF Pod_type_def Pod_DeepCopyInto_def]) (simp_all add: copy_rules)

lemma ImageRegistriesConfiguration_copies [copy_rules]: "deep_copies ImageRegistriesConfiguration_type ImageRegistriesConfiguration_DeepCopyInto"
  by (rule copies_structI [OF ImageRegistriesConfiguration_type_def ImageRegistriesConfiguration_DeepCopyInto_def]) (simp_all add: copy_rules)

lemma EdgeDeploymentSpec_copies [copy_rules]: "deep_copies P podSpec \<Longrightarrow> deep_copies (EdgeDeploymentSpec_type P) (EdgeDeploymentSpec_DeepCopyInto podSpec)"
  by (rule copies_structI [OF EdgeDeploymentSpec_type_def EdgeDeploymentSpec_DeepCopyInto_def]) (simp_all add: copy_rules)

lemma EdgeDeploymentStatus_copies [copy_rules]: "deep_copies EdgeDeploymentStatus_type EdgeDeploymentStatus_DeepCopyInto"
  by (rule copies_structI [OF EdgeDeploymentStatus_type_def EdgeDeploymentStatus_DeepCopyInto_def]) (simp_all add: copy_rules)

lemma EdgeDeployment_copies [copy_rules]: "deep_copies P podSpec \<Longrightarrow> deep_copies (EdgeDeployment_type P) (EdgeDeployment_DeepCopyInto podSpec)"
  by (rule copies_structI [OF EdgeDeployment_type_def EdgeDeployment_DeepCopyInto_def]) (simp_all add: copy_rules)

lemma ListMeta_copies [copy_rules]: "deep_copies ListMeta_type ListMeta_DeepCopyInto"
  by (rule copies_structI [OF ListMeta_type_def ListMeta_DeepCopyInto_def]) (simp_all add: copy_rules)

lemma EdgeDeploymentList_copies [copy_rules]: "deep_copies P podSpec \<Longrightarrow> deep_copies (EdgeDeploymentList_type P) (EdgeDeploymentList_DeepCopyInto podSpec)"
  by (rule copies_structI [OF EdgeDeploymentList_type_def EdgeDeploymentList_DeepCopyInto_def]) (simp_all add: copy_rules)

lemma OsInformation_copies [copy_rules]: "deep_copies OsInformation_type OsInformation_DeepCopyInto"
  by (rule copies_structI [OF OsInformation_type_def OsInformation_DeepCopyInto_def]) (simp_all add: copy_rules)

lemma S3Storage_copies [copy_rules]: "deep_copies S3Storage_type S3Storage_DeepCopyInto"
  by (rule copies_structI [OF S3Storage_type_def S3Storage_DeepCopyInto_def]) (simp_all add: copy_rules)

lemma Storage_copies [copy_rules]: "deep_copies Storage_type Storage_DeepCopyInto"
  by (rule copies_structI [OF Storage_type_def Storage_DeepCopyInto_def]) (simp_all add: copy_rules)

lemma Retention_copies [copy_rules]: "deep_copies Retention_type Retention_DeepCopyInto"
  by (rule copies_structI [OF Retention_type_def Retention_DeepCopyInto_def]) (simp_all add: copy_rules)

lemma SystemMetricsConfiguration_copies [copy_rules]: "deep_copies SystemMetricsConfiguration_type SystemMetricsConfiguration_DeepCopyInto"
  by (rule copies_structI [OF SystemMetricsConfiguration_type_def SystemMetricsConfiguration_DeepCopyInto_def]) (simp_all add: copy_rules)

lemma MetricsConfiguration_copies [copy_rules]: "deep_copies MetricsConfiguration_type MetricsConfiguration_DeepCopyInto"
  by (rule copies_structI [OF MetricsConfiguration_type_def MetricsConfiguration_DeepCopyInto_def]) (simp_all add: copy_rules)

lemma LogCollectionConfig_copies [copy_rules]: "deep_copies LogCollectionConfig_type LogCollectionConfig_DeepCopyInto"
  by (rule copies_structI [OF LogCollectionConfig_type_def LogCollectionConfig_DeepCopyInto_def]) (simp_all add: copy_rules)

lemma EdgeDeviceSpec_copies [copy_rules]: "deep_copies EdgeDeviceSpec_type EdgeDeviceSpec_DeepCopyInto"
  by (rule copies_structI [OF EdgeDeviceSpec_type_def EdgeDeviceSpec_DeepCopyInto_def]) (simp_all add: copy_rules)

lemma Gpu_copies [copy_rules]: "deep_copies Gpu_type Gpu_DeepCopyInto"
  by (rule copies_structI [OF Gpu_type_def Gpu_DeepCopyInto_def]) (simp_all add: copy_rules)

lemma Interface_copies [copy_rules]: "deep_copies Interface_type Interface_DeepCopyInto"
  by (rule copies_structI [OF Interface_type_def Interface_DeepCopyInto_def]) (simp_all add: copy_rules)

lemma Memory_copies [copy_rules]: "deep_copies Memory_type Memory_DeepCopyInto"
  by (rule copies_structI [OF Memory_type_def Memory_DeepCopyInto_def]) (simp_all add: copy_rules)

lemma SystemVendor_copies [copy_rules]: "deep_copies SystemVendor_type SystemVendor_DeepCopyInto"
  by (rule copies_structI [OF SystemVendor_type_def SystemVendor_DeepCopyInto_def]) (simp_all add: copy_rules)

lemma Hardware_copies [copy_rules]: "deep_copies Hardware_type Hardware_DeepCopyInto"
  by (rule copies_structI [OF Hardware_type_def Hardware_DeepCopyInto_def]) (simp_all add: copy_rules)

lemma UpgradeInformation_copies [copy_rules]: "deep_copies UpgradeInformation_type UpgradeInformation_DeepCopyInto"
  by (rule copies_structI [OF UpgradeInformation_type_def UpgradeInformation_DeepCopyInto_def]) (simp_all add: copy_rules)

lemma EdgeDeviceStatus_copies [copy_rules]: "deep_copies EdgeDeviceStatus_type EdgeDeviceStatus_DeepCopyInto"
  by (rule copies_structI [OF EdgeDeviceStatus_type_def EdgeDeviceStatus_DeepCopyInto_def]) (simp_all add: copy_rules)

lemma EdgeDevice_copies [copy_rules]: "deep_copies EdgeDevice_type EdgeDevice_DeepCopyInto"
  by (rule copies_structI [OF EdgeDevice_type_def EdgeDevice_DeepCopyInto_def]) (simp_all add: copy_rules)

lemma EdgeDeviceList_copies [copy_rules]: "deep_copies EdgeDeviceList_type EdgeDeviceList_DeepCopyInto"
  by (rule copies_structI [OF EdgeDeviceList_type_def EdgeDeviceList_DeepCopyInto_def]) (simp_all add: copy_rules)

lemma Route_copies [copy_rules]: "deep_copies Route_type Route_DeepCopyInto"
  by (rule copies_structI [OF Route_type_def Route_DeepCopyInto_def]) (simp_all add: copy_rules)

interpretation device_copy: deep_copier EdgeDevice_type EdgeDevice_DeepCopyInto
  by unfold_locales (rule EdgeDevice_copies)

interpretation device_list_copy: deep_copier EdgeDeviceList_type EdgeDeviceList_DeepCopyInto
  by unfold_locales (rule EdgeDeviceList_copies)

lemma deployment_copier: "deep_copies P podSpec \<Longrightarrow> deep_copier (EdgeDeployment_type P) (EdgeDeployment_DeepCopyInto podSpec)"
  by unfold_locales (rule EdgeDeployment_copies)

lemma deployment_list_copier:
  "deep_copies P podSpec \<Longrightarrow> deep_copier (EdgeDeploymentList_type P) (EdgeDeploymentList_DeepCopyInto podSpec)"
  by unfold_locales (rule EdgeDeploymentList_copies)

lemma DeepCopyObject_DeepCopy:
  "EdgeDevice_DeepCopyObject = EdgeDevice_DeepCopy" "EdgeDeviceList_DeepCopyObject = EdgeDeviceList_DeepCopy"
  "EdgeDeployment_DeepCopyObject podSpec = EdgeDeployment_DeepCopy podSpec"
  "EdgeDeploymentList_DeepCopyObject podSpec = EdgeDeploymentList_DeepCopy podSpec"
proof -
  have nil: "do { c \<leftarrow> m; if c \<noteq> Ptr None then ret c else ret (Ptr None) } = m" for m :: "goval store"
  proof -
    have "(\<lambda>c. if c \<noteq> Ptr None then ret c else ret (Ptr None)) = (ret :: goval \<Rightarrow> goval store)" by auto
    then show ?thesis by simp
  qed
  show "EdgeDevice_DeepCopyObject = EdgeDevice_DeepCopy" "EdgeDeviceList_DeepCopyObject = EdgeDeviceList_DeepCopy"
    "EdgeDeployment_DeepCopyObject podSpec = EdgeDeployment_DeepCopy podSpec"
    "EdgeDeploymentList_DeepCopyObject podSpec = EdgeDeploymentList_DeepCopy podSpec"
    by (simp_all add: fun_eq_iff EdgeDevice_DeepCopyObject_def EdgeDeviceList_DeepCopyObject_def
        EdgeDeployment_DeepCopyObject_def EdgeDeploymentList_DeepCopyObject_def nil)
qed

section \<open>Property\<close>

text \<open>C17: a deep copy of a device or a deployment, or of a list of them, has the content of the original and shares
  no memory with it: after the copy, a write to any cell behind one of them (a label, a status, an entry of a
  slice) leaves the content of the other as it was. So the copy that a patch is computed against is not changed
  by the changes that follow.\<close>

theorem resources_copied:
  assumes "deep_copies P podSpec"
    and "view h (TPtr EdgeDevice_type) d = Some t1" and "view h (TPtr (EdgeDeployment_type P)) e = Some t2"
    and "view h (TPtr EdgeDeviceList_type) ds = Some t3" and "view h (TPtr (EdgeDeploymentList_type P)) es = Some t4"
  shows "(case run_state (EdgeDevice_DeepCopy d) h of (d', h') \<Rightarrow> independent (TPtr EdgeDevice_type) t1 d d' h') \<and>
    (case run_state (EdgeDeployment_DeepCopy podSpec e) h of
       (e', h') \<Rightarrow> independent (TPtr (EdgeDeployment_type P)) t2 e e' h') \<and>
    (case run_state (EdgeDeviceList_DeepCopyObject ds) h of
       (ds', h') \<Rightarrow> independent (TPtr EdgeDeviceList_type) t3 ds ds' h') \<and>
    (case run_state (EdgeDeploymentList_DeepCopyObject podSpec es) h of
       (es', h') \<Rightarrow> independent (TPtr (EdgeDeploymentList_type P)) t4 es es' h')"
  unfolding DeepCopyObject_DeepCopy EdgeDevice_DeepCopy_def EdgeDeviceList_DeepCopy_def EdgeDeployment_DeepCopy_def
    EdgeDeploymentList_DeepCopy_def
  using device_copy.pointer_independent(1) [OF assms(2)] device_list_copy.pointer_independent(1) [OF assms(4)]
    deep_copier.pointer_independent(1) [OF deployment_copier [OF assms(1)] assms(3)]
    deep_copier.pointer_independent(1) [OF deployment_list_copier [OF assms(1)] assms(5)]
  by (auto split: prod.split)

text \<open>A device in memory: \<open>zero_value\<close> is the zero value of a type; cell 0 holds the device, cell 1 its deployments.\<close>

fun zero_value :: "gotype \<Rightarrow> goval" and zero_fields :: "(string \<times> gotype) list \<Rightarrow> (string \<times> goval) list" where
  "zero_value (TBasic k) = Basic (case k of KString \<Rightarrow> GoString [] | KInt \<Rightarrow> GoInt 0 | KBool \<Rightarrow> GoBool False | KTime \<Rightarrow> GoTime 0)"
| "zero_value (TStruct fs) = Struct (zero_fields fs)"
| "zero_value (TPtr T) = Ptr None"
| "zero_value (TSlice T) = Slice None"
| "zero_value (TMap T) = Map None"
| "zero_fields [] = []"
| "zero_fields (f # fs) = (fst f, zero_value (snd f)) # zero_fields fs"

definition sample_device :: goval where
  "sample_device = (case zero_value EdgeDevice_type of
     Struct vs \<Rightarrow> Struct (set_field ''Status'' (case zero_value EdgeDeviceStatus_type of
       Struct ws \<Rightarrow> Struct (set_field ''Deployments'' (Slice (Some 1)) ws) | v \<Rightarrow> v) vs)
   | v \<Rightarrow> v)"

definition sample_heap :: heap where
  "sample_heap = [Cell sample_device, Array [zero_value Deployment_type]]"

definition sample_pod :: gotype where
  "sample_pod = TStruct [(''Containers'', TSlice (TBasic KString)), (''NodeName'', TBasic KString)]"

definition sample_pod_copy :: "goval \<Rightarrow> goval store" where
  "sample_pod_copy = copy_struct [(''Containers'', copy_slice ret)]"

lemma sample_pod_copies: "deep_copies sample_pod sample_pod_copy"
  by (rule copies_structI [OF sample_pod_def sample_pod_copy_def]) (simp_all add: copy_rules)

theorem resources_copied_witness:
  "\<exists>t. case run_state (EdgeDevice_DeepCopy (Ptr (Some 0))) sample_heap of (d', h') \<Rightarrow>
     d' \<noteq> Ptr (Some 0) \<and> 1 \<in> reach h' (TPtr EdgeDevice_type) (Ptr (Some 0)) \<and>
     view (h'[1 := Array []]) (TPtr EdgeDevice_type) d' = Some t \<and> view sample_heap (TPtr EdgeDevice_type) (Ptr (Some 0)) = Some t"
proof -
  have "view sample_heap (TPtr EdgeDevice_type) (Ptr (Some 0)) \<noteq> None" by code_simp
  then obtain t where t: "view sample_heap (TPtr EdgeDevice_type) (Ptr (Some 0)) = Some t" by blast
  obtain d' h' where run: "run_state (EdgeDevice_DeepCopy (Ptr (Some 0))) sample_heap = (d', h')" by (metis surj_pair)
  have "case run_state (EdgeDevice_DeepCopy (Ptr (Some 0))) sample_heap of (d', h') \<Rightarrow>
      d' \<noteq> Ptr (Some 0) \<and> 1 \<in> reach h' (TPtr EdgeDevice_type) (Ptr (Some 0))" by code_simp
  moreover have "independent (TPtr EdgeDevice_type) t (Ptr (Some 0)) d' h'"
    using resources_copied [OF sample_pod_copies t, of "Ptr None" NilRef "Ptr None" NilRef "Ptr None" NilRef] run by simp
  ultimately show ?thesis using run t unfolding independent_def by (intro exI [of _ t]) auto
qed

end
