(* ===== verification/Operator_System.thy ===== *)
theory Operator_System
  imports Labels_Controller Device_Controller Workload_Delivery
begin

text \<open>
  The operator as a whole: the three reconcilers of \<open>controllers\<close> and the handlers of \<open>internal/yggdrasil\<close> acting on
  the same cluster, and users who edit and delete resources. The steps are those of the previous theories;
  a reconciliation or a request is one step, and they follow each other in any order. Shown are an
  invariant of every reachable cluster and the way of a deployment from the reconciler to the device.
\<close>

section \<open>The reconcilers and the finalizers of the devices\<close>

lemma preserves_each [preserving]: "(\<And>d. preserves I (step d)) \<Longrightarrow> preserves I (for_each_device step ds)"
  by (induction ds) (auto intro!: preserving)

lemma preserves_concurrent:
  assumes "\<And>m. preserves I (k_sched E m)" and f: "\<And>ds. preserves I (f ds)"
  shows "preserves I (executeConcurrent E c f ds)"
proof -
  have "preserves I (run_slices f inputs order rv)" for inputs order rv
    by (induction order arbitrary: rv) (auto intro!: preserving f)
  with assms show ?thesis
    unfolding executeConcurrent_def ExecuteConcurrent_def
    by (auto split: option.split outcome.split intro!: preserving)
qed

context device_api
begin

lemma concurrent_preserves: "(\<And>ds. preserves (fins Q) (f ds)) \<Longrightarrow> preserves (fins Q) (executeConcurrent E c f ds)"
  by (rule preserves_concurrent [OF quiet_preserves [OF sched_keeps]])

lemma removeDeployment_preserves [preserving]: "preserves (fins Q) (removeDeploymentFromDevice E name d)"
  unfolding removeDeploymentFromDevice_def Let_def by (intro preserving) simp

lemma addDeployment_preserves [preserving]: "preserves (fins Q) (addDeploymentToDevice E name d)"
  unfolding addDeploymentToDevice_def by (intro preserving) simp

lemma dep_calls_preserve [preserving]:
  "preserves (fins Q) (dep_Read E n ns)" "preserves (fins Q) (dep_Patch E old new)"
  "preserves (fins Q) (getLabelledEdgeDevices E name ns)" "preserves (fins Q) (getMatchingEdgeDevices E dep)"
  "preserves (fins Q) (dep_RemoveFinalizer E dep f)" "preserves (fins Q) (updateLabelsFromSelector E dep)"
  unfolding dep_Read_def dep_Patch_def getLabelledEdgeDevices_def getMatchingEdgeDevices_def dev_ListForSelector_def
    dev_Read_def dep_RemoveFinalizer_def updateLabelsFromSelector_def Let_def
  by (auto intro!: preserving quiet_preserves [OF dep_get_keeps] quiet_preserves [OF dep_patch_keeps]
      quiet_preserves [OF get_keeps] quiet_preserves [OF list_keeps])

lemma dep_Reconcile_preserves: "preserves (fins Q) (dep_Reconcile E c n ns)"
proof -
  have batches: "preserves (fins Q) (addDeploymentsToDevices E c name ds)"
    "preserves (fins Q) (removeDeploymentFromNonMatchingDevices E c name ds ls)"
    "preserves (fins Q) (finalizeRemoval E c ds dep)" for name ds ls dep
    unfolding addDeploymentsToDevices_def removeDeploymentFromNonMatchingDevices_def removeUnlessMatching_def
      finalizeRemoval_def removeDeploymentFromDevices_def
    by (auto intro!: preserving concurrent_preserves split: option.split outcome.split)
  then have "preserves (fins Q) (reconcile_devices E c dep)" for dep
    unfolding reconcile_devices_def Let_def
    by (auto intro!: preserving split: option.split outcome.split)
  then show ?thesis unfolding dep_Reconcile_def by (auto intro!: preserving)
qed

lemma dev_Reconcile_preserves: "preserves (fins Q) (dev_Reconcile E auto n ns)"
  unfolding dev_Reconcile_def dev_Read_def createOrGetObc_def GetClaim_def CreateClaim_def addObcReference_def
  by (auto intro!: preserving quiet_preserves [OF get_keeps] quiet_preserves [OF obc_get_keeps]
      quiet_preserves [OF obc_create_keeps])

text \<open>The labels reconciler patches the metadata towards what the status patch returned: the finalizers the
  server answered are those it has stored, so the second patch leaves them alone.\<close>

lemma PatchStatus_response:
  assumes "devs w (dev_key u) = Some d" and "finalizers_of u = finalizers_of d"
  shows "wp (dev_PatchStatus E u d) (\<lambda>r w'. \<forall>u'. r = Inr u' \<longrightarrow> finalizers_of u' = finalizers_of d) w"
proof (rule wp_intro, intro allI impI)
  fix r w' u' assume "run_state (dev_PatchStatus E u d) w = (r, w')" "r = Inr u'"
  then obtain cur s where "devs w (dev_key u) = Some cur" "response_of s u u'" "finalizers_of s = finalizers_of cur"
    unfolding dev_PatchStatus_def using status_done by blast
  with assms show "finalizers_of u' = finalizers_of d" by (auto simp: response_of_def decoded_def split: if_splits)
qed

lemma createUpdatedDevice_finalizers:
  "wp (createUpdatedDevice E sel d) (\<lambda>r w'. \<forall>u. r = Some u \<longrightarrow> dev_key u = dev_key d \<and> finalizers_of u = finalizers_of d) w"
  unfolding createUpdatedDevice_def by (auto simp: wp_run split: prod.split)

lemma lab_Reconcile_preserves: "preserves (fins Q) (lab_Reconcile E n ns)"
proof (rule wp_preserves)
  fix w assume inv: "fins Q w"
  have update: "wp (updateDeployments E d) (\<lambda>_ w'. fins Q w') w1" if d: "devs w1 (dev_key d) = Some d" and inv: "fins Q w1" for d w1
  proof -
    have u: "wp (case u of None \<Rightarrow> ret None | Some u \<Rightarrow> do {
          p \<leftarrow> dev_PatchStatus E u d;
          case p of Inl err \<Rightarrow> ret (Some err) | Inr u' \<Rightarrow> do { q \<leftarrow> dev_Patch E d u'; ret (err_of q) } })
        (\<lambda>_ w'. fins Q w') w2"
      if "devs w2 = devs w1" "\<forall>x. u = Some x \<longrightarrow> dev_key x = dev_key d \<and> finalizers_of x = finalizers_of d" for u w2
    proof (cases u)
      case (Some x)
      have "wp (dev_PatchStatus E x d) (\<lambda>r w'. fins Q w' \<and> (\<forall>u'. r = Inr u' \<longrightarrow> finalizers_of u' = finalizers_of d)) w2"
        unfolding wp_conj using that d inv Some
        by (intro conjI preserves_wp [OF PatchStatus_preserves] PatchStatus_response) simp_all
      then show ?thesis unfolding Some option.case wp_bind
        by (rule wp_conseq) (auto split: sum.split intro: preserves_wp [OF Patch_preserves])
    qed (use that inv in simp)
    have "wp (createUpdatedDevice E sel d) (\<lambda>r w'. devs w' = devs w2 \<and>
        (\<forall>u. r = Some u \<longrightarrow> dev_key u = dev_key d \<and> finalizers_of u = finalizers_of d)) w2" for sel w2
      unfolding wp_conj by (intro conjI keeps_wp updateDeployments_quiet(3) createUpdatedDevice_finalizers)
    note created = this
    show ?thesis
      unfolding updateDeployments_def wp_bind
    proof (rule wp_conseq [OF keeps_wp [OF range_map_keeps]], rule wp_conseq [OF keeps_wp [OF updateDeployments_quiet(2)]], goal_cases)
      case (1 sls w2 r w3)
      then show ?case
      proof (cases r)
        case (Inr sel)
        show ?thesis unfolding Inr sum.case wp_bind
          by (rule wp_conseq [OF created]) (use u 1 in auto)
      qed (use inv in simp)
    qed
  qed
  show "wp (lab_Reconcile E n ns) (\<lambda>_ w'. fins Q w') w"
    unfolding lab_Reconcile_def wp_bind
  proof (rule wp_intro, goal_cases)
    case (1 r w1)
    have w1: "devs w1 = devs w" using keeps_run [OF get_keeps] 1 by (simp add: dev_Read_def)
    show ?case
    proof (cases r)
      case (Inr d)
      then have "devs w1 (dev_key d) = Some d" using get_found 1 w1 by (auto simp: dev_Read_def)
      then show ?thesis using Inr inv w1 update [of w1 d] by (simp add: wp_if)
    qed (use inv w1 in simp)
  qed
qed

end

section \<open>Steps of the system\<close>

text \<open>Besides the steps of the operator: a user changes a device but leaves its finalizers to the operator, or
  changes anything else in the cluster.\<close>

inductive operator_step ::
  "'w env \<Rightarrow> 'w Handler \<Rightarrow> uint \<Rightarrow> bool \<Rightarrow> ('w \<Rightarrow> string \<times> string \<Rightarrow> EdgeDevice option) \<Rightarrow> 'w \<Rightarrow> 'w \<Rightarrow> bool"
  for E h c auto devs where
  request: "device_step E h devs w w' \<Longrightarrow> operator_step E h c auto devs w w'"
| deployment: "run_state (dep_Reconcile E c n ns) w = (r, w') \<Longrightarrow> operator_step E h c auto devs w w'"
| labels: "run_state (lab_Reconcile E n ns) w = (r, w') \<Longrightarrow> operator_step E h c auto devs w w'"
| claim: "run_state (dev_Reconcile E auto n ns) w = (r, w') \<Longrightarrow> operator_step E h c auto devs w w'"
| edit: "devs w k = Some d \<Longrightarrow> finalizers_of d' = finalizers_of d \<Longrightarrow> devs w' = (devs w)(k \<mapsto> d') \<Longrightarrow>
    operator_step E h c auto devs w w'"
| other: "devs w' = devs w \<Longrightarrow> operator_step E h c auto devs w w'"

inductive_cases operator_stepE: "operator_step E h c auto devs w w'"

context device_server
begin

lemma operator_step_ordered:
  assumes "operator_step E h c auto devs w w'" and inv: "fins unregister_ordered w"
  shows "fins unregister_ordered w'"
  using assms(1)
proof cases
  case request
  then show ?thesis by (rule device_step_ordered [OF _ inv])
next
  case (deployment n ns r)
  show ?thesis by (rule preserves_run [OF dep_Reconcile_preserves inv deployment])
next
  case (labels n ns r)
  show ?thesis by (rule preserves_run [OF lab_Reconcile_preserves inv labels])
next
  case (claim n ns r)
  show ?thesis by (rule preserves_run [OF dev_Reconcile_preserves inv claim])
next
  case (edit k d d')
  show ?thesis unfolding edit(3) by (rule fin_inv_update [OF inv]) (use fin_inv_get [OF inv edit(1)] edit(2) in simp)
qed (use inv in simp)

lemma operator_steps_ordered:
  "(operator_step E h c auto devs)\<^sup>*\<^sup>* w w' \<Longrightarrow> fins unregister_ordered w \<Longrightarrow> fins unregister_ordered w'"
  by (induction rule: rtranclp_induct) (auto intro: operator_step_ordered)

end

section \<open>From the reconciler to the device\<close>

definition offered :: "Message \<Rightarrow> Workload list" where
  "offered m = (case msg_Content m of ConfigurationContent dc \<Rightarrow> dcm_Workloads dc | _ \<Rightarrow> [])"

text \<open>Deployments are stored under their names.\<close>

definition named_by_key :: "(string \<times> string \<Rightarrow> EdgeDeployment option) \<Rightarrow> bool" where
  "named_by_key D \<longleftrightarrow> (\<forall>k dep. D k = Some dep \<longrightarrow> om_Name (dep_meta dep) = snd k)"

lemma live_deployments_names:
  assumes "named_by_key D"
    and "D (om_Namespace (dev_meta d), n) = Some dep"
  shows "(\<exists>x\<in>set (filter (marshalled E) (live_deployments D d)). om_Name (dep_meta x) = n) \<longleftrightarrow>
      hasDeployment d n \<and> marshalled E dep"
    and "x \<in> set (filter (marshalled E) (live_deployments D d)) \<Longrightarrow> om_Name (dep_meta x) = n \<Longrightarrow> x = dep"
proof -
  have live: "x \<in> set (live_deployments D d) \<longleftrightarrow>
      (\<exists>m. hasDeployment d m \<and> D (om_Namespace (dev_meta d), m) = Some x \<and> om_DeletionTimestamp (dep_meta x) = None)" for x
    by (auto simp: live_deployments_def in_set_map_filter live_deployment_def hasDeployment_iff split: option.splits if_splits)
  show "x = dep" if "x \<in> set (filter (marshalled E) (live_deployments D d))" "om_Name (dep_meta x) = n"
    using that assms unfolding set_filter mem_Collect_eq live named_by_key_def by (metis option.inject snd_conv)
  show "(\<exists>x\<in>set (filter (marshalled E) (live_deployments D d)). om_Name (dep_meta x) = n) \<longleftrightarrow>
      hasDeployment d n \<and> marshalled E dep"
  proof
    assume "\<exists>x\<in>set (filter (marshalled E) (live_deployments D d)). om_Name (dep_meta x) = n"
    then obtain x m where "marshalled E x" "om_Name (dep_meta x) = n" "hasDeployment d m"
        "D (om_Namespace (dev_meta d), m) = Some x"
      unfolding set_filter mem_Collect_eq live by blast
    with assms show "hasDeployment d n \<and> marshalled E dep" unfolding named_by_key_def by (metis option.inject snd_conv)
  next
    assume "hasDeployment d n \<and> marshalled E dep"
    with assms(2) have "dep \<in> set (filter (marshalled E) (live_deployments D d))"
      unfolding set_filter mem_Collect_eq live by (auto simp: marshalled_def)
    with assms show "\<exists>x\<in>set (filter (marshalled E) (live_deployments D d)). om_Name (dep_meta x) = n"
      unfolding named_by_key_def by (metis snd_conv)
  qed
qed

text \<open>The workload of one deployment among those of a message.\<close>

lemma delivered_offer:
  assumes "delivered E D d i m" and "om_DeletionTimestamp (dev_meta d) = None"
    and "named_by_key D" and "D (om_Namespace (dev_meta d), n) = Some dep"
  shows "(\<exists>wl\<in>set (offered m). wl_Name wl = n) \<longleftrightarrow> hasDeployment d n \<and> marshalled E dep"
    and "wl \<in> set (offered m) \<Longrightarrow> wl_Name wl = n \<Longrightarrow> workload_of E dep wl"
proof -
  let ?L = "filter (marshalled E) (live_deployments D d)"
  have all: "list_all2 (workload_of E) ?L (offered m)"
    using assms(1,2) by (auto simp: delivered_def offered_def)
  then have ex: "\<exists>x\<in>set ?L. workload_of E x wl" if "wl \<in> set (offered m)" for wl
    using that by (metis in_set_conv_nth list_all2_conv_all_nth)
  have ex': "\<exists>wl\<in>set (offered m). workload_of E x wl" if "x \<in> set ?L" for x
    using that all by (metis in_set_conv_nth list_all2_conv_all_nth)
  note names = live_deployments_names [OF assms(3,4)]
  show "workload_of E dep wl" if wl: "wl \<in> set (offered m)" "wl_Name wl = n" for wl
  proof -
    obtain x where x: "x \<in> set ?L" "workload_of E x wl" using ex [OF wl(1)] by blast
    then have "om_Name (dep_meta x) = n" using wl(2) by (simp add: workload_of_def)
    with names(2) [OF x(1)] x(2) show ?thesis by simp
  qed
  have "(\<exists>wl\<in>set (offered m). wl_Name wl = n) \<longleftrightarrow> (\<exists>x\<in>set ?L. om_Name (dep_meta x) = n)"
    using ex ex' by (auto simp: workload_of_def) metis+
  then show "(\<exists>wl\<in>set (offered m). wl_Name wl = n) \<longleftrightarrow> hasDeployment d n \<and> marshalled E dep" using names(1) by simp
qed

lemma converged_runs:
  assumes "converged n ns sel st st'" and "st k = Some d" and "fst k = ns"
    and "hasDeployment d n \<Longrightarrow> labels_of d (WorkloadLabel n) = Some ''true''"
  shows "\<exists>s. st' k = Some s \<and> (hasDeployment s n \<longleftrightarrow> sel d) \<and> om_DeletionTimestamp (dev_meta s) = om_DeletionTimestamp (dev_meta d)"
proof -
  from assms(1) have "case st k of None \<Rightarrow> st' k = None
    | Some d \<Rightarrow> (\<exists>s. st' k = Some s \<and>
        (if fst k = ns \<and> sel d then deployed n d s
         else if fst k = ns \<and> labels_of d (WorkloadLabel n) = Some ''true'' then undeployed n d s
         else s = d))" unfolding converged_def by (rule spec)
  then obtain s where s: "st' k = Some s" "if sel d then deployed n d s
      else if labels_of d (WorkloadLabel n) = Some ''true'' then undeployed n d s else s = d"
    using assms(2,3) by auto
  show ?thesis using s assms(4)
    by (intro exI [of _ s]) (auto simp: deployed_def undeployed_def same_but_def split: if_splits)
qed

section \<open>Properties\<close>



text \<open>C2: from the reconciler to the device. Take a deployment that is not being deleted, that has its finalizer
  and whose selector labels are those of its selector (the reconciliations that add either of them stop
  there and deploy nothing). When its reconciliation ended without error, then the next configuration that a device of
  its namespace is sent, which must be the namespace of the devices, has a workload of that name exactly when the
  deployment selects the device and its pod can be written; that workload is the one of the deployment.
  This is for a device that is not being deleted and that ran the deployment before only if it carried its label,
  and as long as neither the device nor the deployment was changed in between.\<close>

theorem deployment_reaches_device:
  assumes "device_server E devs h" and "workload_api E deps" and "fair_sched E" and "0 < sint c" and "all_settled (devs w)"
    and read: "run_state (dep_Read E n ns) w = (Inr dep, w0)" and key: "om_Name (dep_meta dep) = n" "om_Namespace (dep_meta dep) = ns"
    and current: "om_DeletionTimestamp (dep_meta dep) = None"
      "HasFinalizer (dep_meta dep) YggdrasilDeviceReferenceFinalizer" "selector_labels_current dep"
    and reconciled: "run_state (dep_Reconcile E c n ns) w = (Some (Done (requeue, None)), w1)"
    and device: "devs w (ns, i) = Some d" "om_DeletionTimestamp (dev_meta d) = None"
      "hasDeployment d n \<longrightarrow> labels_of d (WorkloadLabel n) = Some ''true''"
    and later: "devs w2 (ns, i) = devs w1 (ns, i)" "deps w2 (ns, n) = Some dep" "named_by_key (deps w2)"
    and ns: "h_initialNamespace h = ns"
    and poll: "run_state (GetDataMessageForDevice E h \<lparr>gp_DeviceID = i\<rparr>) w2 = (Done (GetDataMessageForDeviceOK (Some m)), w3)"
  shows "((\<exists>wl\<in>set (offered m). wl_Name wl = n) \<longleftrightarrow> selects dep d \<and> marshalled E dep) \<and>
    (\<forall>wl\<in>set (offered m). wl_Name wl = n \<longrightarrow> workload_of E dep wl)"
proof -
  have api: "device_api E devs" using assms(1) by (simp add: device_server_def)
  have "converged n ns (selects dep) (devs w) (devs w1)"
    using wp_elim [OF device_api.dep_Reconcile_alive [OF api assms(3-5) read current] reconciled] by (simp add: key)
  from converged_runs [OF this device(1)] device(3) obtain s where s: "devs w1 (ns, i) = Some s"
      "hasDeployment s n \<longleftrightarrow> selects dep d" "om_DeletionTimestamp (dev_meta s) = None"
    using device(2) by auto
  obtain d' w2' where d': "run_state (dev_Read E i ns) w2 = (Inr d', w2')" "delivered E (deps w2) d' i m"
    using workload_api.GetData_delivered [OF assms(2) poll] ns by auto
  then have "devs w2 (ns, i) = Some d' \<and> dev_key d' = (ns, i)"
    using device_api.get_found [OF api] by (simp add: dev_Read_def)
  with later(1) s(1) have s': "d' = s" "om_Namespace (dev_meta s) = ns" by (auto simp: dev_key_def)
  note offer = delivered_offer [OF d'(2) [unfolded s'(1)] s(3) later(3), unfolded s'(2), OF later(2)]
  show ?thesis using offer s(2) by blast
qed

theorem deployment_reaches_device_witness:
  "\<exists>w1 m w3 wl. run_state (dep_Reconcile mem_env 3 ''app'' ''default'') sample_cluster = (Some (Done (False, None)), w1) \<and>
     run_state (GetDataMessageForDevice mem_env toy_handler \<lparr>gp_DeviceID = ''d1''\<rparr>) w1 =
       (Done (GetDataMessageForDeviceOK (Some m)), w3) \<and>
     wl \<in> set (offered m) \<and> workload_of mem_env sample_dep wl"
proof -
  let ?run = "run_state (dep_Reconcile mem_env 3 ''app'' ''default'') sample_cluster"
  let ?poll = "run_state (GetDataMessageForDevice mem_env toy_handler \<lparr>gp_DeviceID = ''d1''\<rparr>)"
  have "fst ?run = Some (Done (False, None)) \<and> m_deps (snd ?run) = [sample_dep] \<and>
      (case fst (?poll (snd ?run)) of Done (GetDataMessageForDeviceOK (Some _)) \<Rightarrow> True | _ \<Rightarrow> False)" by code_simp
  then obtain w1 where run: "?run = (Some (Done (False, None)), w1)" and deps: "m_deps w1 = [sample_dep]"
    and ok: "case fst (?poll w1) of Done (GetDataMessageForDeviceOK (Some _)) \<Rightarrow> True | _ \<Rightarrow> False"
    by (cases ?run) auto
  from ok obtain m w3 where poll: "?poll w1 = (Done (GetDataMessageForDeviceOK (Some m)), w3)"
    by (cases "?poll w1") (auto split: outcome.splits GetDataMessageForDeviceResponse.splits option.splits)
  obtain w0 where read: "run_state (dep_Read mem_env ''app'' ''default'') sample_cluster = (Inr sample_dep, w0)"
    using sample_cluster_read by blast
  have meta: "om_Name (dep_meta sample_dep) = ''app''" "om_Namespace (dep_meta sample_dep) = ''default''"
    "om_DeletionTimestamp (dep_meta sample_dep) = None" by (simp_all add: sample_dep_def)
  have dep: "HasFinalizer (dep_meta sample_dep) YggdrasilDeviceReferenceFinalizer" "selector_labels_current sample_dep" by code_simp+
  let ?d = "sample_dev ''d1'' [(''dc'', ''home'')] []"
  have d: "mem_devs sample_cluster (''default'', ''d1'') = Some ?d" by code_simp
  have dd: "om_DeletionTimestamp (dev_meta ?d) = None" "\<not> hasDeployment ?d ''app''" by code_simp+
  have D: "mem_deps w1 = (\<lambda>k. if k = (''default'', ''app'') then Some sample_dep else None)"
    using meta deps by (auto simp: mem_deps_def mem_find_def meta_key_def fun_eq_iff)
  have "named_by_key (mem_deps w1)" using meta by (simp add: named_by_key_def D)
  moreover have "selects sample_dep ?d" "marshalled mem_env sample_dep" by code_simp+
  moreover have "h_initialNamespace toy_handler = ''default''" by (simp add: toy_handler_def NewYggdrasilHandler_def)
  ultimately have "\<exists>wl\<in>set (offered m). workload_of mem_env sample_dep wl"
    using deployment_reaches_device [OF memserver.device_server_axioms memwl.workload_api_axioms mem_fair_sched _
        sample_cluster_settled read meta(1,2,3) dep run d dd(1) _ refl _ _ _ poll] dd(2) D by auto
  with run poll show ?thesis by blast
qed

end
