(* ===== verification/Registration_Metrics.thy ===== *)
theory Registration_Metrics
  imports Device_Protocol
begin

text \<open>
  \<open>internal/metrics\<close>: the three counters of the operator, their registration with the global registry and their
  increments; and what the handlers of \<open>internal/yggdrasil\<close> make them count. The registry and the counters of
  the Prometheus library are a table from names to values; \<open>MustRegister\<close> panics for a name that is there already.
\<close>

section \<open>The counters\<close>

definition EdgeDeviceSuccessfulRegistrationQuery :: string where
  "EdgeDeviceSuccessfulRegistrationQuery = ''flotta_operator_edge_devices_successful_registration''"

definition EdgeDeviceFailedRegistrationQuery :: string where
  "EdgeDeviceFailedRegistrationQuery = ''flotta_operator_edge_devices_failed_registration''"

definition EdgeDeviceUnregistrationQuery :: string where
  "EdgeDeviceUnregistrationQuery = ''flotta_operator_edge_devices_unregistration''"

record CounterOpts =
  co_Name :: string
  co_Help :: string

definition registeredEdgeDevices :: CounterOpts where
  "registeredEdgeDevices = \<lparr>co_Name = EdgeDeviceSuccessfulRegistrationQuery, co_Help = ''Number of successful registration EdgeDevices''\<rparr>"

definition failedToCompleteRegistrationEdgeDevices :: CounterOpts where
  "failedToCompleteRegistrationEdgeDevices =
     \<lparr>co_Name = EdgeDeviceFailedRegistrationQuery, co_Help = ''Number of failed registration EdgeDevices''\<rparr>"

definition unregisteredEdgeDevices :: CounterOpts where
  "unregisteredEdgeDevices = \<lparr>co_Name = EdgeDeviceUnregistrationQuery, co_Help = ''Number of unregistered EdgeDevices''\<rparr>"

type_synonym registry = "string list"
type_synonym counter_values = "nat gomap"

fun MustRegister :: "CounterOpts list \<Rightarrow> registry \<Rightarrow> registry outcome" where
  "MustRegister [] reg = Done reg"
| "MustRegister (c # cs) reg =
     (if co_Name c \<in> set reg then Panic ''duplicate metrics collector registration attempted''
      else MustRegister cs (reg @ [co_Name c]))"

definition metrics_init :: "registry \<Rightarrow> registry outcome" where
  "metrics_init reg = MustRegister [registeredEdgeDevices, failedToCompleteRegistrationEdgeDevices, unregisteredEdgeDevices] reg"

definition counter_value :: "counter_values \<Rightarrow> string \<Rightarrow> nat" where
  "counter_value vals n = (case gm_get vals n of None \<Rightarrow> 0 | Some k \<Rightarrow> k)"

definition counter_Inc :: "CounterOpts \<Rightarrow> counter_values \<Rightarrow> counter_values" where
  "counter_Inc c vals = gm_set (co_Name c) (Suc (counter_value vals (co_Name c))) vals"

definition IncEdgeDeviceSuccessfulRegistration :: "counter_values \<Rightarrow> counter_values" where
  "IncEdgeDeviceSuccessfulRegistration = counter_Inc registeredEdgeDevices"

definition IncEdgeDeviceFailedRegistration :: "counter_values \<Rightarrow> counter_values" where
  "IncEdgeDeviceFailedRegistration = counter_Inc failedToCompleteRegistrationEdgeDevices"

definition IncEdgeDeviceUnregistration :: "counter_values \<Rightarrow> counter_values" where
  "IncEdgeDeviceUnregistration = counter_Inc unregisteredEdgeDevices"

text \<open>The counters as the handlers see them: the call for a counter adds one to it and leaves the others alone.\<close>

definition bump :: "counter \<Rightarrow> (counter \<Rightarrow> nat) \<Rightarrow> counter \<Rightarrow> nat" where
  "bump c C = C(c := Suc (C c))"

fun opts_of :: "counter \<Rightarrow> CounterOpts" where
  "opts_of EdgeDeviceSuccessfulRegistration = registeredEdgeDevices"
| "opts_of EdgeDeviceFailedRegistration = failedToCompleteRegistrationEdgeDevices"
| "opts_of EdgeDeviceUnregistration = unregisteredEdgeDevices"

fun metrics_inc :: "counter \<Rightarrow> counter_values \<Rightarrow> counter_values" where
  "metrics_inc EdgeDeviceSuccessfulRegistration = IncEdgeDeviceSuccessfulRegistration"
| "metrics_inc EdgeDeviceFailedRegistration = IncEdgeDeviceFailedRegistration"
| "metrics_inc EdgeDeviceUnregistration = IncEdgeDeviceUnregistration"

definition counts :: "counter_values \<Rightarrow> counter \<Rightarrow> nat" where
  "counts vals c = counter_value vals (co_Name (opts_of c))"

lemmas counter_names = registeredEdgeDevices_def failedToCompleteRegistrationEdgeDevices_def unregisteredEdgeDevices_def
  EdgeDeviceSuccessfulRegistrationQuery_def EdgeDeviceFailedRegistrationQuery_def EdgeDeviceUnregistrationQuery_def

lemma names_distinct: "co_Name (opts_of c) = co_Name (opts_of c') \<longleftrightarrow> c = c'"
  by (cases c; cases c') (simp_all add: counter_names)

lemma counts_inc: "counts (metrics_inc c vals) = bump c (counts vals)"
proof -
  have inc: "metrics_inc c vals = counter_Inc (opts_of c) vals"
    by (cases c) (simp_all add: IncEdgeDeviceSuccessfulRegistration_def IncEdgeDeviceFailedRegistration_def
        IncEdgeDeviceUnregistration_def)
  show ?thesis
    unfolding inc by (rule ext) (auto simp: counter_Inc_def counts_def counter_value_def bump_def names_distinct gomap)
qed

lemma MustRegister_distinct:
  "MustRegister cs reg = Done reg' \<longleftrightarrow>
     distinct (map co_Name cs) \<and> set (map co_Name cs) \<inter> set reg = {} \<and> reg' = reg @ map co_Name cs"
  by (induction cs arbitrary: reg) auto

lemma metrics_init_registers:
  "metrics_init reg = Done reg' \<longleftrightarrow> (\<forall>c. co_Name (opts_of c) \<notin> set reg)
     \<and> reg' = reg @ map (co_Name \<circ> opts_of) [EdgeDeviceSuccessfulRegistration, EdgeDeviceFailedRegistration, EdgeDeviceUnregistration]"
proof -
  have all: "(\<forall>c. P c) \<longleftrightarrow> P EdgeDeviceSuccessfulRegistration \<and> P EdgeDeviceFailedRegistration \<and> P EdgeDeviceUnregistration" for P
    by (metis counter.exhaust)
  show ?thesis
    unfolding metrics_init_def MustRegister_distinct all by (simp add: counter_names)
qed

section \<open>What the handlers count\<close>

text \<open>An attempt to create and fill in a new device is counted once, by its answer.\<close>

definition attempt_counted :: "PostDataMessageForDeviceResponse outcome \<Rightarrow> (counter \<Rightarrow> nat) \<Rightarrow> (counter \<Rightarrow> nat) \<Rightarrow> bool" where
  "attempt_counted r C C' \<longleftrightarrow> (case r of
     Panic _ \<Rightarrow> C' = C
   | Done (PostDataMessageForDeviceOK _) \<Rightarrow> C' = bump EdgeDeviceSuccessfulRegistration C
   | Done PostDataMessageForDeviceInternalServerError \<Rightarrow> C' = bump EdgeDeviceFailedRegistration C
   | _ \<Rightarrow> False)"

text \<open>A registration: an answer 200 for an unknown device is counted as a success, a failure after the
  device was to be created as a failure; nothing else is counted.\<close>

definition registration_counted ::
  "bool \<Rightarrow> PostDataMessageForDeviceResponse outcome \<Rightarrow> (counter \<Rightarrow> nat) \<Rightarrow> (counter \<Rightarrow> nat) \<Rightarrow> bool" where
  "registration_counted unknown r C C' \<longleftrightarrow> (case r of
     Done (PostDataMessageForDeviceOK _) \<Rightarrow> C' = (if unknown then bump EdgeDeviceSuccessfulRegistration C else C)
   | Done PostDataMessageForDeviceInternalServerError \<Rightarrow> C' = C \<or> unknown \<and> C' = bump EdgeDeviceFailedRegistration C
   | _ \<Rightarrow> C' = C)"

lemma attempt_panic [simp]: "attempt_counted (Panic p) C C"
  by (simp add: attempt_counted_def)

lemma registration_refused [simp]: "registration_counted unknown (Done PostDataMessageForDeviceBadRequest) C C"
  by (simp add: registration_counted_def)

lemma attempt_registration: "attempt_counted r C C' \<Longrightarrow> registration_counted True r C C'"
  by (auto simp: attempt_counted_def registration_counted_def split: outcome.splits PostDataMessageForDeviceResponse.splits)

lemma wp_at_run: "run_state m w = (r, w') \<Longrightarrow> wp m Q w \<longleftrightarrow> Q r w'"
  by (simp add: wp_def)

text \<open>Besides the laws of the devices: the counters are only changed by their own call.\<close>

locale metered_server = device_server E devs h
  for E :: "'w env" and devs :: "'w \<Rightarrow> string \<times> string \<Rightarrow> EdgeDevice option" and h :: "'w Handler" +
  fixes cnt :: "'w \<Rightarrow> counter \<Rightarrow> nat"
  assumes inc_counts: "cnt (snd (run_state (k_inc E c) w)) = bump c (cnt w)"
    and device_calls: "only_recorder_writes E cnt" and create_quiet: "keeps cnt (k_dev_create E d)" and uuid_quiet: "keeps cnt (k_uuid E)"
    and sign_quiet: "keeps cnt (c_create_cert (h_crypto h) tmpl parent pub key)"
begin

lemma wp_inc: "wp (k_inc E c) (\<lambda>_ w'. devs w' = devs w \<and> cnt w' = bump c (cnt w)) w"
  using inc_counts keeps_wp [OF inc_keeps, of c w] by (simp add: wp_run)

lemma calls_quiet:
  "keeps cnt (k_dev_get E ns n)" "keeps cnt (k_dev_patch E a b)" "keeps cnt (k_dev_status_patch E a b)" "keeps cnt (k_now E)"
  "keeps cnt (k_sleep E t)"
  using device_calls by (simp_all add: only_recorder_writes_def)

lemma updateDeviceStatus_quiet: "keeps cnt (updateDeviceStatus E d f)"
proof -
  have "keeps cnt (updateDeviceStatus_retry E d f err is)" for d err "is"
    by (induction "is") (auto simp: dev_Read_def dev_PatchStatus_def intro!: keeping calls_quiet)
  then show ?thesis unfolding updateDeviceStatus_def dev_PatchStatus_def by (intro keeping calls_quiet)
qed

lemma UpdateLabels_quiet: "keeps cnt (dev_UpdateLabels E d ls)"
  unfolding dev_UpdateLabels_def
  by (auto intro!: keeping dev_updateLabels_keeps dev_UpdateLabels_retry_keeps device_calls)

lemma sign_request_quiet: "keeps cnt (sign_request E h i info)"
proof -
  have provider: "keeps cnt (provider_SignCSR E (h_crypto h) p pem cn t)" for p pem cn t
    unfolding provider_SignCSR_def by (intro keeping sign_quiet calls_quiet keeps_map_err)
  have "keeps cnt (SignCSR E (h_crypto h) (h_mtlsConfig h) pem cn)" for pem cn
    by (cases "tc_caProvider (h_mtlsConfig h)") (auto simp: SignCSR_def intro!: keeping provider calls_quiet)
  then show ?thesis unfolding sign_request_def by (intro keeping)
qed

text \<open>The counters after a call whose effect on them is known.\<close>

lemma quiet_then:
  assumes "keeps cnt m" and "\<And>r w'. cnt w' = cnt w \<Longrightarrow> wp (f r) Q w'"
  shows "wp (State_Monad.bind m f) Q w"
  unfolding wp_bind by (rule wp_conseq [OF keeps_wp [OF assms(1)]]) (rule assms(2))

lemma counted_ret: "wp (do { _ \<leftarrow> k_inc E c; ret x }) (\<lambda>r w'. r = x \<and> cnt w' = bump c (cnt w)) w"
  unfolding wp_bind wp_ret by (rule wp_conseq [OF wp_inc]) simp

lemma register_device_counted: "wp (register_device E h i info res) (\<lambda>r w'. attempt_counted r (cnt w) (cnt w')) w"
proof -
  have failed: "wp (do { _ \<leftarrow> k_inc E EdgeDeviceFailedRegistration; ret (Done PostDataMessageForDeviceInternalServerError) })
      (\<lambda>r w'. attempt_counted r C (cnt w')) w1" if "cnt w1 = C" for w1 C
    by (rule wp_conseq [OF counted_ret]) (use that in \<open>auto simp: attempt_counted_def\<close>)
  have succeeded: "wp (do { _ \<leftarrow> k_inc E EdgeDeviceSuccessfulRegistration; ret (Done (PostDataMessageForDeviceOK (Some res))) })
      (\<lambda>r w'. attempt_counted r C (cnt w')) w1" if "cnt w1 = C" for w1 C
    by (rule wp_conseq [OF counted_ret]) (use that in \<open>auto simp: attempt_counted_def\<close>)
  show ?thesis
    unfolding register_device_def
  proof (rule quiet_then [OF calls_quiet(4)], rule quiet_then)
    show "keeps cnt (dev_Create E d)" for d unfolding dev_Create_def by (rule create_quiet)
    fix c w2 now w1 assume w: "cnt w1 = cnt w" "cnt w2 = cnt w1"
    have labels: "wp (do { (lerr, _) \<leftarrow> dev_UpdateLabels E device' (MapLabels (k_unicode E) (ri_Hardware info));
        case lerr of
          Some err \<Rightarrow> do { _ \<leftarrow> k_inc E EdgeDeviceFailedRegistration; ret (Done PostDataMessageForDeviceInternalServerError) }
        | None \<Rightarrow> do { _ \<leftarrow> k_inc E EdgeDeviceSuccessfulRegistration; ret (Done (PostDataMessageForDeviceOK (Some res))) } })
        (\<lambda>r w'. attempt_counted r (cnt w) (cnt w')) w3" if "cnt w3 = cnt w" for device' w3
      by (rule quiet_then [OF UpdateLabels_quiet]) (use that in \<open>auto simp del: wp_bind split: option.split intro!: failed succeeded\<close>)
    show "wp (case c of
        Inl err \<Rightarrow> do { _ \<leftarrow> k_inc E EdgeDeviceFailedRegistration; ret (Done PostDataMessageForDeviceInternalServerError) }
      | Inr device \<Rightarrow> do {
          s \<leftarrow> updateDeviceStatus E device (registration_status E (ri_Hardware info));
          case s of
            Panic p \<Rightarrow> ret (Panic p)
          | Done (Some err, _) \<Rightarrow> do { _ \<leftarrow> k_inc E EdgeDeviceFailedRegistration; ret (Done PostDataMessageForDeviceInternalServerError) }
          | Done (None, device') \<Rightarrow> do {
              (lerr, _) \<leftarrow> dev_UpdateLabels E device' (MapLabels (k_unicode E) (ri_Hardware info));
              case lerr of
                Some err \<Rightarrow> do { _ \<leftarrow> k_inc E EdgeDeviceFailedRegistration; ret (Done PostDataMessageForDeviceInternalServerError) }
              | None \<Rightarrow> do { _ \<leftarrow> k_inc E EdgeDeviceSuccessfulRegistration; ret (Done (PostDataMessageForDeviceOK (Some res))) } } })
      (\<lambda>r w'. attempt_counted r (cnt w) (cnt w')) w2"
    proof (cases c)
      case (Inr device)
      show ?thesis unfolding Inr sum.case
      proof (rule quiet_then [OF updateDeviceStatus_quiet])
        fix s w3 assume "cnt w3 = cnt w2"
        then have w3: "cnt w3 = cnt w" using w by simp
        then show "wp (case s of
            Panic p \<Rightarrow> ret (Panic p)
          | Done (Some err, _) \<Rightarrow> do { _ \<leftarrow> k_inc E EdgeDeviceFailedRegistration; ret (Done PostDataMessageForDeviceInternalServerError) }
          | Done (None, device') \<Rightarrow> do {
              (lerr, _) \<leftarrow> dev_UpdateLabels E device' (MapLabels (k_unicode E) (ri_Hardware info));
              case lerr of
                Some err \<Rightarrow> do { _ \<leftarrow> k_inc E EdgeDeviceFailedRegistration; ret (Done PostDataMessageForDeviceInternalServerError) }
              | None \<Rightarrow> do { _ \<leftarrow> k_inc E EdgeDeviceSuccessfulRegistration; ret (Done (PostDataMessageForDeviceOK (Some res))) } })
          (\<lambda>r w'. attempt_counted r (cnt w) (cnt w')) w3"
          by (cases s) (auto simp del: wp_bind split: option.split intro!: failed labels)
      qed
    qed (use w in \<open>auto simp del: wp_bind intro!: failed\<close>)
  qed
qed

lemma post_registration_counted:
  "wp (post_registration E h i msg)
     (\<lambda>r w'. registration_counted (devs w (h_initialNamespace h, i) = None) r (cnt w) (cnt w')) w"
proof (cases "k_json_registration E (msg_Content msg)")
  case (Inl e)
  then show ?thesis by (simp add: post_registration_def registration_counted_def)
next
  case (Inr info)
  have sign: "wp (sign_request E h i info) Q w1" if "\<And>c w2. cnt w2 = cnt w1 \<Longrightarrow> Q c w2" for Q w1
    by (rule wp_conseq [OF keeps_wp [OF sign_request_quiet]]) (rule that)
  show ?thesis
    unfolding post_registration_def Inr sum.case Let_def wp_bind
  proof (rule wp_intro, goal_cases)
    case (1 r w1)
    have w1: "cnt w1 = cnt w" using keeps_run [OF calls_quiet(1)] 1 by (simp add: dev_Read_def)
    show ?case
    proof (cases r)
      case (Inr d)
      then have "devs w (h_initialNamespace h, i) = Some d" using get_found 1 by (auto simp: dev_Read_def)
      then show ?thesis unfolding Inr sum.case
        unfolding wp_bind by (intro sign) (auto simp: registration_counted_def w1 split: sum.split)
    next
      case (Inl e)
      show ?thesis
      proof (cases "IsNotFound e")
        case True
        then have unknown: "devs w (h_initialNamespace h, i) = None" using get_not_found 1 Inl by (auto simp: dev_Read_def)
        have "wp (register_device E h i info res) (\<lambda>r w'. registration_counted True r (cnt w) (cnt w')) w2" if "cnt w2 = cnt w" for res w2
          using register_device_counted [of i info res w2] that by (auto elim: wp_conseq dest: attempt_registration)
        then show ?thesis using True unknown unfolding Inl sum.case
          by simp (rule sign, auto simp: registration_refused w1 split: sum.split)
      next
        case False
        then show ?thesis unfolding Inl by (simp add: registration_counted_def w1)
      qed
    qed
  qed
qed

lemma unregistration_overcounted:
  assumes read: "run_state (dev_Read E i (h_initialNamespace h)) w = (Inr d, w1)"
    and leaving: "om_DeletionTimestamp (dev_meta d) \<noteq> None" "\<not> HasFinalizer (dev_meta d) YggdrasilWorkloadFinalizer"
      "HasFinalizer (dev_meta d) YggdrasilConnectionFinalizer"
    and patch: "run_state (dev_Patch E d (set_finalizers (drop_finalizer YggdrasilConnectionFinalizer (finalizers_of d)) d)) w1 = (Inl e, w2)"
  shows "wp (GetControlMessageForDevice E h \<lparr>gp_DeviceID = i\<rparr>)
    (\<lambda>r w'. (\<exists>m. r = GetControlMessageForDeviceOK (Some m)) \<and> devs w' = devs w \<and> cnt w' = bump EdgeDeviceUnregistration (cnt w)) w"
proof -
  have "devs w1 = devs w" "cnt w1 = cnt w"
    using read keeps_run [OF get_keeps] keeps_run [OF calls_quiet(1)] by (auto simp: dev_Read_def)
  moreover have "devs w2 = devs w1" "cnt w2 = cnt w1"
    using patch patch_fails keeps_run [OF calls_quiet(2)] by (auto simp: dev_Patch_def)
  ultimately have w2: "devs w2 = devs w" "cnt w2 = cnt w" by simp_all
  have removed: "run_state (dev_RemoveFinalizer E d YggdrasilConnectionFinalizer) w1 = ((None, d), w2)"
    using patch by (simp add: dev_RemoveFinalizer_def Let_def)
  have command: "wp (createDisconnectCommand E)
      (\<lambda>m w'. devs w' = devs w \<and> cnt w' = bump EdgeDeviceUnregistration (cnt w)) w3"
    if "devs w3 = devs w" "cnt w3 = bump EdgeDeviceUnregistration (cnt w)" for w3
  proof -
    have "keeps devs (createDisconnectCommand E)" "keeps cnt (createDisconnectCommand E)"
      unfolding createDisconnectCommand_def by (intro keeping uuid_keeps now_keeps uuid_quiet calls_quiet)+
    then show ?thesis using that by (simp add: wp_run keeps_def)
  qed
  have counted: "wp (k_inc E EdgeDeviceUnregistration) (\<lambda>_ w3. wp (createDisconnectCommand E)
      (\<lambda>m w'. devs w' = devs w \<and> cnt w' = bump EdgeDeviceUnregistration (cnt w)) w3) w2"
    by (rule wp_conseq [OF wp_inc]) (use command w2 in simp)
  show ?thesis
    unfolding GetControlMessageForDevice_def Let_def
    using counted by (simp add: leaving wp_at_run [OF read] wp_at_run [OF removed])
qed

end

text \<open>The in-memory server: the counters of the package after the increments it recorded.\<close>

definition mem_counts :: "mem \<Rightarrow> counter \<Rightarrow> nat" where
  "mem_counts w = counts (fold metrics_inc (m_counters w) [])"

lemma mem_counts_keeps: "keeps m_counters m \<Longrightarrow> keeps mem_counts m"
  by (simp add: keeps_def mem_counts_def)

lemma api_call_keeps_counters: "(\<And>w. m_counters (snd (f w)) = m_counters w) \<Longrightarrow> keeps m_counters (api_call f)"
  by (auto simp: keeps_def api_call_def split: list.split option.split)

interpretation memmeter: metered_server mem_env mem_devs toy_handler mem_counts
proof
  show "mem_counts (snd (run_state (k_inc mem_env c) w)) = bump c (mem_counts w)" for c w
    by (simp add: mem_env_def mem_counts_def counts_inc)
  have "only_recorder_writes mem_env m_counters"
    unfolding only_recorder_writes_def mem_env_def mem_get_def mem_dev_patch_def
    by (auto simp: keeps_def [of _ "State _"] Let_def split: option.split intro!: api_call_keeps_counters)
  then show "only_recorder_writes mem_env mem_counts"
    by (simp add: only_recorder_writes_def mem_counts_keeps)
  show "keeps mem_counts (k_dev_create mem_env d)" for d
    by (rule mem_counts_keeps) (auto simp: mem_env_def mem_create_def split: option.split intro!: api_call_keeps_counters)
qed (simp_all add: mem_env_def toy_handler_def NewYggdrasilHandler_def toy_crypto_def)

section \<open>Properties\<close>

text \<open>C20: a registration moves the counters by what it answers: an answer 200 to a device that was not stored adds one
  to the successful registrations and nothing else; an answer 200 to a stored device, a refusal of the content or of the
  certificate request and a panic add nothing; a 500 adds at most one to the failed registrations, and only
  for a device that was not stored; the count of unregistrations never moves.\<close>

theorem registrations_counted:
  assumes "metered_server E devs h cnt"
  shows "wp (post_registration E h i msg)
     (\<lambda>r w'. registration_counted (devs w (h_initialNamespace h, i) = None) r (cnt w) (cnt w')) w"
  using assms by (rule metered_server.post_registration_counted)

theorem registrations_counted_witness:
  "(let (r, w') = run_state (post_registration mem_env toy_handler ''d1'' (empty_message\<lparr>msg_Content := RawContent []\<rparr>)) empty_mem
    in mem_counts w' = bump EdgeDeviceSuccessfulRegistration (\<lambda>_. 0))"
proof -
  let ?run = "run_state (post_registration mem_env toy_handler ''d1'' (empty_message\<lparr>msg_Content := RawContent []\<rparr>)) empty_mem"
  have ev: "(case fst ?run of Done (PostDataMessageForDeviceOK _) \<Rightarrow> True | _ \<Rightarrow> False)" by code_simp
  have "mem_devs empty_mem k = None" for k by (simp add: mem_devs_def mem_find_def empty_mem_def)
  moreover have "mem_counts empty_mem = (\<lambda>_. 0)"
    by (simp add: mem_counts_def counts_def counter_value_def empty_mem_def fun_eq_iff)
  ultimately show ?thesis
    using registrations_counted [OF memmeter.metered_server_axioms, of "''d1''" "empty_message\<lparr>msg_Content := RawContent []\<rparr>" empty_mem] ev
    by (cases ?run) (auto simp: wp_run registration_counted_def split: outcome.splits PostDataMessageForDeviceResponse.splits)
qed

text \<open>C19: a device is counted as unregistered although it is not: when the patch that should drop the
  connection finalizer fails, the device is told to disconnect and the counter of unregistrations is incremented, while
  the stored device still has the finalizer; every further poll of the device counts it again.\<close>

theorem unregistrations_overcounted:
  assumes "metered_server E devs h cnt" and "run_state (dev_Read E i (h_initialNamespace h)) w = (Inr d, w1)"
    and "om_DeletionTimestamp (dev_meta d) \<noteq> None" and "\<not> HasFinalizer (dev_meta d) YggdrasilWorkloadFinalizer"
    and "HasFinalizer (dev_meta d) YggdrasilConnectionFinalizer"
    and "run_state (dev_Patch E d (set_finalizers (drop_finalizer YggdrasilConnectionFinalizer (finalizers_of d)) d)) w1 = (Inl e, w2)"
  shows "wp (GetControlMessageForDevice E h \<lparr>gp_DeviceID = i\<rparr>)
    (\<lambda>r w'. (\<exists>m. r = GetControlMessageForDeviceOK (Some m)) \<and> devs w' = devs w \<and> cnt w' = bump EdgeDeviceUnregistration (cnt w)) w"
  using assms by (rule metered_server.unregistration_overcounted)

definition sample_unpatched :: mem where
  "sample_unpatched = (sample_leaving_mem [YggdrasilConnectionFinalizer])\<lparr>m_faults := [None, Some ''conflict'']\<rparr>"

theorem unregistrations_overcounted_witness:
  "(let (r, w') = run_state (GetControlMessageForDevice mem_env toy_handler \<lparr>gp_DeviceID = ''d1''\<rparr>) sample_unpatched
    in mem_devs w' = mem_devs sample_unpatched \<and> mem_counts w' = bump EdgeDeviceUnregistration (mem_counts sample_unpatched))"
proof -
  let ?d = "sample_leaving [YggdrasilConnectionFinalizer]"
  let ?w1 = "sample_unpatched\<lparr>m_faults := [Some ''conflict'']\<rparr>" and ?w2 = "sample_unpatched\<lparr>m_faults := []\<rparr>"
  have read: "run_state (dev_Read mem_env ''d1'' (h_initialNamespace toy_handler)) sample_unpatched = (Inr ?d, ?w1)"
    by code_simp
  have patch: "run_state (dev_Patch mem_env ?d (set_finalizers (drop_finalizer YggdrasilConnectionFinalizer (finalizers_of ?d)) ?d)) ?w1
      = (Inl (ApiStatus (StatusReasonOther ''InternalError'') ''conflict''), ?w2)"
    by code_simp
  have "om_DeletionTimestamp (dev_meta ?d) \<noteq> None" "\<not> HasFinalizer (dev_meta ?d) YggdrasilWorkloadFinalizer"
    "HasFinalizer (dev_meta ?d) YggdrasilConnectionFinalizer" by code_simp+
  from unregistrations_overcounted [OF memmeter.metered_server_axioms read this patch]
  show ?thesis by (auto simp: wp_run split: prod.split)
qed

end
