(* ===== verification/Spec2Isabelle.thy ===== *)
theory Spec2Isabelle
  imports Storage_Claimer Deployment_Controller Labels_Controller Device_Controller
    Workload_Delivery Webhook Server Flotta_Client Swagger_Flat
    Resource_Copies Operator_System Registration_Metrics
begin

text \<open>
  A verification development of the flotta operator (the repository under \<open>src/\<close>), a Kubernetes
  operator that registers edge devices, decides which deployments they run, hands them their workloads
  over an HTTP API, and takes in their heartbeats.

  \<^bold>\<open>The program.\<close> Two custom resources are the state it shares with its users: \<open>EdgeDevice\<close> and
  \<open>EdgeDeployment\<close> (\<open>api/v1alpha1\<close>). Three reconcilers (\<open>controllers\<close>) keep them consistent: for a
  deployment, the devices that its selector or its device name picks list it in their status and carry its
  workload label; for the labels of a device, the deployments that now match it; for a device, its bucket
  claim. The HTTP server (\<open>main.go\<close>, \<open>restapi\<close>) authenticates requests by client certificates
  (\<open>internal/mtls\<close>) and calls the four handlers of \<open>internal/yggdrasil\<close>, which read and patch the
  resources through the repositories (\<open>internal/repository\<close>), collect config maps, secrets and storage
  settings for a device, and process heartbeats (\<open>internal/heartbeat\<close>). A webhook validates
  deployments, and a goroutine watches the operator's log level (\<open>watchers\<close>). The messages (\<open>models\<close>), the
  description of the API embedded in the server and a client library (\<open>client\<close>) come with it.

  \<^bold>\<open>How it is modelled.\<close> Structs are records, constants and enumerations keep their names; a nil pointer or
  interface is \<open>None\<close>; a Go map is an association list with the operations of \<open>Flotta_Prelude\<close>, a
  nil map or slice is told from an empty one (\<open>None\<close> and \<open>Some []\<close>) where the code does. Errors are values (\<open>goerr\<close>), results are sums,
  a panic is a value of the type \<open>outcome\<close>. Code with effects is a function in the state monad over an
  abstract world \<open>'w\<close>. The API server, the clock, random names, the event recorder, the order of
  \<open>range\<close> over a map, the scheduling of goroutines and the serialisers are the record \<open>env\<close> of
  theory \<open>Kube\<close>; the cryptographic library is the record \<open>crypto\<close>, the go-openapi runtime the
  record \<open>runtime\<close>, the watch client the record \<open>clientset\<close>. Every call to them can fail unless a
  hypothesis says otherwise, and what a property needs of them is a locale (\<open>device_api\<close>,
  \<open>deployment_api\<close>, \<open>workload_api\<close>, \<open>config_api\<close>, \<open>secret_api\<close>, \<open>claim_api\<close>,
  \<open>device_claims\<close>, \<open>device_server\<close>, \<open>metered_server\<close>) or a named law (\<open>fair_range\<close>, \<open>fair_sched\<close>, \<open>pem_laws\<close>,
  \<open>key_usage_laws\<close>, \<open>router_law\<close>, \<open>patches_exactly\<close>: a patch changes nothing but what it names, \<open>unit_interval\<close>:
  random numbers are at least 0 and below 1); the locale \<open>connection\<close> is the contract between a client and the
  server. \<open>Kube_Memory\<close> has a cluster in memory with injected
  faults for which the laws are proved and on which the witnesses are evaluated.

  \<^bold>\<open>The theories.\<close>
  \<^item> \<open>Flotta_Prelude\<close>, \<open>Go_Strings\<close>: errors, panics, the state monad with weakest preconditions and
    preserved views, Go maps; UTF-8 decoding and the string functions the program calls.
  \<^item> \<open>Api_Types\<close>: the structs of \<open>api/v1alpha1\<close> and \<open>models\<close> with the fields the program reads or writes.
  \<^item> \<open>Labels\<close>: \<open>internal/labels\<close> and the meaning of Kubernetes label selectors. An accepted selector matches
    as the API documents it; the selector label of a prefixed key is not a legal key.
  \<^item> \<open>Kube\<close>, \<open>Kube_Memory\<close>: the environment, its laws, and the cluster in memory.
  \<^item> \<open>Repositories\<close>: \<open>internal/repository\<close>. Labels are stored when \<open>UpdateLabels\<close> succeeds, possibly
    after retries; \<open>RemoveFinalizer\<close> never reports a failure.
  \<^item> \<open>Utils\<close>, \<open>Hardware\<close>: \<open>internal/utils\<close>, \<open>internal/hardware\<close>: label normalisation, extraction of
    references, translation of hardware reports.
  \<^item> \<open>Heartbeat_Handler\<close>: \<open>internal/heartbeat\<close>, the four attempts with their retries and the deployments after them.
  \<^item> \<open>Storage_Claimer\<close>, \<open>Configmaps\<close>, \<open>Secrets\<close>: \<open>internal/storage\<close>, \<open>internal/configmaps\<close>,
    \<open>internal/images\<close>, \<open>internal/devicemetrics\<close> and the secrets of \<open>internal/yggdrasil\<close>: what is sent is
    complete, and the exact cases of errors and panics.
  \<^item> \<open>Mtls\<close>: \<open>internal/mtls\<close>: the CA and its round trip through the secret, signing, verification of clients.
  \<^item> \<open>Concurrency\<close>: the slicing of devices and \<open>ExecuteConcurrent\<close>; the slicing is total, with the sizes for
    which it panics, and the locale \<open>device_batch\<close> lifts a property of one device to a batch in any schedule.
  \<^item> \<open>Deployment_Controller\<close>, \<open>Labels_Controller\<close>, \<open>Device_Controller\<close>: \<open>controllers\<close>: convergence,
    withdrawal, finalizers kept until the devices dropped the deployment, discovery of deployments from labels.
  \<^item> \<open>Rest_Api\<close>, \<open>Management_Api\<close>: the generated server and client of \<open>restapi\<close> and \<open>client\<close>: responses and
    their round trip, parameters, URLs, the object that collects the handlers, \<open>ServeHTTP\<close> and the status of
    refused requests (\<open>ServeError\<close> of the vendored go-openapi errors): which requests reach their handler.
  \<^item> \<open>Yggdrasil\<close>: \<open>internal/yggdrasil\<close>, the four handlers with all they call. \<open>Device_Protocol\<close>: the answers of
    the handlers, registration, and the order of unregistration over all sequences of requests as an inductive
    step relation. \<open>Workload_Delivery\<close>: the workloads a device is given are those of its live deployments.
  \<^item> \<open>Operator_System\<close>: the reconcilers, the handlers and the users of the cluster together. An inductive step relation
    interleaves their operations in any order; in every reachable cluster a device that has its workload
    finalizer also has its connection finalizer. A deployment is followed from its reconciliation to the
    answer a device gets at its next poll.
  \<^item> \<open>Registration_Metrics\<close>: \<open>internal/metrics\<close>, and what the handlers make the counters count.
  \<^item> \<open>Json_Codec\<close>, \<open>Json_Received\<close>, \<open>Json_Sent\<close>: the JSON form of the structs of \<open>models\<close>, their \<open>MarshalBinary\<close>
    and \<open>UnmarshalBinary\<close>, and the round trip of what a device sends and of the configuration it is sent. JSON
    values are a datatype; the text of a value, of a float and of a date is the record \<open>codec\<close>.
  \<^item> \<open>Models_Validate\<close>: the \<open>Validate\<close> functions of \<open>models\<close>, and exactly which configurations that the operator
    sends are valid.
  \<^item> \<open>Swagger_Spec\<close>: the document of \<open>restapi/embedded_spec.go\<close> with the meaning of its schemas: the server routes
    and, unless it refuses a request, answers as the document says, and \<open>Validate\<close> checks what the schemas require up to nil
    lists and empty entries. \<open>Swagger_Flat\<close>: the flattened
    document as a JSON value, and a reader that resolves its references (16 levels, and no more fuel changes what is
    read): it has the same operations and schemas.
  \<^item> \<open>Flotta_Client\<close>: \<open>client\<close>: parameters, request building, the calls. Each call of a client connected to the
    server of \<open>main.go\<close>, unless it is cut off, is a call of the handler.
  \<^item> \<open>Deep_Copy\<close>, \<open>Resource_Copies\<close>: \<open>api/v1alpha1/zz_generated.deepcopy.go\<close> on a heap with addresses. A deep copy has
    the content of the original and shares no memory with it; the rest of the development may therefore treat
    a resource and its copy as values.
  \<^item> \<open>Webhook\<close>: \<open>api/v1alpha1/edgedeployment_webhook.go\<close>, exactly what is admitted.
  \<^item> \<open>Watchers\<close>: \<open>watchers\<close> with the backoff loop it calls; its pauses are random and have proved bounds. \<open>Server\<close>: \<open>main.go\<close>, who is served on which port.
  \<^item> This theory: a registration from the HTTP request to the cluster.

  \<^bold>\<open>Loops and bounds.\<close> Loops over slices are structural recursion; the retry loops run over the literal list of
  their counters; the backoff loop is a function with a termination proof. The slicing loop and the watch of the
  log level are \<open>partial_function (option)\<close>, the first proved to return for every input, the second proved to
  return exactly when the program is ended. Machine integers are words where the width matters (the number of
  workers, the settings of \<open>main\<close>) and integers elsewhere; the port of a storage configuration is parsed with its bounds.

  \<^bold>\<open>Not modelled.\<close> Mocks, the registration with scheme and manager, logging (no state), cancellation of contexts, the fields of the resources that the program never
  touches, the titles and descriptions of the swagger document, the
  decoding of the messages that only the operator encodes, and the text of JSON (the codec of the Go library). Goroutines of
  \<open>ExecuteConcurrent\<close> run their slices in any order, not interleaved within a slice; in \<open>Operator_System\<close> a request or a
  reconciliation is one step.
\<close>

section \<open>From the HTTP request to the cluster\<close>

lemma PostData_status_200:
  assumes "run_state (PostDataMessageForDevice_ServeHTTP rt E h ids r fresh_writer) w = (Done rw, w')" and "rw_Code rw = Some 200"
  shows "\<exists>m resp. post_accepted rt r m \<and>
    run_state (PostDataMessageForDevice E h \<lparr>pp_DeviceID = bindDeviceID ids, pp_Message = Some m\<rparr>) w =
      (Done (PostDataMessageForDeviceOK resp), w') \<and>
    (\<forall>res. resp = Some res \<longrightarrow> rt_produce_response rt res = Inr (rw_Body rw))"
proof (cases "post_bound rt r ids")
  case (Inl err)
  have "refusal err (Respond rt r fresh_writer (ServeError rt r err))"
    by (rule ServeError_refusal) (simp add: fresh_writer_def)
  then have "rw_Code rw = Some (error_status err)"
    using assms(1) Inl by (auto simp: PostDataMessageForDevice_ServeHTTP_def post_bound_def refusal_def)
  then show ?thesis using assms(2) error_status_in [of err] by auto
next
  case (Inr params)
  then obtain m where m: "post_accepted rt r m" "params = \<lparr>pp_DeviceID = bindDeviceID ids, pp_Message = Some m\<rparr>"
    by (auto simp: post_bound_Inr)
  obtain x w1 where run: "run_state (PostDataMessageForDevice E h params) w = (x, w1)" by (metis surj_pair)
  with assms Inr have rw: "w1 = w'" "(case x of Panic p \<Rightarrow> Panic p
      | Done y \<Rightarrow> Respond rt r fresh_writer (PostDataMessageForDevice_WriteResponse (rt_produce_response rt) y)) = Done rw"
    by (simp_all add: PostDataMessageForDevice_ServeHTTP_def post_bound_def)
  then obtain y where y: "x = Done y" by (cases x) auto
  with rw(2) assms(2) have "\<exists>resp. y = PostDataMessageForDeviceOK resp \<and>
      (\<forall>res. resp = Some res \<longrightarrow> rt_produce_response rt res = Inr (rw_Body rw))"
    by (cases y) (auto simp: Respond_def write_empty_def write_payload_def WriteHeader_def fresh_writer_def split: sum.splits)
  with run y rw(1) m show ?thesis by auto
qed

text \<open>C11: when the server answers a posted data message with status 200, on either port, its body was accepted, and if it
  is a registration, the device is in the cluster: a device that was not there was added with both finalizers
  and with the labels of the hardware it reported, and nothing else changed; the body of the answer is
  the response to that message, with a certificate signed for this device if it asked for one. So an error anywhere on
  the way, from reading the body over signing to the last patch of the labels, gives another status.\<close>

theorem registration_acknowledged:
  assumes "run_state (serve E C cfg ns synced None) w0 = (Running sv, w1)" and "device_server E devs (sv_handler sv)"
    and "router_law rt" and "escaped_path r"
    and "rt_match rt (rq_Method r) (rq_EscapedPath r) = Some (m, pattern, ids)"
    and "route (strings_ToUpper (rt_upper rt) m) pattern = Some PostDataMessageForDeviceOp"
    and "run_state (serve_request rt E C sv r fresh_writer) w = (Done rw, w')" and "rw_Code rw = Some 200"
  shows "\<exists>msg. post_accepted rt r msg \<and> (msg_Directive msg = ''registration'' \<longrightarrow>
    (\<exists>info res. k_json_registration E (msg_Content msg) = Inr info \<and> rt_produce_response rt res = Inr (rw_Body rw) \<and>
      answered_certificate (sv_handler sv) (bindDeviceID ids) info
        (if devs w (''default'', bindDeviceID ids) \<noteq> None then RegistrationContent \<lparr>rr_Certificate = []\<rparr> else mrs_Content empty_response)
        (mrs_Content res) \<and>
      (if devs w (''default'', bindDeviceID ids) \<noteq> None then devs w' = devs w
       else registered (carries_labels (MapLabels (k_unicode E) (ri_Hardware info))) (devs w)
         (''default'', bindDeviceID ids) (devs w'))))"
proof -
  let ?i = "bindDeviceID ids"
  obtain x api where api: "HandlerAPI None () () id id = Inr (x :: unit served, api)" "sv_api sv = Some api"
    using serve_api [OF assms(1)] by blast
  have ns: "h_initialNamespace (sv_handler sv) = ''default''"
    using serve_Running(1) [OF assms(1)] by (auto simp: NewYggdrasilHandler_def initialDeviceNamespace_def)
  have "run_state (PostDataMessageForDevice_ServeHTTP rt E (sv_handler sv) ids r fresh_writer) w = (Done rw, w')"
    using assms(7,8) serve_request_routed [OF api assms(3-6), of E C fresh_writer]
    by (auto simp: WriteHeader_def fresh_writer_def split: option.splits if_splits)
  from PostData_status_200 [OF this assms(8)] obtain msg resp where msg: "post_accepted rt r msg"
    and run: "run_state (PostDataMessageForDevice E (sv_handler sv) \<lparr>pp_DeviceID = ?i, pp_Message = Some msg\<rparr>) w =
      (Done (PostDataMessageForDeviceOK resp), w')"
    and body: "\<And>res. resp = Some res \<Longrightarrow> rt_produce_response rt res = Inr (rw_Body rw)" by blast
  have "\<exists>info res. k_json_registration E (msg_Content msg) = Inr info \<and> rt_produce_response rt res = Inr (rw_Body rw) \<and>
      answered_certificate (sv_handler sv) ?i info
        (if devs w (''default'', ?i) \<noteq> None then RegistrationContent \<lparr>rr_Certificate = []\<rparr> else mrs_Content empty_response)
        (mrs_Content res) \<and>
      (if devs w (''default'', ?i) \<noteq> None then devs w' = devs w
       else registered (carries_labels (MapLabels (k_unicode E) (ri_Hardware info))) (devs w) (''default'', ?i) (devs w'))"
    if dir: "msg_Directive msg = ''registration''"
  proof -
    have "run_state (post_registration E (sv_handler sv) ?i msg) w = (Done (PostDataMessageForDeviceOK resp), w')"
      using run dir by (auto simp: PostDataMessageForDevice_def)
    from wp_elim [OF device_server.post_registration_answer [OF assms(2)] this] show ?thesis
      unfolding registration_answer_def ns snd_conv using body by blast
  qed
  with msg show ?thesis by blast
qed

definition registration_runtime :: runtime where
  "registration_runtime = sample_runtime\<lparr>rt_consume := (\<lambda>_. Consumed sample_registration)\<rparr>"

definition registration_request :: Request where
  "registration_request = (sample_request None)\<lparr>rq_Body := Some ''{}''\<rparr>"

lemma registration_routed:
  "router_law registration_runtime" "escaped_path registration_request"
  "rt_match registration_runtime (rq_Method registration_request) (rq_EscapedPath registration_request) =
     Some (''POST'', ''/data/{device_id}/out'', [''d1''])"
  "route (strings_ToUpper (rt_upper registration_runtime) ''POST'') ''/data/{device_id}/out'' = Some PostDataMessageForDeviceOp"
  using sample_router sample_escaped [of None] sample_routed(1) [of None] sample_routed(2)
  by (simp_all add: router_law_def escaped_path_def registration_runtime_def registration_request_def)

lemma registration_accepted: "post_accepted registration_runtime registration_request m \<longleftrightarrow> m = sample_registration"
  by (auto simp: post_accepted_def registration_runtime_def registration_request_def sample_runtime_def well_formed_message_def
      sample_registration_def empty_message_def)

theorem registration_acknowledged_witness:
  "\<exists>sv w1 rw w' s. run_state (serve mem_env toy_crypto sample_config ''ns'' True None) empty_mem = (Running sv, w1) \<and>
     run_state (serve_request registration_runtime mem_env toy_crypto sv registration_request fresh_writer) w1 = (Done rw, w') \<and>
     rw_Code rw = Some 200 \<and> mem_devs w1 (''default'', ''d1'') = None \<and> mem_devs w' (''default'', ''d1'') = Some s \<and>
     finalizers_of s = [YggdrasilConnectionFinalizer, YggdrasilWorkloadFinalizer]"
proof -
  have eval: "case run_state (serve mem_env toy_crypto sample_config ''ns'' True None) empty_mem of
      (Running sv, w1) \<Rightarrow> m_devs w1 = [] \<and>
        (case run_state (serve_request registration_runtime mem_env toy_crypto sv registration_request fresh_writer) w1 of
           (Done rw, w') \<Rightarrow> rw_Code rw = Some 200 | _ \<Rightarrow> False)
    | _ \<Rightarrow> False" by code_simp
  obtain sv w1 where sv: "run_state (serve mem_env toy_crypto sample_config ''ns'' True None) empty_mem = (Running sv, w1)"
    using sample_serve by blast
  obtain x w' where x: "run_state (serve_request registration_runtime mem_env toy_crypto sv registration_request fresh_writer) w1 = (x, w')"
    by (metis surj_pair)
  with eval sv obtain rw where rw: "x = Done rw" by (cases x) auto
  with eval sv x have w1: "m_devs w1 = []"
    and run: "run_state (serve_request registration_runtime mem_env toy_crypto sv registration_request fresh_writer) w1 = (Done rw, w')"
      "rw_Code rw = Some 200" by simp_all
  have server: "device_server mem_env mem_devs (sv_handler sv)"
    using serve_Running(1) [OF sv] memserver.device_server_axioms
    by (auto simp: device_server_def device_server_axioms_def toy_handler_def NewYggdrasilHandler_def)
  have dir: "msg_Directive sample_registration = ''registration''" by (simp add: sample_registration_def)
  have id: "bindDeviceID [''d1''] = ''d1''" by (simp add: bindDeviceID_def)
  have none: "mem_devs w1 (''default'', ''d1'') = None" using w1 by (simp add: mem_devs_def mem_find_def)
  then obtain s where "mem_devs w' (''default'', ''d1'') = Some s"
      "finalizers_of s = [YggdrasilConnectionFinalizer, YggdrasilWorkloadFinalizer]"
    using registration_acknowledged [OF sv server registration_routed run] dir
    by (auto simp: registered_def registration_accepted id)
  with none sv run show ?thesis by blast
qed

end
